(* ===== verification/Prelude.thy ===== *)
theory Prelude
  imports Main "HOL-Library.AList" "HOL-Library.List_Lexorder" "HOL-Library.Char_ord"
begin

text \<open>
  Shared vocabulary of the development: Python exceptions as values of a sum type, messages
  (f-strings) as lists of parts, decimal rendering of integers, dictionaries as association
  lists in insertion order, order-preserving removal of duplicates, and the two interfaces
  several components share: a keyed store and a state machine with an invariant.
\<close>

section \<open>Collections of facts\<close>

named_theorems dict_simps \<open>lookup and key equations of Python dictionaries\<close>
named_theorems res_simps \<open>equations of the error monad\<close>

section \<open>Exceptions as values\<close>

text \<open>The interpreter's standard conversions used in f-strings are kept symbolic: \<open>Txt\<close> is
  literal text, \<open>Shown v\<close> is \<open>str(v)\<close>, \<open>Quoted v\<close> is \<open>repr(v)\<close>.\<close>

datatype 'v msg_part = Txt string | Shown 'v | Quoted 'v

datatype exn =
    KeyError | ValueError | RegistryError | PermissionError | TypeError
  | StopIteration | AssertionError | AttributeError | IndexError | FileNotFoundError | OverflowError
  | NotImplementedError | OSError | TimeoutExpired
  | ScenarioCompileError | TemplateResolutionError | ValidationError

type_synonym error = "exn \<times> string"

type_synonym 'a res = "error + 'a"

definition raise :: "exn \<Rightarrow> string \<Rightarrow> 'a res" where
  "raise e m = Inl (e, m)"

definition res_bind :: "'a res \<Rightarrow> ('a \<Rightarrow> 'b res) \<Rightarrow> 'b res" where
  "res_bind m f = (case m of Inl e \<Rightarrow> Inl e | Inr x \<Rightarrow> f x)"

fun res_map :: "('a \<Rightarrow> 'b res) \<Rightarrow> 'a list \<Rightarrow> 'b list res" where
  "res_map f [] = Inr []"
| "res_map f (x # xs) =
     (case f x of Inl e \<Rightarrow> Inl e
      | Inr y \<Rightarrow> (case res_map f xs of Inl e \<Rightarrow> Inl e | Inr ys \<Rightarrow> Inr (y # ys)))"

lemma res_bind_simps [res_simps, simp]:
  "res_bind (Inl e) f = Inl e"
  "res_bind (Inr x) f = f x"
  by (simp_all add: res_bind_def)

lemma res_bind_eq_Inr_iff: "res_bind m f = Inr y \<longleftrightarrow> (\<exists>x. m = Inr x \<and> f x = Inr y)"
  by (cases m) auto

lemma raise_not_Inr [simp]: "raise e m \<noteq> Inr x" "Inr x \<noteq> raise e m"
  by (simp_all add: raise_def)

lemma raise_eq_Inl [simp]: "raise e m = Inl z \<longleftrightarrow> z = (e, m)"
  by (auto simp: raise_def)

lemma res_map_InrD: "res_map f xs = Inr ys \<Longrightarrow> list_all2 (\<lambda>x y. f x = Inr y) xs ys"
  by (induction xs arbitrary: ys) (auto split: sum.splits)

lemma res_map_all_Inr: "(\<And>x. x \<in> set xs \<Longrightarrow> f x = Inr (g x)) \<Longrightarrow> res_map f xs = Inr (map g xs)"
  by (induction xs) auto

section \<open>Decimal rendering\<close>

definition digit_char :: "nat \<Rightarrow> char" where
  "digit_char d = char_of (48 + d)"

fun nat_str :: "nat \<Rightarrow> string" where
  "nat_str n = (if n < 10 then [digit_char n] else nat_str (n div 10) @ [digit_char (n mod 10)])"

declare nat_str.simps [simp del]

definition int_str :: "int \<Rightarrow> string" where
  "int_str i = (if i < 0 then ''-'' @ nat_str (nat (- i)) else nat_str (nat i))"

definition char_digit :: "char \<Rightarrow> nat option" where
  "char_digit c = (let n = of_char c :: nat in if 48 \<le> n \<and> n < 58 then Some (n - 48) else None)"

lemma of_char_digit_char: "d < 10 \<Longrightarrow> (of_char (digit_char d) :: nat) = 48 + d"
  by (simp add: digit_char_def)

lemma char_digit_digit_char [simp]: "d < 10 \<Longrightarrow> char_digit (digit_char d) = Some d"
  by (simp add: char_digit_def of_char_digit_char Let_def)

lemma digit_char_inj: "a < 10 \<Longrightarrow> b < 10 \<Longrightarrow> digit_char a = digit_char b \<longleftrightarrow> a = b"
  by (metis char_digit_digit_char option.inject)

lemma nat_str_nonempty [simp]: "nat_str n \<noteq> []"
  by (subst nat_str.simps) simp

lemma nat_str_inject: "nat_str m = nat_str n \<Longrightarrow> m = n"
proof (induction m arbitrary: n rule: nat_str.induct)
  case (1 m)
  show ?case
  proof (cases "m < 10")
    case True
    then show ?thesis
      using 1(2) nat_str_nonempty [symmetric]
      by (subst (asm) (1 2) nat_str.simps) (auto split: if_splits simp: digit_char_inj)
  next
    case m: False
    show ?thesis
    proof (cases "n < 10")
      case True
      then show ?thesis
        using m 1(2) nat_str_nonempty [symmetric]
        by (subst (asm) (1 2) nat_str.simps) (auto split: if_splits)
    next
      case False
      from m False 1(2) have "nat_str (m div 10) = nat_str (n div 10)"
        and "digit_char (m mod 10) = digit_char (n mod 10)"
        by (auto simp: nat_str.simps [of m] nat_str.simps [of n])
      then have "m div 10 = n div 10" and "m mod 10 = n mod 10"
        using 1(1) [OF m] by (auto simp: digit_char_inj)
      then show ?thesis by (metis div_mult_mod_eq)
    qed
  qed
qed

text \<open>\<open>", ".join(xs)\<close>, and the \<open>repr\<close> of a string and of a list of strings, for strings without
  quotes, backslashes and control characters.\<close>

fun join :: "string \<Rightarrow> string list \<Rightarrow> string" where
  "join sep [] = []"
| "join sep [x] = x"
| "join sep (x # y # xs) = x @ sep @ join sep (y # xs)"

definition repr_str :: "string \<Rightarrow> string" where
  "repr_str s = [char_of (39::nat)] @ s @ [char_of (39::nat)]"

definition repr_strs :: "string list \<Rightarrow> string" where
  "repr_strs xs = ''['' @ join '', '' (map repr_str xs) @ '']''"

text \<open>\<open>sorted(s)\<close> for a set of strings.\<close>

definition sorted_set :: "string set \<Rightarrow> string list" where
  "sorted_set A = sorted_list_of_set A"

section \<open>Dictionaries\<close>

text \<open>
  A Python \<open>dict\<close> is an association list in insertion order: storing under a present key keeps
  its position, a new key goes to the end (\<open>AList.update\<close>), and \<open>pop\<close> removes the entry.
\<close>

type_synonym ('k, 'v) dict = "('k \<times> 'v) list"

abbreviation dget :: "('k, 'v) dict \<Rightarrow> 'k \<Rightarrow> 'v option" where
  "dget d k \<equiv> map_of d k"

abbreviation dset :: "'k \<Rightarrow> 'v \<Rightarrow> ('k, 'v) dict \<Rightarrow> ('k, 'v) dict" where
  "dset k v d \<equiv> AList.update k v d"

abbreviation dpop :: "'k \<Rightarrow> ('k, 'v) dict \<Rightarrow> ('k, 'v) dict" where
  "dpop k d \<equiv> AList.delete k d"

definition wf_dict :: "('k, 'v) dict \<Rightarrow> bool" where
  "wf_dict d \<longleftrightarrow> distinct (map fst d)"

definition dget_default :: "('k, 'v) dict \<Rightarrow> 'k \<Rightarrow> 'v \<Rightarrow> 'v" where
  "dget_default d k v = (case dget d k of None \<Rightarrow> v | Some w \<Rightarrow> w)"

text \<open>\<open>{key(x): val(x) for x in xs}\<close>: a later entry replaces an earlier one in place.\<close>

definition dict_of :: "('k \<times> 'v) list \<Rightarrow> ('k, 'v) dict" where
  "dict_of kvs = foldl (\<lambda>d (k, v). dset k v d) [] kvs"

text \<open>\<open>{**a, **b}\<close> and \<open>a.update(b)\<close>.\<close>

definition dmerge :: "('k, 'v) dict \<Rightarrow> ('k, 'v) dict \<Rightarrow> ('k, 'v) dict" where
  "dmerge a b = foldl (\<lambda>d (k, v). dset k v d) a b"

lemma dget_dset [dict_simps]: "dget (dset k v d) k' = (if k' = k then Some v else dget d k')"
  by (simp add: update_conv)

lemma dget_dset_same [simp]: "dget (dset k v d) k = Some v"
  by (simp add: dict_simps)

lemma dget_dset_other [simp]: "k' \<noteq> k \<Longrightarrow> dget (dset k v d) k' = dget d k'"
  by (simp add: dict_simps)

lemma dget_dpop [dict_simps]: "dget (dpop k d) k' = (if k' = k then None else dget d k')"
  by (simp add: delete_conv)

lemma keys_dset [dict_simps]: "fst ` set (dset k v d) = insert k (fst ` set d)"
  by (induction d) auto

lemma wf_dict_empty [simp]: "wf_dict []"
  by (simp add: wf_dict_def)

lemma wf_dict_dset [simp]: "wf_dict d \<Longrightarrow> wf_dict (dset k v d)"
  by (simp add: wf_dict_def distinct_update)

lemma wf_dict_dpop [simp]: "wf_dict d \<Longrightarrow> wf_dict (dpop k d)"
  by (simp add: wf_dict_def distinct_delete)

lemma dget_in_keys: "k \<in> fst ` set d \<longleftrightarrow> dget d k \<noteq> None"
  by (simp add: map_of_eq_None_iff)

lemma dset_new: "dget d k = None \<Longrightarrow> dset k v d = d @ [(k, v)]"
  by (induction d) (auto split: if_splits)

lemma dget_absent: "k \<notin> fst ` set d \<Longrightarrow> dget d k = None"
  by (simp add: map_of_eq_None_iff)

lemma wf_dict_dget: "wf_dict d \<Longrightarrow> (k, v) \<in> set d \<longleftrightarrow> dget d k = Some v"
  by (auto simp: wf_dict_def map_of_is_SomeI dest: map_of_SomeD)

lemma set_dset_subset: "set (dset k v d) \<subseteq> insert (k, v) (set d)"
  by (induction d) auto

lemma dget_dmerge: "dget (dmerge a b) k = (case dget (rev b) k of None \<Rightarrow> dget a k | Some v \<Rightarrow> Some v)"
proof (induction b arbitrary: a)
  case Nil
  then show ?case by (simp add: dmerge_def)
next
  case (Cons p b)
  have "dmerge a (p # b) = dmerge (dset (fst p) (snd p) a) b"
    by (simp add: dmerge_def case_prod_beta)
  with Cons show ?case
    by (auto simp: dict_simps map_add_def split: option.splits)
qed

lemma wf_dict_dmerge [simp]: "wf_dict a \<Longrightarrow> wf_dict (dmerge a b)"
  unfolding dmerge_def by (induction b arbitrary: a) auto

lemma dict_of_dmerge: "dict_of kvs = dmerge [] kvs"
  by (simp add: dict_of_def dmerge_def)

lemma wf_dict_of [simp]: "wf_dict (dict_of kvs)"
  by (simp add: dict_of_dmerge)

lemma dget_dict_of: "dget (dict_of kvs) k = dget (rev kvs) k"
  by (simp add: dict_of_dmerge dget_dmerge split: option.split)

lemma dget_rev_distinct: "distinct (map fst kvs) \<Longrightarrow> dget (rev kvs) k = dget kvs k"
  by (rule fun_cong, subst map_of_inject_set) (auto simp: rev_map [symmetric])

lemma set_map_filter: "set (List.map_filter f xs) = {y. \<exists>x \<in> set xs. f x = Some y}"
  by (force simp: List.map_filter_def)

section \<open>Order-preserving removal of duplicates\<close>

text \<open>\<open>tuple(dict.fromkeys(xs))\<close> keeps the first occurrence of each element.\<close>

fun dedup :: "'a list \<Rightarrow> 'a list" where
  "dedup [] = []"
| "dedup (x # xs) = x # filter (\<lambda>y. y \<noteq> x) (dedup xs)"

lemma set_dedup [simp]: "set (dedup xs) = set xs"
  by (induction xs) auto

lemma distinct_dedup [simp]: "distinct (dedup xs)"
  by (induction xs) auto

section \<open>Interfaces\<close>

text \<open>
  A keyed store: what its clients rely on is that a lookup after a \<open>put\<close> returns the value put
  last under that key and leaves every other key alone.
\<close>

locale kv_store =
  fixes lookup :: "'s \<Rightarrow> 'k \<Rightarrow> 'v option"
    and put :: "'k \<Rightarrow> 'v \<Rightarrow> 's \<Rightarrow> 's"
    and invar :: "'s \<Rightarrow> bool"
  assumes lookup_put: "invar s \<Longrightarrow> lookup (put k v s) k' = (if k' = k then Some v else lookup s k')"
    and invar_put: "invar s \<Longrightarrow> invar (put k v s)"
begin

lemma put_same: "invar s \<Longrightarrow> lookup (put k v s) k = Some v"
  by (simp add: lookup_put)

lemma put_frame: "invar s \<Longrightarrow> k' \<noteq> k \<Longrightarrow> lookup (put k v s) k' = lookup s k'"
  by (simp add: lookup_put)

lemma invar_puts: "invar s \<Longrightarrow> invar (foldl (\<lambda>s (k, v). put k v s) s kvs)"
  by (induction kvs arbitrary: s) (auto simp: invar_put)

lemma lookup_puts:
  "invar s \<Longrightarrow> lookup (foldl (\<lambda>s (k, v). put k v s) s kvs) k =
     (case map_of (rev kvs) k of None \<Rightarrow> lookup s k | Some v \<Rightarrow> Some v)"
proof (induction kvs arbitrary: s)
  case Nil
  then show ?case by simp
next
  case (Cons p kvs)
  then show ?case
    by (cases p) (auto simp: invar_put lookup_put map_add_def split: option.splits)
qed

end

interpretation dict: kv_store "map_of :: ('k \<times> 'v) list \<Rightarrow> 'k \<Rightarrow> 'v option" AList.update wf_dict
  by unfold_locales (auto simp: dict_simps)

text \<open>
  A state machine with an inductive invariant: every state reached from an initial one by any
  number of steps satisfies it.
\<close>

locale invariant_machine =
  fixes init :: "'s \<Rightarrow> bool"
    and step :: "'s \<Rightarrow> 's \<Rightarrow> bool"
    and inv :: "'s \<Rightarrow> bool"
  assumes init_inv: "init s \<Longrightarrow> inv s"
    and step_inv: "inv s \<Longrightarrow> step s t \<Longrightarrow> inv t"
begin

lemma steps_inv: "inv s \<Longrightarrow> step\<^sup>*\<^sup>* s t \<Longrightarrow> inv t"
  by (rotate_tac 1, induction rule: rtranclp_induct) (auto intro: step_inv)

lemma reach_inv: "init s \<Longrightarrow> step\<^sup>*\<^sup>* s t \<Longrightarrow> inv t"
  using steps_inv init_inv by blast

end

end
