(* ===== verification/PyValue.thy ===== *)
theory PyValue
  imports Prelude Complex_Main
begin

text \<open>
  Untyped values (\<open>Any\<close>, \<open>dict[str, Any]\<close>) as JSON trees, with Python's equality and truth value,
  and the dotted-path helpers of \<open>kubeops_core/util.py\<close>: \<open>get_path\<close>, \<open>set_path\<close>, \<open>delete_path\<close> and
  \<open>deep_merge\<close>. Trees are immutable values, so \<open>deepcopy\<close> is the identity. A float is its exact
  rational value (the finite floats). The lemmas are the laws of nested records: what is read
  after a write, a deletion or a merge, at the path written and at every independent path.
\<close>

section \<open>Values\<close>

datatype json =
    JNull
  | JBool bool
  | JInt int
  | JFloat rat
  | JStr string
  | JList "json list"
  | JObj "(string \<times> json) list"
  | JSet "string set"

type_synonym fields = "(string, json) dict"

type_synonym msg = "json msg_part list"

text \<open>Numbers compare by value across \<open>bool\<close>, \<open>int\<close> and \<open>float\<close>.\<close>

fun num_of :: "json \<Rightarrow> rat option" where
  "num_of (JBool b) = Some (if b then 1 else 0)"
| "num_of (JInt i) = Some (of_int i)"
| "num_of (JFloat r) = Some r"
| "num_of _ = None"

fun py_eq :: "json \<Rightarrow> json \<Rightarrow> bool"
  and py_eq_list :: "json list \<Rightarrow> json list \<Rightarrow> bool"
  and py_eq_fields :: "fields \<Rightarrow> fields \<Rightarrow> bool" where
  "py_eq JNull b = (b = JNull)"
| "py_eq (JStr s) b = (b = JStr s)"
| "py_eq (JBool x) b = (num_of b = num_of (JBool x))"
| "py_eq (JInt i) b = (num_of b = num_of (JInt i))"
| "py_eq (JFloat r) b = (num_of b = num_of (JFloat r))"
| "py_eq (JSet A) b = (b = JSet A)"
| "py_eq (JList xs) b = (case b of JList ys \<Rightarrow> py_eq_list xs ys | _ \<Rightarrow> False)"
| "py_eq (JObj xs) b =
     (case b of JObj ys \<Rightarrow> length xs = length ys \<and> py_eq_fields xs ys | _ \<Rightarrow> False)"
| "py_eq_list [] ys = (ys = [])"
| "py_eq_list (x # xs) ys = (case ys of [] \<Rightarrow> False | y # ys' \<Rightarrow> py_eq x y \<and> py_eq_list xs ys')"
| "py_eq_fields [] ys = True"
| "py_eq_fields (kv # xs) ys =
     (case kv of (k, v) \<Rightarrow>
        (case dget ys k of None \<Rightarrow> False | Some w \<Rightarrow> py_eq v w) \<and> py_eq_fields xs ys)"

fun truthy :: "json \<Rightarrow> bool" where
  "truthy JNull = False"
| "truthy (JBool b) = b"
| "truthy (JInt i) = (i \<noteq> 0)"
| "truthy (JFloat r) = (r \<noteq> 0)"
| "truthy (JStr s) = (s \<noteq> [])"
| "truthy (JList xs) = (xs \<noteq> [])"
| "truthy (JObj kvs) = (kvs \<noteq> [])"
| "truthy (JSet A) = (A \<noteq> {})"

text \<open>\<open>repr\<close> and \<open>str\<close> of a value; the rendering of floats is an argument.\<close>

fun py_repr :: "(rat \<Rightarrow> string) \<Rightarrow> json \<Rightarrow> string" where
  "py_repr fl JNull = ''None''"
| "py_repr fl (JBool b) = (if b then ''True'' else ''False'')"
| "py_repr fl (JInt i) = int_str i"
| "py_repr fl (JFloat r) = fl r"
| "py_repr fl (JStr s) = repr_str s"
| "py_repr fl (JList xs) = ''['' @ join '', '' (map (py_repr fl) xs) @ '']''"
| "py_repr fl (JObj kvs) =
     ''{'' @ join '', '' (map (\<lambda>kv. repr_str (fst kv) @ '': '' @ py_repr fl (snd kv)) kvs) @ ''}''"
| "py_repr fl (JSet A) =
     (if A = {} then ''set()'' else ''{'' @ join '', '' (map repr_str (sorted_set A)) @ ''}'')"

definition str_of :: "(rat \<Rightarrow> string) \<Rightarrow> json \<Rightarrow> string" where
  "str_of fl v = (case v of JStr s \<Rightarrow> s | _ \<Rightarrow> py_repr fl v)"

text \<open>Every object has distinct keys, at every depth.\<close>

fun wf_json :: "json \<Rightarrow> bool" where
  "wf_json (JList xs) = (\<forall>x \<in> set xs. wf_json x)"
| "wf_json (JObj kvs) = (wf_dict kvs \<and> (\<forall>kv \<in> set kvs. wf_json (snd kv)))"
| "wf_json _ = True"

section \<open>Dotted paths\<close>

text \<open>\<open>path.split(".")\<close>: never empty.\<close>

fun split_on :: "char \<Rightarrow> string \<Rightarrow> string list" where
  "split_on c [] = [[]]"
| "split_on c (x # s) =
     (if x = c then [] # split_on c s
      else (case split_on c s of [] \<Rightarrow> [[x]] | p # ps \<Rightarrow> (x # p) # ps))"

abbreviation split_dot :: "string \<Rightarrow> string list" where
  "split_dot \<equiv> split_on CHR ''.''"

fun get_parts :: "json \<Rightarrow> string list \<Rightarrow> json option" where
  "get_parts v [] = Some v"
| "get_parts v (p # ps) =
     (case v of JObj kvs \<Rightarrow> (case dget kvs p of None \<Rightarrow> None | Some w \<Rightarrow> get_parts w ps) | _ \<Rightarrow> None)"

text \<open>\<open>get_path(data, path, default)\<close>: \<open>None\<close> where the code returns the default or, without one,
  raises \<open>KeyError\<close>.\<close>

definition get_path :: "json \<Rightarrow> string \<Rightarrow> json option" where
  "get_path data path = (if path = [] then Some data else get_parts data (split_dot path))"

fun set_parts :: "fields \<Rightarrow> string list \<Rightarrow> json \<Rightarrow> fields" where
  "set_parts d [] v = d"
| "set_parts d [p] v = dset p v d"
| "set_parts d (p # q # ps) v =
     dset p (JObj (set_parts (case dget d p of Some (JObj c) \<Rightarrow> c | _ \<Rightarrow> []) (q # ps) v)) d"

definition set_path :: "fields \<Rightarrow> string \<Rightarrow> json \<Rightarrow> fields" where
  "set_path data path v = set_parts data (split_dot path) v"

fun delete_parts :: "fields \<Rightarrow> string list \<Rightarrow> fields" where
  "delete_parts d [] = d"
| "delete_parts d [p] = dpop p d"
| "delete_parts d (p # q # ps) =
     (case dget d p of Some (JObj c) \<Rightarrow> dset p (JObj (delete_parts c (q # ps))) d | _ \<Rightarrow> d)"

definition delete_path :: "fields \<Rightarrow> string \<Rightarrow> fields" where
  "delete_path data path = delete_parts data (split_dot path)"

function deep_merge :: "fields \<Rightarrow> fields \<Rightarrow> fields" where
  "deep_merge base [] = base"
| "deep_merge base ((k, v) # rest) =
     deep_merge
       (dset k (case v of
                  JObj ov \<Rightarrow> (case dget base k of Some (JObj b) \<Rightarrow> JObj (deep_merge b ov) | _ \<Rightarrow> v)
                | _ \<Rightarrow> v) base)
       rest"
  by pat_completeness auto
termination
  by (relation "measure (\<lambda>(base, ov). size (JObj ov))") auto

section \<open>Laws\<close>

lemma split_on_nonempty [simp]: "split_on c s \<noteq> []"
  by (induction s) (auto split: list.splits)

lemma get_set_parts: "ps \<noteq> [] \<Longrightarrow> get_parts (JObj (set_parts d ps v)) ps = Some v"
  by (induction d ps v rule: set_parts.induct) auto

text \<open>Two paths are independent when neither is a prefix of the other.\<close>

fun independent :: "string list \<Rightarrow> string list \<Rightarrow> bool" where
  "independent (p # ps) (q # qs) = (p \<noteq> q \<or> independent ps qs)"
| "independent _ _ = False"

lemma get_parts_empty: "qs \<noteq> [] \<Longrightarrow> get_parts (JObj []) qs = None"
  by (cases qs) auto

lemma independent_nonempty: "independent ps qs \<Longrightarrow> ps \<noteq> [] \<and> qs \<noteq> []"
  by (cases ps; cases qs) auto

lemma get_set_parts_other:
  "independent ps qs \<Longrightarrow> get_parts (JObj (set_parts d ps v)) qs = get_parts (JObj d) qs"
proof (induction d ps v arbitrary: qs rule: set_parts.induct)
  case (1 d v)
  then show ?case by simp
next
  case (2 d p v)
  then show ?case by (cases qs) (auto dest: independent_nonempty)
next
  case (3 d p q ps v)
  from 3(2) obtain r rs where qs: "qs = r # rs" by (cases qs) auto
  show ?case
  proof (cases "r = p")
    case False
    then show ?thesis by (simp add: qs)
  next
    case True
    then have ind: "independent (q # ps) rs" using 3(2) qs by simp
    then have "rs \<noteq> []" by (auto dest: independent_nonempty)
    then show ?thesis
      using True qs 3(1) [OF ind] by (auto simp: neq_Nil_conv split: option.splits json.splits)
  qed
qed

lemma get_delete_parts: "ps \<noteq> [] \<Longrightarrow> get_parts (JObj (delete_parts d ps)) ps = None"
proof (induction d ps rule: delete_parts.induct)
  case (1 d)
  then show ?case by simp
next
  case (2 d p)
  then show ?case by (simp add: dict_simps)
next
  case (3 d p q ps)
  then show ?case by (auto split: option.splits json.splits)
qed

lemma get_delete_parts_other:
  "independent ps qs \<Longrightarrow> get_parts (JObj (delete_parts d ps)) qs = get_parts (JObj d) qs"
proof (induction d ps arbitrary: qs rule: delete_parts.induct)
  case (1 d)
  then show ?case by simp
next
  case (2 d p)
  then show ?case by (cases qs) (auto simp: dict_simps dest: independent_nonempty)
next
  case (3 d p q ps)
  from 3(2) obtain r rs where qs: "qs = r # rs" by (cases qs) auto
  show ?case
  proof (cases "r = p")
    case False
    then show ?thesis by (auto simp: qs split: option.splits json.splits)
  next
    case True
    then have ind: "independent (q # ps) rs" using 3(2) qs by simp
    with True qs 3(1) show ?thesis by (auto split: option.splits json.splits)
  qed
qed

lemma wf_set_parts [simp]: "wf_dict d \<Longrightarrow> wf_dict (set_parts d ps v)"
  by (induction d ps v rule: set_parts.induct) auto

lemma wf_delete_parts [simp]: "wf_dict d \<Longrightarrow> wf_dict (delete_parts d ps)"
  by (induction d ps rule: delete_parts.induct) (auto split: option.splits json.splits)

text \<open>The laws on dotted strings.\<close>

lemma get_set_path: "path \<noteq> [] \<Longrightarrow> get_path (JObj (set_path d path v)) path = Some v"
  by (simp add: get_path_def set_path_def get_set_parts)

lemma get_set_path_other:
  "q \<noteq> [] \<Longrightarrow> independent (split_dot p) (split_dot q) \<Longrightarrow>
     get_path (JObj (set_path d p v)) q = get_path (JObj d) q"
  by (simp add: get_path_def set_path_def get_set_parts_other)

lemma get_delete_path: "path \<noteq> [] \<Longrightarrow> get_path (JObj (delete_path d path)) path = None"
  by (simp add: get_path_def delete_path_def get_delete_parts)

lemma get_delete_path_other:
  "q \<noteq> [] \<Longrightarrow> independent (split_dot p) (split_dot q) \<Longrightarrow>
     get_path (JObj (delete_path d p)) q = get_path (JObj d) q"
  by (simp add: get_path_def delete_path_def get_delete_parts_other)

text \<open>One level of a merge: what a key holds afterwards, given what each side holds there.\<close>

definition merge_value :: "json option \<Rightarrow> json option \<Rightarrow> json option" where
  "merge_value b v =
     (case v of
        None \<Rightarrow> b
      | Some (JObj ov) \<Rightarrow> (case b of Some (JObj bs) \<Rightarrow> Some (JObj (deep_merge bs ov)) | _ \<Rightarrow> v)
      | _ \<Rightarrow> v)"

lemma dget_deep_merge:
  "wf_dict ov \<Longrightarrow> dget (deep_merge base ov) k = merge_value (dget base k) (dget ov k)"
proof (induction ov arbitrary: base)
  case Nil
  then show ?case by (simp add: merge_value_def)
next
  case (Cons kv ov)
  obtain j v where kv: "kv = (j, v)" by (cases kv)
  from Cons.prems kv have wf: "wf_dict ov" and j: "dget ov j = None"
    by (auto simp: wf_dict_def map_of_eq_None_iff)
  show ?case
    using Cons.IH [OF wf] j
    by (auto simp: kv merge_value_def dict_simps split: option.splits json.splits)
qed

lemma wf_deep_merge [simp]: "wf_dict base \<Longrightarrow> wf_dict (deep_merge base ov)"
proof (induction ov arbitrary: base)
  case (Cons kv ov)
  then show ?case by (cases kv) auto
qed simp

lemma py_eq_list_refl: "(\<And>x. x \<in> set xs \<Longrightarrow> py_eq x x) \<Longrightarrow> py_eq_list xs xs"
  by (induction xs) auto

lemma py_eq_fields_sub:
  "wf_dict ys \<Longrightarrow> set xs \<subseteq> set ys \<Longrightarrow> (\<And>k v. (k, v) \<in> set xs \<Longrightarrow> py_eq v v) \<Longrightarrow> py_eq_fields xs ys"
proof (induction xs)
  case (Cons kv xs)
  then have "dget ys (fst kv) = Some (snd kv)"
    by (simp add: wf_dict_dget [symmetric])
  with Cons show ?case by (cases kv) (fastforce)
qed simp

lemma py_eq_refl: "wf_json v \<Longrightarrow> py_eq v v"
proof (induction v rule: wf_json.induct)
  case (1 xs)
  then show ?case by (auto intro: py_eq_list_refl)
next
  case (2 kvs)
  then have "py_eq_fields kvs kvs"
    by (intro py_eq_fields_sub) force+
  then show ?case by simp
qed auto

end
