(* ===== verification/IR.thy ===== *)
theory IR
  imports PyValue
begin

text \<open>
  The operational IR: the enumerations of \<open>models/enums.py\<close> and the records of \<open>models/entity.py\<close>,
  \<open>relationship.py\<close>, \<open>topology.py\<close>, \<open>observation.py\<close>, \<open>predicate.py\<close>, \<open>invariant.py\<close>, \<open>action.py\<close>,
  \<open>verification.py\<close>, \<open>run.py\<close> and \<open>objective.py\<close>. A field keeps its name behind a short prefix of
  its class, since record fields are global constants. A \<open>set[str]\<close> is a set, \<open>dict[str, Any]\<close>
  a \<open>fields\<close> dictionary, an optional field an option. Every class also has the constant field
  \<open>schema_version\<close>, left out. What pydantic's \<open>Field(...)\<close> constraints demand of an object is
  the predicate \<open>valid_\<dots>\<close> of its record.
\<close>

section \<open>Enumerations\<close>

datatype operational_plane =
    Plane_External | Plane_Host | Plane_Runtime | Plane_Control_Plane | Plane_Node
  | Plane_Platform | Plane_Workload | Plane_Application | Plane_Operational_Tooling

fun plane_value :: "operational_plane \<Rightarrow> string" where
  "plane_value Plane_External = ''external''"
| "plane_value Plane_Host = ''host''"
| "plane_value Plane_Runtime = ''runtime''"
| "plane_value Plane_Control_Plane = ''control_plane''"
| "plane_value Plane_Node = ''node''"
| "plane_value Plane_Platform = ''platform''"
| "plane_value Plane_Workload = ''workload''"
| "plane_value Plane_Application = ''application''"
| "plane_value Plane_Operational_Tooling = ''operational_tooling''"

datatype health_status =
    HEALTHY | DEGRADED | UNHEALTHY | UNKNOWN | NOT_APPLICABLE | PENDING

fun health_value :: "health_status \<Rightarrow> string" where
  "health_value HEALTHY = ''healthy''"
| "health_value DEGRADED = ''degraded''"
| "health_value UNHEALTHY = ''unhealthy''"
| "health_value UNKNOWN = ''unknown''"
| "health_value NOT_APPLICABLE = ''not_applicable''"
| "health_value PENDING = ''pending''"

datatype invariant_family =
    Fam_Existence | Fam_Identity_Resolution | Fam_Structural | Fam_Configuration
  | Fam_Compatibility | Fam_Reachability | Fam_Authentication | Fam_Authorization
  | Fam_Capacity | Fam_Placement | Fam_Lifecycle_Progress | Fam_Readiness | Fam_Liveness
  | Fam_Ordering | Fam_Idempotency | Fam_Consistency | Fam_Freshness | Fam_Durability
  | Fam_Isolation | Fam_Quorum | Fam_Performance | Fam_Observability | Fam_Recoverability

datatype severity = Sev_Info | Sev_Warning | Sev_Error | Sev_Critical

datatype disturbance_mechanism =
    Mech_Omission | Mech_Commission | Mech_Corruption | Mech_Crash | Mech_Hang | Mech_Delay
  | Mech_Loss | Mech_Duplication | Mech_Reordering | Mech_Partition | Mech_Drift
  | Mech_Expiration | Mech_Exhaustion | Mech_Contention | Mech_Misbinding
  | Mech_Policy_Mismatch | Mech_Version_Skew | Mech_External_Contract

datatype temporal_form =
    Form_Instantaneous | Form_Transient | Form_Persistent | Form_Intermittent | Form_Periodic
  | Form_Progressive | Form_Latent | Form_Delayed_Effect | Form_Cascading | Form_Flapping
  | Form_Recovery_Induced | Form_Concurrent

datatype observation_profile_kind =
    Prof_Full | Prof_Partial | Prof_Delayed | Prof_Stale | Prof_Contradictory

datatype run_status = Run_Created | Run_Running | Run_Completed | Run_Failed

section \<open>Entities and relationships\<close>

record entity =
  ent_id :: string
  ent_type :: string
  ent_type_lineage :: "string set"
  ent_name :: string
  ent_plane :: operational_plane
  ent_namespace :: "string option"
  ent_provider :: "string option"
  ent_labels :: "(string, string) dict"
  ent_desired_state :: fields
  ent_observed_state :: fields
  ent_capabilities :: "string set"
  ent_extensions :: fields

definition valid_entity :: "entity \<Rightarrow> bool" where
  "valid_entity e \<longleftrightarrow> ent_id e \<noteq> [] \<and> ent_type e \<noteq> [] \<and> ent_name e \<noteq> []"

record relationship =
  rel_id :: string
  rel_source :: string
  rel_target :: string
  rel_type :: string
  rel_contract :: fields
  rel_propagation :: fields
  rel_confidence :: rat
  rel_provenance :: string
  rel_extensions :: fields

definition valid_relationship :: "relationship \<Rightarrow> bool" where
  "valid_relationship r \<longleftrightarrow>
     rel_id r \<noteq> [] \<and> rel_source r \<noteq> [] \<and> rel_target r \<noteq> [] \<and> rel_type r \<noteq> [] \<and>
     0 \<le> rel_confidence r \<and> rel_confidence r \<le> 1"

record topology_graph =
  tg_graph_id :: string
  tg_environment_id :: string
  tg_snapshot_id :: string
  tg_generated_at_iso :: string
  tg_entities :: "entity list"
  tg_relationships :: "relationship list"
  tg_layers :: "(string, string list) dict"
  tg_statistics :: fields
  tg_warnings :: "string list"

section \<open>Predicates\<close>

datatype direction = Outgoing | Incoming | Either

datatype predicate =
    FieldEquals string string json
  | FieldNotEquals string string json
  | FieldExists string string bool
  | FieldGte string string rat
  | FieldLte string string rat
  | FieldsEqual string string string string
  | RelatedCountGte string "string set" direction "string option" json int
  | AllOfPredicate "predicate list"
  | AnyOfPredicate "predicate list"
  | NotPredicate predicate

text \<open>\<open>minimum >= 0\<close> and the non-empty alternatives, at every depth.\<close>

fun valid_predicate :: "predicate \<Rightarrow> bool" where
  "valid_predicate (RelatedCountGte s ts d p v n) = (0 \<le> n)"
| "valid_predicate (AllOfPredicate ps) = (ps \<noteq> [] \<and> (\<forall>p \<in> set ps. valid_predicate p))"
| "valid_predicate (AnyOfPredicate ps) = (ps \<noteq> [] \<and> (\<forall>p \<in> set ps. valid_predicate p))"
| "valid_predicate (NotPredicate p) = valid_predicate p"
| "valid_predicate _ = True"

section \<open>Invariants\<close>

datatype temporal_operator = Immediate | Eventually | Stable_For

record temporal_requirement =
  tr_operator :: temporal_operator
  tr_within_seconds :: "int option"
  tr_stable_for_seconds :: "int option"

text \<open>The unconstrained requirement \<open>TemporalRequirement()\<close>.\<close>

definition default_temporal :: temporal_requirement where
  "default_temporal =
     \<lparr>tr_operator = Immediate, tr_within_seconds = None, tr_stable_for_seconds = None\<rparr>"

definition valid_temporal :: "temporal_requirement \<Rightarrow> bool" where
  "valid_temporal t \<longleftrightarrow>
     (case tr_within_seconds t of None \<Rightarrow> True | Some n \<Rightarrow> 0 \<le> n) \<and>
     (case tr_stable_for_seconds t of None \<Rightarrow> True | Some n \<Rightarrow> 0 \<le> n)"

record invariant_definition =
  inv_id :: string
  inv_title :: string
  inv_family :: invariant_family
  inv_subject_id :: string
  inv_predicate :: predicate
  inv_severity :: severity
  inv_temporal :: temporal_requirement
  inv_description :: string
  inv_affected_objectives :: "string list"

record invariant_evaluation =
  ev_invariant_id :: string
  ev_status :: health_status
  ev_evaluated_at :: int
  ev_actual_value :: json
  ev_expected :: json
  ev_explanation :: msg
  ev_evidence_entity_ids :: "string list"

section \<open>Observations\<close>

record observation_profile =
  prof_id :: string
  prof_title :: string
  prof_kind :: observation_profile_kind
  prof_hidden_entity_ids :: "string set"
  prof_hidden_paths :: "(string, string list) dict"
  prof_lag_seconds :: "(string, int) dict"
  prof_contradictory_overrides :: "(string, fields) dict"

record observation =
  obs_id :: string
  obs_entity_id :: string
  obs_observed_at :: int
  obs_observed_at_iso :: "string option"
  obs_state :: fields
  obs_source :: string
  obs_authority :: string
  obs_freshness_seconds :: int
  obs_profile_id :: string

section \<open>Mutations and transition rules\<close>

datatype mutation_type = Set_State | Delete_Entity | Create_Entity

record state_mutation =
  mut_type :: mutation_type
  mut_entity_id :: string
  mut_path :: "string option"
  mut_value :: json
  mut_entity_payload :: "fields option"

record scheduled_mutation =
  sched_mutation_id :: string
  sched_at_seconds :: int
  sched_description :: string
  sched_mutation :: state_mutation

record transition_rule =
  rule_id :: string
  rule_title :: string
  rule_conditions :: "predicate list"
  rule_effects :: "state_mutation list"
  rule_delay_seconds :: int
  rule_fire_once :: bool

section \<open>Verification\<close>

datatype verification_level =
    Action_Completion | Resource_Convergence | Dependency_Restoration | Semantic_Health
  | End_To_End | Stability | Side_Effect_Guard

record verification_condition =
  vc_id :: string
  vc_title :: string
  vc_predicate :: predicate
  vc_temporal :: temporal_requirement
  vc_level :: verification_level
  vc_required :: bool

record verification_result =
  vr_result_id :: string
  vr_condition_id :: string
  vr_status :: health_status
  vr_evaluated_at_seconds :: int
  vr_explanation :: msg
  vr_evidence_ids :: "string list"
  vr_actual_value :: json

datatype certificate_status =
    Recovered | Partially_Recovered | Recovery_Failed | Rollback_Completed | No_Safe_Recovery

fun certificate_value :: "certificate_status \<Rightarrow> string" where
  "certificate_value Recovered = ''recovered''"
| "certificate_value Partially_Recovered = ''partially_recovered''"
| "certificate_value Recovery_Failed = ''recovery_failed''"
| "certificate_value Rollback_Completed = ''rollback_completed''"
| "certificate_value No_Safe_Recovery = ''no_safe_recovery''"

record recovery_certificate =
  cert_id :: string
  cert_incident_id :: "string option"
  cert_operation_id :: "string option"
  cert_plan_id :: string
  cert_status :: certificate_status
  cert_restored_invariant_ids :: "string list"
  cert_unresolved_invariant_ids :: "string list"
  cert_action_receipt_ids :: "string list"
  cert_verification_result_ids :: "string list"
  cert_residual_risks :: "string list"
  cert_metadata :: fields

section \<open>Simulation runs\<close>

type_synonym world = "(string, fields) dict"

record timeline_event =
  te_sequence :: nat
  te_at_seconds :: int
  te_event_type :: string
  te_title :: string
  te_entity_id :: "string option"
  te_rule_id :: "string option"
  te_mutation_id :: "string option"
  te_details :: fields

record world_snapshot =
  ws_sequence :: nat
  ws_at_seconds :: int
  ws_trigger_event_sequence :: "nat option"
  ws_truth_state :: world
  ws_observed_state :: world
  ws_invariant_evaluations :: "invariant_evaluation list"

record simulation_summary =
  sum_simulation_time_seconds :: int
  sum_event_count :: nat
  sum_snapshot_count :: nat
  sum_unhealthy_invariants :: "string list"
  sum_unknown_invariants :: "string list"
  sum_healthy_invariant_count :: nat

record simulation_run =
  sr_run_id :: string
  sr_scenario_id :: string
  sr_family_id :: string
  sr_status :: run_status
  sr_started_at_iso :: string
  sr_completed_at_iso :: "string option"
  sr_seed :: int
  sr_timeline :: "timeline_event list"
  sr_snapshots :: "world_snapshot list"
  sr_observations :: "observation list"
  sr_final_summary :: simulation_summary

section \<open>Objectives and profiles\<close>

datatype objective_type =
    Obj_Establish | Obj_Maintain | Obj_Transition | Obj_Diagnose | Obj_Recover | Obj_Quiesce | Obj_Restore

record operational_objective =
  obj_id :: string
  obj_title :: string
  obj_type :: objective_type
  obj_description :: string
  obj_required_invariant_ids :: "string list"
  obj_protected_invariant_ids :: "string list"
  obj_success_metadata :: fields

record operational_profile =
  oprof_id :: string
  oprof_title :: string
  oprof_environment_class :: string
  oprof_objective_ids :: "string list"
  oprof_required_invariant_ids :: "string list"
  oprof_optional_invariant_ids :: "string list"
  oprof_metadata :: fields

section \<open>What an evaluator sees of a world\<close>

definition observe :: "world \<Rightarrow> string \<Rightarrow> string \<Rightarrow> json option" where
  "observe w i path = (case dget w i of None \<Rightarrow> None | Some e \<Rightarrow> get_path (JObj e) path)"

end
