(* ===== verification/Registry.thy ===== *)
theory Registry
  imports Prelude
begin

text \<open>
  \<open>kubeops_core/registry/base.py\<close>: the keyed registry with explicit duplicate rejection that the
  action catalog, the policy registry and the scenario registry are built on. Its dictionary is
  an instance of the interface \<open>kv_store\<close>; a registration that is accepted obeys it.
\<close>

record 'v registry =
  reg_name :: string
  reg_items :: "(string, 'v) dict"

definition new_registry :: "string \<Rightarrow> 'v registry" where
  "new_registry n = \<lparr>reg_name = n, reg_items = []\<rparr>"

definition reg_register :: "string \<Rightarrow> 'v \<Rightarrow> bool \<Rightarrow> 'v registry \<Rightarrow> 'v registry res" where
  "reg_register key item replace r =
     (if key \<in> fst ` set (reg_items r) \<and> \<not> replace
      then raise RegistryError (reg_name r @ '' already contains '' @ key)
      else Inr (r\<lparr>reg_items := dset key item (reg_items r)\<rparr>))"

definition reg_get :: "'v registry \<Rightarrow> string \<Rightarrow> 'v res" where
  "reg_get r key =
     (case dget (reg_items r) key of
        None \<Rightarrow> raise RegistryError (reg_name r @ '' does not contain '' @ key)
      | Some v \<Rightarrow> Inr v)"

definition reg_maybe_get :: "'v registry \<Rightarrow> string \<Rightarrow> 'v option" where
  "reg_maybe_get r key = dget (reg_items r) key"

definition reg_keys :: "'v registry \<Rightarrow> string list" where
  "reg_keys r = sort (map fst (reg_items r))"

definition reg_values :: "'v registry \<Rightarrow> 'v list" where
  "reg_values r = List.map_filter (dget (reg_items r)) (reg_keys r)"

definition reg_sorted_items :: "'v registry \<Rightarrow> (string \<times> 'v) list" where
  "reg_sorted_items r =
     List.map_filter (\<lambda>k. map_option (Pair k) (dget (reg_items r) k)) (reg_keys r)"

fun reg_extend :: "(string \<times> 'v) list \<Rightarrow> bool \<Rightarrow> 'v registry \<Rightarrow> 'v registry res" where
  "reg_extend [] replace r = Inr r"
| "reg_extend ((k, v) # kvs) replace r =
     res_bind (reg_register k v replace r) (reg_extend kvs replace)"

definition reg_len :: "'v registry \<Rightarrow> nat" where
  "reg_len r = length (reg_items r)"

definition wf_registry :: "'v registry \<Rightarrow> bool" where
  "wf_registry r \<longleftrightarrow> wf_dict (reg_items r)"

text \<open>Registering with \<open>replace=True\<close> always succeeds; it is the store's \<open>put\<close>.\<close>

definition reg_put :: "string \<Rightarrow> 'v \<Rightarrow> 'v registry \<Rightarrow> 'v registry" where
  "reg_put k v r = r\<lparr>reg_items := dset k v (reg_items r)\<rparr>"

interpretation reg: kv_store reg_maybe_get reg_put wf_registry
  by unfold_locales (auto simp: reg_maybe_get_def reg_put_def wf_registry_def dict_simps)

lemma reg_register_replace: "reg_register k v True r = Inr (reg_put k v r)"
  by (simp add: reg_register_def reg_put_def)

lemma reg_register_ok:
  "reg_register k v replace r = Inr r' \<longleftrightarrow> (replace \<or> reg_maybe_get r k = None) \<and> r' = reg_put k v r"
  by (auto simp: reg_register_def reg_put_def reg_maybe_get_def dget_in_keys)

lemma reg_register_duplicate:
  "reg_maybe_get r k \<noteq> None \<Longrightarrow> \<exists>e. reg_register k v False r = Inl (RegistryError, e)"
  by (auto simp: reg_register_def reg_maybe_get_def dget_in_keys)

lemma reg_get_register:
  "wf_registry r \<Longrightarrow> reg_register k v replace r = Inr r' \<Longrightarrow> reg_get r' k = Inr v"
  by (auto simp: reg_register_ok reg_get_def reg.put_same [unfolded reg_maybe_get_def])

lemma reg_get_register_other:
  "wf_registry r \<Longrightarrow> reg_register k v replace r = Inr r' \<Longrightarrow> k' \<noteq> k \<Longrightarrow> reg_maybe_get r' k' = reg_maybe_get r k'"
  using reg.put_frame by (auto simp: reg_register_ok)

lemma wf_register: "wf_registry r \<Longrightarrow> reg_register k v replace r = Inr r' \<Longrightarrow> wf_registry r'"
  using reg.invar_put by (auto simp: reg_register_ok)

lemma wf_new_registry [simp]: "wf_registry (new_registry n)"
  by (simp add: wf_registry_def new_registry_def)

lemma wf_reg_extend: "wf_registry r \<Longrightarrow> reg_extend kvs replace r = Inr r' \<Longrightarrow> wf_registry r'"
proof (induction kvs arbitrary: r)
  case (Cons p kvs)
  then show ?case by (cases p) (auto simp: res_bind_eq_Inr_iff dest: wf_register)
qed simp

text \<open>A sequence of registrations without \<open>replace\<close> keeps every item it accepted: nothing is
  silently overwritten.\<close>

lemma reg_extend_keeps:
  "wf_registry r \<Longrightarrow> reg_extend kvs False r = Inr r' \<Longrightarrow>
     (reg_maybe_get r k = Some v \<longrightarrow> reg_maybe_get r' k = Some v) \<and>
     ((k, v) \<in> set kvs \<longrightarrow> reg_maybe_get r' k = Some v)"
proof (induction kvs arbitrary: r)
  case Nil
  then show ?case by simp
next
  case (Cons p kvs)
  obtain j w where p: "p = (j, w)" by (cases p)
  with Cons.prems obtain r1 where r1: "reg_register j w False r = Inr r1"
    and rest: "reg_extend kvs False r1 = Inr r'"
    by (auto simp: res_bind_eq_Inr_iff)
  then have "r1 = reg_put j w r" and new: "reg_maybe_get r j = None"
    by (auto simp: reg_register_ok)
  moreover have "wf_registry r1" using Cons.prems(1) r1 by (rule wf_register)
  ultimately show ?case
    using Cons.IH [OF _ rest] Cons.prems(1) reg.lookup_put [of r j w] p by (auto split: if_splits)
qed

lemma sorted_reg_keys: "sorted (reg_keys r)"
  by (simp add: reg_keys_def)

lemma in_reg_values: "v \<in> set (reg_values r) \<longleftrightarrow> (\<exists>k. reg_maybe_get r k = Some v)"
  by (auto simp: reg_values_def reg_keys_def reg_maybe_get_def set_map_filter)
    (metis fst_conv map_of_SomeD)

lemma length_reg_values: "length (reg_values r) = reg_len r"
proof -
  have "List.map_filter (dget (reg_items r)) ks = map (\<lambda>k. the (dget (reg_items r) k)) ks"
    if "set ks \<subseteq> fst ` set (reg_items r)" for ks
    using that by (induction ks) (auto simp: List.map_filter_def dget_in_keys)
  from this [of "reg_keys r"] show ?thesis
    by (simp add: reg_values_def reg_len_def reg_keys_def)
qed

end
