(* ===== verification/Dependency_Graph.thy ===== *)
theory Dependency_Graph
  imports Prelude
begin

text \<open>
  The acyclicity check that \<open>RecoveryPlan\<close> (\<open>models/planning.py\<close>) and \<open>LifecycleProfile\<close>
  (\<open>models/lifecycle.py\<close>) run on their dependency graphs: a worklist that repeatedly removes a
  node without remaining dependencies. It is shown to accept exactly the acyclic graphs, which
  is the interface \<open>acyclicity_check\<close>; a client gets from it that work can always proceed.
\<close>

type_synonym deps = "(string \<times> string set) list"

text \<open>For termination: each round shortens the list or visits a further node of the list and the graph.\<close>

lemma peel_keys: "fst ` set (map (\<lambda>(k, s). (k, s - {n})) deps) = fst ` set deps"
  by (force simp: image_image)

lemma psubset_Diff_insert:
  "A' \<subseteq> A \<Longrightarrow> n \<in> A \<Longrightarrow> n \<notin> V \<Longrightarrow> A' - insert n V \<subset> A - V"
  by blast

text \<open>The worklist loop: \<open>ready.pop()\<close> takes the last entry; a visited node is discarded from every
  dependency set, and each node left without dependencies is appended.\<close>

function peel :: "deps \<Rightarrow> string list \<Rightarrow> string set \<Rightarrow> string set" where
  "peel deps ready visited =
     (if ready = [] then visited
      else (let n = last ready; rest = butlast ready in
        (if n \<in> visited then peel deps rest visited
         else
           (let visited' = insert n visited; deps' = map (\<lambda>(k, s). (k, s - {n})) deps in
            peel deps' (rest @ map fst (filter (\<lambda>(k, s). s = {} \<and> k \<notin> visited') deps')) visited'))))"
  by pat_completeness auto

termination
proof (relation "measures [\<lambda>(deps, ready, visited). card (set ready \<union> fst ` set deps - visited),
    \<lambda>(deps, ready, visited). length ready]", goal_cases)
  case 1
  show ?case by simp
next
  case (2 deps ready visited n rest)
  then have "card (set rest \<union> fst ` set deps - visited) \<le> card (set ready \<union> fst ` set deps - visited)"
    by (intro card_mono) (auto dest: in_set_butlastD)
  with 2 show ?case by auto
next
  case (3 deps ready visited n rest visited' deps')
  let ?new = "map fst (filter (\<lambda>(k, s). s = {} \<and> k \<notin> visited') deps')"
  have n: "n \<in> set ready" using 3 by simp
  have keys: "fst ` set deps' = fst ` set deps" using 3 peel_keys by simp
  have "set ?new \<subseteq> fst ` set deps'" by auto
  moreover have "set rest \<subseteq> set ready" using 3 by (auto dest: in_set_butlastD)
  ultimately have "set (rest @ ?new) \<union> fst ` set deps' \<subseteq> set ready \<union> fst ` set deps"
    unfolding set_append keys by blast
  then have "set (rest @ ?new) \<union> fst ` set deps' - visited' \<subset> set ready \<union> fst ` set deps - visited"
    using psubset_Diff_insert [of _ "set ready \<union> fst ` set deps" n visited] 3 n by blast
  then have "card (set (rest @ ?new) \<union> fst ` set deps' - visited') < card (set ready \<union> fst ` set deps - visited)"
    by (intro psubset_card_mono) auto
  with 3 show ?case by simp
qed

declare peel.simps [simp del]

lemma peel_Nil [simp]: "peel deps [] visited = visited"
  by (subst peel.simps) simp

definition acyclic_check :: "deps \<Rightarrow> bool" where
  "acyclic_check deps =
     (card (peel deps (map fst (filter (\<lambda>(k, s). s = {}) deps)) {}) = length deps)"

text \<open>What the check is about: distinct nodes, and dependencies that are nodes.\<close>

definition wf_deps :: "deps \<Rightarrow> bool" where
  "wf_deps deps \<longleftrightarrow> wf_dict deps \<and> (\<forall>(k, s) \<in> set deps. s \<subseteq> fst ` set deps)"

definition dep_rel :: "deps \<Rightarrow> (string \<times> string) set" where
  "dep_rel deps = {(d, k). \<exists>s. (k, s) \<in> set deps \<and> d \<in> s}"

section \<open>The loop invariant\<close>

text \<open>\<open>D\<close> is the graph the loop started with; the current dependency sets are what is left of it.\<close>

definition peel_inv :: "deps \<Rightarrow> deps \<Rightarrow> string list \<Rightarrow> string set \<Rightarrow> bool" where
  "peel_inv D deps ready visited \<longleftrightarrow>
     deps = map (\<lambda>(k, s). (k, s - visited)) D \<and>
     (\<forall>n \<in> set ready. \<exists>s. (n, s) \<in> set D \<and> s \<subseteq> visited) \<and>
     visited \<subseteq> fst ` set D \<and> visited \<subseteq> Wellfounded.acc (dep_rel D) \<and>
     (\<forall>(k, s) \<in> set D. s \<subseteq> visited \<longrightarrow> k \<in> visited \<or> k \<in> set ready)"

lemma dep_rel_unique: "wf_dict D \<Longrightarrow> (k, s) \<in> set D \<Longrightarrow> (d, k) \<in> dep_rel D \<longleftrightarrow> d \<in> s"
  by (auto simp: dep_rel_def wf_dict_dget)

lemma peel_inv_skip:
  "peel_inv D deps ready visited \<Longrightarrow> ready \<noteq> [] \<Longrightarrow> last ready \<in> visited \<Longrightarrow>
     peel_inv D deps (butlast ready) visited"
  unfolding peel_inv_def
  by (cases ready rule: rev_cases) (auto dest: in_set_butlastD)

lemma peel_inv_visit:
  assumes wf: "wf_dict D" and inv: "peel_inv D deps ready visited" and ne: "ready \<noteq> []"
  defines "n \<equiv> last ready"
  defines "visited' \<equiv> insert n visited"
  defines "deps' \<equiv> map (\<lambda>(k, s). (k, s - {n})) deps"
  defines "ready' \<equiv> butlast ready @ map fst (filter (\<lambda>(k, s). s = {} \<and> k \<notin> visited') deps')"
  shows "peel_inv D deps' ready' visited'"
proof -
  from ne have n: "n \<in> set ready" by (simp add: n_def)
  with inv obtain s where s: "(n, s) \<in> set D" "s \<subseteq> visited" by (auto simp: peel_inv_def)
  have vis: "visited \<subseteq> Wellfounded.acc (dep_rel D)" using inv by (simp add: peel_inv_def)
  have acc: "n \<in> Wellfounded.acc (dep_rel D)"
    by (rule acc.accI) (use s vis dep_rel_unique [OF wf s(1)] in auto)
  have deps': "deps' = map (\<lambda>(k, s). (k, s - visited')) D"
    using inv by (auto simp: deps'_def peel_inv_def visited'_def)
  have ready: "\<exists>s. (m, s) \<in> set D \<and> s \<subseteq> visited'" if "m \<in> set ready'" for m
  proof (cases "m \<in> set (butlast ready)")
    case True
    then have "\<exists>s. (m, s) \<in> set D \<and> s \<subseteq> visited"
      using inv in_set_butlastD unfolding peel_inv_def by fast
    then show ?thesis by (auto simp: visited'_def)
  next
    case False
    with that show ?thesis by (auto simp: ready'_def deps')
  qed
  have cover: "k \<in> visited' \<or> k \<in> set ready'" if "(k, s) \<in> set D" "s \<subseteq> visited'" for k s
  proof -
    have "k \<in> visited' \<or> (k, s - visited') \<in> set (filter (\<lambda>(k, s). s = {} \<and> k \<notin> visited') deps')"
      using that by (auto simp: deps' intro!: image_eqI [where x = "(k, s)"])
    then show ?thesis by (force simp: ready'_def)
  qed
  from inv have "visited \<subseteq> fst ` set D" by (simp add: peel_inv_def)
  with s(1) have "visited' \<subseteq> fst ` set D" by (auto simp: visited'_def image_iff intro: bexI [where x = "(n, s)"])
  moreover have "visited' \<subseteq> Wellfounded.acc (dep_rel D)" using vis acc by (simp add: visited'_def)
  ultimately show ?thesis using deps' ready cover unfolding peel_inv_def by blast
qed

lemma peel_inv_final:
  assumes "wf_dict D"
  shows "peel_inv D deps ready visited \<Longrightarrow> peel_inv D (map (\<lambda>(k, s). (k, s - peel deps ready visited)) D) []
     (peel deps ready visited)"
proof (induction deps ready visited rule: peel.induct)
  case (1 deps ready visited)
  show ?case
  proof (cases "ready = []")
    case True
    then show ?thesis using 1(3) by (simp add: peel_inv_def)
  next
    case ne: False
    show ?thesis
    proof (cases "last ready \<in> visited")
      case True
      then show ?thesis
        using 1(1) [OF ne refl refl True] peel_inv_skip [OF 1(3) ne True] ne
        by (simp add: peel.simps [of deps ready] Let_def)
    next
      case False
      show ?thesis
        using 1(2) [OF ne refl refl False refl refl] peel_inv_visit [OF assms 1(3) ne] ne False
        by (simp add: peel.simps [of deps ready] Let_def)
    qed
  qed
qed

lemma peel_inv_start:
  "peel_inv D D (map fst (filter (\<lambda>(k, s). s = {}) D)) {}"
  by (force simp: peel_inv_def)

lemma dep_rel_nodes: "wf_deps D \<Longrightarrow> dep_rel D \<subseteq> fst ` set D \<times> fst ` set D"
  by (force simp: wf_deps_def dep_rel_def)

theorem acyclic_check_iff:
  assumes wf: "wf_deps D"
  shows "acyclic_check D \<longleftrightarrow> acyclic (dep_rel D)"
proof -
  let ?V = "peel D (map fst (filter (\<lambda>(k, s). s = {}) D)) {}"
  let ?N = "fst ` set D"
  have wfd: "wf_dict D" using wf by (simp add: wf_deps_def)
  have inv: "peel_inv D (map (\<lambda>(k, s). (k, s - ?V)) D) [] ?V"
    by (rule peel_inv_final [OF wfd peel_inv_start])
  then have sub: "?V \<subseteq> ?N" and acc: "?V \<subseteq> Wellfounded.acc (dep_rel D)"
    and closed: "\<And>k s. (k, s) \<in> set D \<Longrightarrow> s \<subseteq> ?V \<Longrightarrow> k \<in> ?V"
    by (auto simp: peel_inv_def)
  have "card ?N = length D"
    using wfd by (metis distinct_card length_map list.set_map wf_dict_def)
  then have check: "acyclic_check D \<longleftrightarrow> ?V = ?N"
    using sub card_subset_eq [of ?N ?V] unfolding acyclic_check_def by (metis List.finite_set finite_imageI)
  have "?V = ?N" if "acyclic (dep_rel D)"
  proof (rule ccontr)
    assume "?V \<noteq> ?N"
    with sub obtain x where x: "x \<in> ?N - ?V" by blast
    have "finite (dep_rel D)"
      using dep_rel_nodes [OF wf] by (rule finite_subset) simp
    then have "wf (dep_rel D)" using that by (rule finite_acyclic_wf)
    with x obtain k where k: "k \<in> ?N - ?V" and min: "\<And>y. (y, k) \<in> dep_rel D \<Longrightarrow> y \<notin> ?N - ?V"
      by (metis wfE_min)
    then obtain s where s: "(k, s) \<in> set D" by auto
    have "s \<subseteq> ?V"
      using s min dep_rel_unique [OF wfd s] wf by (fastforce simp: wf_deps_def)
    then show False using closed [OF s] k by simp
  qed
  moreover have "acyclic (dep_rel D)" if "?V = ?N"
  proof -
    have "x \<in> Wellfounded.acc (dep_rel D)" for x
    proof (cases "x \<in> ?N")
      case True
      then show ?thesis using acc that by auto
    next
      case False
      then have "(y, x) \<notin> dep_rel D" for y using dep_rel_nodes [OF wf] by blast
      then show ?thesis by (blast intro: acc.accI)
    qed
    then have "wf (dep_rel D)" by (intro acc_wfI) auto
    then show ?thesis by (rule wf_acyclic)
  qed
  ultimately show ?thesis using check by blast
qed

section \<open>The interface\<close>

locale acyclicity_check =
  fixes check :: "deps \<Rightarrow> bool"
  assumes check_iff: "wf_deps D \<Longrightarrow> check D \<longleftrightarrow> acyclic (dep_rel D)"
begin

text \<open>While some nodes are outstanding, one of them has all its dependencies done.\<close>

lemma progress:
  assumes wf: "wf_deps D" and "check D" and out: "x \<in> fst ` set D" "x \<notin> finished"
  shows "\<exists>k s. (k, s) \<in> set D \<and> k \<notin> finished \<and> s \<subseteq> finished"
proof -
  have "finite (dep_rel D)"
    using dep_rel_nodes [OF wf] by (rule finite_subset) simp
  moreover have "acyclic (dep_rel D)" using assms check_iff by simp
  ultimately have "wf (dep_rel D)" by (rule finite_acyclic_wf)
  moreover have "x \<in> fst ` set D - finished" using out by simp
  ultimately obtain k where k: "k \<in> fst ` set D - finished"
    and min: "\<And>y. (y, k) \<in> dep_rel D \<Longrightarrow> y \<notin> fst ` set D - finished"
    by (metis wfE_min)
  then obtain s where s: "(k, s) \<in> set D" by auto
  have "s \<subseteq> fst ` set D" using wf s by (auto simp: wf_deps_def)
  moreover have "(y, k) \<in> dep_rel D" if "y \<in> s" for y using that s by (auto simp: dep_rel_def)
  ultimately have "s \<subseteq> finished" using min by blast
  with k s show ?thesis by blast
qed

lemma no_self_dependency: "wf_deps D \<Longrightarrow> check D \<Longrightarrow> (k, s) \<in> set D \<Longrightarrow> k \<notin> s"
  unfolding check_iff acyclic_def dep_rel_def by blast

end

interpretation graph: acyclicity_check acyclic_check
  by unfold_locales (rule acyclic_check_iff)

end
