(* ===== verification/Planning.thy ===== *)
theory Planning
  imports IR Registry Dependency_Graph
begin

text \<open>
  \<open>models/planning.py\<close> (risk assessments, action types and instances, execution policies and
  their decisions, recovery plans with the validation of their action graph) and the two
  registries of plan ingredients: \<open>ActionCatalog\<close> of \<open>actions/catalog.py\<close> and
  \<open>ExecutionPolicyRegistry\<close> of \<open>policy/registry.py\<close>. The main facts: a plan is accepted exactly
  when its action ids are distinct, its dependencies known and its graph acyclic; and an action
  instance accepted by the catalog carries every required parameter with the declared type.
\<close>

section \<open>Records\<close>

datatype risk_class = R0 | R1 | R2 | R3 | R4 | R5

fun risk_rank :: "risk_class \<Rightarrow> nat" where
  "risk_rank R0 = 0"
| "risk_rank R1 = 1"
| "risk_rank R2 = 2"
| "risk_rank R3 = 3"
| "risk_rank R4 = 4"
| "risk_rank R5 = 5"

definition risk_value :: "risk_class \<Rightarrow> string" where
  "risk_value r = ''R'' @ nat_str (risk_rank r)"

record risk_assessment =
  risk_class :: risk_class
  risk_blast_radius :: string
  risk_availability :: string
  risk_data :: string
  risk_security :: string
  risk_reversible :: bool
  risk_idempotent :: bool
  risk_rationale :: "string list"

definition default_risk :: risk_assessment where
  "default_risk =
     \<lparr>risk_class = R0, risk_blast_radius = ''none'', risk_availability = ''none'', risk_data = ''none'',
      risk_security = ''none'', risk_reversible = True, risk_idempotent = True, risk_rationale = []\<rparr>"

record action_type =
  at_id :: string
  at_title :: string
  at_description :: string
  at_parameter_schema :: fields
  at_preconditions :: "predicate list"
  at_expected_effects :: "string list"
  at_possible_side_effects :: "string list"
  at_required_capabilities :: "string set"
  at_supported_modes :: "string set"
  at_executor_id :: string
  at_default_risk :: risk_assessment
  at_completion_condition_ids :: "string list"
  at_verification_condition_ids :: "string list"
  at_verification_conditions :: "verification_condition list"
  at_rollback_action_type_id :: "string option"
  at_timeout_seconds :: int
  at_max_attempts :: nat
  at_metadata :: fields

definition valid_action_type :: "action_type \<Rightarrow> bool" where
  "valid_action_type d \<longleftrightarrow> 1 \<le> at_timeout_seconds d \<and> 1 \<le> at_max_attempts d"

datatype action_status =
    Act_Proposed | Act_Approval_Required | Act_Authorized | Act_Running | Act_Completed
  | Act_Failed | Act_Skipped | Act_Rolled_Back | Act_Blocked

record action_instance =
  act_id :: string
  act_type_id :: string
  act_title :: string
  act_target_ids :: "string list"
  act_parameters :: fields
  act_depends_on :: "string list"
  act_risk :: risk_assessment
  act_status :: action_status
  act_idempotency_key :: "string option"
  act_stage_id :: "string option"
  act_checkpoint_before :: bool
  act_optional :: bool
  act_metadata :: fields

record execution_policy =
  pol_id :: string
  pol_title :: string
  pol_environment_classes :: "string set"
  pol_allowed_risk_classes :: "risk_class set"
  pol_allowed_action_type_ids :: "string set"
  pol_denied_action_type_ids :: "string set"
  pol_required_approvals_by_risk :: "(risk_class, int) dict"
  pol_maximum_concurrent_actions :: nat
  pol_require_checkpoint_for_risk :: "risk_class set"
  pol_require_target_fingerprint :: bool
  pol_allowed_target_patterns :: "string list"
  pol_mutation_budget :: "int option"
  pol_maintenance_windows :: "fields list"
  pol_capability_grants :: "string set"
  pol_break_glass_allowed :: bool
  pol_metadata :: fields

datatype policy_outcome = Allow | Deny | Approval_Required

record policy_decision =
  pd_id :: string
  pd_policy_id :: string
  pd_action_id :: string
  pd_outcome :: policy_outcome
  pd_reasons :: "string list"
  pd_required_approval_count :: int
  pd_evaluated_at_iso :: "string option"
  pd_capability_gaps :: "string list"
  pd_requires_checkpoint :: bool
  pd_metadata :: fields

datatype operation_type = Op_Startup | Op_Shutdown | Op_Recovery | Op_Maintenance | Op_Verification

datatype plan_mode = Guidance | Dry_Run | Guarded_Execution

record recovery_plan =
  plan_id :: string
  plan_incident_id :: "string option"
  plan_environment_id :: "string option"
  plan_operation_type :: operation_type
  plan_objective_id :: string
  plan_target_invariant_ids :: "string list"
  plan_protected_invariant_ids :: "string list"
  plan_actions :: "action_instance list"
  plan_verification_condition_ids :: "string list"
  plan_verification_conditions :: "verification_condition list"
  plan_mode :: plan_mode
  plan_policy_id :: "string option"
  plan_assumptions :: "string list"
  plan_unsupported_assumptions :: "string list"
  plan_created_at_iso :: "string option"
  plan_metadata :: fields

section \<open>Validation of the action graph\<close>

definition action_deps :: "action_instance list \<Rightarrow> deps" where
  "action_deps actions = map (\<lambda>a. (act_id a, set (act_depends_on a))) actions"

definition check_action :: "string set \<Rightarrow> action_instance \<Rightarrow> unit res" where
  "check_action ids a =
     (let unknown = set (act_depends_on a) - ids in
      if unknown \<noteq> {}
      then raise ValueError (''action '' @ act_id a @ '' depends on unknown actions: '' @
             repr_strs (sorted_set unknown))
      else if act_id a \<in> set (act_depends_on a)
      then raise ValueError (''action '' @ act_id a @ '' cannot depend on itself'')
      else Inr ())"

definition assert_acyclic :: "action_instance list \<Rightarrow> unit res" where
  "assert_acyclic actions =
     (if acyclic_check (action_deps actions) then Inr ()
      else raise ValueError ''recovery-plan action graph must be acyclic'')"

definition validate_action_graph :: "recovery_plan \<Rightarrow> unit res" where
  "validate_action_graph p =
     (let actions = plan_actions p; ids = set (map act_id actions) in
      if card ids \<noteq> length actions then raise ValueError ''recovery-plan action ids must be unique''
      else res_bind (res_map (check_action ids) actions) (\<lambda>_. assert_acyclic actions))"

abbreviation valid_plan :: "recovery_plan \<Rightarrow> bool" where
  "valid_plan p \<equiv> validate_action_graph p = Inr ()"

lemma check_action_ok:
  "check_action ids a = Inr () \<longleftrightarrow> set (act_depends_on a) \<subseteq> ids \<and> act_id a \<notin> set (act_depends_on a)"
  by (auto simp: check_action_def Let_def)

lemma res_map_unit: "(\<exists>us. res_map f xs = Inr us) \<longleftrightarrow> (\<forall>x \<in> set xs. \<exists>u. f x = Inr u)"
  by (induction xs) (auto split: sum.splits)

lemma wf_action_deps:
  "distinct (map act_id actions) \<Longrightarrow>
   (\<And>a. a \<in> set actions \<Longrightarrow> set (act_depends_on a) \<subseteq> set (map act_id actions)) \<Longrightarrow>
   wf_deps (action_deps actions)"
  by (auto simp: wf_deps_def wf_dict_def action_deps_def comp_def image_image)

lemma valid_plan_iff:
  "valid_plan p \<longleftrightarrow>
     distinct (map act_id (plan_actions p)) \<and>
     (\<forall>a \<in> set (plan_actions p). set (act_depends_on a) \<subseteq> set (map act_id (plan_actions p))) \<and>
     acyclic (dep_rel (action_deps (plan_actions p)))"
    (is "_ \<longleftrightarrow> ?R")
proof -
  let ?as = "plan_actions p"
  let ?ids = "set (map act_id ?as)"
  have card: "card ?ids = length ?as \<longleftrightarrow> distinct (map act_id ?as)"
    using distinct_card [of "map act_id ?as"] card_distinct [of "map act_id ?as"] by auto
  have valid: "valid_plan p \<longleftrightarrow> distinct (map act_id ?as) \<and>
      (\<forall>a \<in> set ?as. check_action ?ids a = Inr ()) \<and> acyclic_check (action_deps ?as)"
    using card res_map_unit [of "check_action ?ids" ?as]
    by (auto simp: validate_action_graph_def Let_def res_bind_eq_Inr_iff assert_acyclic_def)
  show ?thesis
  proof
    assume "valid_plan p"
    then have d: "distinct (map act_id ?as)" and sub: "\<forall>a \<in> set ?as. set (act_depends_on a) \<subseteq> ?ids"
      and "acyclic_check (action_deps ?as)"
      using valid check_action_ok by auto
    then show ?R using graph.check_iff [OF wf_action_deps [OF d]] by simp
  next
    assume r: ?R
    then have wf: "wf_deps (action_deps ?as)" by (intro wf_action_deps) auto
    have "act_id a \<notin> set (act_depends_on a)" if "a \<in> set ?as" for a
    proof -
      have "(act_id a, set (act_depends_on a)) \<in> set (action_deps ?as)"
        using that by (simp add: action_deps_def)
      then show ?thesis using graph.no_self_dependency [OF wf] r graph.check_iff [OF wf] by blast
    qed
    then show "valid_plan p"
      using r valid graph.check_iff [OF wf] by (simp add: check_action_ok)
  qed
qed

lemma valid_plan_wf_deps: "valid_plan p \<Longrightarrow> wf_deps (action_deps (plan_actions p))"
  by (rule wf_action_deps) (auto simp: valid_plan_iff)

text \<open>A valid plan never blocks: while actions are outstanding, one has all it depends on.\<close>

lemma valid_plan_progress:
  assumes "valid_plan p" "a \<in> set (plan_actions p)" "act_id a \<notin> finished"
  shows "\<exists>b \<in> set (plan_actions p). act_id b \<notin> finished \<and> set (act_depends_on b) \<subseteq> finished"
proof -
  note wf = valid_plan_wf_deps [OF assms(1)]
  moreover have "acyclic_check (action_deps (plan_actions p))"
    using assms(1) graph.check_iff [OF wf] by (simp add: valid_plan_iff)
  moreover have "act_id a \<in> fst ` set (action_deps (plan_actions p))"
    using assms(2) by (simp add: action_deps_def image_image)
  ultimately obtain k s where "(k, s) \<in> set (action_deps (plan_actions p))" "k \<notin> finished" "s \<subseteq> finished"
    using graph.progress assms(3) by blast
  then show ?thesis by (auto simp: action_deps_def)
qed

section \<open>The action catalog\<close>

type_synonym action_catalog = "action_type registry"

definition new_action_catalog :: action_catalog where
  "new_action_catalog = new_registry ''action catalog''"

definition catalog_register :: "action_type \<Rightarrow> bool \<Rightarrow> action_catalog \<Rightarrow> action_catalog res" where
  "catalog_register d replace c = reg_register (at_id d) d replace c"

definition catalog_get :: "action_catalog \<Rightarrow> string \<Rightarrow> action_type res" where
  "catalog_get c i = reg_get c i"

definition catalog_values :: "action_catalog \<Rightarrow> action_type list" where
  "catalog_values c = reg_values c"

definition catalog_len :: "action_catalog \<Rightarrow> nat" where
  "catalog_len c = reg_len c"

text \<open>Iterating over an untyped value, as \<open>for name in required\<close> does.\<close>

fun iter_json :: "json \<Rightarrow> json list res" where
  "iter_json (JList xs) = Inr xs"
| "iter_json (JStr s) = Inr (map (\<lambda>c. JStr [c]) s)"
| "iter_json (JObj kvs) = Inr (map (\<lambda>kv. JStr (fst kv)) kvs)"
| "iter_json (JSet A) = Inr (map JStr (sorted_set A))"
| "iter_json _ = raise TypeError ''object is not iterable''"

definition in_parameters :: "fields \<Rightarrow> json \<Rightarrow> bool" where
  "in_parameters params x = (case x of JStr s \<Rightarrow> dget params s \<noteq> None | _ \<Rightarrow> False)"

definition has_json_type :: "string \<Rightarrow> json \<Rightarrow> bool" where
  "has_json_type t v =
     (if t = ''array'' then (case v of JList _ \<Rightarrow> True | _ \<Rightarrow> False)
      else if t = ''string'' then (case v of JStr _ \<Rightarrow> True | _ \<Rightarrow> False)
      else if t = ''integer'' then (case v of JInt _ \<Rightarrow> True | _ \<Rightarrow> False)
      else if t = ''boolean'' then (case v of JBool _ \<Rightarrow> True | _ \<Rightarrow> False)
      else True)"

definition type_article :: "string \<Rightarrow> string" where
  "type_article t = (if t = ''array'' \<or> t = ''integer'' then ''an '' @ t else ''a '' @ t)"

definition check_property :: "action_instance \<Rightarrow> string \<times> json \<Rightarrow> unit res" where
  "check_property a p =
     (case dget (act_parameters a) (fst p) of
        None \<Rightarrow> Inr ()
      | Some v \<Rightarrow>
          (case snd p of
             JObj schema \<Rightarrow>
               let who = ''action '' @ act_id a @ '' parameter '' @ repr_str (fst p) in
               if (case dget schema ''const'' of Some c \<Rightarrow> \<not> py_eq v c | None \<Rightarrow> False)
               then raise ValueError (who @ '' must equal its constant'')
               else (case dget schema ''type'' of
                       Some (JStr t) \<Rightarrow>
                         if has_json_type t v then Inr ()
                         else raise ValueError (who @ '' must be '' @ type_article t)
                     | _ \<Rightarrow> Inr ())
           | _ \<Rightarrow> raise AttributeError ''property schema is not a dict''))"

definition check_required :: "action_instance \<Rightarrow> fields \<Rightarrow> unit res" where
  "check_required a schema =
     res_bind (case dget schema ''required'' of None \<Rightarrow> Inr [] | Some r \<Rightarrow> iter_json r) (\<lambda>required.
       if \<forall>x \<in> set required. in_parameters (act_parameters a) x then Inr ()
       else raise ValueError (''action '' @ act_id a @ '' is missing required parameters''))"

definition check_properties :: "action_instance \<Rightarrow> fields \<Rightarrow> unit res" where
  "check_properties a schema =
     (case dget schema ''properties'' of
        None \<Rightarrow> Inr ()
      | Some (JObj ps) \<Rightarrow> res_bind (res_map (check_property a) ps) (\<lambda>_. Inr ())
      | Some _ \<Rightarrow> raise AttributeError ''properties is not a dict'')"

definition validate_instance :: "action_catalog \<Rightarrow> action_instance \<Rightarrow> action_type res" where
  "validate_instance c a =
     res_bind (catalog_get c (act_type_id a)) (\<lambda>d.
     res_bind (check_required a (at_parameter_schema d)) (\<lambda>_.
     res_bind (check_properties a (at_parameter_schema d)) (\<lambda>_. Inr d)))"

lemma validate_instance_get: "validate_instance c a = Inr d \<Longrightarrow> catalog_get c (act_type_id a) = Inr d"
  by (auto simp: validate_instance_def res_bind_eq_Inr_iff)

lemma validated_required:
  assumes "validate_instance c a = Inr d" "dget (at_parameter_schema d) ''required'' = Some (JList xs)"
    "JStr name \<in> set xs"
  shows "dget (act_parameters a) name \<noteq> None"
  using assms
  by (fastforce simp: validate_instance_def res_bind_eq_Inr_iff check_required_def in_parameters_def
      split: if_splits)

lemma res_map_InrD_elem: "res_map f xs = Inr ys \<Longrightarrow> x \<in> set xs \<Longrightarrow> \<exists>y. f x = Inr y"
  by (induction xs arbitrary: ys) (auto split: sum.splits)

lemma validated_property:
  assumes "validate_instance c a = Inr d"
    and "dget (at_parameter_schema d) ''properties'' = Some (JObj ps)"
    and "(name, JObj schema) \<in> set ps" "dget (act_parameters a) name = Some v"
  shows "(dget schema ''type'' = Some (JStr t) \<longrightarrow> has_json_type t v) \<and>
         (dget schema ''const'' = Some k \<longrightarrow> py_eq v k)"
proof -
  from assms(1,2) obtain us where "res_map (check_property a) ps = Inr us"
    by (auto simp: validate_instance_def res_bind_eq_Inr_iff check_properties_def)
  from res_map_InrD_elem [OF this assms(3)] show ?thesis
    using assms(4) by (auto simp: check_property_def Let_def split: if_splits option.splits)
qed

section \<open>The policy registry\<close>

record policy_registry =
  polreg_items :: "execution_policy registry"
  polreg_sources :: "(string, string) dict"

definition new_policy_registry :: policy_registry where
  "new_policy_registry =
     \<lparr>polreg_items = new_registry ''execution policy registry'', polreg_sources = []\<rparr>"

definition policy_register ::
    "execution_policy \<Rightarrow> string \<Rightarrow> bool \<Rightarrow> policy_registry \<Rightarrow> policy_registry res" where
  "policy_register p src replace r =
     res_bind (reg_register (pol_id p) p replace (polreg_items r)) (\<lambda>items.
       Inr (r\<lparr>polreg_items := items, polreg_sources := dset (pol_id p) src (polreg_sources r)\<rparr>))"

definition policy_get :: "policy_registry \<Rightarrow> string \<Rightarrow> execution_policy res" where
  "policy_get r i = reg_get (polreg_items r) i"

definition policy_values :: "policy_registry \<Rightarrow> execution_policy list" where
  "policy_values r = reg_values (polreg_items r)"

definition policy_source :: "policy_registry \<Rightarrow> string \<Rightarrow> string res" where
  "policy_source r i =
     (case dget (polreg_sources r) i of None \<Rightarrow> raise KeyError i | Some s \<Rightarrow> Inr s)"

definition policy_len :: "policy_registry \<Rightarrow> nat" where
  "policy_len r = reg_len (polreg_items r)"

text \<open>Every registered policy has a recorded source, and the other way round.\<close>

definition wf_policy_registry :: "policy_registry \<Rightarrow> bool" where
  "wf_policy_registry r \<longleftrightarrow> wf_registry (polreg_items r) \<and> wf_dict (polreg_sources r) \<and>
     fst ` set (reg_items (polreg_items r)) = fst ` set (polreg_sources r)"

lemma wf_new_policy_registry: "wf_policy_registry new_policy_registry"
  by (simp add: wf_policy_registry_def new_policy_registry_def) (simp add: new_registry_def)

lemma wf_policy_register:
  "wf_policy_registry r \<Longrightarrow> policy_register p src replace r = Inr r' \<Longrightarrow>
     wf_policy_registry r' \<and> policy_get r' (pol_id p) = Inr p \<and> policy_source r' (pol_id p) = Inr src"
  unfolding policy_register_def res_bind_eq_Inr_iff reg_register_ok wf_policy_registry_def
    policy_get_def policy_source_def reg_put_def wf_registry_def reg_get_def
  by (clarsimp simp: keys_dset)

end
