(* ===== verification/Operation.thy ===== *)
theory Operation
  imports Planning
begin

text \<open>
  \<open>models/operation.py\<close> (approvals, receipts, events, checkpoints and the operation run itself, with
  the validation of its receipts) and \<open>execution/store.py\<close>, the file journal: a directory per
  operation whose file holds the operation last saved, read back through validation. The file
  text is the operation it serialises; reading re-runs the model validators, as
  \<open>model_validate_json\<close> does.
\<close>

section \<open>Records\<close>

datatype operation_status =
    St_Created | St_Planning | St_Awaiting_Approval | St_Authorized | St_Running | St_Paused
  | St_Verifying | St_Rolling_Back | St_Completed | St_Failed | St_Cancelled | St_Blocked

fun operation_status_value :: "operation_status \<Rightarrow> string" where
  "operation_status_value St_Created = ''created''"
| "operation_status_value St_Planning = ''planning''"
| "operation_status_value St_Awaiting_Approval = ''awaiting_approval''"
| "operation_status_value St_Authorized = ''authorized''"
| "operation_status_value St_Running = ''running''"
| "operation_status_value St_Paused = ''paused''"
| "operation_status_value St_Verifying = ''verifying''"
| "operation_status_value St_Rolling_Back = ''rolling_back''"
| "operation_status_value St_Completed = ''completed''"
| "operation_status_value St_Failed = ''failed''"
| "operation_status_value St_Cancelled = ''cancelled''"
| "operation_status_value St_Blocked = ''blocked''"

datatype receipt_status =
  Rc_Completed | Rc_Failed | Rc_Skipped | Rc_Already_Satisfied | Rc_Rolled_Back

fun receipt_status_value :: "receipt_status \<Rightarrow> string" where
  "receipt_status_value Rc_Completed = ''completed''"
| "receipt_status_value Rc_Failed = ''failed''"
| "receipt_status_value Rc_Skipped = ''skipped''"
| "receipt_status_value Rc_Already_Satisfied = ''already_satisfied''"
| "receipt_status_value Rc_Rolled_Back = ''rolled_back''"

datatype approval_outcome = Approve | Reject

fun approval_value :: "approval_outcome \<Rightarrow> string" where
  "approval_value Approve = ''approve''"
| "approval_value Reject = ''reject''"

record approval_record =
  appr_id :: string
  appr_operation_id :: string
  appr_action_id :: "string option"
  appr_approver_id :: string
  appr_decision :: approval_outcome
  appr_reason :: string
  appr_granted_at_iso :: string
  appr_expires_at_iso :: "string option"
  appr_policy_id :: "string option"
  appr_metadata :: fields

record action_receipt =
  rc_id :: string
  rc_operation_id :: string
  rc_action_id :: string
  rc_action_type_id :: string
  rc_executor_id :: string
  rc_status :: receipt_status
  rc_attempt :: nat
  rc_started_at_iso :: string
  rc_completed_at_iso :: string
  rc_exit_code :: "int option"
  rc_stdout :: string
  rc_stderr :: string
  rc_observed_effects :: "string list"
  rc_emitted_evidence_ids :: "string list"
  rc_idempotency_key :: "string option"
  rc_precondition_results :: "(string, bool option) dict"
  rc_before_state_hash :: "string option"
  rc_after_state_hash :: "string option"
  rc_metadata :: fields

record operation_event =
  oe_sequence :: nat
  oe_operation_id :: string
  oe_event_type :: string
  oe_occurred_at_iso :: string
  oe_title :: string
  oe_action_id :: "string option"
  oe_artifact_ids :: "string list"
  oe_details :: fields

record execution_checkpoint =
  cp_id :: string
  cp_operation_id :: string
  cp_created_at_iso :: string
  cp_completed_action_ids :: "string list"
  cp_pending_action_ids :: "string list"
  cp_failed_action_ids :: "string list"
  cp_world_state :: world
  cp_state_hash :: string
  cp_resumable :: bool
  cp_metadata :: fields

record operation_run =
  op_id :: string
  op_environment_id :: string
  op_type :: operation_type
  op_objective_id :: string
  op_status :: operation_status
  op_mode :: plan_mode
  op_plan :: recovery_plan
  op_policy_decisions :: "policy_decision list"
  op_approvals :: "approval_record list"
  op_action_receipts :: "action_receipt list"
  op_verification_results :: "verification_result list"
  op_recovery_certificate :: "recovery_certificate option"
  op_events :: "operation_event list"
  op_checkpoints :: "execution_checkpoint list"
  op_current_action_ids :: "string list"
  op_created_at_iso :: string
  op_updated_at_iso :: string
  op_started_at_iso :: "string option"
  op_completed_at_iso :: "string option"
  op_pause_reason :: "string option"
  op_failure_reason :: "string option"
  op_metadata :: fields

section \<open>Validation\<close>

definition validate_receipts :: "operation_run \<Rightarrow> unit res" where
  "validate_receipts op =
     (let unknown = set (map rc_action_id (op_action_receipts op)) - set (map act_id (plan_actions (op_plan op))) in
      if unknown \<noteq> {}
      then raise ValueError (''operation receipts reference unknown actions: '' @ repr_strs (sorted_set unknown))
      else Inr ())"

definition validate_operation :: "operation_run \<Rightarrow> unit res" where
  "validate_operation op =
     res_bind (validate_action_graph (op_plan op)) (\<lambda>_. validate_receipts op)"

lemma validate_receipts_iff:
  "validate_receipts op = Inr () \<longleftrightarrow>
     (\<forall>r \<in> set (op_action_receipts op). rc_action_id r \<in> act_id ` set (plan_actions (op_plan op)))"
  by (auto simp: validate_receipts_def Let_def)

lemma validate_operation_iff:
  "validate_operation op = Inr () \<longleftrightarrow> valid_plan (op_plan op) \<and> validate_receipts op = Inr ()"
  by (auto simp: validate_operation_def res_bind_eq_Inr_iff)

section \<open>The journal\<close>

record journal =
  jr_root :: string
  jr_files :: "(string, operation_run) dict"

definition safe_name :: "string \<Rightarrow> string" where
  "safe_name i = map (\<lambda>c. if c = CHR ''/'' \<or> c = CHR '':'' then CHR ''_'' else c) i"

definition path_for :: "journal \<Rightarrow> string \<Rightarrow> string" where
  "path_for j i = jr_root j @ ''/'' @ safe_name i @ ''/operation.json''"

definition journal_save :: "operation_run \<Rightarrow> journal \<Rightarrow> journal" where
  "journal_save op j = j\<lparr>jr_files := dset (path_for j (op_id op)) op (jr_files j)\<rparr>"

definition journal_load :: "journal \<Rightarrow> string \<Rightarrow> operation_run res" where
  "journal_load j i =
     (case dget (jr_files j) (path_for j i) of
        None \<Rightarrow> raise FileNotFoundError (''No such file or directory: '' @ path_for j i)
      | Some op \<Rightarrow> res_bind (validate_operation op) (\<lambda>_. Inr op))"

definition journal_exists :: "journal \<Rightarrow> string \<Rightarrow> bool" where
  "journal_exists j i = (dget (jr_files j) (path_for j i) \<noteq> None)"

text \<open>As a keyed store, the journal is addressed by path.\<close>

definition journal_lookup :: "journal \<Rightarrow> string \<Rightarrow> operation_run option" where
  "journal_lookup j p = dget (jr_files j) p"

definition journal_put :: "string \<Rightarrow> operation_run \<Rightarrow> journal \<Rightarrow> journal" where
  "journal_put p op j = j\<lparr>jr_files := dset p op (jr_files j)\<rparr>"

interpretation jour: kv_store journal_lookup journal_put "\<lambda>j. wf_dict (jr_files j)"
  by unfold_locales (auto simp: journal_lookup_def journal_put_def dict_simps)

lemma path_for_eq: "path_for j i = path_for j i' \<longleftrightarrow> safe_name i = safe_name i'"
  by (simp add: path_for_def)

lemma path_for_root [simp]: "path_for (journal_save op j) i = path_for j i"
  by (simp add: path_for_def journal_save_def)

lemma journal_save_put: "journal_save op j = journal_put (path_for j (op_id op)) op j"
  by (simp add: journal_save_def journal_put_def)

lemma journal_load_save:
  "validate_operation op = Inr () \<Longrightarrow> journal_load (journal_save op j) (op_id op) = Inr op"
  by (simp add: journal_load_def) (simp add: journal_save_def)

lemma journal_load_save_other:
  "safe_name i \<noteq> safe_name (op_id op) \<Longrightarrow> journal_load (journal_save op j) i = journal_load j i"
  by (simp add: journal_load_def journal_save_def path_for_def cong: option.case_cong)

lemma journal_load_save_invalid:
  "validate_operation op \<noteq> Inr () \<Longrightarrow> \<exists>e. journal_load (journal_save op j) (op_id op) = Inl e"
  by (cases "validate_operation op") (simp_all add: journal_load_def journal_save_def path_for_def)

lemma safe_name_id: "CHR ''/'' \<notin> set i \<Longrightarrow> CHR '':'' \<notin> set i \<Longrightarrow> safe_name i = i"
  by (induction i) (auto simp: safe_name_def)

end
