(* ===== verification/PyTime.thy ===== *)
theory PyTime
  imports Prelude
begin

text \<open>
  Instants and their ISO-8601 text, as \<open>datetime\<close> gives them. An aware UTC datetime is the number
  of microseconds since 0001-01-01T00:00:00 (an \<open>int\<close>); \<open>isoformat\<close> renders it the way
  \<open>datetime.isoformat()\<close> does and \<open>fromisoformat\<close> reads the extended calendar form
  \<open>YYYY-MM-DD[*HH[:MM[:SS[.f]]][+HH:MM[:SS]]]\<close>, with an optional UTC offset. The compact and
  week-date spellings are not modelled: they read as invalid. The main fact is the round trip
  \<open>parse_iso (isoformat t) = Inr t\<close> for every representable instant, stated once as the interface
  \<open>iso_codec\<close> that the components with textual timestamps use.
\<close>

section \<open>The proleptic Gregorian calendar\<close>

definition leap :: "nat \<Rightarrow> bool" where
  "leap y \<longleftrightarrow> y mod 4 = 0 \<and> (y mod 100 \<noteq> 0 \<or> y mod 400 = 0)"

definition days_in_month :: "nat \<Rightarrow> nat \<Rightarrow> nat" where
  "days_in_month y m =
     (if m = 2 then (if leap y then 29 else 28) else if m \<in> {4, 6, 9, 11} then 30 else 31)"

fun days_before_month :: "nat \<Rightarrow> nat \<Rightarrow> nat" where
  "days_before_month y 0 = 0"
| "days_before_month y (Suc m) = (if m = 0 then 0 else days_before_month y m + days_in_month y m)"

definition days_before_year :: "nat \<Rightarrow> nat" where
  "days_before_year y = (let p = y - 1 in 365 * p + p div 4 - p div 100 + p div 400)"

definition ymd2ord :: "nat \<Rightarrow> nat \<Rightarrow> nat \<Rightarrow> nat" where
  "ymd2ord y m d = days_before_year y + days_before_month y m + (d - 1)"

lemma days_before_year_ge: "y \<le> Suc (days_before_year y)"
  unfolding days_before_year_def Let_def by linarith

lemma days_before_year_Suc:
  assumes "0 < y"
  shows "days_before_year (Suc y) = days_before_year y + (if leap y then 366 else 365)"
proof -
  obtain p where y: "y = Suc p" using assms by (cases y) auto
  have m: "Suc p mod 400 = 0 \<Longrightarrow> Suc p mod 100 = 0" "Suc p mod 100 = 0 \<Longrightarrow> Suc p mod 4 = 0"
    by presburger+
  have "p div 100 \<le> p div 4" by (rule div_le_mono2) auto
  then show ?thesis
    using m unfolding y days_before_year_def leap_def Let_def
    by (auto simp: div_Suc [of p 4] div_Suc [of p 100] div_Suc [of p 400] algebra_simps)
qed

text \<open>The year of a day number, by counting up from a lower estimate; the month likewise.\<close>

function year_from :: "nat \<Rightarrow> nat \<Rightarrow> nat" where
  "year_from n y = (if days_before_year (Suc y) \<le> n then year_from n (Suc y) else y)"
  by pat_completeness auto
termination
proof (relation "measure (\<lambda>(n, y). Suc n - y)", goal_cases)
  case 1
  show ?case by simp
next
  case (2 n y)
  have "Suc y \<le> Suc (days_before_year (Suc y))" by (rule days_before_year_ge)
  with 2 show ?case by simp
qed

declare year_from.simps [simp del]

definition year_of :: "nat \<Rightarrow> nat" where
  "year_of n = year_from n (Suc (n div 366))"

function month_from :: "nat \<Rightarrow> nat \<Rightarrow> nat \<Rightarrow> nat" where
  "month_from y doy m =
     (if m < 12 \<and> days_before_month y (Suc m) \<le> doy then month_from y doy (Suc m) else m)"
  by pat_completeness auto
termination
  by (relation "measure (\<lambda>(y, doy, m). 12 - m)") auto

declare month_from.simps [simp del]

definition ord2ymd :: "nat \<Rightarrow> nat \<times> nat \<times> nat" where
  "ord2ymd n =
     (let y = year_of n; doy = n - days_before_year y; m = month_from y doy 1
      in (y, m, Suc (doy - days_before_month y m)))"

lemma year_from_bounds:
  "days_before_year y \<le> n \<Longrightarrow>
     days_before_year (year_from n y) \<le> n \<and> n < days_before_year (Suc (year_from n y)) \<and> y \<le> year_from n y"
proof (induction n y rule: year_from.induct)
  case (1 n y)
  then show ?case by (subst (1 2 3) year_from.simps) (auto split: if_splits)
qed

lemma year_estimate: "days_before_year (Suc (n div 366)) \<le> n"
proof -
  have "n div 366 * 366 \<le> n" by simp
  then show ?thesis unfolding days_before_year_def Let_def by simp
qed

lemma year_of_bounds:
  "days_before_year (year_of n) \<le> n" "n < days_before_year (Suc (year_of n))" "0 < year_of n"
  using year_from_bounds [OF year_estimate] by (auto simp: year_of_def Suc_le_eq intro: le_less_trans)

lemma month_from_bounds:
  "1 \<le> m \<Longrightarrow> m \<le> 12 \<Longrightarrow> days_before_month y m \<le> doy \<Longrightarrow>
     days_before_month y (month_from y doy m) \<le> doy \<and> 1 \<le> month_from y doy m \<and> month_from y doy m \<le> 12 \<and>
     (month_from y doy m = 12 \<or> doy < days_before_month y (Suc (month_from y doy m)))"
proof (induction y doy m rule: month_from.induct)
  case (1 y doy m)
  then show ?case by (subst (1 2 3 4 5) month_from.simps) (auto split: if_splits)
qed

lemma days_before_13: "days_before_month y 12 + 31 = (if leap y then 366 else 365)"
  by (simp add: eval_nat_numeral days_in_month_def)

lemma ord2ymd_props:
  assumes "ord2ymd n = (y, m, d)"
  shows "1 \<le> m" "m \<le> 12" "1 \<le> d" "d \<le> days_in_month y m" "ymd2ord y m d = n" "0 < y"
proof -
  let ?doy = "n - days_before_year (year_of n)"
  have y: "y = year_of n" and m: "m = month_from y ?doy 1" and d: "d = Suc (?doy - days_before_month y m)"
    using assms by (auto simp: ord2ymd_def Let_def)
  have mb: "days_before_month y m \<le> ?doy \<and> 1 \<le> m \<and> m \<le> 12 \<and> (m = 12 \<or> ?doy < days_before_month y (Suc m))"
    unfolding m by (rule month_from_bounds) auto
  have len: "?doy < (if leap y then 366 else 365)"
    using year_of_bounds [of n] days_before_year_Suc [of y] y by auto
  show "1 \<le> m" "m \<le> 12" "1 \<le> d" using mb d by auto
  show "d \<le> days_in_month y m"
  proof (cases "m = 12")
    case True
    then show ?thesis
      using mb d len days_before_13 [of y] by (auto simp: days_in_month_def split: if_splits)
  next
    case False
    with mb show ?thesis using d by (cases m) (auto split: if_splits)
  qed
  show "ymd2ord y m d = n"
    unfolding ymd2ord_def d y using conjunct1 [OF mb, unfolded y] year_of_bounds(1) [of n] by linarith
  show "0 < y" using year_of_bounds(3) y by simp
qed

section \<open>Rendering\<close>

fun pad :: "nat \<Rightarrow> nat \<Rightarrow> string" where
  "pad 0 n = []"
| "pad (Suc k) n = pad k (n div 10) @ [digit_char (n mod 10)]"

definition us_per_day :: int where "us_per_day = 86400000000"

text \<open>The first instant after 9999-12-31T23:59:59.999999.\<close>

definition max_instant :: int where "max_instant = 3652059 * us_per_day"

definition valid_instant :: "int \<Rightarrow> bool" where
  "valid_instant t \<longleftrightarrow> 0 \<le> t \<and> t < max_instant"

definition seconds :: "int \<Rightarrow> int" where "seconds n = n * 1000000"

definition isoformat :: "int \<Rightarrow> string" where
  "isoformat t =
     (let u = nat t; us = u mod 1000000; s = u div 1000000; sod = s mod 86400;
          (y, m, d) = ord2ymd (s div 86400)
      in pad 4 y @ ''-'' @ pad 2 m @ ''-'' @ pad 2 d @ ''T'' @
         pad 2 (sod div 3600) @ '':'' @ pad 2 (sod div 60 mod 60) @ '':'' @ pad 2 (sod mod 60) @
         (if us = 0 then '''' else ''.'' @ pad 6 us) @ ''+00:00'')"

section \<open>Reading\<close>

fun read_digits :: "nat \<Rightarrow> nat \<Rightarrow> string \<Rightarrow> (nat \<times> string) option" where
  "read_digits 0 acc s = Some (acc, s)"
| "read_digits (Suc k) acc [] = None"
| "read_digits (Suc k) acc (c # s) =
     (case char_digit c of None \<Rightarrow> None | Some d \<Rightarrow> read_digits k (10 * acc + d) s)"

fun expect :: "char \<Rightarrow> string \<Rightarrow> string option" where
  "expect c [] = None"
| "expect c (x # s) = (if x = c then Some s else None)"

definition read_date :: "string \<Rightarrow> (nat \<times> string) option" where
  "read_date s0 =
     Option.bind (read_digits 4 0 s0) (\<lambda>(y, s1). Option.bind (expect CHR ''-'' s1) (\<lambda>s2.
     Option.bind (read_digits 2 0 s2) (\<lambda>(m, s3). Option.bind (expect CHR ''-'' s3) (\<lambda>s4.
     Option.bind (read_digits 2 0 s4) (\<lambda>(d, s5).
       if 1 \<le> y \<and> 1 \<le> m \<and> m \<le> 12 \<and> 1 \<le> d \<and> d \<le> days_in_month y m
       then Some (ymd2ord y m d, s5) else None)))))"

text \<open>The fraction: any number of digits, of which the first six count.\<close>

definition is_digit :: "char \<Rightarrow> bool" where "is_digit c \<longleftrightarrow> char_digit c \<noteq> None"

definition read_frac :: "string \<Rightarrow> (nat \<times> string) option" where
  "read_frac s =
     (case s of
        [] \<Rightarrow> Some (0, [])
      | c # r \<Rightarrow>
          if c = CHR ''.'' then
            (let ds = takeWhile is_digit r; k = min 6 (length ds) in
             if ds = [] then None
             else map_option (\<lambda>(v, _). (v * 10 ^ (6 - k), dropWhile is_digit r)) (read_digits k 0 r))
          else Some (0, s))"

text \<open>\<open>HH[:MM[:SS[.f]]]\<close>, in microseconds.\<close>

definition read_clock :: "string \<Rightarrow> (nat \<times> string) option" where
  "read_clock s0 =
     Option.bind (read_digits 2 0 s0) (\<lambda>(h, s1).
       if 24 \<le> h then None else
       (case expect CHR '':'' s1 of
          None \<Rightarrow> Some (h * 3600000000, s1)
        | Some s2 \<Rightarrow> Option.bind (read_digits 2 0 s2) (\<lambda>(mi, s3).
            if 60 \<le> mi then None else
            (case expect CHR '':'' s3 of
               None \<Rightarrow> Some (h * 3600000000 + mi * 60000000, s3)
             | Some s4 \<Rightarrow> Option.bind (read_digits 2 0 s4) (\<lambda>(sec, s5).
                 if 60 \<le> sec then None else
                 map_option (\<lambda>(us, s6). (h * 3600000000 + mi * 60000000 + sec * 1000000 + us, s6))
                   (read_frac s5))))))"

definition read_offset :: "string \<Rightarrow> int option option" where
  "read_offset s =
     (case s of
        [] \<Rightarrow> Some None
      | c # r \<Rightarrow>
          if c = CHR ''Z'' then (if r = [] then Some (Some 0) else None)
          else if c = CHR ''+'' \<or> c = CHR ''-'' then
            (case read_clock r of
               Some (us, []) \<Rightarrow> Some (Some (if c = CHR ''+'' then int us else - int us))
             | _ \<Rightarrow> None)
          else None)"

text \<open>A parsed datetime: its wall-clock microseconds and, when aware, its UTC offset.\<close>

definition fromisoformat :: "string \<Rightarrow> (int \<times> int option) option" where
  "fromisoformat s0 =
     Option.bind (read_date s0) (\<lambda>(day, s1).
       (case s1 of
          [] \<Rightarrow> Some (int day * us_per_day, None)
        | _ # s2 \<Rightarrow> Option.bind (read_clock s2) (\<lambda>(us, s3).
            Option.bind (read_offset s3) (\<lambda>off. Some (int day * us_per_day + int us, off)))))"

definition replace_Z :: "string \<Rightarrow> string" where
  "replace_Z s = concat (map (\<lambda>c. if c = CHR ''Z'' then ''+00:00'' else [c]) s)"

text \<open>\<open>datetime.fromisoformat(value.replace("Z", "+00:00"))\<close>, a naive result read as UTC.\<close>

definition parse_iso :: "string \<Rightarrow> int res" where
  "parse_iso s =
     (case fromisoformat (replace_Z s) of
        None \<Rightarrow> raise ValueError (''Invalid isoformat string: '' @ s)
      | Some (t, None) \<Rightarrow> Inr t
      | Some (t, Some off) \<Rightarrow> Inr (t - off))"

section \<open>The round trip\<close>

lemma read_digits_add:
  "read_digits (j + k) acc s = Option.bind (read_digits j acc s) (\<lambda>(a, r). read_digits k a r)"
  by (induction j arbitrary: acc s) (auto split: option.splits, case_tac s, auto split: option.splits)

lemma read_digits_pad:
  "n < 10 ^ k \<Longrightarrow> read_digits k acc (pad k n @ s) = Some (acc * 10 ^ k + n, s)"
proof (induction k arbitrary: n s)
  case 0
  then show ?case by simp
next
  case (Suc k)
  then have "n div 10 < 10 ^ k" by (simp add: div_less_iff_less_mult)
  then have "read_digits k acc (pad k (n div 10) @ digit_char (n mod 10) # s) =
      Some (acc * 10 ^ k + n div 10, digit_char (n mod 10) # s)"
    by (rule Suc.IH)
  then show ?case
    using read_digits_add [of k 1 acc "pad k (n div 10) @ digit_char (n mod 10) # s"]
    by (simp add: algebra_simps)
qed

lemma digits_pad: "c \<in> set (pad k n) \<Longrightarrow> is_digit c"
  by (induction k arbitrary: n) (auto simp: is_digit_def)

lemma not_digits [simp]: "\<not> is_digit CHR ''+''" "\<not> is_digit CHR ''Z''"
  by (simp_all add: is_digit_def char_digit_def)

lemma length_pad [simp]: "length (pad k n) = k"
  by (induction k arbitrary: n) auto

lemma replace_Z_id: "CHR ''Z'' \<notin> set s \<Longrightarrow> replace_Z s = s"
  by (induction s) (auto simp: replace_Z_def)

lemma no_Z_pad [simp]: "CHR ''Z'' \<notin> set (pad k n)"
  using digits_pad not_digits(2) by blast

lemma takeWhile_pad: "takeWhile is_digit (pad k n @ CHR ''+'' # s) = pad k n"
  by (simp add: takeWhile_append digits_pad)

lemma dropWhile_pad: "dropWhile is_digit (pad k n @ CHR ''+'' # s) = CHR ''+'' # s"
  by (simp add: dropWhile_append digits_pad)

lemma read_frac_pad:
  "us < 1000000 \<Longrightarrow>
     read_frac ((if us = 0 then [] else ''.'' @ pad 6 us) @ CHR ''+'' # s) = Some (us, CHR ''+'' # s)"
  using read_digits_pad [of us 6 0 "CHR ''+'' # s"] length_pad [of 6 us]
  by (auto simp: read_frac_def takeWhile_pad dropWhile_pad Let_def simp del: length_pad)

lemma read_clock_fmt:
  assumes "h < 24" "mi < 60" "sec < 60" "us < 1000000"
  shows "read_clock (pad 2 h @ '':'' @ pad 2 mi @ '':'' @ pad 2 sec @
           (if us = 0 then '''' else ''.'' @ pad 6 us) @ CHR ''+'' # s) =
         Some (h * 3600000000 + mi * 60000000 + sec * 1000000 + us, CHR ''+'' # s)"
  using assms read_frac_pad [of us s]
  by (simp add: read_clock_def read_digits_pad del: pad.simps)

lemma read_offset_utc: "read_offset ''+00:00'' = Some (Some 0)"
  by (simp add: read_offset_def read_clock_def numeral_2_eq_2 char_digit_def)

lemma hms_split: "n div 3600 * 3600 + n div 60 mod 60 * 60 + n mod 60 = (n::nat)"
proof -
  have "n div 3600 = n div 60 div 60" by (simp add: div_mult2_eq [symmetric])
  moreover have "n div 60 div 60 * 60 + n div 60 mod 60 = n div 60" by simp
  moreover have "n div 60 * 60 + n mod 60 = n" by simp
  ultimately show ?thesis by linarith
qed

lemma read_date_fmt:
  assumes "ord2ymd n = (y, m, d)" "y < 10000"
  shows "read_date (pad 4 y @ ''-'' @ pad 2 m @ ''-'' @ pad 2 d @ s) = Some (n, s)"
proof -
  note b = ord2ymd_props [OF assms(1)]
  have "d < 100" using b(4) by (auto simp: days_in_month_def split: if_splits)
  with b assms(2) show ?thesis
    by (simp add: read_date_def read_digits_pad del: pad.simps)
qed

lemma year_bound: "n < 3652059 \<Longrightarrow> year_of n < 10000"
proof (rule ccontr)
  assume n: "n < 3652059" and "\<not> year_of n < 10000"
  then have y: "9999 \<le> year_of n - 1" by simp
  define p where "p = year_of n - 1"
  have "days_before_year (year_of n) = 365 * p + p div 4 - p div 100 + p div 400"
    by (simp add: days_before_year_def p_def Let_def)
  moreover have "365 * 9999 + 2424 \<le> 365 * p + p div 4 - p div 100 + p div 400"
    using y unfolding p_def [symmetric] by linarith
  ultimately show False using year_of_bounds(1) [of n] n by linarith
qed

theorem isoformat_roundtrip:
  assumes "valid_instant t"
  shows "parse_iso (isoformat t) = Inr t"
proof -
  define u us s sod day where "u = nat t" and "us = u mod 1000000" and "s = u div 1000000"
    and "sod = s mod 86400" and "day = s div 86400"
  obtain y m d where ymd: "ord2ymd day = (y, m, d)" by (cases "ord2ymd day") auto
  have tu: "t = int u" using assms by (simp add: u_def valid_instant_def)
  then have "u < 3652059 * 86400000000"
    using assms by (simp add: valid_instant_def max_instant_def us_per_day_def)
  then have "day < 3652059" unfolding day_def s_def by linarith
  then have "y < 10000"
    using year_bound [of day] ymd by (auto simp: ord2ymd_def Let_def)
  let ?tail = "pad 2 (sod div 3600) @ '':'' @ pad 2 (sod div 60 mod 60) @ '':'' @ pad 2 (sod mod 60) @
         (if us = 0 then '''' else ''.'' @ pad 6 us) @ ''+00:00''"
  have fmt: "isoformat t = pad 4 y @ ''-'' @ pad 2 m @ ''-'' @ pad 2 d @ CHR ''T'' # ?tail"
    using ymd by (simp add: isoformat_def Let_def u_def us_def s_def sod_def day_def)
  have noZ: "replace_Z (isoformat t) = isoformat t"
    by (rule replace_Z_id) (simp add: fmt del: pad.simps)
  have sod: "sod < 86400" "sod div 3600 < 24" by (simp_all add: sod_def div_less_iff_less_mult)
  have clock: "read_clock ?tail =
      Some (sod div 3600 * 3600000000 + sod div 60 mod 60 * 60000000 + sod mod 60 * 1000000 + us, ''+00:00'')"
    using sod by (intro read_clock_fmt) (auto simp: us_def)
  have us_eq: "sod div 3600 * 3600000000 + sod div 60 mod 60 * 60000000 + sod mod 60 * 1000000 + us
      = sod * 1000000 + us" using hms_split [of sod] by linarith
  have "s div 86400 * 86400 + s mod 86400 = s" "u div 1000000 * 1000000 + u mod 1000000 = u"
    by simp_all
  then have "day * 86400000000 + (sod * 1000000 + us) = u"
    unfolding day_def [symmetric] sod_def [symmetric] us_def [symmetric] s_def [symmetric] by linarith
  then have tot: "int day * us_per_day + int (sod * 1000000 + us) = t"
    by (simp add: us_per_day_def tu flip: \<open>day * 86400000000 + (sod * 1000000 + us) = u\<close>)
  have "fromisoformat (isoformat t) = Some (t, Some 0)"
    unfolding fromisoformat_def fmt read_date_fmt [OF ymd \<open>y < 10000\<close>]
    using clock us_eq tot by (simp add: read_offset_utc del: pad.simps)
  then show ?thesis by (simp add: parse_iso_def noZ)
qed

text \<open>The weekday, Monday being 0.\<close>

definition weekday :: "nat \<Rightarrow> nat" where "weekday day = day mod 7"

section \<open>The interface of textual timestamps\<close>

locale iso_codec =
  fixes fmt :: "int \<Rightarrow> string"
    and parse :: "string \<Rightarrow> int res"
    and valid :: "int \<Rightarrow> bool"
  assumes parse_fmt: "valid t \<Longrightarrow> parse (fmt t) = Inr t"
begin

lemma fmt_inj: "valid s \<Longrightarrow> valid t \<Longrightarrow> fmt s = fmt t \<longleftrightarrow> s = t"
  by (metis parse_fmt sum.inject(2))

lemma parse_fmt_later: "valid (t + d) \<Longrightarrow> parse (fmt (t + d)) = Inr (t + d)"
  by (rule parse_fmt)

end

interpretation iso: iso_codec isoformat parse_iso valid_instant
  by unfold_locales (rule isoformat_roundtrip)

end
