(* ===== verification/Effects.thy ===== *)
theory Effects
  imports Operation PyTime
begin

text \<open>
  The effects of the execution layer, threaded explicitly: a state holding the clock readings taken
  so far, the external calls made so far, the simulated world of the execution context and the
  operation journal; and computations that return a value or raise, keeping the state changed so
  far in both cases. What lies outside the program (the readings of the clock, the replies of
  subprocesses and signals, \<open>sha256\<close> over \<open>json.dumps\<close>, \<open>json.loads\<close> and \<open>repr\<close> of a float) is an
  argument, a record of functions. Triples with an exceptional postcondition give the proof rules.
\<close>

section \<open>State and outside world\<close>

datatype ext_call =
    Run_Command "string list" "string option" "(string, string) dict" int
  | Spawn "string list" "string option" "(string, string) dict"
  | Signal int int

datatype run_reply = Finished int string string | Timed_Out | Run_Error string

datatype spawn_reply = Started int | Spawn_Error string

datatype signal_reply = Delivered | No_Such_Process | Signal_Error string

record rt_state =
  rs_clock :: nat
  rs_calls :: "ext_call list"
  rs_world :: world
  rs_journal :: journal

record environment =
  env_now :: "nat \<Rightarrow> int"
  env_run :: "ext_call list \<Rightarrow> ext_call \<Rightarrow> run_reply"
  env_spawn :: "ext_call list \<Rightarrow> ext_call \<Rightarrow> spawn_reply"
  env_signal :: "ext_call list \<Rightarrow> ext_call \<Rightarrow> signal_reply"
  env_digest :: "json \<Rightarrow> string"
  env_json_loads :: "string \<Rightarrow> json option"
  env_float_repr :: "rat \<Rightarrow> string"

section \<open>Computations\<close>

type_synonym 'a rt = "rt_state \<Rightarrow> 'a res \<times> rt_state"

definition rt_return :: "'a \<Rightarrow> 'a rt" where
  "rt_return x s = (Inr x, s)"

definition rt_lift :: "'a res \<Rightarrow> 'a rt" where
  "rt_lift r s = (r, s)"

definition rt_raise :: "exn \<Rightarrow> string \<Rightarrow> 'a rt" where
  "rt_raise e m = rt_lift (raise e m)"

definition rt_bind :: "'a rt \<Rightarrow> ('a \<Rightarrow> 'b rt) \<Rightarrow> 'b rt" where
  "rt_bind m f s = (case m s of (Inl e, s') \<Rightarrow> (Inl e, s') | (Inr x, s') \<Rightarrow> f x s')"

definition rt_then :: "unit rt \<Rightarrow> 'b rt \<Rightarrow> 'b rt" where
  "rt_then m k = rt_bind m (\<lambda>_. k)"

definition rt_now :: "environment \<Rightarrow> int rt" where
  "rt_now E s = (Inr (env_now E (rs_clock s)), s\<lparr>rs_clock := Suc (rs_clock s)\<rparr>)"

definition rt_now_iso :: "environment \<Rightarrow> string rt" where
  "rt_now_iso E = rt_bind (rt_now E) (\<lambda>t. rt_return (isoformat t))"

definition rt_get_world :: "world rt" where
  "rt_get_world s = (Inr (rs_world s), s)"

definition rt_put_world :: "world \<Rightarrow> unit rt" where
  "rt_put_world w s = (Inr (), s\<lparr>rs_world := w\<rparr>)"

definition rt_run :: "environment \<Rightarrow> ext_call \<Rightarrow> run_reply rt" where
  "rt_run E c s = (Inr (env_run E (rs_calls s) c), s\<lparr>rs_calls := rs_calls s @ [c]\<rparr>)"

definition rt_spawn :: "environment \<Rightarrow> ext_call \<Rightarrow> spawn_reply rt" where
  "rt_spawn E c s = (Inr (env_spawn E (rs_calls s) c), s\<lparr>rs_calls := rs_calls s @ [c]\<rparr>)"

definition rt_signal :: "environment \<Rightarrow> ext_call \<Rightarrow> signal_reply rt" where
  "rt_signal E c s = (Inr (env_signal E (rs_calls s) c), s\<lparr>rs_calls := rs_calls s @ [c]\<rparr>)"

definition rt_save :: "operation_run \<Rightarrow> unit rt" where
  "rt_save op s = (Inr (), s\<lparr>rs_journal := journal_save op (rs_journal s)\<rparr>)"

definition rt_load :: "string \<Rightarrow> operation_run rt" where
  "rt_load i s = (journal_load (rs_journal s) i, s)"

primrec rt_foreach :: "('a \<Rightarrow> unit rt) \<Rightarrow> 'a list \<Rightarrow> unit rt" where
  "rt_foreach f [] = rt_return ()"
| "rt_foreach f (x # xs) = rt_then (f x) (rt_foreach f xs)"

primrec rt_map :: "('a \<Rightarrow> 'b rt) \<Rightarrow> 'a list \<Rightarrow> 'b list rt" where
  "rt_map f [] = rt_return []"
| "rt_map f (x # xs) =
     rt_bind (f x) (\<lambda>y. rt_bind (rt_map f xs) (\<lambda>ys. rt_return (y # ys)))"

section \<open>Proof rules\<close>

text \<open>From a state satisfying \<open>P\<close>, a result satisfies \<open>Q\<close> and an exception leaves a state
  satisfying \<open>F\<close>.\<close>

definition triple ::
    "(rt_state \<Rightarrow> bool) \<Rightarrow> 'a rt \<Rightarrow> ('a \<Rightarrow> rt_state \<Rightarrow> bool) \<Rightarrow> (rt_state \<Rightarrow> bool) \<Rightarrow> bool" where
  "triple P m Q F \<longleftrightarrow>
     (\<forall>s. P s \<longrightarrow> (case m s of (Inl e, s') \<Rightarrow> F s' | (Inr x, s') \<Rightarrow> Q x s'))"

named_theorems triple_rules \<open>introduction rules for triples\<close>

lemma tripleD: "triple P m Q F \<Longrightarrow> P s \<Longrightarrow> m s = (Inr x, s') \<Longrightarrow> Q x s'"
  by (fastforce simp: triple_def)

lemma tripleE: "triple P m Q F \<Longrightarrow> P s \<Longrightarrow> m s = (Inl e, s') \<Longrightarrow> F s'"
  by (fastforce simp: triple_def)

lemma tripleI:
  "(\<And>s x s'. P s \<Longrightarrow> m s = (Inr x, s') \<Longrightarrow> Q x s') \<Longrightarrow>
   (\<And>s e s'. P s \<Longrightarrow> m s = (Inl e, s') \<Longrightarrow> F s') \<Longrightarrow> triple P m Q F"
  by (auto simp: triple_def split: sum.split)

lemma triple_conseq:
  "triple P' m Q' F' \<Longrightarrow> (\<And>s. P s \<Longrightarrow> P' s) \<Longrightarrow> (\<And>x s. Q' x s \<Longrightarrow> Q x s) \<Longrightarrow>
     (\<And>s. F' s \<Longrightarrow> F s) \<Longrightarrow> triple P m Q F"
  by (fastforce simp: triple_def split: sum.splits)

lemma triple_return [triple_rules]: "(\<And>s. P s \<Longrightarrow> Q x s) \<Longrightarrow> triple P (rt_return x) Q F"
  by (simp add: triple_def rt_return_def)

lemma triple_lift [triple_rules]:
  "(\<And>s x. P s \<Longrightarrow> r = Inr x \<Longrightarrow> Q x s) \<Longrightarrow> (\<And>s. P s \<Longrightarrow> F s) \<Longrightarrow> triple P (rt_lift r) Q F"
  by (simp add: triple_def rt_lift_def split: sum.split)

lemma triple_raise [triple_rules]: "(\<And>s. P s \<Longrightarrow> F s) \<Longrightarrow> triple P (rt_raise e m) Q F"
  by (simp add: triple_def rt_raise_def rt_lift_def raise_def)

lemma triple_bind [triple_rules]:
  "triple P m R F \<Longrightarrow> (\<And>x. triple (R x) (f x) Q F) \<Longrightarrow> triple P (rt_bind m f) Q F"
  by (fastforce simp: triple_def rt_bind_def split: sum.splits prod.splits)

lemma triple_then [triple_rules]:
  "triple P m (\<lambda>_. R) F \<Longrightarrow> triple R k Q F \<Longrightarrow> triple P (rt_then m k) Q F"
  unfolding rt_then_def by (rule triple_bind)

lemma triple_if [triple_rules]:
  "(b \<Longrightarrow> triple P m Q F) \<Longrightarrow> (\<not> b \<Longrightarrow> triple P k Q F) \<Longrightarrow> triple P (if b then m else k) Q F"
  by simp

lemma triple_foreach:
  "(\<And>x. x \<in> set xs \<Longrightarrow> triple P (f x) (\<lambda>_. P) F) \<Longrightarrow> triple P (rt_foreach f xs) (\<lambda>_. P) F"
  by (induction xs) (auto intro!: triple_rules)

lemma triple_map:
  "(\<And>x. x \<in> set xs \<Longrightarrow> triple P (f x) (\<lambda>_. P) F) \<Longrightarrow> triple P (rt_map f xs) (\<lambda>_. P) F"
  by (induction xs) (auto intro!: triple_rules)

text \<open>A computation that keeps a relation between the state before and every state after it.\<close>

definition keeps :: "(rt_state \<Rightarrow> 'b) \<Rightarrow> 'a rt \<Rightarrow> bool" where
  "keeps g m \<longleftrightarrow> (\<forall>s. g (snd (m s)) = g s)"

named_theorems keeps_rules \<open>computations that leave a part of the state alone\<close>

lemma keepsD: "keeps g m \<Longrightarrow> m s = (r, s') \<Longrightarrow> g s' = g s"
  unfolding keeps_def by (metis snd_conv)

lemma keeps_return [keeps_rules]: "keeps g (rt_return x)"
  by (simp add: keeps_def rt_return_def)

lemma keeps_lift [keeps_rules]: "keeps g (rt_lift r)"
  by (simp add: keeps_def rt_lift_def)

lemma keeps_raise [keeps_rules]: "keeps g (rt_raise e m)"
  by (simp add: keeps_def rt_raise_def rt_lift_def)

lemma keeps_bind [keeps_rules]: "keeps g m \<Longrightarrow> (\<And>x. keeps g (f x)) \<Longrightarrow> keeps g (rt_bind m f)"
  unfolding keeps_def rt_bind_def by (auto split: sum.splits prod.splits) (metis snd_conv)+

lemma keeps_then [keeps_rules]: "keeps g m \<Longrightarrow> keeps g k \<Longrightarrow> keeps g (rt_then m k)"
  unfolding rt_then_def by (rule keeps_bind)

lemma keeps_if [keeps_rules]: "keeps g m \<Longrightarrow> keeps g k \<Longrightarrow> keeps g (if b then m else k)"
  by simp

lemma keeps_foreach [keeps_rules]: "(\<And>x. keeps g (f x)) \<Longrightarrow> keeps g (rt_foreach f xs)"
  by (induction xs) (auto intro!: keeps_rules)

lemma keeps_map [keeps_rules]: "(\<And>x. keeps g (f x)) \<Longrightarrow> keeps g (rt_map f xs)"
  by (induction xs) (auto intro!: keeps_rules)

lemma keeps_triple: "keeps g m \<Longrightarrow> triple (\<lambda>s. P (g s)) m (\<lambda>_ s. P (g s)) (\<lambda>s. P (g s))"
  by (auto simp: triple_def keeps_def split: sum.splits) (metis snd_conv)+

lemma keeps_now [keeps_rules]:
  "keeps rs_calls (rt_now E)" "keeps rs_world (rt_now E)" "keeps rs_journal (rt_now E)"
  "keeps rs_calls (rt_now_iso E)" "keeps rs_world (rt_now_iso E)" "keeps rs_journal (rt_now_iso E)"
  by (auto simp: keeps_def rt_now_iso_def rt_now_def rt_bind_def rt_return_def)

lemma keeps_world_ops [keeps_rules]:
  "keeps g rt_get_world" "keeps rs_calls (rt_put_world w)" "keeps rs_journal (rt_put_world w)"
  by (auto simp: keeps_def rt_get_world_def rt_put_world_def)

lemma keeps_calls [keeps_rules]:
  "keeps rs_journal (rt_run E c)" "keeps rs_journal (rt_spawn E c)" "keeps rs_journal (rt_signal E c)"
  "keeps rs_world (rt_run E c)" "keeps rs_world (rt_spawn E c)" "keeps rs_world (rt_signal E c)"
  by (auto simp: keeps_def rt_run_def rt_spawn_def rt_signal_def)

lemma keeps_store [keeps_rules]:
  "keeps rs_calls (rt_save op)" "keeps rs_world (rt_save op)" "keeps g (rt_load i)"
  by (auto simp: keeps_def rt_save_def rt_load_def)

text \<open>Every result of the computation, from every state, satisfies \<open>Q\<close>.\<close>

definition yields :: "'a rt \<Rightarrow> ('a \<Rightarrow> bool) \<Rightarrow> bool" where
  "yields m Q \<longleftrightarrow> (\<forall>s x s'. m s = (Inr x, s') \<longrightarrow> Q x)"

named_theorems yields_rules \<open>what a computation returns\<close>

lemma yieldsD: "yields m Q \<Longrightarrow> m s = (Inr x, s') \<Longrightarrow> Q x"
  unfolding yields_def by blast

lemma yields_return [yields_rules]: "Q x \<Longrightarrow> yields (rt_return x) Q"
  by (simp add: yields_def rt_return_def)

lemma yields_raise [yields_rules]: "yields (rt_raise e m) Q"
  by (simp add: yields_def rt_raise_def rt_lift_def)

lemma yields_bind [yields_rules]: "(\<And>x. yields (f x) Q) \<Longrightarrow> yields (rt_bind m f) Q"
  by (auto simp: yields_def rt_bind_def split: sum.splits prod.splits)

lemma yields_seq: "yields m R \<Longrightarrow> (\<And>x. R x \<Longrightarrow> yields (f x) Q) \<Longrightarrow> yields (rt_bind m f) Q"
  by (fastforce simp: yields_def rt_bind_def split: sum.splits prod.splits)

lemma yields_then [yields_rules]: "yields k Q \<Longrightarrow> yields (rt_then m k) Q"
  unfolding rt_then_def by (rule yields_bind)

lemma yields_if [yields_rules]: "(b \<Longrightarrow> yields m Q) \<Longrightarrow> (\<not> b \<Longrightarrow> yields k Q) \<Longrightarrow> yields (if b then m else k) Q"
  by simp

lemma keeps_case [keeps_rules]:
  "(\<And>a b c. keeps g (f1 a b c)) \<Longrightarrow> keeps g f2 \<Longrightarrow> (\<And>m. keeps g (f3 m)) \<Longrightarrow>
     keeps g (case r of Finished a b c \<Rightarrow> f1 a b c | Timed_Out \<Rightarrow> f2 | Run_Error m \<Rightarrow> f3 m)"
  "(\<And>a. keeps g (g1 a)) \<Longrightarrow> (\<And>m. keeps g (g2 m)) \<Longrightarrow>
     keeps g (case sp of Started a \<Rightarrow> g1 a | Spawn_Error m \<Rightarrow> g2 m)"
  "keeps g h1 \<Longrightarrow> keeps g h2 \<Longrightarrow> (\<And>m. keeps g (h3 m)) \<Longrightarrow>
     keeps g (case sg of Delivered \<Rightarrow> h1 | No_Such_Process \<Rightarrow> h2 | Signal_Error m \<Rightarrow> h3 m)"
  "keeps g n \<Longrightarrow> (\<And>x. keeps g (k x)) \<Longrightarrow> keeps g (case opt of None \<Rightarrow> n | Some x \<Rightarrow> k x)"
  "(\<And>x y. keeps g (p x y)) \<Longrightarrow> keeps g (case z of (x, y) \<Rightarrow> p x y)"
  by ((cases r; simp), (cases sp; simp), (cases sg; simp), (cases opt; simp), (cases z; simp))

lemma yields_case [yields_rules]:
  "(\<And>a b c. yields (f1 a b c) Q) \<Longrightarrow> yields f2 Q \<Longrightarrow> (\<And>m. yields (f3 m) Q) \<Longrightarrow>
     yields (case r of Finished a b c \<Rightarrow> f1 a b c | Timed_Out \<Rightarrow> f2 | Run_Error m \<Rightarrow> f3 m) Q"
  "(\<And>a. yields (g1 a) Q) \<Longrightarrow> (\<And>m. yields (g2 m) Q) \<Longrightarrow>
     yields (case sp of Started a \<Rightarrow> g1 a | Spawn_Error m \<Rightarrow> g2 m) Q"
  "yields h1 Q \<Longrightarrow> yields h2 Q \<Longrightarrow> (\<And>m. yields (h3 m) Q) \<Longrightarrow>
     yields (case sg of Delivered \<Rightarrow> h1 | No_Such_Process \<Rightarrow> h2 | Signal_Error m \<Rightarrow> h3 m) Q"
  "yields n Q \<Longrightarrow> (\<And>x. yields (k x) Q) \<Longrightarrow> yields (case opt of None \<Rightarrow> n | Some x \<Rightarrow> k x) Q"
  "(\<And>x y. yields (p x y) Q) \<Longrightarrow> yields (case z of (x, y) \<Rightarrow> p x y) Q"
  by ((cases r; simp), (cases sp; simp), (cases sg; simp), (cases opt; simp), (cases z; simp))

lemma triple_case [triple_rules]:
  "(\<And>a b c. triple P (f1 a b c) Q F) \<Longrightarrow> triple P f2 Q F \<Longrightarrow> (\<And>m. triple P (f3 m) Q F) \<Longrightarrow>
     triple P (case r of Finished a b c \<Rightarrow> f1 a b c | Timed_Out \<Rightarrow> f2 | Run_Error m \<Rightarrow> f3 m) Q F"
  "(\<And>a. triple P (g1 a) Q F) \<Longrightarrow> (\<And>m. triple P (g2 m) Q F) \<Longrightarrow>
     triple P (case sp of Started a \<Rightarrow> g1 a | Spawn_Error m \<Rightarrow> g2 m) Q F"
  "triple P h1 Q F \<Longrightarrow> triple P h2 Q F \<Longrightarrow> (\<And>m. triple P (h3 m) Q F) \<Longrightarrow>
     triple P (case sg of Delivered \<Rightarrow> h1 | No_Such_Process \<Rightarrow> h2 | Signal_Error m \<Rightarrow> h3 m) Q F"
  "(\<And>x y. triple P (p x y) Q F) \<Longrightarrow> triple P (case z of (x, y) \<Rightarrow> p x y) Q F"
  by ((cases r; simp), (cases sp; simp), (cases sg; simp), (cases z; simp))

text \<open>Running a computation one step at a time.\<close>

lemma rt_bind_Inr_iff:
  "rt_bind m f s = (Inr y, s') \<longleftrightarrow> (\<exists>x s1. m s = (Inr x, s1) \<and> f x s1 = (Inr y, s'))"
  by (auto simp: rt_bind_def split: sum.splits prod.splits)

lemma rt_then_Inr_iff:
  "rt_then m k s = (Inr y, s') \<longleftrightarrow> (\<exists>s1. m s = (Inr (), s1) \<and> k s1 = (Inr y, s'))"
  by (simp add: rt_then_def rt_bind_Inr_iff)

lemma rt_return_Inr_iff: "rt_return x s = (Inr y, s') \<longleftrightarrow> y = x \<and> s' = s"
  by (auto simp: rt_return_def)

lemma rt_save_eq: "rt_save op s = (Inr (), s\<lparr>rs_journal := journal_save op (rs_journal s)\<rparr>)"
  by (simp add: rt_save_def)

lemma rt_now_iso_eq:
  "rt_now_iso E s = (Inr (isoformat (env_now E (rs_clock s))), s\<lparr>rs_clock := Suc (rs_clock s)\<rparr>)"
  by (simp add: rt_now_iso_def rt_now_def rt_bind_def rt_return_def)

lemma rt_bind_return [simp]: "rt_bind (rt_return x) f = f x"
  by (rule ext) (simp add: rt_bind_def rt_return_def)

lemma rt_bind_assoc: "rt_bind (rt_bind m f) g = rt_bind m (\<lambda>x. rt_bind (f x) g)"
  by (rule ext) (auto simp: rt_bind_def split: sum.split prod.split)

end
