(* ===== verification/PyText.thy ===== *)
theory PyText
  imports PyValue
begin

text \<open>
  The string functions and conversions of Python that the code uses: stripping, \<open>int(x)\<close>, suffixes,
  substrings, lower case and single-character replacement.
\<close>

definition is_space :: "char \<Rightarrow> bool" where
  "is_space c = (let n = of_char c :: nat in n = 32 \<or> (9 \<le> n \<and> n \<le> 13) \<or> (28 \<le> n \<and> n \<le> 31))"

definition strip :: "string \<Rightarrow> string" where
  "strip s = rev (dropWhile is_space (rev (dropWhile is_space s)))"

text \<open>Decimal digits with single underscores between digits; the flag says a digit came last.\<close>

fun int_digits :: "bool \<Rightarrow> int \<Rightarrow> string \<Rightarrow> int option" where
  "int_digits ok acc [] = (if ok then Some acc else None)"
| "int_digits ok acc (c # s) =
     (case char_digit c of
        Some d \<Rightarrow> int_digits True (10 * acc + int d) s
      | None \<Rightarrow> if c = CHR ''_'' \<and> ok then int_digits False acc s else None)"

definition parse_int :: "string \<Rightarrow> int option" where
  "parse_int s0 =
     (case strip s0 of
        [] \<Rightarrow> None
      | c # s \<Rightarrow>
          if c = CHR ''-'' then map_option uminus (int_digits False 0 s)
          else if c = CHR ''+'' then int_digits False 0 s
          else int_digits False 0 (c # s))"

definition py_int :: "json \<Rightarrow> int res" where
  "py_int v =
     (case v of
        JInt i \<Rightarrow> Inr i
      | JBool b \<Rightarrow> Inr (if b then 1 else 0)
      | JFloat r \<Rightarrow> Inr (if r < 0 then - \<lfloor>- r\<rfloor> else \<lfloor>r\<rfloor>)
      | JStr s \<Rightarrow> (case parse_int s of
          Some i \<Rightarrow> Inr i
        | None \<Rightarrow> raise ValueError (''invalid literal for int() with base 10: '' @ repr_str s))
      | _ \<Rightarrow> raise TypeError ''int() argument must be a string or a real number'')"

definition ends_with :: "string \<Rightarrow> string \<Rightarrow> bool" where
  "ends_with suf s \<longleftrightarrow> length suf \<le> length s \<and> drop (length s - length suf) s = suf"

fun has_substring :: "string \<Rightarrow> string \<Rightarrow> bool" where
  "has_substring sub [] = (sub = [])"
| "has_substring sub (c # s) = (take (length sub) (c # s) = sub \<or> has_substring sub s)"

definition lower_char :: "char \<Rightarrow> char" where
  "lower_char c = (let n = of_char c :: nat in if 65 \<le> n \<and> n \<le> 90 then char_of (n + 32) else c)"

definition lower :: "string \<Rightarrow> string" where
  "lower s = map lower_char s"

text \<open>\<open>s.replace(a, b)\<close> for one-character strings.\<close>

definition replace_char :: "char \<Rightarrow> char \<Rightarrow> string \<Rightarrow> string" where
  "replace_char a b s = map (\<lambda>c. if c = a then b else c) s"

end
