(* ===== verification/Executors.thy ===== *)
theory Executors
  imports Effects PyText
begin

text \<open>
  \<open>execution/executors.py\<close>: the execution context, the registry of executors and the executors
  themselves. An executor turns one authorised action into a receipt; what it does outside the
  program is an external call. The interface \<open>executor_contract\<close> is what the operation runtime
  relies on: the receipt belongs to the action, the operation and the attempt, and the journal is
  not touched. Every executor of the default registry is shown to meet it.
\<close>

section \<open>Python values as text and numbers\<close>

definition py_str :: "environment \<Rightarrow> json \<Rightarrow> string" where
  "py_str E v = (case v of JStr s \<Rightarrow> s | _ \<Rightarrow> py_repr (env_float_repr E) v)"

text \<open>\<open>Path(s).name\<close> of a POSIX path.\<close>

definition path_name :: "string \<Rightarrow> string" where
  "path_name s =
     (let ps = filter (\<lambda>p. p \<noteq> [] \<and> p \<noteq> ''.'') (split_on CHR ''/'' s) in if ps = [] then [] else last ps)"

text \<open>\<open>action.parameters[name]\<close>.\<close>

definition param :: "action_instance \<Rightarrow> string \<Rightarrow> json res" where
  "param a name =
     (case dget (act_parameters a) name of None \<Rightarrow> raise KeyError name | Some v \<Rightarrow> Inr v)"

section \<open>Context and registry\<close>

record execution_context =
  ec_operation_id :: string
  ec_mode :: string
  ec_environment_id :: string
  ec_working_directory :: "string option"
  ec_environment :: "(string, string) dict"
  ec_executable_allowlist :: "string set"
  ec_command_timeout_seconds :: int
  ec_metadata :: fields

definition default_allowlist :: "string set" where
  "default_allowlist = {''docker'', ''kubectl'', ''systemctl'', ''service'', ''kill''}"

record executor =
  ex_id :: string
  ex_execute :: "action_instance \<Rightarrow> action_type \<Rightarrow> execution_context \<Rightarrow> nat \<Rightarrow> action_receipt rt"

type_synonym executor_registry = "(string, executor) dict"

definition executor_register :: "executor \<Rightarrow> executor_registry \<Rightarrow> executor_registry res" where
  "executor_register x r =
     (if dget r (ex_id x) \<noteq> None
      then raise ValueError (''executor '' @ repr_str (ex_id x) @ '' is already registered'')
      else Inr (dset (ex_id x) x r))"

definition executor_get :: "executor_registry \<Rightarrow> string \<Rightarrow> executor res" where
  "executor_get r i =
     (case dget r i of None \<Rightarrow> raise KeyError (''unknown executor '' @ repr_str i) | Some x \<Rightarrow> Inr x)"

section \<open>Receipts\<close>

definition base_receipt ::
    "string \<Rightarrow> string \<Rightarrow> action_instance \<Rightarrow> string \<Rightarrow> receipt_status \<Rightarrow> nat \<Rightarrow> string \<Rightarrow> string \<Rightarrow> action_receipt" where
  "base_receipt suffix opid a exid st attempt started ended =
     \<lparr>rc_id = ''receipt:'' @ opid @ '':'' @ act_id a @ '':'' @ suffix, rc_operation_id = opid,
      rc_action_id = act_id a, rc_action_type_id = act_type_id a, rc_executor_id = exid, rc_status = st,
      rc_attempt = attempt, rc_started_at_iso = started, rc_completed_at_iso = ended,
      rc_exit_code = None, rc_stdout = '''', rc_stderr = '''', rc_observed_effects = [],
      rc_emitted_evidence_ids = [], rc_idempotency_key = act_idempotency_key a,
      rc_precondition_results = [], rc_before_state_hash = None, rc_after_state_hash = None,
      rc_metadata = []\<rparr>"

lemma base_receipt_fields [simp]:
  "rc_action_id (base_receipt x opid a exid st n t u) = act_id a"
  "rc_operation_id (base_receipt x opid a exid st n t u) = opid"
  "rc_action_type_id (base_receipt x opid a exid st n t u) = act_type_id a"
  "rc_executor_id (base_receipt x opid a exid st n t u) = exid"
  "rc_status (base_receipt x opid a exid st n t u) = st"
  "rc_attempt (base_receipt x opid a exid st n t u) = n"
  "rc_idempotency_key (base_receipt x opid a exid st n t u) = act_idempotency_key a"
  by (simp_all add: base_receipt_def)

abbreviation argv_json :: "string list \<Rightarrow> json" where
  "argv_json argv \<equiv> JList (map JStr argv)"

section \<open>The simulation executor\<close>

definition world_setdefault :: "string \<Rightarrow> world \<Rightarrow> world" where
  "world_setdefault i w = (case dget w i of None \<Rightarrow> dset i [] w | Some _ \<Rightarrow> w)"

definition sub_dict :: "string \<Rightarrow> fields \<Rightarrow> fields res" where
  "sub_dict k d =
     (case dget d k of
        None \<Rightarrow> Inr []
      | Some (JObj c) \<Rightarrow> Inr c
      | Some _ \<Rightarrow> raise AttributeError ''object has no attribute get'')"

definition desired_replicas :: "fields \<Rightarrow> json res" where
  "desired_replicas current =
     res_bind (sub_dict ''observed_state'' current) (\<lambda>observed.
     res_bind (sub_dict ''desired_state'' current) (\<lambda>desired.
       Inr (dget_default observed ''desired_replicas'' (dget_default desired ''replicas'' (JInt 1)))))"

definition effect :: "string \<Rightarrow> string \<Rightarrow> json \<Rightarrow> json" where
  "effect i path v = JObj [(''entity_id'', JStr i), (''path'', JStr path), (''value'', v)]"

text \<open>The effects of an action without explicit ones, on its first target.\<close>

definition default_effects :: "action_instance \<Rightarrow> string \<Rightarrow> json list rt" where
  "default_effects a t =
     rt_bind rt_get_world (\<lambda>w0.
     rt_then (rt_put_world (world_setdefault t w0))
     (let current = dget_default w0 t [] in
      if act_type_id a = ''kubernetes.workload.rollout_restart.v1'' then
        rt_bind (rt_lift (desired_replicas current)) (\<lambda>desired.
          rt_return [effect t ''observed_state.ready_replicas'' desired,
                     effect t ''observed_state.available_replicas'' desired])
      else if act_type_id a = ''docker.container.stop.v1'' then
        rt_return [effect t ''observed_state.ready'' (JBool False)]
      else if act_type_id a = ''docker.container.start.v1'' then
        rt_return [effect t ''observed_state.ready'' (JBool True)]
      else if act_type_id a = ''kubernetes.job.delete_terminal.v1'' then
        rt_bind rt_get_world (\<lambda>w. rt_then (rt_put_world (dpop t w)) (rt_return []))
      else rt_return []))"

text \<open>The walk along a dotted path with \<open>setdefault\<close>: an intermediate value that is no dictionary
  raises.\<close>

fun assign_parts :: "fields \<Rightarrow> string list \<Rightarrow> json \<Rightarrow> fields res" where
  "assign_parts d [] v = Inr d"
| "assign_parts d [p] v = Inr (dset p v d)"
| "assign_parts d (p # q # ps) v =
     (case (case dget d p of None \<Rightarrow> JObj [] | Some c \<Rightarrow> c) of
        JObj c \<Rightarrow> res_bind (assign_parts c (q # ps) v) (\<lambda>c'. Inr (dset p (JObj c') d))
      | _ \<Rightarrow> raise AttributeError ''object has no attribute setdefault'')"

definition apply_effect :: "json \<Rightarrow> unit rt" where
  "apply_effect eff =
     (case eff of
        JObj e \<Rightarrow>
          (case dget e ''entity_id'' of
             None \<Rightarrow> rt_raise KeyError ''entity_id''
           | Some (JStr i) \<Rightarrow>
               rt_bind rt_get_world (\<lambda>w0.
               rt_then (rt_put_world (world_setdefault i w0))
               (case dget_default e ''path'' (JStr ''status'') of
                  JStr path \<Rightarrow>
                    rt_bind (rt_lift (assign_parts (dget_default w0 i []) (split_dot path)
                      (dget_default e ''value'' JNull))) (\<lambda>target.
                      rt_put_world (dset i target (world_setdefault i w0)))
                | _ \<Rightarrow> rt_raise AttributeError ''object has no attribute split''))
           | Some _ \<Rightarrow> rt_raise TypeError ''entity ids are strings'')
      | _ \<Rightarrow> rt_raise TypeError ''effect is not subscriptable by name'')"

definition simulation_effects :: "action_instance \<Rightarrow> json list rt" where
  "simulation_effects a =
     rt_bind (rt_lift (iter_json (dget_default (act_parameters a) ''simulation_effects'' (JList [])))) (\<lambda>effects.
       (case act_target_ids a of
          t # _ \<Rightarrow> if effects = [] then default_effects a t else rt_return effects
        | [] \<Rightarrow> rt_return effects))"

definition simulation_execute ::
    "environment \<Rightarrow> action_instance \<Rightarrow> action_type \<Rightarrow> execution_context \<Rightarrow> nat \<Rightarrow> action_receipt rt" where
  "simulation_execute E a d ctx attempt =
     rt_bind (rt_now_iso E) (\<lambda>started.
     rt_bind (simulation_effects a) (\<lambda>effects.
     rt_then (rt_foreach apply_effect effects)
     (rt_bind (rt_now_iso E) (\<lambda>completed.
       rt_return ((base_receipt (nat_str attempt) (ec_operation_id ctx) a ''simulation'' Rc_Completed
           attempt started completed)
         \<lparr>rc_stdout := ''simulated action completed'', rc_observed_effects := at_expected_effects d,
          rc_metadata := [(''simulated'', JBool True)]\<rparr>)))))"

section \<open>Dry run and wait\<close>

definition dry_run_execute ::
    "environment \<Rightarrow> action_instance \<Rightarrow> action_type \<Rightarrow> execution_context \<Rightarrow> nat \<Rightarrow> action_receipt rt" where
  "dry_run_execute E a d ctx attempt =
     rt_bind (rt_now_iso E) (\<lambda>now.
       rt_return ((base_receipt ''dry-run'' (ec_operation_id ctx) a ''dry_run'' Rc_Skipped attempt now now)
         \<lparr>rc_stdout := ''dry run: no mutation executed'',
          rc_metadata := [(''dry_run'', JBool True), (''would_execute_with'', JStr (at_executor_id d))]\<rparr>))"

definition wait_execute ::
    "environment \<Rightarrow> action_instance \<Rightarrow> action_type \<Rightarrow> execution_context \<Rightarrow> nat \<Rightarrow> action_receipt rt" where
  "wait_execute E a d ctx attempt =
     rt_bind (rt_now_iso E) (\<lambda>now.
       (let sat = truthy (dget_default (act_parameters a) ''condition_satisfied'' (JBool False)) in
        rt_return ((base_receipt (nat_str attempt) (ec_operation_id ctx) a ''builtin.wait''
            (if sat then Rc_Completed else Rc_Failed) attempt now now)
          \<lparr>rc_stdout := (if sat then ''condition satisfied'' else ''condition not yet satisfied''),
           rc_observed_effects := (if sat then at_expected_effects d else [])\<rparr>)))"

section \<open>Processes\<close>

definition spawn_process :: "environment \<Rightarrow> string list \<Rightarrow> execution_context \<Rightarrow> int rt" where
  "spawn_process E argv ctx =
     rt_bind (rt_spawn E (Spawn argv (ec_working_directory ctx) (ec_environment ctx))) (\<lambda>r.
       (case r of Started pid \<Rightarrow> rt_return pid | Spawn_Error m \<Rightarrow> rt_raise OSError m))"

definition started_receipt ::
    "environment \<Rightarrow> string \<Rightarrow> action_instance \<Rightarrow> action_type \<Rightarrow> execution_context \<Rightarrow> nat \<Rightarrow> string \<Rightarrow>
     string list \<Rightarrow> action_receipt rt" where
  "started_receipt E exid a d ctx attempt started argv =
     rt_bind (spawn_process E argv ctx) (\<lambda>pid.
     rt_bind (rt_now_iso E) (\<lambda>ended.
       rt_return ((base_receipt (nat_str attempt) (ec_operation_id ctx) a exid Rc_Completed attempt started ended)
         \<lparr>rc_stdout := ''started pid '' @ int_str pid, rc_observed_effects := at_expected_effects d,
          rc_metadata := [(''argv'', argv_json argv), (''pid'', JInt pid)]\<rparr>)))"

definition port_forward_argv :: "environment \<Rightarrow> action_instance \<Rightarrow> string list res" where
  "port_forward_argv E a =
     res_bind (param a ''namespace'') (\<lambda>namespace.
     res_bind (param a ''resource'') (\<lambda>resource.
     res_bind (res_bind (param a ''local_port'') py_int) (\<lambda>local_port.
     res_bind (res_bind (param a ''remote_port'') py_int) (\<lambda>remote_port.
       Inr [''kubectl'', ''-n'', py_str E namespace, ''port-forward'', py_str E resource,
            int_str local_port @ '':'' @ int_str remote_port]))))"

definition port_forward_execute ::
    "environment \<Rightarrow> action_instance \<Rightarrow> action_type \<Rightarrow> execution_context \<Rightarrow> nat \<Rightarrow> action_receipt rt" where
  "port_forward_execute E a d ctx attempt =
     rt_bind (rt_now_iso E) (\<lambda>started.
     rt_bind (rt_lift (port_forward_argv E a)) (\<lambda>argv.
       if ''kubectl'' \<notin> ec_executable_allowlist ctx
       then rt_raise PermissionError ''kubectl is outside the execution allowlist''
       else started_receipt E ''port_forward'' a d ctx attempt started argv))"

definition is_str :: "json \<Rightarrow> bool" where
  "is_str v = (case v of JStr _ \<Rightarrow> True | _ \<Rightarrow> False)"

definition str_list :: "json \<Rightarrow> string list option" where
  "str_list v =
     (case v of
        JList xs \<Rightarrow> if xs \<noteq> [] \<and> list_all is_str xs
          then Some (map (\<lambda>x. case x of JStr s \<Rightarrow> s | _ \<Rightarrow> []) xs) else None
      | _ \<Rightarrow> None)"

definition stop_process ::
    "environment \<Rightarrow> action_instance \<Rightarrow> action_type \<Rightarrow> execution_context \<Rightarrow> nat \<Rightarrow> string \<Rightarrow> action_receipt rt" where
  "stop_process E a d ctx attempt started =
     rt_bind (rt_lift (res_bind (param a ''pid'') py_int)) (\<lambda>pid.
     rt_bind (rt_signal E (Signal pid 15)) (\<lambda>r.
     rt_bind (case r of
         Delivered \<Rightarrow> rt_return (Rc_Completed, ''sent SIGTERM to pid '' @ int_str pid)
       | No_Such_Process \<Rightarrow> rt_return (Rc_Already_Satisfied, ''pid '' @ int_str pid @ '' is already absent'')
       | Signal_Error m \<Rightarrow> rt_raise OSError m) (\<lambda>outcome.
     rt_bind (rt_now_iso E) (\<lambda>ended.
       rt_return ((base_receipt (nat_str attempt) (ec_operation_id ctx) a ''local.process'' (fst outcome)
           attempt started ended)
         \<lparr>rc_stdout := snd outcome, rc_observed_effects := at_expected_effects d,
          rc_metadata := [(''pid'', JInt pid)]\<rparr>)))))"

definition local_process_execute ::
    "environment \<Rightarrow> action_instance \<Rightarrow> action_type \<Rightarrow> execution_context \<Rightarrow> nat \<Rightarrow> action_receipt rt" where
  "local_process_execute E a d ctx attempt =
     rt_bind (rt_now_iso E) (\<lambda>started.
       if act_type_id a = ''local.process.stop.v1'' then stop_process E a d ctx attempt started
       else (case Option.bind (dget (act_parameters a) ''argv'') str_list of
               None \<Rightarrow> rt_raise ValueError ''local process start requires a non-empty string argv list''
             | Some argv \<Rightarrow>
                 if path_name (hd argv) \<notin> ec_executable_allowlist ctx
                 then rt_raise PermissionError (''executable '' @ repr_str (path_name (hd argv)) @
                        '' is outside the execution allowlist'')
                 else started_receipt E ''local.process'' a d ctx attempt started argv))"

section \<open>Commands\<close>

definition command_call :: "string list \<Rightarrow> action_type \<Rightarrow> execution_context \<Rightarrow> ext_call" where
  "command_call argv d ctx =
     Run_Command argv (ec_working_directory ctx) (ec_environment ctx)
       (min (at_timeout_seconds d) (ec_command_timeout_seconds ctx))"

definition docker_builder :: "environment \<Rightarrow> action_instance \<Rightarrow> string list res" where
  "docker_builder E a =
     res_bind (param a ''container'') (\<lambda>container.
       Inr [''docker'', if ends_with ''start.v1'' (act_type_id a) then ''start'' else ''stop'', py_str E container])"

definition service_builder :: "environment \<Rightarrow> action_instance \<Rightarrow> string list res" where
  "service_builder E a =
     res_bind (param a ''service'') (\<lambda>service. Inr [''systemctl'', ''restart'', py_str E service])"

definition kubectl_prefix :: "environment \<Rightarrow> action_instance \<Rightarrow> string list" where
  "kubectl_prefix E a =
     [''kubectl''] @
     (case dget (act_parameters a) ''context'' of
        None \<Rightarrow> [] | Some c \<Rightarrow> if truthy c then [''--context'', py_str E c] else []) @
     [''-n'', py_str E (dget_default (act_parameters a) ''namespace'' (JStr ''default''))]"

definition delete_job_argv :: "environment \<Rightarrow> action_instance \<Rightarrow> string \<Rightarrow> string list" where
  "delete_job_argv E a name =
     kubectl_prefix E a @ [''delete'', ''job'', name, ''--ignore-not-found=true'', ''--wait=true'']"

definition kubectl_builder :: "environment \<Rightarrow> action_instance \<Rightarrow> string list res" where
  "kubectl_builder E a =
     (if act_type_id a = ''kubernetes.workload.rollout_restart.v1'' then
        res_bind (param a ''kind'') (\<lambda>kind0.
        res_bind (param a ''name'') (\<lambda>name.
          let kind = lower (py_str E kind0) in
          if kind \<notin> {''deployment'', ''statefulset'', ''daemonset''}
          then raise ValueError (''rollout restart does not allow kind '' @ repr_str kind)
          else Inr (kubectl_prefix E a @ [''rollout'', ''restart'', kind @ ''/'' @ py_str E name])))
      else if act_type_id a = ''kubernetes.job.delete_terminal.v1'' then
        (if dget (act_parameters a) ''require_terminal'' \<noteq> Some (JBool True)
         then raise ValueError ''terminal Job deletion requires require_terminal=true''
         else res_bind (param a ''name'') (\<lambda>name. Inr (delete_job_argv E a (py_str E name))))
      else if act_type_id a = ''argocd.application.refresh.v1'' then
        res_bind (param a ''name'') (\<lambda>name.
          Inr (kubectl_prefix E a @ [''annotate'', ''application.argoproj.io'', py_str E name,
            ''argocd.argoproj.io/refresh=normal'', ''--overwrite'']))
      else raise ValueError (''unsupported kubectl action '' @ repr_str (act_type_id a)))"

definition local_process_builder :: "environment \<Rightarrow> action_instance \<Rightarrow> string list res" where
  "local_process_builder E a =
     (case Option.bind (dget (act_parameters a) ''argv'') str_list of
        None \<Rightarrow> raise ValueError ''local process action requires a non-empty string argv list''
      | Some argv \<Rightarrow>
          if act_type_id a = ''local.process.stop.v1'' then
            (case dget_default (act_parameters a) ''pid'' JNull of
               JNull \<Rightarrow> raise ValueError ''tracked process stop requires pid''
             | v \<Rightarrow> res_bind (py_int v) (\<lambda>pid. Inr [''kill'', ''-TERM'', int_str pid]))
          else Inr argv)"

text \<open>\<open>SafeCommandExecutor\<close>: a timeout is a failed receipt.\<close>

definition safe_command_execute ::
    "environment \<Rightarrow> string \<Rightarrow> (action_instance \<Rightarrow> string list res) \<Rightarrow>
     action_instance \<Rightarrow> action_type \<Rightarrow> execution_context \<Rightarrow> nat \<Rightarrow> action_receipt rt" where
  "safe_command_execute E exid builder a d ctx attempt =
     rt_bind (rt_now_iso E) (\<lambda>started.
     rt_bind (rt_lift (builder a)) (\<lambda>argv.
       if path_name (hd argv) \<notin> ec_executable_allowlist ctx
       then rt_raise PermissionError (''executable '' @ repr_str (path_name (hd argv)) @
              '' is outside the execution allowlist'')
       else
         rt_bind (rt_run E (command_call argv d ctx)) (\<lambda>reply.
         (case reply of
            Run_Error m \<Rightarrow> rt_raise OSError m
          | Timed_Out \<Rightarrow>
              rt_bind (rt_now_iso E) (\<lambda>ended.
                rt_return ((base_receipt (nat_str attempt) (ec_operation_id ctx) a exid Rc_Failed attempt started ended)
                  \<lparr>rc_stderr := ''command timed out after '' @
                     int_str (min (at_timeout_seconds d) (ec_command_timeout_seconds ctx)) @ ''s'',
                   rc_metadata := [(''argv'', argv_json argv)]\<rparr>))
          | Finished rc out err \<Rightarrow>
              rt_bind (rt_now_iso E) (\<lambda>ended.
                rt_return ((base_receipt (nat_str attempt) (ec_operation_id ctx) a exid
                    (if rc = 0 then Rc_Completed else Rc_Failed) attempt started ended)
                  \<lparr>rc_exit_code := Some rc, rc_stdout := out, rc_stderr := err,
                   rc_observed_effects := (if rc = 0 then at_expected_effects d else []),
                   rc_metadata := [(''argv'', argv_json argv)]\<rparr>))))))"

section \<open>kubectl\<close>

text \<open>Here a timeout is not caught.\<close>

definition run_checked :: "environment \<Rightarrow> ext_call \<Rightarrow> (int \<times> string \<times> string) rt" where
  "run_checked E c =
     rt_bind (rt_run E c) (\<lambda>reply.
       (case reply of
          Finished rc out err \<Rightarrow> rt_return (rc, out, err)
        | Timed_Out \<Rightarrow> rt_raise TimeoutExpired ''command timed out''
        | Run_Error m \<Rightarrow> rt_raise OSError m))"

definition condition_terminal :: "environment \<Rightarrow> json \<Rightarrow> bool res" where
  "condition_terminal E item =
     (case item of
        JObj c \<Rightarrow>
          (case dget_default c ''type'' JNull of
             JStr t \<Rightarrow> Inr (t \<in> {''Complete'', ''Failed''} \<and>
               lower (py_str E (dget_default c ''status'' JNull)) = ''true'')
           | JList _ \<Rightarrow> raise TypeError ''unhashable type''
           | JObj _ \<Rightarrow> raise TypeError ''unhashable type''
           | JSet _ \<Rightarrow> raise TypeError ''unhashable type''
           | _ \<Rightarrow> Inr False)
      | _ \<Rightarrow> raise AttributeError ''object has no attribute get'')"

fun any_terminal :: "environment \<Rightarrow> json list \<Rightarrow> bool res" where
  "any_terminal E [] = Inr False"
| "any_terminal E (c # cs) =
     res_bind (condition_terminal E c) (\<lambda>b. if b then Inr True else any_terminal E cs)"

text \<open>Whether the Job object read back is in a terminal state.\<close>

definition job_terminal :: "environment \<Rightarrow> string \<Rightarrow> bool res" where
  "job_terminal E out =
     (case (case env_json_loads E out of None \<Rightarrow> JObj [] | Some v \<Rightarrow> v) of
        JObj payload \<Rightarrow>
          res_bind (sub_dict ''status'' payload) (\<lambda>status.
            (let conditions = dget_default status ''conditions'' (JList []) in
             if truthy (dget_default status ''completionTime'' JNull) \<or>
                truthy (dget_default status ''succeeded'' JNull) \<or> truthy (dget_default status ''failed'' JNull)
             then Inr True
             else res_bind (iter_json conditions) (any_terminal E)))
      | _ \<Rightarrow> raise AttributeError ''object has no attribute get'')"

definition delete_terminal_job ::
    "environment \<Rightarrow> action_instance \<Rightarrow> action_type \<Rightarrow> execution_context \<Rightarrow> nat \<Rightarrow> string \<Rightarrow> action_receipt rt" where
  "delete_terminal_job E a d ctx attempt started =
     rt_bind (rt_lift (param a ''name'')) (\<lambda>name0.
     let name = py_str E name0;
         get_argv = kubectl_prefix E a @ [''get'', ''job'', name, ''-o'', ''json''];
         receipt = base_receipt (nat_str attempt) (ec_operation_id ctx) a ''kubectl.safe'' in
     rt_bind (run_checked E (command_call get_argv d ctx)) (\<lambda>(rc, out, err).
     rt_bind (rt_now_iso E) (\<lambda>ended.
       if rc \<noteq> 0 \<and> (has_substring ''NotFound'' err \<or> has_substring ''not found'' (lower err)) then
         rt_return ((receipt Rc_Already_Satisfied attempt started ended)
           \<lparr>rc_exit_code := Some rc, rc_stdout := ''job is already absent'', rc_stderr := err,
            rc_observed_effects := [''job_absent''],
            rc_metadata := [(''preflight_argv'', argv_json get_argv), (''not_found_is_success'', JBool True)]\<rparr>)
       else if rc \<noteq> 0 then
         rt_return ((receipt Rc_Failed attempt started ended)
           \<lparr>rc_exit_code := Some rc, rc_stderr := err,
            rc_metadata := [(''preflight_argv'', argv_json get_argv)]\<rparr>)
       else
         rt_bind (rt_lift (job_terminal E out)) (\<lambda>terminal.
           if \<not> terminal then
             rt_return ((receipt Rc_Failed attempt started ended)
               \<lparr>rc_stderr := ''refused to delete a non-terminal Job'',
                rc_metadata := [(''preflight_argv'', argv_json get_argv), (''terminal'', JBool False)]\<rparr>)
           else
             rt_bind (run_checked E (command_call (delete_job_argv E a name) d ctx)) (\<lambda>(rc', out', err').
             rt_bind (rt_now_iso E) (\<lambda>ended'.
               let ok = (rc' = 0 \<or> has_substring ''NotFound'' err') in
               rt_return ((receipt (if ok then Rc_Completed else Rc_Failed) attempt started ended')
                 \<lparr>rc_exit_code := Some rc', rc_stdout := out', rc_stderr := err',
                  rc_observed_effects := (if ok then [''job_absent''] else []),
                  rc_metadata := [(''preflight_argv'', argv_json get_argv),
                    (''argv'', argv_json (delete_job_argv E a name)), (''terminal'', JBool True)]\<rparr>)))))))"

definition kubectl_execute ::
    "environment \<Rightarrow> action_instance \<Rightarrow> action_type \<Rightarrow> execution_context \<Rightarrow> nat \<Rightarrow> action_receipt rt" where
  "kubectl_execute E a d ctx attempt =
     (if ''kubectl'' \<notin> ec_executable_allowlist ctx
      then rt_raise PermissionError ''kubectl is outside the execution allowlist''
      else
        rt_bind (rt_now_iso E) (\<lambda>started.
          if act_type_id a = ''kubernetes.job.delete_terminal.v1''
          then delete_terminal_job E a d ctx attempt started
          else
            rt_bind (rt_lift (kubectl_builder E a)) (\<lambda>argv.
            rt_bind (run_checked E (command_call argv d ctx)) (\<lambda>(rc, out, err).
            rt_bind (rt_now_iso E) (\<lambda>ended.
              rt_return ((base_receipt (nat_str attempt) (ec_operation_id ctx) a ''kubectl.safe''
                  (if rc = 0 then Rc_Completed else Rc_Failed) attempt started ended)
                \<lparr>rc_exit_code := Some rc, rc_stdout := out, rc_stderr := err,
                 rc_observed_effects := (if rc = 0 then at_expected_effects d else []),
                 rc_metadata := [(''argv'', argv_json argv)]\<rparr>))))))"

section \<open>The default registry\<close>

definition default_executors :: "environment \<Rightarrow> executor list" where
  "default_executors E =
     [\<lparr>ex_id = ''simulation'', ex_execute = simulation_execute E\<rparr>,
      \<lparr>ex_id = ''dry_run'', ex_execute = dry_run_execute E\<rparr>,
      \<lparr>ex_id = ''builtin.wait'', ex_execute = wait_execute E\<rparr>,
      \<lparr>ex_id = ''port_forward'', ex_execute = port_forward_execute E\<rparr>,
      \<lparr>ex_id = ''docker.cli'', ex_execute = safe_command_execute E ''docker.cli'' (docker_builder E)\<rparr>,
      \<lparr>ex_id = ''host.service'', ex_execute = safe_command_execute E ''host.service'' (service_builder E)\<rparr>,
      \<lparr>ex_id = ''kubectl.safe'', ex_execute = kubectl_execute E\<rparr>,
      \<lparr>ex_id = ''local.process'', ex_execute = local_process_execute E\<rparr>]"

definition build_default_executor_registry :: "environment \<Rightarrow> executor_registry res" where
  "build_default_executor_registry E =
     foldl (\<lambda>r x. res_bind r (executor_register x)) (Inr []) (default_executors E)"

section \<open>The contract of an executor\<close>

text \<open>What the operation runtime relies on.\<close>

locale executor_contract =
  fixes execute :: "action_instance \<Rightarrow> action_type \<Rightarrow> execution_context \<Rightarrow> nat \<Rightarrow> action_receipt rt"
  assumes receipt_of: "execute a d ctx n s = (Inr r, s') \<Longrightarrow>
      rc_action_id r = act_id a \<and> rc_operation_id r = ec_operation_id ctx \<and>
      rc_action_type_id r = act_type_id a \<and> rc_attempt r = n \<and>
      rc_idempotency_key r = act_idempotency_key a \<and> rc_status r \<noteq> Rc_Rolled_Back"
    and journal_kept: "keeps rs_journal (execute a d ctx n)"
begin

lemma execute_journal: "execute a d ctx n s = (r, s') \<Longrightarrow> rs_journal s' = rs_journal s"
  using journal_kept keepsD by metis

lemma execute_triple:
  "triple (\<lambda>s. P (rs_journal s)) (execute a d ctx n)
     (\<lambda>r s. P (rs_journal s) \<and> rc_action_id r = act_id a \<and> rc_operation_id r = ec_operation_id ctx)
     (\<lambda>s. P (rs_journal s))"
  by (rule tripleI) (auto dest: receipt_of execute_journal)

end


section \<open>The default executors meet the contract\<close>

lemmas executor_defs =
  simulation_execute_def simulation_effects_def default_effects_def apply_effect_def
  dry_run_execute_def wait_execute_def port_forward_execute_def local_process_execute_def
  stop_process_def started_receipt_def spawn_process_def safe_command_execute_def
  kubectl_execute_def delete_terminal_job_def run_checked_def

lemmas reply_splits =
  run_reply.split spawn_reply.split signal_reply.split option.split list.split json.split prod.split

definition receipt_for :: "action_instance \<Rightarrow> execution_context \<Rightarrow> nat \<Rightarrow> action_receipt \<Rightarrow> bool" where
  "receipt_for a ctx n r \<longleftrightarrow> rc_action_id r = act_id a \<and> rc_operation_id r = ec_operation_id ctx \<and>
     rc_action_type_id r = act_type_id a \<and> rc_attempt r = n \<and>
     rc_idempotency_key r = act_idempotency_key a \<and> rc_status r \<noteq> Rc_Rolled_Back"

lemma apply_effect_keeps [keeps_rules]:
  "keeps rs_journal (apply_effect eff)" "keeps rs_calls (apply_effect eff)"
  unfolding apply_effect_def by (auto intro!: keeps_rules split: json.split option.split)

lemma simulation_effects_keeps [keeps_rules]:
  "keeps rs_journal (simulation_effects a)" "keeps rs_calls (simulation_effects a)"
  unfolding simulation_effects_def default_effects_def
  by (auto simp: Let_def intro!: keeps_rules split: list.split)

lemma executor_contractI:
  "(\<And>a d ctx n. yields (ex a d ctx n) (receipt_for a ctx n)) \<Longrightarrow>
   (\<And>a d ctx n. keeps rs_journal (ex a d ctx n)) \<Longrightarrow> executor_contract ex"
  by (rule executor_contract.intro) (fold receipt_for_def, rule yieldsD)

interpretation simulation: executor_contract "simulation_execute E"
  by (rule executor_contractI)
    (auto simp: simulation_execute_def receipt_for_def intro!: yields_rules keeps_rules)

interpretation dry_run: executor_contract "dry_run_execute E"
  by (rule executor_contractI)
    (auto simp: dry_run_execute_def receipt_for_def intro!: yields_rules keeps_rules)

interpretation wait: executor_contract "wait_execute E"
  by (rule executor_contractI)
    (auto simp: wait_execute_def receipt_for_def Let_def intro!: yields_rules keeps_rules)

lemma started_receipt_yields [yields_rules]:
  "yields (started_receipt E exid a d ctx n t argv) (receipt_for a ctx n)"
  by (auto simp: started_receipt_def receipt_for_def intro!: yields_rules)

lemma started_receipt_keeps [keeps_rules]:
  "keeps rs_journal (started_receipt E exid a d ctx n t argv)"
  "keeps rs_world (started_receipt E exid a d ctx n t argv)"
  by (auto simp: started_receipt_def spawn_process_def intro!: keeps_rules split: spawn_reply.split)

interpretation port_forward: executor_contract "port_forward_execute E"
  by (rule executor_contractI)
    (auto simp: port_forward_execute_def intro!: yields_rules keeps_rules)

lemma stop_process_yields [yields_rules]:
  "yields (stop_process E a d ctx n t) (receipt_for a ctx n)"
  unfolding stop_process_def
  by (rule yields_bind, rule yields_bind, rule yields_seq [where R = "\<lambda>p. fst p \<noteq> Rc_Rolled_Back"])
    (auto simp: receipt_for_def intro!: yields_rules)

lemma stop_process_keeps [keeps_rules]: "keeps rs_journal (stop_process E a d ctx n t)"
  by (auto simp: stop_process_def intro!: keeps_rules split: signal_reply.split)

interpretation local_process: executor_contract "local_process_execute E"
  by (rule executor_contractI)
    (auto simp: local_process_execute_def intro!: yields_rules keeps_rules split: option.split)

interpretation safe_command: executor_contract "safe_command_execute E exid builder"
  by (rule executor_contractI)
    (auto simp: safe_command_execute_def receipt_for_def intro!: yields_rules keeps_rules
      split: run_reply.split)

lemma run_checked_keeps [keeps_rules]:
  "keeps rs_journal (run_checked E c)" "keeps rs_world (run_checked E c)"
  by (auto simp: run_checked_def intro!: keeps_rules split: run_reply.split)

lemma delete_terminal_job_yields [yields_rules]:
  "yields (delete_terminal_job E a d ctx n t) (receipt_for a ctx n)"
  by (auto simp: delete_terminal_job_def receipt_for_def Let_def intro!: yields_rules)

lemma delete_terminal_job_keeps [keeps_rules]: "keeps rs_journal (delete_terminal_job E a d ctx n t)"
  by (auto simp: delete_terminal_job_def Let_def intro!: keeps_rules)

interpretation kubectl: executor_contract "kubectl_execute E"
  by (rule executor_contractI)
    (auto simp: kubectl_execute_def receipt_for_def intro!: yields_rules keeps_rules)

text \<open>A registry all of whose executors meet the contract; the default one is such a registry.\<close>

definition good_registry :: "executor_registry \<Rightarrow> bool" where
  "good_registry reg \<longleftrightarrow> (\<forall>i x. dget reg i = Some x \<longrightarrow> executor_contract (ex_execute x))"

lemma default_registry_eq:
  "build_default_executor_registry E = Inr (map (\<lambda>x. (ex_id x, x)) (default_executors E))"
  by (simp add: build_default_executor_registry_def default_executors_def executor_register_def)

lemma default_registry_good:
  "build_default_executor_registry E = Inr reg \<Longrightarrow> good_registry reg"
  by (auto simp: default_registry_eq good_registry_def default_executors_def
      simulation.executor_contract_axioms dry_run.executor_contract_axioms wait.executor_contract_axioms
      port_forward.executor_contract_axioms local_process.executor_contract_axioms
      safe_command.executor_contract_axioms kubectl.executor_contract_axioms split: if_splits)

section \<open>What an executor may call\<close>

text \<open>A command or process whose executable is on the allowlist; signals name no executable.\<close>

definition call_allowed :: "execution_context \<Rightarrow> ext_call \<Rightarrow> bool" where
  "call_allowed ctx c =
     (case c of
        Run_Command argv _ _ _ \<Rightarrow> path_name (hd argv) \<in> ec_executable_allowlist ctx
      | Spawn argv _ _ \<Rightarrow> path_name (hd argv) \<in> ec_executable_allowlist ctx
      | Signal _ _ \<Rightarrow> True)"

definition calls_ok :: "execution_context \<Rightarrow> ext_call set \<Rightarrow> rt_state \<Rightarrow> bool" where
  "calls_ok ctx C s \<longleftrightarrow> (\<forall>c \<in> set (rs_calls s). c \<in> C \<or> call_allowed ctx c)"

definition safe_calls :: "execution_context \<Rightarrow> 'a rt \<Rightarrow> bool" where
  "safe_calls ctx m \<longleftrightarrow> (\<forall>C. triple (calls_ok ctx C) m (\<lambda>_. calls_ok ctx C) (calls_ok ctx C))"

named_theorems safe_rules \<open>computations that call allowlisted executables only\<close>

lemma safe_bind [safe_rules]: "safe_calls ctx m \<Longrightarrow> (\<And>x. safe_calls ctx (f x)) \<Longrightarrow> safe_calls ctx (rt_bind m f)"
  unfolding safe_calls_def by (blast intro: triple_bind)

lemma safe_lift [safe_rules]:
  "(\<And>x. r = Inr x \<Longrightarrow> safe_calls ctx (f x)) \<Longrightarrow> safe_calls ctx (rt_bind (rt_lift r) f)"
  by (cases r) (auto simp: safe_calls_def triple_def rt_bind_def rt_lift_def)

lemma safe_keeps:
  assumes "keeps rs_calls m"
  shows "safe_calls ctx m"
  unfolding safe_calls_def calls_ok_def
  using keeps_triple [OF assms] by (intro allI)

lemma safe_quiet [safe_rules]:
  "safe_calls ctx (rt_return x)" "safe_calls ctx (rt_raise e m)" "safe_calls ctx (rt_now_iso E)"
  by (rule safe_keeps, rule keeps_rules)+

lemma safe_external [safe_rules]:
  "safe_calls ctx (rt_signal E (Signal pid sig))"
  "call_allowed ctx c \<Longrightarrow> safe_calls ctx (rt_run E c)"
  "call_allowed ctx c \<Longrightarrow> safe_calls ctx (rt_spawn E c)"
  by (simp_all add: safe_calls_def triple_def rt_signal_def rt_run_def rt_spawn_def calls_ok_def)
    (simp add: call_allowed_def)

lemma safe_case [safe_rules]:
  "(\<And>a b c. safe_calls ctx (f1 a b c)) \<Longrightarrow> safe_calls ctx f2 \<Longrightarrow> (\<And>m. safe_calls ctx (f3 m)) \<Longrightarrow>
     safe_calls ctx (case r of Finished a b c \<Rightarrow> f1 a b c | Timed_Out \<Rightarrow> f2 | Run_Error m \<Rightarrow> f3 m)"
  "(\<And>a. safe_calls ctx (g1 a)) \<Longrightarrow> (\<And>m. safe_calls ctx (g2 m)) \<Longrightarrow>
     safe_calls ctx (case sp of Started a \<Rightarrow> g1 a | Spawn_Error m \<Rightarrow> g2 m)"
  "safe_calls ctx h1 \<Longrightarrow> safe_calls ctx h2 \<Longrightarrow> (\<And>m. safe_calls ctx (h3 m)) \<Longrightarrow>
     safe_calls ctx (case sg of Delivered \<Rightarrow> h1 | No_Such_Process \<Rightarrow> h2 | Signal_Error m \<Rightarrow> h3 m)"
  "(\<And>x y. safe_calls ctx (p x y)) \<Longrightarrow> safe_calls ctx (case z of (x, y) \<Rightarrow> p x y)"
  "(b \<Longrightarrow> safe_calls ctx m) \<Longrightarrow> (\<not> b \<Longrightarrow> safe_calls ctx k) \<Longrightarrow> safe_calls ctx (if b then m else k)"
  "(opt = None \<Longrightarrow> safe_calls ctx u) \<Longrightarrow> (\<And>x. opt = Some x \<Longrightarrow> safe_calls ctx (v x)) \<Longrightarrow>
     safe_calls ctx (case opt of None \<Rightarrow> u | Some x \<Rightarrow> v x)"
  by ((cases r; simp), (cases sp; simp), (cases sg; simp), (cases z; simp), simp, (cases opt; simp))

lemma path_name_kubectl: "path_name ''kubectl'' = ''kubectl''"
  by (simp add: path_name_def)

lemma safe_run_checked [safe_rules]: "call_allowed ctx c \<Longrightarrow> safe_calls ctx (run_checked E c)"
  unfolding run_checked_def by (intro safe_rules)

lemma safe_started [safe_rules]:
  "path_name (hd argv) \<in> ec_executable_allowlist ctx \<Longrightarrow>
     safe_calls ctx (started_receipt E exid a d ctx n t argv)"
  unfolding started_receipt_def spawn_process_def by (intro safe_rules) (simp add: call_allowed_def)

lemma hd_kubectl_prefix [simp]: "hd (kubectl_prefix E a @ xs) = ''kubectl''"
  by (simp add: kubectl_prefix_def)

lemma kubectl_builder_hd: "kubectl_builder E a = Inr argv \<Longrightarrow> hd argv = ''kubectl''"
  by (auto simp: kubectl_builder_def res_bind_eq_Inr_iff Let_def delete_job_argv_def split: if_splits)

lemma port_forward_hd: "port_forward_argv E a = Inr argv \<Longrightarrow> hd argv = ''kubectl''"
  by (auto simp: port_forward_argv_def res_bind_eq_Inr_iff)

lemma safe_command_safe: "safe_calls ctx (safe_command_execute E exid builder a d ctx n)"
  unfolding safe_command_execute_def
  by (intro safe_rules) (simp_all add: call_allowed_def command_call_def)

lemma port_forward_safe: "safe_calls ctx (port_forward_execute E a d ctx n)"
  unfolding port_forward_execute_def
  by (intro safe_rules) (simp_all add: port_forward_hd path_name_kubectl)

lemma local_process_safe: "safe_calls ctx (local_process_execute E a d ctx n)"
  unfolding local_process_execute_def stop_process_def
  by (intro safe_rules) simp_all

lemma kubectl_safe: "safe_calls ctx (kubectl_execute E a d ctx n)"
proof (cases "''kubectl'' \<in> ec_executable_allowlist ctx")
  case True
  then have ok: "call_allowed ctx (command_call argv d ctx)" if "hd argv = ''kubectl''" for argv
    using that by (simp add: call_allowed_def command_call_def path_name_kubectl)
  show ?thesis
    unfolding kubectl_execute_def delete_terminal_job_def Let_def
    by (intro safe_rules ok) (simp_all add: kubectl_builder_hd delete_job_argv_def)
qed (simp add: kubectl_execute_def safe_quiet)

lemma default_executors_safe:
  assumes "build_default_executor_registry E = Inr reg" "dget reg i = Some x"
  shows "safe_calls ctx (ex_execute x a d ctx n)"
proof -
  have quiet: "safe_calls ctx (simulation_execute E a d ctx n)" "safe_calls ctx (dry_run_execute E a d ctx n)"
      "safe_calls ctx (wait_execute E a d ctx n)"
    unfolding simulation_execute_def dry_run_execute_def wait_execute_def Let_def
    by (rule safe_keeps, intro keeps_rules)+
  from assms have "x \<in> set (default_executors E)"
    by (auto simp: default_registry_eq dest!: map_of_SomeD)
  then show ?thesis
    using quiet safe_command_safe port_forward_safe local_process_safe kubectl_safe
    by (auto simp: default_executors_def)
qed

section \<open>What the simulation does\<close>

lemma assign_parts_set_parts: "assign_parts d ps v = Inr d' \<Longrightarrow> d' = set_parts d ps v"
proof (induction d ps v arbitrary: d' rule: assign_parts.induct)
  case (3 d p q ps v)
  then show ?case
    by (cases "dget d p") (auto simp: res_bind_eq_Inr_iff split: json.splits)
qed auto

text \<open>An effect that is applied is what the world shows afterwards; other entities are as before.\<close>

lemma apply_effect_observe:
  assumes "apply_effect (effect i path v) s = (Inr u, s')" "path \<noteq> []"
  shows "observe (rs_world s') i path = Some v"
    and "j \<noteq> i \<Longrightarrow> dget (rs_world s') j = dget (rs_world s) j"
proof -
  let ?w = "rs_world s"
  from assms(1) obtain target where
      target: "assign_parts (dget_default ?w i []) (split_dot path) v = Inr target"
    and world: "rs_world s' = dset i target (world_setdefault i ?w)"
    by (auto simp: apply_effect_def effect_def rt_bind_Inr_iff rt_then_Inr_iff rt_get_world_def
        rt_put_world_def rt_lift_def dget_default_def)
  from assign_parts_set_parts [OF target] have "target = set_path (dget_default ?w i []) path v"
    by (simp add: set_path_def)
  then show "observe (rs_world s') i path = Some v"
    using assms(2) by (simp add: observe_def world get_set_path)
  show "j \<noteq> i \<Longrightarrow> dget (rs_world s') j = dget ?w j"
    by (simp add: world world_setdefault_def split: option.split)
qed

text \<open>The dry run changes nothing but the clock.\<close>

lemma dry_run_inert:
  "keeps rs_world (dry_run_execute E a d ctx n)" "keeps rs_calls (dry_run_execute E a d ctx n)"
  by (auto simp: dry_run_execute_def intro!: keeps_rules)

section \<open>Deleting terminal Jobs only\<close>

definition get_job_call ::
    "environment \<Rightarrow> action_instance \<Rightarrow> action_type \<Rightarrow> execution_context \<Rightarrow> string \<Rightarrow> ext_call" where
  "get_job_call E a d ctx name =
     command_call (kubectl_prefix E a @ [''get'', ''job'', name, ''-o'', ''json'']) d ctx"

text \<open>Whatever happens, the calls made are none, the read of the Job, or that read followed by the
  delete; and the delete follows only a read that showed a terminal Job.\<close>

lemma delete_terminal_job_calls:
  fixes name E a d ctx s
  defines "name \<equiv> py_str E (dget_default (act_parameters a) ''name'' JNull)"
  defines "get \<equiv> get_job_call E a d ctx name"
  assumes "delete_terminal_job E a d ctx n t s = (r, s')"
  shows "rs_calls s' = rs_calls s \<or> rs_calls s' = rs_calls s @ [get] \<or>
    (\<exists>out err. env_run E (rs_calls s) get = Finished 0 out err \<and> job_terminal E out = Inr True \<and>
       rs_calls s' = rs_calls s @ [get, command_call (delete_job_argv E a name) d ctx])"
proof (cases "dget (act_parameters a) ''name''")
  case None
  then show ?thesis
    using assms(3) by (simp add: delete_terminal_job_def param_def rt_bind_def rt_lift_def raise_def)
next
  case (Some v)
  then have "param a ''name'' = Inr v" and name: "py_str E v = name"
    by (simp_all add: param_def name_def dget_default_def)
  with assms(3) show ?thesis
    unfolding delete_terminal_job_def Let_def get_def
    by (auto simp: get_job_call_def [symmetric] rt_bind_def rt_lift_def run_checked_def rt_run_def
        rt_return_def rt_raise_def raise_def rt_now_iso_eq case_prod_beta
        split: sum.splits if_splits run_reply.splits)
qed

end
