(* ===== verification/Policy.thy ===== *)
theory Policy
  imports Operation PyTime
begin

text \<open>
  \<open>policy/engine.py\<close>: the decision of one action under an execution policy. The guards collect
  reasons in the code's order; any reason of theirs denies. The abstract specification is the
  predicate \<open>policy_allows\<close>, the conjunction of the scope, risk, capability, fingerprint, budget
  and target conditions with the approval rule, and the engine is shown to allow exactly then.
\<close>

section \<open>Shell patterns\<close>

text \<open>
  \<open>fnmatch.fnmatch\<close> on POSIX: \<open>*\<close>, \<open>?\<close> and bracket expressions \<open>[...]\<close>, \<open>[!...]\<close> with ranges; an
  unclosed bracket is literal. A closing bracket that comes first belongs to the set.
\<close>

fun split_bracket :: "string \<Rightarrow> (string \<times> string) option" where
  "split_bracket [] = None"
| "split_bracket (c # s) =
     (if c = CHR '']'' then Some ([], s)
      else map_option (\<lambda>(b, r). (c # b, r)) (split_bracket s))"

definition bracket_body :: "string \<Rightarrow> (bool \<times> string \<times> string) option" where
  "bracket_body s =
     (let neg = (case s of c # _ \<Rightarrow> c = CHR ''!'' | [] \<Rightarrow> False); s1 = (if neg then tl s else s) in
      (case s1 of
         [] \<Rightarrow> None
       | c # s2 \<Rightarrow> map_option (\<lambda>(b, r). (neg, c # b, r))
           (if c = CHR '']'' then split_bracket s2
            else map_option (\<lambda>(b, r). (tl b, r)) (split_bracket s1))))"

fun in_bracket :: "string \<Rightarrow> char \<Rightarrow> bool" where
  "in_bracket [] x = False"
| "in_bracket (a # s) x =
     (case s of
        h # b # r \<Rightarrow> if h = CHR ''-'' then (a \<le> x \<and> x \<le> b) \<or> in_bracket r x
                    else x = a \<or> in_bracket s x
      | _ \<Rightarrow> x = a \<or> in_bracket s x)"

lemma split_bracket_length: "split_bracket s = Some (b, r) \<Longrightarrow> length r < length s"
proof (induction s arbitrary: b)
  case Nil
  then show ?case by simp
next
  case (Cons c s)
  then show ?case by (cases "c = CHR '']''") (fastforce simp: less_Suc_eq)+
qed

lemma bracket_body_length: "bracket_body s = Some (n, b, r) \<Longrightarrow> length r < length s"
  by (auto simp: bracket_body_def Let_def split: list.splits if_splits dest!: split_bracket_length)

function fnmatch :: "string \<Rightarrow> string \<Rightarrow> bool" where
  "fnmatch [] s = (s = [])"
| "fnmatch (p # ps) s =
     (if p = CHR ''*'' then fnmatch ps s \<or> (case s of [] \<Rightarrow> False | _ # s' \<Rightarrow> fnmatch (p # ps) s')
      else if p = CHR ''['' then
        (case bracket_body ps of
           None \<Rightarrow> (case s of [] \<Rightarrow> False | c # s' \<Rightarrow> c = p \<and> fnmatch ps s')
         | Some m \<Rightarrow> (case s of [] \<Rightarrow> False
             | c # s' \<Rightarrow> in_bracket (fst (snd m)) c \<noteq> fst m \<and> fnmatch (snd (snd m)) s'))
      else (case s of [] \<Rightarrow> False | c # s' \<Rightarrow> (p = CHR ''?'' \<or> c = p) \<and> fnmatch ps s'))"
  by pat_completeness auto
termination
  by (relation "measure (\<lambda>(p, s). length p + length s)")
    (auto dest!: bracket_body_length)

declare fnmatch.simps [simp del]

lemma fnmatch_star: "fnmatch ''*'' s"
  by (induction s) (subst fnmatch.simps, simp add: fnmatch.simps(1))+

section \<open>The engine\<close>

record policy_context =
  pc_environment_class :: string
  pc_environment_fingerprint :: "string option"
  pc_expected_fingerprint :: "string option"
  pc_capabilities :: "string set"
  pc_mutation_count :: int
  pc_break_glass :: bool
  pc_execution_mode :: string

definition str_truthy :: "string option \<Rightarrow> bool" where
  "str_truthy s = (case s of None \<Rightarrow> False | Some t \<Rightarrow> t \<noteq> [])"

definition capability_gaps :: "action_type \<Rightarrow> execution_policy \<Rightarrow> policy_context \<Rightarrow> string set" where
  "capability_gaps d pol ctx = at_required_capabilities d - pc_capabilities ctx - pol_capability_grants pol"

definition invalid_targets :: "execution_policy \<Rightarrow> action_instance \<Rightarrow> string list" where
  "invalid_targets pol a =
     filter (\<lambda>t. \<not> (\<exists>p \<in> set (pol_allowed_target_patterns pol). fnmatch p t)) (act_target_ids a)"

text \<open>The guards of \<open>evaluate\<close>, in order; each contributes its reason when it denies.\<close>

definition guard_reasons ::
    "action_instance \<Rightarrow> action_type \<Rightarrow> execution_policy \<Rightarrow> policy_context \<Rightarrow> string list" where
  "guard_reasons a d pol ctx =
     (if pol_environment_classes pol \<noteq> {} \<and> pc_environment_class ctx \<notin> pol_environment_classes pol
      then [''environment class '' @ repr_str (pc_environment_class ctx) @ '' is not covered by policy''] else []) @
     (if act_type_id a \<in> pol_denied_action_type_ids pol then [''action type is explicitly denied''] else []) @
     (if pol_allowed_action_type_ids pol \<noteq> {} \<and> act_type_id a \<notin> pol_allowed_action_type_ids pol
      then [''action type is not in the policy allowlist''] else []) @
     (if risk_class (act_risk a) \<notin> pol_allowed_risk_classes pol
      then [''risk class '' @ risk_value (risk_class (act_risk a)) @ '' is not allowed''] else []) @
     (if capability_gaps d pol ctx \<noteq> {}
      then [''missing capabilities: '' @ join '', '' (sorted_set (capability_gaps d pol ctx))] else []) @
     (if pc_execution_mode ctx \<noteq> ''dry_run'' \<and> pc_execution_mode ctx \<notin> at_supported_modes d
      then [''action type does not support execution mode '' @ repr_str (pc_execution_mode ctx)] else []) @
     (if pol_require_target_fingerprint pol \<and> str_truthy (pc_expected_fingerprint ctx) \<and>
         pc_environment_fingerprint ctx \<noteq> pc_expected_fingerprint ctx
      then [''target fingerprint does not match the registered environment''] else []) @
     (if (case pol_mutation_budget pol of None \<Rightarrow> False | Some b \<Rightarrow> b \<le> pc_mutation_count ctx)
      then [''mutation budget exhausted''] else []) @
     (if pol_allowed_target_patterns pol \<noteq> [] \<and> act_target_ids a \<noteq> [] \<and> invalid_targets pol a \<noteq> []
      then [''targets outside policy scope: '' @ join '', '' (invalid_targets pol a)] else [])"

definition applicable :: "action_instance \<Rightarrow> approval_record list \<Rightarrow> approval_record list" where
  "applicable a approvals =
     filter (\<lambda>r. appr_operation_id r \<noteq> [] \<and> appr_action_id r \<in> {None, Some (act_id a)}) approvals"

text \<open>The approvals in force at \<open>now\<close>, and a reason for each expiry that cannot be read.\<close>

fun scan_approvals :: "int \<Rightarrow> approval_record list \<Rightarrow> approval_record list \<times> string list" where
  "scan_approvals now [] = ([], [])"
| "scan_approvals now (r # rs) =
     (let (active, bad) = scan_approvals now rs in
      if str_truthy (appr_expires_at_iso r) then
        (case parse_iso (the (appr_expires_at_iso r)) of
           Inl _ \<Rightarrow> (active, (''approval '' @ appr_id r @ '' has an invalid expiration timestamp'') # bad)
         | Inr expires \<Rightarrow> if expires \<le> now then (active, bad) else (r # active, bad))
      else (r # active, bad))"

definition approvers :: "approval_outcome \<Rightarrow> approval_record list \<Rightarrow> string set" where
  "approvers o' active = appr_approver_id ` set (filter (\<lambda>r. appr_decision r = o') active)"

definition required_approvals :: "execution_policy \<Rightarrow> action_instance \<Rightarrow> int" where
  "required_approvals pol a = dget_default (pol_required_approvals_by_risk pol) (risk_class (act_risk a)) 0"

definition policy_evaluate ::
    "int \<Rightarrow> string \<Rightarrow> action_instance \<Rightarrow> action_type \<Rightarrow> execution_policy \<Rightarrow> policy_context \<Rightarrow>
     approval_record list \<Rightarrow> policy_decision" where
  "policy_evaluate now now_iso a d pol ctx approvals =
     (let required = required_approvals pol a;
          r_guard = guard_reasons a d pol ctx;
          (active, r_bad) = scan_approvals now (applicable a approvals);
          rejecting = approvers Reject active;
          r_reject = (if rejecting \<noteq> {}
            then [''execution rejected by: '' @ join '', '' (sorted_set rejecting)] else []);
          denied = (r_guard @ r_bad @ r_reject \<noteq> []);
          granted = int (card (approvers Approve active));
          short = (\<not> denied \<and> granted < required);
          r_short = (if short
            then [int_str (required - granted) @ '' additional distinct approval(s) required''] else []);
          break = (pc_break_glass ctx \<and> \<not> pol_break_glass_allowed pol);
          r_break = (if break then [''break-glass execution is not allowed by policy''] else []);
          reasons = r_guard @ r_bad @ r_reject @ r_short @ r_break
      in \<lparr>pd_id = ''decision:'' @ act_id a @ '':'' @ pol_id pol, pd_policy_id = pol_id pol,
          pd_action_id = act_id a,
          pd_outcome = (if denied \<or> break then Deny else if short then Approval_Required else Allow),
          pd_reasons = (if reasons = []
            then [''action satisfies policy scope, risk, capability, and approval requirements''] else reasons),
          pd_required_approval_count = required, pd_evaluated_at_iso = Some now_iso,
          pd_capability_gaps = sorted_set (capability_gaps d pol ctx),
          pd_requires_checkpoint =
            (risk_class (act_risk a) \<in> pol_require_checkpoint_for_risk pol \<or> act_checkpoint_before a),
          pd_metadata = [(''risk_rank'', JInt (int (risk_rank (risk_class (act_risk a)))))]\<rparr>)"

section \<open>The specification\<close>

text \<open>An approval counts when it applies to the action and has no expiry or a readable later one.\<close>

definition in_force :: "int \<Rightarrow> approval_record \<Rightarrow> bool" where
  "in_force now r \<longleftrightarrow>
     (str_truthy (appr_expires_at_iso r) \<longrightarrow>
        (\<exists>t. parse_iso (the (appr_expires_at_iso r)) = Inr t \<and> now < t))"

definition unreadable :: "approval_record \<Rightarrow> bool" where
  "unreadable r \<longleftrightarrow> str_truthy (appr_expires_at_iso r) \<and>
     (\<exists>e. parse_iso (the (appr_expires_at_iso r)) = Inl e)"

definition within_scope :: "action_instance \<Rightarrow> action_type \<Rightarrow> execution_policy \<Rightarrow> policy_context \<Rightarrow> bool" where
  "within_scope a d pol ctx \<longleftrightarrow>
     (pol_environment_classes pol = {} \<or> pc_environment_class ctx \<in> pol_environment_classes pol) \<and>
     act_type_id a \<notin> pol_denied_action_type_ids pol \<and>
     (pol_allowed_action_type_ids pol = {} \<or> act_type_id a \<in> pol_allowed_action_type_ids pol) \<and>
     risk_class (act_risk a) \<in> pol_allowed_risk_classes pol \<and>
     at_required_capabilities d \<subseteq> pc_capabilities ctx \<union> pol_capability_grants pol \<and>
     (pc_execution_mode ctx = ''dry_run'' \<or> pc_execution_mode ctx \<in> at_supported_modes d) \<and>
     (pol_require_target_fingerprint pol \<longrightarrow> str_truthy (pc_expected_fingerprint ctx) \<longrightarrow>
        pc_environment_fingerprint ctx = pc_expected_fingerprint ctx) \<and>
     (\<forall>b. pol_mutation_budget pol = Some b \<longrightarrow> pc_mutation_count ctx < b) \<and>
     (pol_allowed_target_patterns pol = [] \<or>
        (\<forall>t \<in> set (act_target_ids a). \<exists>p \<in> set (pol_allowed_target_patterns pol). fnmatch p t))"

definition policy_allows ::
    "int \<Rightarrow> action_instance \<Rightarrow> action_type \<Rightarrow> execution_policy \<Rightarrow> policy_context \<Rightarrow> approval_record list \<Rightarrow> bool" where
  "policy_allows now a d pol ctx approvals \<longleftrightarrow>
     within_scope a d pol ctx \<and>
     \<not> (pc_break_glass ctx \<and> \<not> pol_break_glass_allowed pol) \<and>
     (\<forall>r \<in> set (applicable a approvals).
        \<not> unreadable r \<and> \<not> (in_force now r \<and> appr_decision r = Reject)) \<and>
     required_approvals pol a \<le>
       int (card (appr_approver_id `
         {r \<in> set (applicable a approvals). in_force now r \<and> appr_decision r = Approve}))"

lemma guard_reasons_empty: "guard_reasons a d pol ctx = [] \<longleftrightarrow> within_scope a d pol ctx"
proof -
  have one: "(if b then [x] else []) = [] \<longleftrightarrow> \<not> b" for b and x :: string by simp
  have gaps: "capability_gaps d pol ctx \<noteq> {} \<longleftrightarrow>
      \<not> at_required_capabilities d \<subseteq> pc_capabilities ctx \<union> pol_capability_grants pol"
    by (auto simp: capability_gaps_def)
  have targets: "pol_allowed_target_patterns pol \<noteq> [] \<and> act_target_ids a \<noteq> [] \<and> invalid_targets pol a \<noteq> [] \<longleftrightarrow>
      \<not> (pol_allowed_target_patterns pol = [] \<or>
        (\<forall>t \<in> set (act_target_ids a). \<exists>p \<in> set (pol_allowed_target_patterns pol). fnmatch p t))"
    by (cases "act_target_ids a") (auto simp: invalid_targets_def filter_empty_conv)
  have budget: "(case pol_mutation_budget pol of None \<Rightarrow> False | Some b \<Rightarrow> b \<le> pc_mutation_count ctx) \<longleftrightarrow>
      \<not> (\<forall>b. pol_mutation_budget pol = Some b \<longrightarrow> pc_mutation_count ctx < b)"
    by (auto split: option.splits)
  show ?thesis
    unfolding guard_reasons_def within_scope_def append_is_Nil_conv one gaps targets budget
    by (simp only: de_Morgan_conj de_Morgan_disj not_not not_imp) blast
qed

lemma scan_active: "set (fst (scan_approvals now rs)) = {r \<in> set rs. in_force now r}"
proof (induction rs)
  case Nil
  then show ?case by simp
next
  case (Cons r rs)
  obtain active bad where scan: "scan_approvals now rs = (active, bad)" by fastforce
  then have active: "set active = {r \<in> set rs. in_force now r}" using Cons by simp
  show ?case
  proof (cases "str_truthy (appr_expires_at_iso r)")
    case expiring: True
    then show ?thesis
      by (cases "parse_iso (the (appr_expires_at_iso r))") (auto simp: scan active in_force_def)
  qed (auto simp: scan active in_force_def)
qed

lemma scan_bad: "snd (scan_approvals now rs) = [] \<longleftrightarrow> (\<forall>r \<in> set rs. \<not> unreadable r)"
proof (induction rs)
  case Nil
  then show ?case by simp
next
  case (Cons r rs)
  obtain active bad where scan: "scan_approvals now rs = (active, bad)" by fastforce
  then have bad: "bad = [] \<longleftrightarrow> (\<forall>r \<in> set rs. \<not> unreadable r)" using Cons by simp
  show ?case
  proof (cases "str_truthy (appr_expires_at_iso r)")
    case expiring: True
    then show ?thesis
      by (cases "parse_iso (the (appr_expires_at_iso r))") (auto simp: scan bad unreadable_def)
  qed (auto simp: scan bad unreadable_def)
qed

lemma approvers_scan:
  "approvers o' (fst (scan_approvals now rs)) =
     appr_approver_id ` {r \<in> set rs. in_force now r \<and> appr_decision r = o'}"
  by (auto simp: approvers_def scan_active)

lemma policy_outcome_eq:
  fixes now a d pol ctx approvals
  defines "scan \<equiv> scan_approvals now (applicable a approvals)"
  defines "denied \<equiv> guard_reasons a d pol ctx \<noteq> [] \<or> snd scan \<noteq> [] \<or> approvers Reject (fst scan) \<noteq> {}"
  shows "pd_outcome (policy_evaluate now now_iso a d pol ctx approvals) =
    (if denied \<or> pc_break_glass ctx \<and> \<not> pol_break_glass_allowed pol then Deny
     else if int (card (approvers Approve (fst scan))) < required_approvals pol a then Approval_Required
     else Allow)"
  by (auto simp: policy_evaluate_def Let_def scan_def denied_def split: prod.splits)

lemma policy_allow_iff:
  "pd_outcome (policy_evaluate now now_iso a d pol ctx approvals) = Allow \<longleftrightarrow>
     policy_allows now a d pol ctx approvals"
  unfolding policy_outcome_eq guard_reasons_empty scan_bad approvers_scan policy_allows_def
  by auto

lemma policy_reject_veto:
  assumes "r \<in> set approvals" "appr_operation_id r \<noteq> []" "appr_action_id r \<in> {None, Some (act_id a)}"
    "in_force now r" "appr_decision r = Reject"
  shows "pd_outcome (policy_evaluate now now_iso a d pol ctx approvals) = Deny"
proof -
  have "appr_approver_id r \<in> approvers Reject (fst (scan_approvals now (applicable a approvals)))"
    using assms by (auto simp: approvers_scan applicable_def)
  then show ?thesis unfolding policy_outcome_eq by auto
qed

lemma policy_decision_fields [simp]:
  "pd_action_id (policy_evaluate now now_iso a d pol ctx approvals) = act_id a"
  "pd_requires_checkpoint (policy_evaluate now now_iso a d pol ctx approvals) =
     (risk_class (act_risk a) \<in> pol_require_checkpoint_for_risk pol \<or> act_checkpoint_before a)"
  by (simp_all add: policy_evaluate_def Let_def split: prod.splits)

end
