(* ===== verification/Evaluator.thy ===== *)
theory Evaluator
  imports IR
begin

text \<open>
  \<open>kubeops_core/invariants/evaluator.py\<close>: \<open>PredicateEvaluator\<close> (three-valued predicates over a
  projected world) and \<open>InvariantEngine\<close> (immediate, eventual and stability requirements over the
  history of observed worlds). Explanations are f-strings kept as lists of parts. The abstract
  specification of the connectives is Kleene's three-valued logic, which the evaluator is shown
  to refine; the temporal operators get their meaning over the recorded history.
\<close>

record predicate_result =
  pr_satisfied :: "bool option"
  pr_actual :: json
  pr_expected :: json
  pr_explanation :: msg
  pr_evidence_entity_ids :: "string list"

definition unknown_result :: "msg \<Rightarrow> predicate_result" where
  "unknown_result m = \<lparr>pr_satisfied = None, pr_actual = JNull, pr_expected = JNull,
     pr_explanation = m, pr_evidence_entity_ids = []\<rparr>"

definition unobserved_entity :: "string \<Rightarrow> predicate_result" where
  "unobserved_entity i = unknown_result [Txt (''entity '' @ i @ '' is unobserved'')]"

section \<open>Field predicates\<close>

datatype compare_mode = Mode_Equals | Mode_Not_Equals

definition field_compare :: "string \<Rightarrow> string \<Rightarrow> json \<Rightarrow> world \<Rightarrow> compare_mode \<Rightarrow> predicate_result" where
  "field_compare i path v w mode =
     (case dget w i of
        None \<Rightarrow> unobserved_entity i
      | Some e \<Rightarrow>
          (case get_path (JObj e) path of
             None \<Rightarrow> \<lparr>pr_satisfied = None, pr_actual = JNull, pr_expected = v,
               pr_explanation = [Txt (''field '' @ path @ '' is unobserved'')], pr_evidence_entity_ids = [i]\<rparr>
           | Some actual \<Rightarrow>
               \<lparr>pr_satisfied = Some (if mode = Mode_Equals then py_eq actual v else \<not> py_eq actual v),
                pr_actual = actual, pr_expected = v,
                pr_explanation =
                  [Txt (i @ ''.'' @ path @ '' '' @ (if mode = Mode_Equals then ''=='' else ''!='') @ '' ''),
                   Quoted v, Txt ''; actual='', Quoted actual],
                pr_evidence_entity_ids = [i]\<rparr>))"

definition field_exists :: "string \<Rightarrow> string \<Rightarrow> bool \<Rightarrow> world \<Rightarrow> predicate_result" where
  "field_exists i path expected w =
     (case dget w i of
        None \<Rightarrow> unobserved_entity i
      | Some e \<Rightarrow>
          (let ex = get_path (JObj e) path \<noteq> None in
           \<lparr>pr_satisfied = Some (ex = expected), pr_actual = JBool ex, pr_expected = JBool expected,
            pr_explanation = [Txt (i @ ''.'' @ path @ '' existence is ''), Shown (JBool ex)],
            pr_evidence_entity_ids = [i]\<rparr>))"

datatype numeric_mode = Mode_Gte | Mode_Lte

definition numeric_compare :: "string \<Rightarrow> string \<Rightarrow> rat \<Rightarrow> world \<Rightarrow> numeric_mode \<Rightarrow> predicate_result" where
  "numeric_compare i path v w mode =
     (case dget w i of
        None \<Rightarrow> unobserved_entity i
      | Some e \<Rightarrow>
          (case Option.bind (get_path (JObj e) path) (\<lambda>a. map_option (Pair a) (num_of a)) of
             None \<Rightarrow> \<lparr>pr_satisfied = None, pr_actual = JNull, pr_expected = JFloat v,
               pr_explanation = [Txt (''numeric field '' @ path @ '' is unavailable'')], pr_evidence_entity_ids = [i]\<rparr>
           | Some (actual, x) \<Rightarrow>
               \<lparr>pr_satisfied = Some (if mode = Mode_Gte then v \<le> x else x \<le> v),
                pr_actual = actual, pr_expected = JFloat v,
                pr_explanation =
                  [Txt (i @ ''.'' @ path @ '' '' @ (if mode = Mode_Gte then ''>='' else ''<='') @ '' ''),
                   Shown (JFloat v), Txt ''; actual='', Shown actual],
                pr_evidence_entity_ids = [i]\<rparr>))"

definition fields_equal :: "string \<Rightarrow> string \<Rightarrow> string \<Rightarrow> string \<Rightarrow> world \<Rightarrow> predicate_result" where
  "fields_equal li lp ri rp w =
     (case (dget w li, dget w ri) of
        (Some l, Some r) \<Rightarrow>
          (case (get_path (JObj l) lp, get_path (JObj r) rp) of
             (Some lv, Some rv) \<Rightarrow>
               \<lparr>pr_satisfied = Some (py_eq lv rv), pr_actual = JObj [(''left'', lv), (''right'', rv)],
                pr_expected = JStr ''equal'',
                pr_explanation = [Txt (li @ ''.'' @ lp @ '' == '' @ ri @ ''.'' @ rp)],
                pr_evidence_entity_ids = [li, ri]\<rparr>
           | _ \<Rightarrow> (unknown_result [Txt ''one or both compared fields are unavailable''])
                    \<lparr>pr_evidence_entity_ids := [li, ri]\<rparr>)
      | _ \<Rightarrow> unknown_result [Txt ''one or both compared entities are unobserved''])"

section \<open>Graph predicates\<close>

definition related_target :: "string \<Rightarrow> direction \<Rightarrow> relationship \<Rightarrow> string option" where
  "related_target src d r =
     (if d \<in> {Outgoing, Either} \<and> rel_source r = src then Some (rel_target r)
      else if d \<in> {Incoming, Either} \<and> rel_target r = src then Some (rel_source r)
      else None)"

text \<open>\<open>if predicate.target_path:\<close> an absent or empty path does not filter.\<close>

definition target_matches :: "string option \<Rightarrow> json \<Rightarrow> world \<Rightarrow> string \<Rightarrow> bool" where
  "target_matches tp tv w t =
     (case tp of
        None \<Rightarrow> True
      | Some path \<Rightarrow> path = [] \<or>
          (case observe w t path of None \<Rightarrow> False | Some v \<Rightarrow> py_eq v tv))"

definition related_candidates ::
    "string \<Rightarrow> string set \<Rightarrow> direction \<Rightarrow> string option \<Rightarrow> json \<Rightarrow> world \<Rightarrow> relationship list \<Rightarrow> string list" where
  "related_candidates src types d tp tv w rels =
     filter (target_matches tp tv w)
       (List.map_filter (related_target src d)
         (filter (\<lambda>r. types = {} \<or> rel_type r \<in> types) rels))"

definition related_count ::
    "string \<Rightarrow> string set \<Rightarrow> direction \<Rightarrow> string option \<Rightarrow> json \<Rightarrow> int \<Rightarrow> world \<Rightarrow> relationship list \<Rightarrow> predicate_result" where
  "related_count src types d tp tv minimum w rels =
     (let unique = sort (remdups (related_candidates src types d tp tv w rels)); n = int (length unique) in
      \<lparr>pr_satisfied = Some (minimum \<le> n), pr_actual = JInt n, pr_expected = JInt minimum,
       pr_explanation = [Txt (src @ '' has '' @ int_str n @ '' matching related entities; minimum='' @ int_str minimum)],
       pr_evidence_entity_ids = src # unique\<rparr>)"

section \<open>The evaluator\<close>

definition all_of :: "predicate_result list \<Rightarrow> predicate_result" where
  "all_of children =
     (let evidence = dedup (concat (map pr_evidence_entity_ids children)); sat = map pr_satisfied children in
      (if Some False \<in> set sat then
         (unknown_result [Txt ''at least one required predicate is false''])
           \<lparr>pr_satisfied := Some False, pr_evidence_entity_ids := evidence\<rparr>
       else if None \<in> set sat then
         (unknown_result [Txt ''at least one required predicate is unknown''])
           \<lparr>pr_evidence_entity_ids := evidence\<rparr>
       else
         (unknown_result [Txt ''all required predicates are true''])
           \<lparr>pr_satisfied := Some True, pr_evidence_entity_ids := evidence\<rparr>))"

definition any_of :: "predicate_result list \<Rightarrow> predicate_result" where
  "any_of children =
     (let evidence = dedup (concat (map pr_evidence_entity_ids children)); sat = map pr_satisfied children in
      (if Some True \<in> set sat then
         (unknown_result [Txt ''at least one alternative predicate is true''])
           \<lparr>pr_satisfied := Some True, pr_evidence_entity_ids := evidence\<rparr>
       else if None \<in> set sat then
         (unknown_result [Txt ''no alternative is true and at least one is unknown''])
           \<lparr>pr_evidence_entity_ids := evidence\<rparr>
       else
         (unknown_result [Txt ''all alternative predicates are false''])
           \<lparr>pr_satisfied := Some False, pr_evidence_entity_ids := evidence\<rparr>))"

definition negated :: "predicate_result \<Rightarrow> predicate_result" where
  "negated child = child\<lparr>pr_satisfied := map_option HOL.Not (pr_satisfied child),
     pr_explanation := Txt ''negation of: '' # pr_explanation child\<rparr>"

fun evaluate :: "predicate \<Rightarrow> world \<Rightarrow> relationship list \<Rightarrow> predicate_result" where
  "evaluate (FieldEquals i path v) w rels = field_compare i path v w Mode_Equals"
| "evaluate (FieldNotEquals i path v) w rels = field_compare i path v w Mode_Not_Equals"
| "evaluate (FieldExists i path expected) w rels = field_exists i path expected w"
| "evaluate (FieldGte i path v) w rels = numeric_compare i path v w Mode_Gte"
| "evaluate (FieldLte i path v) w rels = numeric_compare i path v w Mode_Lte"
| "evaluate (FieldsEqual li lp ri rp) w rels = fields_equal li lp ri rp w"
| "evaluate (RelatedCountGte s ts d tp tv n) w rels = related_count s ts d tp tv n w rels"
| "evaluate (AllOfPredicate ps) w rels = all_of (map (\<lambda>p. evaluate p w rels) ps)"
| "evaluate (AnyOfPredicate ps) w rels = any_of (map (\<lambda>p. evaluate p w rels) ps)"
| "evaluate (NotPredicate p) w rels = negated (evaluate p w rels)"

abbreviation satisfied :: "predicate \<Rightarrow> world \<Rightarrow> relationship list \<Rightarrow> bool option" where
  "satisfied p w rels \<equiv> pr_satisfied (evaluate p w rels)"

section \<open>Kleene's logic\<close>

text \<open>The order false < unknown < true; conjunction is the minimum, disjunction the maximum.\<close>

fun k_rank :: "bool option \<Rightarrow> nat" where
  "k_rank (Some False) = 0"
| "k_rank None = 1"
| "k_rank (Some True) = 2"

definition k_and :: "bool option \<Rightarrow> bool option \<Rightarrow> bool option" where
  "k_and a b = (if k_rank a \<le> k_rank b then a else b)"

definition k_or :: "bool option \<Rightarrow> bool option \<Rightarrow> bool option" where
  "k_or a b = (if k_rank a \<le> k_rank b then b else a)"

definition k_not :: "bool option \<Rightarrow> bool option" where
  "k_not a = map_option HOL.Not a"

text \<open>The abstract value of a predicate: Kleene connectives over the evaluator's atoms.\<close>

fun kleene :: "predicate \<Rightarrow> world \<Rightarrow> relationship list \<Rightarrow> bool option" where
  "kleene (AllOfPredicate ps) w rels = foldr (\<lambda>p a. k_and (kleene p w rels) a) ps (Some True)"
| "kleene (AnyOfPredicate ps) w rels = foldr (\<lambda>p a. k_or (kleene p w rels) a) ps (Some False)"
| "kleene (NotPredicate p) w rels = k_not (kleene p w rels)"
| "kleene p w rels = pr_satisfied (evaluate p w rels)"

lemma k_exhaust: "(a = Some False \<Longrightarrow> P) \<Longrightarrow> (a = None \<Longrightarrow> P) \<Longrightarrow> (a = Some True \<Longrightarrow> P) \<Longrightarrow> P"
  by (cases a) auto

lemma k_and_simps [simp]:
  "k_and (Some False) a = Some False" "k_and a (Some False) = Some False"
  "k_and (Some True) a = a" "k_and a (Some True) = a" "k_and None None = None"
  by (cases a rule: k_exhaust; simp add: k_and_def)+

lemma k_or_simps [simp]:
  "k_or (Some True) a = Some True" "k_or a (Some True) = Some True"
  "k_or (Some False) a = a" "k_or a (Some False) = a" "k_or None None = None"
  by (cases a rule: k_exhaust; simp add: k_or_def)+

lemma k_and_fold:
  "foldr (\<lambda>p a. k_and (f p) a) ps (Some True) =
     (if Some False \<in> f ` set ps then Some False else if None \<in> f ` set ps then None else Some True)"
proof (induction ps)
  case (Cons p ps)
  then show ?case by (cases "f p" rule: k_exhaust) auto
qed simp

lemma k_or_fold:
  "foldr (\<lambda>p a. k_or (f p) a) ps (Some False) =
     (if Some True \<in> f ` set ps then Some True else if None \<in> f ` set ps then None else Some False)"
proof (induction ps)
  case (Cons p ps)
  then show ?case by (cases "f p" rule: k_exhaust) auto
qed simp

lemma satisfied_all_of:
  "pr_satisfied (all_of rs) =
     (if Some False \<in> pr_satisfied ` set rs then Some False
      else if None \<in> pr_satisfied ` set rs then None else Some True)"
  by (simp add: all_of_def unknown_result_def Let_def)

lemma satisfied_any_of:
  "pr_satisfied (any_of rs) =
     (if Some True \<in> pr_satisfied ` set rs then Some True
      else if None \<in> pr_satisfied ` set rs then None else Some False)"
  by (simp add: any_of_def unknown_result_def Let_def)

lemma satisfied_AllOf:
  "satisfied (AllOfPredicate ps) w rels =
     (if Some False \<in> (\<lambda>p. satisfied p w rels) ` set ps then Some False
      else if None \<in> (\<lambda>p. satisfied p w rels) ` set ps then None else Some True)"
  by (simp add: satisfied_all_of image_image cong: if_cong)

lemma satisfied_AnyOf:
  "satisfied (AnyOfPredicate ps) w rels =
     (if Some True \<in> (\<lambda>p. satisfied p w rels) ` set ps then Some True
      else if None \<in> (\<lambda>p. satisfied p w rels) ` set ps then None else Some False)"
  by (simp add: satisfied_any_of image_image cong: if_cong)

lemma satisfied_negated [simp]: "pr_satisfied (negated r) = k_not (pr_satisfied r)"
  by (simp add: negated_def k_not_def)

lemma evaluate_kleene: "satisfied p w rels = kleene p w rels"
proof (induction p w rels rule: evaluate.induct)
  case (8 ps w rels)
  then have "(\<lambda>p. satisfied p w rels) ` set ps = (\<lambda>p. kleene p w rels) ` set ps"
    by (auto intro!: image_eqI)
  then show ?case
    by (simp add: satisfied_AllOf k_and_fold del: evaluate.simps cong: if_cong)
next
  case (9 ps w rels)
  then have "(\<lambda>p. satisfied p w rels) ` set ps = (\<lambda>p. kleene p w rels) ` set ps"
    by (auto intro!: image_eqI)
  then show ?case
    by (simp add: satisfied_AnyOf k_or_fold del: evaluate.simps cong: if_cong)
qed (simp_all)

section \<open>Definite verdicts and partial observation\<close>

text \<open>One world shows at least what another shows.\<close>

definition more_observed :: "world \<Rightarrow> world \<Rightarrow> bool" where
  "more_observed w w' \<longleftrightarrow> (\<forall>i path v. observe w i path = Some v \<longrightarrow> observe w' i path = Some v)"

text \<open>Predicates without existence tests and counts, which read absence as evidence.\<close>

fun value_based :: "predicate \<Rightarrow> bool" where
  "value_based (FieldExists i p e) = False"
| "value_based (RelatedCountGte s ts d p v n) = False"
| "value_based (AllOfPredicate ps) = (\<forall>p \<in> set ps. value_based p)"
| "value_based (AnyOfPredicate ps) = (\<forall>p \<in> set ps. value_based p)"
| "value_based (NotPredicate p) = value_based p"
| "value_based _ = True"

lemma satisfied_field_compare:
  "pr_satisfied (field_compare i path v w mode) =
     map_option (\<lambda>a. if mode = Mode_Equals then py_eq a v else \<not> py_eq a v) (observe w i path)"
  by (auto simp: field_compare_def observe_def unobserved_entity_def unknown_result_def split: option.splits)

lemma satisfied_numeric_compare:
  "pr_satisfied (numeric_compare i path v w mode) =
     map_option (\<lambda>x. if mode = Mode_Gte then v \<le> x else x \<le> v) (Option.bind (observe w i path) num_of)"
  by (auto simp: numeric_compare_def observe_def unobserved_entity_def unknown_result_def
      split: option.splits bind_splits)

lemma satisfied_fields_equal:
  "pr_satisfied (fields_equal li lp ri rp w) =
     Option.bind (observe w li lp) (\<lambda>a. map_option (py_eq a) (observe w ri rp))"
  by (auto simp: fields_equal_def observe_def unknown_result_def split: option.splits)

lemma k_definite:
  "\<forall>r \<in> set ps. \<forall>b. f r = Some b \<longrightarrow> g r = Some b \<Longrightarrow>
     (if Some c \<in> f ` set ps then Some c else if None \<in> f ` set ps then None else Some (\<not> c)) = Some b \<Longrightarrow>
     (if Some c \<in> g ` set ps then Some c else if None \<in> g ` set ps then None else Some (\<not> c)) = Some b"
proof -
  assume def: "\<forall>r \<in> set ps. \<forall>b. f r = Some b \<longrightarrow> g r = Some b"
    and val: "(if Some c \<in> f ` set ps then Some c else if None \<in> f ` set ps then None else Some (\<not> c)) = Some b"
  show ?thesis
  proof (cases "Some c \<in> f ` set ps")
    case True
    then have "Some c \<in> g ` set ps" using def by (metis imageE image_eqI)
    with True val show ?thesis by auto
  next
    case False
    then have none: "None \<notin> f ` set ps" and b: "b = (\<not> c)"
      using val by (auto split: if_splits)
    have "g r = Some (\<not> c)" if r: "r \<in> set ps" for r
    proof -
      from r none obtain x where x: "f r = Some x" by (metis image_eqI option.exhaust)
      have "f r \<noteq> Some c" using r False by (metis image_eqI)
      with x have "x = (\<not> c)" by (cases c; cases x) auto
      with x r def show ?thesis by simp
    qed
    then have "g ` set ps \<subseteq> {Some (\<not> c)}" by auto
    with b show ?thesis by auto
  qed
qed

lemma definite_stable:
  assumes "more_observed w w'"
  shows "value_based p \<Longrightarrow> satisfied p w rels = Some b \<Longrightarrow> satisfied p w' rels = Some b"
proof (induction p arbitrary: b)
  case (AllOfPredicate ps)
  then show ?case
    using k_definite [of ps "\<lambda>p. satisfied p w rels" "\<lambda>p. satisfied p w' rels" False b]
    by (simp add: satisfied_AllOf del: evaluate.simps cong: if_cong)
next
  case (AnyOfPredicate ps)
  then show ?case
    using k_definite [of ps "\<lambda>p. satisfied p w rels" "\<lambda>p. satisfied p w' rels" True b]
    by (simp add: satisfied_AnyOf del: evaluate.simps cong: if_cong)
next
  case (NotPredicate p)
  then show ?case by (auto simp: k_not_def)
qed (use assms in \<open>auto simp: satisfied_field_compare satisfied_numeric_compare satisfied_fields_equal
       more_observed_def bind_eq_Some_conv\<close>)

end
