(* ===== verification/Invariants.thy ===== *)
theory Invariants
  imports Evaluator
begin

text \<open>
  \<open>InvariantEngine\<close> of \<open>kubeops_core/invariants/evaluator.py\<close> (temporal requirements over the
  observed history) and \<open>VerificationEngine\<close> of \<open>kubeops_core/verification/engine.py\<close>, which turns
  verification conditions into invariants and judges a recovery by them.
\<close>

section \<open>Temporal requirements\<close>

type_synonym history = "(int \<times> world) list"

definition status_of :: "bool option \<Rightarrow> health_status" where
  "status_of s = (case s of Some True \<Rightarrow> HEALTHY | Some False \<Rightarrow> UNHEALTHY | None \<Rightarrow> UNKNOWN)"

text \<open>The last recorded state at or before the start of the window, and the later ones in it.\<close>

definition window_baseline :: "history \<Rightarrow> int \<Rightarrow> (int \<times> world) option" where
  "window_baseline h start =
     (let es = filter (\<lambda>e. fst e \<le> start) h in if es = [] then None else Some (last es))"

definition window_changes :: "history \<Rightarrow> int \<Rightarrow> int \<Rightarrow> history" where
  "window_changes h start now = filter (\<lambda>e. \<not> fst e \<le> start \<and> fst e \<le> now) h"

definition apply_eventually :: "int option \<Rightarrow> bool option \<Rightarrow> int \<Rightarrow> health_status \<times> string" where
  "apply_eventually deadline current now =
     (if current = Some True then (HEALTHY, ''bounded eventuality has been satisfied'')
      else (case deadline of
        None \<Rightarrow> (PENDING, ''waiting for eventual satisfaction without a deadline'')
      | Some d \<Rightarrow>
          if now < d then (PENDING, ''waiting until the '' @ int_str d @ ''s deadline'')
          else if current = None
          then (UNKNOWN, ''deadline '' @ int_str d @ ''s reached without sufficient evidence'')
          else (UNHEALTHY, ''deadline '' @ int_str d @ ''s elapsed before satisfaction'')))"

definition apply_stable ::
    "predicate \<Rightarrow> int option \<Rightarrow> bool option \<Rightarrow> int \<Rightarrow> history \<Rightarrow> relationship list \<Rightarrow> health_status \<times> string" where
  "apply_stable p dur current now h rels =
     (if current = Some False then (UNHEALTHY, ''current state violates the stability predicate'')
      else if current = None then (UNKNOWN, ''current stability state is unobservable'')
      else
        (let required = (case dur of None \<Rightarrow> 0 | Some n \<Rightarrow> n) in
         (case window_baseline h (now - required) of
            None \<Rightarrow> (PENDING, ''less than '' @ int_str required @ ''s of observation history is available'')
          | Some base \<Rightarrow>
              (let results = map (\<lambda>e. satisfied p (snd e) rels) (base # window_changes h (now - required) now) in
               if None \<in> set results then (UNKNOWN, ''the stability window contains unknown observations'')
               else if Some False \<in> set results
               then (PENDING, ''predicate has not remained true for '' @ int_str required @ ''s'')
               else (HEALTHY, ''predicate remained true for at least '' @ int_str required @ ''s'')))))"

definition apply_temporal ::
    "invariant_definition \<Rightarrow> predicate_result \<Rightarrow> int \<Rightarrow> history \<Rightarrow> relationship list \<Rightarrow> health_status \<times> string" where
  "apply_temporal iv current now h rels =
     (case tr_operator (inv_temporal iv) of
        Immediate \<Rightarrow> (status_of (pr_satisfied current), '''')
      | Eventually \<Rightarrow>
          apply_eventually (tr_within_seconds (inv_temporal iv)) (pr_satisfied current) now
      | Stable_For \<Rightarrow>
          apply_stable (inv_predicate iv) (tr_stable_for_seconds (inv_temporal iv))
            (pr_satisfied current) now h rels)"

section \<open>Evaluating all invariants\<close>

definition evaluate_one ::
    "world \<Rightarrow> int \<Rightarrow> history \<Rightarrow> relationship list \<Rightarrow> invariant_definition \<Rightarrow> invariant_evaluation" where
  "evaluate_one w now h rels iv =
     (let result = evaluate (inv_predicate iv) w rels;
          (status, temporal_explanation) = apply_temporal iv result now h rels in
      \<lparr>ev_invariant_id = inv_id iv, ev_status = status, ev_evaluated_at = now,
       ev_actual_value = pr_actual result, ev_expected = pr_expected result,
       ev_explanation =
         (if temporal_explanation \<noteq> '''' then pr_explanation result @ [Txt (''; '' @ temporal_explanation)]
          else pr_explanation result),
       ev_evidence_entity_ids =
         (if pr_evidence_entity_ids result = [] then [inv_subject_id iv] else pr_evidence_entity_ids result)\<rparr>)"

definition evaluate_all ::
    "invariant_definition list \<Rightarrow> world \<Rightarrow> int \<Rightarrow> history \<Rightarrow> relationship list \<Rightarrow> invariant_evaluation list" where
  "evaluate_all invs w now observed_history rels =
     (let h = (if observed_history = [] then [(now, w)] else observed_history) in
      map (evaluate_one w now h rels) invs)"

section \<open>The verification engine\<close>

text \<open>The first of the attributes \<open>entity_id\<close>, \<open>source_entity_id\<close>, \<open>left_entity_id\<close> that is set.\<close>

fun subject :: "predicate \<Rightarrow> string" where
  "subject (FieldEquals i p v) = (if i \<noteq> [] then i else ''environment'')"
| "subject (FieldNotEquals i p v) = (if i \<noteq> [] then i else ''environment'')"
| "subject (FieldExists i p e) = (if i \<noteq> [] then i else ''environment'')"
| "subject (FieldGte i p v) = (if i \<noteq> [] then i else ''environment'')"
| "subject (FieldLte i p v) = (if i \<noteq> [] then i else ''environment'')"
| "subject (FieldsEqual li lp ri rp) = (if li \<noteq> [] then li else ''environment'')"
| "subject (RelatedCountGte s ts d p v n) = (if s \<noteq> [] then s else ''environment'')"
| "subject _ = ''environment''"

definition condition_invariant :: "verification_condition \<Rightarrow> invariant_definition" where
  "condition_invariant c =
     \<lparr>inv_id = vc_id c, inv_title = vc_title c, inv_family = Fam_Recoverability,
      inv_subject_id = subject (vc_predicate c), inv_predicate = vc_predicate c,
      inv_severity = (if vc_required c then Sev_Critical else Sev_Warning),
      inv_temporal = vc_temporal c, inv_description = '''', inv_affected_objectives = []\<rparr>"

definition verify_conditions ::
    "verification_condition list \<Rightarrow> world \<Rightarrow> relationship list \<Rightarrow> int \<Rightarrow> history \<Rightarrow> verification_result list" where
  "verify_conditions conditions w rels now h =
     map (\<lambda>e. \<lparr>vr_result_id = ''verification:'' @ ev_invariant_id e @ '':'' @ int_str now,
               vr_condition_id = ev_invariant_id e, vr_status = ev_status e,
               vr_evaluated_at_seconds = now, vr_explanation = ev_explanation e,
               vr_evidence_ids = ev_evidence_entity_ids e, vr_actual_value = ev_actual_value e\<rparr>)
       (evaluate_all (map condition_invariant conditions) w now h rels)"

definition result_statuses :: "verification_result list \<Rightarrow> (string, health_status) dict" where
  "result_statuses results = dict_of (map (\<lambda>r. (vr_condition_id r, vr_status r)) results)"

definition successful :: "verification_condition list \<Rightarrow> verification_result list \<Rightarrow> bool" where
  "successful conditions results =
     (\<forall>i \<in> set (map vc_id (filter vc_required conditions)).
        dget (result_statuses results) i = Some HEALTHY)"

definition protected_violation :: "verification_condition list \<Rightarrow> verification_result list \<Rightarrow> bool" where
  "protected_violation conditions results =
     (\<exists>i \<in> set (map vc_id (filter (\<lambda>c. vc_level c = Side_Effect_Guard) conditions)).
        dget (result_statuses results) i = Some UNHEALTHY)"

section \<open>Meaning of the temporal operators\<close>

lemma immediate_status:
  "tr_operator (inv_temporal iv) = Immediate \<Longrightarrow>
     fst (apply_temporal iv r now h rels) = status_of (pr_satisfied r)"
  by (simp add: apply_temporal_def)

lemma eventually_status:
  "fst (apply_eventually dl cur now) =
     (if cur = Some True then HEALTHY
      else case dl of None \<Rightarrow> PENDING
        | Some d \<Rightarrow> if now < d then PENDING else if cur = None then UNKNOWN else UNHEALTHY)"
  by (simp add: apply_eventually_def split: option.split)

lemma window_baseline_Some:
  "window_baseline h start = Some e \<Longrightarrow> e \<in> set h \<and> fst e \<le> start"
proof -
  assume "window_baseline h start = Some e"
  then have "e \<in> set (filter (\<lambda>e. fst e \<le> start) h)"
    using last_in_set by (fastforce simp: window_baseline_def Let_def split: if_splits)
  then show ?thesis by auto
qed

lemma window_baseline_None:
  "window_baseline h start = None \<longleftrightarrow> (\<forall>e \<in> set h. start < fst e)"
  by (auto simp: window_baseline_def filter_empty_conv not_le Let_def)

lemma last_is_latest:
  "sorted (map fst es) \<Longrightarrow> e \<in> set es \<Longrightarrow> fst e \<le> fst (last es)"
  by (induction es) (auto split: if_splits)

lemma window_baseline_latest:
  assumes "sorted (map fst h)" "window_baseline h start = Some b" "e \<in> set h" "fst e \<le> start"
  shows "fst e \<le> fst b"
proof -
  let ?es = "filter (\<lambda>e. fst e \<le> start) h"
  have "b = last ?es" using assms(2) by (auto simp: window_baseline_def Let_def split: if_splits)
  moreover have "sorted (map fst ?es)" using assms(1) by (rule sorted_filter)
  moreover have "e \<in> set ?es" using assms(3,4) by simp
  ultimately show ?thesis using last_is_latest by blast
qed

lemma stable_healthy_iff:
  "fst (apply_stable p dur cur now h rels) = HEALTHY \<longleftrightarrow>
     cur = Some True \<and>
     (\<exists>b. window_baseline h (now - (case dur of None \<Rightarrow> 0 | Some n \<Rightarrow> n)) = Some b \<and>
        (\<forall>e \<in> insert b (set (window_changes h (now - (case dur of None \<Rightarrow> 0 | Some n \<Rightarrow> n)) now)).
           satisfied p (snd e) rels = Some True))"
proof -
  let ?start = "now - (case dur of None \<Rightarrow> 0 | Some n \<Rightarrow> n)"
  have all: "(None \<notin> f ` A \<and> Some False \<notin> f ` A) \<longleftrightarrow> (\<forall>e \<in> A. f e = Some True)"
    for f :: "int \<times> world \<Rightarrow> bool option" and A
    by (auto simp: image_iff) (metis (full_types) option.exhaust)
  show ?thesis
  proof (cases "window_baseline h ?start")
    case None
    then show ?thesis by (simp add: apply_stable_def Let_def)
  next
    case (Some b)
    show ?thesis
      using all [of "\<lambda>e. satisfied p (snd e) rels" "insert b (set (window_changes h ?start now))"] Some
      by (auto simp: apply_stable_def Let_def image_image split: if_splits)
  qed
qed

lemma dget_result_statuses:
  "distinct (map vr_condition_id results) \<Longrightarrow>
     dget (result_statuses results) i = Some s \<longleftrightarrow>
     (\<exists>r \<in> set results. vr_condition_id r = i \<and> vr_status r = s)"
proof -
  assume "distinct (map vr_condition_id results)"
  then have d: "distinct (map fst (map (\<lambda>r. (vr_condition_id r, vr_status r)) results))"
    by (simp add: comp_def)
  show ?thesis
    using wf_dict_dget [of "map (\<lambda>r. (vr_condition_id r, vr_status r)) results" i s] d
    by (auto simp: result_statuses_def dget_dict_of dget_rev_distinct [OF d] wf_dict_def)
qed

lemma vr_condition_ids: "map vr_condition_id (verify_conditions cs w rels now h) = map vc_id cs"
  by (simp add: verify_conditions_def evaluate_all_def evaluate_one_def Let_def condition_invariant_def
      comp_def case_prod_beta)

text \<open>The status a condition gets, by the temporal semantics of its requirement.\<close>

definition condition_status ::
    "verification_condition \<Rightarrow> world \<Rightarrow> relationship list \<Rightarrow> int \<Rightarrow> history \<Rightarrow> health_status" where
  "condition_status c w rels now h =
     fst (apply_temporal (condition_invariant c) (evaluate (vc_predicate c) w rels) now
       (if h = [] then [(now, w)] else h) rels)"

lemma verify_conditions_status:
  "map (\<lambda>r. (vr_condition_id r, vr_status r)) (verify_conditions cs w rels now h) =
     map (\<lambda>c. (vc_id c, condition_status c w rels now h)) cs"
  by (simp add: verify_conditions_def evaluate_all_def evaluate_one_def Let_def condition_status_def
      condition_invariant_def comp_def case_prod_beta)

lemma dget_verified:
  assumes "distinct (map vc_id cs)" "c \<in> set cs"
  shows "dget (result_statuses (verify_conditions cs w rels now h)) (vc_id c) =
    Some (condition_status c w rels now h)"
proof -
  let ?kvs = "map (\<lambda>c. (vc_id c, condition_status c w rels now h)) cs"
  have d: "distinct (map fst ?kvs)" using assms(1) by (simp add: comp_def)
  then have "dget ?kvs (vc_id c) = Some (condition_status c w rels now h)"
    using assms(2) by (intro map_of_is_SomeI) auto
  then show ?thesis
    by (simp add: result_statuses_def verify_conditions_status dget_dict_of dget_rev_distinct [OF d])
qed

lemma successful_verified:
  "distinct (map vc_id cs) \<Longrightarrow>
     successful cs (verify_conditions cs w rels now h) \<longleftrightarrow>
     (\<forall>c \<in> set cs. vc_required c \<longrightarrow> condition_status c w rels now h = HEALTHY)"
  by (auto simp: successful_def dget_verified)

lemma protected_verified:
  "distinct (map vc_id cs) \<Longrightarrow>
     protected_violation cs (verify_conditions cs w rels now h) \<longleftrightarrow>
     (\<exists>c \<in> set cs. vc_level c = Side_Effect_Guard \<and> condition_status c w rels now h = UNHEALTHY)"
  by (auto simp: protected_violation_def dget_verified)

end
