(* ===== verification/Runtime.thy ===== *)
theory Runtime
  imports Executors Policy Invariants
begin

text \<open>
  \<open>execution/runtime.py\<close>: the operation runtime. Every method takes the operation and returns its
  successor; the store, the clock, the simulated world and the external calls are the threaded
  state of \<open>Effects\<close>. Clock readings are taken in the order of the code. The main loop is a
  recursion on the pending actions, each of which it removes.
\<close>

section \<open>Contexts\<close>

record runtime_context =
  ctx_policy :: policy_context
  ctx_execution :: execution_context
  ctx_world :: "rt_state \<Rightarrow> world"
  ctx_relationships :: "rt_state \<Rightarrow> relationship list"

record runtime =
  run_actions :: action_catalog
  run_executors :: executor_registry

definition provided_world :: "runtime_context \<Rightarrow> world rt" where
  "provided_world ctx s = (Inr (ctx_world ctx s), s)"

definition provided_relationships :: "runtime_context \<Rightarrow> relationship list rt" where
  "provided_relationships ctx s = (Inr (ctx_relationships ctx s), s)"

section \<open>Events\<close>

definition make_event ::
    "environment \<Rightarrow> string \<Rightarrow> nat \<Rightarrow> string \<Rightarrow> string \<Rightarrow> string option \<Rightarrow> fields \<Rightarrow> operation_event rt" where
  "make_event E i seq ty title aid details =
     rt_bind (rt_now_iso E) (\<lambda>now.
       rt_return \<lparr>oe_sequence = seq, oe_operation_id = i, oe_event_type = ty, oe_occurred_at_iso = now,
         oe_title = title, oe_action_id = aid, oe_artifact_ids = [], oe_details = details\<rparr>)"

text \<open>\<open>"events": [*operation.events, self._event(operation.operation_id, len(operation.events), ...)]\<close>.\<close>

definition add_event ::
    "environment \<Rightarrow> string \<Rightarrow> string \<Rightarrow> string option \<Rightarrow> fields \<Rightarrow> operation_run \<Rightarrow> operation_run rt" where
  "add_event E ty title aid details op =
     rt_bind (make_event E (op_id op) (length (op_events op)) ty title aid details) (\<lambda>ev.
       rt_return (op\<lparr>op_events := op_events op @ [ev]\<rparr>))"

definition touch :: "environment \<Rightarrow> operation_run \<Rightarrow> operation_run rt" where
  "touch E op = rt_bind (rt_now_iso E) (\<lambda>now. rt_return (op\<lparr>op_updated_at_iso := now\<rparr>))"

definition save_return :: "operation_run \<Rightarrow> operation_run rt" where
  "save_return op = rt_then (rt_save op) (rt_return op)"

definition with_actions :: "(action_instance \<Rightarrow> action_instance) \<Rightarrow> operation_run \<Rightarrow> operation_run" where
  "with_actions f op = op\<lparr>op_plan := (op_plan op)\<lparr>plan_actions := map f (plan_actions (op_plan op))\<rparr>\<rparr>"

definition set_status_of :: "string \<Rightarrow> action_status \<Rightarrow> action_instance \<Rightarrow> action_instance" where
  "set_status_of i st a = (if act_id a = i then a\<lparr>act_status := st\<rparr> else a)"

section \<open>Creation and approval\<close>

definition created_operation ::
    "string \<Rightarrow> recovery_plan \<Rightarrow> plan_mode \<Rightarrow> approval_record list \<Rightarrow> string \<Rightarrow> operation_run" where
  "created_operation env plan mode approvals now =
     \<lparr>op_id = ''operation:'' @ env @ '':'' @ last (split_on CHR '':'' (plan_id plan)),
      op_environment_id = env, op_type = plan_operation_type plan,
      op_objective_id = plan_objective_id plan, op_status = St_Created, op_mode = mode,
      op_plan = plan\<lparr>plan_mode := mode\<rparr>, op_policy_decisions = [], op_approvals = approvals,
      op_action_receipts = [], op_verification_results = [], op_recovery_certificate = None,
      op_events = [], op_checkpoints = [], op_current_action_ids = [], op_created_at_iso = now,
      op_updated_at_iso = now, op_started_at_iso = None, op_completed_at_iso = None,
      op_pause_reason = None, op_failure_reason = None, op_metadata = []\<rparr>"

definition runtime_create ::
    "environment \<Rightarrow> runtime \<Rightarrow> string \<Rightarrow> recovery_plan \<Rightarrow> plan_mode \<Rightarrow> approval_record list \<Rightarrow> operation_run rt" where
  "runtime_create E rt env plan mode approvals =
     rt_bind (rt_map (\<lambda>a. rt_lift (validate_instance (run_actions rt) a)) (plan_actions plan)) (\<lambda>_.
     rt_bind (rt_now_iso E) (\<lambda>now.
     rt_bind (add_event E ''operation.created'' ''Operation created'' None []
       (created_operation env plan mode approvals now)) save_return))"

definition add_approval :: "environment \<Rightarrow> operation_run \<Rightarrow> approval_record \<Rightarrow> operation_run rt" where
  "add_approval E op approval =
     (if appr_operation_id approval \<noteq> op_id op
      then rt_raise ValueError ''approval belongs to a different operation''
      else
        rt_bind (touch E (op\<lparr>op_approvals := op_approvals op @ [approval]\<rparr>)) (\<lambda>op.
        rt_bind (add_event E ''approval.recorded''
          (''Approval '' @ approval_value (appr_decision approval) @ '' by '' @ appr_approver_id approval)
          (appr_action_id approval) [] op) save_return))"

section \<open>Authorization\<close>

definition effective_mode :: "operation_run \<Rightarrow> runtime_context \<Rightarrow> string" where
  "effective_mode op ctx = (if op_mode op = Dry_Run then ''dry_run'' else ec_mode (ctx_execution ctx))"

definition decide ::
    "environment \<Rightarrow> runtime \<Rightarrow> execution_policy \<Rightarrow> policy_context \<Rightarrow> approval_record list \<Rightarrow>
     action_instance \<Rightarrow> policy_decision rt" where
  "decide E rt pol pctx approvals a =
     rt_bind (rt_lift (validate_instance (run_actions rt) a)) (\<lambda>d.
     rt_bind (rt_now E) (\<lambda>now.
     rt_bind (rt_now_iso E) (\<lambda>now_iso.
       rt_return (policy_evaluate now now_iso a d pol pctx approvals))))"

definition outcome_status :: "policy_outcome \<Rightarrow> action_status" where
  "outcome_status outcome =
     (case outcome of Allow \<Rightarrow> Act_Authorized | Approval_Required \<Rightarrow> Act_Approval_Required | Deny \<Rightarrow> Act_Blocked)"

text \<open>\<open>decision_by_action[action.action_id]\<close>: the last decision of that action id.\<close>

definition decided_status :: "policy_decision list \<Rightarrow> action_instance \<Rightarrow> action_status" where
  "decided_status decisions a =
     (case dget (dict_of (map (\<lambda>d. (pd_action_id d, d)) decisions)) (act_id a) of
        Some d \<Rightarrow> outcome_status (pd_outcome d) | None \<Rightarrow> act_status a)"

definition authorization_outcome :: "policy_decision list \<Rightarrow> operation_status \<times> string" where
  "authorization_outcome decisions =
     (let denied = filter (\<lambda>d. pd_outcome d = Deny) decisions;
          pending = filter (\<lambda>d. pd_outcome d = Approval_Required) decisions in
      if denied \<noteq> [] then (St_Blocked, ''Authorization denied for '' @ nat_str (length denied) @ '' action(s)'')
      else if pending \<noteq> []
      then (St_Awaiting_Approval, ''Awaiting approval for '' @ nat_str (length pending) @ '' action(s)'')
      else (St_Authorized, ''All planned actions authorized''))"

definition runtime_authorize ::
    "environment \<Rightarrow> runtime \<Rightarrow> operation_run \<Rightarrow> execution_policy \<Rightarrow> runtime_context \<Rightarrow> operation_run rt" where
  "runtime_authorize E rt op pol ctx =
     rt_bind (rt_map (decide E rt pol ((ctx_policy ctx)\<lparr>pc_execution_mode := effective_mode op ctx\<rparr>)
       (op_approvals op)) (plan_actions (op_plan op))) (\<lambda>decisions.
     rt_bind (touch E ((with_actions (\<lambda>a. a\<lparr>act_status := decided_status decisions a\<rparr>) op)
       \<lparr>op_status := fst (authorization_outcome decisions), op_policy_decisions := decisions\<rparr>)) (\<lambda>op.
     rt_bind (add_event E ''operation.authorization_evaluated'' (snd (authorization_outcome decisions)) None
       [(''decision_count'', JInt (int (length decisions)))] op) save_return))"

section \<open>Steps of the loop\<close>

definition set_action_status ::
    "environment \<Rightarrow> operation_run \<Rightarrow> string \<Rightarrow> action_status \<Rightarrow> bool \<Rightarrow> operation_run rt" where
  "set_action_status E op i st current =
     (let op1 = (with_actions (set_status_of i st) op)
            \<lparr>op_current_action_ids := (if current then [i] else filter (\<lambda>j. j \<noteq> i) (op_current_action_ids op))\<rparr> in
      rt_bind (if current then add_event E ''action.started'' (''Action '' @ i @ '' started'') (Some i) [] op1
        else rt_return op1) (\<lambda>op.
      rt_bind (touch E op) save_return))"

definition world_json :: "world \<Rightarrow> json" where
  "world_json w = JObj (map (\<lambda>(i, e). (i, JObj e)) w)"

definition settled_status :: "receipt_status \<Rightarrow> bool" where
  "settled_status st \<longleftrightarrow> st \<in> {Rc_Completed, Rc_Already_Satisfied, Rc_Skipped}"

definition runtime_checkpoint :: "environment \<Rightarrow> operation_run \<Rightarrow> world \<Rightarrow> operation_run rt" where
  "runtime_checkpoint E op w =
     (let completed = map rc_action_id (filter (\<lambda>r. settled_status (rc_status r)) (op_action_receipts op));
          pending = filter (\<lambda>i. i \<notin> set completed) (map act_id (plan_actions (op_plan op))) in
      rt_bind (rt_now_iso E) (\<lambda>now.
      let cp = \<lparr>cp_id = ''checkpoint:'' @ op_id op @ '':'' @ nat_str (length (op_checkpoints op)),
                cp_operation_id = op_id op, cp_created_at_iso = now, cp_completed_action_ids = completed,
                cp_pending_action_ids = pending, cp_failed_action_ids = [], cp_world_state = w,
                cp_state_hash = env_digest E (world_json w), cp_resumable = True, cp_metadata = []\<rparr> in
      rt_bind (add_event E ''checkpoint.created'' ''Execution checkpoint created'' None
        [(''checkpoint_id'', JStr (cp_id cp))] (op\<lparr>op_checkpoints := op_checkpoints op @ [cp]\<rparr>)) (\<lambda>op.
      rt_bind (touch E op) save_return)))"

definition already_satisfied :: "environment \<Rightarrow> operation_run \<Rightarrow> action_instance \<Rightarrow> action_receipt rt" where
  "already_satisfied E op a =
     rt_bind (rt_now_iso E) (\<lambda>now.
       rt_return ((base_receipt ''idempotent'' (op_id op) a ''idempotency_guard'' Rc_Already_Satisfied 1 now now)
         \<lparr>rc_stdout := ''matching idempotency key already completed''\<rparr>))"

definition fail_operation :: "environment \<Rightarrow> operation_run \<Rightarrow> string \<Rightarrow> operation_run rt" where
  "fail_operation E op reason =
     rt_bind (touch E (op\<lparr>op_status := St_Failed, op_failure_reason := Some reason\<rparr>))
       (add_event E ''operation.failed'' reason None [])"

text \<open>\<open>for attempt in range(1, max_attempts + 1)\<close>, with the attempts left.\<close>

fun attempt_loop ::
    "executor \<Rightarrow> action_instance \<Rightarrow> action_type \<Rightarrow> execution_context \<Rightarrow> nat \<Rightarrow> nat \<Rightarrow>
     action_receipt option \<Rightarrow> action_receipt rt" where
  "attempt_loop x a d ec n 0 prev =
     (case prev of None \<Rightarrow> rt_raise AssertionError [] | Some r \<Rightarrow> rt_return r)"
| "attempt_loop x a d ec n (Suc k) prev =
     rt_bind (ex_execute x a d ec n) (\<lambda>r.
       if settled_status (rc_status r) then rt_return r else attempt_loop x a d ec (Suc n) k (Some r))"

definition execute_action ::
    "environment \<Rightarrow> runtime \<Rightarrow> operation_run \<Rightarrow> action_instance \<Rightarrow> runtime_context \<Rightarrow> action_receipt rt" where
  "execute_action E rt op a ctx =
     rt_bind (rt_lift (validate_instance (run_actions rt) a)) (\<lambda>d.
       if effective_mode op ctx \<noteq> ''dry_run'' \<and> effective_mode op ctx \<notin> at_supported_modes d
       then rt_raise PermissionError (''action '' @ act_id a @ '' does not support execution mode '' @
              repr_str (effective_mode op ctx))
       else
         rt_bind (rt_lift (executor_get (run_executors rt)
           (if op_mode op = Dry_Run then ''dry_run''
            else if ec_mode (ctx_execution ctx) = ''simulation'' then ''simulation''
            else at_executor_id d))) (\<lambda>x.
           attempt_loop x a d (ctx_execution ctx) 1 (at_max_attempts d) None))"

definition receipt_effect :: "receipt_status \<Rightarrow> string \<times> action_status" where
  "receipt_effect st =
     (case st of
        Rc_Rolled_Back \<Rightarrow> (''action.rolled_back'', Act_Rolled_Back)
      | Rc_Completed \<Rightarrow> (''action.completed'', Act_Completed)
      | Rc_Already_Satisfied \<Rightarrow> (''action.completed'', Act_Completed)
      | Rc_Skipped \<Rightarrow> (''action.completed'', Act_Skipped)
      | Rc_Failed \<Rightarrow> (''action.failed'', Act_Failed))"

definition append_receipt :: "environment \<Rightarrow> operation_run \<Rightarrow> action_receipt \<Rightarrow> operation_run rt" where
  "append_receipt E op r =
     rt_bind (touch E ((with_actions (set_status_of (rc_action_id r) (snd (receipt_effect (rc_status r)))) op)
       \<lparr>op_action_receipts := op_action_receipts op @ [r],
        op_current_action_ids := filter (\<lambda>i. i \<noteq> rc_action_id r) (op_current_action_ids op)\<rparr>)) (\<lambda>op.
     rt_bind (add_event E (fst (receipt_effect (rc_status r)))
       (rc_action_id r @ '': '' @ receipt_status_value (rc_status r)) (Some (rc_action_id r))
       [(''receipt_id'', JStr (rc_id r)), (''executor_id'', JStr (rc_executor_id r))] op) save_return)"

section \<open>Rollback\<close>

definition rollback_action :: "action_instance \<Rightarrow> action_type \<Rightarrow> action_instance" where
  "rollback_action a d =
     \<lparr>act_id = ''rollback:'' @ act_id a, act_type_id = at_id d,
      act_title = ''Rollback '' @ (if act_title a \<noteq> [] then act_title a else act_type_id a),
      act_target_ids = act_target_ids a, act_parameters = act_parameters a, act_depends_on = [],
      act_risk = at_default_risk d, act_status = Act_Authorized,
      act_idempotency_key = (case act_idempotency_key a of
          None \<Rightarrow> None | Some k \<Rightarrow> if k = [] then None else Some (''rollback:'' @ k)),
      act_stage_id = None, act_checkpoint_before = False, act_optional = False,
      act_metadata = [(''rollback_of'', JStr (act_id a))]\<rparr>"

primrec rollback_receipts ::
    "environment \<Rightarrow> runtime \<Rightarrow> runtime_context \<Rightarrow> action_receipt list \<Rightarrow> operation_run \<Rightarrow> operation_run rt" where
  "rollback_receipts E rt ctx [] op = rt_return op"
| "rollback_receipts E rt ctx (r # rs) op =
     (case find (\<lambda>a. act_id a = rc_action_id r) (plan_actions (op_plan op)) of
        None \<Rightarrow> rt_raise StopIteration []
      | Some a \<Rightarrow>
          rt_bind (rt_lift (catalog_get (run_actions rt) (act_type_id a))) (\<lambda>d.
            if \<not> str_truthy (at_rollback_action_type_id d) then rollback_receipts E rt ctx rs op
            else
              rt_bind (rt_lift (catalog_get (run_actions rt) (the (at_rollback_action_type_id d)))) (\<lambda>rd.
              rt_bind (execute_action E rt op (rollback_action a rd) ctx) (\<lambda>rr.
              rt_bind (append_receipt E op
                (rr\<lparr>rc_status := (if rc_status rr = Rc_Completed then Rc_Rolled_Back else Rc_Failed)\<rparr>))
                (rollback_receipts E rt ctx rs)))))"

definition rollback_certificate :: "operation_run \<Rightarrow> recovery_certificate" where
  "rollback_certificate op =
     \<lparr>cert_id = ''rollback:'' @ op_id op, cert_incident_id = plan_incident_id (op_plan op),
      cert_operation_id = Some (op_id op), cert_plan_id = plan_id (op_plan op),
      cert_status = Rollback_Completed, cert_restored_invariant_ids = [],
      cert_unresolved_invariant_ids = [], cert_action_receipt_ids = map rc_id (op_action_receipts op),
      cert_verification_result_ids = [],
      cert_residual_risks = [''original target invariants were not restored''], cert_metadata = []\<rparr>"

definition runtime_rollback ::
    "environment \<Rightarrow> runtime \<Rightarrow> operation_run \<Rightarrow> runtime_context \<Rightarrow> operation_run rt" where
  "runtime_rollback E rt op0 ctx =
     rt_bind (touch E (op0\<lparr>op_status := St_Rolling_Back\<rparr>)) (\<lambda>op.
     rt_bind (add_event E ''rollback.started'' ''Rollback started'' None [] op) (\<lambda>op.
     rt_bind (rollback_receipts E rt ctx
       (rev (filter (\<lambda>r. rc_status r = Rc_Completed) (op_action_receipts op))) op) (\<lambda>op.
     rt_bind (rt_now_iso E) (\<lambda>completed.
     rt_bind (touch E (op\<lparr>op_status := St_Failed, op_recovery_certificate := Some (rollback_certificate op),
       op_completed_at_iso := Some completed\<rparr>)) (\<lambda>op.
     rt_bind (add_event E ''rollback.completed'' ''Rollback completed'' None [] op) save_return)))))"

section \<open>The loop\<close>

datatype loop_end = Loop_Done operation_run | Loop_Failed operation_run string | Loop_Paused operation_run

definition next_action :: "string set \<Rightarrow> action_instance list \<Rightarrow> action_instance option" where
  "next_action completed pending =
     (let ready = filter (\<lambda>a. set (act_depends_on a) \<subseteq> completed) pending in
      if ready = [] then None else Some (hd (sort_key act_id ready)))"

definition perform_action ::
    "environment \<Rightarrow> runtime \<Rightarrow> runtime_context \<Rightarrow> string set \<Rightarrow> policy_decision \<Rightarrow> action_instance \<Rightarrow>
     operation_run \<Rightarrow> (operation_run \<times> action_receipt) rt" where
  "perform_action E rt ctx keys decision a op =
     rt_bind (set_action_status E op (act_id a) Act_Running True) (\<lambda>op.
     rt_bind (if pd_requires_checkpoint decision
       then rt_bind (provided_world ctx) (runtime_checkpoint E op) else rt_return op) (\<lambda>op.
     rt_bind (case act_idempotency_key a of
         Some k \<Rightarrow> if k \<noteq> [] \<and> k \<in> keys then already_satisfied E op a else execute_action E rt op a ctx
       | None \<Rightarrow> execute_action E rt op a ctx) (\<lambda>r.
     rt_bind (append_receipt E op r) (\<lambda>op. rt_return (op, r)))))"

definition tolerate_failure :: "environment \<Rightarrow> action_instance \<Rightarrow> operation_run \<Rightarrow> operation_run rt" where
  "tolerate_failure E a op =
     rt_bind (add_event E ''action.failure_tolerated'' (''Continuing after failed action '' @ act_id a)
       (Some (act_id a)) [] op) (\<lambda>op.
     rt_bind (touch E op) save_return)"

definition pause_after_failure :: "environment \<Rightarrow> action_instance \<Rightarrow> operation_run \<Rightarrow> operation_run rt" where
  "pause_after_failure E a op =
     (let reason = ''action '' @ act_id a @ '' failed'' in
      rt_bind (touch E (op\<lparr>op_status := St_Paused, op_pause_reason := Some reason,
        op_failure_reason := Some reason\<rparr>)) (\<lambda>op.
      rt_bind (add_event E ''operation.paused'' (''Paused after failed action '' @ act_id a)
        (Some (act_id a)) [] op) save_return))"

definition failure_mode :: "environment \<Rightarrow> action_instance \<Rightarrow> string \<Rightarrow> string" where
  "failure_mode E a behavior = py_str E (dget_default (act_metadata a) ''on_failure'' (JStr behavior))"

definition add_key :: "action_receipt \<Rightarrow> string set \<Rightarrow> string set" where
  "add_key r keys =
     (case rc_idempotency_key r of None \<Rightarrow> keys | Some k \<Rightarrow> if k = [] then keys else insert k keys)"

definition blocked_reason :: string where
  "blocked_reason = ''no executable actions remain; dependency graph is blocked''"

lemma next_action_mem: "next_action completed pending = Some a \<Longrightarrow>
    a \<in> set pending \<and> set (act_depends_on a) \<subseteq> completed"
proof -
  let ?ready = "filter (\<lambda>a. set (act_depends_on a) \<subseteq> completed) pending"
  assume "next_action completed pending = Some a"
  then have "a = hd (sort_key act_id ?ready)" "sort_key act_id ?ready \<noteq> []"
    by (auto simp: next_action_def Let_def split: if_splits) (metis set_empty set_sort)
  then have "a \<in> set (sort_key act_id ?ready)" using hd_in_set by blast
  then show ?thesis by simp
qed

lemma pop_shorter: "next_action completed pending = Some a \<Longrightarrow>
    length (filter (\<lambda>b. act_id b \<noteq> act_id a) pending) < length pending"
  by (metis (mono_tags, lifting) length_filter_less next_action_mem)

function run_loop ::
    "environment \<Rightarrow> runtime \<Rightarrow> runtime_context \<Rightarrow> operation_run \<Rightarrow> string set \<Rightarrow> string set \<Rightarrow> string \<Rightarrow>
     action_instance list \<Rightarrow> loop_end rt" where
  "run_loop E rt ctx op completed keys behavior pending =
     (if pending = [] then rt_return (Loop_Done op)
      else
        (case next_action completed pending of
           None \<Rightarrow> rt_bind (fail_operation E op blocked_reason) (\<lambda>op. rt_return (Loop_Failed op behavior))
         | Some a \<Rightarrow>
             (case find (\<lambda>d. pd_action_id d = act_id a) (op_policy_decisions op) of
                None \<Rightarrow> rt_raise StopIteration []
              | Some decision \<Rightarrow>
                  rt_bind (perform_action E rt ctx keys decision a op) (\<lambda>(op, r).
                    let pending' = filter (\<lambda>b. act_id b \<noteq> act_id a) pending;
                        completed' = insert (act_id a) completed;
                        behavior' = failure_mode E a behavior in
                    if settled_status (rc_status r)
                    then run_loop E rt ctx op completed' (add_key r keys) behavior pending'
                    else if act_optional a then run_loop E rt ctx op completed' keys behavior pending'
                    else if behavior' = ''continue''
                    then rt_bind (tolerate_failure E a op) (\<lambda>op.
                      run_loop E rt ctx op completed' keys behavior' pending')
                    else if behavior' = ''pause''
                    then rt_bind (pause_after_failure E a op) (\<lambda>op. rt_return (Loop_Paused op))
                    else rt_bind (fail_operation E op (''action '' @ act_id a @ '' failed'')) (\<lambda>op.
                      rt_return (Loop_Failed op behavior'))))))"
  by pat_completeness auto
termination
  by (relation "measure (\<lambda>(_, _, _, _, _, _, _, pending). length pending)") (auto dest: pop_shorter)

declare run_loop.simps [simp del]

section \<open>Verification and sealing\<close>

definition verification_conditions_of ::
    "verification_condition list option \<Rightarrow> operation_run \<Rightarrow> verification_condition list" where
  "verification_conditions_of given op =
     (case given of Some cs \<Rightarrow> cs | None \<Rightarrow> plan_verification_conditions (op_plan op))"

definition verify ::
    "verification_condition list \<Rightarrow> runtime_context \<Rightarrow> verification_result list rt" where
  "verify conditions ctx =
     (if conditions = [] then rt_return []
      else
        rt_bind (provided_world ctx) (\<lambda>w.
        rt_bind (provided_relationships ctx) (\<lambda>rels.
          rt_return (verify_conditions conditions w rels 0 []))))"

definition healthy_ids :: "bool \<Rightarrow> verification_result list \<Rightarrow> string list" where
  "healthy_ids want results = map vr_condition_id (filter (\<lambda>r. (vr_status r = HEALTHY) = want) results)"

definition make_certificate ::
    "operation_run \<Rightarrow> certificate_status \<Rightarrow> verification_result list \<Rightarrow> string list \<Rightarrow> fields \<Rightarrow> recovery_certificate" where
  "make_certificate op st results risks md =
     \<lparr>cert_id = ''recovery:'' @ op_id op @ '':'' @ nat_str (length (op_events op)),
      cert_incident_id = plan_incident_id (op_plan op), cert_operation_id = Some (op_id op),
      cert_plan_id = plan_id (op_plan op), cert_status = st,
      cert_restored_invariant_ids = healthy_ids True results,
      cert_unresolved_invariant_ids = healthy_ids False results,
      cert_action_receipt_ids = map rc_id (op_action_receipts op),
      cert_verification_result_ids = map vr_result_id results,
      cert_residual_risks = risks, cert_metadata = md\<rparr>"

definition seal_success :: "verification_condition list \<Rightarrow> verification_result list \<Rightarrow> operation_run \<Rightarrow> bool" where
  "seal_success conditions results op =
     ((if op_mode op = Dry_Run \<and> conditions = [] then True else successful conditions results) \<and>
      \<not> protected_violation conditions results)"

definition seal_certificate ::
    "runtime_context \<Rightarrow> verification_condition list \<Rightarrow> verification_result list \<Rightarrow> operation_run \<Rightarrow> recovery_certificate" where
  "seal_certificate ctx conditions results op =
     (let dry_run = (op_mode op = Dry_Run);
          simulated = (ec_mode (ctx_execution ctx) = ''simulation'');
          success = seal_success conditions results op in
      make_certificate op
        (if dry_run \<or> simulated then Partially_Recovered else if success then Recovered else Recovery_Failed)
        results
        ((if dry_run then [''dry run did not mutate the environment''] else []) @
         (if simulated then [''simulation did not verify the live environment''] else []) @
         (if \<not> success then [''verification failed''] else []))
        [(''dry_run'', JBool dry_run), (''simulated'', JBool simulated),
         (''protected_violation'', JBool (protected_violation conditions results))])"

definition finish_seal ::
    "environment \<Rightarrow> operation_status \<Rightarrow> recovery_certificate \<Rightarrow> verification_result list \<Rightarrow>
     operation_run \<Rightarrow> operation_run rt" where
  "finish_seal E st cert results op =
     rt_bind (rt_now_iso E) (\<lambda>completed.
     rt_bind (touch E (op\<lparr>op_status := st, op_verification_results := results,
       op_recovery_certificate := Some cert, op_completed_at_iso := Some completed\<rparr>)) (\<lambda>op.
     rt_bind (add_event E ''operation.sealed'' (''Operation sealed as '' @ certificate_value (cert_status cert))
       None [] op) save_return))"

definition seal ::
    "environment \<Rightarrow> runtime_context \<Rightarrow> verification_condition list option \<Rightarrow> operation_run \<Rightarrow> operation_run rt" where
  "seal E ctx given op0 =
     rt_bind (touch E (op0\<lparr>op_status := St_Verifying\<rparr>)) (\<lambda>op.
     rt_bind (add_event E ''verification.started'' ''Post-action verification started'' None [] op) (\<lambda>op.
     let conditions = verification_conditions_of given op in
     rt_bind (verify conditions ctx) (\<lambda>results.
       finish_seal E
         (if seal_success conditions results op \<or> op_mode op = Dry_Run then St_Completed else St_Failed)
         (seal_certificate ctx conditions results op) results op)))"

text \<open>\<open>verify_external\<close>: the certificate of an operation executed elsewhere.\<close>

definition verify_external ::
    "environment \<Rightarrow> operation_run \<Rightarrow> runtime_context \<Rightarrow> verification_condition list option \<Rightarrow> operation_run rt" where
  "verify_external E op ctx given =
     (if op_status op \<noteq> St_Verifying
      then rt_raise ValueError (''operation cannot be verified from '' @ operation_status_value (op_status op))
      else
        let conditions = verification_conditions_of given op;
            live = (ec_mode (ctx_execution ctx) = ''live'') in
        rt_bind (verify conditions ctx) (\<lambda>results.
        let protected = protected_violation conditions results;
            success = ((conditions = [] \<or> successful conditions results) \<and> \<not> protected);
            cert = make_certificate op
              (if success \<and> live then Recovered else if success then Partially_Recovered else Recovery_Failed)
              results
              ((if live then [] else [''verification did not observe a live environment'']) @
               (if \<not> success then [''verification failed''] else []))
              [(''dry_run'', JBool (op_mode op = Dry_Run)), (''simulated'', JBool (\<not> live)),
               (''protected_violation'', JBool protected), (''distributed_execution'', JBool True)] in
        rt_bind (rt_now_iso E) (\<lambda>now.
        rt_bind (add_event E ''operation.sealed''
          (''Distributed operation sealed as '' @ certificate_value (cert_status cert)) None []
          (op\<lparr>op_status := (if success then St_Completed else St_Failed),
              op_verification_results := results, op_recovery_certificate := Some cert,
              op_current_action_ids := [], op_completed_at_iso := Some now, op_updated_at_iso := now\<rparr>))
          save_return)))"

section \<open>Running, cancelling, pausing and resuming\<close>

definition settled_ids :: "operation_run \<Rightarrow> string set" where
  "settled_ids op = rc_action_id ` set (filter (\<lambda>r. settled_status (rc_status r)) (op_action_receipts op))"

definition successful_keys :: "operation_run \<Rightarrow> string set" where
  "successful_keys op =
     foldr add_key (filter (\<lambda>r. rc_status r \<in> {Rc_Completed, Rc_Already_Satisfied}) (op_action_receipts op)) {}"

text \<open>\<open>pending = {action.action_id: action for action in ... if ...}\<close>.\<close>

definition pending_actions :: "operation_run \<Rightarrow> action_instance list" where
  "pending_actions op =
     map snd (dict_of (map (\<lambda>a. (act_id a, a))
       (filter (\<lambda>a. act_id a \<notin> settled_ids op) (plan_actions (op_plan op)))))"

definition start_operation :: "environment \<Rightarrow> operation_run \<Rightarrow> operation_run rt" where
  "start_operation E op =
     rt_bind (rt_now_iso E) (\<lambda>now.
     rt_bind (add_event E ''operation.started'' ''Execution started'' None []
       (op\<lparr>op_status := St_Running,
           op_started_at_iso := Some (case op_started_at_iso op of
             None \<Rightarrow> now | Some t \<Rightarrow> if t = [] then now else t),
           op_updated_at_iso := now\<rparr>)) save_return)"

definition finish_run ::
    "environment \<Rightarrow> runtime \<Rightarrow> runtime_context \<Rightarrow> verification_condition list option \<Rightarrow> bool \<Rightarrow>
     loop_end \<Rightarrow> operation_run rt" where
  "finish_run E rt ctx given rollback_on_failure fin =
     (case fin of
        Loop_Paused op \<Rightarrow> rt_return op
      | Loop_Failed op behavior \<Rightarrow>
          rt_bind (if rollback_on_failure \<and> behavior = ''rollback'' then runtime_rollback E rt op ctx
            else rt_return op) save_return
      | Loop_Done op \<Rightarrow> seal E ctx given op)"

definition runtime_run ::
    "environment \<Rightarrow> runtime \<Rightarrow> operation_run \<Rightarrow> execution_policy \<Rightarrow> runtime_context \<Rightarrow>
     verification_condition list option \<Rightarrow> bool \<Rightarrow> operation_run rt" where
  "runtime_run E rt op0 pol ctx given rollback_on_failure =
     rt_bind (runtime_authorize E rt op0 pol ctx) (\<lambda>op.
       if op_status op \<noteq> St_Authorized then rt_return op
       else
         rt_bind (start_operation E op) (\<lambda>op.
         rt_bind (run_loop E rt ctx op (settled_ids op) (successful_keys op)
           (if rollback_on_failure then ''rollback'' else ''stop'') (pending_actions op))
           (finish_run E rt ctx given rollback_on_failure)))"

definition runtime_cancel :: "environment \<Rightarrow> operation_run \<Rightarrow> string \<Rightarrow> operation_run rt" where
  "runtime_cancel E op reason =
     (if op_status op \<in> {St_Completed, St_Cancelled}
      then rt_raise ValueError (''operation cannot be cancelled from '' @ operation_status_value (op_status op))
      else
        rt_bind (rt_now_iso E) (\<lambda>completed.
        rt_bind (touch E (op\<lparr>op_status := St_Cancelled, op_pause_reason := None, op_failure_reason := Some reason,
          op_completed_at_iso := Some completed, op_current_action_ids := []\<rparr>)) (\<lambda>op.
        rt_bind (add_event E ''operation.cancelled'' reason None [] op) save_return)))"

definition runtime_pause :: "environment \<Rightarrow> operation_run \<Rightarrow> string \<Rightarrow> operation_run rt" where
  "runtime_pause E op reason =
     (if op_status op \<notin> {St_Running, St_Authorized, St_Awaiting_Approval}
      then rt_raise ValueError (''operation cannot be paused from '' @ operation_status_value (op_status op))
      else
        rt_bind (touch E (op\<lparr>op_status := St_Paused, op_pause_reason := Some reason\<rparr>)) (\<lambda>op.
        rt_bind (add_event E ''operation.paused'' reason None [] op) save_return))"

definition runtime_resume ::
    "environment \<Rightarrow> runtime \<Rightarrow> string \<Rightarrow> execution_policy \<Rightarrow> runtime_context \<Rightarrow>
     verification_condition list option \<Rightarrow> operation_run rt" where
  "runtime_resume E rt i pol ctx given =
     rt_bind (rt_load i) (\<lambda>op.
       if op_status op \<notin> {St_Paused, St_Failed, St_Awaiting_Approval, St_Authorized, St_Running}
       then rt_raise ValueError (''operation cannot resume from '' @ operation_status_value (op_status op))
       else
         rt_bind (touch E (op\<lparr>op_status := St_Created, op_pause_reason := None, op_failure_reason := None\<rparr>)) (\<lambda>op.
         rt_bind (add_event E ''operation.resumed'' ''Operation resumed from durable journal'' None [] op) (\<lambda>op.
         rt_bind (save_return op) (\<lambda>op. runtime_run E rt op pol ctx given True))))"

section \<open>Distributed receipts\<close>

text \<open>\<open>sorted(receipt_by_id.values(), key=lambda item: (started_at_iso, receipt_id))\<close>: two stable sorts.\<close>

definition merge_receipts :: "action_receipt list \<Rightarrow> action_receipt list \<Rightarrow> action_receipt list" where
  "merge_receipts old new =
     sort_key rc_started_at_iso (sort_key rc_id
       (map snd (dict_of (map (\<lambda>r. (rc_id r, r)) (old @ new)))))"

definition reconciled_status :: "action_receipt list \<Rightarrow> string list \<Rightarrow> action_instance \<Rightarrow> action_status" where
  "reconciled_status merged current a =
     (if act_id a \<in> set current then Act_Running
      else (case dget (dict_of (map (\<lambda>r. (rc_action_id r, r)) merged)) (act_id a) of
          None \<Rightarrow> if act_status a \<in> {Act_Approval_Required, Act_Blocked} then act_status a else Act_Authorized
        | Some r \<Rightarrow>
            (case rc_status r of
               Rc_Completed \<Rightarrow> Act_Completed
             | Rc_Already_Satisfied \<Rightarrow> Act_Completed
             | Rc_Skipped \<Rightarrow> Act_Skipped
             | Rc_Rolled_Back \<Rightarrow> Act_Rolled_Back
             | Rc_Failed \<Rightarrow> Act_Failed)))"

definition reconciled_outcome :: "action_instance list \<Rightarrow> operation_status \<times> string option" where
  "reconciled_outcome actions =
     (let failed = filter (\<lambda>a. act_status a = Act_Failed \<and> \<not> act_optional a) actions in
      if failed \<noteq> []
      then (St_Failed, Some (nat_str (length failed) @ '' distributed action(s) failed''))
      else if \<forall>a \<in> set actions. act_status a \<in> {Act_Completed, Act_Skipped, Act_Rolled_Back, Act_Failed}
      then (St_Verifying, None) else (St_Running, None))"

definition reconcile_external_receipts ::
    "environment \<Rightarrow> operation_run \<Rightarrow> action_receipt list \<Rightarrow> string list \<Rightarrow> operation_run rt" where
  "reconcile_external_receipts E op receipts current_ids =
     (let merged = merge_receipts (op_action_receipts op) receipts;
          current = sorted_set (set current_ids);
          actions = map (\<lambda>a. a\<lparr>act_status := reconciled_status merged current a\<rparr>) (plan_actions (op_plan op));
          (status, reason) = reconciled_outcome actions;
          digest = env_digest E (JObj [(''receipt_ids'', JList (map (JStr \<circ> rc_id) merged)),
            (''current_action_ids'', JList (map JStr current)), (''status'', JStr (operation_status_value status))]) in
      if dget (op_metadata op) ''external_projection_hash'' = Some (JStr digest) then rt_return op
      else
        rt_bind (rt_now_iso E) (\<lambda>now.
        rt_bind (add_event E ''operation.distributed_reconciled''
          (''Distributed execution reconciled as '' @ operation_status_value status) None
          [(''receipt_count'', JInt (int (length merged))), (''current_action_ids'', JList (map JStr current))] op) (\<lambda>op.
        save_return (op\<lparr>op_status := status, op_plan := (op_plan op)\<lparr>plan_actions := actions\<rparr>,
          op_action_receipts := merged, op_current_action_ids := current,
          op_started_at_iso := Some (case op_started_at_iso op of
            None \<Rightarrow> now | Some t \<Rightarrow> if t = [] then now else t),
          op_completed_at_iso := (if status = St_Failed then Some now else None),
          op_failure_reason := reason, op_updated_at_iso := now,
          op_metadata := dset ''external_projection_hash'' (JStr digest) (op_metadata op)\<rparr>))))"

end
