(* ===== verification/Runtime_Props.thy ===== *)
theory Runtime_Props
  imports Runtime
begin

text \<open>
  What the operation runtime guarantees: the event log and the receipts only grow and events are
  numbered without gaps; nothing is executed unless the policy allows every action; actions run
  after the actions they depend on and at most once; a valid plan never blocks; an operation is
  completed only when verification succeeded; what a method returns is what the journal holds.
\<close>

section \<open>How an operation evolves\<close>

definition erase :: "action_instance \<Rightarrow> action_instance" where
  "erase a = a\<lparr>act_status := Act_Proposed\<rparr>"

definition numbered :: "operation_run \<Rightarrow> bool" where
  "numbered op \<longleftrightarrow> map oe_sequence (op_events op) = [0..<length (op_events op)]"

text \<open>The later operation extends the log, adds the new receipts and changes nothing of the plan but
  action statuses.\<close>

definition grows :: "operation_run \<Rightarrow> action_receipt list \<Rightarrow> operation_run \<Rightarrow> bool" where
  "grows op new op' \<longleftrightarrow>
     op_id op' = op_id op \<and> op_mode op' = op_mode op \<and>
     map erase (plan_actions (op_plan op')) = map erase (plan_actions (op_plan op)) \<and>
     (op_plan op')\<lparr>plan_actions := []\<rparr> = (op_plan op)\<lparr>plan_actions := []\<rparr> \<and>
     (\<exists>evs. op_events op' = op_events op @ evs) \<and> (numbered op \<longrightarrow> numbered op') \<and>
     op_action_receipts op' = op_action_receipts op @ new"

lemma grows_refl [simp]: "grows op [] op"
  by (simp add: grows_def)

lemma grows_trans: "grows a xs b \<Longrightarrow> grows b ys c \<Longrightarrow> grows a (xs @ ys) c"
  by (auto simp: grows_def)

lemma erase_set_status [simp]: "erase (set_status_of i st a) = erase a" "erase (a\<lparr>act_status := st\<rparr>) = erase a"
  by (simp_all add: erase_def set_status_of_def)

lemma follows_update [simp]:
  "grows op new (y\<lparr>op_status := st\<rparr>) = grows op new y"
  "grows op new (y\<lparr>op_updated_at_iso := t\<rparr>) = grows op new y"
  "grows op new (y\<lparr>op_approvals := ap\<rparr>) = grows op new y"
  "grows op new (y\<lparr>op_policy_decisions := ds\<rparr>) = grows op new y"
  "grows op new (y\<lparr>op_current_action_ids := is\<rparr>) = grows op new y"
  "grows op new (y\<lparr>op_checkpoints := cps\<rparr>) = grows op new y"
  "grows op new (y\<lparr>op_failure_reason := fr\<rparr>) = grows op new y"
  "grows op new (y\<lparr>op_pause_reason := pr\<rparr>) = grows op new y"
  "grows op new (y\<lparr>op_started_at_iso := u\<rparr>) = grows op new y"
  "grows op new (y\<lparr>op_completed_at_iso := u\<rparr>) = grows op new y"
  "grows op new (y\<lparr>op_recovery_certificate := c\<rparr>) = grows op new y"
  "grows op new (y\<lparr>op_verification_results := vs\<rparr>) = grows op new y"
  by (simp_all add: grows_def numbered_def)

lemma follows_with_actions [simp]:
  "(\<And>a. erase (f a) = erase a) \<Longrightarrow> grows op new (with_actions f y) = grows op new y"
  by (simp add: grows_def numbered_def with_actions_def comp_def)

lemma follows_event:
  "grows op new y \<Longrightarrow> oe_sequence ev = length (op_events y) \<Longrightarrow>
     grows op new (y\<lparr>op_events := op_events y @ [ev]\<rparr>)"
  by (auto simp: grows_def numbered_def)

lemma follows_receipt:
  "grows op new y \<Longrightarrow> grows op (new @ [r]) (y\<lparr>op_action_receipts := op_action_receipts y @ [r]\<rparr>)"
  by (auto simp: grows_def numbered_def)

lemma follows_recorded:
  assumes "grows op new y" "\<And>a. erase (f a) = erase a"
  shows "grows op (new @ [r]) ((with_actions f y)\<lparr>op_action_receipts := op_action_receipts y @ [r]\<rparr>)"
proof -
  have "op_action_receipts (with_actions f y) = op_action_receipts y" by (simp add: with_actions_def)
  then show ?thesis using follows_receipt [of op new "with_actions f y" r] assms by simp
qed

section \<open>The steps\<close>

lemma yields_mono: "yields m R \<Longrightarrow> (\<And>x. R x \<Longrightarrow> Q x) \<Longrightarrow> yields m Q"
  unfolding yields_def by blast

named_theorems follow_rules \<open>steps that extend an operation\<close>

lemma follow_touch [follow_rules]: "grows op new y \<Longrightarrow> yields (touch E y) (grows op new)"
  by (auto simp: touch_def intro!: yields_rules)

lemma follow_event [follow_rules]: "grows op new y \<Longrightarrow> yields (add_event E ty t aid ds y) (grows op new)"
  unfolding add_event_def make_event_def rt_bind_assoc
  by (auto intro!: yields_rules follows_event)

lemma follow_save [follow_rules]: "grows op new y \<Longrightarrow> yields (save_return y) (grows op new)"
  by (auto simp: save_return_def intro!: yields_rules)

lemma follow_return [follow_rules]: "grows op new y \<Longrightarrow> yields (rt_return y) (grows op new)"
  by (rule yields_return)

lemma yields_follow:
  "yields m (grows op new) \<Longrightarrow> (\<And>x. grows op new x \<Longrightarrow> yields (f x) Q) \<Longrightarrow> yields (rt_bind m f) Q"
  by (rule yields_seq)

lemma follow_set_action_status [follow_rules]:
  "grows op new y \<Longrightarrow> yields (set_action_status E y i st cur) (grows op new)"
  unfolding set_action_status_def Let_def
  by (auto intro!: yields_follow [where op = op and new = new] follow_rules)

lemma follow_checkpoint [follow_rules]:
  "grows op new y \<Longrightarrow> yields (runtime_checkpoint E y w) (grows op new)"
  unfolding runtime_checkpoint_def Let_def
  by (rule yields_bind, rule yields_follow [where op = op and new = new], rule follow_event, simp,
      rule yields_follow [where op = op and new = new]) (auto intro!: follow_rules)

lemma follow_fail [follow_rules]: "grows op new y \<Longrightarrow> yields (fail_operation E y why) (grows op new)"
  unfolding fail_operation_def by (auto intro!: yields_follow [where op = op and new = new] follow_rules)

lemma follow_append_receipt [follow_rules]:
  "grows op new y \<Longrightarrow> yields (append_receipt E y r) (grows op (new @ [r]))"
  unfolding append_receipt_def
  by (rule yields_follow [where op = op and new = "new @ [r]"])
    (auto intro!: yields_follow [where op = op and new = "new @ [r]"] follow_rules follows_recorded)

lemma follow_tolerate [follow_rules]: "grows op new y \<Longrightarrow> yields (tolerate_failure E a y) (grows op new)"
  unfolding tolerate_failure_def by (auto intro!: yields_follow [where op = op and new = new] follow_rules)

lemma follow_pause [follow_rules]: "grows op new y \<Longrightarrow> yields (pause_after_failure E a y) (grows op new)"
  unfolding pause_after_failure_def Let_def by (auto intro!: yields_follow [where op = op and new = new] follow_rules)

lemma follow_start [follow_rules]: "grows op new y \<Longrightarrow> yields (start_operation E y) (grows op new)"
  unfolding start_operation_def
  by (rule yields_bind) (auto intro!: yields_follow [where op = op and new = new] follow_rules)

lemma follow_finish_seal [follow_rules]:
  "grows op new y \<Longrightarrow> yields (finish_seal E st c rs y) (grows op new)"
  unfolding finish_seal_def
  by (rule yields_bind) (auto intro!: yields_follow [where op = op and new = new] follow_rules)

lemma follow_seal [follow_rules]: "grows op new y \<Longrightarrow> yields (seal E ctx given y) (grows op new)"
  unfolding seal_def Let_def
  by (rule yields_follow [where op = op and new = new], simp add: follow_touch,
      rule yields_follow [where op = op and new = new], simp add: follow_event,
      rule yields_bind, rule follow_finish_seal)

text \<open>A rollback adds receipts of rollback actions only.\<close>

definition rollback_ids :: "action_receipt list \<Rightarrow> bool" where
  "rollback_ids rs \<longleftrightarrow> (\<forall>r \<in> set rs. \<exists>i. rc_action_id r = ''rollback:'' @ i)"

lemma follow_authorize [follow_rules]:
  "grows op new y \<Longrightarrow> yields (runtime_authorize E rt y pol ctx) (grows op new)"
  unfolding runtime_authorize_def
  by (rule yields_bind) (auto intro!: yields_follow [where op = op and new = new] follow_rules)

section \<open>The schedule\<close>

text \<open>Receipts in an order the dependencies allow: each belongs to an action of the list not handled
  before, all of whose dependencies were handled before.\<close>

fun schedule_ok :: "action_instance list \<Rightarrow> string set \<Rightarrow> action_receipt list \<Rightarrow> bool" where
  "schedule_ok as done [] = True"
| "schedule_ok as done (r # rs) =
     ((\<exists>a \<in> set as. act_id a = rc_action_id r \<and> set (act_depends_on a) \<subseteq> done \<and> act_id a \<notin> done) \<and>
      schedule_ok as (insert (rc_action_id r) done) rs)"

lemma schedule_ok_mono: "set as \<subseteq> set bs \<Longrightarrow> schedule_ok as done rs \<Longrightarrow> schedule_ok bs done rs"
  by (induction as "done" rs rule: schedule_ok.induct) auto

lemma schedule_distinct:
  "schedule_ok as done rs \<Longrightarrow> distinct (map rc_action_id rs) \<and> rc_action_id ` set rs \<inter> done = {}"
  by (induction as "done" rs rule: schedule_ok.induct) auto

lemma schedule_deps:
  "schedule_ok as done rs \<Longrightarrow> i < length rs \<Longrightarrow>
     \<exists>a \<in> set as. act_id a = rc_action_id (rs ! i) \<and>
       set (act_depends_on a) \<subseteq> done \<union> rc_action_id ` set (take i rs)"
proof (induction as "done" rs arbitrary: i rule: schedule_ok.induct)
  case (2 as d r rs)
  then show ?case
  proof (cases i)
    case (Suc j)
    with 2 obtain a where "a \<in> set as" "act_id a = rc_action_id (rs ! j)"
        "set (act_depends_on a) \<subseteq> insert (rc_action_id r) d \<union> rc_action_id ` set (take j rs)"
      by fastforce
    with Suc show ?thesis by (intro bexI [of _ a]) auto
  qed auto
qed simp

text \<open>An executed action's receipt is its own.\<close>

lemma yields_lift: "(\<And>x. r = Inr x \<Longrightarrow> yields (f x) Q) \<Longrightarrow> yields (rt_bind (rt_lift r) f) Q"
  by (cases r) (auto simp: yields_def rt_bind_def rt_lift_def)

lemma attempt_loop_yields:
  assumes "executor_contract (ex_execute x)" "\<And>r. prev = Some r \<Longrightarrow> rc_action_id r = act_id a"
  shows "yields (attempt_loop x a d ec n k prev) (\<lambda>r. rc_action_id r = act_id a)"
  using assms(2)
proof (induction k arbitrary: n prev)
  case 0
  then show ?case by (cases prev) (auto intro!: yields_return yields_raise)
next
  case (Suc k)
  have "yields (ex_execute x a d ec n) (\<lambda>r. rc_action_id r = act_id a)"
    using executor_contract.receipt_of [OF assms(1)] by (auto simp: yields_def)
  then show ?case
    unfolding attempt_loop.simps
    by (rule yields_seq) (auto intro!: yields_return Suc.IH)
qed

lemma execute_action_yields:
  assumes "good_registry (run_executors rt)"
  shows "yields (execute_action E rt op a ctx) (\<lambda>r. rc_action_id r = act_id a)"
proof -
  have "executor_contract (ex_execute x)" if "executor_get (run_executors rt) i = Inr x" for i x
    using assms that by (auto simp: good_registry_def executor_get_def split: option.splits)
  then have run: "yields (rt_bind (rt_lift (executor_get (run_executors rt) i))
      (\<lambda>x. attempt_loop x a d ec 1 k None)) (\<lambda>r. rc_action_id r = act_id a)" for i d ec k
    by (intro yields_lift attempt_loop_yields) auto
  show ?thesis
    unfolding execute_action_def by (rule yields_lift, rule yields_if, rule yields_raise, rule run)
qed

lemma follow_rollback_receipts:
  assumes "good_registry (run_executors rt)"
  shows "grows op new y \<Longrightarrow> yields (rollback_receipts E rt ctx rs y)
    (\<lambda>x. \<exists>rb. rollback_ids rb \<and> grows op (new @ rb) x)"
proof (induction rs arbitrary: y new)
  case Nil
  then show ?case by (auto intro!: yields_return exI [of _ "[]"] simp: rollback_ids_def)
next
  case (Cons r rs)
  have append: "yields (rt_bind (append_receipt E y r') (rollback_receipts E rt ctx rs))
      (\<lambda>x. \<exists>rb. rollback_ids rb \<and> grows op (new @ rb) x)" if "rc_action_id r' = ''rollback:'' @ i" for r' i
  proof (rule yields_follow [where op = op and new = "new @ [r']"])
    show "yields (append_receipt E y r') (grows op (new @ [r']))"
      using Cons.prems by (rule follow_append_receipt)
    fix x assume "grows op (new @ [r']) x"
    then have "yields (rollback_receipts E rt ctx rs x) (\<lambda>x. \<exists>rb. rollback_ids rb \<and> grows op ((new @ [r']) @ rb) x)"
      by (rule Cons.IH)
    then show "yields (rollback_receipts E rt ctx rs x) (\<lambda>x. \<exists>rb. rollback_ids rb \<and> grows op (new @ rb) x)"
    proof (rule yields_mono)
      fix z assume "\<exists>rb. rollback_ids rb \<and> grows op ((new @ [r']) @ rb) z"
      then obtain rb where "rollback_ids rb" "grows op ((new @ [r']) @ rb) z" by blast
      then show "\<exists>rb. rollback_ids rb \<and> grows op (new @ rb) z"
        using that by (intro exI [of _ "r' # rb"]) (auto simp: rollback_ids_def)
    qed
  qed
  have step: "yields (rt_bind (execute_action E rt y (rollback_action a d) ctx)
      (\<lambda>rr. rt_bind (append_receipt E y (rr\<lparr>rc_status := st rr\<rparr>)) (rollback_receipts E rt ctx rs)))
      (\<lambda>x. \<exists>rb. rollback_ids rb \<and> grows op (new @ rb) x)" for a d st
    by (rule yields_seq [OF execute_action_yields [OF assms]])
      (auto intro!: append simp: rollback_action_def)
  show ?case
    by (auto intro!: yields_bind yields_if yields_raise step Cons split: option.split)
qed

lemma follow_rollback:
  assumes "good_registry (run_executors rt)" "grows op new y"
  shows "yields (runtime_rollback E rt y ctx) (\<lambda>x. \<exists>rb. rollback_ids rb \<and> grows op (new @ rb) x)"
proof -
  let ?Q = "\<lambda>x. \<exists>rb. rollback_ids rb \<and> grows op (new @ rb) x"
  have last: "yields (rt_bind (rt_now_iso E) (\<lambda>completed.
      rt_bind (touch E (z\<lparr>op_status := St_Failed, op_recovery_certificate := Some (rollback_certificate z),
        op_completed_at_iso := Some completed\<rparr>)) (\<lambda>z.
      rt_bind (add_event E ty t aid ds z) save_return))) ?Q"
    if z: "?Q z" for z ty t aid ds
  proof -
    from z obtain rb where rb: "rollback_ids rb" "grows op (new @ rb) z" by blast
    show ?thesis
      by (rule yields_mono [where R = "grows op (new @ rb)"], rule yields_bind,
          rule yields_follow [where op = op and new = "new @ rb"], simp add: follow_touch rb(2),
          rule yields_follow [where op = op and new = "new @ rb"], rule follow_event, assumption,
          rule follow_save, assumption) (use rb(1) in blast)
  qed
  show ?thesis
    unfolding runtime_rollback_def
    by (rule yields_follow [where op = op and new = new], simp add: follow_touch assms,
        rule yields_follow [where op = op and new = new], rule follow_event, assumption,
        rule yields_seq [OF follow_rollback_receipts [OF assms(1)]], assumption, rule last)
qed

lemma follow_perform:
  assumes "good_registry (run_executors rt)" "grows op new y"
  shows "yields (perform_action E rt ctx keys dec a y)
    (\<lambda>(x, r). rc_action_id r = act_id a \<and> grows op (new @ [r]) x)"
proof -
  have exec: "yields (case act_idempotency_key a of
      Some k \<Rightarrow> if k \<noteq> [] \<and> k \<in> keys then already_satisfied E z a else execute_action E rt z a ctx
    | None \<Rightarrow> execute_action E rt z a ctx) (\<lambda>r. rc_action_id r = act_id a)" for z
    by (cases "act_idempotency_key a")
      (auto intro!: execute_action_yields assms(1) yields_if yields_bind yields_return simp: already_satisfied_def)
  have finish: "yields (rt_bind (append_receipt E z r) (\<lambda>x. rt_return (x, r)))
      (\<lambda>(x, r). rc_action_id r = act_id a \<and> grows op (new @ [r]) x)"
    if "rc_action_id r = act_id a" "grows op new z" for r z
    using that by (intro yields_follow [OF follow_append_receipt]) (auto intro: yields_return)
  show ?thesis
    unfolding perform_action_def
  proof (rule yields_follow [where op = op and new = new])
    show "yields (set_action_status E y (act_id a) Act_Running True) (grows op new)"
      using assms(2) by (rule follow_set_action_status)
    fix x assume x: "grows op new x"
    show "yields (rt_bind (if pd_requires_checkpoint dec
        then rt_bind (provided_world ctx) (runtime_checkpoint E x) else rt_return x) (\<lambda>op.
       rt_bind (case act_idempotency_key a of
         Some k \<Rightarrow> if k \<noteq> [] \<and> k \<in> keys then already_satisfied E op a else execute_action E rt op a ctx
       | None \<Rightarrow> execute_action E rt op a ctx) (\<lambda>r.
       rt_bind (append_receipt E op r) (\<lambda>op. rt_return (op, r)))))
      (\<lambda>(x, r). rc_action_id r = act_id a \<and> grows op (new @ [r]) x)"
      by (rule yields_follow [where op = op and new = new], rule yields_if, rule yields_bind,
          rule follow_checkpoint [OF x], rule follow_return [OF x], rule yields_seq [OF exec], rule finish)
  qed
qed

text \<open>What the loop has done when it ends.\<close>

fun loop_operation :: "loop_end \<Rightarrow> operation_run" where
  "loop_operation (Loop_Done op) = op"
| "loop_operation (Loop_Failed op b) = op"
| "loop_operation (Loop_Paused op) = op"

definition loop_post ::
    "operation_run \<Rightarrow> action_receipt list \<Rightarrow> action_instance list \<Rightarrow> string set \<Rightarrow> loop_end \<Rightarrow> bool" where
  "loop_post op0 new pending completed fin \<longleftrightarrow>
     (\<exists>rs. grows op0 (new @ rs) (loop_operation fin) \<and> schedule_ok pending completed rs \<and>
        (\<forall>z. fin = Loop_Done z \<longrightarrow> act_id ` set pending \<subseteq> rc_action_id ` set rs))"

lemma loop_post_step:
  assumes "loop_post op0 (new @ [r]) (filter (\<lambda>b. act_id b \<noteq> act_id a) pending) (insert (act_id a) completed) fin"
    and "a \<in> set pending" "set (act_depends_on a) \<subseteq> completed" "act_id a \<notin> completed" "rc_action_id r = act_id a"
  shows "loop_post op0 new pending completed fin"
proof -
  let ?pending = "filter (\<lambda>b. act_id b \<noteq> act_id a) pending"
  from assms(1) obtain rs where rs: "grows op0 ((new @ [r]) @ rs) (loop_operation fin)"
      "schedule_ok ?pending (insert (act_id a) completed) rs"
      "\<forall>z. fin = Loop_Done z \<longrightarrow> act_id ` set ?pending \<subseteq> rc_action_id ` set rs"
    unfolding loop_post_def by blast
  have "schedule_ok pending (insert (act_id a) completed) rs"
    using rs(2) by (rule schedule_ok_mono [rotated]) auto
  then have "schedule_ok pending completed (r # rs)"
    using assms(2-5) by auto
  moreover have "\<forall>z. fin = Loop_Done z \<longrightarrow> act_id ` set pending \<subseteq> rc_action_id ` set (r # rs)"
    using rs(3) assms(5) by auto
  ultimately show ?thesis
    unfolding loop_post_def using rs(1) by (intro exI [of _ "r # rs"]) simp
qed

lemma loop_post_end:
  assumes "grows op0 (new @ [r]) z" "a \<in> set pending" "set (act_depends_on a) \<subseteq> completed"
    "act_id a \<notin> completed" "rc_action_id r = act_id a" "fin \<in> {Loop_Failed z b, Loop_Paused z}"
  shows "loop_post op0 new pending completed fin"
  unfolding loop_post_def using assms by (intro exI [of _ "[r]"]) auto

lemma loop_post_nothing:
  "grows op0 new z \<Longrightarrow> loop_post op0 new pending completed (Loop_Failed z b)"
  "grows op0 new z \<Longrightarrow> loop_post op0 new [] completed (Loop_Done z)"
  unfolding loop_post_def by (auto intro!: exI [of _ "[]"])

lemma follow_loop:
  assumes "good_registry (run_executors rt)"
  shows "grows op0 new op \<Longrightarrow> (\<And>b. b \<in> set pending \<Longrightarrow> act_id b \<notin> completed) \<Longrightarrow>
    yields (run_loop E rt ctx op completed keys behavior pending) (loop_post op0 new pending completed)"
proof (induction pending arbitrary: op new completed keys behavior rule: measure_induct_rule [of length])
  case (less pending)
  note g = less.prems(1) and fresh = less.prems(2)
  show ?case
  proof (cases "pending = []")
    case True
    then show ?thesis
      using g by (subst run_loop.simps) (auto intro!: yields_return loop_post_nothing)
  next
    case False
    show ?thesis
    proof (cases "next_action completed pending")
      case None
      then show ?thesis
        using g False
        by (subst run_loop.simps)
          (auto intro!: yields_follow [OF follow_fail [OF g]] yields_return loop_post_nothing)
    next
      case (Some a)
      note a = next_action_mem [OF Some]
      let ?pending = "filter (\<lambda>b. act_id b \<noteq> act_id a) pending" and ?completed = "insert (act_id a) completed"
      have again: "yields (run_loop E rt ctx z ?completed k b ?pending) (loop_post op0 new pending completed)"
        if "grows op0 (new @ [r]) z" "rc_action_id r = act_id a" for z k b r
        by (rule yields_mono, rule less.IH [OF pop_shorter [OF Some] that(1)], use fresh in auto)
          (rule loop_post_step, use a fresh that in auto)
      have stop: "loop_post op0 new pending completed fin"
        if "grows op0 (new @ [r]) z" "rc_action_id r = act_id a" "fin \<in> {Loop_Failed z b, Loop_Paused z}"
        for z r b fin
        using loop_post_end [OF that(1) _ _ _ that(2,3)] a fresh by blast
      show ?thesis
      proof (cases "find (\<lambda>d. pd_action_id d = act_id a) (op_policy_decisions op)")
        case None
        then show ?thesis
          using False Some by (subst run_loop.simps) (simp add: yields_raise)
      next
        case (Some decision)
        show ?thesis
          by (subst run_loop.simps)
            (use False \<open>next_action completed pending = Some a\<close> Some in
              \<open>auto simp: Let_def split: prod.split
                intro!: yields_seq [OF follow_perform [OF assms g]] yields_if again yields_return
                  yields_follow [OF follow_tolerate] yields_follow [OF follow_pause] yields_follow [OF follow_fail]
                intro: stop\<close>)
      qed
    qed
  qed
qed

section \<open>A run\<close>

lemma schedule_ok_erase:
  "map erase as = map erase bs \<Longrightarrow> schedule_ok as done rs = schedule_ok bs done rs"
proof (induction rs arbitrary: "done")
  case (Cons r rs)
  have key: "(\<exists>a \<in> set xs. act_id a = rc_action_id r \<and> set (act_depends_on a) \<subseteq> done \<and> act_id a \<notin> done) \<longleftrightarrow>
      (\<exists>a \<in> set (map erase xs). act_id a = rc_action_id r \<and> set (act_depends_on a) \<subseteq> done \<and> act_id a \<notin> done)" for xs
    by (auto simp: erase_def)
  show ?case using Cons key [of as] key [of bs] by simp
qed simp

lemma pending_actions_sub:
  "set (pending_actions op) \<subseteq> {a \<in> set (plan_actions (op_plan op)). act_id a \<notin> settled_ids op}"
proof
  fix a assume "a \<in> set (pending_actions op)"
  then obtain i where "(i, a) \<in> set (dict_of (map (\<lambda>a. (act_id a, a))
      (filter (\<lambda>a. act_id a \<notin> settled_ids op) (plan_actions (op_plan op)))))"
    by (auto simp: pending_actions_def)
  then have "dget (dict_of (map (\<lambda>a. (act_id a, a))
      (filter (\<lambda>a. act_id a \<notin> settled_ids op) (plan_actions (op_plan op))))) i = Some a"
    by (simp add: wf_dict_dget [symmetric])
  then show "a \<in> {a \<in> set (plan_actions (op_plan op)). act_id a \<notin> settled_ids op}"
    by (auto simp: dget_dict_of dest!: map_of_SomeD)
qed

lemma pending_actions_ids:
  "act_id ` set (pending_actions op) =
     act_id ` {a \<in> set (plan_actions (op_plan op)). act_id a \<notin> settled_ids op}"
proof -
  let ?kvs = "map (\<lambda>a. (act_id a, a)) (filter (\<lambda>a. act_id a \<notin> settled_ids op) (plan_actions (op_plan op)))"
  have "\<exists>b \<in> set (pending_actions op). act_id b = act_id a"
    if a: "a \<in> set (plan_actions (op_plan op))" "act_id a \<notin> settled_ids op" for a
  proof -
    have "act_id a \<in> fst ` set ?kvs" using a by (simp add: image_image)
    then have "dget (dict_of ?kvs) (act_id a) \<noteq> None"
      by (simp add: dget_dict_of map_of_eq_None_iff)
    then obtain b where b: "dget (dict_of ?kvs) (act_id a) = Some b" by blast
    then have "(act_id a, b) \<in> set ?kvs" by (auto simp: dget_dict_of dest!: map_of_SomeD)
    then have "act_id b = act_id a" by auto
    moreover have "b \<in> set (pending_actions op)"
      using map_of_SomeD [OF b] by (force simp: pending_actions_def)
    ultimately show ?thesis by blast
  qed
  then have "act_id ` {a \<in> set (plan_actions (op_plan op)). act_id a \<notin> settled_ids op}
      \<subseteq> act_id ` set (pending_actions op)"
    by (intro image_subsetI) (metis (mono_tags, lifting) imageI mem_Collect_eq)
  then show ?thesis using image_mono [OF pending_actions_sub, of act_id op] by (rule subset_antisym [rotated])
qed

text \<open>The receipts a run adds: those of the schedule, then those of the rollback.\<close>

definition run_post :: "operation_run \<Rightarrow> operation_run \<Rightarrow> bool" where
  "run_post op op' \<longleftrightarrow>
     (\<exists>rs undo. grows op (rs @ undo) op' \<and> rollback_ids undo \<and>
        schedule_ok (plan_actions (op_plan op)) (settled_ids op) rs)"

lemma grows_settled: "grows op [] y \<Longrightarrow> settled_ids y = settled_ids op"
  by (simp add: grows_def settled_ids_def)

lemma finish_run_yields:
  assumes "good_registry (run_executors rt)"
    and "grows op rs (loop_operation fin)" "schedule_ok (plan_actions (op_plan op)) (settled_ids op) rs"
  shows "yields (finish_run E rt ctx given rb fin) (run_post op)"
proof -
  have fin: "yields m (run_post op)" if "yields m (grows op rs)" for m
    using that assms(3)
    by (elim yields_mono) (fastforce simp: run_post_def rollback_ids_def intro: exI [of _ "[]"])
  have undo: "yields (save_return z) (run_post op)"
    if "\<exists>undo. rollback_ids undo \<and> grows op (rs @ undo) z" for z
  proof -
    have "run_post op z" unfolding run_post_def using that assms(3) by blast
    then show ?thesis unfolding save_return_def by (intro yields_then yields_return)
  qed
  show ?thesis
  proof (cases fin)
    case (Loop_Done z)
    then show ?thesis using assms by (auto simp: finish_run_def intro!: fin follow_seal)
  next
    case (Loop_Failed z b)
    have "yields (if rb \<and> b = ''rollback'' then runtime_rollback E rt z ctx else rt_return z)
        (\<lambda>z. \<exists>undo. rollback_ids undo \<and> grows op (rs @ undo) z)"
      using follow_rollback [OF assms(1)] assms(2) Loop_Failed
      by (auto intro!: yields_if yields_return exI [of _ "[]"] simp: rollback_ids_def)
    then show ?thesis
      unfolding finish_run_def Loop_Failed loop_end.case by (rule yields_seq) (rule undo)
  next
    case (Loop_Paused z)
    then show ?thesis using assms by (auto simp: finish_run_def intro!: fin follow_return)
  qed
qed

lemma run_yields:
  assumes "good_registry (run_executors rt)"
  shows "yields (runtime_run E rt op pol ctx given rb) (run_post op)"
  unfolding runtime_run_def
proof (rule yields_follow [where op = op and new = "[]"])
  show "yields (runtime_authorize E rt op pol ctx) (grows op [])"
    by (rule follow_authorize) simp
  fix x assume x: "grows op [] x"
  have loop: "yields (run_loop E rt ctx z (settled_ids z) (successful_keys z) b (pending_actions z))
      (loop_post op [] (pending_actions z) (settled_ids z))" if "grows op [] z" for z b
    by (rule follow_loop [OF assms that]) (use pending_actions_sub in auto)
  have finish: "yields (finish_run E rt ctx given rb fin) (run_post op)"
    if z: "grows op [] z" and "loop_post op [] (pending_actions z) (settled_ids z) fin" for z fin
  proof -
    from that(2) obtain rs where rs: "grows op rs (loop_operation fin)"
        "schedule_ok (pending_actions z) (settled_ids op) rs"
      unfolding loop_post_def grows_settled [OF z] by auto
    have "schedule_ok (plan_actions (op_plan z)) (settled_ids op) rs"
      using rs(2) by (rule schedule_ok_mono [rotated]) (use pending_actions_sub in auto)
    then have "schedule_ok (plan_actions (op_plan op)) (settled_ids op) rs"
      using z schedule_ok_erase [of "plan_actions (op_plan z)" "plan_actions (op_plan op)"]
      by (simp add: grows_def)
    with rs(1) show ?thesis using assms finish_run_yields by blast
  qed
  have quit: "yields (rt_return x) (run_post op)"
    using x by (auto intro!: yields_return exI [of _ "[]"] simp: run_post_def rollback_ids_def)
  show "yields (if op_status x \<noteq> St_Authorized then rt_return x
      else rt_bind (start_operation E x) (\<lambda>op. rt_bind (run_loop E rt ctx op (settled_ids op)
        (successful_keys op) (if rb then ''rollback'' else ''stop'') (pending_actions op))
        (finish_run E rt ctx given rb))) (run_post op)"
    by (rule yields_if, rule quit, rule yields_follow [OF follow_start [OF x]],
        rule yields_seq [OF loop], assumption, rule finish)
qed

section \<open>Nothing runs unless the policy allows it\<close>

text \<open>Every action is allowed, judged at a reading of the clock not before reading \<open>n\<close>.\<close>

definition allowed_from ::
    "environment \<Rightarrow> runtime \<Rightarrow> execution_policy \<Rightarrow> policy_context \<Rightarrow> approval_record list \<Rightarrow> nat \<Rightarrow>
     action_instance \<Rightarrow> bool" where
  "allowed_from E rt pol pctx approvals n a \<longleftrightarrow>
     (\<exists>d k. validate_instance (run_actions rt) a = Inr d \<and> n \<le> k \<and>
        policy_allows (env_now E k) a d pol pctx approvals)"

lemma decide_Inr:
  "decide E rt pol pctx approvals a s = (Inr dec, s') \<Longrightarrow>
     pd_action_id dec = act_id a \<and> rs_clock s \<le> rs_clock s' \<and>
     (pd_outcome dec = Allow \<longrightarrow> (\<forall>n \<le> rs_clock s. allowed_from E rt pol pctx approvals n a))"
  unfolding decide_def allowed_from_def
  by (auto simp: rt_bind_Inr_iff rt_lift_def rt_now_def rt_now_iso_eq rt_return_Inr_iff policy_allow_iff)

lemma decide_all:
  "rt_map (decide E rt pol pctx approvals) as s = (Inr decs, s') \<Longrightarrow>
     map pd_action_id decs = map act_id as \<and>
     ((\<forall>d \<in> set decs. pd_outcome d = Allow) \<longrightarrow>
        (\<forall>n \<le> rs_clock s. \<forall>a \<in> set as. allowed_from E rt pol pctx approvals n a))"
proof (induction "as" arbitrary: decs s)
  case Nil
  then show ?case by (simp add: rt_return_Inr_iff)
next
  case (Cons a as)
  then obtain d s1 ds where *: "decide E rt pol pctx approvals a s = (Inr d, s1)"
      "rt_map (decide E rt pol pctx approvals) as s1 = (Inr ds, s')" "decs = d # ds"
    by (auto simp: rt_bind_Inr_iff rt_return_Inr_iff)
  show ?case
    using decide_Inr [OF *(1)] Cons.IH [OF *(2)] *(3) by auto
qed

lemma authorized_outcome:
  "fst (authorization_outcome decs) = St_Authorized \<longleftrightarrow> (\<forall>d \<in> set decs. pd_outcome d = Allow)"
proof -
  have "pd_outcome d = Allow \<longleftrightarrow> pd_outcome d \<noteq> Deny \<and> pd_outcome d \<noteq> Approval_Required" for d
    by (cases "pd_outcome d") auto
  then show ?thesis by (auto simp: authorization_outcome_def Let_def filter_empty_conv)
qed

lemma follow_step_status:
  "yields (touch E y) (\<lambda>x. op_status x = op_status y)"
  "yields (add_event E ty t aid ds y) (\<lambda>x. op_status x = op_status y)"
  "yields (save_return y) (\<lambda>x. op_status x = op_status y)"
  unfolding touch_def add_event_def make_event_def save_return_def rt_bind_assoc
  by (auto intro!: yields_rules)

lemma authorize_allows:
  assumes "runtime_authorize E rt op pol ctx s = (Inr op', s')" "op_status op' = St_Authorized"
    "a \<in> set (plan_actions (op_plan op))"
  shows "allowed_from E rt pol ((ctx_policy ctx)\<lparr>pc_execution_mode := effective_mode op ctx\<rparr>)
    (op_approvals op) (rs_clock s) a"
proof -
  let ?p = "(ctx_policy ctx)\<lparr>pc_execution_mode := effective_mode op ctx\<rparr>"
  from assms(1) obtain decs s1 x s2 y s3 where
      decs: "rt_map (decide E rt pol ?p (op_approvals op)) (plan_actions (op_plan op)) s = (Inr decs, s1)"
    and x: "touch E ((with_actions (\<lambda>a. a\<lparr>act_status := decided_status decs a\<rparr>) op)
        \<lparr>op_status := fst (authorization_outcome decs), op_policy_decisions := decs\<rparr>) s1 = (Inr x, s2)"
    and y: "add_event E ''operation.authorization_evaluated'' (snd (authorization_outcome decs)) None
        [(''decision_count'', JInt (int (length decs)))] x s2 = (Inr y, s3)"
    and z: "save_return y s3 = (Inr op', s')"
    unfolding runtime_authorize_def rt_bind_Inr_iff by blast
  have "op_status op' = fst (authorization_outcome decs)"
    using yieldsD [OF follow_step_status(1) x] yieldsD [OF follow_step_status(2) y]
      yieldsD [OF follow_step_status(3) z] by simp
  then have "\<forall>d \<in> set decs. pd_outcome d = Allow" using assms(2) authorized_outcome by metis
  then show ?thesis using decide_all [OF decs] assms(3) by blast
qed

lemma keeps_steps [keeps_rules]:
  "keeps rs_calls (touch E y)" "keeps rs_world (touch E y)"
  "keeps rs_calls (add_event E ty t aid ds y)" "keeps rs_world (add_event E ty t aid ds y)"
  "keeps rs_calls (save_return y)" "keeps rs_world (save_return y)"
  unfolding touch_def add_event_def make_event_def save_return_def by (intro keeps_rules)+

lemma keeps_authorize [keeps_rules]:
  "keeps rs_calls (runtime_authorize E rt op pol ctx)" "keeps rs_world (runtime_authorize E rt op pol ctx)"
  unfolding runtime_authorize_def decide_def by (intro keeps_rules)+

lemma run_effects_authorized:
  assumes "runtime_run E rt op pol ctx given rb s = (r, s')"
    and "rs_calls s' \<noteq> rs_calls s \<or> rs_world s' \<noteq> rs_world s"
    and "a \<in> set (plan_actions (op_plan op))"
  shows "allowed_from E rt pol ((ctx_policy ctx)\<lparr>pc_execution_mode := effective_mode op ctx\<rparr>)
    (op_approvals op) (rs_clock s) a"
proof -
  obtain r1 s1 where auth: "runtime_authorize E rt op pol ctx s = (r1, s1)" by fastforce
  note same = keepsD [OF keeps_authorize(1) auth] keepsD [OF keeps_authorize(2) auth]
  show ?thesis
  proof (cases r1)
    case (Inl e)
    then show ?thesis using assms(1,2) same by (simp add: runtime_run_def rt_bind_def auth)
  next
    case (Inr x)
    have "op_status x = St_Authorized"
      using assms(1,2) same
      by (rule_tac ccontr) (simp add: runtime_run_def rt_bind_def auth Inr rt_return_def)
    then show ?thesis using authorize_allows auth Inr assms(3) by blast
  qed
qed

section \<open>Sealing\<close>

text \<open>The steps that only read the clock and write the journal, as functions.\<close>

lemma touch_eq: "touch E y s =
    (Inr (y\<lparr>op_updated_at_iso := isoformat (env_now E (rs_clock s))\<rparr>), s\<lparr>rs_clock := Suc (rs_clock s)\<rparr>)"
  by (simp add: touch_def rt_bind_def rt_now_iso_eq rt_return_def)

lemma add_event_eq: "add_event E ty t aid ds y s =
    (Inr (y\<lparr>op_events := op_events y @ [\<lparr>oe_sequence = length (op_events y), oe_operation_id = op_id y,
       oe_event_type = ty, oe_occurred_at_iso = isoformat (env_now E (rs_clock s)), oe_title = t,
       oe_action_id = aid, oe_artifact_ids = [], oe_details = ds\<rparr>]\<rparr>),
     s\<lparr>rs_clock := Suc (rs_clock s)\<rparr>)"
  by (simp add: add_event_def make_event_def rt_bind_def rt_now_iso_eq rt_return_def)

lemma save_return_eq: "save_return y s = (Inr y, s\<lparr>rs_journal := journal_save y (rs_journal s)\<rparr>)"
  by (simp add: save_return_def rt_then_def rt_bind_def rt_save_eq rt_return_def)

lemma verify_nil [simp]: "verify_conditions [] w rels now h = []"
  by (simp add: verify_conditions_def evaluate_all_def Let_def)

lemma verify_eq: "verify cs ctx s =
    (Inr (verify_conditions cs (ctx_world ctx s) (ctx_relationships ctx s) 0 []), s)"
  by (simp add: verify_def rt_bind_def rt_return_def provided_world_def provided_relationships_def)

lemma successful_nil [simp]: "successful [] results"
  by (simp add: successful_def)

lemma verification_conditions_of_update [simp]:
  "verification_conditions_of given (y\<lparr>op_events := e\<rparr>) = verification_conditions_of given y"
  "verification_conditions_of given (y\<lparr>op_updated_at_iso := t\<rparr>) = verification_conditions_of given y"
  "verification_conditions_of given (y\<lparr>op_status := st\<rparr>) = verification_conditions_of given y"
  by (simp_all add: verification_conditions_of_def split: option.split)

text \<open>A sealed operation is completed exactly when it is a dry run or verification, against the world
  after the last action, found every required condition healthy and no protected one violated.\<close>

definition verified :: "verification_condition list \<Rightarrow> verification_result list \<Rightarrow> bool" where
  "verified cs results \<longleftrightarrow> successful cs results \<and> \<not> protected_violation cs results"

lemma seal_success_verified: "seal_success cs results op = verified cs results"
  by (auto simp: seal_success_def verified_def)

lemma finish_seal_fields:
  "finish_seal E st c results op s = (Inr op', s') \<Longrightarrow>
     op_status op' = st \<and> op_verification_results op' = results \<and> op_recovery_certificate op' = Some c"
  by (auto simp: finish_seal_def rt_bind_def rt_now_iso_eq touch_eq add_event_eq save_return_eq)

lemma seal_certificate_status:
  "cert_status (seal_certificate ctx cs results op) = Recovered \<longleftrightarrow>
     op_mode op \<noteq> Dry_Run \<and> ec_mode (ctx_execution ctx) \<noteq> ''simulation'' \<and> verified cs results"
  by (simp add: seal_certificate_def make_certificate_def Let_def seal_success_verified)

lemma seal_outcome:
  assumes "seal E ctx given op s = (Inr op', s')"
  shows "\<exists>s1. rs_world s1 = rs_world s \<and> rs_calls s1 = rs_calls s \<and>
    (let cs = verification_conditions_of given op; results = op_verification_results op' in
     results = verify_conditions cs (ctx_world ctx s1) (ctx_relationships ctx s1) 0 [] \<and>
     op_status op' = (if op_mode op = Dry_Run \<or> verified cs results then St_Completed else St_Failed) \<and>
     (\<exists>c. op_recovery_certificate op' = Some c \<and>
       (cert_status c = Recovered \<longleftrightarrow> op_mode op \<noteq> Dry_Run \<and> ec_mode (ctx_execution ctx) \<noteq> ''simulation'' \<and>
          verified cs results)))"
proof -
  let ?cs = "verification_conditions_of given op"
  from assms obtain y1 t1 y t2 rs t3 where
      t: "touch E (op\<lparr>op_status := St_Verifying\<rparr>) s = (Inr y1, t1)"
    and e: "add_event E ''verification.started'' ''Post-action verification started'' None [] y1 t1 = (Inr y, t2)"
    and v: "verify (verification_conditions_of given y) ctx t2 = (Inr rs, t3)"
    and f: "finish_seal E
        (if seal_success (verification_conditions_of given y) rs y \<or> op_mode y = Dry_Run
         then St_Completed else St_Failed)
        (seal_certificate ctx (verification_conditions_of given y) rs y) rs y t3 = (Inr op', s')"
    unfolding seal_def Let_def rt_bind_Inr_iff by blast
  from t e have y: "verification_conditions_of given y = ?cs" "op_mode y = op_mode op"
      and t2: "rs_world t2 = rs_world s" "rs_calls t2 = rs_calls s"
    by (auto simp: touch_eq add_event_eq)
  from v y have rs: "rs = verify_conditions ?cs (ctx_world ctx t2) (ctx_relationships ctx t2) 0 []"
    by (auto simp: verify_eq)
  show ?thesis
    using finish_seal_fields [OF f] t2 y rs
    by (intro exI [of _ t2]) (auto simp: Let_def seal_certificate_status seal_success_verified)
qed

section \<open>How a run ends\<close>

fun end_status :: "loop_end \<Rightarrow> bool" where
  "end_status (Loop_Done z) = True"
| "end_status (Loop_Failed z b) = (op_status z = St_Failed)"
| "end_status (Loop_Paused z) = (op_status z = St_Paused)"

lemma fail_status: "yields (fail_operation E y why) (\<lambda>x. op_status x = St_Failed)"
  unfolding fail_operation_def
  by (rule yields_seq [OF follow_step_status(1)], rule yields_mono [OF follow_step_status(2)]) simp

lemma pause_status: "yields (pause_after_failure E a y) (\<lambda>x. op_status x = St_Paused)"
  unfolding pause_after_failure_def Let_def
  by (rule yields_seq [OF follow_step_status(1)], rule yields_seq [OF follow_step_status(2)],
      rule yields_mono [OF follow_step_status(3)]) simp

lemma loop_status: "yields (run_loop E rt ctx op completed keys behavior pending) end_status"
proof (induction pending arbitrary: op completed keys behavior rule: measure_induct_rule [of length])
  case (less pending)
  show ?case
  proof (cases "next_action completed pending")
    case None
    then show ?thesis
      by (subst run_loop.simps)
        (auto intro!: yields_if yields_return yields_mono [OF fail_status] yields_seq [OF fail_status])
  next
    case (Some a)
    note again = less.IH [OF pop_shorter [OF Some]]
    show ?thesis
      by (subst run_loop.simps)
        (auto simp: Some Let_def split: option.split prod.split
          intro!: yields_if yields_return yields_raise again yields_seq [OF fail_status]
            yields_seq [OF pause_status] yields_bind [where m = "perform_action E rt ctx keys d a op" for d]
            yields_bind [where m = "tolerate_failure E a z" for z])
  qed
qed

lemma authorize_status:
  "runtime_authorize E rt op pol ctx s = (Inr x, s') \<Longrightarrow>
     op_status x \<in> {St_Blocked, St_Awaiting_Approval, St_Authorized}"
proof -
  assume "runtime_authorize E rt op pol ctx s = (Inr x, s')"
  moreover have "fst (authorization_outcome decs) \<in> {St_Blocked, St_Awaiting_Approval, St_Authorized}" for decs
    by (simp add: authorization_outcome_def Let_def)
  ultimately show ?thesis
    by (fastforce simp: runtime_authorize_def rt_bind_Inr_iff
        dest!: yieldsD [OF follow_step_status(1)] yieldsD [OF follow_step_status(2)] yieldsD [OF follow_step_status(3)])
qed

lemma rollback_status: "yields (runtime_rollback E rt op ctx) (\<lambda>x. op_status x = St_Failed)"
  unfolding runtime_rollback_def
  by (rule yields_bind, rule yields_bind, rule yields_bind, rule yields_bind,
      rule yields_seq [OF follow_step_status(1)], rule yields_seq [OF follow_step_status(2)],
      rule yields_mono [OF follow_step_status(3)]) simp

lemma keeps_seal [keeps_rules]:
  "keeps rs_calls (seal E ctx given y)" "keeps rs_world (seal E ctx given y)"
  unfolding seal_def finish_seal_def Let_def
  by (intro keeps_rules; simp add: keeps_def verify_eq)+

text \<open>A run that ends completed sealed the operation after all its actions were handled.\<close>

lemma run_completed:
  assumes "runtime_run E rt op pol ctx given rb s = (Inr op', s')" "op_status op' = St_Completed"
  shows "\<exists>x z s1. grows op [] x \<and> seal E ctx given z s1 = (Inr op', s') \<and>
    (\<exists>b s0. run_loop E rt ctx x (settled_ids x) (successful_keys x) b (pending_actions x) s0 = (Inr (Loop_Done z), s1))"
proof -
  from assms(1) obtain y s1 where auth: "runtime_authorize E rt op pol ctx s = (Inr y, s1)"
    and rest: "(if op_status y \<noteq> St_Authorized then rt_return y
      else rt_bind (start_operation E y) (\<lambda>op. rt_bind (run_loop E rt ctx op (settled_ids op)
        (successful_keys op) (if rb then ''rollback'' else ''stop'') (pending_actions op))
        (finish_run E rt ctx given rb))) s1 = (Inr op', s')"
    unfolding runtime_run_def rt_bind_Inr_iff by blast
  have y: "grows op [] y" using yieldsD [OF follow_authorize auth] by simp
  have "op_status y = St_Authorized"
    using rest authorize_status [OF auth] assms(2) by (auto simp: rt_return_def split: if_splits)
  with rest obtain x s2 fin s3 where
      x: "start_operation E y s1 = (Inr x, s2)"
    and loop: "run_loop E rt ctx x (settled_ids x) (successful_keys x)
        (if rb then ''rollback'' else ''stop'') (pending_actions x) s2 = (Inr fin, s3)"
    and fin: "finish_run E rt ctx given rb fin s3 = (Inr op', s')"
    unfolding rt_bind_Inr_iff by (auto simp: rt_bind_Inr_iff)
  have "grows op [] x" using yieldsD [OF follow_start [OF y] x] .
  note status = yieldsD [OF loop_status loop]
  show ?thesis
  proof (cases fin)
    case (Loop_Done z)
    from fin have "seal E ctx given z s3 = (Inr op', s')" by (simp add: finish_run_def Loop_Done)
    then show ?thesis using loop [unfolded Loop_Done] \<open>grows op [] x\<close> by blast
  next
    case (Loop_Failed z b)
    then have "op_status op' = St_Failed"
      using fin status yieldsD [OF rollback_status]
      by (auto simp: finish_run_def rt_bind_Inr_iff save_return_eq rt_return_Inr_iff split: if_splits)
    then show ?thesis using assms(2) by simp
  next
    case (Loop_Paused z)
    then show ?thesis using fin status assms(2) by (simp add: finish_run_def rt_return_def)
  qed
qed

lemma grows_conditions:
  "grows op new y \<Longrightarrow> verification_conditions_of given y = verification_conditions_of given op"
proof -
  assume "grows op new y"
  then have "(op_plan y)\<lparr>plan_actions := []\<rparr> = (op_plan op)\<lparr>plan_actions := []\<rparr>"
    by (simp add: grows_def)
  from arg_cong [OF this, of plan_verification_conditions] show ?thesis
    by (simp add: verification_conditions_of_def split: option.split)
qed

lemma run_completed_verified:
  assumes "good_registry (run_executors rt)"
    and "runtime_run E rt op pol ctx given rb s = (Inr op', s')" "op_status op' = St_Completed"
  shows "act_id ` set (plan_actions (op_plan op)) \<subseteq> rc_action_id ` set (op_action_receipts op')"
    and "op_mode op = Dry_Run \<or>
      (\<exists>s1. rs_world s1 = rs_world s' \<and> rs_calls s1 = rs_calls s' \<and>
        (let cs = verification_conditions_of given op in
         verified cs (verify_conditions cs (ctx_world ctx s1) (ctx_relationships ctx s1) 0 [])))"
proof -
  from run_completed [OF assms(2,3)] obtain x z s1 b s0 where x: "grows op [] x"
    and seal: "seal E ctx given z s1 = (Inr op', s')"
    and loop: "run_loop E rt ctx x (settled_ids x) (successful_keys x) b (pending_actions x) s0 =
      (Inr (Loop_Done z), s1)" by blast
  have "loop_post op [] (pending_actions x) (settled_ids x) (Loop_Done z)"
    using yieldsD [OF follow_loop [OF assms(1) x] loop] pending_actions_sub by auto
  then obtain rs where rs: "grows op rs z" "act_id ` set (pending_actions x) \<subseteq> rc_action_id ` set rs"
    unfolding loop_post_def by auto
  have op': "grows op rs op'" using yieldsD [OF follow_seal [OF rs(1)] seal] .
  show "act_id ` set (plan_actions (op_plan op)) \<subseteq> rc_action_id ` set (op_action_receipts op')"
  proof
    fix i assume "i \<in> act_id ` set (plan_actions (op_plan op))"
    moreover have "act_id ` set (plan_actions (op_plan op)) = act_id ` set (plan_actions (op_plan x))"
    proof -
      have "act_id ` set (map erase xs) = act_id ` set xs" for xs
        by (force simp: erase_def image_image)
      then show ?thesis using x by (metis grows_def)
    qed
    ultimately have "i \<in> settled_ids x \<or> i \<in> act_id ` set (pending_actions x)"
      unfolding pending_actions_ids by auto
    then show "i \<in> rc_action_id ` set (op_action_receipts op')"
      using rs(2) op' grows_settled [OF x] by (auto simp: grows_def settled_ids_def)
  qed
  have mode: "op_mode z = op_mode op" using rs(1) by (simp add: grows_def)
  have same: "rs_world s' = rs_world s1" "rs_calls s' = rs_calls s1"
    using keepsD [OF keeps_seal(2) seal] keepsD [OF keeps_seal(1) seal] by auto
  show "op_mode op = Dry_Run \<or>
      (\<exists>s1. rs_world s1 = rs_world s' \<and> rs_calls s1 = rs_calls s' \<and>
        (let cs = verification_conditions_of given op in
         verified cs (verify_conditions cs (ctx_world ctx s1) (ctx_relationships ctx s1) 0 [])))"
    using seal_outcome [OF seal] assms(3) same
    unfolding mode grows_conditions [OF rs(1)] by (auto simp: Let_def split: if_splits)
qed

section \<open>A valid plan never blocks\<close>

lemma next_action_None:
  "next_action completed pending = None \<longleftrightarrow> (\<forall>a \<in> set pending. \<not> set (act_depends_on a) \<subseteq> completed)"
  by (auto simp: next_action_def Let_def filter_empty_conv)

text \<open>While every action is pending or settled, the loop finds an action to run.\<close>

lemma loop_finds_action:
  assumes "valid_plan p" "map erase as = map erase (plan_actions p)" "pending \<noteq> []"
    and "set pending \<subseteq> set as" "\<And>a. a \<in> set as \<Longrightarrow> act_id a \<notin> completed \<Longrightarrow> act_id a \<in> act_id ` set pending"
    and "\<And>b. b \<in> set pending \<Longrightarrow> act_id b \<notin> completed"
  shows "next_action completed pending \<noteq> None"
proof -
  let ?as = "plan_actions p"
  have erase_fields: "act_id (erase a) = act_id a" "act_depends_on (erase a) = act_depends_on a" for a
    by (simp_all add: erase_def)
  have to_plan: "\<exists>b \<in> set ?as. erase b = erase a" if "a \<in> set as" for a
  proof -
    have "erase a \<in> set (map erase as)" using that by simp
    then have "erase a \<in> set (map erase ?as)" by (simp only: assms(2))
    then show ?thesis by auto
  qed
  have from_plan: "\<exists>a \<in> set as. erase b = erase a" if "b \<in> set ?as" for b
  proof -
    have "erase b \<in> set (map erase ?as)" using that by simp
    then have "erase b \<in> set (map erase as)" by (simp only: assms(2))
    then show ?thesis by auto
  qed
  obtain a where a: "a \<in> set pending" using assms(3) by (cases pending) auto
  then obtain b where b: "b \<in> set ?as" "erase b = erase a" using assms(4) to_plan by blast
  then have "act_id b \<notin> completed" using assms(6) a erase_fields by metis
  from valid_plan_progress [OF assms(1) b(1) this] obtain c where
      c: "c \<in> set ?as" "act_id c \<notin> completed" "set (act_depends_on c) \<subseteq> completed" by blast
  obtain c' where c': "c' \<in> set as" "erase c = erase c'" using from_plan c(1) by blast
  then have "act_id c' = act_id c" using erase_fields by metis
  then obtain d where d: "d \<in> set pending" "act_id d = act_id c"
    using assms(5) [OF c'(1)] c(2) by auto
  then obtain e where e: "e \<in> set ?as" "erase e = erase d" using assms(4) to_plan by blast
  then have "act_id e = act_id c" using d erase_fields by metis
  moreover have "distinct (map act_id ?as)" using assms(1) by (simp add: valid_plan_iff)
  ultimately have "e = c" using e(1) c(1) by (auto simp: distinct_map dest: inj_onD)
  then have "act_depends_on d = act_depends_on c" using e(2) erase_fields by metis
  then have "set (act_depends_on d) \<subseteq> completed" using c(3) by simp
  then show ?thesis using d(1) next_action_None by blast
qed

definition not_blocked :: "loop_end \<Rightarrow> bool" where
  "not_blocked fin \<longleftrightarrow> (\<forall>z b. fin = Loop_Failed z b \<longrightarrow> op_failure_reason z \<noteq> Some blocked_reason)"

lemma not_blocked_simps [simp]:
  "not_blocked (Loop_Done z)" "not_blocked (Loop_Paused z)"
  "not_blocked (Loop_Failed z b) \<longleftrightarrow> op_failure_reason z \<noteq> Some blocked_reason"
  by (simp_all add: not_blocked_def)

lemma fail_reason: "yields (fail_operation E y why) (\<lambda>x. op_failure_reason x = Some why)"
  by (auto simp: yields_def fail_operation_def rt_bind_def touch_eq add_event_eq)

lemma loop_not_blocked:
  assumes "valid_plan p" "map erase as = map erase (plan_actions p)"
  shows "set pending \<subseteq> set as \<Longrightarrow>
    (\<And>a. a \<in> set as \<Longrightarrow> act_id a \<notin> completed \<Longrightarrow> act_id a \<in> act_id ` set pending) \<Longrightarrow>
    (\<And>b. b \<in> set pending \<Longrightarrow> act_id b \<notin> completed) \<Longrightarrow>
    yields (run_loop E rt ctx op completed keys behavior pending) not_blocked"
proof (induction pending arbitrary: op completed keys behavior rule: measure_induct_rule [of length])
  case (less pending)
  show ?case
  proof (cases "pending = []")
    case True
    then show ?thesis by (subst run_loop.simps) (simp add: yields_return)
  next
    case False
    from loop_finds_action [OF assms False less.prems] obtain a where
      Some: "next_action completed pending = Some a" by blast
    let ?pending = "filter (\<lambda>b. act_id b \<noteq> act_id a) pending" and ?completed = "insert (act_id a) completed"
    have again: "yields (run_loop E rt ctx z ?completed k b ?pending) not_blocked" for z k b
    proof (rule less.IH [OF pop_shorter [OF Some]])
      show "set ?pending \<subseteq> set as" using less.prems(1) by auto
      show "act_id c \<in> act_id ` set ?pending" if "c \<in> set as" "act_id c \<notin> ?completed" for c
        using less.prems(2) [OF that(1)] that(2) by auto
      show "act_id c \<notin> ?completed" if "c \<in> set ?pending" for c
        using less.prems(3) that by auto
    qed
    show ?thesis
      by (subst run_loop.simps)
        (auto simp: Some Let_def blocked_reason_def split: option.split prod.split
          intro!: yields_if yields_return yields_raise again yields_seq [OF fail_reason]
            yields_bind [where m = "pause_after_failure E a z" for z]
            yields_bind [where m = "perform_action E rt ctx keys d a op" for d]
            yields_bind [where m = "tolerate_failure E a z" for z])
  qed
qed

section \<open>The journal holds what is returned\<close>

definition journaled :: "operation_run \<Rightarrow> rt_state \<Rightarrow> bool" where
  "journaled op s \<longleftrightarrow> dget (jr_files (rs_journal s)) (path_for (rs_journal s) (op_id op)) = Some op"

definition journals :: "operation_run rt \<Rightarrow> bool" where
  "journals m \<longleftrightarrow> (\<forall>s op s'. m s = (Inr op, s') \<longrightarrow> journaled op s')"

lemma journals_save [intro!]: "journals (save_return y)"
  by (auto simp: journals_def save_return_eq journaled_def) (simp add: journal_save_def)

lemma journals_bind [intro]: "(\<And>x. journals (f x)) \<Longrightarrow> journals (rt_bind m f)"
  by (auto simp: journals_def rt_bind_Inr_iff)

lemma journals_raise [intro!]: "journals (rt_raise e m)"
  by (simp add: journals_def rt_raise_def rt_lift_def)

lemma journals_if [intro]: "journals m \<Longrightarrow> journals k \<Longrightarrow> journals (if b then m else k)"
  by simp

lemma journals_steps:
  "journals (runtime_create E rt env plan mode approvals)" "journals (runtime_authorize E rt op pol ctx)"
  "journals (add_approval E op ap)" "journals (runtime_cancel E op why)" "journals (runtime_pause E op why)"
  "journals (runtime_rollback E rt op ctx)" "journals (verify_external E op ctx given)"
  "journals (seal E ctx given op)"
  unfolding runtime_create_def runtime_authorize_def add_approval_def runtime_cancel_def runtime_pause_def
    runtime_rollback_def verify_external_def seal_def finish_seal_def Let_def
  by (intro journals_if journals_bind journals_raise journals_save)+

text \<open>A paused loop has saved the operation it returns.\<close>

definition journaled_pause :: "loop_end rt \<Rightarrow> bool" where
  "journaled_pause m \<longleftrightarrow> (\<forall>s op s'. m s = (Inr (Loop_Paused op), s') \<longrightarrow> journaled op s')"

lemma journaled_pause_rules:
  "journaled_pause (rt_return (Loop_Done z))" "journaled_pause (rt_return (Loop_Failed z b))"
  "journaled_pause (rt_raise e w)" "(\<And>x. journaled_pause (f x)) \<Longrightarrow> journaled_pause (rt_bind m f)"
  "journals n \<Longrightarrow> journaled_pause (rt_bind n (\<lambda>op. rt_return (Loop_Paused op)))"
  by (auto simp: journaled_pause_def rt_return_def rt_raise_def rt_lift_def rt_bind_Inr_iff journals_def)

lemma journals_pause: "journals (pause_after_failure E a y)"
  unfolding pause_after_failure_def Let_def by blast

lemma loop_journals: "journaled_pause (run_loop E rt ctx op completed keys behavior pending)"
proof (induction pending arbitrary: op completed keys behavior rule: measure_induct_rule [of length])
  case (less pending)
  show ?case
  proof (cases "next_action completed pending")
    case None
    then show ?thesis by (subst run_loop.simps) (auto intro!: journaled_pause_rules(1,2,4))
  next
    case (Some a)
    note again = less.IH [OF pop_shorter [OF Some]]
    show ?thesis
      by (subst run_loop.simps)
        (auto simp: Some Let_def split: option.split prod.split
          intro!: journaled_pause_rules(1-3) journaled_pause_rules(5) again journals_pause
            journaled_pause_rules(4) [where m = "perform_action E rt ctx keys d a op" for d]
            journaled_pause_rules(4) [where m = "tolerate_failure E a z" for z]
            journaled_pause_rules(4) [where m = "fail_operation E z w" for z w])
  qed
qed

lemma run_journals: "journals (runtime_run E rt op pol ctx given rb)"
proof -
  have "journaled x s'" if run: "runtime_run E rt op pol ctx given rb s = (Inr x, s')" for s x s'
  proof -
    from run obtain y s1 where auth: "runtime_authorize E rt op pol ctx s = (Inr y, s1)"
      and rest: "(if op_status y \<noteq> St_Authorized then rt_return y
        else rt_bind (start_operation E y) (\<lambda>op. rt_bind (run_loop E rt ctx op (settled_ids op)
          (successful_keys op) (if rb then ''rollback'' else ''stop'') (pending_actions op))
          (finish_run E rt ctx given rb))) s1 = (Inr x, s')"
      unfolding runtime_run_def rt_bind_Inr_iff by blast
    show ?thesis
    proof (cases "op_status y = St_Authorized")
      case False
      then show ?thesis
        using rest auth journals_steps(2) by (auto simp: rt_return_def journals_def)
    next
      case True
      with rest obtain w s2 fin s3 where
          loop: "run_loop E rt ctx w (settled_ids w) (successful_keys w)
            (if rb then ''rollback'' else ''stop'') (pending_actions w) s2 = (Inr fin, s3)"
        and fin: "finish_run E rt ctx given rb fin s3 = (Inr x, s')"
        by (auto simp: rt_bind_Inr_iff)
      show ?thesis
      proof (cases fin)
        case (Loop_Paused z)
        then show ?thesis
          using loop_journals loop fin by (auto simp: journaled_pause_def finish_run_def rt_return_def)
      next
        case (Loop_Done z)
        then show ?thesis using fin journals_steps(8) by (auto simp: journals_def finish_run_def)
      next
        case (Loop_Failed z b)
        have "journals (finish_run E rt ctx given rb fin)"
          unfolding finish_run_def Loop_Failed loop_end.case by blast
        then show ?thesis using fin by (simp add: journals_def)
      qed
    qed
  qed
  then show ?thesis by (simp add: journals_def)
qed

section \<open>What a rollback leaves in the journal\<close>

lemma unknown_receipt_unloadable:
  assumes "journaled op s" "r \<in> set (op_action_receipts op)" "rc_action_id r \<notin> act_id ` set (plan_actions (op_plan op))"
  shows "\<exists>e. journal_load (rs_journal s) (op_id op) = Inl e"
proof -
  have "validate_operation op \<noteq> Inr ()"
    using assms(2,3) by (auto simp: validate_operation_iff validate_receipts_iff)
  then show ?thesis
    using assms(1) by (cases "validate_operation op") (auto simp: journaled_def journal_load_def)
qed

lemma grows_action_ids:
  "grows op new y \<Longrightarrow> act_id ` set (plan_actions (op_plan y)) = act_id ` set (plan_actions (op_plan op))"
proof -
  assume "grows op new y"
  then have "set (map erase (plan_actions (op_plan y))) = set (map erase (plan_actions (op_plan op)))"
    by (simp only: grows_def)
  from arg_cong [OF this, of "image act_id"] show ?thesis by (simp add: image_image erase_def)
qed

lemma rollback_unloadable:
  assumes "good_registry (run_executors rt)" "runtime_rollback E rt op ctx s = (Inr op', s')"
    and "\<And>i. ''rollback:'' @ i \<notin> act_id ` set (plan_actions (op_plan op))"
    and "op_action_receipts op' \<noteq> op_action_receipts op"
  shows "\<exists>e. journal_load (rs_journal s') (op_id op') = Inl e"
proof -
  obtain rb where rb: "rollback_ids rb" "grows op rb op'"
    using yieldsD [OF follow_rollback [OF assms(1) grows_refl] assms(2)] by auto
  with assms(4) obtain r where r: "r \<in> set rb" by (cases rb) (auto simp: grows_def)
  with rb obtain i where "rc_action_id r = ''rollback:'' @ i" by (auto simp: rollback_ids_def)
  moreover have "r \<in> set (op_action_receipts op')" using rb r by (simp add: grows_def)
  moreover have "journaled op' s'" using journals_steps(6) assms(2) unfolding journals_def by blast
  ultimately show ?thesis
    using unknown_receipt_unloadable grows_action_ids [OF rb(2)] assms(3) by metis
qed

section \<open>Temporal conditions at run time\<close>

lemma stable_never_verified:
  assumes "c \<in> set cs" "vc_required c" "distinct (map vc_id cs)"
    and "tr_operator (vc_temporal c) = Stable_For" "tr_stable_for_seconds (vc_temporal c) = Some n" "0 < n"
  shows "\<not> successful cs (verify_conditions cs w rels 0 [])"
proof -
  have "window_baseline [(0, w)] (0 - n) = None"
    using assms(6) by (simp add: window_baseline_def)
  then have "condition_status c w rels 0 [] \<noteq> HEALTHY"
    using assms(4,5)
      stable_healthy_iff [of "vc_predicate c" "Some n" "satisfied (vc_predicate c) w rels" 0 "[(0, w)]" rels]
    by (simp add: condition_status_def apply_temporal_def condition_invariant_def)
  with assms(1-3) show ?thesis by (auto simp: successful_verified)
qed

lemma seal_stable_fails:
  assumes "c \<in> set (verification_conditions_of given op)" "vc_required c"
    and "distinct (map vc_id (verification_conditions_of given op))"
    and "tr_operator (vc_temporal c) = Stable_For" "tr_stable_for_seconds (vc_temporal c) = Some n" "0 < n"
    and "op_mode op \<noteq> Dry_Run"
  shows "yields (seal E ctx given op) (\<lambda>op'. op_status op' = St_Failed)"
  unfolding yields_def
proof (intro allI impI)
  fix s op' s' assume "seal E ctx given op s = (Inr op', s')"
  from seal_outcome [OF this] stable_never_verified [OF assms(1-6)] assms(7)
  show "op_status op' = St_Failed" by (auto simp: Let_def verified_def)
qed

section \<open>Dry runs\<close>

text \<open>What lies outside the runtime: the world of the simulator and the external calls.\<close>

definition outside :: "rt_state \<Rightarrow> world \<times> ext_call list" where
  "outside s = (rs_world s, rs_calls s)"

lemma keeps_outside: "keeps rs_world m \<Longrightarrow> keeps rs_calls m \<Longrightarrow> keeps outside m"
  by (simp add: keeps_def outside_def)

lemma keeps_seq:
  "keeps g m \<Longrightarrow> yields m R \<Longrightarrow> (\<And>x. R x \<Longrightarrow> keeps g (f x)) \<Longrightarrow> keeps g (rt_bind m f)"
  by (auto simp: keeps_def yields_def rt_bind_def split: sum.splits prod.splits) (metis snd_conv)+

lemma grows_mode: "grows op new y \<Longrightarrow> op_mode y = op_mode op"
  by (simp add: grows_def)

lemma outside_now: "keeps outside (rt_now_iso E)"
  by (intro keeps_outside keeps_rules)

lemma outside_steps:
  "keeps outside (touch E y)" "keeps outside (add_event E ty t aid ds y)" "keeps outside (save_return y)"
  by (intro keeps_outside keeps_rules)+

lemma outside_provided: "keeps outside (provided_world ctx)"
  by (simp add: keeps_def provided_world_def)

lemma outside_methods:
  "keeps outside (set_action_status E y i st cur)" "keeps outside (runtime_checkpoint E y w)"
  "keeps outside (fail_operation E y why)" "keeps outside (append_receipt E y r)"
  "keeps outside (tolerate_failure E a y)" "keeps outside (pause_after_failure E a y)"
  "keeps outside (start_operation E y)" "keeps outside (already_satisfied E y a)"
  unfolding set_action_status_def runtime_checkpoint_def fail_operation_def append_receipt_def
    tolerate_failure_def pause_after_failure_def start_operation_def already_satisfied_def Let_def
  by (intro keeps_bind keeps_if keeps_return outside_steps outside_now)+

text \<open>Under the id \<open>dry_run\<close> the registry has an executor that touches nothing outside.\<close>

definition dry_registry :: "runtime \<Rightarrow> bool" where
  "dry_registry rt \<longleftrightarrow>
     (\<forall>x a d ctx n. executor_get (run_executors rt) ''dry_run'' = Inr x \<longrightarrow> keeps outside (ex_execute x a d ctx n))"

lemma default_dry_registry:
  assumes "build_default_executor_registry E = Inr (run_executors rt)"
  shows "dry_registry rt"
proof -
  have "run_executors rt = map (\<lambda>x. (ex_id x, x)) (default_executors E)"
    using assms default_registry_eq [of E] by simp
  then show ?thesis
    by (auto simp: dry_registry_def executor_get_def default_executors_def raise_def
        intro!: keeps_outside dry_run_inert split: option.splits)
qed

lemma outside_attempts:
  "(\<And>n. keeps outside (ex_execute x a d ec n)) \<Longrightarrow> keeps outside (attempt_loop x a d ec n k prev)"
  by (induction k arbitrary: n prev) (auto intro!: keeps_rules split: option.split)

lemma outside_execute:
  assumes "dry_registry rt" "op_mode op = Dry_Run"
  shows "keeps outside (execute_action E rt op a ctx)"
proof -
  have run: "keeps outside (rt_bind (rt_lift (executor_get (run_executors rt) ''dry_run'')) (\<lambda>x.
      attempt_loop x a d ec n k prev))" for d ec n k prev
    by (rule keeps_seq [where R = "\<lambda>x. executor_get (run_executors rt) ''dry_run'' = Inr x"])
      (use assms(1) in \<open>auto intro!: keeps_lift outside_attempts simp: dry_registry_def yields_def rt_lift_def\<close>)
  show ?thesis
    unfolding execute_action_def assms(2) by (auto intro!: keeps_bind keeps_lift keeps_raise run)
qed

lemma outside_perform:
  assumes "dry_registry rt" "op_mode op = Dry_Run"
  shows "keeps outside (perform_action E rt ctx keys dec a op)"
  unfolding perform_action_def
proof (rule keeps_seq [OF outside_methods(1) follow_set_action_status [OF grows_refl]])
  fix x assume x: "grows op [] x"
  show "keeps outside (rt_bind (if pd_requires_checkpoint dec
        then rt_bind (provided_world ctx) (runtime_checkpoint E x) else rt_return x) (\<lambda>op.
      rt_bind (case act_idempotency_key a of
          Some k \<Rightarrow> if k \<noteq> [] \<and> k \<in> keys then already_satisfied E op a else execute_action E rt op a ctx
        | None \<Rightarrow> execute_action E rt op a ctx) (\<lambda>r.
      rt_bind (append_receipt E op r) (\<lambda>op. rt_return (op, r)))))"
    by (rule keeps_seq [where R = "grows op []"])
      (auto intro!: keeps_if keeps_bind keeps_return outside_provided outside_methods outside_execute assms(1)
        yields_if yields_bind follow_checkpoint follow_return x split: option.split
        simp: grows_mode assms(2))
qed

lemma outside_rollback_receipts:
  assumes "dry_registry rt"
  shows "op_mode y = Dry_Run \<Longrightarrow> keeps outside (rollback_receipts E rt ctx rs y)"
proof (induction rs arbitrary: y)
  case Nil
  then show ?case by (simp add: keeps_return)
next
  case (Cons r rs)
  have append: "keeps outside (rt_bind (append_receipt E y r') (rollback_receipts E rt ctx rs))" for r'
    by (rule keeps_seq [OF outside_methods(4) follow_append_receipt [OF grows_refl]])
      (use Cons grows_mode in fastforce)
  show ?case
    by (auto intro!: keeps_bind keeps_lift keeps_raise keeps_if append outside_execute assms Cons
        split: option.split)
qed

lemma outside_rollback:
  assumes "dry_registry rt" "op_mode op = Dry_Run"
  shows "keeps outside (runtime_rollback E rt op ctx)"
  unfolding runtime_rollback_def
proof (rule keeps_seq [OF outside_steps(1), where R = "grows op []"], simp add: follow_touch)
  fix x assume x: "grows op [] x"
  show "keeps outside (rt_bind (add_event E ''rollback.started'' ''Rollback started'' None [] x) (\<lambda>op.
     rt_bind (rollback_receipts E rt ctx
       (rev (filter (\<lambda>r. rc_status r = Rc_Completed) (op_action_receipts op))) op) (\<lambda>op.
     rt_bind (rt_now_iso E) (\<lambda>completed.
     rt_bind (touch E (op\<lparr>op_status := St_Failed, op_recovery_certificate := Some (rollback_certificate op),
       op_completed_at_iso := Some completed\<rparr>)) (\<lambda>op.
     rt_bind (add_event E ''rollback.completed'' ''Rollback completed'' None [] op) save_return)))))"
    by (rule keeps_seq [OF outside_steps(2) follow_event [OF x]])
      (auto intro!: keeps_bind outside_rollback_receipts outside_steps outside_now
        simp: assms grows_mode)
qed

lemma outside_loop:
  assumes "dry_registry rt"
  shows "op_mode op = Dry_Run \<Longrightarrow> keeps outside (run_loop E rt ctx op completed keys behavior pending)"
proof (induction pending arbitrary: op completed keys behavior rule: measure_induct_rule [of length])
  case (less pending)
  show ?case
  proof (cases "next_action completed pending")
    case None
    then show ?thesis
      by (subst run_loop.simps) (auto intro!: keeps_return keeps_bind outside_methods)
  next
    case (Some a)
    note again = less.IH [OF pop_shorter [OF Some]]
    have tolerate: "keeps outside (rt_bind (tolerate_failure E a z) (\<lambda>z.
        run_loop E rt ctx z completed' keys' behavior' (filter (\<lambda>b. act_id b \<noteq> act_id a) pending)))"
      if "op_mode z = Dry_Run" for z completed' keys' behavior'
      by (rule keeps_seq [OF outside_methods(5) follow_tolerate [OF grows_refl]])
        (simp add: again that grows_mode)
    have finish: "yields (rt_bind m (\<lambda>r. rt_bind (append_receipt E z r) (\<lambda>x. rt_return (x, r))))
        (\<lambda>(x, r). op_mode x = Dry_Run)" if "grows op [] z" for m z
      by (rule yields_bind, rule yields_seq [OF follow_append_receipt [OF grows_refl]])
        (use grows_mode [OF that] less.prems in \<open>auto intro!: yields_return simp: grows_mode\<close>)
    have checkpoint: "yields (if b then rt_bind (provided_world ctx) (runtime_checkpoint E x) else rt_return x) (grows op [])"
      if "grows op [] x" for x b
      by (intro yields_if yields_bind follow_checkpoint follow_return that)
    have perform: "yields (perform_action E rt ctx keys dec a op) (\<lambda>(x, r). op_mode x = Dry_Run)" for dec
      unfolding perform_action_def
      by (rule yields_seq [OF follow_set_action_status [OF grows_refl]], rule yields_seq [OF checkpoint],
          assumption, rule finish)
    show ?thesis
      by (subst run_loop.simps)
        (auto simp: Some Let_def split: option.split
          intro!: keeps_return keeps_raise keeps_seq [OF outside_perform [OF assms less.prems] perform]
            keeps_if keeps_bind again tolerate outside_methods)
  qed
qed

lemma loop_mode:
  assumes "good_registry (run_executors rt)" "op_mode op = Dry_Run"
  shows "yields (run_loop E rt ctx op (settled_ids op) keys b (pending_actions op))
    (\<lambda>fin. op_mode (loop_operation fin) = Dry_Run)"
  by (rule yields_mono [OF follow_loop [OF assms(1) grows_refl]])
    (use pending_actions_sub assms(2) in \<open>auto simp: loop_post_def grows_mode\<close>)

lemma outside_finish:
  assumes "dry_registry rt" "op_mode (loop_operation fin) = Dry_Run"
  shows "keeps outside (finish_run E rt ctx given rb fin)"
  using assms outside_rollback [OF assms(1)]
  by (cases fin)
    (auto simp: finish_run_def intro!: keeps_return keeps_bind keeps_if keeps_outside [OF keeps_seal(2,1)] outside_steps)

lemma dry_run_outside:
  assumes "build_default_executor_registry E = Inr (run_executors rt)" "op_mode op = Dry_Run"
  shows "keeps outside (runtime_run E rt op pol ctx given rb)"
  unfolding runtime_run_def
proof (rule keeps_seq [OF keeps_outside [OF keeps_authorize(2,1)] follow_authorize [OF grows_refl]])
  note reg = default_dry_registry [OF assms(1)] default_registry_good [OF assms(1)]
  fix x assume x: "grows op [] x"
  have loop: "keeps outside (rt_bind (run_loop E rt ctx z (settled_ids z) (successful_keys z) b (pending_actions z))
      (finish_run E rt ctx given rb))" if "grows op [] z" for z b
  proof -
    have "op_mode z = Dry_Run" using grows_mode [OF that] assms(2) by simp
    from outside_loop [OF reg(1) this] loop_mode [OF reg(2) this] outside_finish [OF reg(1)]
    show ?thesis by (rule keeps_seq)
  qed
  show "keeps outside (if op_status x \<noteq> St_Authorized then rt_return x
      else rt_bind (start_operation E x) (\<lambda>op. rt_bind (run_loop E rt ctx op (settled_ids op)
        (successful_keys op) (if rb then ''rollback'' else ''stop'') (pending_actions op))
        (finish_run E rt ctx given rb)))"
    by (rule keeps_if, rule keeps_return, rule keeps_seq [OF outside_methods(7) follow_start [OF x]], rule loop)
qed

end
