(* ===== verification/Dispatcher.thy ===== *)
theory Dispatcher
  imports Executors
begin

text \<open>
  \<open>models/executor.py\<close> and \<open>distributed/dispatcher.py\<close>: executor agents, execution tasks and leases.
  The dispatcher is a state machine whose operations return a result or raise, keeping the state
  changed so far; instants are microseconds, identifiers drawn with \<open>uuid4\<close> are arguments. Its
  invariant: every active lease belongs to a leased task assigned to the lease's agent, and no task
  has two active leases.
\<close>

section \<open>Records\<close>

datatype agent_status = Ag_Registering | Ag_Online | Ag_Degraded | Ag_Draining | Ag_Offline | Ag_Revoked

datatype task_status =
  Tk_Queued | Tk_Leased | Tk_Running | Tk_Completed | Tk_Failed | Tk_Cancelled | Tk_Expired

fun task_status_value :: "task_status \<Rightarrow> string" where
  "task_status_value Tk_Queued = ''queued''"
| "task_status_value Tk_Leased = ''leased''"
| "task_status_value Tk_Running = ''running''"
| "task_status_value Tk_Completed = ''completed''"
| "task_status_value Tk_Failed = ''failed''"
| "task_status_value Tk_Cancelled = ''cancelled''"
| "task_status_value Tk_Expired = ''expired''"

datatype lease_status = Ls_Active | Ls_Released | Ls_Expired | Ls_Revoked

record agent =
  ag_id :: string
  ag_organization_id :: string
  ag_workspace_id :: string
  ag_name :: string
  ag_status :: agent_status
  ag_capabilities :: "string set"
  ag_supported_executor_ids :: "string set"
  ag_environment_ids :: "string set"
  ag_labels :: "(string, string) dict"
  ag_max_concurrency :: int
  ag_lease_ttl_seconds :: int
  ag_public_identity :: "string option"
  ag_registered_at_iso :: string
  ag_last_heartbeat_at_iso :: "string option"
  ag_metadata :: fields

record heartbeat =
  hb_id :: string
  hb_agent_id :: string
  hb_occurred_at_iso :: string
  hb_status :: agent_status
  hb_active_task_ids :: "string list"
  hb_available_capacity :: int
  hb_capabilities :: "string set"
  hb_diagnostics :: fields

record task =
  tk_id :: string
  tk_organization_id :: string
  tk_workspace_id :: string
  tk_operation_id :: string
  tk_action_id :: string
  tk_environment_id :: string
  tk_action_type_id :: string
  tk_executor_id :: string
  tk_required_capabilities :: "string set"
  tk_target_fingerprint :: "string option"
  tk_status :: task_status
  tk_priority :: int
  tk_attempt :: int
  tk_max_attempts :: int
  tk_not_before_iso :: "string option"
  tk_deadline_iso :: "string option"
  tk_assigned_agent_id :: "string option"
  tk_idempotency_key :: "string option"
  tk_payload :: fields
  tk_payload_hash :: string
  tk_created_at_iso :: string
  tk_updated_at_iso :: string
  tk_metadata :: fields

definition valid_agent :: "agent \<Rightarrow> bool" where
  "valid_agent g \<longleftrightarrow> 1 \<le> ag_max_concurrency g \<and> 5 \<le> ag_lease_ttl_seconds g \<and> ag_lease_ttl_seconds g \<le> 3600"

definition validate_attempts :: "task \<Rightarrow> unit res" where
  "validate_attempts t =
     (if tk_max_attempts t < tk_attempt t
      then raise ValueError ''task attempt cannot exceed max_attempts'' else Inr ())"

record lease =
  ls_id :: string
  ls_task_id :: string
  ls_agent_id :: string
  ls_status :: lease_status
  ls_acquired_at_iso :: string
  ls_expires_at_iso :: string
  ls_heartbeat_at_iso :: string
  ls_nonce :: string
  ls_metadata :: fields

datatype dispatch_outcome = Assigned | Queued | Blocked_Out | Rejected

record dispatch_decision =
  dd_id :: string
  dd_task_id :: string
  dd_outcome :: dispatch_outcome
  dd_agent_id :: "string option"
  dd_candidate_agent_ids :: "string list"
  dd_reasons :: "string list"
  dd_evaluated_at_iso :: string

record dispatcher =
  di_agents :: "(string, agent) dict"
  di_tasks :: "(string, task) dict"
  di_leases :: "(string, lease) dict"

type_synonym 'a disp = "dispatcher \<Rightarrow> 'a res \<times> dispatcher"

definition new_dispatcher :: dispatcher where
  "new_dispatcher = \<lparr>di_agents = [], di_tasks = [], di_leases = []\<rparr>"

section \<open>Agents and tasks\<close>

definition identity_of :: "agent \<Rightarrow> string \<times> string \<times> string option" where
  "identity_of g = (ag_organization_id g, ag_workspace_id g, ag_public_identity g)"

definition register_agent :: "agent \<Rightarrow> unit disp" where
  "register_agent g d =
     (if (case dget (di_agents d) (ag_id g) of None \<Rightarrow> False | Some old \<Rightarrow> identity_of old \<noteq> identity_of g)
      then (raise ValueError (''agent '' @ repr_str (ag_id g) @
        '' is already registered with a different tenant or public identity''), d)
      else (Inr (), d\<lparr>di_agents := dset (ag_id g) g (di_agents d)\<rparr>))"

definition beat :: "heartbeat \<Rightarrow> agent \<Rightarrow> agent" where
  "beat h g = g\<lparr>ag_status := hb_status h, ag_last_heartbeat_at_iso := Some (hb_occurred_at_iso h),
     ag_capabilities := ag_capabilities g \<union> hb_capabilities h,
     ag_metadata := dmerge (ag_metadata g)
       [(''available_capacity'', JInt (hb_available_capacity h)),
        (''active_task_ids'', JList (map JStr (hb_active_task_ids h))),
        (''heartbeat_diagnostics'', JObj (hb_diagnostics h))]\<rparr>"

definition receive_heartbeat :: "heartbeat \<Rightarrow> agent disp" where
  "receive_heartbeat h d =
     (case dget (di_agents d) (hb_agent_id h) of
        None \<Rightarrow> (raise KeyError (hb_agent_id h), d)
      | Some g \<Rightarrow> (Inr (beat h g), d\<lparr>di_agents := dset (ag_id g) (beat h g) (di_agents d)\<rparr>))"

definition enqueue :: "task \<Rightarrow> unit disp" where
  "enqueue t d =
     (case dget (di_tasks d) (tk_id t) of
        None \<Rightarrow> (Inr (), d\<lparr>di_tasks := dset (tk_id t) t (di_tasks d)\<rparr>)
      | Some old \<Rightarrow>
          if tk_payload_hash old \<noteq> tk_payload_hash t
          then (raise ValueError (''task '' @ repr_str (tk_id t) @ '' already exists with different content''), d)
          else (Inr (), d))"

section \<open>Capacity\<close>

definition lease_counts :: "string \<Rightarrow> int \<Rightarrow> lease \<Rightarrow> bool res" where
  "lease_counts agent_id now l =
     (if ls_agent_id l = agent_id \<and> ls_status l = Ls_Active
      then res_bind (parse_iso (ls_expires_at_iso l)) (\<lambda>e. Inr (now < e)) else Inr False)"

definition active_count :: "dispatcher \<Rightarrow> string \<Rightarrow> int \<Rightarrow> nat res" where
  "active_count d agent_id now =
     res_bind (res_map (lease_counts agent_id now) (map snd (di_leases d))) (\<lambda>bs.
       Inr (length (filter (\<lambda>b. b) bs)))"

definition available_capacity :: "dispatcher \<Rightarrow> agent \<Rightarrow> int \<Rightarrow> int res" where
  "available_capacity d g now =
     res_bind (py_int (dget_default (ag_metadata g) ''available_capacity'' (JInt (ag_max_concurrency g)))) (\<lambda>configured.
     res_bind (active_count d (ag_id g) now) (\<lambda>n.
       Inr (max 0 (min configured (max 0 (ag_max_concurrency g - int n))))))"

section \<open>Dispatch\<close>

definition compatible :: "task \<Rightarrow> agent \<Rightarrow> bool" where
  "compatible t g \<longleftrightarrow>
     ag_status g = Ag_Online \<and>
     tk_workspace_id t = ag_workspace_id g \<and> tk_organization_id t = ag_organization_id g \<and>
     (ag_environment_ids g = {} \<or> tk_environment_id t \<in> ag_environment_ids g) \<and>
     tk_executor_id t \<in> ag_supported_executor_ids g \<and>
     tk_required_capabilities t \<subseteq> ag_capabilities g"

text \<open>The candidates in registration order, each with its load.\<close>

fun candidates_of :: "dispatcher \<Rightarrow> task \<Rightarrow> int \<Rightarrow> agent list \<Rightarrow> (nat \<times> agent) list res" where
  "candidates_of d t now [] = Inr []"
| "candidates_of d t now (g # gs) =
     (if \<not> compatible t g then candidates_of d t now gs
      else
        res_bind (available_capacity d g now) (\<lambda>c.
          if c \<le> 0 then candidates_of d t now gs
          else
            res_bind (candidates_of d t now gs) (\<lambda>rest.
            res_bind (active_count d (ag_id g) now) (\<lambda>n. Inr ((n, g) # rest)))))"

text \<open>\<open>candidates.sort(key=(active count, agent id))\<close>: two stable sorts.\<close>

definition ranked :: "(nat \<times> agent) list \<Rightarrow> agent list" where
  "ranked cs = map snd (sort_key fst (sort_key (ag_id \<circ> snd) cs))"

definition decision ::
    "string \<Rightarrow> int \<Rightarrow> string \<Rightarrow> dispatch_outcome \<Rightarrow> string option \<Rightarrow> string list \<Rightarrow> string list \<Rightarrow> dispatch_decision" where
  "decision uid now tid outcome aid cands reasons =
     \<lparr>dd_id = ''dispatch:'' @ uid, dd_task_id = tid, dd_outcome = outcome, dd_agent_id = aid,
      dd_candidate_agent_ids = cands, dd_reasons = reasons, dd_evaluated_at_iso = isoformat now\<rparr>"

definition after_ttl :: "int \<Rightarrow> agent \<Rightarrow> string res" where
  "after_ttl now g =
     (let e = now + seconds (ag_lease_ttl_seconds g) in
      if valid_instant e then Inr (isoformat e) else raise OverflowError ''date value out of range'')"

text \<open>A task's instant, when it has one.\<close>

definition optional_instant :: "string option \<Rightarrow> int option res" where
  "optional_instant s =
     (case s of None \<Rightarrow> Inr None
      | Some t \<Rightarrow> if t = [] then Inr None else res_bind (parse_iso t) (\<lambda>x. Inr (Some x)))"

definition lease_key :: "string \<Rightarrow> string" where
  "lease_key lid = ''lease:'' @ lid"

definition assign ::
    "string \<Rightarrow> string \<Rightarrow> string \<Rightarrow> int \<Rightarrow> task \<Rightarrow> agent list \<Rightarrow> (dispatch_decision \<times> lease option) disp" where
  "assign uid lid nonce now t cands d =
     (let g = hd cands in
      case after_ttl now g of
        Inl e \<Rightarrow> (Inl e, d)
      | Inr expires \<Rightarrow>
          (let l = \<lparr>ls_id = lease_key lid, ls_task_id = tk_id t, ls_agent_id = ag_id g, ls_status = Ls_Active,
                  ls_acquired_at_iso = isoformat now, ls_expires_at_iso = expires,
                  ls_heartbeat_at_iso = isoformat now, ls_nonce = nonce, ls_metadata = []\<rparr> in
           (Inr (decision uid now (tk_id t) Assigned (Some (ag_id g)) (map ag_id cands)
                  [''selected least-loaded compatible online executor''], Some l),
            d\<lparr>di_leases := dset (ls_id l) l (di_leases d),
              di_tasks := dset (tk_id t)
                (t\<lparr>tk_status := Tk_Leased, tk_assigned_agent_id := Some (ag_id g),
                   tk_updated_at_iso := isoformat now\<rparr>) (di_tasks d)\<rparr>)))"

definition dispatch ::
    "string \<Rightarrow> string \<Rightarrow> string \<Rightarrow> int \<Rightarrow> string \<Rightarrow> (dispatch_decision \<times> lease option) disp" where
  "dispatch uid lid nonce now task_id d =
     (case dget (di_tasks d) task_id of
        None \<Rightarrow> (raise KeyError task_id, d)
      | Some t \<Rightarrow>
          if tk_status t \<noteq> Tk_Queued
          then (Inr (decision uid now task_id Rejected None []
                 [''task is '' @ task_status_value (tk_status t) @ '', not queued''], None), d)
          else
            (case optional_instant (tk_not_before_iso t) of
               Inl e \<Rightarrow> (Inl e, d)
             | Inr not_before \<Rightarrow>
                 if (case not_before of None \<Rightarrow> False | Some nb \<Rightarrow> now < nb)
                 then (Inr (decision uid now task_id Queued None [] [''task not-before time has not elapsed''], None), d)
                 else
                   (case optional_instant (tk_deadline_iso t) of
                      Inl e \<Rightarrow> (Inl e, d)
                    | Inr deadline \<Rightarrow>
                        if (case deadline of None \<Rightarrow> False | Some dl \<Rightarrow> dl \<le> now)
                        then (Inr (decision uid now task_id Rejected None [] [''task deadline has elapsed''], None),
                              d\<lparr>di_tasks := dset task_id
                                  (t\<lparr>tk_status := Tk_Expired, tk_updated_at_iso := isoformat now\<rparr>) (di_tasks d)\<rparr>)
                        else
                          (case candidates_of d t now (map snd (di_agents d)) of
                             Inl e \<Rightarrow> (Inl e, d)
                           | Inr cs \<Rightarrow>
                               if cs = []
                               then (Inr (decision uid now task_id Queued None []
                                 [''no online executor satisfies workspace, environment, capability, executor, and capacity requirements''],
                                 None), d)
                               else assign uid lid nonce now t (ranked cs) d))))"

section \<open>Leases\<close>

fun expire_list :: "int \<Rightarrow> (string \<times> lease) list \<Rightarrow> string list disp" where
  "expire_list now [] d = (Inr [], d)"
| "expire_list now ((i, l) # ls) d =
     (if ls_status l \<noteq> Ls_Active then expire_list now ls d
      else
        (case parse_iso (ls_expires_at_iso l) of
           Inl e \<Rightarrow> (Inl e, d)
         | Inr e \<Rightarrow>
             if now < e then expire_list now ls d
             else
               (let d1 = d\<lparr>di_leases := dset i (l\<lparr>ls_status := Ls_Expired\<rparr>) (di_leases d)\<rparr> in
                case dget (di_tasks d1) (ls_task_id l) of
                  None \<Rightarrow> (raise KeyError (ls_task_id l), d1)
                | Some t \<Rightarrow>
                    (let t' = t\<lparr>tk_status := (if tk_attempt t < tk_max_attempts t then Tk_Queued else Tk_Expired),
                              tk_attempt := min (tk_max_attempts t) (tk_attempt t + 1),
                              tk_assigned_agent_id := None, tk_updated_at_iso := isoformat now\<rparr>;
                         (r, d2) = expire_list now ls (d1\<lparr>di_tasks := dset (tk_id t) t' (di_tasks d1)\<rparr>) in
                     (res_bind r (\<lambda>ids. Inr (i # ids)), d2)))))"

definition expire :: "int \<Rightarrow> string list disp" where
  "expire now d = expire_list now (di_leases d) d"

definition active_lease :: "string \<Rightarrow> string \<Rightarrow> int \<Rightarrow> lease disp" where
  "active_lease i nonce now d =
     (case dget (di_leases d) i of
        None \<Rightarrow> (raise KeyError i, d)
      | Some l \<Rightarrow>
          if ls_nonce l \<noteq> nonce \<or> ls_status l \<noteq> Ls_Active
          then (raise ValueError ''lease is not active or nonce does not match'', d)
          else
            (case parse_iso (ls_expires_at_iso l) of
               Inl e \<Rightarrow> (Inl e, d)
             | Inr e \<Rightarrow>
                 if now < e then (Inr l, d)
                 else (case expire now d of
                         (Inl e, d') \<Rightarrow> (Inl e, d')
                       | (Inr _, d') \<Rightarrow> (raise ValueError ''lease has expired'', d'))))"

definition renew :: "string \<Rightarrow> string \<Rightarrow> int \<Rightarrow> lease disp" where
  "renew i nonce now d =
     (case active_lease i nonce now d of
        (Inl e, d') \<Rightarrow> (Inl e, d')
      | (Inr l, d') \<Rightarrow>
          (case dget (di_agents d') (ls_agent_id l) of
             None \<Rightarrow> (raise KeyError (ls_agent_id l), d')
           | Some g \<Rightarrow>
               (case after_ttl now g of
                  Inl e \<Rightarrow> (Inl e, d')
                | Inr expires \<Rightarrow>
                    (let l' = l\<lparr>ls_heartbeat_at_iso := isoformat now, ls_expires_at_iso := expires\<rparr> in
                     (Inr l', d'\<lparr>di_leases := dset i l' (di_leases d')\<rparr>)))))"

definition complete :: "string \<Rightarrow> string \<Rightarrow> bool \<Rightarrow> int \<Rightarrow> task disp" where
  "complete i nonce success now d =
     (case active_lease i nonce now d of
        (Inl e, d') \<Rightarrow> (Inl e, d')
      | (Inr l, d') \<Rightarrow>
          (let d1 = d'\<lparr>di_leases := dset i (l\<lparr>ls_status := Ls_Released, ls_heartbeat_at_iso := isoformat now\<rparr>)
                 (di_leases d')\<rparr> in
           case dget (di_tasks d1) (ls_task_id l) of
             None \<Rightarrow> (raise KeyError (ls_task_id l), d1)
           | Some t \<Rightarrow>
               (let t' = t\<lparr>tk_status := (if success then Tk_Completed else Tk_Failed),
                         tk_updated_at_iso := isoformat now\<rparr> in
                (Inr t', d1\<lparr>di_tasks := dset (tk_id t') t' (di_tasks d1)\<rparr>))))"

end
