(* ===== verification/Dispatcher_Props.thy ===== *)
theory Dispatcher_Props
  imports Dispatcher
begin

text \<open>
  The dispatcher's invariant and its preservation by every operation, erroneous outcomes included;
  the machine of all operations as an instance of \<open>invariant_machine\<close>; and what dispatching,
  completing and expiring achieve.
\<close>

section \<open>The invariant\<close>

abbreviation active :: "lease \<Rightarrow> bool" where
  "active l \<equiv> ls_status l = Ls_Active"

definition lease_ok :: "dispatcher \<Rightarrow> string \<Rightarrow> lease \<Rightarrow> bool" where
  "lease_ok d i l \<longleftrightarrow>
     ls_id l = i \<and> (\<exists>e. parse_iso (ls_expires_at_iso l) = Inr e) \<and>
     (\<exists>t. dget (di_tasks d) (ls_task_id l) = Some t \<and>
        (active l \<longrightarrow> tk_status t = Tk_Leased \<and> tk_assigned_agent_id t = Some (ls_agent_id l)))"

definition task_ok :: "string \<Rightarrow> task \<Rightarrow> bool" where
  "task_ok i t \<longleftrightarrow> tk_id t = i \<and> tk_attempt t \<le> tk_max_attempts t"

definition exclusive :: "(string, lease) dict \<Rightarrow> bool" where
  "exclusive ls \<longleftrightarrow>
     (\<forall>i j l m. dget ls i = Some l \<and> dget ls j = Some m \<and> active l \<and> active m \<and>
        ls_task_id l = ls_task_id m \<longrightarrow> i = j)"

definition disp_inv :: "dispatcher \<Rightarrow> bool" where
  "disp_inv d \<longleftrightarrow>
     wf_dict (di_agents d) \<and> wf_dict (di_leases d) \<and>
     (\<forall>i g. dget (di_agents d) i = Some g \<longrightarrow> ag_id g = i) \<and>
     (\<forall>i t. dget (di_tasks d) i = Some t \<longrightarrow> task_ok i t) \<and>
     (\<forall>i l. dget (di_leases d) i = Some l \<longrightarrow> lease_ok d i l) \<and>
     exclusive (di_leases d)"

lemma disp_inv_new: "disp_inv new_dispatcher"
  by (simp add: disp_inv_def new_dispatcher_def exclusive_def)

lemma disp_inv_lease: "disp_inv d \<Longrightarrow> dget (di_leases d) i = Some l \<Longrightarrow> lease_ok d i l"
  by (simp add: disp_inv_def)

lemma disp_inv_set_agent:
  "disp_inv d \<Longrightarrow> ag_id g = i \<Longrightarrow> disp_inv (d\<lparr>di_agents := dset i g (di_agents d)\<rparr>)"
  by (simp add: disp_inv_def lease_ok_def dict_simps)

lemma disp_inv_set_task:
  assumes "disp_inv d" "task_ok i t"
    and "\<And>j l. dget (di_leases d) j = Some l \<Longrightarrow> ls_task_id l = i \<Longrightarrow> active l \<Longrightarrow>
      tk_status t = Tk_Leased \<and> tk_assigned_agent_id t = Some (ls_agent_id l)"
  shows "disp_inv (d\<lparr>di_tasks := dset i t (di_tasks d)\<rparr>)"
  using assms by (auto simp: disp_inv_def lease_ok_def dict_simps)

lemma disp_inv_set_lease:
  assumes "disp_inv d" "lease_ok d i l"
    and "\<And>j m. dget (di_leases d) j = Some m \<Longrightarrow> j \<noteq> i \<Longrightarrow> active m \<Longrightarrow> active l \<Longrightarrow>
      ls_task_id m \<noteq> ls_task_id l"
  shows "disp_inv (d\<lparr>di_leases := dset i l (di_leases d)\<rparr>)"
proof -
  let ?ls = "dset i l (di_leases d)"
  have ok: "lease_ok (d\<lparr>di_leases := ?ls\<rparr>) j m" if "dget ?ls j = Some m" for j m
    using that assms(1,2) by (cases "j = i") (auto simp: lease_ok_def disp_inv_def)
  have "exclusive ?ls"
    unfolding exclusive_def
  proof (intro allI impI)
    fix j k m n
    assume "dget ?ls j = Some m \<and> dget ?ls k = Some n \<and> active m \<and> active n \<and> ls_task_id m = ls_task_id n"
    then have m: "dget ?ls j = Some m" "active m" and n: "dget ?ls k = Some n" "active n"
      and same: "ls_task_id m = ls_task_id n" by auto
    have excl: "exclusive (di_leases d)" using assms(1) by (simp add: disp_inv_def)
    show "j = k"
    proof (cases "j = i")
      case True
      then show ?thesis using m n same assms(3) [of k n] by (cases "k = i") auto
    next
      case j: False
      show ?thesis
      proof (cases "k = i")
        case True
        then show ?thesis using j m n same assms(3) [of j m] by auto
      next
        case False
        then have "dget (di_leases d) j = Some m" "dget (di_leases d) k = Some n" using j m n by auto
        then show ?thesis using excl m n same unfolding exclusive_def by blast
      qed
    qed
  qed
  with ok assms(1) show ?thesis by (simp add: disp_inv_def)
qed

lemma exclusive_other:
  "disp_inv d \<Longrightarrow> dget (di_leases d) i = Some l \<Longrightarrow> active l \<Longrightarrow>
     dget (di_leases d) j = Some m \<Longrightarrow> j \<noteq> i \<Longrightarrow> active m \<Longrightarrow> ls_task_id m \<noteq> ls_task_id l"
  unfolding disp_inv_def exclusive_def by blast

section \<open>Preservation\<close>

lemma register_agent_inv: "disp_inv d \<Longrightarrow> disp_inv (snd (register_agent g d))"
  by (auto simp: register_agent_def intro: disp_inv_set_agent split: if_splits)

lemma heartbeat_inv:
  assumes "disp_inv d"
  shows "disp_inv (snd (receive_heartbeat h d))"
proof (cases "dget (di_agents d) (hb_agent_id h)")
  case (Some g)
  then show ?thesis
    using disp_inv_set_agent [OF assms, of "beat h g" "ag_id g"] by (simp add: receive_heartbeat_def beat_def)
qed (simp add: receive_heartbeat_def assms)

lemma enqueue_inv:
  assumes "disp_inv d" "validate_attempts t = Inr ()"
  shows "disp_inv (snd (enqueue t d))"
proof (cases "dget (di_tasks d) (tk_id t)")
  case None
  have "task_ok (tk_id t) t" using assms(2) by (auto simp: validate_attempts_def task_ok_def split: if_splits)
  moreover have "False" if "dget (di_leases d) j = Some l" "ls_task_id l = tk_id t" for j l
    using disp_inv_lease [OF assms(1) that(1)] that(2) None by (simp add: lease_ok_def)
  ultimately have "disp_inv (d\<lparr>di_tasks := dset (tk_id t) t (di_tasks d)\<rparr>)"
    by (intro disp_inv_set_task [OF assms(1)]) blast+
  then show ?thesis using None by (simp add: enqueue_def)
qed (simp add: enqueue_def assms)

text \<open>A queued task has no active lease.\<close>

lemma not_leased_no_lease:
  "disp_inv d \<Longrightarrow> dget (di_tasks d) i = Some t \<Longrightarrow> tk_status t \<noteq> Tk_Leased \<Longrightarrow>
     dget (di_leases d) j = Some l \<Longrightarrow> ls_task_id l = i \<Longrightarrow> \<not> active l"
  by (auto dest!: disp_inv_lease simp: lease_ok_def)

lemma after_ttl_parse: "after_ttl now g = Inr s \<Longrightarrow> parse_iso s = Inr (now + seconds (ag_lease_ttl_seconds g))"
  by (auto simp: after_ttl_def Let_def iso.parse_fmt split: if_splits)

lemma assign_inv:
  assumes "disp_inv d" "dget (di_tasks d) (tk_id t) = Some t" "tk_status t = Tk_Queued"
    and "dget (di_leases d) (lease_key lid) = None"
  shows "disp_inv (snd (assign uid lid nonce now t cands d))"
proof (cases "after_ttl now (hd cands)")
  case (Inl e)
  then show ?thesis by (simp add: assign_def assms)
next
  case (Inr expires)
  let ?g = "hd cands"
  let ?l = "\<lparr>ls_id = lease_key lid, ls_task_id = tk_id t, ls_agent_id = ag_id ?g, ls_status = Ls_Active,
    ls_acquired_at_iso = isoformat now, ls_expires_at_iso = expires, ls_heartbeat_at_iso = isoformat now,
    ls_nonce = nonce, ls_metadata = []\<rparr>"
  let ?t = "t\<lparr>tk_status := Tk_Leased, tk_assigned_agent_id := Some (ag_id ?g), tk_updated_at_iso := isoformat now\<rparr>"
  note none = not_leased_no_lease [OF assms(1,2)]
  have "task_ok (tk_id t) t" using assms(1,2) by (simp add: disp_inv_def)
  then have inv1: "disp_inv (d\<lparr>di_tasks := dset (tk_id t) ?t (di_tasks d)\<rparr>)"
    using none assms(3) by (intro disp_inv_set_task [OF assms(1)]) (auto simp: task_ok_def)
  have "disp_inv (d\<lparr>di_tasks := dset (tk_id t) ?t (di_tasks d),
      di_leases := dset (lease_key lid) ?l (di_leases d)\<rparr>)"
    using disp_inv_set_lease [OF inv1, of "lease_key lid" ?l] none assms(3) after_ttl_parse [OF Inr]
    by (auto simp: lease_ok_def)
  also have "d\<lparr>di_tasks := dset (tk_id t) ?t (di_tasks d), di_leases := dset (lease_key lid) ?l (di_leases d)\<rparr> =
      snd (assign uid lid nonce now t cands d)"
    by (simp add: assign_def Inr Let_def)
  finally show ?thesis .
qed

lemma dispatch_inv:
  assumes "disp_inv d" "dget (di_leases d) (lease_key lid) = None"
  shows "disp_inv (snd (dispatch uid lid nonce now i d))"
proof (cases "dget (di_tasks d) i")
  case None
  then show ?thesis by (simp add: dispatch_def assms)
next
  case (Some t)
  then have t: "task_ok i t" using assms(1) by (simp add: disp_inv_def)
  then have id: "tk_id t = i" by (simp add: task_ok_def)
  show ?thesis
  proof (cases "tk_status t = Tk_Queued")
    case True
    have "disp_inv (d\<lparr>di_tasks := dset i (t\<lparr>tk_status := Tk_Expired, tk_updated_at_iso := isoformat now\<rparr>) (di_tasks d)\<rparr>)"
      using t not_leased_no_lease [OF assms(1) Some] True
      by (intro disp_inv_set_task [OF assms(1)]) (auto simp: task_ok_def)
    then show ?thesis
      using assign_inv [OF assms(1) _ True assms(2), unfolded id, OF Some] assms(1) True
      by (simp add: dispatch_def Some split: sum.split)
  qed (simp add: dispatch_def Some assms)
qed

lemma expire_list_inv:
  "disp_inv d \<Longrightarrow> distinct (map fst ls) \<Longrightarrow> (\<And>i l. (i, l) \<in> set ls \<Longrightarrow> dget (di_leases d) i = Some l) \<Longrightarrow>
     disp_inv (snd (expire_list now ls d)) \<and> di_agents (snd (expire_list now ls d)) = di_agents d"
proof (induction ls arbitrary: d)
  case Nil
  then show ?case by simp
next
  case (Cons p ls)
  obtain i l where p: "p = (i, l)" by (cases p)
  then have l: "dget (di_leases d) i = Some l" using Cons.prems(3) by simp
  note ok = disp_inv_lease [OF Cons.prems(1) l]
  have rest: "(j, m) \<in> set ls \<Longrightarrow> dget (di_leases d) j = Some m \<and> j \<noteq> i" for j m
    using Cons.prems(2,3) p by force
  show ?case
  proof (cases "active l")
    case False
    then show ?thesis using Cons.IH [OF Cons.prems(1)] Cons.prems(2) rest p by auto
  next
    case True
    from ok obtain e t where e: "parse_iso (ls_expires_at_iso l) = Inr e"
      and t: "dget (di_tasks d) (ls_task_id l) = Some t" by (auto simp: lease_ok_def)
    then have tok: "task_ok (ls_task_id l) t" using Cons.prems(1) by (simp add: disp_inv_def)
    show ?thesis
    proof (cases "now < e")
      case True
      then show ?thesis using Cons.IH [OF Cons.prems(1)] Cons.prems(2) rest p e \<open>active l\<close> by auto
    next
      case False
      let ?d1 = "d\<lparr>di_leases := dset i (l\<lparr>ls_status := Ls_Expired\<rparr>) (di_leases d)\<rparr>"
      let ?t = "t\<lparr>tk_status := (if tk_attempt t < tk_max_attempts t then Tk_Queued else Tk_Expired),
        tk_attempt := min (tk_max_attempts t) (tk_attempt t + 1), tk_assigned_agent_id := None,
        tk_updated_at_iso := isoformat now\<rparr>"
      let ?d2 = "?d1\<lparr>di_tasks := dset (ls_task_id l) ?t (di_tasks d)\<rparr>"
      have "disp_inv ?d1"
        using ok by (intro disp_inv_set_lease [OF Cons.prems(1)]) (auto simp: lease_ok_def)
      moreover have "\<not> active m" if "dget (di_leases ?d1) j = Some m" "ls_task_id m = ls_task_id l" for j m
        using that exclusive_other [OF Cons.prems(1) l \<open>active l\<close>] by (cases "j = i") auto
      ultimately have "disp_inv (?d1\<lparr>di_tasks := dset (ls_task_id l) ?t (di_tasks ?d1)\<rparr>)"
        using tok by (intro disp_inv_set_task) (auto simp: task_ok_def)
      then have "disp_inv ?d2" by simp
      from Cons.IH [OF this] have "disp_inv (snd (expire_list now ls ?d2)) \<and>
          di_agents (snd (expire_list now ls ?d2)) = di_agents d"
        using Cons.prems(2) rest p by (force simp: dict_simps)
      moreover have "tk_id t = ls_task_id l" using tok by (simp add: task_ok_def)
      ultimately show ?thesis
        using False e t \<open>active l\<close> by (simp add: p Let_def case_prod_beta)
    qed
  qed
qed

lemma expire_inv: "disp_inv d \<Longrightarrow> disp_inv (snd (expire now d)) \<and> di_agents (snd (expire now d)) = di_agents d"
  unfolding expire_def
  by (rule expire_list_inv) (auto simp: disp_inv_def wf_dict_def map_of_is_SomeI)

lemma active_lease_inv:
  assumes "disp_inv d" "active_lease i nonce now d = (r, d')"
  shows "disp_inv d'"
    and "r = Inr l \<Longrightarrow> d' = d \<and> dget (di_leases d) i = Some l \<and> active l \<and> ls_nonce l = nonce \<and>
      (\<exists>e. parse_iso (ls_expires_at_iso l) = Inr e \<and> now < e)"
  using assms expire_inv [OF assms(1), of now]
  by (auto simp: active_lease_def split: option.splits if_splits sum.splits prod.splits)

lemma renew_inv:
  assumes "disp_inv d"
  shows "disp_inv (snd (renew i nonce now d))"
proof -
  obtain r d' where a: "active_lease i nonce now d = (r, d')" by fastforce
  note inv = active_lease_inv [OF assms a]
  show ?thesis
  proof (cases r)
    case (Inl e)
    then show ?thesis using inv(1) by (simp add: renew_def a)
  next
    case (Inr l)
    with inv(2) have l: "d' = d" "dget (di_leases d) i = Some l" by auto
    have "disp_inv (d\<lparr>di_leases := dset i (l\<lparr>ls_heartbeat_at_iso := isoformat now, ls_expires_at_iso := s\<rparr>) (di_leases d)\<rparr>)"
      if "after_ttl now g = Inr s" for g s
      using disp_inv_lease [OF assms l(2)] after_ttl_parse [OF that] exclusive_other [OF assms l(2)]
      by (intro disp_inv_set_lease [OF assms]) (auto simp: lease_ok_def)
    then show ?thesis
      using inv(1) l(1) by (simp add: renew_def a Inr Let_def split: option.split sum.split)
  qed
qed

lemma complete_inv:
  assumes "disp_inv d"
  shows "disp_inv (snd (complete i nonce success now d))"
proof -
  obtain r d' where a: "active_lease i nonce now d = (r, d')" by fastforce
  note inv = active_lease_inv [OF assms a]
  show ?thesis
  proof (cases r)
    case (Inl e)
    then show ?thesis using inv(1) by (simp add: complete_def a)
  next
    case (Inr l)
    with inv(2) have l: "d' = d" "dget (di_leases d) i = Some l" "active l" by auto
    note ok = disp_inv_lease [OF assms l(2)]
    then obtain t where t: "dget (di_tasks d) (ls_task_id l) = Some t" by (auto simp: lease_ok_def)
    then have tok: "task_ok (ls_task_id l) t" using assms by (simp add: disp_inv_def)
    let ?d1 = "d\<lparr>di_leases := dset i (l\<lparr>ls_status := Ls_Released, ls_heartbeat_at_iso := isoformat now\<rparr>) (di_leases d)\<rparr>"
    let ?t = "t\<lparr>tk_status := (if success then Tk_Completed else Tk_Failed), tk_updated_at_iso := isoformat now\<rparr>"
    have "disp_inv ?d1" using ok by (intro disp_inv_set_lease [OF assms]) (auto simp: lease_ok_def)
    moreover have "\<not> active m" if "dget (di_leases ?d1) j = Some m" "ls_task_id m = ls_task_id l" for j m
      using that exclusive_other [OF assms l(2,3)] by (cases "j = i") auto
    ultimately have "disp_inv (?d1\<lparr>di_tasks := dset (ls_task_id l) ?t (di_tasks ?d1)\<rparr>)"
      using tok by (intro disp_inv_set_task) (auto simp: task_ok_def)
    moreover have "tk_id t = ls_task_id l" using tok by (simp add: task_ok_def)
    ultimately show ?thesis using l(1) t by (simp add: complete_def a Inr Let_def)
  qed
qed

section \<open>The machine\<close>

text \<open>One call of any operation, whatever its outcome. Lease identifiers are fresh, as \<open>uuid4\<close> makes
  them; agents and tasks are validated ones.\<close>

inductive disp_step :: "dispatcher \<Rightarrow> dispatcher \<Rightarrow> bool" where
  Step_Register: "valid_agent g \<Longrightarrow> disp_step d (snd (register_agent g d))"
| Step_Heartbeat: "disp_step d (snd (receive_heartbeat h d))"
| Step_Enqueue: "validate_attempts t = Inr () \<Longrightarrow> disp_step d (snd (enqueue t d))"
| Step_Dispatch: "dget (di_leases d) (lease_key lid) = None \<Longrightarrow>
    disp_step d (snd (dispatch uid lid nonce now i d))"
| Step_Renew: "disp_step d (snd (renew i nonce now d))"
| Step_Complete: "disp_step d (snd (complete i nonce success now d))"
| Step_Expire: "disp_step d (snd (expire now d))"

inductive_cases disp_stepE: "disp_step d d'"

interpretation dispatcher_machine: invariant_machine "\<lambda>d. d = new_dispatcher" disp_step disp_inv
proof
  show "d = new_dispatcher \<Longrightarrow> disp_inv d" for d by (simp add: disp_inv_new)
  show "disp_inv d \<Longrightarrow> disp_step d d' \<Longrightarrow> disp_inv d'" for d d'
    by (erule disp_stepE)
      (auto intro: register_agent_inv heartbeat_inv enqueue_inv dispatch_inv renew_inv complete_inv
        conjunct1 [OF expire_inv])
qed

section \<open>What dispatch achieves\<close>

text \<open>The leases of an agent that are active and unexpired at an instant.\<close>

definition live :: "string \<Rightarrow> int \<Rightarrow> lease \<Rightarrow> bool" where
  "live i now l \<longleftrightarrow> ls_agent_id l = i \<and> active l \<and> (\<exists>e. parse_iso (ls_expires_at_iso l) = Inr e \<and> now < e)"

lemma lease_counts_live:
  "\<exists>e. parse_iso (ls_expires_at_iso l) = Inr e \<Longrightarrow> lease_counts i now l = Inr (live i now l)"
  by (auto simp: lease_counts_def live_def)

lemma leases_parse:
  "disp_inv d \<Longrightarrow> l \<in> set (map snd (di_leases d)) \<Longrightarrow> \<exists>e. parse_iso (ls_expires_at_iso l) = Inr e"
proof -
  assume d: "disp_inv d" and "l \<in> set (map snd (di_leases d))"
  then obtain i where "(i, l) \<in> set (di_leases d)" by auto
  then have "dget (di_leases d) i = Some l" using d by (simp add: disp_inv_def wf_dict_dget [symmetric])
  from disp_inv_lease [OF d this] show ?thesis by (simp add: lease_ok_def)
qed

lemma active_count_live:
  assumes "disp_inv d"
  shows "active_count d i now = Inr (length (filter (live i now) (map snd (di_leases d))))"
proof -
  have "res_map (lease_counts i now) (map snd (di_leases d)) = Inr (map (live i now) (map snd (di_leases d)))"
    using leases_parse [OF assms] lease_counts_live by (intro res_map_all_Inr) blast
  then show ?thesis by (simp add: active_count_def filter_map comp_def)
qed

lemma candidates_members:
  "candidates_of d t now gs = Inr cs \<Longrightarrow> (n, g) \<in> set cs \<Longrightarrow>
     g \<in> set gs \<and> compatible t g \<and> active_count d (ag_id g) now = Inr n \<and>
     (\<exists>c. available_capacity d g now = Inr c \<and> 0 < c)"
  by (induction gs arbitrary: cs) (auto simp: res_bind_eq_Inr_iff split: if_splits)

lemma ranked_members: "set (ranked cs) = snd ` set cs"
  by (simp add: ranked_def)

lemma ranked_least:
  "cs \<noteq> [] \<Longrightarrow> \<exists>n. (n, hd (ranked cs)) \<in> set cs \<and> (\<forall>(m, g) \<in> set cs. n \<le> m)"
proof -
  let ?s = "sort_key fst (sort_key (ag_id \<circ> snd) cs)"
  assume "cs \<noteq> []"
  then have "?s \<noteq> []" by (metis set_empty set_sort)
  then obtain p ps where ps: "?s = p # ps" by (cases ?s) auto
  have "sorted (map fst ?s)" by simp
  then have "\<forall>q \<in> set ps. fst p \<le> fst q" unfolding ps by auto
  moreover have set_s: "set ?s = set cs" by simp
  ultimately have least: "\<forall>q \<in> set cs. fst p \<le> fst q" unfolding set_s [symmetric] ps by auto
  have "p \<in> set cs" unfolding set_s [symmetric] ps by simp
  then show ?thesis
    using least by (intro exI [of _ "fst p"]) (auto simp: ranked_def ps)
qed

text \<open>An assignment: the lease is for a compatible registered agent of least load with a free slot.\<close>

lemma dispatch_assigned:
  assumes "dispatch uid lid nonce now i d = (Inr (dec, Some l), d')"
  shows "\<exists>t g cs. dget (di_tasks d) i = Some t \<and> tk_status t = Tk_Queued \<and>
    candidates_of d t now (map snd (di_agents d)) = Inr cs \<and> cs \<noteq> [] \<and> g = hd (ranked cs) \<and>
    assign uid lid nonce now t (ranked cs) d = (Inr (dec, Some l), d')"
  using assms
  by (auto simp: dispatch_def split: option.splits sum.splits if_splits)

lemma assign_result:
  assumes "assign uid lid nonce now t cands d = (Inr (dec, Some l), d')"
  shows "dd_outcome dec = Assigned \<and> dd_agent_id dec = Some (ag_id (hd cands)) \<and>
    ls_agent_id l = ag_id (hd cands) \<and> ls_task_id l = tk_id t \<and> active l \<and>
    parse_iso (ls_expires_at_iso l) = Inr (now + seconds (ag_lease_ttl_seconds (hd cands))) \<and>
    di_leases d' = dset (lease_key lid) l (di_leases d) \<and> di_agents d' = di_agents d"
  using assms by (auto simp: assign_def Let_def decision_def dest!: after_ttl_parse split: sum.splits)

lemma dispatch_capacity:
  assumes "disp_inv d" "dget (di_leases d) (lease_key lid) = None"
    and "dispatch uid lid nonce now i d = (Inr (dec, Some l), d')"
    and "dget (di_agents d') (ls_agent_id l) = Some g" "valid_agent g"
  shows "compatible (the (dget (di_tasks d) i)) g \<and> live (ag_id g) now l \<and>
    int (length (filter (live (ag_id g) now) (map snd (di_leases d')))) \<le> ag_max_concurrency g"
proof -
  from dispatch_assigned [OF assms(3)] obtain t cs where t: "dget (di_tasks d) i = Some t"
      and cs: "candidates_of d t now (map snd (di_agents d)) = Inr cs" "cs \<noteq> []"
      and a: "assign uid lid nonce now t (ranked cs) d = (Inr (dec, Some l), d')" by blast
  note res = assign_result [OF a]
  from ranked_least [OF cs(2)] obtain n where "(n, hd (ranked cs)) \<in> set cs" by blast
  from candidates_members [OF cs(1) this] obtain c where
      h: "hd (ranked cs) \<in> set (map snd (di_agents d))" "compatible t (hd (ranked cs))"
      "active_count d (ag_id (hd (ranked cs))) now = Inr n"
      "available_capacity d (hd (ranked cs)) now = Inr c" "0 < c" by blast
  then obtain j where j: "(j, hd (ranked cs)) \<in> set (di_agents d)" by auto
  then have "dget (di_agents d) j = Some (hd (ranked cs))" "j = ag_id (hd (ranked cs))"
    using assms(1) by (auto simp: disp_inv_def wf_dict_dget [symmetric])
  then have g: "g = hd (ranked cs)" using assms(4) res by auto
  have less: "int n < ag_max_concurrency g"
    using h(3-5) unfolding g by (auto simp: available_capacity_def res_bind_eq_Inr_iff)
  have n: "n = length (filter (live (ag_id g) now) (map snd (di_leases d)))"
    using h(3) active_count_live [OF assms(1)] unfolding g by simp
  have new: "di_leases d' = di_leases d @ [(lease_key lid, l)]"
    using res assms(2) by (simp add: dset_new)
  have "0 < seconds (ag_lease_ttl_seconds g)" using assms(5) by (simp add: valid_agent_def seconds_def)
  then have "live (ag_id g) now l" using res unfolding g live_def by auto
  then show ?thesis using less h(2) unfolding new n g t by simp
qed

section \<open>Completion\<close>

text \<open>A completion needs an active, unexpired lease and its nonce; it ends the lease, so a second
  completion under the same lease raises and changes nothing.\<close>

lemma complete_once:
  assumes "disp_inv d" "complete i nonce success now d = (Inr t, d')"
  shows "(\<exists>l. dget (di_leases d) i = Some l \<and> live (ls_agent_id l) now l \<and> ls_nonce l = nonce \<and>
      ls_task_id l = tk_id t) \<and>
    tk_status t = (if success then Tk_Completed else Tk_Failed) \<and> dget (di_tasks d') (tk_id t) = Some t \<and>
    (\<exists>e. complete i nonce' success' now' d' = (Inl e, d'))"
proof -
  obtain r d1 where a: "active_lease i nonce now d = (r, d1)" by fastforce
  obtain l where r: "r = Inr l" using assms(2) by (cases r) (auto simp: complete_def a)
  from active_lease_inv(2) [OF assms(1) a r] have l: "d1 = d" "dget (di_leases d) i = Some l" "active l"
      "ls_nonce l = nonce" "\<exists>e. parse_iso (ls_expires_at_iso l) = Inr e \<and> now < e" by auto
  from disp_inv_lease [OF assms(1) l(2)] obtain u where u: "dget (di_tasks d) (ls_task_id l) = Some u"
    by (auto simp: lease_ok_def)
  then have id: "tk_id u = ls_task_id l" using assms(1) by (auto simp: disp_inv_def task_ok_def)
  from assms(2) have t: "t = u\<lparr>tk_status := (if success then Tk_Completed else Tk_Failed),
        tk_updated_at_iso := isoformat now\<rparr>"
    and d': "di_leases d' = dset i (l\<lparr>ls_status := Ls_Released, ls_heartbeat_at_iso := isoformat now\<rparr>) (di_leases d)"
      "di_tasks d' = dset (tk_id u) t (di_tasks d)"
    by (auto simp: complete_def a r l(1) u Let_def)
  have "complete i nonce' success' now' d' =
      (Inl (ValueError, ''lease is not active or nonce does not match''), d')"
    by (simp add: complete_def active_lease_def d' raise_def)
  then show ?thesis using l t d' id by (auto simp: live_def)
qed

end
