(* ===== verification/Tenancy.thy ===== *)
theory Tenancy
  imports PyValue PyTime
begin

text \<open>
  \<open>models/tenancy.py\<close> and \<open>tenancy/authorization.py\<close>: organizations, workspaces, role grants, scope
  bindings and the authorization engine. The ancestor scopes of a request are the reflexive and
  transitive closure of the bindings, which the code computes by a fixpoint iteration; the decision
  is related to what the active grants covering those scopes give.
\<close>

section \<open>Records\<close>

datatype role_name = Viewer | Operator | Approver | Auditor | Admin

fun role_value :: "role_name \<Rightarrow> string" where
  "role_value Viewer = ''viewer''"
| "role_value Operator = ''operator''"
| "role_value Approver = ''approver''"
| "role_value Auditor = ''auditor''"
| "role_value Admin = ''admin''"

datatype scope_type = Scope_Organization | Scope_Workspace | Scope_Fleet | Scope_Environment
  | Scope_Operation | Scope_Global

type_synonym scope = "scope_type \<times> string"

record organization =
  org_id :: string
  org_name :: string
  org_slug :: string
  org_active :: bool
  org_labels :: "(string, string) dict"
  org_metadata :: fields

record workspace =
  wsp_id :: string
  wsp_organization_id :: string
  wsp_name :: string
  wsp_slug :: string
  wsp_active :: bool
  wsp_labels :: "(string, string) dict"
  wsp_metadata :: fields

record role_grant =
  gr_id :: string
  gr_principal_id :: string
  gr_role :: role_name
  gr_scope_type :: scope_type
  gr_scope_id :: string
  gr_capabilities :: "string set"
  gr_environment_classes :: "string set"
  gr_granted_by :: "string option"
  gr_granted_at_iso :: string
  gr_expires_at_iso :: "string option"
  gr_active :: bool
  gr_metadata :: fields

record authz_request =
  rq_id :: string
  rq_principal_id :: string
  rq_action :: string
  rq_scope_type :: scope_type
  rq_scope_id :: string
  rq_required_roles :: "role_name set"
  rq_required_capabilities :: "string set"
  rq_environment_class :: "string option"
  rq_resource_id :: "string option"
  rq_context :: fields

datatype authz_outcome = Authz_Allow | Authz_Deny | Authz_Challenge

record authz_decision =
  az_id :: string
  az_request_id :: string
  az_principal_id :: string
  az_outcome :: authz_outcome
  az_matched_grant_ids :: "string list"
  az_effective_roles :: "role_name set"
  az_effective_capabilities :: "string set"
  az_reasons :: "string list"
  az_evaluated_at_iso :: string
  az_metadata :: fields

record scope_binding =
  sb_child_type :: scope_type
  sb_child_id :: string
  sb_parent_type :: scope_type
  sb_parent_id :: string

abbreviation sb_child :: "scope_binding \<Rightarrow> scope" where
  "sb_child b \<equiv> (sb_child_type b, sb_child_id b)"

abbreviation sb_parent :: "scope_binding \<Rightarrow> scope" where
  "sb_parent b \<equiv> (sb_parent_type b, sb_parent_id b)"

definition reject_self_binding :: "scope_binding \<Rightarrow> unit res" where
  "reject_self_binding b =
     (if sb_child b = sb_parent b then raise ValueError ''scope binding cannot reference itself'' else Inr ())"

section \<open>Capabilities of a role\<close>

fun role_capabilities :: "role_name \<Rightarrow> string set" where
  "role_capabilities Viewer =
     {''environment.read'', ''incident.read'', ''operation.read'', ''fleet.read'', ''pack.read''}"
| "role_capabilities Operator =
     {''environment.read'', ''incident.read'', ''operation.read'', ''operation.create'', ''operation.execute'',
      ''fleet.read'', ''fleet.operate'', ''pack.read'', ''executor.read''}"
| "role_capabilities Approver = {''operation.read'', ''operation.approve'', ''audit.read'', ''fleet.read''}"
| "role_capabilities Auditor =
     {''environment.read'', ''incident.read'', ''operation.read'', ''audit.read'', ''audit.export'', ''fleet.read'',
      ''pack.read''}"
| "role_capabilities Admin = {''*''}"

section \<open>Active grants\<close>

text \<open>Here a naive expiry is not read as UTC: comparing it with an aware instant raises.\<close>

definition grant_active :: "int \<Rightarrow> role_grant \<Rightarrow> bool res" where
  "grant_active now g =
     (if \<not> gr_active g then Inr False
      else
        (case gr_expires_at_iso g of
           None \<Rightarrow> Inr True
         | Some s \<Rightarrow>
             if s = [] then Inr True
             else
               (case fromisoformat (replace_Z s) of
                  None \<Rightarrow> raise ValueError ''Invalid isoformat string''
                | Some (us, None) \<Rightarrow> raise TypeError ''cannot compare offset-naive and offset-aware datetimes''
                | Some (us, Some off) \<Rightarrow> Inr (now < us - off))))"

section \<open>Ancestor scopes\<close>

definition extend_scope :: "scope set \<Rightarrow> scope_binding \<Rightarrow> scope set" where
  "extend_scope seen b = (if sb_child b \<in> seen then insert (sb_parent b) seen else seen)"

definition scope_pass :: "scope_binding list \<Rightarrow> scope set \<Rightarrow> scope set" where
  "scope_pass bs seen = foldl extend_scope seen bs"

lemma extend_scope_bounds:
  "seen \<subseteq> extend_scope seen b" "extend_scope seen b \<subseteq> insert (sb_parent b) seen"
  "sb_child b \<in> seen \<Longrightarrow> sb_parent b \<in> extend_scope seen b"
  by (auto simp: extend_scope_def)

lemma scope_pass_grows: "seen \<subseteq> scope_pass bs seen"
  unfolding scope_pass_def
proof (induction bs arbitrary: seen)
  case (Cons b bs)
  then show ?case using extend_scope_bounds(1) [of seen b] by (fastforce)
qed simp

lemma scope_pass_parents: "scope_pass bs seen \<subseteq> seen \<union> sb_parent ` set bs"
proof -
  have "foldl extend_scope seen bs \<subseteq> seen \<union> sb_parent ` set bs" for seen
  proof (induction bs arbitrary: seen)
    case (Cons b bs)
    have "foldl extend_scope (extend_scope seen b) bs \<subseteq> extend_scope seen b \<union> sb_parent ` set bs"
      by (rule Cons)
    then show ?case using extend_scope_bounds(2) [of seen b] by fastforce
  qed simp
  then show ?thesis by (simp add: scope_pass_def)
qed

function ancestor_loop :: "scope_binding list \<Rightarrow> scope set \<Rightarrow> scope set" where
  "ancestor_loop bs seen =
     (if scope_pass bs seen = seen then seen else ancestor_loop bs (scope_pass bs seen))"
  by pat_completeness auto
termination
proof (relation "measure (\<lambda>(bs, seen). card (sb_parent ` set bs - seen))", simp)
  fix bs and seen :: "scope set"
  assume "scope_pass bs seen \<noteq> seen"
  then have "sb_parent ` set bs - scope_pass bs seen \<subset> sb_parent ` set bs - seen"
    using scope_pass_grows [of seen bs] scope_pass_parents [of bs seen] by auto
  then show "((bs, scope_pass bs seen), bs, seen) \<in> measure (\<lambda>(bs, seen). card (sb_parent ` set bs - seen))"
    by (simp add: psubset_card_mono)
qed

declare ancestor_loop.simps [simp del]

definition ancestor_scopes :: "scope_binding list \<Rightarrow> scope_type \<Rightarrow> string \<Rightarrow> scope set" where
  "ancestor_scopes bs ty i = ancestor_loop bs {(ty, i), (Scope_Global, ''*'')}"

section \<open>The decision\<close>

definition covers :: "scope set \<Rightarrow> authz_request \<Rightarrow> role_grant \<Rightarrow> bool" where
  "covers scopes rq g \<longleftrightarrow>
     (gr_scope_type g, gr_scope_id g) \<in> scopes \<and>
     (gr_environment_classes g = {} \<or>
        (case rq_environment_class rq of None \<Rightarrow> False | Some c \<Rightarrow> c \<in> gr_environment_classes g))"

fun matching_grants :: "int \<Rightarrow> scope set \<Rightarrow> authz_request \<Rightarrow> role_grant list \<Rightarrow> role_grant list res" where
  "matching_grants now scopes rq [] = Inr []"
| "matching_grants now scopes rq (g # gs) =
     (if gr_principal_id g \<noteq> rq_principal_id rq then matching_grants now scopes rq gs
      else
        res_bind (grant_active now g) (\<lambda>act.
        res_bind (matching_grants now scopes rq gs) (\<lambda>rest.
          Inr (if act \<and> covers scopes rq g then g # rest else rest))))"

definition granted_capabilities :: "role_grant list \<Rightarrow> string set" where
  "granted_capabilities gs = (\<Union>g \<in> set gs. role_capabilities (gr_role g) \<union> gr_capabilities g)"

definition roles_ok :: "authz_request \<Rightarrow> role_name set \<Rightarrow> bool" where
  "roles_ok rq roles \<longleftrightarrow> rq_required_roles rq = {} \<or> roles \<inter> rq_required_roles rq \<noteq> {} \<or> Admin \<in> roles"

definition capabilities_ok :: "authz_request \<Rightarrow> string set \<Rightarrow> bool" where
  "capabilities_ok rq caps \<longleftrightarrow> ''*'' \<in> caps \<or> rq_required_capabilities rq \<subseteq> caps"

definition authz_reasons :: "authz_request \<Rightarrow> role_grant list \<Rightarrow> string list" where
  "authz_reasons rq gs =
     (let roles = gr_role ` set gs; caps = granted_capabilities gs in
      if roles_ok rq roles \<and> capabilities_ok rq caps
      then [''matching active role grant satisfied required role and capability constraints'']
      else if gs = [] then [''no active role grant covers the requested scope'']
      else
        (if \<not> roles_ok rq roles
         then [''required roles not satisfied: '' @ repr_strs (sorted_set (role_value ` rq_required_roles rq))] else []) @
        (if \<not> capabilities_ok rq caps
         then [''required capabilities not satisfied: '' @ repr_strs (sorted_set (rq_required_capabilities rq))]
         else []))"

definition authz_evaluate ::
    "role_grant list \<Rightarrow> scope_binding list \<Rightarrow> string \<Rightarrow> string \<Rightarrow> int \<Rightarrow> authz_request \<Rightarrow> authz_decision res" where
  "authz_evaluate grants bindings uid now_iso now rq =
     res_bind (matching_grants now (ancestor_scopes bindings (rq_scope_type rq) (rq_scope_id rq)) rq grants) (\<lambda>gs.
       (let roles = gr_role ` set gs; caps = granted_capabilities gs in
        Inr \<lparr>az_id = ''authz:'' @ uid, az_request_id = rq_id rq, az_principal_id = rq_principal_id rq,
             az_outcome = (if roles_ok rq roles \<and> capabilities_ok rq caps then Authz_Allow else Authz_Deny),
             az_matched_grant_ids = map gr_id gs, az_effective_roles = roles,
             az_effective_capabilities = caps, az_reasons = authz_reasons rq gs,
             az_evaluated_at_iso = now_iso, az_metadata = []\<rparr>))"

section \<open>The closure\<close>

definition scope_rel :: "scope_binding list \<Rightarrow> (scope \<times> scope) set" where
  "scope_rel bs = {(sb_child b, sb_parent b) | b. b \<in> set bs}"

lemma extend_scope_closed: "seen \<subseteq> (scope_rel bs)\<^sup>* `` S \<Longrightarrow> b \<in> set bs \<Longrightarrow> extend_scope seen b \<subseteq> (scope_rel bs)\<^sup>* `` S"
proof -
  assume seen: "seen \<subseteq> (scope_rel bs)\<^sup>* `` S" and b: "b \<in> set bs"
  have edge: "(sb_child b, sb_parent b) \<in> scope_rel bs" using b by (auto simp: scope_rel_def)
  show ?thesis
  proof (cases "sb_child b \<in> seen")
    case True
    then obtain x where "x \<in> S" "(x, sb_child b) \<in> (scope_rel bs)\<^sup>*" using seen by auto
    then have "sb_parent b \<in> (scope_rel bs)\<^sup>* `` S" using edge by (blast intro: rtrancl_into_rtrancl)
    then show ?thesis using seen by (simp add: extend_scope_def)
  qed (use seen in \<open>simp add: extend_scope_def\<close>)
qed

lemma foldl_extend_closed:
  "seen \<subseteq> (scope_rel bs)\<^sup>* `` S \<Longrightarrow> set cs \<subseteq> set bs \<Longrightarrow> foldl extend_scope seen cs \<subseteq> (scope_rel bs)\<^sup>* `` S"
  by (induction cs arbitrary: seen) (auto simp: extend_scope_closed)

lemma scope_pass_fix: "scope_pass bs seen = seen \<Longrightarrow> b \<in> set bs \<Longrightarrow> sb_child b \<in> seen \<Longrightarrow> sb_parent b \<in> seen"
proof -
  have "b \<in> set cs \<Longrightarrow> sb_child b \<in> seen \<Longrightarrow> sb_parent b \<in> foldl extend_scope seen cs" for cs seen
  proof (induction cs arbitrary: seen)
    case (Cons c cs)
    show ?case
    proof (cases "b = c")
      case True
      have "foldl extend_scope seen' cs \<supseteq> seen'" for seen'
        using scope_pass_grows by (simp add: scope_pass_def)
      then show ?thesis using True Cons.prems extend_scope_bounds(3) [of b seen] by auto
    next
      case False
      then show ?thesis using Cons extend_scope_bounds(1) [of seen c] by auto
    qed
  qed simp
  then show "scope_pass bs seen = seen \<Longrightarrow> b \<in> set bs \<Longrightarrow> sb_child b \<in> seen \<Longrightarrow> sb_parent b \<in> seen"
    unfolding scope_pass_def by metis
qed

lemma ancestor_loop_closure:
  "S \<subseteq> seen \<Longrightarrow> seen \<subseteq> (scope_rel bs)\<^sup>* `` S \<Longrightarrow> ancestor_loop bs seen = (scope_rel bs)\<^sup>* `` S"
proof (induction bs seen rule: ancestor_loop.induct)
  case (1 bs seen)
  show ?case
  proof (cases "scope_pass bs seen = seen")
    case True
    have "y \<in> seen" if "(x, y) \<in> (scope_rel bs)\<^sup>*" "x \<in> S" for x y
      using that by (induction rule: rtrancl_induct)
        (use 1(2) scope_pass_fix [OF True] in \<open>auto simp: scope_rel_def\<close>)
    then show ?thesis using True 1(3) by (subst ancestor_loop.simps) auto
  next
    case False
    have "scope_pass bs seen \<subseteq> (scope_rel bs)\<^sup>* `` S"
      using foldl_extend_closed [OF 1(3), of bs] by (simp add: scope_pass_def)
    then show ?thesis
      using False 1(1) [OF False] 1(2) scope_pass_grows [of seen bs]
      by (subst ancestor_loop.simps) auto
  qed
qed

lemma ancestor_scopes_closure:
  "ancestor_scopes bs ty i = (scope_rel bs)\<^sup>* `` {(ty, i), (Scope_Global, ''*'')}"
  unfolding ancestor_scopes_def by (rule ancestor_loop_closure) auto

section \<open>What a decision rests on\<close>

definition effective_grant :: "int \<Rightarrow> scope_binding list \<Rightarrow> authz_request \<Rightarrow> role_grant \<Rightarrow> bool" where
  "effective_grant now bs rq g \<longleftrightarrow>
     gr_principal_id g = rq_principal_id rq \<and> grant_active now g = Inr True \<and>
     covers ((scope_rel bs)\<^sup>* `` {(rq_scope_type rq, rq_scope_id rq), (Scope_Global, ''*'')}) rq g"

lemma matching_grants_set:
  "matching_grants now scopes rq gs = Inr ms \<Longrightarrow>
     set ms = {g \<in> set gs. gr_principal_id g = rq_principal_id rq \<and> grant_active now g = Inr True \<and> covers scopes rq g}"
proof (induction gs arbitrary: ms)
  case (Cons g gs)
  then show ?case by (cases "grant_active now g") (auto simp: res_bind_eq_Inr_iff split: if_splits)
qed simp

lemma authz_allow_iff:
  assumes "authz_evaluate grants bs uid now_iso now rq = Inr dec"
  shows "az_outcome dec = Authz_Allow \<longleftrightarrow>
    (let G = {g \<in> set grants. effective_grant now bs rq g};
         caps = (\<Union>g \<in> G. role_capabilities (gr_role g) \<union> gr_capabilities g) in
     roles_ok rq (gr_role ` G) \<and> capabilities_ok rq caps)"
proof -
  from assms obtain gs where gs: "matching_grants now (ancestor_scopes bs (rq_scope_type rq) (rq_scope_id rq)) rq grants = Inr gs"
    and dec: "az_outcome dec = (if roles_ok rq (gr_role ` set gs) \<and> capabilities_ok rq (granted_capabilities gs)
      then Authz_Allow else Authz_Deny)"
    by (auto simp: authz_evaluate_def res_bind_eq_Inr_iff Let_def)
  have "set gs = {g \<in> set grants. effective_grant now bs rq g}"
    using matching_grants_set [OF gs] by (auto simp: effective_grant_def ancestor_scopes_closure)
  then show ?thesis by (simp add: dec granted_capabilities_def Let_def)
qed

lemma authz_no_grants:
  assumes "authz_evaluate grants bs uid now_iso now rq = Inr dec"
    and "\<And>g. g \<in> set grants \<Longrightarrow> \<not> effective_grant now bs rq g"
  shows "az_outcome dec = Authz_Allow \<longleftrightarrow> rq_required_roles rq = {} \<and> rq_required_capabilities rq = {}"
proof -
  have none: "{g \<in> set grants. effective_grant now bs rq g} = {}" using assms(2) by auto
  show ?thesis
    unfolding authz_allow_iff [OF assms(1)] Let_def none by (simp add: roles_ok_def capabilities_ok_def)
qed

end
