(* ===== verification/Governance.thy ===== *)
theory Governance
  imports Executors
begin

text \<open>
  \<open>models/governance.py\<close> and \<open>governance/\<close>: the rate and concurrency limiter, the hash chain of audit
  events and the retention planner. Digests (\<open>sha256\<close> over canonical JSON) are an argument. Shown:
  the limiter never admits more than limit plus burst requests in a window; appending keeps a chain
  valid, and two valid chains with the same head are the same chain when the digest does not collide
  on their events; a protected resource is never eligible for deletion.
\<close>

section \<open>Limits\<close>

record rate_rule =
  rr_id :: string
  rr_scope_type :: string
  rr_scope_id :: string
  rr_operation :: string
  rr_limit :: int
  rr_window_seconds :: int
  rr_burst :: int
  rr_enabled :: bool

record concurrency_rule =
  cr_id :: string
  cr_scope_type :: string
  cr_scope_id :: string
  cr_operation_type :: string
  cr_maximum_active :: int
  cr_serialize_by_target :: bool
  cr_enabled :: bool

datatype governance_outcome = Gov_Allow | Gov_Deny | Gov_Delay

record governance_decision =
  gd_id :: string
  gd_outcome :: governance_outcome
  gd_reasons :: "string list"
  gd_retry_after_seconds :: "int option"
  gd_matched_rule_ids :: "string list"
  gd_evaluated_at_iso :: string

record limiter =
  lim_rate_rules :: "rate_rule list"
  lim_concurrency_rules :: "concurrency_rule list"
  lim_usage :: "(string, int list) dict"

record limit_request =
  lq_scope_type :: string
  lq_scope_id :: string
  lq_operation :: string
  lq_active_count :: int

definition new_limiter :: "rate_rule list \<Rightarrow> concurrency_rule list \<Rightarrow> limiter" where
  "new_limiter rs cs = \<lparr>lim_rate_rules = rs, lim_concurrency_rules = cs, lim_usage = []\<rparr>"

definition rate_match :: "limit_request \<Rightarrow> rate_rule \<Rightarrow> bool" where
  "rate_match q r \<longleftrightarrow> rr_enabled r \<and> rr_scope_type r = lq_scope_type q \<and> rr_scope_id r = lq_scope_id q \<and>
     rr_operation r \<in> {lq_operation q, ''*''}"

definition concurrency_match :: "limit_request \<Rightarrow> concurrency_rule \<Rightarrow> bool" where
  "concurrency_match q r \<longleftrightarrow> cr_enabled r \<and> cr_scope_type r = lq_scope_type q \<and> cr_scope_id r = lq_scope_id q \<and>
     cr_operation_type r \<in> {lq_operation q, ''*''}"

abbreviation bucket :: "(string, int list) dict \<Rightarrow> string \<Rightarrow> int list" where
  "bucket u i \<equiv> dget_default u i []"

definition window_start :: "int \<Rightarrow> rate_rule \<Rightarrow> int" where
  "window_start now r = now - seconds (rr_window_seconds r)"

definition trim :: "int \<Rightarrow> rate_rule \<Rightarrow> int list \<Rightarrow> int list" where
  "trim now r b = filter (\<lambda>t. window_start now r < t) b"

text \<open>The loop over the rate rules: matched ids, reasons and the seconds to wait, and the buckets
  trimmed to the window.\<close>

fun rate_pass ::
    "int \<Rightarrow> limit_request \<Rightarrow> rate_rule list \<Rightarrow> string list \<times> string list \<times> int option \<Rightarrow>
     (string, int list) dict \<Rightarrow> (string list \<times> string list \<times> int option) res \<times> (string, int list) dict" where
  "rate_pass now q [] acc u = (Inr acc, u)"
| "rate_pass now q (r # rs) (matched, reasons, retry) u =
     (if \<not> rate_match q r then rate_pass now q rs (matched, reasons, retry) u
      else
        (let u1 = (case dget u (rr_id r) of None \<Rightarrow> dset (rr_id r) [] u | Some _ \<Rightarrow> u) in
         if \<not> valid_instant (window_start now r)
         then (raise OverflowError ''date value out of range'', u1)
         else
           (let b = trim now r (bucket u1 (rr_id r)); u2 = dset (rr_id r) b u1 in
            if int (length b) < rr_limit r + rr_burst r
            then rate_pass now q rs (matched @ [rr_id r], reasons, retry) u2
            else if b = [] then (raise ValueError ''min() arg is an empty sequence'', u2)
            else rate_pass now q rs
              (matched @ [rr_id r], reasons @ [''rate limit '' @ rr_id r @ '' exceeded''],
               Some (max 0 ((Min (set b) + seconds (rr_window_seconds r) - now) div 1000000))) u2)))"

definition record_usage :: "int \<Rightarrow> string list \<Rightarrow> (string, int list) dict \<Rightarrow> (string, int list) dict" where
  "record_usage now ids u =
     foldl (\<lambda>u i. case dget u i of None \<Rightarrow> u | Some b \<Rightarrow> dset i (b @ [now]) u) u ids"

definition limiter_evaluate :: "string \<Rightarrow> int \<Rightarrow> limit_request \<Rightarrow> limiter \<Rightarrow> governance_decision res \<times> limiter" where
  "limiter_evaluate uid now q L =
     (case rate_pass now q (lim_rate_rules L) ([], [], None) (lim_usage L) of
        (Inl e, u) \<Rightarrow> (Inl e, L\<lparr>lim_usage := u\<rparr>)
      | (Inr (matched, reasons, retry), u) \<Rightarrow>
          (let cs = filter (concurrency_match q) (lim_concurrency_rules L);
               all_matched = matched @ map cr_id cs;
               all_reasons = reasons @ map (\<lambda>r. ''concurrency limit '' @ cr_id r @ '' reached'')
                 (filter (\<lambda>r. cr_maximum_active r \<le> lq_active_count q) cs) in
           (Inr \<lparr>gd_id = ''governance:'' @ uid,
                 gd_outcome = (if all_reasons = [] then Gov_Allow else Gov_Delay),
                 gd_reasons = all_reasons, gd_retry_after_seconds = retry,
                 gd_matched_rule_ids = all_matched, gd_evaluated_at_iso = isoformat now\<rparr>,
            L\<lparr>lim_usage := (if all_reasons = [] then record_usage now all_matched u else u)\<rparr>)))"

subsection \<open>The bound\<close>

text \<open>Rule identifiers name one rule each, and only rate rules have a bucket.\<close>

definition wf_limiter :: "limiter \<Rightarrow> bool" where
  "wf_limiter L \<longleftrightarrow>
     distinct (map rr_id (lim_rate_rules L)) \<and>
     fst ` set (lim_usage L) \<subseteq> rr_id ` set (lim_rate_rules L) \<and>
     rr_id ` set (lim_rate_rules L) \<inter> cr_id ` set (lim_concurrency_rules L) = {} \<and>
     (\<forall>r \<in> set (lim_rate_rules L). int (length (bucket (lim_usage L) (rr_id r))) \<le> rr_limit r + rr_burst r)"

definition rules_positive :: "rate_rule list \<Rightarrow> bool" where
  "rules_positive rs \<longleftrightarrow> (\<forall>r \<in> set rs. 1 \<le> rr_limit r \<and> 1 \<le> rr_window_seconds r \<and> 0 \<le> rr_burst r)"

lemma dget_key: "dget u i = Some x \<Longrightarrow> i \<in> fst ` set u"
  by (simp add: dget_in_keys)

lemma bucket_simps [simp]:
  "bucket (dset i b u) j = (if j = i then b else bucket u j)"
  by (simp add: dget_default_def dict_simps)

lemma bucket_setdefault [simp]:
  "bucket (case dget u i of None \<Rightarrow> dset i [] u | Some _ \<Rightarrow> u) j = bucket u j"
  by (simp add: dget_default_def dict_simps split: option.split)

lemma rate_pass_spec:
  "rate_pass now q rs (m, ws, ra) u = (Inr (m', ws', ra'), u') \<Longrightarrow> distinct (map rr_id rs) \<Longrightarrow>
     m' = m @ map rr_id (filter (rate_match q) rs) \<and>
     (\<forall>r \<in> set rs. bucket u' (rr_id r) =
        (if rate_match q r then trim now r (bucket u (rr_id r)) else bucket u (rr_id r))) \<and>
     (\<forall>i. i \<notin> rr_id ` set rs \<longrightarrow> bucket u' i = bucket u i) \<and>
     (ws' = [] \<longrightarrow> ws = [] \<and> (\<forall>r \<in> set rs. rate_match q r \<longrightarrow>
        int (length (bucket u' (rr_id r))) < rr_limit r + rr_burst r))"
proof (induction rs arbitrary: m ws ra u)
  case Nil
  then show ?case by simp
next
  case (Cons r rs)
  have fresh: "rr_id r \<notin> rr_id ` set rs" and d: "distinct (map rr_id rs)" using Cons.prems(2) by auto
  show ?case
  proof (cases "rate_match q r")
    case False
    with Cons.prems(1) have "rate_pass now q rs (m, ws, ra) u = (Inr (m', ws', ra'), u')" by simp
    from Cons.IH [OF this d] show ?thesis using False fresh by auto
  next
    case True
    let ?u1 = "case dget u (rr_id r) of None \<Rightarrow> dset (rr_id r) [] u | Some _ \<Rightarrow> u"
    let ?b = "trim now r (bucket u (rr_id r))" and ?u2 = "dset (rr_id r) (trim now r (bucket u (rr_id r))) ?u1"
    obtain ws1 ra1 where step: "rate_pass now q rs (m @ [rr_id r], ws1, ra1) ?u2 = (Inr (m', ws', ra'), u')"
      and ws1: "ws1 = [] \<longrightarrow> ws = [] \<and> int (length ?b) < rr_limit r + rr_burst r"
      using Cons.prems(1) True by (auto simp: Let_def raise_def split: if_splits)
    have keep: "bucket ?u2 i = (if i = rr_id r then ?b else bucket u i)" for i by simp
    have other: "rr_id x \<noteq> rr_id r" if "x \<in> set rs" for x using fresh that by (metis imageI)
    from Cons.IH [OF step d] show ?thesis
      using True fresh ws1 other unfolding keep by auto
  qed
qed

lemma rate_pass_keys:
  "rate_pass now q rs acc u = (r, u') \<Longrightarrow>
     fst ` set u \<subseteq> fst ` set u' \<and> fst ` set u' \<subseteq> fst ` set u \<union> rr_id ` set rs \<and>
     (\<forall>x. r = Inr x \<longrightarrow> rr_id ` set (filter (rate_match q) rs) \<subseteq> fst ` set u')"
proof (induction rs arbitrary: acc u)
  case Nil
  then show ?case by simp
next
  case (Cons r0 rs)
  obtain m ws ra where acc: "acc = (m, ws, ra)" by (cases acc)
  let ?u1 = "case dget u (rr_id r0) of None \<Rightarrow> dset (rr_id r0) [] u | Some _ \<Rightarrow> u"
  have k1: "fst ` set ?u1 = insert (rr_id r0) (fst ` set u)"
    using insert_absorb [OF dget_key, of u "rr_id r0"] by (simp add: keys_dset split: option.split)
  show ?case
  proof (cases "rate_match q r0")
    case False
    then show ?thesis using Cons.prems Cons.IH [of "(m, ws, ra)" u] by (auto simp: acc)
  next
    case True
    have k2: "fst ` set (dset (rr_id r0) b ?u1) = insert (rr_id r0) (fst ` set u)" for b
      using k1 by (simp add: keys_dset)
    consider (stop) e u2 where "r = Inl e" "u' = u2" "fst ` set u2 = insert (rr_id r0) (fst ` set u)"
      | (go) acc1 b where "rate_pass now q rs acc1 (dset (rr_id r0) b ?u1) = (r, u')"
      using Cons.prems True k1 k2 by (auto simp: acc Let_def raise_def split: if_splits)
    then show ?thesis
    proof cases
      case go
      from Cons.IH [OF go] show ?thesis using True by (auto simp: k2)
    qed auto
  qed
qed

lemma record_usage_bucket:
  "bucket (record_usage now ids u) i =
     (if dget u i \<noteq> None then bucket u i @ replicate (count_list ids i) now else bucket u i)"
proof (induction ids arbitrary: u)
  case Nil
  then show ?case by (simp add: record_usage_def)
next
  case (Cons j ids)
  let ?u = "case dget u j of None \<Rightarrow> u | Some b \<Rightarrow> dset j (b @ [now]) u"
  have step: "record_usage now (j # ids) u = record_usage now ids ?u" by (simp add: record_usage_def)
  have "dget ?u i = (if i = j then map_option (\<lambda>b. b @ [now]) (dget u j) else dget u i)"
    by (simp add: dict_simps split: option.split)
  then show ?case
    unfolding step Cons.IH by (auto simp: dget_default_def split: option.splits)
qed

lemma keys_record_usage: "fst ` set (record_usage now ids u) = fst ` set u"
proof (induction ids arbitrary: u)
  case (Cons j ids)
  have "fst ` set (case dget u j of None \<Rightarrow> u | Some b \<Rightarrow> dset j (b @ [now]) u) = fst ` set u"
    using insert_absorb [OF dget_key, of u j] by (simp add: keys_dset split: option.split)
  then show ?case using Cons by (simp add: record_usage_def)
qed (simp add: record_usage_def)

lemma count_list_distinct: "distinct xs \<Longrightarrow> count_list xs x = (if x \<in> set xs then 1 else 0)"
  by (induction xs) auto

lemma count_list_absent: "x \<notin> set xs \<Longrightarrow> count_list xs x = 0"
  by (induction xs) auto

text \<open>After an evaluation: each matching rule's bucket is trimmed to its window and, when the request is
  allowed, gains this request.\<close>

lemma limiter_buckets:
  assumes "wf_limiter L" "limiter_evaluate uid now q L = (Inr dec, L')" "r \<in> set (lim_rate_rules L)"
  shows "bucket (lim_usage L') (rr_id r) =
      (if rate_match q r
       then trim now r (bucket (lim_usage L) (rr_id r)) @ (if gd_outcome dec = Gov_Allow then [now] else [])
       else bucket (lim_usage L) (rr_id r))"
    and "gd_outcome dec = Gov_Allow \<Longrightarrow> rate_match q r \<Longrightarrow>
      int (length (trim now r (bucket (lim_usage L) (rr_id r)))) < rr_limit r + rr_burst r"
    and "fst ` set (lim_usage L') \<subseteq> rr_id ` set (lim_rate_rules L)"
    and "lim_rate_rules L' = lim_rate_rules L \<and> lim_concurrency_rules L' = lim_concurrency_rules L"
proof -
  from assms(2) obtain m ws ra u where pass:
      "rate_pass now q (lim_rate_rules L) ([], [], None) (lim_usage L) = (Inr (m, ws, ra), u)"
    by (auto simp: limiter_evaluate_def split: prod.splits sum.splits)
  have d: "distinct (map rr_id (lim_rate_rules L))" and disj:
      "rr_id ` set (lim_rate_rules L) \<inter> cr_id ` set (lim_concurrency_rules L) = {}"
    and keys: "fst ` set (lim_usage L) \<subseteq> rr_id ` set (lim_rate_rules L)"
    using assms(1) by (simp_all add: wf_limiter_def)
  note spec = rate_pass_spec [OF pass d]
  let ?ids = "m @ map cr_id (filter (concurrency_match q) (lim_concurrency_rules L))"
  define reasons where "reasons = ws @ map (\<lambda>r. ''concurrency limit '' @ cr_id r @ '' reached'')
    (filter (\<lambda>r. cr_maximum_active r \<le> lq_active_count q)
      (filter (concurrency_match q) (lim_concurrency_rules L)))"
  have dec: "gd_outcome dec = (if reasons = [] then Gov_Allow else Gov_Delay)"
    and L1: "L' = L\<lparr>lim_usage := (if reasons = [] then record_usage now ?ids u else u)\<rparr>"
    using assms(2) unfolding limiter_evaluate_def pass prod.case sum.case Let_def reasons_def [symmetric]
    by auto
  have allow: "gd_outcome dec = Gov_Allow \<Longrightarrow> ws = []"
    by (simp add: dec reasons_def split: if_splits)
  have L': "L' = L\<lparr>lim_usage := (if gd_outcome dec = Gov_Allow then record_usage now ?ids u else u)\<rparr>"
    by (simp add: dec L1)
  note kp = rate_pass_keys [OF pass]
  have count: "count_list ?ids (rr_id r) = (if rate_match q r then 1 else 0)"
  proof -
    have "rr_id r \<notin> set (map cr_id (filter (concurrency_match q) (lim_concurrency_rules L)))"
      using disj assms(3) by auto
    moreover have "distinct m" using spec d by (simp add: distinct_map_filter)
    moreover have "rr_id r \<in> set m \<longleftrightarrow> rate_match q r"
      using spec d assms(3) by (auto simp: distinct_map dest: inj_onD)
    ultimately show ?thesis by (simp add: count_list_distinct count_list_absent)
  qed
  have present: "dget u (rr_id r) \<noteq> None" if "rate_match q r"
  proof -
    have "rr_id r \<in> fst ` set u" using kp that assms(3) by auto
    then show ?thesis by (simp add: dget_in_keys)
  qed
  show "bucket (lim_usage L') (rr_id r) =
      (if rate_match q r
       then trim now r (bucket (lim_usage L) (rr_id r)) @ (if gd_outcome dec = Gov_Allow then [now] else [])
       else bucket (lim_usage L) (rr_id r))"
    using spec assms(3) present count by (simp add: L' record_usage_bucket)
  show "gd_outcome dec = Gov_Allow \<Longrightarrow> rate_match q r \<Longrightarrow>
      int (length (trim now r (bucket (lim_usage L) (rr_id r)))) < rr_limit r + rr_burst r"
    using spec allow assms(3) by auto
  show "fst ` set (lim_usage L') \<subseteq> rr_id ` set (lim_rate_rules L)"
  proof -
    have "fst ` set u \<subseteq> fst ` set (lim_usage L) \<union> rr_id ` set (lim_rate_rules L)"
      by (rule conjunct1 [OF conjunct2 [OF kp]])
    also have "\<dots> \<subseteq> rr_id ` set (lim_rate_rules L)" using keys by (rule Un_least) (rule order_refl)
    finally have "fst ` set u \<subseteq> rr_id ` set (lim_rate_rules L)" .
    then show ?thesis by (simp add: L' keys_record_usage)
  qed
  show "lim_rate_rules L' = lim_rate_rules L \<and> lim_concurrency_rules L' = lim_concurrency_rules L"
    by (simp add: L')
qed

lemma limiter_wf:
  assumes "wf_limiter L" "limiter_evaluate uid now q L = (Inr dec, L')"
  shows "wf_limiter L'"
proof (cases "lim_rate_rules L = []")
  case True
  then have "lim_usage L = []" using assms(1) by (simp add: wf_limiter_def)
  moreover have "record_usage now ids [] = []" for ids
    using keys_record_usage [of now ids "[]"] by simp
  ultimately have "lim_usage L' = [] \<and> lim_rate_rules L' = [] \<and> lim_concurrency_rules L' = lim_concurrency_rules L"
    using assms(2) True unfolding limiter_evaluate_def by (auto simp: Let_def)
  then show ?thesis by (simp add: wf_limiter_def)
next
  case False
  then obtain r0 where "r0 \<in> set (lim_rate_rules L)" by (cases "lim_rate_rules L") auto
  note frame = limiter_buckets(3,4) [OF assms this]
  have "int (length (bucket (lim_usage L') (rr_id r))) \<le> rr_limit r + rr_burst r"
    if r: "r \<in> set (lim_rate_rules L)" for r
  proof -
    have "length (trim now r (bucket (lim_usage L) (rr_id r))) \<le> length (bucket (lim_usage L) (rr_id r))"
      by (simp add: trim_def)
    moreover have "int (length (bucket (lim_usage L) (rr_id r))) \<le> rr_limit r + rr_burst r"
      using assms(1) r by (simp add: wf_limiter_def)
    ultimately show ?thesis
      using limiter_buckets(1,2) [OF assms r] by (auto split: if_splits)
  qed
  then show ?thesis using assms(1) frame by (simp add: wf_limiter_def)
qed

section \<open>The audit chain\<close>

record audit_event =
  au_event_id :: string
  au_sequence :: nat
  au_organization_id :: string
  au_workspace_id :: string
  au_principal_id :: string
  au_action :: string
  au_resource_type :: string
  au_resource_id :: string
  au_outcome :: string
  au_occurred_at_iso :: string
  au_request_id :: "string option"
  au_source_ip :: "string option"
  au_user_agent :: "string option"
  au_details :: fields
  au_previous_hash :: "string option"
  au_event_hash :: string

record audit_verification =
  av_valid :: bool
  av_event_count :: nat
  av_first_sequence :: "nat option"
  av_last_sequence :: "nat option"
  av_head_hash :: "string option"
  av_errors :: "string list"
  av_verified_at_iso :: string

record audit_export =
  ax_export_id :: string
  ax_organization_id :: string
  ax_workspace_id :: string
  ax_generated_at_iso :: string
  ax_event_ids :: "string list"
  ax_first_sequence :: "nat option"
  ax_last_sequence :: "nat option"
  ax_head_hash :: "string option"
  ax_format :: string
  ax_payload_hash :: string

definition optional_str :: "string option \<Rightarrow> json" where
  "optional_str s = (case s of None \<Rightarrow> JNull | Some t \<Rightarrow> JStr t)"

text \<open>\<open>event.model_dump(mode="json", exclude={"event_hash"})\<close>; the digest sorts the keys.\<close>

definition audit_payload :: "audit_event \<Rightarrow> json" where
  "audit_payload e = JObj
     [(''schema_version'', JStr ''kubeops.io/v1''), (''event_id'', JStr (au_event_id e)),
      (''sequence'', JInt (int (au_sequence e))), (''organization_id'', JStr (au_organization_id e)),
      (''workspace_id'', JStr (au_workspace_id e)), (''principal_id'', JStr (au_principal_id e)),
      (''action'', JStr (au_action e)), (''resource_type'', JStr (au_resource_type e)),
      (''resource_id'', JStr (au_resource_id e)), (''outcome'', JStr (au_outcome e)),
      (''occurred_at_iso'', JStr (au_occurred_at_iso e)), (''request_id'', optional_str (au_request_id e)),
      (''source_ip'', optional_str (au_source_ip e)), (''user_agent'', optional_str (au_user_agent e)),
      (''details'', JObj (au_details e)), (''previous_hash'', optional_str (au_previous_hash e))]"

text \<open>The chain; an event is appended from its content, whose sequence number, previous hash and hash
  are filled in.\<close>

definition head_hash :: "audit_event list \<Rightarrow> string option" where
  "head_hash es = (if es = [] then None else Some (au_event_hash (last es)))"

definition chain_event :: "(json \<Rightarrow> string) \<Rightarrow> string \<Rightarrow> string \<Rightarrow> audit_event list \<Rightarrow> audit_event \<Rightarrow> audit_event" where
  "chain_event H uid now_iso es content =
     (let base = content\<lparr>au_event_id := ''audit:'' @ uid, au_sequence := length es,
            au_occurred_at_iso := (if au_occurred_at_iso content = [] then now_iso else au_occurred_at_iso content),
            au_previous_hash := head_hash es\<rparr> in
      base\<lparr>au_event_hash := H (audit_payload base)\<rparr>)"

definition audit_append ::
    "(json \<Rightarrow> string) \<Rightarrow> string \<Rightarrow> string \<Rightarrow> audit_event \<Rightarrow> audit_event list \<Rightarrow> audit_event list" where
  "audit_append H uid now_iso content es = es @ [chain_event H uid now_iso es content]"

fun chain_errors :: "(json \<Rightarrow> string) \<Rightarrow> nat \<Rightarrow> string option \<Rightarrow> audit_event list \<Rightarrow> string list" where
  "chain_errors H n prev [] = []"
| "chain_errors H n prev (e # es) =
     (if au_sequence e \<noteq> n
      then [''event '' @ au_event_id e @ '' sequence '' @ nat_str (au_sequence e) @ '' expected '' @ nat_str n] else []) @
     (if au_previous_hash e \<noteq> prev then [''event '' @ au_event_id e @ '' previous hash mismatch''] else []) @
     (if H (audit_payload e) \<noteq> au_event_hash e then [''event '' @ au_event_id e @ '' hash mismatch''] else []) @
     chain_errors H (Suc n) (Some (au_event_hash e)) es"

definition audit_verify :: "(json \<Rightarrow> string) \<Rightarrow> string \<Rightarrow> audit_event list \<Rightarrow> audit_verification" where
  "audit_verify H now_iso es =
     (let errors = chain_errors H 0 None es in
      \<lparr>av_valid = (errors = []), av_event_count = length es,
       av_first_sequence = (if es = [] then None else Some (au_sequence (hd es))),
       av_last_sequence = (if es = [] then None else Some (au_sequence (last es))),
       av_head_hash = head_hash es, av_errors = errors, av_verified_at_iso = now_iso\<rparr>)"

text \<open>The events of one workspace, with the digest of their rendering.\<close>

definition audit_select :: "string \<Rightarrow> string \<Rightarrow> audit_event list \<Rightarrow> audit_event list" where
  "audit_select org ws es = filter (\<lambda>e. au_organization_id e = org \<and> au_workspace_id e = ws) es"

definition audit_export ::
    "(audit_event list \<Rightarrow> string \<Rightarrow> string) \<Rightarrow> (string \<Rightarrow> string) \<Rightarrow> string \<Rightarrow> string \<Rightarrow> string \<Rightarrow> string \<Rightarrow> string \<Rightarrow>
     audit_event list \<Rightarrow> audit_export \<times> string" where
  "audit_export render text_digest uid now_iso org ws fmt es =
     (let sel = audit_select org ws es; payload = render sel fmt in
      (\<lparr>ax_export_id = ''audit-export:'' @ uid, ax_organization_id = org, ax_workspace_id = ws,
        ax_generated_at_iso = now_iso, ax_event_ids = map au_event_id sel,
        ax_first_sequence = (if sel = [] then None else Some (au_sequence (hd sel))),
        ax_last_sequence = (if sel = [] then None else Some (au_sequence (last sel))),
        ax_head_hash = head_hash sel, ax_format = fmt, ax_payload_hash = text_digest payload\<rparr>, payload))"

subsection \<open>Validity\<close>

lemma chain_errors_append:
  "chain_errors H n prev (es @ [e]) = [] \<longleftrightarrow>
     chain_errors H n prev es = [] \<and> au_sequence e = n + length es \<and>
     au_previous_hash e = (if es = [] then prev else head_hash es) \<and> H (audit_payload e) = au_event_hash e"
proof (induction es arbitrary: n prev)
  case Nil
  then show ?case by auto
next
  case (Cons x es)
  then show ?case by (auto simp: head_hash_def)
qed

lemma audit_payload_hash [simp]: "audit_payload (e\<lparr>au_event_hash := h\<rparr>) = audit_payload e"
  by (simp add: audit_payload_def)

lemma audit_append_valid:
  "av_valid (audit_verify H t (audit_append H uid now_iso content es)) \<longleftrightarrow> av_valid (audit_verify H t' es)"
  by (simp add: audit_verify_def Let_def audit_append_def chain_errors_append chain_event_def head_hash_def)

lemma optional_str_inj: "optional_str a = optional_str b \<longleftrightarrow> a = b"
  by (auto simp: optional_str_def split: option.splits)

lemma audit_payload_inj: "audit_payload a = audit_payload b \<Longrightarrow> au_event_hash a = au_event_hash b \<Longrightarrow> a = b"
proof -
  assume "audit_payload a = audit_payload b" and hash: "au_event_hash a = au_event_hash b"
  then have "au_event_id a = au_event_id b \<and> au_sequence a = au_sequence b \<and>
      au_organization_id a = au_organization_id b \<and> au_workspace_id a = au_workspace_id b \<and>
      au_principal_id a = au_principal_id b \<and> au_action a = au_action b \<and>
      au_resource_type a = au_resource_type b \<and> au_resource_id a = au_resource_id b \<and>
      au_outcome a = au_outcome b \<and> au_occurred_at_iso a = au_occurred_at_iso b \<and>
      au_request_id a = au_request_id b \<and> au_source_ip a = au_source_ip b \<and>
      au_user_agent a = au_user_agent b \<and> au_details a = au_details b \<and>
      au_previous_hash a = au_previous_hash b"
    by (simp add: audit_payload_def optional_str_inj)
  with hash show "a = b" by (cases a; cases b) simp
qed

text \<open>Tampering shows: of two valid chains with the same head, no event can differ unless two different
  payloads have the same digest.\<close>

lemma valid_chains_equal:
  "chain_errors H 0 None es = [] \<Longrightarrow> chain_errors H 0 None fs = [] \<Longrightarrow> head_hash es = head_hash fs \<Longrightarrow>
     inj_on H (audit_payload ` (set es \<union> set fs)) \<Longrightarrow> es = fs"
proof (induction es arbitrary: fs rule: rev_induct)
  case Nil
  then show ?case by (auto simp: head_hash_def split: if_splits)
next
  case (snoc e es)
  from snoc.prems(3) have "fs \<noteq> []" by (auto simp: head_hash_def split: if_splits)
  then obtain f fs' where fs: "fs = fs' @ [f]" by (metis append_butlast_last_id)
  note e = snoc.prems(1) [unfolded chain_errors_append] and f = snoc.prems(2) [unfolded fs chain_errors_append]
  have hash: "au_event_hash e = au_event_hash f" using snoc.prems(3) by (simp add: head_hash_def fs)
  then have "H (audit_payload e) = H (audit_payload f)" using e f by simp
  then have "audit_payload e = audit_payload f"
    by (rule inj_onD [OF snoc.prems(4)]) (simp_all add: fs)
  then have ef: "e = f" using audit_payload_inj hash by blast
  have "head_hash es = head_hash fs'"
    using e f ef by (cases "es = []"; cases "fs' = []") (auto simp: head_hash_def)
  then have "es = fs'"
    using snoc.IH e f snoc.prems(4) fs by (auto intro: inj_on_subset)
  then show ?case using ef fs by simp
qed

section \<open>Retention\<close>

record retention_policy =
  rp_policy_id :: string
  rp_organization_id :: string
  rp_scope_type :: string
  rp_scope_id :: string
  rp_artifact_retention_days :: int
  rp_audit_retention_days :: int
  rp_snapshot_retention_days :: int
  rp_incident_retention_days :: int
  rp_operation_retention_days :: int
  rp_preserve_failed_operations :: bool
  rp_preserve_certificates :: bool
  rp_legal_hold_labels :: "(string, string) dict"
  rp_enabled :: bool
  rp_metadata :: fields

record retention_candidate =
  rt_candidate_id :: string
  rt_resource_type :: string
  rt_resource_id :: string
  rt_created_at_iso :: string
  rt_expires_at_iso :: string
  rt_size_bytes :: int
  rt_protected :: bool
  rt_protection_reasons :: "string list"
  rt_metadata :: fields

record retention_plan =
  rn_plan_id :: string
  rn_policy_id :: string
  rn_generated_at_iso :: string
  rn_candidates :: "retention_candidate list"
  rn_eligible_candidate_ids :: "string list"
  rn_protected_candidate_ids :: "string list"
  rn_total_reclaimable_bytes :: int
  rn_dry_run :: bool

definition retention_days :: "retention_policy \<Rightarrow> string \<Rightarrow> int" where
  "retention_days p ty =
     (if ty = ''audit'' then rp_audit_retention_days p
      else if ty = ''snapshot'' then rp_snapshot_retention_days p
      else if ty = ''incident'' then rp_incident_retention_days p
      else if ty = ''operation'' then rp_operation_retention_days p
      else rp_artifact_retention_days p)"

definition field_of :: "fields \<Rightarrow> string \<Rightarrow> json res" where
  "field_of d k = (case dget d k of None \<Rightarrow> raise KeyError k | Some v \<Rightarrow> Inr v)"

definition labels_of :: "fields \<Rightarrow> fields res" where
  "labels_of res0 =
     (case dget_default res0 ''labels'' (JObj []) of
        JObj ls \<Rightarrow> Inr ls
      | JList [] \<Rightarrow> Inr []
      | JStr [] \<Rightarrow> Inr []
      | _ \<Rightarrow> raise TypeError ''labels are not a mapping'')"

definition legal_hold :: "retention_policy \<Rightarrow> fields \<Rightarrow> bool" where
  "legal_hold p labels \<longleftrightarrow>
     rp_legal_hold_labels p \<noteq> [] \<and>
     (\<forall>(k, v) \<in> set (rp_legal_hold_labels p). dget labels k = Some (JStr v))"

definition protection_reasons :: "retention_policy \<Rightarrow> string \<Rightarrow> fields \<Rightarrow> fields \<Rightarrow> string list" where
  "protection_reasons p ty resource labels =
     (if rp_preserve_failed_operations p \<and> ty = ''operation'' \<and> dget resource ''status'' = Some (JStr ''failed'')
      then [''failed operation preservation policy''] else []) @
     (if rp_preserve_certificates p \<and> truthy (dget_default resource ''has_certificate'' JNull)
      then [''certificate preservation policy''] else []) @
     (if legal_hold p labels then [''legal hold label match''] else [])"

definition retention_candidate_of ::
    "environment \<Rightarrow> int \<Rightarrow> retention_policy \<Rightarrow> fields \<Rightarrow> retention_candidate res" where
  "retention_candidate_of E now p resource =
     res_bind (field_of resource ''resource_type'') (\<lambda>ty0.
     let ty = py_str E ty0 in
     res_bind (res_bind (field_of resource ''created_at_iso'') (\<lambda>v. parse_iso (py_str E v))) (\<lambda>created.
     let expiry = created + retention_days p ty * us_per_day in
     if \<not> valid_instant expiry then raise OverflowError ''date value out of range''
     else
       res_bind (labels_of resource) (\<lambda>labels.
       res_bind (field_of resource ''resource_id'') (\<lambda>rid.
       res_bind (py_int (dget_default resource ''size_bytes'' (JInt 0))) (\<lambda>size.
       let reasons = protection_reasons p ty resource labels in
         Inr \<lparr>rt_candidate_id = ''retention:'' @ ty @ '':'' @ py_str E rid, rt_resource_type = ty,
              rt_resource_id = py_str E rid, rt_created_at_iso = isoformat created,
              rt_expires_at_iso = isoformat expiry, rt_size_bytes = size, rt_protected = (reasons \<noteq> []),
              rt_protection_reasons = reasons, rt_metadata = [(''expired'', JBool (expiry \<le> now))]\<rparr>)))))"

definition eligible :: "retention_candidate \<Rightarrow> bool" where
  "eligible c \<longleftrightarrow> \<not> rt_protected c \<and> truthy (dget_default (rt_metadata c) ''expired'' JNull)"

definition retention_plan_of ::
    "environment \<Rightarrow> string \<Rightarrow> int \<Rightarrow> retention_policy \<Rightarrow> fields list \<Rightarrow> retention_plan res" where
  "retention_plan_of E uid now p resources =
     res_bind (res_map (retention_candidate_of E now p) resources) (\<lambda>cs.
       (let elig = map rt_candidate_id (filter eligible cs) in
        Inr \<lparr>rn_plan_id = ''retention-plan:'' @ uid, rn_policy_id = rp_policy_id p,
             rn_generated_at_iso = isoformat now, rn_candidates = cs, rn_eligible_candidate_ids = elig,
             rn_protected_candidate_ids = map rt_candidate_id (filter rt_protected cs),
             rn_total_reclaimable_bytes =
               sum_list (map rt_size_bytes (filter (\<lambda>c. rt_candidate_id c \<in> set elig) cs)),
             rn_dry_run = True\<rparr>))"

text \<open>Why a resource is eligible: it is held by no reason and its retention has run out.\<close>

lemma retention_candidate_eligible:
  assumes "retention_candidate_of E now p resource = Inr c"
  shows "eligible c \<longleftrightarrow>
    (\<exists>ty created labels. field_of resource ''resource_type'' = Inr ty \<and>
       res_bind (field_of resource ''created_at_iso'') (\<lambda>v. parse_iso (py_str E v)) = Inr created \<and>
       labels_of resource = Inr labels \<and> protection_reasons p (py_str E ty) resource labels = [] \<and>
       created + retention_days p (py_str E ty) * us_per_day \<le> now)"
  using assms
  by (auto simp: retention_candidate_of_def Let_def res_bind_eq_Inr_iff eligible_def dget_default_def
      split: if_splits)

lemma retention_plan_split:
  assumes "retention_plan_of E uid now p resources = Inr plan"
    and "distinct (map rt_candidate_id (rn_candidates plan))"
  shows "set (rn_eligible_candidate_ids plan) \<inter> set (rn_protected_candidate_ids plan) = {}"
    and "rn_total_reclaimable_bytes plan = sum_list (map rt_size_bytes (filter eligible (rn_candidates plan)))"
proof -
  from assms(1) obtain cs where plan: "rn_candidates plan = cs"
      "rn_eligible_candidate_ids plan = map rt_candidate_id (filter eligible cs)"
      "rn_protected_candidate_ids plan = map rt_candidate_id (filter rt_protected cs)"
      "rn_total_reclaimable_bytes plan = sum_list (map rt_size_bytes
         (filter (\<lambda>c. rt_candidate_id c \<in> set (map rt_candidate_id (filter eligible cs))) cs))"
    by (auto simp: retention_plan_of_def res_bind_eq_Inr_iff Let_def)
  have inj: "inj_on rt_candidate_id (set cs)" using assms(2) plan(1) by (simp add: distinct_map)
  show "set (rn_eligible_candidate_ids plan) \<inter> set (rn_protected_candidate_ids plan) = {}"
    using inj by (auto simp: plan eligible_def dest: inj_onD)
  have "filter (\<lambda>c. rt_candidate_id c \<in> set (map rt_candidate_id (filter eligible cs))) cs = filter eligible cs"
    using inj by (intro filter_cong) (auto dest: inj_onD)
  then show "rn_total_reclaimable_bytes plan = sum_list (map rt_size_bytes (filter eligible (rn_candidates plan)))"
    by (simp add: plan)
qed

end
