(* ===== verification/Samples.thy ===== *)
theory Samples
  imports Runtime_Props Dispatcher_Props Tenancy Governance
begin

text \<open>
  Concrete values for the witnesses of the properties: an outside world whose clock stands still and
  whose commands succeed, one action type run by the simulator, a plan over given actions, a policy
  that allows the lowest risk class, and the operation, context and state they make.
\<close>

definition sample_env :: environment where
  "sample_env = \<lparr>env_now = (\<lambda>n. 0), env_run = (\<lambda>_ _. Finished 0 [] []),
     env_spawn = (\<lambda>_ _. Started 7), env_signal = (\<lambda>_ _. Delivered),
     env_digest = (\<lambda>_. ''digest''), env_json_loads = (\<lambda>_. None), env_float_repr = (\<lambda>_. ''0.0'')\<rparr>"

definition sample_type :: action_type where
  "sample_type = \<lparr>at_id = ''demo.patch.v1'', at_title = ''Patch'', at_description = [], at_parameter_schema = [],
     at_preconditions = [], at_expected_effects = [''patched''], at_possible_side_effects = [],
     at_required_capabilities = {}, at_supported_modes = {''simulation''}, at_executor_id = ''simulation'',
     at_default_risk = default_risk, at_completion_condition_ids = [], at_verification_condition_ids = [],
     at_verification_conditions = [], at_rollback_action_type_id = None, at_timeout_seconds = 60,
     at_max_attempts = 1, at_metadata = []\<rparr>"

definition sample_action :: "string \<Rightarrow> string list \<Rightarrow> action_instance" where
  "sample_action i ds = \<lparr>act_id = i, act_type_id = ''demo.patch.v1'', act_title = [], act_target_ids = [''db''],
     act_parameters = [(''simulation_effects'', JList [effect ''db'' ''status'' (JStr ''patched'')])],
     act_depends_on = ds, act_risk = default_risk, act_status = Act_Proposed, act_idempotency_key = None,
     act_stage_id = None, act_checkpoint_before = False, act_optional = False, act_metadata = []\<rparr>"

definition sample_condition :: verification_condition where
  "sample_condition = \<lparr>vc_id = ''patched'', vc_title = [], vc_predicate = FieldEquals ''db'' ''status'' (JStr ''patched''),
     vc_temporal = default_temporal, vc_level = Semantic_Health, vc_required = True\<rparr>"

definition sample_plan :: "action_instance list \<Rightarrow> recovery_plan" where
  "sample_plan as = \<lparr>plan_id = ''plan:1'', plan_incident_id = None, plan_environment_id = None,
     plan_operation_type = Op_Recovery, plan_objective_id = ''objective'', plan_target_invariant_ids = [],
     plan_protected_invariant_ids = [], plan_actions = as,
     plan_verification_condition_ids = [], plan_verification_conditions = [sample_condition], plan_mode = Guarded_Execution,
     plan_policy_id = None, plan_assumptions = [], plan_unsupported_assumptions = [],
     plan_created_at_iso = None, plan_metadata = []\<rparr>"

definition sample_policy :: execution_policy where
  "sample_policy = \<lparr>pol_id = ''policy'', pol_title = [], pol_environment_classes = {}, pol_allowed_risk_classes = {R0},
     pol_allowed_action_type_ids = {}, pol_denied_action_type_ids = {}, pol_required_approvals_by_risk = [],
     pol_maximum_concurrent_actions = 1, pol_require_checkpoint_for_risk = {}, pol_require_target_fingerprint = False,
     pol_allowed_target_patterns = [], pol_mutation_budget = None, pol_maintenance_windows = [],
     pol_capability_grants = {}, pol_break_glass_allowed = False, pol_metadata = []\<rparr>"

definition sample_runtime :: runtime where
  "sample_runtime = \<lparr>run_actions = new_action_catalog\<lparr>reg_items := [(''demo.patch.v1'', sample_type)]\<rparr>,
     run_executors = map (\<lambda>x. (ex_id x, x)) (default_executors sample_env)\<rparr>"

definition sample_context :: runtime_context where
  "sample_context = \<lparr>ctx_policy = \<lparr>pc_environment_class = ''test'', pc_environment_fingerprint = None,
       pc_expected_fingerprint = None, pc_capabilities = {}, pc_mutation_count = 0, pc_break_glass = False,
       pc_execution_mode = ''simulation''\<rparr>,
     ctx_execution = \<lparr>ec_operation_id = ''operation:e:1'', ec_mode = ''simulation'', ec_environment_id = ''e'',
       ec_working_directory = None, ec_environment = [], ec_executable_allowlist = {},
       ec_command_timeout_seconds = 120, ec_metadata = []\<rparr>,
     ctx_world = rs_world, ctx_relationships = (\<lambda>_. [])\<rparr>"

definition sample_operation :: "action_instance list \<Rightarrow> operation_run" where
  "sample_operation as = created_operation ''e'' (sample_plan as) Guarded_Execution [] ''now''"

definition sample_state :: "world \<Rightarrow> rt_state" where
  "sample_state w = \<lparr>rs_clock = 0, rs_calls = [], rs_world = w, rs_journal = \<lparr>jr_root = ''r'', jr_files = []\<rparr>\<rparr>"

section \<open>Evaluation\<close>

text \<open>A computation is unfolded only once the state it runs on is known, so that evaluation does not
  unfold the continuations of a bind before their argument is there; and the first instant is rendered
  by its literal.\<close>

lemmas effects_code [code] =
  rt_raise_def [THEN fun_cong] rt_then_def [THEN fun_cong] rt_now_iso_def [THEN fun_cong]
  rt_foreach.simps [THEN fun_cong] rt_map.simps [THEN fun_cong]

lemmas executors_code [code] =
  default_effects_def [THEN fun_cong] apply_effect_def [THEN fun_cong]
  simulation_effects_def [THEN fun_cong] simulation_execute_def [THEN fun_cong]
  dry_run_execute_def [THEN fun_cong] wait_execute_def [THEN fun_cong]
  spawn_process_def [THEN fun_cong] started_receipt_def [THEN fun_cong]
  port_forward_execute_def [THEN fun_cong] stop_process_def [THEN fun_cong]
  local_process_execute_def [THEN fun_cong] safe_command_execute_def [THEN fun_cong]
  run_checked_def [THEN fun_cong] delete_terminal_job_def [THEN fun_cong]
  kubectl_execute_def [THEN fun_cong]

lemmas runtime_code [code] =
  make_event_def [THEN fun_cong] add_event_def [THEN fun_cong] touch_def [THEN fun_cong]
  save_return_def [THEN fun_cong] runtime_create_def [THEN fun_cong] add_approval_def [THEN fun_cong]
  decide_def [THEN fun_cong] runtime_authorize_def [THEN fun_cong]
  set_action_status_def [THEN fun_cong] runtime_checkpoint_def [THEN fun_cong]
  already_satisfied_def [THEN fun_cong] fail_operation_def [THEN fun_cong]
  attempt_loop.simps [THEN fun_cong] execute_action_def [THEN fun_cong]
  append_receipt_def [THEN fun_cong] rollback_receipts.simps [THEN fun_cong]
  runtime_rollback_def [THEN fun_cong] perform_action_def [THEN fun_cong]
  tolerate_failure_def [THEN fun_cong] pause_after_failure_def [THEN fun_cong]
  run_loop.simps [THEN fun_cong] verify_def [THEN fun_cong] finish_seal_def [THEN fun_cong]
  seal_def [THEN fun_cong] verify_external_def [THEN fun_cong] start_operation_def [THEN fun_cong]
  finish_run_def [THEN fun_cong] runtime_run_def [THEN fun_cong] runtime_cancel_def [THEN fun_cong]
  runtime_pause_def [THEN fun_cong] runtime_resume_def [THEN fun_cong]
  reconcile_external_receipts_def [THEN fun_cong]

lemma epoch: "isoformat 0 = ''0001-01-01T00:00:00+00:00''"
proof -
  have y: "year_of 0 = 1" by (simp add: year_of_def year_from.simps [of 0] days_before_year_def)
  have m: "month_from (Suc 0) 0 (Suc 0) = Suc 0" by (simp add: month_from.simps [of "Suc 0" 0 "Suc 0"] days_in_month_def)
  have d: "ord2ymd 0 = (1, 1, 1)" by (simp add: ord2ymd_def y m days_before_year_def)
  have c: "char_of (48 :: nat) = CHR ''0''" "char_of (49 :: nat) = CHR ''1''" by code_simp+
  have digits: "pad 4 n = pad (Suc (Suc (Suc (Suc 0)))) n" "pad 2 n = pad (Suc (Suc 0)) n" for n
    by (simp_all only: eval_nat_numeral BitM.simps One_nat_def)
  have p: "pad 4 (Suc 0) = ''0001''" "pad 2 (Suc 0) = ''01''" "pad 2 0 = ''00''"
    unfolding digits pad.simps by (simp_all add: c digit_char_def)
  show ?thesis by (simp add: isoformat_def d p)
qed

lemma isoformat_code [code]:
  "isoformat t =
     (if t = 0 then ''0001-01-01T00:00:00+00:00''
      else (let u = nat t; us = u mod 1000000; s = u div 1000000; sod = s mod 86400;
              (y, m, d) = ord2ymd (s div 86400)
            in pad 4 y @ ''-'' @ pad 2 m @ ''-'' @ pad 2 d @ ''T'' @
               pad 2 (sod div 3600) @ '':'' @ pad 2 (sod div 60 mod 60) @ '':'' @ pad 2 (sod mod 60) @
               (if us = 0 then [] else ''.'' @ pad 6 us) @ ''+00:00''))"
proof (cases "t = 0")
  case True
  show ?thesis unfolding True epoch by (simp only: if_True simp_thms)
next
  case False
  with isoformat_def [of t] show ?thesis by (simp only: if_False)
qed

section \<open>A run\<close>

definition patched_world :: world where
  "patched_world = [(''db'', [(''status'', JStr ''patched'')])]"

definition sample_run :: "operation_run res \<times> rt_state" where
  "sample_run = runtime_run sample_env sample_runtime (sample_operation []) sample_policy sample_context
     None True (sample_state patched_world)"

lemma sample_run_completes: "case sample_run of (Inr op, s) \<Rightarrow> op_status op = St_Completed | _ \<Rightarrow> False"
  by code_simp

lemma sample_runtime_good: "good_registry (run_executors sample_runtime)"
  using default_registry_good [OF default_registry_eq] by (simp add: sample_runtime_def)

section \<open>A rollback\<close>

text \<open>The action type is its own rollback, and the operation has executed action \<open>a\<close>.\<close>

definition rollback_runtime :: runtime where
  "rollback_runtime = sample_runtime
     \<lparr>run_actions := new_action_catalog\<lparr>reg_items :=
        [(''demo.patch.v1'', sample_type\<lparr>at_rollback_action_type_id := Some ''demo.patch.v1''\<rparr>)]\<rparr>\<rparr>"

definition sample_receipt :: "string \<Rightarrow> action_receipt" where
  "sample_receipt i = base_receipt ''1'' ''operation:e:1'' (sample_action i []) ''simulation'' Rc_Completed 1 [] []"

definition rolled_operation :: operation_run where
  "rolled_operation = (sample_operation [sample_action ''a'' []])\<lparr>op_action_receipts := [sample_receipt ''a'']\<rparr>"

definition sample_rollback :: "operation_run res \<times> rt_state" where
  "sample_rollback = runtime_rollback sample_env rollback_runtime rolled_operation sample_context (sample_state [])"

lemma sample_rollback_result:
  "case sample_rollback of (Inr op, s) \<Rightarrow> length (op_action_receipts op) = 2 | _ \<Rightarrow> False"
  by code_simp

lemma rollback_runtime_good: "good_registry (run_executors rollback_runtime)"
  using sample_runtime_good by (simp add: rollback_runtime_def)

section \<open>A command\<close>

definition docker_type :: action_type where
  "docker_type = sample_type\<lparr>at_id := ''docker.container.start.v1'', at_executor_id := ''docker.cli'',
     at_parameter_schema := [(''required'', JList [JStr ''container'']),
       (''properties'', JObj [(''container'', JObj [(''type'', JStr ''string'')])])]\<rparr>"

definition docker_catalog :: action_catalog where
  "docker_catalog = new_action_catalog\<lparr>reg_items := [(''docker.container.start.v1'', docker_type)]\<rparr>"

definition sample_docker_action :: action_instance where
  "sample_docker_action = (sample_action ''a'' [])\<lparr>act_type_id := ''docker.container.start.v1'',
     act_parameters := [(''container'', JStr ''db'')]\<rparr>"

definition sample_docker_context :: execution_context where
  "sample_docker_context = (ctx_execution sample_context)\<lparr>ec_executable_allowlist := {''docker''}\<rparr>"

lemma sample_docker_call:
  "rs_calls (snd (safe_command_execute sample_env ''docker.cli'' (docker_builder sample_env) sample_docker_action
     sample_type sample_docker_context 1 (sample_state []))) =
   [command_call [''docker'', ''start'', ''db''] sample_type sample_docker_context]"
  by code_simp

definition sample_approval :: "approval_outcome \<Rightarrow> approval_record" where
  "sample_approval dec = \<lparr>appr_id = ''approval'', appr_operation_id = ''operation:e:1'', appr_action_id = None,
     appr_approver_id = ''alice'', appr_decision = dec, appr_reason = [], appr_granted_at_iso = [],
     appr_expires_at_iso = None, appr_policy_id = None, appr_metadata = []\<rparr>"

section \<open>A dispatcher\<close>

definition sample_agent :: agent where
  "sample_agent = \<lparr>ag_id = ''g'', ag_organization_id = ''o'', ag_workspace_id = ''w'', ag_name = ''agent'',
     ag_status = Ag_Online, ag_capabilities = {}, ag_supported_executor_ids = {''docker.cli''},
     ag_environment_ids = {}, ag_labels = [], ag_max_concurrency = 1, ag_lease_ttl_seconds = 60,
     ag_public_identity = None, ag_registered_at_iso = [], ag_last_heartbeat_at_iso = None, ag_metadata = []\<rparr>"

definition sample_task :: task where
  "sample_task = \<lparr>tk_id = ''t'', tk_organization_id = ''o'', tk_workspace_id = ''w'', tk_operation_id = ''op'',
     tk_action_id = ''a'', tk_environment_id = ''e'', tk_action_type_id = ''docker.container.start.v1'',
     tk_executor_id = ''docker.cli'', tk_required_capabilities = {}, tk_target_fingerprint = None,
     tk_status = Tk_Queued, tk_priority = 0, tk_attempt = 1, tk_max_attempts = 1, tk_not_before_iso = None,
     tk_deadline_iso = None, tk_assigned_agent_id = None, tk_idempotency_key = None, tk_payload = [],
     tk_payload_hash = [], tk_created_at_iso = [], tk_updated_at_iso = [], tk_metadata = []\<rparr>"

definition sample_queued :: dispatcher where
  "sample_queued = snd (enqueue sample_task (snd (register_agent sample_agent new_dispatcher)))"

definition sample_leased :: dispatcher where
  "sample_leased = snd (dispatch ''u'' ''1'' ''n'' 0 ''t'' sample_queued)"

lemma sample_queued_eq:
  "sample_queued = \<lparr>di_agents = [(''g'', sample_agent)], di_tasks = [(''t'', sample_task)], di_leases = []\<rparr>"
  by (simp add: sample_queued_def enqueue_def register_agent_def new_dispatcher_def sample_agent_def sample_task_def)

lemma minute_valid: "valid_instant 60000000"
  by (simp add: valid_instant_def max_instant_def us_per_day_def)

definition sample_lease :: lease where
  "sample_lease = \<lparr>ls_id = ''lease:1'', ls_task_id = ''t'', ls_agent_id = ''g'', ls_status = Ls_Active,
     ls_acquired_at_iso = isoformat 0, ls_expires_at_iso = isoformat 60000000, ls_heartbeat_at_iso = isoformat 0,
     ls_nonce = ''n'', ls_metadata = []\<rparr>"

lemma sample_dispatch_eq:
  "dispatch ''u'' ''1'' ''n'' 0 ''t'' sample_queued =
     (Inr (decision ''u'' 0 ''t'' Assigned (Some ''g'') [''g''] [''selected least-loaded compatible online executor''],
        Some sample_lease),
      \<lparr>di_agents = [(''g'', sample_agent)],
       di_tasks = [(''t'', sample_task\<lparr>tk_status := Tk_Leased, tk_assigned_agent_id := Some ''g'',
         tk_updated_at_iso := isoformat 0\<rparr>)], di_leases = [(''lease:1'', sample_lease)]\<rparr>)"
  by (simp add: sample_queued_eq dispatch_def optional_instant_def compatible_def available_capacity_def
      active_count_def assign_def ranked_def after_ttl_def seconds_def minute_valid lease_key_def Let_def
      sample_agent_def sample_task_def sample_lease_def py_int_def dget_default_def)

lemma sample_dispatch:
  "\<exists>dec l. dispatch ''u'' ''1'' ''n'' 0 ''t'' sample_queued = (Inr (dec, Some l), sample_leased) \<and> ls_agent_id l = ''g''"
  unfolding sample_leased_def sample_dispatch_eq by (simp add: sample_lease_def)

lemma sample_leased_agent: "dget (di_agents sample_leased) ''g'' = Some sample_agent"
  unfolding sample_leased_def sample_dispatch_eq by simp

lemma sample_queued_reachable: "disp_step\<^sup>*\<^sup>* new_dispatcher sample_queued"
proof -
  have "disp_step new_dispatcher (snd (register_agent sample_agent new_dispatcher))"
    by (rule Step_Register) (simp add: sample_agent_def valid_agent_def)
  moreover have "disp_step (snd (register_agent sample_agent new_dispatcher)) sample_queued"
    unfolding sample_queued_def by (rule Step_Enqueue) (simp add: sample_task_def validate_attempts_def)
  ultimately show ?thesis by (meson r_into_rtranclp rtranclp.rtrancl_into_rtrancl)
qed

lemma sample_leased_reachable: "disp_step\<^sup>*\<^sup>* new_dispatcher sample_leased"
proof -
  have "disp_step sample_queued sample_leased"
    unfolding sample_leased_def by (rule Step_Dispatch) (simp add: sample_queued_eq)
  then show ?thesis by (rule rtranclp.rtrancl_into_rtrancl [OF sample_queued_reachable])
qed

lemma sample_queued_inv: "disp_inv sample_queued"
  by (rule dispatcher_machine.reach_inv [OF refl sample_queued_reachable])

lemma sample_leased_inv: "disp_inv sample_leased"
  by (rule dispatcher_machine.reach_inv [OF refl sample_leased_reachable])

lemma sample_complete: "\<exists>t d'. complete ''lease:1'' ''n'' True 0 sample_leased = (Inr t, d')"
  unfolding sample_leased_def sample_dispatch_eq
  by (simp add: complete_def active_lease_def sample_lease_def isoformat_roundtrip [OF minute_valid] Let_def)

section \<open>Tenancy and governance\<close>

definition sample_grant :: role_grant where
  "sample_grant = \<lparr>gr_id = ''grant'', gr_principal_id = ''alice'', gr_role = Operator,
     gr_scope_type = Scope_Workspace, gr_scope_id = ''w'', gr_capabilities = {}, gr_environment_classes = {},
     gr_granted_by = None, gr_granted_at_iso = [], gr_expires_at_iso = None, gr_active = True, gr_metadata = []\<rparr>"

definition sample_binding :: scope_binding where
  "sample_binding = \<lparr>sb_child_type = Scope_Environment, sb_child_id = ''e'',
     sb_parent_type = Scope_Workspace, sb_parent_id = ''w''\<rparr>"

definition sample_request :: authz_request where
  "sample_request = \<lparr>rq_id = ''request'', rq_principal_id = ''alice'', rq_action = ''operate'',
     rq_scope_type = Scope_Environment, rq_scope_id = ''e'', rq_required_roles = {Operator},
     rq_required_capabilities = {''operation.execute''}, rq_environment_class = None, rq_resource_id = None,
     rq_context = []\<rparr>"

lemma sample_grant_active: "grant_active 0 sample_grant = Inr True"
  by (simp add: grant_active_def sample_grant_def)

lemma sample_authz: "\<exists>dec. authz_evaluate [sample_grant] [sample_binding] ''u'' ''now'' 0 sample_request = Inr dec"
  by (simp add: authz_evaluate_def sample_grant_active Let_def)

lemma sample_grant_effective: "effective_grant 0 [sample_binding] sample_request sample_grant"
proof -
  have "((Scope_Environment, ''e''), (Scope_Workspace, ''w'')) \<in> scope_rel [sample_binding]"
    by (simp add: scope_rel_def sample_binding_def)
  then have "(Scope_Workspace, ''w'') \<in> (scope_rel [sample_binding])\<^sup>* `` {(Scope_Environment, ''e'')}" by blast
  then show ?thesis
    by (auto simp: effective_grant_def sample_grant_active covers_def)
      (auto simp: sample_request_def sample_grant_def)
qed

definition sample_rate_rule :: rate_rule where
  "sample_rate_rule = \<lparr>rr_id = ''rate'', rr_scope_type = ''workspace'', rr_scope_id = ''w'', rr_operation = ''*'',
     rr_limit = 2, rr_window_seconds = 60, rr_burst = 0, rr_enabled = True\<rparr>"

text \<open>Two admissions recorded, one of them at the very start of the window.\<close>

definition sample_limiter :: limiter where
  "sample_limiter = (new_limiter [sample_rate_rule] [])\<lparr>lim_usage := [(''rate'', [0, 30000000])]\<rparr>"

definition sample_limit_request :: limit_request where
  "sample_limit_request = \<lparr>lq_scope_type = ''workspace'', lq_scope_id = ''w'', lq_operation = ''create'', lq_active_count = 0\<rparr>"

lemma sample_limiter_wf: "wf_limiter sample_limiter"
  by (simp add: wf_limiter_def sample_limiter_def new_limiter_def sample_rate_rule_def dget_default_def)

lemma sample_limited:
  "\<exists>dec L'. limiter_evaluate ''u'' 60000000 sample_limit_request sample_limiter = (Inr dec, L') \<and>
     gd_outcome dec = Gov_Allow"
proof -
  have "valid_instant 0" by (simp add: valid_instant_def max_instant_def us_per_day_def)
  then show ?thesis
    by (simp add: limiter_evaluate_def sample_limiter_def new_limiter_def sample_rate_rule_def
        sample_limit_request_def rate_match_def window_start_def seconds_def trim_def dget_default_def Let_def)
qed

definition sample_event :: audit_event where
  "sample_event = \<lparr>au_event_id = [], au_sequence = 0, au_organization_id = ''o'', au_workspace_id = ''w'',
     au_principal_id = ''alice'', au_action = ''operate'', au_resource_type = ''operation'', au_resource_id = ''op'',
     au_outcome = ''success'', au_occurred_at_iso = [], au_request_id = None, au_source_ip = None,
     au_user_agent = None, au_details = [], au_previous_hash = None, au_event_hash = []\<rparr>"

definition sample_retention :: retention_policy where
  "sample_retention = \<lparr>rp_policy_id = ''retention'', rp_organization_id = ''o'', rp_scope_type = ''workspace'',
     rp_scope_id = ''w'', rp_artifact_retention_days = 1, rp_audit_retention_days = 1, rp_snapshot_retention_days = 1,
     rp_incident_retention_days = 1, rp_operation_retention_days = 1, rp_preserve_failed_operations = True,
     rp_preserve_certificates = True, rp_legal_hold_labels = [], rp_enabled = True, rp_metadata = []\<rparr>"

definition sample_resource :: fields where
  "sample_resource = [(''resource_type'', JStr ''artifact''), (''resource_id'', JStr ''x''),
     (''created_at_iso'', JStr (isoformat 0)), (''size_bytes'', JInt 10)]"

lemma sample_created: "parse_iso (isoformat 0) = Inr 0"
  by (rule isoformat_roundtrip) (simp add: valid_instant_def max_instant_def us_per_day_def)

lemma sample_candidate:
  "\<exists>c. retention_candidate_of sample_env 200000000000 sample_retention sample_resource = Inr c"
  by (simp add: retention_candidate_of_def sample_resource_def sample_retention_def field_of_def py_str_def
      sample_created labels_of_def retention_days_def valid_instant_def max_instant_def us_per_day_def
      py_int_def dget_default_def Let_def)

lemma sample_expired:
  "\<exists>ty created labels. field_of sample_resource ''resource_type'' = Inr ty \<and>
     res_bind (field_of sample_resource ''created_at_iso'') (\<lambda>v. parse_iso (py_str sample_env v)) = Inr created \<and>
     labels_of sample_resource = Inr labels \<and>
     protection_reasons sample_retention (py_str sample_env ty) sample_resource labels = [] \<and>
     created + retention_days sample_retention (py_str sample_env ty) * us_per_day \<le> 200000000000"
  by (simp add: sample_resource_def sample_retention_def field_of_def py_str_def sample_created labels_of_def
      protection_reasons_def retention_days_def us_per_day_def dget_default_def legal_hold_def)

end
