(* ===== verification/Fleet.thy ===== *)
theory Fleet
  imports PyValue
begin

text \<open>
  \<open>models/fleet.py\<close> and \<open>fleet/service.py\<close>: fleets of environments, their assessment with common causes
  and the waves of an operation over a fleet. Fresh identifiers and the instant are arguments. Shown:
  the waves contain each member once, respect the dependencies and the bound on parallel operations,
  and the warning of a cycle is given exactly for cyclic dependencies; the status of an assessment.
\<close>

section \<open>The data\<close>

datatype fleet_status = Fl_Healthy | Fl_Degraded | Fl_Unavailable | Fl_Recovering | Fl_Unknown | Fl_Quiesced

definition fleet_status_name :: "fleet_status \<Rightarrow> string" where
  "fleet_status_name s = (case s of Fl_Healthy \<Rightarrow> ''healthy'' | Fl_Degraded \<Rightarrow> ''degraded''
     | Fl_Unavailable \<Rightarrow> ''unavailable'' | Fl_Recovering \<Rightarrow> ''recovering'' | Fl_Unknown \<Rightarrow> ''unknown''
     | Fl_Quiesced \<Rightarrow> ''quiesced'')"

record fleet_member =
  fm_environment_id :: string
  fm_required_profile_ids :: "string list"
  fm_criticality :: string
  fm_failure_domain :: "string option"
  fm_labels :: "(string, string) dict"

record fleet_dependency =
  fd_id :: string
  fd_source :: string
  fd_target :: string
  fd_relationship_type :: string
  fd_required_profile_id :: "string option"
  fd_maximum_unavailability_seconds :: "nat option"
  fd_metadata :: fields

record fleet =
  fl_id :: string
  fl_organization_id :: string
  fl_workspace_id :: string
  fl_name :: string
  fl_members :: "fleet_member list"
  fl_dependencies :: "fleet_dependency list"
  fl_max_parallel :: int
  fl_active :: bool
  fl_labels :: "(string, string) dict"
  fl_metadata :: fields

record environment_status =
  es_environment_id :: string
  es_status :: fleet_status
  es_profile_statuses :: "(string, string) dict"
  es_active_incident_ids :: "string list"
  es_active_operation_ids :: "string list"
  es_source_snapshot_id :: "string option"
  es_observed_at_iso :: "string option"
  es_reasons :: "string list"

record common_cause =
  cc_id :: string
  cc_family_id :: string
  cc_title :: string
  cc_environment_ids :: "string list"
  cc_confidence :: rat
  cc_shared_factors :: "(string, string) dict"
  cc_evidence :: "string list"

record fleet_assessment =
  fa_id :: string
  fa_fleet_id :: string
  fa_status :: fleet_status
  fa_generated_at_iso :: string
  fa_environments :: "environment_status list"
  fa_common_causes :: "common_cause list"
  fa_dependency_violations :: "string list"
  fa_summary :: "(string, nat) dict"

record fleet_wave =
  fw_index :: nat
  fw_environment_ids :: "string list"
  fw_rationale :: "string list"

record fleet_plan =
  fp_id :: string
  fp_fleet_id :: string
  fp_operation_type :: string
  fp_created_at_iso :: string
  fp_waves :: "fleet_wave list"
  fp_max_parallel :: int
  fp_warnings :: "string list"

text \<open>The validators of the models; a fleet that exists has passed them.\<close>

definition reject_self_dependency :: "fleet_dependency \<Rightarrow> fleet_dependency res" where
  "reject_self_dependency d =
     (if fd_source d = fd_target d
      then raise ValueError ''fleet dependencies must connect distinct environments'' else Inr d)"

definition validate_members :: "fleet \<Rightarrow> fleet res" where
  "validate_members f =
     (let ids = map fm_environment_id (fl_members f); member_ids = set ids in
      if length ids \<noteq> card member_ids then raise ValueError ''fleet member environment IDs must be unique''
      else if list_ex (\<lambda>d. fd_source d \<notin> member_ids \<or> fd_target d \<notin> member_ids) (fl_dependencies f)
      then raise ValueError ''fleet dependency must reference fleet members''
      else Inr f)"

definition valid_fleet :: "fleet \<Rightarrow> bool" where
  "valid_fleet f \<longleftrightarrow> validate_members f = Inr f \<and> fl_max_parallel f \<ge> 1 \<and>
     list_all (\<lambda>d. reject_self_dependency d = Inr d) (fl_dependencies f)"

section \<open>Assessment\<close>

definition status_order :: "(fleet_status, nat) dict" where
  "status_order = [(Fl_Healthy, 0), (Fl_Quiesced, 0), (Fl_Recovering, 1), (Fl_Degraded, 2), (Fl_Unknown, 3),
     (Fl_Unavailable, 4)]"

text \<open>\<open>next(key for key, value in _STATUS_ORDER.items() if value == worst)\<close>.\<close>

definition status_of_rank :: "nat \<Rightarrow> fleet_status res" where
  "status_of_rank n =
     (case find (\<lambda>(k, v). v = n) status_order of
        None \<Rightarrow> raise StopIteration [] | Some (k, v) \<Rightarrow> Inr k)"

definition unknown_status :: "string \<Rightarrow> environment_status" where
  "unknown_status e = \<lparr>es_environment_id = e, es_status = Fl_Unknown, es_profile_statuses = [],
     es_active_incident_ids = [], es_active_operation_ids = [], es_source_snapshot_id = None,
     es_observed_at_iso = None, es_reasons = [''no current fleet observation'']\<rparr>"

definition by_environment :: "environment_status list \<Rightarrow> (string, environment_status) dict" where
  "by_environment sts = dict_of (map (\<lambda>s. (es_environment_id s, s)) sts)"

definition environment_statuses :: "fleet \<Rightarrow> environment_status list \<Rightarrow> environment_status list" where
  "environment_statuses f sts =
     sts @ map unknown_status (filter (\<lambda>e. e \<notin> fst ` set (by_environment sts))
       (map fm_environment_id (fl_members f)))"

definition target_ok :: "environment_status list \<Rightarrow> fleet_dependency \<Rightarrow> bool" where
  "target_ok sts d =
     (case dget (by_environment sts) (fd_target d) of
        None \<Rightarrow> False | Some s \<Rightarrow> es_status s \<in> {Fl_Healthy, Fl_Recovering, Fl_Quiesced})"

definition dependency_violations :: "fleet \<Rightarrow> environment_status list \<Rightarrow> string list" where
  "dependency_violations f sts =
     map (\<lambda>d. fd_source d @ '' depends on unhealthy '' @ fd_target d @ '' via '' @ fd_relationship_type d)
       (filter (\<lambda>d. \<not> target_ok sts d) (fl_dependencies f))"

text \<open>\<open>Counter\<close>s as dictionaries; \<open>by_family\<close> collects the environments of each incident family.\<close>

definition count_up :: "'k \<Rightarrow> ('k, nat) dict \<Rightarrow> ('k, nat) dict" where
  "count_up k d = dset k (Suc (dget_default d k 0)) d"

definition counter :: "'k list \<Rightarrow> ('k, nat) dict" where
  "counter ks = foldl (\<lambda>d k. count_up k d) [] ks"

definition family_pairs :: "(string, string list) dict \<Rightarrow> environment_status list \<Rightarrow> (string \<times> string) list" where
  "family_pairs families sts =
     concat (map (\<lambda>s. map (\<lambda>f. (f, es_environment_id s))
       (dget_default families (es_environment_id s) [])) sts)"

definition by_family :: "(string \<times> string) list \<Rightarrow> (string, string list) dict" where
  "by_family ps = foldl (\<lambda>d (f, e). dset f (dget_default d f [] @ [e]) d) [] ps"

definition shared_of :: "(string, (string, string) dict) dict \<Rightarrow> string list \<Rightarrow> (string, string) dict" where
  "shared_of factors envs =
     (let counts = counter (concat (map (\<lambda>e. dget_default factors e []) envs)) in
      dict_of (map fst (filter (\<lambda>(kv, n). n = length envs) counts)))"

definition confidence_of :: "nat \<Rightarrow> nat \<Rightarrow> rat" where
  "confidence_of n m = min (99 / 100) (6 / 10 + 1 / 10 * of_nat n + 5 / 100 * of_nat m)"

definition common_cause_of ::
    "(string, (string, string) dict) dict \<Rightarrow> string \<Rightarrow> string \<Rightarrow> string list \<Rightarrow> common_cause" where
  "common_cause_of factors uid family unique =
     (let shared = shared_of factors unique in
      \<lparr>cc_id = ''common-cause:'' @ uid, cc_family_id = family,
       cc_title = family @ '' affects '' @ nat_str (length unique) @ '' environments'',
       cc_environment_ids = unique, cc_confidence = confidence_of (length unique) (length shared),
       cc_shared_factors = shared,
       cc_evidence = map (\<lambda>e. ''family '' @ family @ '' observed in '' @ e) unique\<rparr>)"

text \<open>The findings draw their identifiers from \<open>uids\<close> one after the other.\<close>

definition common_causes ::
    "(nat \<Rightarrow> string) \<Rightarrow> environment_status list \<Rightarrow> (string, string list) dict \<Rightarrow>
     (string, (string, string) dict) dict \<Rightarrow> common_cause list" where
  "common_causes uids sts families factors =
     (let fams = by_family (family_pairs families sts);
          groups = map (\<lambda>(f, es). (f, sorted_set (set es))) (sort_key fst fams);
          affected = filter (\<lambda>(f, es). \<not> length es < 2) groups
      in map (\<lambda>(i, f, es). common_cause_of factors (uids i) f es) (List.enumerate 0 affected))"

definition worst_rank :: "environment_status list \<Rightarrow> nat" where
  "worst_rank sts =
     (if sts = [] then 3 else foldl max 0 (map (\<lambda>s. dget_default status_order (es_status s) 3) sts))"

definition fleet_assess ::
    "(nat \<Rightarrow> string) \<Rightarrow> string \<Rightarrow> fleet \<Rightarrow> environment_status list \<Rightarrow> (string, string list) dict \<Rightarrow>
     (string, (string, string) dict) dict \<Rightarrow> fleet_assessment res" where
  "fleet_assess uids now_iso f sts families factors =
     (let all = environment_statuses f sts;
          violations = dependency_violations f sts;
          causes = common_causes uids all families factors in
      res_bind (status_of_rank (worst_rank all)) (\<lambda>st.
        let status = (if violations \<noteq> [] \<and> st = Fl_Healthy then Fl_Degraded else st);
            counts = counter (map (\<lambda>s. fleet_status_name (es_status s)) all) in
        Inr \<lparr>fa_id = ''fleet-assessment:'' @ uids (length causes), fa_fleet_id = fl_id f, fa_status = status,
             fa_generated_at_iso = now_iso, fa_environments = sort_key es_environment_id all,
             fa_common_causes = causes, fa_dependency_violations = violations,
             fa_summary = sort_key fst counts\<rparr>))"

section \<open>The waves of an operation\<close>

type_synonym edges = "(string, string set) dict"

text \<open>A shutdown goes against the dependencies: the dependent environment first.\<close>

definition oriented :: "string \<Rightarrow> fleet_dependency \<Rightarrow> string \<times> string" where
  "oriented op d = (if op = ''shutdown'' then (fd_source d, fd_target d) else (fd_target d, fd_source d))"

fun link :: "(string \<times> string) list \<Rightarrow> edges \<times> (string, int) dict \<Rightarrow> (edges \<times> (string, int) dict) res" where
  "link [] st = Inr st"
| "link ((source, target) # ls) (outgoing, indegree) =
     (case dget outgoing source of
        None \<Rightarrow> raise KeyError source
      | Some ts \<Rightarrow>
          if target \<in> ts then link ls (outgoing, indegree)
          else (case dget indegree target of
                  None \<Rightarrow> raise KeyError target
                | Some n \<Rightarrow> link ls (dset source (insert target ts) outgoing, dset target (n + 1) indegree)))"

text \<open>After \<open>link\<close> every key that is used is present.\<close>

definition release_target :: "(string, int) dict \<times> string list \<Rightarrow> string \<Rightarrow> (string, int) dict \<times> string list" where
  "release_target st t =
     (case st of (indegree, ready) \<Rightarrow>
        let n = dget_default indegree t 0 - 1 in
        (dset t n indegree, if n = 0 then ready @ [t] else ready))"

definition release :: "edges \<Rightarrow> (string, int) dict \<times> string list \<Rightarrow> string \<Rightarrow> (string, int) dict \<times> string list" where
  "release outgoing st x = foldl release_target st (sorted_set (dget_default outgoing x {}))"

definition open_keys :: "(string, int) dict \<Rightarrow> nat" where
  "open_keys d = card {k \<in> fst ` set d. dget_default d k 0 > 0}"

lemma release_target_measure:
  "open_keys (fst (release_target st t)) + length (snd (release_target st t)) \<le>
     open_keys (fst st) + length (snd st)"
proof -
  obtain d ready where st: "st = (d, ready)" by (cases st)
  let ?n = "dget_default d t 0 - 1" and ?P = "\<lambda>d. {k \<in> fst ` set d. dget_default d k 0 > 0}"
  have sub: "?P (dset t ?n d) \<subseteq> ?P d"
    by (auto simp: dget_default_def dict_simps dget_in_keys split: if_splits option.splits)
  have fin: "finite (?P d)" by simp
  show ?thesis
  proof (cases "?n = 0")
    case True
    then have "t \<in> ?P d" "t \<notin> ?P (dset t ?n d)"
      by (auto simp: dget_default_def dict_simps dget_in_keys split: option.splits)
    with sub have "?P (dset t ?n d) \<subset> ?P d" by blast
    then have "open_keys (dset t ?n d) < open_keys d"
      unfolding open_keys_def by (rule psubset_card_mono [OF fin])
    with True show ?thesis by (simp add: release_target_def st)
  next
    case False
    have "open_keys (dset t ?n d) \<le> open_keys d"
      unfolding open_keys_def by (rule card_mono [OF fin sub])
    with False show ?thesis by (simp add: release_target_def st Let_def)
  qed
qed

lemma foldl_measure_le:
  "(\<And>s x. m (f s x) \<le> (m s :: nat)) \<Longrightarrow> m (foldl f s xs) \<le> m s"
  by (induction xs arbitrary: s) (auto intro: le_trans)

lemma release_measure:
  "open_keys (fst (foldl (release out) st xs)) + length (snd (foldl (release out) st xs)) \<le>
     open_keys (fst st) + length (snd st)"
proof -
  let ?m = "\<lambda>st. open_keys (fst st) + length (snd st)"
  have "?m (release out st x) \<le> ?m st" for st x
    unfolding release_def by (rule foldl_measure_le) (rule release_target_measure)
  then show ?thesis by (rule foldl_measure_le)
qed

text \<open>With no room in a batch (\<open>k \<le> 0\<close>, which the model of a fleet rules out) the loop would not end:
  that is \<open>None\<close>.\<close>

function waves_from :: "int \<Rightarrow> edges \<Rightarrow> (string, int) dict \<Rightarrow> string list \<Rightarrow> string list list option" where
  "waves_from k outgoing indegree ready =
     (if ready = [] then Some []
      else if k \<le> 0 then None
      else (case foldl (release outgoing) (indegree, drop (nat k) ready) (take (nat k) ready) of
              (indegree', ready') \<Rightarrow> map_option ((#) (take (nat k) ready)) (waves_from k outgoing indegree' ready')))"
  by pat_completeness auto

termination
proof (relation "measure (\<lambda>(k, out, indegree, ready). open_keys indegree + length ready)", goal_cases)
  case (2 k out d ready d' ready')
  have "open_keys d' + length ready' \<le> open_keys d + length (drop (nat k) ready)"
    using release_measure [of out "(d, drop (nat k) ready)" "take (nat k) ready"]
    unfolding 2(3) [symmetric] by simp
  moreover have "length (drop (nat k) ready) < length ready" using 2(1,2) by (cases ready) auto
  ultimately show ?case by simp
qed simp

declare waves_from.simps [simp del]

definition operation_types :: "string set" where
  "operation_types = {''startup'', ''shutdown'', ''maintenance'', ''recovery'', ''verification''}"

definition wave_at :: "nat \<times> string list \<Rightarrow> fleet_wave" where
  "wave_at w = \<lparr>fw_index = fst w, fw_environment_ids = snd w, fw_rationale = []\<rparr>"

text \<open>\<open>None\<close> stands for a call that does not return.\<close>

definition plan_fleet_operation :: "string \<Rightarrow> string \<Rightarrow> fleet \<Rightarrow> string \<Rightarrow> fleet_plan res option" where
  "plan_fleet_operation uid now_iso f op =
     (let members = set (map fm_environment_id (fl_members f));
          keys = sorted_set members in
      case link (map (oriented op) (fl_dependencies f)) (map (\<lambda>m. (m, {})) keys, map (\<lambda>m. (m, 0)) keys) of
        Inl e \<Rightarrow> Some (Inl e)
      | Inr (outgoing, indegree) \<Rightarrow>
          let ready = sort (map fst (filter (\<lambda>(k, n). n = 0) indegree)) in
          map_option (\<lambda>ws.
            let processed = set (concat ws);
                waves = map wave_at (List.enumerate 0 ws);
                cycle_members = sorted_set (members - processed);
                cyclic = (processed \<noteq> members) in
            if op \<notin> operation_types then raise ValidationError ''operation_type''
            else Inr \<lparr>fp_id = ''fleet-plan:'' @ uid, fp_fleet_id = fl_id f, fp_operation_type = op,
                   fp_created_at_iso = now_iso,
                   fp_waves = waves @ (if cyclic then [\<lparr>fw_index = length waves, fw_environment_ids = cycle_members,
                     fw_rationale = [''manual ordering required due to dependency cycle'']\<rparr>] else []),
                   fp_max_parallel = fl_max_parallel f,
                   fp_warnings = (if cyclic then [''dependency cycle prevents complete wave plan: '' @
                     repr_strs cycle_members] else [])\<rparr>)
            (waves_from (fl_max_parallel f) outgoing indegree ready))"

section \<open>The waves are a schedule\<close>

definition edge_rel :: "edges \<Rightarrow> (string \<times> string) set" where
  "edge_rel out = {(s, t). t \<in> dget_default out s {}}"

lemma in_edge_rel: "(s, t) \<in> edge_rel out \<longleftrightarrow> t \<in> dget_default out s {}"
  by (simp add: edge_rel_def)

lemma dget_default_dset: "dget_default (dset k v d) j w = (if j = k then v else dget_default d j w)"
  by (simp add: dget_default_def dict_simps)

text \<open>The invariant of the loop: \<open>P\<close> are the environments released so far, \<open>indegree\<close> counts the
  predecessors still outstanding, and \<open>ready\<close> holds just those without any.\<close>

definition kahn :: "edges \<Rightarrow> string set \<Rightarrow> string set \<Rightarrow> (string, int) dict \<Rightarrow> string list \<Rightarrow> bool" where
  "kahn out M P d ready \<longleftrightarrow> finite M \<and> edge_rel out \<subseteq> M \<times> M \<and> P \<subseteq> M \<and> fst ` set d = M \<and>
     (\<forall>t \<in> M. dget_default d t 0 = int (card {s. (s, t) \<in> edge_rel out \<and> s \<notin> P})) \<and>
     (\<forall>t \<in> P. \<forall>s. (s, t) \<in> edge_rel out \<longrightarrow> s \<in> P) \<and>
     distinct ready \<and> set ready = {t \<in> M - P. \<forall>s. (s, t) \<in> edge_rel out \<longrightarrow> s \<in> P}"

lemma foldl_release_target:
  "distinct ts \<Longrightarrow> \<exists>d'. foldl release_target (d, Q) ts = (d', Q @ filter (\<lambda>t. dget_default d t 0 = 1) ts) \<and>
     fst ` set d' = fst ` set d \<union> set ts \<and>
     (\<forall>t. dget_default d' t 0 = dget_default d t 0 - (if t \<in> set ts then 1 else 0))"
proof (induction ts arbitrary: d Q)
  case (Cons t ts)
  let ?d = "dset t (dget_default d t 0 - 1) d"
  have same: "filter (\<lambda>u. dget_default ?d u 0 = 1) ts = filter (\<lambda>u. dget_default d u 0 = 1) ts"
    using Cons.prems by (auto simp: dget_default_dset intro!: filter_cong)
  obtain d' where d': "foldl release_target (?d, if dget_default d t 0 = 1 then Q @ [t] else Q) ts =
      (d', (if dget_default d t 0 = 1 then Q @ [t] else Q) @ filter (\<lambda>u. dget_default ?d u 0 = 1) ts)"
    "fst ` set d' = fst ` set ?d \<union> set ts"
    "\<forall>u. dget_default d' u 0 = dget_default ?d u 0 - (if u \<in> set ts then 1 else 0)"
    using Cons.IH [of ?d "if dget_default d t 0 = 1 then Q @ [t] else Q"] Cons.prems by auto
  have "foldl release_target (d, Q) (t # ts) =
      foldl release_target (?d, if dget_default d t 0 = 1 then Q @ [t] else Q) ts"
    by (simp add: release_target_def Let_def)
  then show ?case
    using d' Cons.prems unfolding same by (auto simp: dget_default_dset keys_dset)
qed simp

lemma kahn_release:
  assumes k: "kahn out M P d (x # Q)"
    and r: "foldl release_target (d, R) (sorted_set (dget_default out x {})) = (d', R')"
  shows "\<exists>new. R' = R @ new \<and> kahn out M (insert x P) d' (Q @ new)"
proof -
  let ?ts = "sorted_set (dget_default out x {})"
  let ?open = "\<lambda>P t. {s. (s, t) \<in> edge_rel out \<and> s \<notin> P}"
  let ?new = "filter (\<lambda>t. dget_default d t 0 = 1) ?ts"
  have fin: "finite M" and sub: "edge_rel out \<subseteq> M \<times> M" using k by (auto simp: kahn_def)
  have x: "x \<in> M" "x \<notin> P" "\<And>s. (s, x) \<in> edge_rel out \<Longrightarrow> s \<in> P" using k by (auto simp: kahn_def)
  have "dget_default out x {} \<subseteq> M" using sub by (auto simp: edge_rel_def)
  then have ts: "set ?ts = dget_default out x {}" "distinct ?ts"
    using fin by (auto simp: sorted_set_def finite_subset)
  obtain d'' where d'': "foldl release_target (d, R) ?ts = (d'', R @ ?new)"
    "fst ` set d'' = fst ` set d \<union> set ?ts"
    "\<forall>t. dget_default d'' t 0 = dget_default d t 0 - (if t \<in> set ?ts then 1 else 0)"
    using foldl_release_target [OF ts(2)] by blast
  have eq: "d' = d''" "R' = R @ ?new" using r d''(1) by auto
  have finopen: "finite (?open P t)" for P t
    using fin sub by (auto intro!: finite_subset [of "?open P t" M])
  have opens: "?open (insert x P) t = ?open P t - {x}" for t by auto
  have count: "dget_default d t 0 = int (card (?open P t))" if "t \<in> M" for t using k that by (simp add: kahn_def)
  have count': "dget_default d' t 0 = int (card (?open (insert x P) t))" if t: "t \<in> M" for t
  proof (cases "t \<in> set ?ts")
    case True
    then have "x \<in> ?open P t" using x ts by (simp add: edge_rel_def)
    then have "int (card (?open P t)) = int (card (?open P t - {x})) + 1"
      using card_Suc_Diff1 [OF finopen [of t P], of x] by simp
    then show ?thesis unfolding opens using True d''(3) count [OF t] by (simp add: eq)
  next
    case False
    then have "x \<notin> ?open P t" using ts by (simp add: edge_rel_def)
    then show ?thesis unfolding opens using False d''(3) count [OF t] by (simp add: eq)
  qed
  have new: "set ?new = {t \<in> M. x \<in> ?open P t \<and> ?open (insert x P) t = {}}"
  proof (intro set_eqI iffI)
    fix t assume "t \<in> set ?new"
    then have t: "t \<in> set ?ts" "dget_default d t 0 = 1" by auto
    then have m: "t \<in> M" using ts sub by (auto simp: edge_rel_def)
    then have "card (?open (insert x P) t) = 0" using count' [OF m] d''(3) t by (simp add: eq)
    then have "?open (insert x P) t = {}" using finopen [of t "insert x P"] by simp
    with m t(1) ts x show "t \<in> {t \<in> M. x \<in> ?open P t \<and> ?open (insert x P) t = {}}"
      by (simp add: edge_rel_def)
  next
    fix t assume t: "t \<in> {t \<in> M. x \<in> ?open P t \<and> ?open (insert x P) t = {}}"
    then have "t \<in> set ?ts" using ts by (simp add: edge_rel_def)
    moreover have "dget_default d' t 0 = 0" using t count' [of t] by (metis (lifting) card.empty mem_Collect_eq of_nat_0)
    ultimately show "t \<in> set ?new" using d''(3) by (simp add: eq)
  qed
  have Q: "set Q = {t \<in> M - P. ?open P t = {}} - {x}" "distinct Q" "x \<notin> set Q"
    using k by (auto simp: kahn_def)
  have closed: "\<And>t s. t \<in> P \<Longrightarrow> (s, t) \<in> edge_rel out \<Longrightarrow> s \<in> P" using k by (simp add: kahn_def)
  have "t \<in> set (Q @ ?new) \<longleftrightarrow> t \<in> M - insert x P \<and> ?open (insert x P) t = {}" for t
    unfolding set_append Un_iff Q(1) new using x closed [of t] by auto
  then have "set (Q @ ?new) = {t \<in> M - insert x P. \<forall>s. (s, t) \<in> edge_rel out \<longrightarrow> s \<in> insert x P}"
    by blast
  moreover have "distinct (Q @ ?new)" using Q ts(2) new by auto
  moreover have "fst ` set d' = M" using d''(2) k ts \<open>dget_default out x {} \<subseteq> M\<close> by (auto simp: eq kahn_def)
  moreover have "\<forall>t \<in> insert x P. \<forall>s. (s, t) \<in> edge_rel out \<longrightarrow> s \<in> insert x P"
    using x(3) closed by blast
  moreover have "insert x P \<subseteq> M" using x(1) k by (simp add: kahn_def)
  ultimately have "kahn out M (insert x P) d' (Q @ ?new)"
    using count' fin sub unfolding kahn_def by (intro conjI) auto
  then show ?thesis using eq(2) by blast
qed

lemma kahn_batch:
  "kahn out M P d (B @ R) \<Longrightarrow> foldl (release out) (d, R) B = (d', R') \<Longrightarrow> kahn out M (P \<union> set B) d' R'"
proof (induction B arbitrary: P d R)
  case (Cons x B)
  obtain d1 R1 where r: "release out (d, R) x = (d1, R1)" by fastforce
  then obtain new where "R1 = R @ new" "kahn out M (insert x P) d1 ((B @ R) @ new)"
    using kahn_release [of out M P d x "B @ R" R d1 R1] Cons.prems(1) by (auto simp: release_def)
  then show ?case using Cons.IH [of "insert x P" d1 R1] Cons.prems(2) r by simp
qed simp

text \<open>Each wave only has environments all of whose predecessors are in earlier ones.\<close>

fun ordered_waves :: "(string \<times> string) set \<Rightarrow> string set \<Rightarrow> string list list \<Rightarrow> bool" where
  "ordered_waves E P [] \<longleftrightarrow> True"
| "ordered_waves E P (w # ws) \<longleftrightarrow>
     (\<forall>t \<in> set w. \<forall>s. (s, t) \<in> E \<longrightarrow> s \<in> P) \<and> ordered_waves E (P \<union> set w) ws"


lemma waves_from_ordered:
  "0 < k \<Longrightarrow> kahn out M P d ready \<Longrightarrow> \<exists>ws. waves_from k out d ready = Some ws \<and>
     ordered_waves (edge_rel out) P ws \<and> distinct (concat ws) \<and> set (concat ws) \<subseteq> M - P \<and>
     (\<forall>w \<in> set ws. length w \<le> nat k) \<and>
     (\<forall>t \<in> M - (P \<union> set (concat ws)). \<exists>s. (s, t) \<in> edge_rel out \<and> s \<notin> P \<union> set (concat ws))"
proof (induction k out d ready arbitrary: P rule: waves_from.induct)
  case (1 k out d ready)
  show ?case
  proof (cases "ready = []")
    case True
    then show ?thesis using 1(3) by (auto simp: waves_from.simps [of k out d] kahn_def)
  next
    case ne: False
    let ?B = "take (nat k) ready" and ?R = "drop (nat k) ready"
    obtain d' R' where r: "foldl (release out) (d, ?R) ?B = (d', R')" by fastforce
    have split: "ready = ?B @ ?R" by simp
    have pos: "\<not> k \<le> 0" using 1(2) by simp
    have kahn: "kahn out M (P \<union> set ?B) d' R'"
      by (rule kahn_batch [OF _ r]) (use 1(3) in simp)
    then obtain ws where ws: "waves_from k out d' R' = Some ws" "ordered_waves (edge_rel out) (P \<union> set ?B) ws"
        "distinct (concat ws)" "set (concat ws) \<subseteq> M - (P \<union> set ?B)" "\<forall>w \<in> set ws. length w \<le> nat k"
        "\<forall>t \<in> M - (P \<union> set ?B \<union> set (concat ws)). \<exists>s. (s, t) \<in> edge_rel out \<and> s \<notin> P \<union> set ?B \<union> set (concat ws)"
      using 1(1) [OF ne pos r [symmetric] 1(2) kahn] by blast
    have ready: "distinct ready" "set ready \<subseteq> {t \<in> M - P. \<forall>s. (s, t) \<in> edge_rel out \<longrightarrow> s \<in> P}"
      using 1(3) by (auto simp: kahn_def)
    then have B: "distinct ?B" "set ?B \<subseteq> {t \<in> M - P. \<forall>s. (s, t) \<in> edge_rel out \<longrightarrow> s \<in> P}"
      using set_take_subset [of "nat k" ready] by (auto simp: distinct_take)
    have "waves_from k out d ready = Some (?B # ws)"
      using ne pos r ws(1) by (simp add: waves_from.simps [of k out d])
    moreover have "ordered_waves (edge_rel out) P (?B # ws)" using B(2) ws(2) by auto
    moreover have "distinct (concat (?B # ws))" using B(1) ws(3,4) by auto
    moreover have "set (concat (?B # ws)) \<subseteq> M - P" using B(2) ws(4) by auto
    moreover have "\<forall>w \<in> set (?B # ws). length w \<le> nat k" using ws(5) by simp
    moreover have "P \<union> set (concat (?B # ws)) = P \<union> set ?B \<union> set (concat ws)" by auto
    ultimately show ?thesis using ws(6) by (intro exI [of _ "?B # ws"]) auto
  qed
qed

section \<open>The graph that is built\<close>

definition linked :: "string set \<Rightarrow> edges \<times> (string, int) dict \<Rightarrow> bool" where
  "linked M st \<longleftrightarrow> finite M \<and> fst ` set (fst st) = M \<and> fst ` set (snd st) = M \<and> edge_rel (fst st) \<subseteq> M \<times> M \<and>
     (\<forall>t \<in> M. dget_default (snd st) t 0 = int (card {s. (s, t) \<in> edge_rel (fst st)}))"

lemma edge_rel_dset: "edge_rel (dset s ts out) = {(a, t). if a = s then t \<in> ts else (a, t) \<in> edge_rel out}"
  by (auto simp: edge_rel_def dget_default_dset)

lemma linked_insert:
  assumes l: "linked M (out, d)" and st: "s \<in> M" "t \<in> M" "(s, t) \<notin> edge_rel out"
  shows "linked M (dset s (insert t (dget_default out s {})) out, dset t (dget_default d t 0 + 1) d)"
proof -
  let ?out = "dset s (insert t (dget_default out s {})) out"
  have E: "edge_rel ?out = insert (s, t) (edge_rel out)"
    by (auto simp: edge_rel_dset in_edge_rel split: if_splits)
  have fin: "finite {a. (a, u) \<in> edge_rel out}" for u
    using l by (auto simp: linked_def intro!: finite_subset [of "{a. (a, u) \<in> edge_rel out}" M])
  have "{a. (a, u) \<in> edge_rel ?out} = (if u = t then insert s {a. (a, t) \<in> edge_rel out} else {a. (a, u) \<in> edge_rel out})"
    for u by (auto simp: E)
  then have count: "card {a. (a, u) \<in> edge_rel ?out} = card {a. (a, u) \<in> edge_rel out} + (if u = t then 1 else 0)" for u
    using fin [of t] st(3) by auto
  show ?thesis
    using l st unfolding linked_def fst_conv snd_conv count
    unfolding E keys_dset dget_default_dset by (simp add: insert_absorb)
qed

lemma link_linked:
  "linked M (out, d) \<Longrightarrow> set ls \<subseteq> M \<times> M \<Longrightarrow>
     \<exists>out' d'. link ls (out, d) = Inr (out', d') \<and> linked M (out', d') \<and> edge_rel out' = edge_rel out \<union> set ls"
proof (induction ls arbitrary: out d)
  case (Cons p ls)
  obtain s t where p: "p = (s, t)" by (cases p)
  then have st: "s \<in> M" "t \<in> M" using Cons.prems by auto
  have "fst ` set out = M" "fst ` set d = M" using Cons.prems(1) by (auto simp: linked_def)
  with st obtain ts n where out: "dget out s = Some ts" and d: "dget d t = Some n"
    using dget_in_keys [of s out] dget_in_keys [of t d] by auto
  show ?case
  proof (cases "t \<in> ts")
    case True
    then have "(s, t) \<in> edge_rel out" by (simp add: edge_rel_def dget_default_def out)
    then show ?thesis using Cons.IH [OF Cons.prems(1)] Cons.prems(2) True out p by (auto simp: insert_absorb)
  next
    case False
    then have new: "(s, t) \<notin> edge_rel out" by (simp add: edge_rel_def dget_default_def out)
    have "edge_rel (dset s (insert t ts) out) = insert (s, t) (edge_rel out)"
      by (auto simp: edge_rel_dset in_edge_rel dget_default_def out split: if_splits)
    then show ?thesis
      using Cons.IH [OF linked_insert [OF Cons.prems(1) st new]] Cons.prems(2) False out d p
      by (auto simp: dget_default_def)
  qed
qed simp

lemma ordered_waves_acc:
  "ordered_waves E P ws \<Longrightarrow> P \<subseteq> Wellfounded.acc E \<Longrightarrow> P \<union> set (concat ws) \<subseteq> Wellfounded.acc E"
proof (induction ws arbitrary: P)
  case (Cons w ws)
  have "t \<in> Wellfounded.acc E" if "t \<in> set w" for t
    by (rule acc.accI) (use Cons.prems that in auto)
  then have "P \<union> set w \<subseteq> Wellfounded.acc E" using Cons.prems(2) by blast
  from Cons.IH [OF _ this] Cons.prems(1) show ?case by simp
qed simp

lemma ordered_waves_acyclic:
  assumes E: "finite M" "E \<subseteq> M \<times> M" and w: "ordered_waves E {} ws" "set (concat ws) \<subseteq> M"
    and left: "\<And>t. t \<in> M - set (concat ws) \<Longrightarrow> \<exists>s. (s, t) \<in> E \<and> s \<notin> set (concat ws)"
  shows "set (concat ws) = M \<longleftrightarrow> acyclic E"
proof
  assume eq: "set (concat ws) = M"
  have "x \<in> Wellfounded.acc E" for x
  proof (cases "x \<in> M")
    case True
    then show ?thesis using ordered_waves_acc [OF w(1)] eq by auto
  next
    case False
    with E(2) show ?thesis by (blast intro: acc.accI)
  qed
  then show "acyclic E" by (intro wf_acyclic acc_wfI) auto
next
  assume "acyclic E"
  moreover have "finite E" using E by (meson finite_SigmaI finite_subset)
  ultimately have wf: "wf E" by (simp add: finite_acyclic_wf)
  show "set (concat ws) = M"
  proof (rule ccontr)
    assume "set (concat ws) \<noteq> M"
    with w(2) obtain x where "x \<in> M - set (concat ws)" by blast
    with wf obtain t where t: "t \<in> M - set (concat ws)"
      and min: "\<And>y. (y, t) \<in> E \<Longrightarrow> y \<notin> M - set (concat ws)"
      by (metis wfE_min)
    from left [OF t] obtain s where s: "(s, t) \<in> E" "s \<notin> set (concat ws)" by blast
    with E(2) have "s \<in> M - set (concat ws)" by blast
    with min [OF s(1)] show False by blast
  qed
qed

lemma linked_kahn:
  assumes "linked M (out, d)" "wf_dict d"
  shows "kahn out M {} d (sort (map fst (filter (\<lambda>(k, n). n = 0) d)))"
proof -
  have fin: "finite {s. (s, t) \<in> edge_rel out}" for t
    using assms by (auto simp: linked_def intro!: finite_subset [of "{s. (s, t) \<in> edge_rel out}" M])
  have keys: "fst ` set d = M" using assms(1) by (simp add: linked_def)
  have count: "dget_default d t 0 = int (card {s. (s, t) \<in> edge_rel out})" if "t \<in> M" for t
    using assms(1) that by (simp add: linked_def)
  have "t \<in> fst ` set (filter (\<lambda>(k, n). n = 0) d) \<longleftrightarrow> t \<in> M \<and> {s. (s, t) \<in> edge_rel out} = {}" for t
  proof -
    have "t \<in> fst ` set (filter (\<lambda>(k, n). n = 0) d) \<longleftrightarrow> t \<in> M \<and> dget_default d t 0 = 0"
      using wf_dict_dget [OF assms(2)] dget_in_keys [of t d] unfolding keys
      by (force simp: dget_default_def image_iff)
    also have "\<dots> \<longleftrightarrow> t \<in> M \<and> card {s. (s, t) \<in> edge_rel out} = 0"
      using count by auto
    finally show ?thesis using fin [of t] by simp
  qed
  moreover have "distinct (map fst (filter (\<lambda>(k, n). n = 0) d))"
    using assms(2) by (simp add: wf_dict_def distinct_map_filter)
  ultimately show ?thesis using assms(1) by (auto simp: kahn_def linked_def)
qed

lemma link_wf: "link ls (out, d) = Inr (out', d') \<Longrightarrow> wf_dict d \<Longrightarrow> wf_dict d'"
  by (induction ls "(out, d)" arbitrary: out d rule: link.induct)
    (auto split: option.splits if_splits)

lemma dget_default_const [simp]: "dget_default (map (\<lambda>m. (m, c)) xs) t c = c"
  by (induction xs) (auto simp: dget_default_def)

lemma linked_start: "finite M \<Longrightarrow> linked M (map (\<lambda>m. (m, {})) (sorted_set M), map (\<lambda>m. (m, 0)) (sorted_set M))"
  by (auto simp: linked_def edge_rel_def sorted_set_def image_image)

lemma wf_start: "finite M \<Longrightarrow> wf_dict (map (\<lambda>m. (m, c)) (sorted_set M))"
  by (simp add: wf_dict_def sorted_set_def comp_def)

definition fleet_members :: "fleet \<Rightarrow> string set" where
  "fleet_members f = set (map fm_environment_id (fl_members f))"

definition fleet_edges :: "fleet \<Rightarrow> string \<Rightarrow> (string \<times> string) set" where
  "fleet_edges f op = set (map (oriented op) (fl_dependencies f))"

lemma valid_fleet_edges: "valid_fleet f \<Longrightarrow> fleet_edges f op \<subseteq> fleet_members f \<times> fleet_members f"
  by (auto simp: valid_fleet_def validate_members_def fleet_edges_def fleet_members_def oriented_def Let_def
      list_ex_iff split: if_splits)

lemma enumerate_ids: "map fw_environment_ids (map wave_at (List.enumerate n ws)) = ws"
  by (induction ws arbitrary: n) (auto simp: wave_at_def)

text \<open>The wave of the members on a cycle, if there are any.\<close>

definition cycle_wave :: "fleet \<Rightarrow> string list list \<Rightarrow> fleet_wave list" where
  "cycle_wave f ws =
     (if set (concat ws) = fleet_members f then []
      else [\<lparr>fw_index = length ws, fw_environment_ids = sorted_set (fleet_members f - set (concat ws)),
             fw_rationale = [''manual ordering required due to dependency cycle'']\<rparr>])"

lemma plan_fleet_waves:
  assumes "valid_fleet f" "op \<in> operation_types"
  shows "\<exists>p ws. plan_fleet_operation uid now_iso f op = Some (Inr p) \<and>
     fp_waves p = map wave_at (List.enumerate 0 ws) @ cycle_wave f ws \<and>
     (fp_warnings p = [] \<longleftrightarrow> set (concat ws) = fleet_members f) \<and>
     ordered_waves (fleet_edges f op) {} ws \<and> distinct (concat ws) \<and> set (concat ws) \<subseteq> fleet_members f \<and>
     (\<forall>w \<in> set ws. int (length w) \<le> fl_max_parallel f) \<and>
     (set (concat ws) = fleet_members f \<longleftrightarrow> acyclic (fleet_edges f op))"
proof -
  let ?M = "fleet_members f" and ?E = "fleet_edges f op"
  let ?st = "(map (\<lambda>m. (m, {})) (sorted_set ?M), map (\<lambda>m. (m, 0)) (sorted_set ?M))"
  have fin: "finite ?M" by (simp add: fleet_members_def)
  have E: "?E \<subseteq> ?M \<times> ?M" by (rule valid_fleet_edges [OF assms(1)])
  obtain out d where l: "link (map (oriented op) (fl_dependencies f)) ?st = Inr (out, d)"
    and lk: "linked ?M (out, d)" and rel: "edge_rel out = edge_rel (fst ?st) \<union> ?E"
    using link_linked [OF linked_start [OF fin], of "map (oriented op) (fl_dependencies f)"] E
    by (auto simp: fleet_edges_def)
  have rel: "edge_rel out = ?E" using rel by (simp add: edge_rel_def)
  let ?ready = "sort (map fst (filter (\<lambda>(k, n). n = 0) d))"
  have pos: "0 < fl_max_parallel f" using assms(1) by (simp add: valid_fleet_def)
  have k: "kahn out ?M {} d ?ready" by (rule linked_kahn [OF lk link_wf [OF l wf_start [OF fin]]])
  obtain ws where ws: "waves_from (fl_max_parallel f) out d ?ready = Some ws" "ordered_waves ?E {} ws"
      "distinct (concat ws)" "set (concat ws) \<subseteq> ?M" "\<forall>w \<in> set ws. length w \<le> nat (fl_max_parallel f)"
      "\<forall>t \<in> ?M - set (concat ws). \<exists>s. (s, t) \<in> ?E \<and> s \<notin> set (concat ws)"
    using waves_from_ordered [OF pos k] unfolding rel by auto
  have ac: "set (concat ws) = ?M \<longleftrightarrow> acyclic ?E"
    by (rule ordered_waves_acyclic [OF fin E ws(2,4)]) (use ws(6) in blast)
  have b: "\<forall>w \<in> set ws. int (length w) \<le> fl_max_parallel f" using ws(5) pos by auto
  obtain p where p: "plan_fleet_operation uid now_iso f op = Some (Inr p)"
    "fp_waves p = map wave_at (List.enumerate 0 ws) @ cycle_wave f ws"
    "fp_warnings p = [] \<longleftrightarrow> set (concat ws) = ?M"
    unfolding plan_fleet_operation_def Let_def fleet_members_def [symmetric] l cycle_wave_def
    using ws(1) assms(2) by (auto simp: repr_strs_def)
  show ?thesis using p ws(2-4) b ac by blast
qed

section \<open>What an assessment says\<close>

lemma counter_snoc: "counter (ks @ [k]) = count_up k (counter ks)"
  by (simp add: counter_def)

lemma dget_counter: "dget (counter ks) k = (if k \<in> set ks then Some (count_list ks k) else None)"
proof (induction ks rule: rev_induct)
  case (snoc j ks)
  then show ?case
    by (auto simp: counter_snoc count_up_def dict_simps dget_default_def count_list_0_iff)
qed (simp add: counter_def)

lemma wf_counter [simp]: "wf_dict (counter ks)"
  by (induction ks rule: rev_induct) (simp_all add: counter_snoc count_up_def, simp add: counter_def)

lemma count_wf_dict: "wf_dict d \<Longrightarrow> count_list d (k, v) = (if dget d k = Some v then 1 else 0)"
  by (induction d) (auto simp: wf_dict_def count_list_0_iff, force+)

lemma count_concat_wf:
  "(\<And>d. d \<in> set ds \<Longrightarrow> wf_dict d) \<Longrightarrow>
     count_list (concat ds) (k, v) = length (filter (\<lambda>d. dget d k = Some v) ds)"
  by (induction ds) (auto simp: count_wf_dict)

lemma length_filter_all: "length (filter P xs) = length xs \<longleftrightarrow> (\<forall>x \<in> set xs. P x)"
  by (metis filter_True length_filter_less less_irrefl)

text \<open>The shared factors are exactly the ones every affected environment has.\<close>

lemma shared_of_exact:
  assumes ne: "envs \<noteq> []" and wf: "\<And>e. e \<in> set envs \<Longrightarrow> wf_dict (dget_default factors e [])"
  shows "dget (shared_of factors envs) k = Some v \<longleftrightarrow>
    (\<forall>e \<in> set envs. dget (dget_default factors e []) k = Some v)"
proof -
  let ?ds = "map (\<lambda>e. dget_default factors e []) envs"
  let ?all = "\<lambda>k v. \<forall>e \<in> set envs. dget (dget_default factors e []) k = Some v"
  let ?kvs = "map fst (filter (\<lambda>(kv, n). n = length envs) (counter (concat ?ds)))"
  have count: "count_list (concat ?ds) (k, v) = length envs \<longleftrightarrow> ?all k v" for k v
  proof -
    have "count_list (concat ?ds) (k, v) = length (filter (\<lambda>d. dget d k = Some v) ?ds)"
      by (rule count_concat_wf) (use wf in auto)
    then show ?thesis using length_filter_all [of "\<lambda>d. dget d k = Some v" ?ds] by simp
  qed
  have mem: "(k, v) \<in> set ?kvs \<longleftrightarrow> ?all k v" for k v
  proof -
    have "(k, v) \<in> set ?kvs \<longleftrightarrow> ((k, v), length envs) \<in> set (counter (concat ?ds))" by force
    also have "\<dots> \<longleftrightarrow> (k, v) \<in> set (concat ?ds) \<and> count_list (concat ?ds) (k, v) = length envs"
      by (auto simp: wf_dict_dget dget_counter simp del: set_concat split: if_splits)
    also have "\<dots> \<longleftrightarrow> count_list (concat ?ds) (k, v) = length envs"
      using ne by (metis count_list_0_iff length_0_conv)
    finally show ?thesis by (simp only: count)
  qed
  have dist: "distinct (map fst ?kvs)"
  proof -
    have "inj_on fst (set ?kvs)"
    proof (rule inj_onI)
      fix p q assume "p \<in> set ?kvs" "q \<in> set ?kvs" "fst p = fst q"
      then have "?all (fst p) (snd p)" "?all (fst p) (snd q)"
        using iffD1 [OF mem, of "fst p" "snd p"] iffD1 [OF mem, of "fst q" "snd q"]
        unfolding prod.collapse by metis+
      moreover have "hd envs \<in> set envs" using ne by simp
      ultimately have "snd p = snd q" by fastforce
      with \<open>fst p = fst q\<close> show "p = q" by (rule prod_eqI)
    qed
    moreover have "distinct ?kvs"
      using wf_counter [of "concat ?ds"] by (simp add: wf_dict_def distinct_map_filter)
    ultimately show ?thesis unfolding distinct_map [of fst ?kvs] by blast
  qed
  have "dget (shared_of factors envs) k = dget ?kvs k"
    by (simp only: shared_of_def Let_def dget_dict_of dget_rev_distinct [OF dist])
  also have "\<dots> = Some v \<longleftrightarrow> (k, v) \<in> set ?kvs"
    using dist by (rule map_of_eq_Some_iff)
  finally show ?thesis by (simp only: mem)
qed

lemma foldl_max_le: "foldl max a xs \<le> (n :: nat) \<longleftrightarrow> a \<le> n \<and> (\<forall>x \<in> set xs. x \<le> n)"
  by (induction xs arbitrary: a) auto

lemma status_of_rank_ok: "n \<le> 4 \<Longrightarrow> \<exists>s. status_of_rank n = Inr s \<and> (s = Fl_Healthy \<longleftrightarrow> n = 0)"
proof -
  assume "n \<le> 4"
  then consider "n = 0" | "n = 1" | "n = 2" | "n = 3" | "n = 4" by linarith
  then show ?thesis by cases (simp_all add: status_of_rank_def status_order_def)
qed

lemma rank_le: "dget_default status_order s 3 \<le> 4"
  by (cases s) (simp_all add: status_order_def dget_default_def)

lemma rank_zero: "dget_default status_order s 3 = 0 \<longleftrightarrow> s \<in> {Fl_Healthy, Fl_Quiesced}"
  by (cases s) (simp_all add: status_order_def dget_default_def)

lemma worst_rank_le: "worst_rank sts \<le> 4"
  by (auto simp: worst_rank_def foldl_max_le rank_le)

lemma worst_rank_zero:
  "worst_rank sts = 0 \<longleftrightarrow> sts \<noteq> [] \<and> (\<forall>s \<in> set sts. es_status s \<in> {Fl_Healthy, Fl_Quiesced})"
  using foldl_max_le [of 0 "map (\<lambda>s. dget_default status_order (es_status s) 3) sts" 0]
  by (auto simp: worst_rank_def rank_zero [symmetric] simp del: insert_iff)

lemma by_environment_in: "dget (by_environment sts) e = Some s \<Longrightarrow> s \<in> set sts \<and> es_environment_id s = e"
  by (auto simp: by_environment_def dget_dict_of rev_map dest!: map_of_SomeD)

lemma by_environment_keys: "e \<in> fst ` set (by_environment sts) \<longleftrightarrow> e \<in> es_environment_id ` set sts"
  by (simp add: dget_in_keys by_environment_def dget_dict_of map_of_eq_None_iff image_image)

lemma members_covered:
  "fleet_members f \<subseteq> es_environment_id ` set (environment_statuses f sts)"
proof
  fix e assume e: "e \<in> fleet_members f"
  show "e \<in> es_environment_id ` set (environment_statuses f sts)"
  proof (cases "e \<in> fst ` set (by_environment sts)")
    case True
    then show ?thesis by (simp add: by_environment_keys environment_statuses_def image_Un)
  next
    case False
    with e have "unknown_status e \<in> set (environment_statuses f sts)"
      by (auto simp: environment_statuses_def fleet_members_def)
    moreover have "es_environment_id (unknown_status e) = e" by (simp add: unknown_status_def)
    ultimately show ?thesis by (metis image_eqI)
  qed
qed

text \<open>If every environment is fine, no dependency of a valid fleet is violated.\<close>

lemma healthy_no_violations:
  assumes "valid_fleet f" "\<forall>s \<in> set (environment_statuses f sts). es_status s \<in> {Fl_Healthy, Fl_Quiesced}"
  shows "dependency_violations f sts = []"
proof -
  have "target_ok sts d" if d: "d \<in> set (fl_dependencies f)" for d
  proof -
    have mem: "fd_target d \<in> set (map fm_environment_id (fl_members f))"
      using valid_fleet_edges [OF assms(1), of "''shutdown''"] d
      by (force simp: fleet_edges_def fleet_members_def oriented_def)
    have "fd_target d \<in> fst ` set (by_environment sts)"
    proof (rule ccontr)
      assume "fd_target d \<notin> fst ` set (by_environment sts)"
      with mem have "unknown_status (fd_target d) \<in> set (environment_statuses f sts)"
        by (auto simp: environment_statuses_def)
      with assms(2) show False by (force simp: unknown_status_def)
    qed
    then obtain s where "dget (by_environment sts) (fd_target d) = Some s" by (auto simp: dget_in_keys)
    moreover from by_environment_in [OF this] have "s \<in> set (environment_statuses f sts)"
      by (simp add: environment_statuses_def)
    ultimately show ?thesis using assms(2) by (auto simp: target_ok_def)
  qed
  then show ?thesis by (simp add: dependency_violations_def filter_empty_conv)
qed

lemma fleet_assess_healthy:
  assumes "valid_fleet f"
  shows "\<exists>a. fleet_assess uids now_iso f sts families factors = Inr a \<and>
    (fa_status a = Fl_Healthy \<longleftrightarrow> environment_statuses f sts \<noteq> [] \<and>
      (\<forall>s \<in> set (environment_statuses f sts). es_status s \<in> {Fl_Healthy, Fl_Quiesced})) \<and>
    fleet_members f \<subseteq> es_environment_id ` set (fa_environments a) \<and>
    set (fa_environments a) = set (environment_statuses f sts)"
proof -
  let ?all = "environment_statuses f sts"
  obtain st where st: "status_of_rank (worst_rank ?all) = Inr st" "st = Fl_Healthy \<longleftrightarrow> worst_rank ?all = 0"
    using status_of_rank_ok [OF worst_rank_le] by blast
  have "st = Fl_Healthy \<Longrightarrow> dependency_violations f sts = []"
    using healthy_no_violations [OF assms] st(2) worst_rank_zero by blast
  then show ?thesis
    using st members_covered worst_rank_zero [of ?all] by (auto simp: fleet_assess_def Let_def)
qed

text \<open>A common cause names at least two environments, each of which had the family.\<close>

lemma by_family_snoc: "by_family (ps @ [(f, e)]) = dset f (dget_default (by_family ps) f [] @ [e]) (by_family ps)"
  by (simp add: by_family_def)

lemma dget_by_family:
  "dget_default (by_family ps) f [] = map snd (filter (\<lambda>p. fst p = f) ps)"
proof (induction ps rule: rev_induct)
  case (snoc p ps)
  then show ?case by (cases p) (auto simp: by_family_snoc dget_default_dset)
qed (simp add: by_family_def dget_default_def)

lemma wf_by_family [simp]: "wf_dict (by_family ps)"
proof (induction ps rule: rev_induct)
  case (snoc p ps)
  then show ?case by (cases p) (simp add: by_family_snoc)
qed (simp add: by_family_def)

lemma in_by_family: "(f, es) \<in> set (by_family ps) \<Longrightarrow> es = map snd (filter (\<lambda>p. fst p = f) ps)"
  using dget_by_family [of ps f] by (simp add: wf_dict_dget dget_default_def)

lemma enumerate_in: "(i, x) \<in> set (List.enumerate n xs) \<Longrightarrow> x \<in> set xs"
  by (metis (no_types) image_eqI list.set_map map_snd_enumerate snd_conv)

lemma common_causes_sound:
  assumes "c \<in> set (common_causes uids sts families factors)"
  shows "2 \<le> length (cc_environment_ids c)" "distinct (cc_environment_ids c)"
    "\<And>e. e \<in> set (cc_environment_ids c) \<longleftrightarrow>
       (\<exists>s \<in> set sts. es_environment_id s = e \<and> cc_family_id c \<in> set (dget_default families e []))"
    "cc_shared_factors c = shared_of factors (cc_environment_ids c)"
proof -
  let ?fams = "by_family (family_pairs families sts)"
  let ?groups = "map (\<lambda>(f, es). (f, sorted_set (set es))) (sort_key fst ?fams)"
  obtain i f es where c: "c = common_cause_of factors (uids i) f es"
    and mem: "(i, f, es) \<in> set (List.enumerate 0 (filter (\<lambda>(f, es). \<not> length es < 2) ?groups))"
    using assms unfolding common_causes_def Let_def by (auto simp del: set_filter filter_map)
  from mem have "(f, es) \<in> set (filter (\<lambda>(f, es). \<not> length es < 2) ?groups)"
    by (rule enumerate_in)
  then have fe: "(f, es) \<in> set ?groups" "2 \<le> length es" by auto
  then obtain es0 where es0: "(f, es0) \<in> set ?fams" "es = sorted_set (set es0)" by auto
  have "e \<in> set es \<longleftrightarrow> (f, e) \<in> set (family_pairs families sts)" for e
    unfolding es0(2) in_by_family [OF es0(1)] by (auto simp: sorted_set_def image_iff)
  moreover have "(f, e) \<in> set (family_pairs families sts) \<longleftrightarrow>
      (\<exists>s \<in> set sts. es_environment_id s = e \<and> f \<in> set (dget_default families e []))" for e
    by (auto simp: family_pairs_def)
  ultimately show "\<And>e. e \<in> set (cc_environment_ids c) \<longleftrightarrow>
       (\<exists>s \<in> set sts. es_environment_id s = e \<and> cc_family_id c \<in> set (dget_default families e []))"
    by (simp add: c common_cause_of_def Let_def)
  show "2 \<le> length (cc_environment_ids c)" "distinct (cc_environment_ids c)"
    "cc_shared_factors c = shared_of factors (cc_environment_ids c)"
    using fe(2) es0(2) by (auto simp: c common_cause_of_def Let_def sorted_set_def)
qed

end
