(* ===== verification/Scenario_IR.thy ===== *)
theory Scenario_IR
  imports IR
begin

text \<open>
  \<open>models/scenario.py\<close> and \<open>models/composition.py\<close>: families of scenarios, their blueprints (still
  untyped dictionaries, resolved later), compiled scenario instances and compositions, with the
  validators that run when one is built.
\<close>

section \<open>Families\<close>

datatype parameter_type = Param_String | Param_Integer | Param_Boolean | Param_Enum

record parameter_spec =
  ps_name :: string
  ps_title :: string
  ps_type :: parameter_type
  ps_description :: string
  ps_required :: bool
  ps_default :: json
  ps_options :: "json list"

definition validate_options :: "parameter_spec \<Rightarrow> parameter_spec res" where
  "validate_options p =
     (if ps_type p = Param_Enum \<and> ps_options p = [] then raise ValueError ''enum parameters require options''
      else Inr p)"

datatype constraint_type = Constraint_Required | Constraint_Not_Equal | Constraint_One_Of

record constraint_spec =
  cs_type :: constraint_type
  cs_parameters :: "string list"
  cs_values :: "json list"
  cs_message :: string

record disturbance =
  dist_id :: string
  dist_title :: string
  dist_mechanism :: disturbance_mechanism
  dist_temporal_form :: temporal_form
  dist_mutations :: "scheduled_mutation list"

record blueprint =
  bp_entities :: "fields list"
  bp_relationships :: "fields list"
  bp_invariants :: "fields list"
  bp_transition_rules :: "fields list"
  bp_observation_profiles :: "fields list"

record scenario_family =
  sf_id :: string
  sf_version :: string
  sf_title :: string
  sf_description :: string
  sf_parent_id :: "string option"
  sf_abstract :: bool
  sf_parameters :: "parameter_spec list"
  sf_constraints :: "constraint_spec list"
  sf_signature :: fields
  sf_blueprint :: blueprint
  sf_disturbances :: "fields list"
  sf_default_disturbance_id :: string
  sf_default_profile_id :: string
  sf_tags :: "string list"

section \<open>Instances\<close>

record scenario =
  sc_id :: string
  sc_family_id :: string
  sc_family_version :: string
  sc_title :: string
  sc_description :: string
  sc_bindings :: fields
  sc_entities :: "entity list"
  sc_relationships :: "relationship list"
  sc_invariants :: "invariant_definition list"
  sc_transition_rules :: "transition_rule list"
  sc_disturbance :: disturbance
  sc_profile :: observation_profile
  sc_max_time_seconds :: int
  sc_metadata :: fields

text \<open>The first failing check is the one reported.\<close>

definition validate_references :: "scenario \<Rightarrow> scenario res" where
  "validate_references s =
     (let ids = set (map ent_id (sc_entities s)) in
      if card ids \<noteq> length (sc_entities s) then raise ValueError ''entity ids must be unique''
      else (case find (\<lambda>r. rel_source r \<notin> ids \<or> rel_target r \<notin> ids) (sc_relationships s) of
              Some r \<Rightarrow>
                if rel_source r \<notin> ids then raise ValueError (''unknown relationship source '' @ rel_source r)
                else raise ValueError (''unknown relationship target '' @ rel_target r)
            | None \<Rightarrow>
                (case find (\<lambda>i. inv_subject_id i \<notin> ids) (sc_invariants s) of
                   Some i \<Rightarrow> raise ValueError (''unknown invariant subject '' @ inv_subject_id i)
                 | None \<Rightarrow> Inr s)))"

text \<open>What the field constraints demand.\<close>

definition valid_scenario :: "scenario \<Rightarrow> bool" where
  "valid_scenario s \<longleftrightarrow> validate_references s = Inr s \<and> 1 \<le> sc_max_time_seconds s \<and>
     list_all (\<lambda>m. 0 \<le> sched_at_seconds m) (dist_mutations (sc_disturbance s)) \<and>
     list_all (\<lambda>r. 0 \<le> rule_delay_seconds r) (sc_transition_rules s)"

section \<open>Compositions\<close>

datatype composition_operator =
  Op_Concurrent | Op_Sequential | Op_Conditional | Op_Masking | Op_Recovery_Interference

fun operator_value :: "composition_operator \<Rightarrow> string" where
  "operator_value Op_Concurrent = ''concurrent''"
| "operator_value Op_Sequential = ''sequential''"
| "operator_value Op_Conditional = ''conditional''"
| "operator_value Op_Masking = ''masking''"
| "operator_value Op_Recovery_Interference = ''recovery_interference''"

record component =
  cmp_alias :: string
  cmp_family_id :: string
  cmp_bindings :: fields
  cmp_disturbance_id :: "string option"
  cmp_profile_id :: "string option"
  cmp_start_at_seconds :: "int option"
  cmp_duration_hint_seconds :: int
  cmp_activation_predicate :: "predicate option"

record composition =
  co_id :: string
  co_title :: string
  co_operator :: composition_operator
  co_components :: "component list"
  co_bridge_relationships :: "relationship list"
  co_masked_aliases :: "string set"
  co_gap_seconds :: int
  co_metadata :: fields

definition validate_components :: "composition \<Rightarrow> composition res" where
  "validate_components c =
     (let aliases = map cmp_alias (co_components c); unknown = co_masked_aliases c - set aliases in
      if card (set aliases) \<noteq> length aliases
      then raise ValueError ''composition component aliases must be unique''
      else if unknown \<noteq> {}
      then raise ValueError (''masked aliases are not components: '' @ repr_strs (sorted_set unknown))
      else if co_operator c = Op_Masking \<and> co_masked_aliases c = {}
      then raise ValueError ''masking compositions require at least one masked alias''
      else if co_operator c = Op_Conditional \<and>
              list_ex (\<lambda>p. cmp_activation_predicate p = None) (tl (co_components c))
      then raise ValueError ''conditional components after the first require activation_predicate''
      else Inr c)"

lemma valid_scenario_refs:
  assumes "valid_scenario s"
  shows "distinct (map ent_id (sc_entities s))"
    "\<And>r. r \<in> set (sc_relationships s) \<Longrightarrow>
       rel_source r \<in> ent_id ` set (sc_entities s) \<and> rel_target r \<in> ent_id ` set (sc_entities s)"
    "\<And>i. i \<in> set (sc_invariants s) \<Longrightarrow> inv_subject_id i \<in> ent_id ` set (sc_entities s)"
  using assms
  by (auto simp: valid_scenario_def validate_references_def Let_def find_None_iff card_distinct
      split: if_splits option.splits)

end
