(* ===== verification/Simulator_Props.thy ===== *)
theory Simulator_Props
  imports Simulator "HOL-Library.Multiset"
begin

text \<open>
  The simulator's loop as a step relation on its state. Its invariant is an instance of
  \<open>invariant_machine\<close>: the timeline and the snapshots are the record of a replay of the mutations from
  the initial world. Termination is shown with a lexicographic measure: rules left to fire once, then the
  multiset of the times left of the queued mutations.
\<close>

section \<open>The queue\<close>

lemma mset_heappush [simp]: "mset (heappush x q) = add_mset x (mset q)"
  by (induction q) auto

lemma mset_heappush_all [simp]: "mset (heappush_all xs q) = mset xs + mset q"
  by (induction xs arbitrary: q) (auto simp: heappush_all_def)

lemma set_heappush_all [simp]: "set (heappush_all xs q) = set xs \<union> set q"
  by (metis mset_heappush_all set_mset_mset set_mset_union)

lemma heappush_not_Nil [simp]: "heappush x q \<noteq> []"
  by (cases q) auto

lemma heappush_all_Cons: "heappush_all (x # xs) q = heappush_all xs (heappush x q)"
  by (simp add: heappush_all_def)

lemma set_heappush [simp]: "set (heappush x q) = insert x (set q)"
  by (metis mset_heappush set_mset_add_mset_insert set_mset_mset)

lemma before_trans: "before x y \<Longrightarrow> before y z \<Longrightarrow> before x z"
  by (auto simp: before_def)

lemma sorted_heappush:
  "sorted_wrt before q \<Longrightarrow> (\<And>y. y \<in> set q \<Longrightarrow> qi_order y < qi_order x) \<Longrightarrow> sorted_wrt before (heappush x q)"
proof (induction q)
  case (Cons y q)
  show ?case
  proof (cases "before x y")
    case True
    then show ?thesis using Cons.prems(1) before_trans [OF True] by auto
  next
    case False
    then have "before y x" using Cons.prems(2) [of y] by (auto simp: before_def)
    then show ?thesis using False Cons by auto
  qed
qed simp

lemma sorted_heappush_all:
  "sorted_wrt before q \<Longrightarrow> sorted_wrt (<) (map qi_order xs) \<Longrightarrow>
     (\<And>x y. x \<in> set xs \<Longrightarrow> y \<in> set q \<Longrightarrow> qi_order y < qi_order x) \<Longrightarrow> sorted_wrt before (heappush_all xs q)"
proof (induction xs arbitrary: q)
  case (Cons x xs)
  have "sorted_wrt before (heappush_all xs (heappush x q))"
  proof (rule Cons.IH)
    show "sorted_wrt before (heappush x q)" using Cons.prems by (intro sorted_heappush) auto
  qed (use Cons.prems in auto)
  then show ?case by (simp add: heappush_all_Cons)
qed (simp add: heappush_all_def)

section \<open>Scheduling of rules\<close>

lemma map_enumerate: "map (\<lambda>(i, x). n + i) (List.enumerate m xs) = [n + m ..< n + m + length xs]"
proof (induction xs arbitrary: m)
  case (Cons x xs)
  then show ?case using upt_conv_Cons [of "n + m" "n + m + length (x # xs)"] by simp
qed simp

lemma enumerate_item: "(i, x) \<in> set (List.enumerate n xs) \<Longrightarrow> x \<in> set xs"
  by (metis (no_types) image_eqI list.set_map map_snd_enumerate snd_conv)

lemma rule_items_order: "map qi_order (rule_items now order r) = [order ..< order + length (rule_effects r)]"
proof -
  have "map qi_order (rule_items now order r) = map (\<lambda>(i, x). order + i) (List.enumerate 0 (rule_effects r))"
    by (simp add: rule_items_def case_prod_unfold)
  then show ?thesis by (simp add: map_enumerate)
qed

lemma rule_items_at: "it \<in> set (rule_items now order r) \<Longrightarrow> qi_at it = now + rule_delay_seconds r"
  by (auto simp: rule_items_def)

lemma schedule_rules_order:
  "schedule_rules rs w now fired order = (gen, fired', order') \<Longrightarrow>
     map qi_order gen = [order ..< order'] \<and> order \<le> order'"
proof (induction rs arbitrary: fired order gen fired' order')
  case (Cons r rs)
  show ?case
  proof (cases "rule_applies w fired r")
    case True
    then obtain gen0 where gen: "gen = rule_items now order r @ gen0" and
      rec: "schedule_rules rs w now (if rule_fire_once r then insert (rule_id r) fired else fired)
        (order + length (rule_effects r)) = (gen0, fired', order')"
      using Cons.prems by (auto split: prod.splits)
    then show ?thesis
      using Cons.IH [OF rec] by (auto simp: rule_items_order upt_add_eq_append [symmetric] le_iff_add)
  next
    case False
    then show ?thesis using Cons by simp
  qed
qed simp

lemma schedule_rules_at:
  "schedule_rules rs w now fired order = (gen, fired', order') \<Longrightarrow> list_all (\<lambda>r. 0 \<le> rule_delay_seconds r) rs \<Longrightarrow>
     it \<in> set gen \<Longrightarrow> now \<le> qi_at it"
proof (induction rs arbitrary: fired order gen fired' order')
  case (Cons r rs)
  then show ?case by (fastforce split: if_splits prod.splits dest: rule_items_at)
qed simp

text \<open>Unless a rule fires for its only time, what is scheduled lies in the future.\<close>

lemma schedule_rules_progress:
  "schedule_rules rs w now fired order = (gen, fired', order') \<Longrightarrow>
     list_all (\<lambda>r. rule_fire_once r \<or> 0 < rule_delay_seconds r) rs \<Longrightarrow>
     fired \<subseteq> fired' \<and> fired' \<subseteq> fired \<union> rule_id ` set (filter rule_fire_once rs) \<and>
     (fired' = fired \<longrightarrow> (\<forall>it \<in> set gen. now < qi_at it))"
proof (induction rs arbitrary: fired order gen fired' order')
  case (Cons r rs)
  show ?case
  proof (cases "rule_applies w fired r")
    case True
    let ?f = "if rule_fire_once r then insert (rule_id r) fired else fired"
    obtain gen0 where gen: "gen = rule_items now order r @ gen0" and
      rec: "schedule_rules rs w now ?f (order + length (rule_effects r)) = (gen0, fired', order')"
      using Cons.prems(1) True by (auto split: prod.splits)
    note IH = Cons.IH [OF rec]
    have once: "rule_fire_once r \<Longrightarrow> rule_id r \<notin> fired" using True by (simp add: rule_applies_def)
    show ?thesis
    proof (cases "rule_fire_once r")
      case True
      then show ?thesis using IH once Cons.prems(2) by auto
    next
      case False
      then have "now < qi_at it" if "it \<in> set (rule_items now order r)" for it
        using rule_items_at [OF that] Cons.prems(2) by simp
      then show ?thesis using False IH Cons.prems(2) gen by auto
    qed
  next
    case False
    then have "schedule_rules rs w now fired order = (gen, fired', order')" using Cons.prems(1) by simp
    then show ?thesis using Cons.IH Cons.prems(2) by fastforce
  qed
qed simp

section \<open>Termination\<close>

definition rules_left :: "scenario \<Rightarrow> sim \<Rightarrow> nat" where
  "rules_left sc s =
     card (rule_id ` set (filter rule_fire_once (sc_transition_rules sc)) - sim_fired s)"

definition times_left :: "scenario \<Rightarrow> sim \<Rightarrow> nat multiset" where
  "times_left sc s = image_mset (\<lambda>it. nat (sc_max_time_seconds sc + 1 - qi_at it)) (mset (sim_queue s))"

definition sim_order_rel :: "scenario \<Rightarrow> (sim \<times> sim) set" where
  "sim_order_rel sc = inv_image (less_than <*lex*> mult less_than) (\<lambda>s. (rules_left sc s, times_left sc s))"

lemma wf_sim_order_rel: "wf (sim_order_rel sc)"
  by (simp add: sim_order_rel_def wf_mult wf_lex_prod)

inductive sim_step :: "(fields \<Rightarrow> entity res) \<Rightarrow> scenario \<Rightarrow> sim \<Rightarrow> sim \<Rightarrow> bool" for mv sc where
  fire: "sim_queue s = it # q \<Longrightarrow> qi_at it \<le> sc_max_time_seconds sc \<Longrightarrow>
     sim_event mv sc it (s\<lparr>sim_queue := q\<rparr>) = (None, t) \<Longrightarrow> sim_step mv sc s t"

inductive_cases sim_stepE: "sim_step mv sc s t"

lemma append_snapshot_fields [simp]:
  "sim_world (append_snapshot sc now n s) = sim_world s"
  "sim_queue (append_snapshot sc now n s) = sim_queue s"
  "sim_order (append_snapshot sc now n s) = sim_order s"
  "sim_sequence (append_snapshot sc now n s) = sim_sequence s"
  "sim_timeline (append_snapshot sc now n s) = sim_timeline s"
  "sim_world_history (append_snapshot sc now n s) = sim_world_history s"
  "sim_fired (append_snapshot sc now n s) = sim_fired s"
  by (simp_all add: append_snapshot_def Let_def split: prod.splits)

text \<open>The effect of an event that succeeds, field by field.\<close>

lemma sim_event_ok:
  assumes "sim_event mv sc it s = (None, t)"
  obtains w gen where
    "apply_mutation mv (sim_world s) (sched_mutation (qi_scheduled it)) = Inr w" "sim_world t = w"
    "schedule_rules (sc_transition_rules sc) w (qi_at it) (sim_fired s) (sim_order s) =
       (gen, sim_fired t, sim_order t)"
    "sim_queue t = heappush_all gen (sim_queue s)" "sim_sequence t = Suc (sim_sequence s)"
    "sim_timeline t = sim_timeline s @ [item_event it (sim_sequence s)]"
    "sim_world_history t = sim_world_history s @ [(qi_at it, w)]"
    "sim_snapshots t = sim_snapshots (append_snapshot sc (qi_at it) (Some (sim_sequence s))
       (s\<lparr>sim_world := w, sim_world_history := sim_world_history s @ [(qi_at it, w)]\<rparr>))"
  using assms by (auto simp: sim_event_def Let_def append_snapshot_def split: sum.splits prod.splits)

lemma sim_step_decreases:
  assumes rules: "list_all (\<lambda>r. rule_fire_once r \<or> 0 < rule_delay_seconds r) (sc_transition_rules sc)"
    and "sim_step mv sc s t"
  shows "(t, s) \<in> sim_order_rel sc"
  using assms(2)
proof (rule sim_stepE)
  fix it q
  assume q: "sim_queue s = it # q" and max: "qi_at it \<le> sc_max_time_seconds sc"
    and ev: "sim_event mv sc it (s\<lparr>sim_queue := q\<rparr>) = (None, t)"
  let ?once = "rule_id ` set (filter rule_fire_once (sc_transition_rules sc))"
  from ev obtain w gen where
    gen: "schedule_rules (sc_transition_rules sc) w (qi_at it) (sim_fired s) (sim_order s) =
      (gen, sim_fired t, sim_order t)" and q': "sim_queue t = heappush_all gen q"
    by (rule sim_event_ok) simp
  from schedule_rules_progress [OF gen rules]
  have fired: "sim_fired s \<subseteq> sim_fired t" "sim_fired t \<subseteq> sim_fired s \<union> ?once"
    "sim_fired t = sim_fired s \<Longrightarrow> \<forall>g \<in> set gen. qi_at it < qi_at g" by auto
  show ?thesis
  proof (cases "sim_fired t = sim_fired s")
    case True
    let ?m = "\<lambda>it. nat (sc_max_time_seconds sc + 1 - qi_at it)"
    have "(times_left sc t, times_left sc s) \<in> mult1 less_than"
    proof (rule mult1I)
      show "times_left sc s = add_mset (?m it) (image_mset ?m (mset q))" by (simp add: times_left_def q)
      show "times_left sc t = image_mset ?m (mset q) + image_mset ?m (mset gen)"
        by (simp add: times_left_def q')
      show "(b, ?m it) \<in> less_than" if "b \<in># image_mset ?m (mset gen)" for b
        using that fired(3) [OF True] max by auto
    qed
    then show ?thesis using True by (simp add: sim_order_rel_def rules_left_def mult_def)
  next
    case False
    have "?once - sim_fired t \<subset> ?once - sim_fired s" using fired(1,2) False by blast
    moreover have "finite ?once" by simp
    ultimately have "rules_left sc t < rules_left sc s"
      unfolding rules_left_def by (intro psubset_card_mono) auto
    then show ?thesis by (simp add: sim_order_rel_def)
  qed
qed

lemma sim_loop_returns:
  assumes "list_all (\<lambda>r. rule_fire_once r \<or> 0 < rule_delay_seconds r) (sc_transition_rules sc)"
  shows "\<exists>r. sim_loop mv sc s = Some r"
proof (induction s rule: wf_induct_rule [OF wf_sim_order_rel [of sc]])
  case (1 s)
  show ?case
  proof (cases "sim_queue s")
    case Nil
    then show ?thesis by (simp add: sim_loop.simps)
  next
    case q: (Cons it q)
    show ?thesis
    proof (cases "sc_max_time_seconds sc < qi_at it")
      case True
      then show ?thesis by (simp add: sim_loop.simps q)
    next
      case False
      obtain e t where ev: "sim_event mv sc it (s\<lparr>sim_queue := q\<rparr>) = (e, t)" by fastforce
      show ?thesis
      proof (cases e)
        case None
        then have "sim_step mv sc s t" using sim_step.fire [OF q _ ev [unfolded None]] False by simp
        from 1 [OF sim_step_decreases [OF assms this]] None False ev q show ?thesis
          by (simp add: sim_loop.simps [of mv sc s])
      next
        case (Some x)
        then show ?thesis using False ev q by (simp add: sim_loop.simps [of mv sc s])
      qed
    qed
  qed
qed

section \<open>Runs as sequences of steps\<close>

text \<open>How the loop leaves a state: nothing is queued, the next entry is too late, or its mutation fails.\<close>

inductive sim_exit :: "(fields \<Rightarrow> entity res) \<Rightarrow> scenario \<Rightarrow> sim \<Rightarrow> error option \<Rightarrow> sim \<Rightarrow> bool" for mv sc where
  drained: "sim_queue s = [] \<Longrightarrow> sim_exit mv sc s None s"
| too_late: "sim_queue s = it # q \<Longrightarrow> sc_max_time_seconds sc < qi_at it \<Longrightarrow> sim_exit mv sc s None (s\<lparr>sim_queue := q\<rparr>)"
| failed: "sim_queue s = it # q \<Longrightarrow> qi_at it \<le> sc_max_time_seconds sc \<Longrightarrow>
     sim_event mv sc it (s\<lparr>sim_queue := q\<rparr>) = (Some e, t) \<Longrightarrow> sim_exit mv sc s (Some e) t"

lemma sim_loop_steps:
  assumes "sim_loop mv sc s = Some r"
  shows "\<exists>s'. (sim_step mv sc)\<^sup>*\<^sup>* s s' \<and> sim_exit mv sc s' (fst r) (snd r)"
proof (rule sim_loop.raw_induct [OF _ assms,
    where P = "\<lambda>mv sc s r. \<exists>s'. (sim_step mv sc)\<^sup>*\<^sup>* s s' \<and> sim_exit mv sc s' (fst r) (snd r)"])
  fix loop mv sc s r
  assume IH: "\<And>mv sc s r. loop mv sc s = Some r \<Longrightarrow>
      \<exists>s'. (sim_step mv sc)\<^sup>*\<^sup>* s s' \<and> sim_exit mv sc s' (fst r) (snd r)"
    and r: "(case sim_queue s of [] \<Rightarrow> Some (None, s)
      | it # q \<Rightarrow> if sc_max_time_seconds sc < qi_at it then Some (None, s\<lparr>sim_queue := q\<rparr>)
          else case sim_event mv sc it (s\<lparr>sim_queue := q\<rparr>) of
                 (None, s') \<Rightarrow> loop mv sc s' | (Some e, s') \<Rightarrow> Some (Some e, s')) = Some r"
  show "\<exists>s'. (sim_step mv sc)\<^sup>*\<^sup>* s s' \<and> sim_exit mv sc s' (fst r) (snd r)"
  proof (cases "sim_queue s")
    case Nil
    then show ?thesis using r by (auto intro!: exI [of _ s] sim_exit.drained)
  next
    case q: (Cons it q)
    show ?thesis
    proof (cases "sc_max_time_seconds sc < qi_at it")
      case True
      then show ?thesis using r q by (auto intro!: exI [of _ s] sim_exit.too_late)
    next
      case False
      obtain e t where ev: "sim_event mv sc it (s\<lparr>sim_queue := q\<rparr>) = (e, t)" by fastforce
      show ?thesis
      proof (cases e)
        case None
        then have step: "sim_step mv sc s t" using sim_step.fire [OF q _ ev [unfolded None]] False by simp
        have "loop mv sc t = Some r" using r q False ev None by simp
        from IH [OF this] step show ?thesis by (meson converse_rtranclp_into_rtranclp)
      next
        case (Some x)
        then show ?thesis using r q False ev by (auto intro!: exI [of _ s] sim_exit.failed)
      qed
    qed
  qed
qed

lemma sim_exit_same:
  "sim_exit mv sc s e t \<Longrightarrow> sim_timeline t = sim_timeline s \<and> sim_snapshots t = sim_snapshots s \<and>
     sim_world_history t = sim_world_history s \<and> sim_world t = sim_world s \<and>
     sim_sequence t = sim_sequence s + (if e = None then 0 else 1)"
  by (induction rule: sim_exit.induct) (auto simp: sim_event_def Let_def split: sum.splits prod.splits)

section \<open>A rule without delay that may fire again\<close>

text \<open>A set of states the loop cannot leave: it has no result there.\<close>

lemma sim_loop_diverges:
  assumes "\<And>s. trap s \<Longrightarrow> \<exists>it q t. sim_queue s = it # q \<and> qi_at it \<le> sc_max_time_seconds sc \<and>
      sim_event mv sc it (s\<lparr>sim_queue := q\<rparr>) = (None, t) \<and> trap t"
  shows "trap s \<Longrightarrow> sim_loop mv sc s = None"
proof (rule ccontr)
  assume "trap s" "sim_loop mv sc s \<noteq> None"
  then obtain r where "sim_loop mv sc s = Some r" by blast
  from sim_loop_steps [OF this] obtain s' where steps: "(sim_step mv sc)\<^sup>*\<^sup>* s s'"
    and ex: "sim_exit mv sc s' (fst r) (snd r)" by blast
  from steps \<open>trap s\<close> have "trap s'"
  proof (induction rule: rtranclp_induct)
    case (step y z)
    then obtain it q u where "sim_queue y = it # q" "sim_event mv sc it (y\<lparr>sim_queue := q\<rparr>) = (None, u)" "trap u"
      using assms [of y] by blast
    with step.hyps(2) show ?case by (auto elim!: sim_stepE)
  qed
  with assms [of s'] ex show False by (auto elim!: sim_exit.cases)
qed

lemma schedule_single:
  "rule_conditions r = [] \<Longrightarrow> \<not> rule_fire_once r \<Longrightarrow>
     schedule_rules [r] w now fired order = (rule_items now order r, fired, order + length (rule_effects r))"
  by (simp add: rule_applies_def)

lemma set_state_known: "i \<in> fst ` set w \<Longrightarrow> \<exists>w'. set_state i path v w = Inr w' \<and> i \<in> fst ` set w'"
  by (auto simp: set_state_def dget_in_keys split: option.splits)

lemma zero_delay_rule_diverges:
  assumes rules: "sc_transition_rules sc = [r]" "rule_conditions r = []" "\<not> rule_fire_once r"
      "rule_delay_seconds r = 0" "rule_effects r = [m]"
    and m: "mut_type m = Set_State" "mut_path m = Some path" "path \<noteq> []"
      "mut_entity_id m \<in> ent_id ` set (sc_entities sc)"
    and start: "dist_mutations (sc_disturbance sc) = [d]" "sched_mutation d = m"
      "sched_at_seconds d \<le> sc_max_time_seconds sc"
  shows "run_simulation mv uid started completed sc seed = None"
proof -
  let ?t = "sched_at_seconds d" and ?i = "mut_entity_id m"
  let ?trap = "\<lambda>s :: sim. sim_queue s \<noteq> [] \<and> ?i \<in> fst ` set (sim_world s) \<and>
      (\<forall>it \<in> set (sim_queue s). qi_at it = ?t \<and> sched_mutation (qi_scheduled it) = m)"
  have "sim_loop mv sc (start_sim sc) = None"
  proof (rule sim_loop_diverges [of ?trap])
    fix s :: sim assume trap: "?trap s"
    then obtain it q where q: "sim_queue s = it # q" by (cases "sim_queue s") auto
    obtain w where w: "set_state ?i path (mut_value m) (sim_world s) = Inr w" "?i \<in> fst ` set w"
      using set_state_known trap by blast
    obtain e t where ev: "sim_event mv sc it (s\<lparr>sim_queue := q\<rparr>) = (e, t)" by fastforce
    have mut: "apply_mutation mv (sim_world s) (sched_mutation (qi_scheduled it)) = Inr w"
      using trap q m w(1) by (simp add: apply_mutation_def)
    have ok: "e = None" using ev mut by (auto simp: sim_event_def Let_def split: prod.splits)
    have t: "sim_world t = w" "sim_queue t = heappush_all (rule_items ?t (sim_order s) r) q"
      using ev mut rules trap q
      by (auto simp: sim_event_def Let_def schedule_single [OF rules(2,3)] simp del: schedule_rules.simps split: prod.splits)
    have items: "\<exists>x. rule_items ?t (sim_order s) r = [x] \<and> qi_at x = ?t \<and> sched_mutation (qi_scheduled x) = m"
      using rules(4,5) by (simp add: rule_items_def)
    have "?trap t" using items w(2) trap q unfolding t by (auto simp: heappush_all_def)
    then show "\<exists>it q t. sim_queue s = it # q \<and> qi_at it \<le> sc_max_time_seconds sc \<and>
        sim_event mv sc it (s\<lparr>sim_queue := q\<rparr>) = (None, t) \<and> ?trap t"
      using q ev ok trap start(3) by auto
  next
    show "?trap (start_sim sc)"
      using start m(4)
      by (auto simp: start_sim_def Let_def disturbance_items_def from_entities_def heappush_all_def
          dget_in_keys dget_dict_of rev_map map_of_eq_None_iff image_image)
  qed
  then show ?thesis by (simp add: run_simulation_def)
qed

section \<open>The invariant\<close>

text \<open>The world history is the replay of the timeline, and each of its entries has a snapshot.\<close>

definition replayed :: "(fields \<Rightarrow> entity res) \<Rightarrow> timeline_event list \<Rightarrow> world list \<Rightarrow> bool" where
  "replayed mv evs ws \<longleftrightarrow> length ws = Suc (length evs) \<and>
     (\<forall>i < length evs. \<exists>m. te_details (evs ! i) = mutation_dump m \<and>
        te_entity_id (evs ! i) = Some (mut_entity_id m) \<and> apply_mutation mv (ws ! i) m = Inr (ws ! Suc i))"

lemma replayed_snoc:
  assumes "replayed mv evs ws" "apply_mutation mv (last ws) m = Inr w" "te_details e = mutation_dump m"
    "te_entity_id e = Some (mut_entity_id m)"
  shows "replayed mv (evs @ [e]) (ws @ [w])"
proof -
  have "last ws = ws ! length evs" using assms(1) by (metis diff_Suc_1 last_conv_nth length_0_conv nat.simps(3) replayed_def)
  then show ?thesis using assms by (auto simp: replayed_def nth_append less_Suc_eq)
qed

definition sim_ok :: "(fields \<Rightarrow> entity res) \<Rightarrow> scenario \<Rightarrow> sim \<Rightarrow> bool" where
  "sim_ok mv sc s \<longleftrightarrow>
     (let wh = sim_world_history s; tl = sim_timeline s; snaps = sim_snapshots s in
      replayed mv tl (map snd wh) \<and> snd (last wh) = sim_world s \<and>
      sorted_wrt before (sim_queue s) \<and>
      (\<forall>it \<in> set (sim_queue s). fst (last wh) \<le> qi_at it \<and> qi_order it < sim_order s) \<and>
      sorted (map fst wh) \<and> (\<forall>h \<in> set wh. 0 \<le> fst h \<and> fst h \<le> sc_max_time_seconds sc) \<and>
      map fst wh = 0 # map te_at_seconds tl \<and>
      map te_sequence tl = [0 ..< length tl] \<and> sim_sequence s = length tl \<and>
      map ws_sequence snaps = [0 ..< length wh] \<and> map ws_at_seconds snaps = map fst wh \<and>
      map ws_trigger_event_sequence snaps = None # map (Some \<circ> te_sequence) tl \<and>
      map ws_truth_state snaps = map snd wh)"

lemma append_snapshot_snaps:
  "sim_snapshots (append_snapshot sc now n s) = sim_snapshots s @
     [\<lparr>ws_sequence = length (sim_snapshots s), ws_at_seconds = now, ws_trigger_event_sequence = n,
       ws_truth_state = sim_world s,
       ws_observed_state = fst (project (sim_world_history s) now (sc_profile sc)),
       ws_invariant_evaluations = evaluate_all (sc_invariants sc) (fst (project (sim_world_history s) now (sc_profile sc)))
         now (sim_observed_history s @ [(now, fst (project (sim_world_history s) now (sc_profile sc)))]) []\<rparr>]"
  by (simp add: append_snapshot_def Let_def split: prod.splits)

lemma disturbance_order: "map qi_order (disturbance_items ms) = [0 ..< length ms]"
  using map_enumerate [of 0 0 ms] by (simp add: disturbance_items_def case_prod_unfold comp_def)

lemma start_sim_ok:
  assumes "valid_scenario sc"
  shows "sim_ok mv sc (start_sim sc)"
proof -
  let ?items = "disturbance_items (dist_mutations (sc_disturbance sc))"
  have "sorted_wrt before (heappush_all ?items [])"
    by (rule sorted_heappush_all) (simp_all add: disturbance_order)
  moreover have "qi_order it < length ?items" if "it \<in> set ?items" for it
  proof -
    have "qi_order it \<in> set (map qi_order ?items)" using that by simp
    then show ?thesis unfolding disturbance_order by (simp add: disturbance_items_def)
  qed
  moreover have "0 \<le> qi_at it" if "it \<in> set ?items" for it
    using that assms enumerate_item [of _ _ 0 "dist_mutations (sc_disturbance sc)"]
    by (auto simp: disturbance_items_def valid_scenario_def list_all_iff)
  ultimately show ?thesis
    using assms
    by (simp add: sim_ok_def start_sim_def Let_def append_snapshot_snaps replayed_def valid_scenario_def)
qed


lemma sorted_le_last: "sorted xs \<Longrightarrow> x \<in> set xs \<Longrightarrow> x \<le> last xs"
  by (cases xs rule: rev_cases) (auto simp: sorted_append)

lemma sim_step_ok:
  assumes delays: "list_all (\<lambda>r. 0 \<le> rule_delay_seconds r) (sc_transition_rules sc)"
    and ok: "sim_ok mv sc s" and "sim_step mv sc s t"
  shows "sim_ok mv sc t"
  using assms(3)
proof (rule sim_stepE)
  fix it q
  assume q: "sim_queue s = it # q" and max: "qi_at it \<le> sc_max_time_seconds sc"
    and ev: "sim_event mv sc it (s\<lparr>sim_queue := q\<rparr>) = (None, t)"
  let ?wh = "sim_world_history s" and ?tl = "sim_timeline s" and ?n = "sim_sequence s"
  from ev obtain w gen where w: "apply_mutation mv (sim_world s) (sched_mutation (qi_scheduled it)) = Inr w"
      "sim_world t = w"
    and gen: "schedule_rules (sc_transition_rules sc) w (qi_at it) (sim_fired s) (sim_order s) =
       (gen, sim_fired t, sim_order t)"
    and q': "sim_queue t = heappush_all gen q" and n: "sim_sequence t = Suc ?n"
    and tl: "sim_timeline t = ?tl @ [item_event it ?n]" and wh: "sim_world_history t = ?wh @ [(qi_at it, w)]"
    and snaps: "sim_snapshots t = sim_snapshots (append_snapshot sc (qi_at it) (Some ?n)
       (s\<lparr>sim_queue := q, sim_world := w, sim_world_history := ?wh @ [(qi_at it, w)]\<rparr>))"
    by (rule sim_event_ok) simp
  have rep: "replayed mv ?tl (map snd ?wh)" and lw: "snd (last ?wh) = sim_world s"
    and sq: "sorted_wrt before (sim_queue s)"
    and qs: "\<And>x. x \<in> set (sim_queue s) \<Longrightarrow> fst (last ?wh) \<le> qi_at x \<and> qi_order x < sim_order s"
    and so: "sorted (map fst ?wh)"
    and bounds: "\<And>h. h \<in> set ?wh \<Longrightarrow> 0 \<le> fst h \<and> fst h \<le> sc_max_time_seconds sc"
    and times: "map fst ?wh = 0 # map te_at_seconds ?tl"
    and seqs: "map te_sequence ?tl = [0 ..< length ?tl]" "?n = length ?tl"
    and sn: "map ws_sequence (sim_snapshots s) = [0 ..< length ?wh]" "map ws_at_seconds (sim_snapshots s) = map fst ?wh"
      "map ws_trigger_event_sequence (sim_snapshots s) = None # map (Some \<circ> te_sequence) ?tl"
      "map ws_truth_state (sim_snapshots s) = map snd ?wh"
    using ok unfolding sim_ok_def Let_def by blast+
  have ne: "?wh \<noteq> []" using rep by (auto simp: replayed_def)
  have len: "length (sim_snapshots s) = length ?wh" using sn(4) by (metis length_map)
  have "replayed mv (?tl @ [item_event it ?n]) (map snd ?wh @ [w])"
    by (rule replayed_snoc [OF rep, of "sched_mutation (qi_scheduled it)"])
      (use w(1) lw ne in \<open>simp_all add: last_map item_event_def\<close>)
  moreover have at: "fst (last ?wh) \<le> qi_at it" "0 \<le> qi_at it"
    using qs [of it] bounds [OF last_in_set [OF ne]] q by auto
  moreover have "sorted (map fst (?wh @ [(qi_at it, w)]))"
    using so at(1) ne sorted_le_last [OF so] by (auto simp: sorted_append last_map intro: order_trans)
  moreover have "sorted_wrt before (heappush_all gen q)"
  proof (rule sorted_heappush_all)
    show "sorted_wrt before q" using sq q by simp
    show "sorted_wrt (<) (map qi_order gen)" using schedule_rules_order [OF gen] by simp
    fix x y assume "x \<in> set gen" "y \<in> set q"
    then have "qi_order x \<in> {sim_order s ..< sim_order t}" "qi_order y < sim_order s"
      using schedule_rules_order [OF gen] qs [of y] q by (metis image_eqI set_map set_upt, simp)
    then show "qi_order y < qi_order x" by simp
  qed
  moreover have "qi_at it \<le> qi_at x \<and> qi_order x < sim_order t" if x: "x \<in> set (heappush_all gen q)" for x
  proof (cases "x \<in> set gen")
    case True
    then have "qi_order x \<in> {sim_order s ..< sim_order t}"
      using schedule_rules_order [OF gen] by (metis image_eqI set_map set_upt)
    then show ?thesis using schedule_rules_at [OF gen delays True] by simp
  next
    case False
    then have "x \<in> set q" using x by simp
    then show ?thesis using sq q qs [of x] schedule_rules_order [OF gen] by (auto simp: before_def)
  qed
  moreover obtain p where p: "sim_snapshots t = sim_snapshots s @ [p]" "ws_sequence p = length ?wh"
    "ws_at_seconds p = qi_at it" "ws_trigger_event_sequence p = Some ?n" "ws_truth_state p = w"
    unfolding snaps append_snapshot_snaps using len by simp
  ultimately show ?thesis
    unfolding sim_ok_def Let_def q' tl wh p(1) w(2) n
    using bounds times seqs sn max p(2-5)
    by (intro conjI) (simp_all add: item_event_def)
qed

section \<open>Observing everything\<close>

definition transparent :: "observation_profile \<Rightarrow> bool" where
  "transparent prof \<longleftrightarrow> prof_hidden_entity_ids prof = {} \<and> prof_hidden_paths prof = [] \<and>
     prof_lag_seconds prof = [] \<and> prof_contradictory_overrides prof = []"

lemma state_at_latest:
  "(\<And>c. c \<in> set h \<Longrightarrow> fst c \<le> t) \<Longrightarrow> state_at_or_before s h t = (if h = [] then s else last h)"
  by (induction h arbitrary: s) auto

lemma dict_of_wf: "wf_dict d \<Longrightarrow> dict_of d = d"
proof -
  have "wf_dict (a @ d) \<Longrightarrow> foldl (\<lambda>d (k, v). dset k v d) a d = a @ d" for a
  proof (induction d arbitrary: a)
    case (Cons p d)
    obtain k v where p: "p = (k, v)" by (cases p)
    then have "dget a k = None" using Cons.prems by (auto simp: wf_dict_def map_of_eq_None_iff)
    then show ?case using Cons.IH [of "a @ [(k, v)]"] Cons.prems by (simp add: p dset_new)
  qed simp
  from this [of "[]"] show "wf_dict d \<Longrightarrow> dict_of d = d" by (simp add: dict_of_def)
qed

lemma project_transparent:
  assumes "transparent prof" "h \<noteq> []" "\<And>c. c \<in> set h \<Longrightarrow> fst c \<le> now" "wf_dict (snd (last h))"
  shows "fst (project h now prof) = snd (last h)"
proof -
  let ?w = "snd (last h)"
  have see: "\<exists>x. observe_entity h now prof i = Some (s, x)" if "(i, s) \<in> set ?w" for i s
    using assms that
    by (simp add: observe_entity_def transparent_def dget_default_def state_at_latest hide_and_override_def
        wf_dict_dget Let_def)
  have "map (\<lambda>(i, s, x). (i, s)) (List.map_filter (\<lambda>(i, s). map_option (Pair i) (observe_entity h now prof i)) d) = d"
    if "set d \<subseteq> set ?w" for d
    using that
  proof (induction d)
    case (Cons p d)
    obtain i s where p: "p = (i, s)" by (cases p)
    then obtain x where "observe_entity h now prof i = Some (s, x)" using see [of i s] Cons.prems by auto
    then show ?case using Cons by (simp add: p List.map_filter_def)
  qed (simp add: List.map_filter_def)
  then show ?thesis by (simp add: project_def Let_def dict_of_wf [OF assms(4)])
qed

lemma apply_mutation_wf: "apply_mutation mv w m = Inr w' \<Longrightarrow> wf_dict w \<Longrightarrow> wf_dict w'"
  by (auto simp: apply_mutation_def set_state_def create_entity_def delete_entity_def res_bind_eq_Inr_iff
      split: mutation_type.splits option.splits if_splits)

definition sim_clear :: "scenario \<Rightarrow> sim \<Rightarrow> bool" where
  "sim_clear sc s \<longleftrightarrow> wf_dict (sim_world s) \<and>
     (transparent (sc_profile sc) \<longrightarrow> map ws_observed_state (sim_snapshots s) = map snd (sim_world_history s))"

lemma start_sim_clear: "sim_clear sc (start_sim sc)"
  using project_transparent [of "sc_profile sc" "[(0, from_entities (sc_entities sc))]" 0]
  by (simp add: sim_clear_def start_sim_def Let_def append_snapshot_snaps from_entities_def)

lemma sim_step_clear:
  assumes "sim_ok mv sc t" "sim_clear sc s" "sim_step mv sc s t"
  shows "sim_clear sc t"
  using assms(3)
proof (rule sim_stepE)
  fix it q
  assume "sim_event mv sc it (s\<lparr>sim_queue := q\<rparr>) = (None, t)"
  then obtain w where w: "apply_mutation mv (sim_world s) (sched_mutation (qi_scheduled it)) = Inr w"
      "sim_world t = w"
    and wh: "sim_world_history t = sim_world_history s @ [(qi_at it, w)]"
    and snaps: "sim_snapshots t = sim_snapshots (append_snapshot sc (qi_at it) (Some (sim_sequence s))
       (s\<lparr>sim_queue := q, sim_world := w, sim_world_history := sim_world_history s @ [(qi_at it, w)]\<rparr>))"
    by (rule sim_event_ok) simp
  have wf: "wf_dict w" using apply_mutation_wf [OF w(1)] assms(2) by (simp add: sim_clear_def)
  have "sorted (map fst (sim_world_history t))" using assms(1) unfolding sim_ok_def Let_def by blast
  then have "fst c \<le> qi_at it" if "c \<in> set (sim_world_history t)" for c
    using that by (auto simp: wh sorted_append)
  then have "transparent (sc_profile sc) \<Longrightarrow> fst (project (sim_world_history t) (qi_at it) (sc_profile sc)) = w"
    using project_transparent [of "sc_profile sc" "sim_world_history t" "qi_at it"] wf by (simp add: wh)
  then show ?thesis
    using assms(2) wf w(2) unfolding sim_clear_def snaps append_snapshot_snaps by (simp add: wh)
qed

section \<open>The simulator as an invariant machine\<close>

definition sim_inv :: "(fields \<Rightarrow> entity res) \<Rightarrow> scenario \<Rightarrow> sim \<Rightarrow> bool" where
  "sim_inv mv sc s \<longleftrightarrow> valid_scenario sc \<and> sim_ok mv sc s \<and> sim_clear sc s"

interpretation simulator: invariant_machine "\<lambda>s. valid_scenario sc \<and> s = start_sim sc" "sim_step mv sc"
  "sim_inv mv sc" for mv sc
  by unfold_locales
    (auto simp: sim_inv_def start_sim_ok start_sim_clear valid_scenario_def
      intro: sim_step_ok sim_step_clear [OF sim_step_ok])

lemma run_simulation_inv:
  assumes "valid_scenario sc" "run_simulation mv uid started completed sc seed = Some r"
  obtains s failure where "sim_inv mv sc s" "sr_snapshots r = sim_snapshots s"
    "sr_status r = (if failure = None then Run_Completed else Run_Failed)"
    "sr_timeline r = sim_timeline s @ (case failure of None \<Rightarrow> [] | Some ev \<Rightarrow> [ev])"
    "\<And>ev. failure = Some ev \<Longrightarrow> te_event_type ev = ''simulation.failed'' \<and>
       te_sequence ev = Suc (length (sim_timeline s))"
proof -
  obtain e t where loop: "sim_loop mv sc (start_sim sc) = Some (e, t)"
    using assms(2) by (auto simp: run_simulation_def)
  from sim_loop_steps [OF this] obtain s where "(sim_step mv sc)\<^sup>*\<^sup>* (start_sim sc) s" and ex: "sim_exit mv sc s e t"
    by auto
  then have inv: "sim_inv mv sc s" using assms(1) by (intro simulator.reach_inv) auto
  note same = sim_exit_same [OF ex]
  have "sim_sequence s = length (sim_timeline s)" using inv by (simp add: sim_inv_def sim_ok_def Let_def)
  then show ?thesis
    using that [OF inv, of "map_option (\<lambda>e. failure_event e t) e"] same assms(2)
    by (cases e) (auto simp: run_simulation_def loop Let_def failure_event_def)
qed

lemma run_simulation_returns:
  assumes "list_all (\<lambda>r. rule_fire_once r \<or> 0 < rule_delay_seconds r) (sc_transition_rules sc)"
  shows "\<exists>r. run_simulation mv uid started completed sc seed = Some r"
  using sim_loop_returns [OF assms] by (auto simp: run_simulation_def)

text \<open>What the invariant says of the record of a run.\<close>

lemma sim_inv_record:
  assumes "sim_inv mv sc s"
  shows "replayed mv (sim_timeline s) (map ws_truth_state (sim_snapshots s))"
    "map te_sequence (sim_timeline s) = [0 ..< length (sim_timeline s)]"
    "sorted (0 # map te_at_seconds (sim_timeline s))"
    "\<forall>e \<in> set (sim_timeline s). te_at_seconds e \<le> sc_max_time_seconds sc"
    "map ws_at_seconds (sim_snapshots s) = 0 # map te_at_seconds (sim_timeline s)"
    "map ws_trigger_event_sequence (sim_snapshots s) = None # map (Some \<circ> te_sequence) (sim_timeline s)"
    "transparent (sc_profile sc) \<longrightarrow> map ws_observed_state (sim_snapshots s) = map ws_truth_state (sim_snapshots s)"
proof -
  let ?wh = "sim_world_history s" and ?tl = "sim_timeline s" and ?snaps = "sim_snapshots s"
  have ok: "sim_ok mv sc s" and clear: "sim_clear sc s" using assms by (simp_all add: sim_inv_def)
  have times: "map fst ?wh = 0 # map te_at_seconds ?tl" and so: "sorted (map fst ?wh)"
    and bound: "\<forall>h \<in> set ?wh. 0 \<le> fst h \<and> fst h \<le> sc_max_time_seconds sc"
    and truth: "map ws_truth_state ?snaps = map snd ?wh" and rep: "replayed mv ?tl (map snd ?wh)"
    and ats: "map ws_at_seconds ?snaps = map fst ?wh" and seqs: "map te_sequence ?tl = [0 ..< length ?tl]"
    and trig: "map ws_trigger_event_sequence ?snaps = None # map (Some \<circ> te_sequence) ?tl"
    using ok unfolding sim_ok_def Let_def by blast+
  show "replayed mv ?tl (map ws_truth_state ?snaps)" unfolding truth by (rule rep)
  show "map te_sequence ?tl = [0 ..< length ?tl]" by (rule seqs)
  show "sorted (0 # map te_at_seconds ?tl)" using so unfolding times .
  show "\<forall>e \<in> set ?tl. te_at_seconds e \<le> sc_max_time_seconds sc"
  proof
    fix e assume "e \<in> set ?tl"
    then have "te_at_seconds e \<in> set (map fst ?wh)" unfolding times by simp
    with bound show "te_at_seconds e \<le> sc_max_time_seconds sc" by auto
  qed
  show "map ws_at_seconds ?snaps = 0 # map te_at_seconds ?tl" using ats unfolding times .
  show "map ws_trigger_event_sequence ?snaps = None # map (Some \<circ> te_sequence) ?tl" by (rule trig)
  show "transparent (sc_profile sc) \<longrightarrow> map ws_observed_state ?snaps = map ws_truth_state ?snaps"
    using clear unfolding truth sim_clear_def by blast
qed

end
