(* ===== verification/Builtin_Actions.thy ===== *)
theory Builtin_Actions
  imports Planning Executors
begin

text \<open>
  The built-in action types of \<open>actions/catalog.py\<close> and the catalogue built from them and from the
  action types of the installed packs (an argument). The catalogue of the built-in types always
  builds; its action types are closed under rollback and each names an executor of the default
  registry. The rollback of the actions that start a process is shown to be unusable: the stop
  action gets the parameters of the start action, which need not have a \<open>pid\<close>.
\<close>

section \<open>The definitions\<close>

text \<open>An \<open>ActionTypeDefinition\<close> with the defaults of its class.\<close>

definition plain_type :: "string \<Rightarrow> string \<Rightarrow> action_type" where
  "plain_type i title =
     \<lparr>at_id = i, at_title = title, at_description = [], at_parameter_schema = [], at_preconditions = [],
      at_expected_effects = [], at_possible_side_effects = [], at_required_capabilities = {},
      at_supported_modes = {''simulation''}, at_executor_id = ''simulation'', at_default_risk = default_risk,
      at_completion_condition_ids = [], at_verification_condition_ids = [], at_verification_conditions = [],
      at_rollback_action_type_id = None, at_timeout_seconds = 120, at_max_attempts = 1, at_metadata = []\<rparr>"

definition required_schema :: "string list \<Rightarrow> fields" where
  "required_schema names = [(''required'', JList (map JStr names))]"

definition risk_of :: "risk_class \<Rightarrow> string \<Rightarrow> string \<Rightarrow> bool \<Rightarrow> bool \<Rightarrow> risk_assessment" where
  "risk_of c radius availability reversible idempotent =
     default_risk\<lparr>risk_class := c, risk_blast_radius := radius, risk_availability := availability,
       risk_reversible := reversible, risk_idempotent := idempotent\<rparr>"

definition wait_type :: action_type where
  "wait_type = (plain_type ''operation.wait_for_condition.v1'' ''Wait for condition'')
     \<lparr>at_description := ''Wait until a declared verification condition holds.'',
      at_executor_id := ''builtin.wait'', at_supported_modes := {''simulation'', ''fixture'', ''live''},
      at_required_capabilities := {''observe''}, at_timeout_seconds := 300\<rparr>"

definition process_start_type :: action_type where
  "process_start_type = (plain_type ''local.process.start.v1'' ''Start local process'')
     \<lparr>at_executor_id := ''local.process'', at_supported_modes := {''simulation'', ''live''},
      at_parameter_schema := required_schema [''argv''] @
        [(''properties'', JObj [(''argv'', JObj [(''type'', JStr ''array'')])])],
      at_required_capabilities := {''host.process.start''}, at_expected_effects := [''process_running''],
      at_possible_side_effects := [''host_resource_consumption''],
      at_default_risk := risk_of R1 ''single_process'' ''none'' True True,
      at_rollback_action_type_id := Some ''local.process.stop.v1''\<rparr>"

definition process_stop_type :: action_type where
  "process_stop_type = (plain_type ''local.process.stop.v1'' ''Stop tracked local process'')
     \<lparr>at_executor_id := ''local.process'', at_supported_modes := {''simulation'', ''live''},
      at_required_capabilities := {''host.process.stop''}, at_expected_effects := [''process_stopped''],
      at_default_risk := risk_of R1 ''single_process'' ''bounded'' True True\<rparr>"

definition container_start_type :: action_type where
  "container_start_type = (plain_type ''docker.container.start.v1'' ''Start Docker container'')
     \<lparr>at_executor_id := ''docker.cli'', at_supported_modes := {''simulation'', ''live''},
      at_parameter_schema := required_schema [''container''],
      at_required_capabilities := {''docker.container.start''}, at_expected_effects := [''container_running''],
      at_default_risk := risk_of R1 ''single_container'' ''none'' True True,
      at_rollback_action_type_id := Some ''docker.container.stop.v1''\<rparr>"

definition container_stop_type :: action_type where
  "container_stop_type = (plain_type ''docker.container.stop.v1'' ''Stop Docker container'')
     \<lparr>at_executor_id := ''docker.cli'', at_supported_modes := {''simulation'', ''live''},
      at_parameter_schema := required_schema [''container''],
      at_required_capabilities := {''docker.container.stop''}, at_expected_effects := [''container_stopped''],
      at_default_risk := risk_of R1 ''single_container'' ''bounded'' True True,
      at_rollback_action_type_id := Some ''docker.container.start.v1''\<rparr>"

definition service_restart_type :: action_type where
  "service_restart_type = (plain_type ''host.service.restart.v1'' ''Restart host service'')
     \<lparr>at_executor_id := ''host.service'', at_supported_modes := {''simulation'', ''live''},
      at_parameter_schema := required_schema [''service''],
      at_required_capabilities := {''host.service.restart''}, at_expected_effects := [''service_running''],
      at_possible_side_effects := [''temporary_service_unavailability''],
      at_default_risk := risk_of R2 ''single_host_service'' ''temporary'' False False\<rparr>"

definition rollout_restart_type :: action_type where
  "rollout_restart_type = (plain_type ''kubernetes.workload.rollout_restart.v1'' ''Restart Kubernetes workload'')
     \<lparr>at_executor_id := ''kubectl.safe'', at_supported_modes := {''simulation'', ''live''},
      at_parameter_schema := required_schema [''kind'', ''name'', ''namespace''],
      at_required_capabilities := {''kubernetes.workload.restart''},
      at_expected_effects := [''new_workload_revision_started''],
      at_possible_side_effects := [''temporary_capacity_reduction'', ''cold_start''],
      at_default_risk := risk_of R2 ''single_workload'' ''temporary'' False False\<rparr>"

definition job_delete_type :: action_type where
  "job_delete_type = (plain_type ''kubernetes.job.delete_terminal.v1'' ''Delete terminal Kubernetes Job'')
     \<lparr>at_executor_id := ''kubectl.safe'', at_supported_modes := {''simulation'', ''live''},
      at_parameter_schema := required_schema [''name'', ''namespace''] @
        [(''properties'', JObj [(''require_terminal'', JObj [(''const'', JBool True)])])],
      at_required_capabilities := {''kubernetes.job.delete_terminal''}, at_expected_effects := [''job_absent''],
      at_default_risk := risk_of R1 ''single_ephemeral_job'' ''none'' False True\<rparr>"

definition argocd_refresh_type :: action_type where
  "argocd_refresh_type = (plain_type ''argocd.application.refresh.v1'' ''Refresh Argo CD application'')
     \<lparr>at_executor_id := ''kubectl.safe'', at_supported_modes := {''simulation'', ''live''},
      at_parameter_schema := required_schema [''name'', ''namespace''],
      at_required_capabilities := {''argocd.application.refresh''},
      at_expected_effects := [''gitops_observation_refreshed''],
      at_default_risk := risk_of R1 ''single_application'' ''none'' True True\<rparr>"

definition port_forward_type :: action_type where
  "port_forward_type = (plain_type ''port_forward.ensure.v1'' ''Ensure port-forward'')
     \<lparr>at_executor_id := ''port_forward'', at_supported_modes := {''simulation'', ''live''},
      at_parameter_schema := required_schema [''resource'', ''local_port'', ''remote_port'', ''namespace''],
      at_required_capabilities := {''kubernetes.port_forward''}, at_expected_effects := [''port_forward_active''],
      at_default_risk := (risk_of R1 ''local_process'' ''none'' True True)
        \<lparr>risk_security := ''local_port_exposure''\<rparr>,
      at_rollback_action_type_id := Some ''local.process.stop.v1''\<rparr>"

definition builtin_action_types :: "action_type list" where
  "builtin_action_types =
     [wait_type, process_start_type, process_stop_type, container_start_type, container_stop_type,
      service_restart_type, rollout_restart_type, job_delete_type, argocd_refresh_type, port_forward_type]"

text \<open>The types of the pack runtime, when there is one, follow the built-in ones.\<close>

definition register_all :: "action_type list \<Rightarrow> action_catalog \<Rightarrow> action_catalog res" where
  "register_all ds c = foldl (\<lambda>r d. res_bind r (catalog_register d False)) (Inr c) ds"

definition build_builtin_action_catalog :: "action_type list option \<Rightarrow> action_catalog res" where
  "build_builtin_action_catalog pack_types =
     res_bind (register_all builtin_action_types new_action_catalog) (\<lambda>c.
       case pack_types of None \<Rightarrow> Inr c | Some ds \<Rightarrow> register_all ds c)"

section \<open>The catalogue\<close>

lemma register_all_extend:
  "register_all ds c = reg_extend (map (\<lambda>d. (at_id d, d)) ds) False c"
proof -
  have err: "foldl (\<lambda>r d. res_bind r (catalog_register d False)) (Inl e) ds = Inl e" for e ds
    by (induction ds) auto
  show ?thesis
  proof (induction ds arbitrary: c)
    case (Cons d ds)
    then show ?case
      by (cases "catalog_register d False c") (auto simp: register_all_def err catalog_register_def)
  qed (simp add: register_all_def)
qed

lemmas builtin_types = wait_type_def process_start_type_def process_stop_type_def container_start_type_def
  container_stop_type_def service_restart_type_def rollout_restart_type_def job_delete_type_def
  argocd_refresh_type_def port_forward_type_def

lemma builtin_ids:
  "map at_id builtin_action_types =
     [''operation.wait_for_condition.v1'', ''local.process.start.v1'', ''local.process.stop.v1'',
      ''docker.container.start.v1'', ''docker.container.stop.v1'', ''host.service.restart.v1'',
      ''kubernetes.workload.rollout_restart.v1'', ''kubernetes.job.delete_terminal.v1'',
      ''argocd.application.refresh.v1'', ''port_forward.ensure.v1'']"
  by (simp add: builtin_action_types_def builtin_types plain_type_def)

lemma builtin_executors:
  "map at_executor_id builtin_action_types =
     [''builtin.wait'', ''local.process'', ''local.process'', ''docker.cli'', ''docker.cli'', ''host.service'',
      ''kubectl.safe'', ''kubectl.safe'', ''kubectl.safe'', ''port_forward'']"
  by (simp add: builtin_action_types_def builtin_types plain_type_def)

lemma builtin_rollbacks:
  "map at_rollback_action_type_id builtin_action_types =
     [None, Some ''local.process.stop.v1'', None, Some ''docker.container.stop.v1'',
      Some ''docker.container.start.v1'', None, None, None, None, Some ''local.process.stop.v1'']"
  by (simp add: builtin_action_types_def builtin_types plain_type_def)

text \<open>Distinct keys always register.\<close>

lemma reg_extend_distinct:
  "distinct (map fst kvs) \<Longrightarrow> fst ` set kvs \<inter> fst ` set (reg_items r) = {} \<Longrightarrow>
     \<exists>r'. reg_extend kvs False r = Inr r'"
proof (induction kvs arbitrary: r)
  case (Cons p kvs)
  obtain k v where p: "p = (k, v)" by (cases p)
  have new: "k \<notin> fst ` set (reg_items r)" and k: "k \<notin> fst ` set kvs"
    and rest: "fst ` set kvs \<inter> fst ` set (reg_items r) = {}" "distinct (map fst kvs)"
    using Cons.prems unfolding p by auto
  then have reg: "reg_register k v False r = Inr (reg_put k v r)"
    by (simp add: reg_register_def reg_put_def)
  have "fst ` set (reg_items (reg_put k v r)) = insert k (fst ` set (reg_items r))"
    by (simp add: reg_put_def keys_dset)
  then have "fst ` set kvs \<inter> fst ` set (reg_items (reg_put k v r)) = {}"
    using k rest(1) by simp
  then show ?case using Cons.IH [OF rest(2)] by (simp add: p reg)
qed simp

lemma builtin_catalog_ok: "\<exists>c. build_builtin_action_catalog None = Inr c"
proof -
  have "distinct (map fst (map (\<lambda>d. (at_id d, d)) builtin_action_types))"
    using builtin_ids by (simp add: comp_def)
  then show ?thesis
    using reg_extend_distinct [of "map (\<lambda>d. (at_id d, d)) builtin_action_types" new_action_catalog]
    by (auto simp: build_builtin_action_catalog_def register_all_extend new_action_catalog_def new_registry_def)
qed

lemma builtin_catalog_get:
  assumes "build_builtin_action_catalog packs = Inr c" "d \<in> set builtin_action_types"
  shows "catalog_get c (at_id d) = Inr d"
proof -
  let ?kvs = "map (\<lambda>d. (at_id d, d))"
  obtain c0 where c0: "reg_extend (?kvs builtin_action_types) False new_action_catalog = Inr c0"
    and rest: "packs = None \<and> c = c0 \<or> (\<exists>ds. packs = Some ds \<and> reg_extend (?kvs ds) False c0 = Inr c)"
    using assms(1)
    by (cases packs) (auto simp: build_builtin_action_catalog_def register_all_extend res_bind_eq_Inr_iff)
  have wf: "wf_registry new_action_catalog" by (simp add: new_action_catalog_def)
  have "(at_id d, d) \<in> set (?kvs builtin_action_types)" using assms(2) by simp
  then have "reg_maybe_get c0 (at_id d) = Some d" using reg_extend_keeps [OF wf c0] by blast
  then have "reg_maybe_get c (at_id d) = Some d"
    using rest reg_extend_keeps [OF wf_reg_extend [OF wf c0]] by blast
  then show ?thesis by (simp add: catalog_get_def reg_get_def reg_maybe_get_def)
qed

lemma builtin_rollback_known:
  "d \<in> set builtin_action_types \<Longrightarrow> at_rollback_action_type_id d = Some i \<Longrightarrow>
     \<exists>d' \<in> set builtin_action_types. at_id d' = i"
proof -
  assume d: "d \<in> set builtin_action_types" "at_rollback_action_type_id d = Some i"
  then have "Some i \<in> set (map at_rollback_action_type_id builtin_action_types)"
    by (metis image_eqI set_map)
  then have "i \<in> set (map at_id builtin_action_types)"
    unfolding builtin_rollbacks builtin_ids by auto
  then show ?thesis by auto
qed

lemma builtin_executor_known:
  assumes "build_default_executor_registry E = Inr reg" "d \<in> set builtin_action_types"
  shows "\<exists>x. executor_get reg (at_executor_id d) = Inr x"
proof -
  have reg: "reg = map (\<lambda>x. (ex_id x, x)) (default_executors E)" using assms(1) default_registry_eq by simp
  have "at_executor_id d \<in> set (map at_executor_id builtin_action_types)" using assms(2) by simp
  then have "at_executor_id d \<in> fst ` set reg"
    unfolding builtin_executors reg by (auto simp: default_executors_def)
  then show ?thesis by (auto simp: executor_get_def dget_in_keys split: option.split)
qed

section \<open>Rolling back a started process\<close>

lemma stop_without_pid:
  assumes "act_type_id a = ''local.process.stop.v1''" "dget (act_parameters a) ''pid'' = None"
  shows "\<exists>s'. local_process_execute E a d ctx n s = (Inl (KeyError, ''pid''), s') \<and> rs_calls s' = rs_calls s"
  using assms
  by (simp add: local_process_execute_def stop_process_def rt_bind_def rt_now_iso_eq rt_lift_def param_def raise_def)

end
