(* ===== verification/Discovery.thy ===== *)
theory Discovery
  imports IR
begin

text \<open>
  \<open>models/discovery.py\<close> and \<open>discovery/snapshot.py\<close>: discovery bundles, environment snapshots, and the
  difference of two snapshots. The content hash of an object is an argument; the sets of an entity are dumped
  as sorted lists (the code's order is that of the interpreter). Shown: what a difference reports.
\<close>

section \<open>The data\<close>

datatype collection_status = Collect_Complete | Collect_Partial | Collect_Failed

fun collection_value :: "collection_status \<Rightarrow> string" where
  "collection_value Collect_Complete = ''complete''"
| "collection_value Collect_Partial = ''partial''"
| "collection_value Collect_Failed = ''failed''"

datatype source_type = Source_Live | Source_Fixture

record discovery_issue =
  di_id :: string
  di_severity :: string
  di_collector_id :: string
  di_resource_type :: "string option"
  di_message :: string
  di_details :: fields

record resource_document =
  rd_id :: string
  rd_api_version :: string
  rd_kind :: string
  rd_name :: string
  rd_namespace :: "string option"
  rd_payload :: fields
  rd_source :: string
  rd_observed_at_iso :: string
  rd_content_hash_hint :: "string option"

record discovery_bundle =
  db_id :: string
  db_environment_id :: string
  db_collector_id :: string
  db_source_type :: source_type
  db_started_at_iso :: string
  db_completed_at_iso :: string
  db_status :: collection_status
  db_source_fingerprint :: string
  db_resources :: "resource_document list"
  db_entities :: "entity list"
  db_relationships :: "relationship list"
  db_observations :: "observation list"
  db_issues :: "discovery_issue list"
  db_permission_gaps :: "fields list"
  db_collection_summary :: fields
  db_metadata :: fields

record env_snapshot =
  snap_id :: string
  snap_environment_id :: string
  snap_captured_at_iso :: string
  snap_started_at_iso :: string
  snap_completed_at_iso :: string
  snap_status :: collection_status
  snap_source_type :: source_type
  snap_source_fingerprint :: string
  snap_entities :: "entity list"
  snap_relationships :: "relationship list"
  snap_observations :: "observation list"
  snap_issues :: "discovery_issue list"
  snap_permission_gaps :: "fields list"
  snap_raw_resource_count :: nat
  snap_collection_summary :: fields
  snap_raw_artifact_ids :: "string list"
  snap_metadata :: fields

datatype change_type = Added | Removed | Changed

record field_change =
  fc_path :: string
  fc_before :: json
  fc_after :: json

record entity_change =
  ec_entity_id :: string
  ec_type :: change_type
  ec_before_hash :: "string option"
  ec_after_hash :: "string option"
  ec_field_changes :: "field_change list"

record relationship_change =
  rlc_relationship_id :: string
  rlc_type :: change_type
  rlc_before_hash :: "string option"
  rlc_after_hash :: "string option"

record snapshot_diff =
  df_id :: string
  df_environment_id :: string
  df_before_id :: string
  df_after_id :: string
  df_created_at_iso :: string
  df_entity_changes :: "entity_change list"
  df_relationship_changes :: "relationship_change list"
  df_summary :: "(string, nat) dict"

section \<open>Snapshots\<close>

definition build_snapshot :: "string \<Rightarrow> discovery_bundle \<Rightarrow> topology_graph \<Rightarrow> env_snapshot" where
  "build_snapshot fresh b t =
     \<lparr>snap_id = ''snapshot:'' @ fresh, snap_environment_id = db_environment_id b,
      snap_captured_at_iso = db_completed_at_iso b, snap_started_at_iso = db_started_at_iso b,
      snap_completed_at_iso = db_completed_at_iso b, snap_status = db_status b, snap_source_type = db_source_type b,
      snap_source_fingerprint = db_source_fingerprint b, snap_entities = tg_entities t,
      snap_relationships = tg_relationships t, snap_observations = db_observations b, snap_issues = db_issues b,
      snap_permission_gaps = db_permission_gaps b, snap_raw_resource_count = length (db_resources b),
      snap_collection_summary = dmerge (db_collection_summary b)
        [(''compiled_relationship_count'', JInt (int (length (tg_relationships t)))),
         (''topology_warning_count'', JInt (int (length (tg_warnings t))))],
      snap_raw_artifact_ids = [],
      snap_metadata = dmerge (db_metadata b)
        [(''bundle_id'', JStr (db_id b)), (''topology_graph_id'', JStr (tg_graph_id t)),
         (''topology_warnings'', JList (map JStr (tg_warnings t)))]\<rparr>"

text \<open>\<open>model_dump(mode="json")\<close> of an entity.\<close>

definition str_or_null :: "string option \<Rightarrow> json" where
  "str_or_null s = (case s of None \<Rightarrow> JNull | Some x \<Rightarrow> JStr x)"

definition entity_json :: "entity \<Rightarrow> fields" where
  "entity_json e =
     [(''entity_id'', JStr (ent_id e)), (''entity_type'', JStr (ent_type e)),
      (''entity_type_lineage'', JList (map JStr (sorted_set (ent_type_lineage e)))),
      (''name'', JStr (ent_name e)), (''plane'', JStr (plane_value (ent_plane e))),
      (''namespace'', str_or_null (ent_namespace e)), (''provider'', str_or_null (ent_provider e)),
      (''labels'', JObj (map (\<lambda>(k, v). (k, JStr v)) (ent_labels e))),
      (''desired_state'', JObj (ent_desired_state e)), (''observed_state'', JObj (ent_observed_state e)),
      (''capabilities'', JList (map JStr (sorted_set (ent_capabilities e)))),
      (''extensions'', JObj (ent_extensions e))]"

section \<open>Differences\<close>

text \<open>\<open>_flatten\<close>: the leaves by dotted path; an empty mapping leaves no trace.\<close>

fun flatten :: "string \<Rightarrow> json \<Rightarrow> fields" where
  "flatten prefix (JObj kvs) =
     foldl dmerge [] (map (\<lambda>kv. flatten (if prefix = [] then fst kv else prefix @ ''.'' @ fst kv) (snd kv)) kvs)"
| "flatten prefix v = [(prefix, v)]"

definition field_changes :: "fields \<Rightarrow> fields \<Rightarrow> field_change list" where
  "field_changes before after =
     (let value = (\<lambda>d p. dget_default d p JNull) in
      map (\<lambda>p. \<lparr>fc_path = p, fc_before = value before p, fc_after = value after p\<rparr>)
        (filter (\<lambda>p. \<not> py_eq (value before p) (value after p)) (sorted_set (fst ` set before \<union> fst ` set after))))"

text \<open>\<open>_entity_change\<close>, called with at least one of the two.\<close>

definition entity_change_of :: "(entity \<Rightarrow> string) \<Rightarrow> string \<Rightarrow> entity option \<Rightarrow> entity option \<Rightarrow> entity_change" where
  "entity_change_of H i before after =
     (case (before, after) of
        (None, _) \<Rightarrow> \<lparr>ec_entity_id = i, ec_type = Added, ec_before_hash = None, ec_after_hash = map_option H after,
          ec_field_changes = []\<rparr>
      | (Some b, None) \<Rightarrow> \<lparr>ec_entity_id = i, ec_type = Removed, ec_before_hash = Some (H b), ec_after_hash = None,
          ec_field_changes = []\<rparr>
      | (Some b, Some a) \<Rightarrow> \<lparr>ec_entity_id = i, ec_type = Changed, ec_before_hash = Some (H b), ec_after_hash = Some (H a),
          ec_field_changes = field_changes (flatten [] (JObj (entity_json b))) (flatten [] (JObj (entity_json a)))\<rparr>)"

definition relationship_change_of ::
    "(relationship \<Rightarrow> string) \<Rightarrow> string \<Rightarrow> relationship option \<Rightarrow> relationship option \<Rightarrow> relationship_change" where
  "relationship_change_of H i before after =
     \<lparr>rlc_relationship_id = i,
      rlc_type = (case (before, after) of (None, _) \<Rightarrow> Added | (Some _, None) \<Rightarrow> Removed | _ \<Rightarrow> Changed),
      rlc_before_hash = map_option H before, rlc_after_hash = map_option H after\<rparr>"

text \<open>One pass over the identifiers of both sides, shared by entities and relationships.\<close>

definition changes_by_id ::
    "('a \<Rightarrow> string) \<Rightarrow> ('a \<Rightarrow> string) \<Rightarrow> (string \<Rightarrow> 'a option \<Rightarrow> 'a option \<Rightarrow> 'c) \<Rightarrow> 'a list \<Rightarrow> 'a list \<Rightarrow> 'c list" where
  "changes_by_id key H change before after =
     (let old = dict_of (map (\<lambda>x. (key x, x)) before); new = dict_of (map (\<lambda>x. (key x, x)) after) in
      List.map_filter
        (\<lambda>i. if map_option H (dget old i) = map_option H (dget new i) then None
              else Some (change i (dget old i) (dget new i)))
        (sorted_set (fst ` set old \<union> fst ` set new)))"

definition diff_summary :: "entity_change list \<Rightarrow> relationship_change list \<Rightarrow> (string, nat) dict" where
  "diff_summary es rs =
     (let ce = (\<lambda>t. length (filter (\<lambda>c. ec_type c = t) es)); cr = (\<lambda>t. length (filter (\<lambda>c. rlc_type c = t) rs)) in
      [(''entities_added'', ce Added), (''entities_removed'', ce Removed), (''entities_changed'', ce Changed),
       (''relationships_added'', cr Added), (''relationships_removed'', cr Removed),
       (''relationships_changed'', cr Changed)])"

definition diff_snapshots ::
    "(entity \<Rightarrow> string) \<Rightarrow> (relationship \<Rightarrow> string) \<Rightarrow> string \<Rightarrow> string \<Rightarrow> env_snapshot \<Rightarrow> env_snapshot \<Rightarrow>
     snapshot_diff res" where
  "diff_snapshots He Hr fresh now_iso before after =
     (if snap_environment_id before \<noteq> snap_environment_id after
      then raise ValueError ''snapshots belong to different environments''
      else
        (let es = changes_by_id ent_id He (entity_change_of He) (snap_entities before) (snap_entities after);
             rs = changes_by_id rel_id Hr (relationship_change_of Hr) (snap_relationships before) (snap_relationships after)
         in Inr \<lparr>df_id = ''snapshot-diff:'' @ fresh, df_environment_id = snap_environment_id before,
              df_before_id = snap_id before, df_after_id = snap_id after, df_created_at_iso = now_iso,
              df_entity_changes = es, df_relationship_changes = rs, df_summary = diff_summary es rs\<rparr>))"

section \<open>What a difference reports\<close>

lemma keyed_lookup:
  assumes "distinct (map key xs)"
  shows "dget (dict_of (map (\<lambda>x. (key x, x)) xs)) i = Some x \<longleftrightarrow> x \<in> set xs \<and> key x = i"
proof -
  have d: "distinct (map fst (map (\<lambda>x. (key x, x)) xs))" using assms by (simp add: o_def)
  have "dget (dict_of (map (\<lambda>x. (key x, x)) xs)) i = dget (map (\<lambda>x. (key x, x)) xs) i"
    unfolding dget_dict_of by (rule dget_rev_distinct [OF d])
  then show ?thesis using map_of_eq_Some_iff [OF d] by auto
qed

lemma keyed_none: "dget (dict_of (map (\<lambda>x. (key x, x)) xs)) i = None \<longleftrightarrow> i \<notin> key ` set xs"
  by (simp add: dget_dict_of map_of_eq_None_iff image_image)

lemma keyed_keys: "i \<in> fst ` set (dict_of (map (\<lambda>x. (key x, x)) xs)) \<longleftrightarrow> i \<in> key ` set xs"
  unfolding dget_in_keys keyed_none by simp

lemma entity_change_simps [simp]:
  "ec_entity_id (entity_change_of H i b a) = i"
  "ec_type (entity_change_of H i None a) = Added"
  "ec_type (entity_change_of H i (Some x) None) = Removed"
  "ec_type (entity_change_of H i (Some x) (Some y)) = Changed"
  by (simp_all add: entity_change_of_def split: option.split)

abbreviation keyed :: "('a \<Rightarrow> string) \<Rightarrow> 'a list \<Rightarrow> (string, 'a) dict" where
  "keyed key xs \<equiv> dict_of (map (\<lambda>x. (key x, x)) xs)"

lemma in_changes_by_id:
  "c \<in> set (changes_by_id key H change before after) \<longleftrightarrow>
     (\<exists>i. map_option H (dget (keyed key before) i) \<noteq> map_option H (dget (keyed key after) i) \<and>
       c = change i (dget (keyed key before) i) (dget (keyed key after) i))"
proof -
  let ?old = "keyed key before" and ?new = "keyed key after"
  let ?differ = "\<lambda>i. map_option H (dget ?old i) \<noteq> map_option H (dget ?new i)"
  have known: "i \<in> fst ` set ?old \<union> fst ` set ?new" if "?differ i" for i
  proof (rule ccontr)
    assume "i \<notin> fst ` set ?old \<union> fst ` set ?new"
    then have "dget ?old i = None" "dget ?new i = None" unfolding Un_iff dget_in_keys by auto
    then show False using that by simp
  qed
  have "c \<in> set (changes_by_id key H change before after) \<longleftrightarrow>
      (\<exists>i \<in> fst ` set ?old \<union> fst ` set ?new. ?differ i \<and> c = change i (dget ?old i) (dget ?new i))"
    unfolding changes_by_id_def Let_def set_map_filter mem_Collect_eq sorted_set_def
    by (subst set_sorted_list_of_set) (auto split: if_splits)
  then show ?thesis using known by blast
qed

lemma change_at:
  "(\<And>j. ident (f j) = j) \<Longrightarrow> (\<exists>c. (\<exists>j. P j \<and> c = f j) \<and> ident c = i \<and> T c = t) \<longleftrightarrow> P i \<and> T (f i) = t"
  by auto

lemma diff_snapshots_ok:
  "diff_snapshots He Hr fresh now_iso before after = Inr d \<Longrightarrow>
     snap_environment_id before = snap_environment_id after \<and>
     df_entity_changes d = changes_by_id ent_id He (entity_change_of He) (snap_entities before) (snap_entities after) \<and>
     df_relationship_changes d =
       changes_by_id rel_id Hr (relationship_change_of Hr) (snap_relationships before) (snap_relationships after)"
  by (auto simp: diff_snapshots_def Let_def split: if_splits)

lemma diff_entity_changes:
  assumes "diff_snapshots He Hr fresh now_iso before after = Inr d"
    and "distinct (map ent_id (snap_entities before))" "distinct (map ent_id (snap_entities after))"
  shows "(\<exists>c \<in> set (df_entity_changes d). ec_entity_id c = i \<and> ec_type c = t) \<longleftrightarrow>
    (case t of
       Added \<Rightarrow> i \<in> ent_id ` set (snap_entities after) - ent_id ` set (snap_entities before)
     | Removed \<Rightarrow> i \<in> ent_id ` set (snap_entities before) - ent_id ` set (snap_entities after)
     | Changed \<Rightarrow> \<exists>b \<in> set (snap_entities before). \<exists>a \<in> set (snap_entities after).
         ent_id b = i \<and> ent_id a = i \<and> He b \<noteq> He a)"
proof -
  let ?old = "dget (keyed ent_id (snap_entities before)) i" and ?new = "dget (keyed ent_id (snap_entities after)) i"
  note some = keyed_lookup [OF assms(2), of i] keyed_lookup [OF assms(3), of i]
    and none = keyed_none [of ent_id _ i]
  have ds: "df_entity_changes d =
      changes_by_id ent_id He (entity_change_of He) (snap_entities before) (snap_entities after)"
    using diff_snapshots_ok [OF assms(1)] by blast
  have "(\<exists>c \<in> set (df_entity_changes d). ec_entity_id c = i \<and> ec_type c = t) \<longleftrightarrow>
      map_option He ?old \<noteq> map_option He ?new \<and> ec_type (entity_change_of He i ?old ?new) = t"
    unfolding ds Bex_def in_changes_by_id by (rule change_at) simp
  also have "\<dots> \<longleftrightarrow> (case t of
       Added \<Rightarrow> i \<in> ent_id ` set (snap_entities after) - ent_id ` set (snap_entities before)
     | Removed \<Rightarrow> i \<in> ent_id ` set (snap_entities before) - ent_id ` set (snap_entities after)
     | Changed \<Rightarrow> \<exists>b \<in> set (snap_entities before). \<exists>a \<in> set (snap_entities after).
         ent_id b = i \<and> ent_id a = i \<and> He b \<noteq> He a)"
  proof (cases ?old)
    case None
    then have "i \<notin> ent_id ` set (snap_entities before)" using none by blast
    moreover have "ent_id b \<noteq> i" if "b \<in> set (snap_entities before)" for b
      using that calculation by blast
    ultimately show ?thesis
      using None none [of "snap_entities after"] by (cases ?new; cases t) auto
  next
    case (Some b)
    then have b: "b \<in> set (snap_entities before)" "ent_id b = i" using some(1) by auto
    show ?thesis
    proof (cases ?new)
      case None
      then have "i \<notin> ent_id ` set (snap_entities after)" using none by blast
      moreover have "ent_id a \<noteq> i" if "a \<in> set (snap_entities after)" for a
        using that calculation by blast
      ultimately show ?thesis using None Some b by (cases t) auto
    next
      case (Some a)
      have a: "a \<in> set (snap_entities after)" "ent_id a = i" using Some some(2) by auto
      have unique: "b' = b" if "b' \<in> set (snap_entities before)" "ent_id b' = i" for b'
        using that some(1) \<open>?old = Some b\<close> by (metis option.inject)
      have unique': "a' = a" if "a' \<in> set (snap_entities after)" "ent_id a' = i" for a'
        using that some(2) Some by (metis option.inject)
      have differ: "(\<exists>b' \<in> set (snap_entities before). \<exists>a' \<in> set (snap_entities after).
          ent_id b' = i \<and> ent_id a' = i \<and> He b' \<noteq> He a') \<longleftrightarrow> He b \<noteq> He a"
        using unique unique' a b by metis
      have here: "i \<in> ent_id ` set (snap_entities before)" "i \<in> ent_id ` set (snap_entities after)"
        using a b by (metis image_eqI)+
      note changed = \<open>?old = Some b\<close> Some
      show ?thesis
      proof (cases t)
        case Changed
        then show ?thesis by (simp only: changed differ entity_change_simps option.map change_type.case) simp
      qed (simp_all only: changed here entity_change_simps change_type.case Diff_iff, simp_all)
    qed
  qed
  finally show ?thesis .
qed

text \<open>Nothing changed, nothing reported.\<close>

lemma diff_same:
  "changes_by_id key H change xs xs = []"
proof -
  have "set (changes_by_id key H change xs xs) = {}"
    unfolding changes_by_id_def Let_def set_map_filter by simp
  then show ?thesis by simp
qed

end
