(* ===== verification/Lifecycle_Props.thy ===== *)
theory Lifecycle_Props
  imports Lifecycle
begin

text \<open>
  What the compilation of a lifecycle profile guarantees. Actions only depend on actions before them, so the
  graph of a plan is acyclic as soon as its action ids are distinct. When the stages are listed after
  those they depend on, an action of a stage transitively depends on every action of each stage before it.
\<close>

section \<open>Actions depend on earlier ones\<close>

fun ordered_actions :: "string set \<Rightarrow> action_instance list \<Rightarrow> bool" where
  "ordered_actions P [] \<longleftrightarrow> True"
| "ordered_actions P (a # as) \<longleftrightarrow> set (act_depends_on a) \<subseteq> P \<and> ordered_actions (insert (act_id a) P) as"

lemma ordered_actions_append:
  "ordered_actions P (as @ bs) \<longleftrightarrow> ordered_actions P as \<and> ordered_actions (P \<union> act_id ` set as) bs"
  by (induction as arbitrary: P) auto

lemma ordered_actions_known:
  "ordered_actions P as \<Longrightarrow> a \<in> set as \<Longrightarrow> set (act_depends_on a) \<subseteq> P \<union> act_id ` set as"
  by (induction as arbitrary: P) auto

lemma in_action_deps: "(d, k) \<in> dep_rel (action_deps as) \<longleftrightarrow> (\<exists>a \<in> set as. act_id a = k \<and> d \<in> set (act_depends_on a))"
  by (auto simp: dep_rel_def action_deps_def)

lemma ordered_actions_acc:
  assumes "\<And>a d. a \<in> set as \<Longrightarrow> (d, act_id a) \<in> E \<Longrightarrow> d \<in> set (act_depends_on a)"
  shows "ordered_actions P as \<Longrightarrow> P \<subseteq> Wellfounded.acc E \<Longrightarrow> act_id ` set as \<subseteq> Wellfounded.acc E"
  using assms
proof (induction as arbitrary: P)
  case (Cons a as)
  have "act_id a \<in> Wellfounded.acc E"
    by (rule acc.accI) (use Cons.prems in force)
  then have "insert (act_id a) P \<subseteq> Wellfounded.acc E" using Cons.prems(2) by simp
  then have "act_id ` set as \<subseteq> Wellfounded.acc E"
    using Cons.prems(1,3) by (intro Cons.IH [of "insert (act_id a) P"]) auto
  with \<open>act_id a \<in> Wellfounded.acc E\<close> show ?case by simp
qed simp

lemma ordered_actions_wf:
  assumes "ordered_actions {} as" "distinct (map act_id as)"
  shows "wf (dep_rel (action_deps as))"
proof -
  let ?E = "dep_rel (action_deps as)"
  have "d \<in> set (act_depends_on a)" if "a \<in> set as" "(d, act_id a) \<in> ?E" for a d
    using that assms(2) unfolding in_action_deps distinct_map by (metis inj_onD)
  then have sub: "act_id ` set as \<subseteq> Wellfounded.acc ?E" using ordered_actions_acc assms(1) by blast
  have "x \<in> Wellfounded.acc ?E" for x
  proof (cases "x \<in> act_id ` set as")
    case True
    then show ?thesis using sub by blast
  next
    case False
    then have "(y, x) \<notin> ?E" for y by (auto simp: in_action_deps)
    then show ?thesis by (blast intro: acc.accI)
  qed
  then show ?thesis by (intro acc_wfI) auto
qed

section \<open>One stage\<close>

lemma set_sorted_union: "set (sorted_set (set xs \<union> set ys)) = set xs \<union> set ys"
  by (simp add: sorted_set_def)

definition stage_ok :: "string \<Rightarrow> string list \<Rightarrow> action_instance list \<Rightarrow> bool" where
  "stage_ok sid external acc \<longleftrightarrow>
     (\<forall>a \<in> set acc. act_stage_id a = Some sid \<and> set external \<subseteq> set (act_depends_on a))"

lemma add_actions_ok:
  "(\<And>a. a \<in> set as \<Longrightarrow> act_stage_id a = Some sid) \<Longrightarrow> stage_ok sid external acc \<Longrightarrow> ordered_actions P acc \<Longrightarrow>
     set external \<subseteq> P \<Longrightarrow>
     stage_ok sid external (add_actions external needs as acc) \<and> ordered_actions P (add_actions external needs as acc)"
proof (induction as arbitrary: acc)
  case (Cons a as)
  let ?internal = "map act_id (filter (from_templates needs) acc)"
  let ?acc = "acc @ [a\<lparr>act_depends_on := sorted_set (set external \<union> set ?internal)\<rparr>]"
  let ?a = "a\<lparr>act_depends_on := sorted_set (set external \<union> set ?internal)\<rparr>"
  have deps: "set (act_depends_on ?a) = set external \<union> set ?internal"
    by (simp add: sorted_set_def)
  have "set ?internal \<subseteq> act_id ` set acc" by auto
  then have "ordered_actions P ?acc"
    using Cons.prems(3,4) deps unfolding ordered_actions_append ordered_actions.simps by blast
  moreover have "stage_ok sid external ?acc"
    using Cons.prems(1,2) deps unfolding stage_ok_def by auto
  ultimately have "stage_ok sid external ?acc" "ordered_actions P ?acc" by blast+
  then show ?case using Cons.IH [of ?acc] Cons.prems by (simp add: Let_def)
qed simp

lemma compile_candidates_from:
  "compile_candidates cat mk skipped es = Inr as \<Longrightarrow> a \<in> set as \<Longrightarrow> \<exists>i e. a = mk i e"
  by (induction cat mk skipped es arbitrary: as rule: compile_candidates.induct)
    (auto simp: res_bind_eq_Inr_iff split: if_splits, blast)

lemma compile_template_stage:
  "compile_template hash cat snap sid failure t = Inr as \<Longrightarrow> a \<in> set as \<Longrightarrow> act_stage_id a = Some sid"
  by (auto simp: compile_template_def res_bind_eq_Inr_iff Let_def template_action_def
      dest!: compile_candidates_from)

lemma compile_templates_ok:
  "compile_templates hash cat snap s external ts acc uns = Inr (acc', uns') \<Longrightarrow> stage_ok (ls_id s) external acc \<Longrightarrow>
     ordered_actions P acc \<Longrightarrow> set external \<subseteq> P \<Longrightarrow>
     stage_ok (ls_id s) external acc' \<and> ordered_actions P acc'"
proof (induction ts arbitrary: acc uns)
  case (Cons t ts)
  from Cons.prems(1) obtain compiled uns1 where
    c: "compile_template hash cat snap (ls_id s) (ls_on_failure s) t = Inr compiled" and
    rec: "compile_templates hash cat snap s external ts (add_actions external (lt_depends_on t) compiled acc) uns1 =
      Inr (acc', uns')"
    by (auto simp: res_bind_eq_Inr_iff)
  have "stage_ok (ls_id s) external (add_actions external (lt_depends_on t) compiled acc) \<and>
      ordered_actions P (add_actions external (lt_depends_on t) compiled acc)"
    using compile_template_stage [OF c] Cons.prems by (intro add_actions_ok) auto
  then show ?case using Cons.IH [OF rec] Cons.prems(4) by blast
qed simp

section \<open>All stages\<close>

text \<open>Every stage is listed after those it depends on.\<close>

fun ordered_stages :: "string set \<Rightarrow> lifecycle_stage list \<Rightarrow> bool" where
  "ordered_stages seen [] \<longleftrightarrow> True"
| "ordered_stages seen (s # ss) \<longleftrightarrow> set (ls_depends_on s) \<subseteq> seen \<and> ordered_stages (insert (ls_id s) seen) ss"

definition stage_part :: "string \<Rightarrow> action_instance list \<Rightarrow> action_instance list" where
  "stage_part sid actions = filter (\<lambda>a. act_stage_id a = Some sid) actions"

text \<open>\<open>T\<close> are the terminal actions of the stages.\<close>

definition stage_fact :: "(string \<Rightarrow> string list) \<Rightarrow> action_instance list \<Rightarrow> lifecycle_stage \<Rightarrow> bool" where
  "stage_fact T actions s \<longleftrightarrow>
     (\<exists>external. T (ls_id s) = terminal_actions external (stage_part (ls_id s) actions) \<and>
        (\<forall>a \<in> set (stage_part (ls_id s) actions). set external \<subseteq> set (act_depends_on a)) \<and>
        (\<forall>d \<in> set (ls_depends_on s). set (T d) \<subseteq> set external))"

lemma terminal_actions_sub: "set (terminal_actions external acc) \<subseteq> set external \<union> act_id ` set acc"
  by (auto simp: terminal_actions_def Let_def)

lemma external_sub:
  "(\<And>k v. dget terminals k = Some v \<Longrightarrow> set v \<subseteq> A) \<Longrightarrow> set (external_dependencies terminals s) \<subseteq> A"
proof
  fix x
  assume h: "\<And>k v. dget terminals k = Some v \<Longrightarrow> set v \<subseteq> A" and x: "x \<in> set (external_dependencies terminals s)"
  then obtain d where d: "x \<in> set (dget_default terminals d [])" by (auto simp: external_dependencies_def)
  then obtain v where "dget terminals d = Some v" "x \<in> set v"
    by (cases "dget terminals d") (auto simp: dget_default_def)
  with h show "x \<in> A" by blast
qed

lemma compile_stages_ordered:
  "compile_stages hash cat snap ss actions terminals uns = Inr (actions', uns') \<Longrightarrow> ordered_actions {} actions \<Longrightarrow>
     (\<And>k v. dget terminals k = Some v \<Longrightarrow> set v \<subseteq> act_id ` set actions) \<Longrightarrow>
     ordered_actions {} actions' \<and>
     (\<exists>rest. actions' = actions @ rest \<and> (\<forall>a \<in> set rest. \<exists>s \<in> set ss. act_stage_id a = Some (ls_id s)))"
proof (induction ss arbitrary: actions terminals uns)
  case (Cons s ss)
  let ?ext = "external_dependencies terminals s"
  from Cons.prems(1) obtain sa uns1 where
    c: "compile_templates hash cat snap s ?ext (ls_templates s) [] uns = Inr (sa, uns1)" and
    rec: "compile_stages hash cat snap ss (actions @ sa) (dset (ls_id s) (terminal_actions ?ext sa) terminals) uns1 =
      Inr (actions', uns')"
    by (auto simp: res_bind_eq_Inr_iff Let_def)
  have ext: "set ?ext \<subseteq> act_id ` set actions" by (rule external_sub) (rule Cons.prems(3))
  have sa: "stage_ok (ls_id s) ?ext sa" "ordered_actions (act_id ` set actions) sa"
    using compile_templates_ok [OF c _ _ ext] by (simp_all add: stage_ok_def)
  have "ordered_actions {} (actions @ sa)"
    using Cons.prems(2) sa(2) by (simp add: ordered_actions_append)
  moreover have "set v \<subseteq> act_id ` set (actions @ sa)"
    if "dget (dset (ls_id s) (terminal_actions ?ext sa) terminals) k = Some v" for k v
    using that Cons.prems(3) [of k v] terminal_actions_sub [of ?ext sa] ext
    by (auto simp: dict_simps image_Un split: if_splits)
  ultimately have "ordered_actions {} actions'" "\<exists>rest. actions' = (actions @ sa) @ rest \<and>
      (\<forall>a \<in> set rest. \<exists>s \<in> set ss. act_stage_id a = Some (ls_id s))"
    using Cons.IH [OF rec] by blast+
  then obtain rest where rest: "actions' = actions @ (sa @ rest)"
      "\<forall>a \<in> set rest. \<exists>s \<in> set ss. act_stage_id a = Some (ls_id s)" by auto
  have "\<forall>a \<in> set (sa @ rest). \<exists>s' \<in> set (s # ss). act_stage_id a = Some (ls_id s')"
    using sa(1) rest(2) by (auto simp: stage_ok_def)
  with rest(1) \<open>ordered_actions {} actions'\<close> show ?case by blast
qed simp


lemma stage_part_append:
  "stage_part i (xs @ ys) = stage_part i xs @ stage_part i ys"
  by (simp add: stage_part_def)

lemma stage_part_other: "(\<And>a. a \<in> set xs \<Longrightarrow> act_stage_id a \<noteq> Some i) \<Longrightarrow> stage_part i xs = []"
  by (auto simp: stage_part_def filter_empty_conv)

lemma stage_part_all: "(\<And>a. a \<in> set xs \<Longrightarrow> act_stage_id a = Some i) \<Longrightarrow> stage_part i xs = xs"
  by (simp add: stage_part_def)

lemma compile_stages_facts:
  "compile_stages hash cat snap ss actions terminals uns = Inr (actions', uns') \<Longrightarrow> ordered_actions {} actions \<Longrightarrow>
     (\<And>k v. dget terminals k = Some v \<Longrightarrow> set v \<subseteq> act_id ` set actions) \<Longrightarrow>
     distinct (map ls_id ss) \<Longrightarrow> ls_id ` set ss \<inter> fst ` set terminals = {} \<Longrightarrow>
     ordered_stages (fst ` set terminals) ss \<Longrightarrow>
     (\<And>a s. a \<in> set actions \<Longrightarrow> s \<in> set ss \<Longrightarrow> act_stage_id a \<noteq> Some (ls_id s)) \<Longrightarrow>
     \<exists>T. (\<forall>k v. dget terminals k = Some v \<longrightarrow> T k = v) \<and> (\<forall>s \<in> set ss. stage_fact T actions' s)"
proof (induction ss arbitrary: actions terminals uns)
  case Nil
  show ?case by (rule exI [of _ "\<lambda>k. dget_default terminals k []"]) (simp add: dget_default_def)
next
  case (Cons s ss)
  let ?ext = "external_dependencies terminals s"
  from Cons.prems(1) obtain sa uns1 where
    c: "compile_templates hash cat snap s ?ext (ls_templates s) [] uns = Inr (sa, uns1)" and
    rec: "compile_stages hash cat snap ss (actions @ sa) (dset (ls_id s) (terminal_actions ?ext sa) terminals) uns1 =
      Inr (actions', uns')"
    by (auto simp: res_bind_eq_Inr_iff Let_def)
  have ext: "set ?ext \<subseteq> act_id ` set actions" by (rule external_sub) (rule Cons.prems(3))
  have sa: "stage_ok (ls_id s) ?ext sa" "ordered_actions (act_id ` set actions) sa"
    using compile_templates_ok [OF c _ _ ext] by (simp_all add: stage_ok_def)
  have o: "ordered_actions {} (actions @ sa)"
    using Cons.prems(2) sa(2) by (simp add: ordered_actions_append)
  have t: "set v \<subseteq> act_id ` set (actions @ sa)"
    if "dget (dset (ls_id s) (terminal_actions ?ext sa) terminals) k = Some v" for k v
    using that Cons.prems(3) [of k v] terminal_actions_sub [of ?ext sa] ext
    by (auto simp: dict_simps image_Un split: if_splits)
  have "ordered_actions {} actions' \<and> (\<exists>rest. actions' = (actions @ sa) @ rest \<and>
      (\<forall>a \<in> set rest. \<exists>s \<in> set ss. act_stage_id a = Some (ls_id s)))"
    by (rule compile_stages_ordered [OF rec o]) (rule t)
  then obtain rest where rest: "actions' = (actions @ sa) @ rest"
      "\<forall>a \<in> set rest. \<exists>s \<in> set ss. act_stage_id a = Some (ls_id s)" by blast
  have fresh: "ls_id s \<notin> fst ` set terminals" "ls_id s \<notin> ls_id ` set ss" using Cons.prems(4,5) by auto
  have "\<exists>T. (\<forall>k v. dget (dset (ls_id s) (terminal_actions ?ext sa) terminals) k = Some v \<longrightarrow> T k = v) \<and>
      (\<forall>s \<in> set ss. stage_fact T actions' s)"
  proof (rule Cons.IH [OF rec o])
    show "set v \<subseteq> act_id ` set (actions @ sa)"
      if "dget (dset (ls_id s) (terminal_actions ?ext sa) terminals) k = Some v" for k v by (rule t [OF that])
    show "distinct (map ls_id ss)" using Cons.prems(4) by simp
    show "ls_id ` set ss \<inter> fst ` set (dset (ls_id s) (terminal_actions ?ext sa) terminals) = {}"
      using Cons.prems(5) fresh(2) by (auto simp: keys_dset)
    show "ordered_stages (fst ` set (dset (ls_id s) (terminal_actions ?ext sa) terminals)) ss"
      using Cons.prems(6) by (simp add: keys_dset)
    show "act_stage_id a \<noteq> Some (ls_id s')" if "a \<in> set (actions @ sa)" "s' \<in> set ss" for a s'
      using that Cons.prems(7) [of a s'] sa(1) fresh(2) by (auto simp: stage_ok_def)
  qed
  then obtain T where T: "\<And>k v. dget (dset (ls_id s) (terminal_actions ?ext sa) terminals) k = Some v \<Longrightarrow> T k = v"
    "\<forall>s \<in> set ss. stage_fact T actions' s" by blast
  have Ts: "T (ls_id s) = terminal_actions ?ext sa" by (rule T(1)) simp
  have old: "T k = v" if "dget terminals k = Some v" for k v
  proof (rule T(1))
    have "k \<noteq> ls_id s" using that fresh(1) by (metis dget_in_keys option.distinct(1))
    with that show "dget (dset (ls_id s) (terminal_actions ?ext sa) terminals) k = Some v" by simp
  qed
  have "stage_part (ls_id s) actions = []" by (rule stage_part_other) (use Cons.prems(7) in auto)
  moreover have "stage_part (ls_id s) rest = []"
    by (rule stage_part_other) (metis rest(2) fresh(2) image_eqI option.inject)
  moreover have "stage_part (ls_id s) sa = sa" by (rule stage_part_all) (use sa(1) in \<open>simp add: stage_ok_def\<close>)
  ultimately have part: "stage_part (ls_id s) actions' = sa" by (simp add: rest(1) stage_part_append)
  have "set (T d) \<subseteq> set ?ext" if d: "d \<in> set (ls_depends_on s)" for d
  proof -
    have "d \<in> fst ` set terminals" using Cons.prems(6) d by auto
    then obtain v where v: "dget terminals d = Some v" unfolding dget_in_keys by blast
    then have "T d = dget_default terminals d []" by (simp add: old dget_default_def)
    then show ?thesis using d by (auto simp: external_dependencies_def)
  qed
  then have "stage_fact T actions' s"
    using Ts part sa(1) unfolding stage_fact_def by (intro exI [of _ ?ext]) (auto simp: stage_ok_def)
  with T(2) old show ?case by auto
qed

section \<open>Waiting for the stages before\<close>

text \<open>In a stage, every action is or leads to a terminal one.\<close>

lemma reaches_terminal:
  assumes R: "finite R" "acyclic R"
    and sub: "\<And>b d. b \<in> set acc \<Longrightarrow> d \<in> set (act_depends_on b) \<Longrightarrow> (d, act_id b) \<in> R"
  shows "a \<in> set acc \<Longrightarrow> \<exists>z \<in> set (terminal_actions external acc). (act_id a, z) \<in> R\<^sup>*"
proof (induction "act_id a" arbitrary: a rule: wf_induct_rule [OF finite_acyclic_wf_converse [OF R]])
  case 1
  show ?case
  proof (cases "\<exists>b \<in> set acc. act_id a \<in> set (act_depends_on b)")
    case True
    then obtain b where b: "b \<in> set acc" "(act_id a, act_id b) \<in> R" using sub by blast
    with 1(1) [of b] show ?thesis by (auto intro: converse_rtrancl_into_rtrancl)
  next
    case False
    then have "act_id a \<in> set (terminal_actions external acc)"
      using 1(2) by (auto simp: terminal_actions_def Let_def list_ex_iff filter_empty_conv)
    then show ?thesis by blast
  qed
qed

lemma terminal_of_nonempty:
  assumes "finite R" "acyclic R" "\<And>b d. b \<in> set acc \<Longrightarrow> d \<in> set (act_depends_on b) \<Longrightarrow> (d, act_id b) \<in> R"
    and "x \<in> set acc" "set external \<subseteq> set (act_depends_on x)" "z \<in> set external"
  shows "\<exists>z' \<in> set (terminal_actions external acc). (z, z') \<in> R\<^sup>*"
  using reaches_terminal [OF assms(1-4), of external] assms(3) [OF assms(4)] assms(5,6)
  by (meson converse_rtrancl_into_rtrancl subsetD)

lemma stage_waits:
  assumes facts: "\<And>s. s \<in> set ss \<Longrightarrow> stage_fact T actions s"
    and R: "R = dep_rel (action_deps actions)" "finite R" "acyclic R"
    and stages: "(t, s) \<in> (dep_rel (stage_deps ss))\<^sup>+"
    and a: "a \<in> set actions" "act_stage_id a = Some t" "t \<in> ls_id ` set ss"
    and b: "b \<in> set actions" "act_stage_id b = Some s"
  shows "(act_id a, act_id b) \<in> R\<^sup>+"
proof -
  let ?D = "dep_rel (stage_deps ss)"
  have D: "\<exists>s' \<in> set ss. ls_id s' = k \<and> d \<in> set (ls_depends_on s')" if "(d, k) \<in> ?D" for d k
    using that by (auto simp: dep_rel_def stage_deps_def)
  have edge: "(d, act_id c) \<in> R" if "c \<in> set (stage_part k actions)" "d \<in> set (act_depends_on c)" for c d k
    using that by (auto simp: R(1) in_action_deps stage_part_def)
  have step: "\<exists>z' \<in> set (T k). (z, z') \<in> R\<^sup>*" if dk: "(d, k) \<in> ?D" and z: "z \<in> set (T d)" for d k z
  proof -
    from D [OF dk] obtain s' where s': "s' \<in> set ss" "ls_id s' = k" "d \<in> set (ls_depends_on s')" by blast
    from facts [OF s'(1)] obtain ext where ext: "T k = terminal_actions ext (stage_part k actions)"
      "\<forall>c \<in> set (stage_part k actions). set ext \<subseteq> set (act_depends_on c)" "set (T d) \<subseteq> set ext"
      using s'(2,3) by (auto simp: stage_fact_def)
    show ?thesis
    proof (cases "stage_part k actions")
      case Nil
      then have "T k = ext" using ext(1) by (simp add: terminal_actions_def)
      with z ext(3) show ?thesis by auto
    next
      case (Cons x xs)
      then have x: "x \<in> set (stage_part k actions)" by simp
      have "set ext \<subseteq> set (act_depends_on x)" "z \<in> set ext" using ext(2,3) x z by auto
      from terminal_of_nonempty [OF R(2,3) edge x this] show ?thesis unfolding ext(1) .
    qed
  qed
  from tranclD2 [OF stages] obtain u where u: "(t, u) \<in> ?D\<^sup>*" "(u, s) \<in> ?D" by blast
  from a(3) obtain st where st: "st \<in> set ss" "ls_id st = t" by blast
  from facts [OF st(1)] obtain ext where "T t = terminal_actions ext (stage_part t actions)"
    using st(2) by (auto simp: stage_fact_def)
  moreover have "\<exists>z \<in> set (terminal_actions ext (stage_part t actions)). (act_id a, z) \<in> R\<^sup>*" for ext
    by (rule reaches_terminal [OF R(2,3)]) (use edge a in \<open>simp_all add: stage_part_def\<close>)
  ultimately obtain z where z: "z \<in> set (T t)" "(act_id a, z) \<in> R\<^sup>*" by metis
  from u(1) have "\<exists>z' \<in> set (T u). (act_id a, z') \<in> R\<^sup>*"
  proof (induction rule: rtrancl_induct)
    case base
    then show ?case using z by blast
  next
    case (step v w)
    then show ?case using \<open>\<And>z k d. (d, k) \<in> ?D \<Longrightarrow> z \<in> set (T d) \<Longrightarrow> \<exists>z' \<in> set (T k). (z, z') \<in> R\<^sup>*\<close>
      by (meson rtrancl_trans)
  qed
  then obtain z' where z': "z' \<in> set (T u)" "(act_id a, z') \<in> R\<^sup>*" by blast
  from D [OF u(2)] obtain s' where s': "s' \<in> set ss" "ls_id s' = s" "u \<in> set (ls_depends_on s')" by blast
  have "b \<in> set (stage_part s actions)" using b by (simp add: stage_part_def)
  then have "z' \<in> set (act_depends_on b)"
    using facts [OF s'(1)] s'(2,3) z'(1) by (auto simp: stage_fact_def)
  then have "(z', act_id b) \<in> R" using b(1) by (auto simp: R(1) in_action_deps)
  with z'(2) show ?thesis by (rule rtrancl_into_trancl1)
qed

section \<open>The plan\<close>

lemma lifecycle_plan_actions:
  "lifecycle_plan hash now_iso cat p snap required mode policy_id = Inr plan \<Longrightarrow>
     valid_plan plan \<and> (\<exists>uns. compile_stages hash cat snap (lp_stages p) [] [] [] = Inr (plan_actions plan, uns))"
  by (auto simp: lifecycle_plan_def res_bind_eq_Inr_iff Let_def)

text \<open>Once the templates compile, only a repeated action id can make the plan invalid.\<close>

lemma lifecycle_plan_returns:
  assumes "compile_stages hash cat snap (lp_stages p) [] [] [] = Inr (actions, uns)" "distinct (map act_id actions)"
  shows "\<exists>plan. lifecycle_plan hash now_iso cat p snap required mode policy_id = Inr plan \<and> plan_actions plan = actions"
proof -
  have o: "ordered_actions {} actions" using compile_stages_ordered [OF assms(1)] by simp
  have "acyclic (dep_rel (action_deps actions))" using ordered_actions_wf [OF o assms(2)] by (rule wf_acyclic)
  moreover have "set (act_depends_on a) \<subseteq> act_id ` set actions" if "a \<in> set actions" for a
    using ordered_actions_known [OF o that] by simp
  ultimately have "valid_plan plan" if "plan_actions plan = actions" for plan
    using assms(2) that by (simp add: valid_plan_iff)
  then show ?thesis by (simp add: lifecycle_plan_def assms(1) Let_def)
qed

lemma lifecycle_waits:
  assumes profile: "validate_graph p = Inr p" "ordered_stages {} (lp_stages p)"
    and plan: "lifecycle_plan hash now_iso cat p snap required mode policy_id = Inr plan"
    and stages: "(t, s) \<in> (dep_rel (stage_deps (lp_stages p)))\<^sup>+"
    and a: "a \<in> set (plan_actions plan)" "act_stage_id a = Some t"
    and b: "b \<in> set (plan_actions plan)" "act_stage_id b = Some s"
  shows "(act_id a, act_id b) \<in> (dep_rel (action_deps (plan_actions plan)))\<^sup>+"
proof -
  let ?as = "plan_actions plan" and ?R = "dep_rel (action_deps (plan_actions plan))"
  from lifecycle_plan_actions [OF plan] obtain uns where
    c: "compile_stages hash cat snap (lp_stages p) [] [] [] = Inr (?as, uns)" and valid: "valid_plan plan" by blast
  have ids: "distinct (map ls_id (lp_stages p))"
    using profile(1) by (auto simp: validate_graph_def Let_def res_bind_eq_Inr_iff card_distinct split: if_splits)
  have o: "ordered_actions {} ?as" and rest: "\<forall>a \<in> set ?as. \<exists>s \<in> set (lp_stages p). act_stage_id a = Some (ls_id s)"
    using compile_stages_ordered [OF c] by auto
  obtain T where facts: "\<forall>s \<in> set (lp_stages p). stage_fact T ?as s"
    using compile_stages_facts [OF c] ids profile(2) by auto
  have dist: "distinct (map act_id ?as)" using valid by (simp add: valid_plan_iff)
  have "?R \<subseteq> (act_id ` set ?as) \<times> (act_id ` set ?as)"
    using ordered_actions_known [OF o] by (fastforce simp: in_action_deps)
  then have fin: "finite ?R" by (rule finite_subset) simp
  have "t \<in> ls_id ` set (lp_stages p)" using rest a by (metis image_eqI option.inject)
  then show ?thesis
    using stage_waits [OF _ refl fin wf_acyclic [OF ordered_actions_wf [OF o dist]] stages a _ b] facts by blast
qed

end
