(* ===== verification/Scheduling.thy ===== *)
theory Scheduling
  imports PyValue PyTime
begin

text \<open>
  \<open>models/scheduling.py\<close> and \<open>scheduling/service.py\<close>: maintenance windows, scheduled operations and the
  decision whether one may start now. The time zone database is an argument, and so is the digest behind the
  identifier of a decision. Datetimes in one zone compare by their wall clock, so a window is evaluated in
  local microseconds. Shown: when the decision is ready; and that the candidates the code looks at are
  enough for windows of at most a day, but not for longer ones.
\<close>

section \<open>The data\<close>

record tz_database =
  tz_known :: "string \<Rightarrow> bool"
  tz_local :: "string \<Rightarrow> int \<Rightarrow> int"
  tz_utc :: "string \<Rightarrow> int \<Rightarrow> int"

record maintenance_window =
  mw_id :: string
  mw_organization_id :: string
  mw_workspace_id :: string
  mw_name :: string
  mw_timezone :: string
  mw_days_of_week :: "int set"
  mw_start_local_time :: string
  mw_duration_minutes :: int
  mw_allowed_operation_types :: "string set"
  mw_target_ids :: "string set"
  mw_enabled :: bool
  mw_metadata :: fields

text \<open>\<open>time.fromisoformat\<close>: microseconds into the day; an offset is read and ignored.\<close>

definition read_time :: "string \<Rightarrow> int option" where
  "read_time s =
     Option.bind (read_clock s) (\<lambda>(us, rest). map_option (\<lambda>_. int us) (read_offset rest))"

definition valid_timezone :: "tz_database \<Rightarrow> string \<Rightarrow> string res" where
  "valid_timezone tz v =
     (if tz_known tz v then Inr v else raise ValueError (''unknown IANA timezone '' @ repr_str v))"

definition valid_days :: "int set \<Rightarrow> int set res" where
  "valid_days v =
     (if v = {} \<or> \<not> (\<forall>day \<in> v. 0 \<le> day \<and> day \<le> 6)
      then raise ValueError ''days_of_week must contain values from 0 (Monday) through 6 (Sunday)''
      else Inr v)"

definition valid_time :: "string \<Rightarrow> string res" where
  "valid_time v =
     (case read_time v of None \<Rightarrow> raise ValueError ''start_local_time must be HH:MM or HH:MM:SS'' | Some _ \<Rightarrow> Inr v)"

definition valid_window :: "tz_database \<Rightarrow> maintenance_window \<Rightarrow> bool" where
  "valid_window tz w \<longleftrightarrow> valid_timezone tz (mw_timezone w) = Inr (mw_timezone w) \<and>
     valid_days (mw_days_of_week w) = Inr (mw_days_of_week w) \<and>
     valid_time (mw_start_local_time w) = Inr (mw_start_local_time w) \<and>
     1 \<le> mw_duration_minutes w \<and> mw_duration_minutes w \<le> 10080"

datatype schedule_target = Target_Environment | Target_Fleet

fun target_value :: "schedule_target \<Rightarrow> string" where
  "target_value Target_Environment = ''environment''"
| "target_value Target_Fleet = ''fleet''"

datatype schedule_status =
  Sched_Pending | Sched_Delayed | Sched_Ready | Sched_Materialized | Sched_Blocked | Sched_Expired | Sched_Cancelled

fun schedule_status_value :: "schedule_status \<Rightarrow> string" where
  "schedule_status_value Sched_Pending = ''pending''"
| "schedule_status_value Sched_Delayed = ''delayed''"
| "schedule_status_value Sched_Ready = ''ready''"
| "schedule_status_value Sched_Materialized = ''materialized''"
| "schedule_status_value Sched_Blocked = ''blocked''"
| "schedule_status_value Sched_Expired = ''expired''"
| "schedule_status_value Sched_Cancelled = ''cancelled''"

record scheduled_operation =
  so_id :: string
  so_organization_id :: string
  so_workspace_id :: string
  so_target_type :: schedule_target
  so_target_id :: string
  so_operation_type :: string
  so_lifecycle_profile_id :: "string option"
  so_policy_id :: "string option"
  so_execution_mode :: string
  so_not_before_iso :: "string option"
  so_deadline_iso :: "string option"
  so_window_id :: "string option"
  so_materialize_automatically :: bool
  so_status :: schedule_status
  so_operation_id :: "string option"
  so_fleet_plan_id :: "string option"
  so_created_by :: string
  so_created_at_iso :: string
  so_updated_at_iso :: string
  so_metadata :: fields

definition has_text :: "string option \<Rightarrow> bool" where
  "has_text v \<longleftrightarrow> v \<noteq> None \<and> v \<noteq> Some []"

definition parse_field :: "string \<Rightarrow> string option \<Rightarrow> int option res" where
  "parse_field name v =
     (case v of
        None \<Rightarrow> Inr None
      | Some s \<Rightarrow> (case parse_iso s of
            Inl _ \<Rightarrow> raise ValueError (name @ '' must be ISO-8601'') | Inr t \<Rightarrow> Inr (Some t)))"

definition precedes :: "int option \<Rightarrow> int option \<Rightarrow> bool" where
  "precedes a b = (case (a, b) of (Some x, Some y) \<Rightarrow> x < y | _ \<Rightarrow> False)"

definition validate_schedule :: "scheduled_operation \<Rightarrow> scheduled_operation res" where
  "validate_schedule s =
     (if so_target_type s = Target_Environment \<and> \<not> has_text (so_lifecycle_profile_id s)
      then raise ValueError ''environment schedules require lifecycle_profile_id''
      else if so_status s = Sched_Materialized \<and> \<not> (has_text (so_operation_id s) \<or> has_text (so_fleet_plan_id s))
      then raise ValueError ''materialized schedules require operation_id or fleet_plan_id''
      else res_bind (parse_field ''created_at_iso'' (Some (so_created_at_iso s))) (\<lambda>created.
           res_bind (parse_field ''updated_at_iso'' (Some (so_updated_at_iso s))) (\<lambda>updated.
           res_bind (parse_field ''not_before_iso'' (so_not_before_iso s)) (\<lambda>not_before.
           res_bind (parse_field ''deadline_iso'' (so_deadline_iso s)) (\<lambda>deadline.
             if precedes deadline not_before then raise ValueError ''deadline_iso must not precede not_before_iso''
             else if precedes updated created then raise ValueError ''updated_at_iso must not precede created_at_iso''
             else Inr s)))))"

datatype schedule_outcome = Out_Ready | Out_Delay | Out_Deny | Out_Expired | Out_Terminal

record schedule_decision =
  sd_id :: string
  sd_schedule_id :: string
  sd_outcome :: schedule_outcome
  sd_reasons :: "string list"
  sd_evaluated_at_iso :: string
  sd_next_eligible_at_iso :: "string option"
  sd_window_id :: "string option"
  sd_metadata :: fields

section \<open>Windows\<close>

definition minutes :: "int \<Rightarrow> int" where "minutes n = n * 60000000"

text \<open>The occurrences of a window on the given days, in local time.\<close>

fun window_occurrences :: "maintenance_window \<Rightarrow> int \<Rightarrow> int list \<Rightarrow> (int \<times> int) list res" where
  "window_occurrences w start [] = Inr []"
| "window_occurrences w start (day # days) =
     (if day < 0 \<or> 3652059 \<le> day then raise OverflowError ''date value out of range''
      else if day mod 7 \<notin> mw_days_of_week w then window_occurrences w start days
      else (let s = day * us_per_day + start; e = s + minutes (mw_duration_minutes w) in
            if max_instant \<le> e then raise OverflowError ''date value out of range''
            else res_bind (window_occurrences w start days) (\<lambda>rest. Inr ((s, e) # rest))))"

text \<open>Whether the window is open, and the start of the occurrence that is open or of the next one.\<close>

definition window_state :: "tz_database \<Rightarrow> maintenance_window \<Rightarrow> int \<Rightarrow> (bool \<times> int option) res" where
  "window_state tz w now =
     (let zone = mw_timezone w; local = tz_local tz zone now in
      case read_time (mw_start_local_time w) of
        None \<Rightarrow> raise ValueError ''Invalid isoformat string''
      | Some start \<Rightarrow>
          res_bind (window_occurrences w start (map (\<lambda>offset. local div us_per_day + offset) [-1..8])) (\<lambda>cands.
            case find (\<lambda>(s, e). s \<le> local \<and> local < e) cands of
              Some (s, e) \<Rightarrow> Inr (True, Some (tz_utc tz zone s))
            | None \<Rightarrow>
                (case filter (\<lambda>s. local < s) (map fst cands) of
                   [] \<Rightarrow> Inr (False, None)
                 | s # ss \<Rightarrow> Inr (False, Some (tz_utc tz zone (foldl min s ss))))))"

section \<open>Decisions\<close>

type_synonym decision_digest =
  "string \<Rightarrow> schedule_outcome \<Rightarrow> string list \<Rightarrow> string \<Rightarrow> string option \<Rightarrow> string option \<Rightarrow> string"

definition schedule_decide ::
    "decision_digest \<Rightarrow> scheduled_operation \<Rightarrow> int \<Rightarrow> schedule_outcome \<Rightarrow> string list \<Rightarrow> int option \<Rightarrow>
     maintenance_window option \<Rightarrow> schedule_decision" where
  "schedule_decide H s now outcome reasons next_at window =
     (let evaluated = isoformat now; eligible = map_option isoformat next_at;
          wid = (case window of Some w \<Rightarrow> Some (mw_id w) | None \<Rightarrow> so_window_id s) in
      \<lparr>sd_id = ''schedule-decision:'' @ H (so_id s) outcome reasons evaluated eligible wid,
       sd_schedule_id = so_id s, sd_outcome = outcome, sd_reasons = reasons, sd_evaluated_at_iso = evaluated,
       sd_next_eligible_at_iso = eligible, sd_window_id = wid,
       sd_metadata = [(''operation_type'', JStr (so_operation_type s)),
         (''target_type'', JStr (target_value (so_target_type s)))]\<rparr>)"

definition parse_opt :: "string option \<Rightarrow> int option res" where
  "parse_opt v = (case v of None \<Rightarrow> Inr None | Some s \<Rightarrow> res_bind (parse_iso s) (\<lambda>t. Inr (Some t)))"

definition window_decision ::
    "decision_digest \<Rightarrow> tz_database \<Rightarrow> scheduled_operation \<Rightarrow> int option \<Rightarrow> int \<Rightarrow> maintenance_window \<Rightarrow>
     schedule_decision res" where
  "window_decision H tz s deadline now w =
     (let deny = \<lambda>r. Inr (schedule_decide H s now Out_Deny [r] None (Some w)) in
      if \<not> mw_enabled w then deny ''maintenance window is disabled''
      else if mw_organization_id w \<noteq> so_organization_id s \<or> mw_workspace_id w \<noteq> so_workspace_id s
      then deny ''maintenance window scope mismatch''
      else if mw_allowed_operation_types w \<noteq> {} \<and> so_operation_type s \<notin> mw_allowed_operation_types w
      then deny ''operation type is not permitted by maintenance window''
      else if mw_target_ids w \<noteq> {} \<and> so_target_id s \<notin> mw_target_ids w
      then deny ''target is not permitted by maintenance window''
      else res_bind (window_state tz w now) (\<lambda>(inside, next_open).
        if inside then Inr (schedule_decide H s now Out_Ready [''maintenance window is open''] None (Some w))
        else if precedes deadline next_open
        then Inr (schedule_decide H s now Out_Expired [''no maintenance window opens before deadline''] None (Some w))
        else Inr (schedule_decide H s now Out_Delay [''waiting for maintenance window''] next_open (Some w))))"

definition schedule_evaluate ::
    "decision_digest \<Rightarrow> tz_database \<Rightarrow> scheduled_operation \<Rightarrow> maintenance_window list \<Rightarrow> int \<Rightarrow>
     schedule_decision res" where
  "schedule_evaluate H tz s windows now =
     (if so_status s \<in> {Sched_Materialized, Sched_Expired, Sched_Cancelled}
      then Inr (schedule_decide H s now Out_Terminal [''schedule is '' @ schedule_status_value (so_status s)] None None)
      else res_bind (parse_opt (so_deadline_iso s)) (\<lambda>deadline.
        if precedes deadline (Some now)
        then Inr (schedule_decide H s now Out_Expired [''schedule deadline has passed''] None None)
        else res_bind (parse_opt (so_not_before_iso s)) (\<lambda>not_before.
          if precedes (Some now) not_before
          then Inr (schedule_decide H s now Out_Delay [''schedule is before not_before''] not_before None)
          else (case so_window_id s of
                  None \<Rightarrow> Inr (schedule_decide H s now Out_Ready [''no maintenance window required''] None None)
                | Some wid \<Rightarrow>
                    (case find (\<lambda>w. mw_id w = wid) windows of
                       None \<Rightarrow> Inr (schedule_decide H s now Out_Deny [''maintenance window is unavailable''] None None)
                     | Some w \<Rightarrow> window_decision H tz s deadline now w)))))"

section \<open>When a schedule is ready\<close>

definition window_admits :: "scheduled_operation \<Rightarrow> maintenance_window \<Rightarrow> bool" where
  "window_admits s w \<longleftrightarrow> mw_enabled w \<and> mw_organization_id w = so_organization_id s \<and>
     mw_workspace_id w = so_workspace_id s \<and>
     (mw_allowed_operation_types w = {} \<or> so_operation_type s \<in> mw_allowed_operation_types w) \<and>
     (mw_target_ids w = {} \<or> so_target_id s \<in> mw_target_ids w)"

lemma schedule_decide_outcome [simp]: "sd_outcome (schedule_decide H s now out reasons next_at w) = out"
  by (simp add: schedule_decide_def Let_def)

lemma schedule_decide_same:
  "schedule_decide H s now out r n w = schedule_decide H s now out' r' n' w' \<Longrightarrow> out = out'"
  by (metis schedule_decide_outcome)

lemma window_decision_ready:
  "window_decision H tz s deadline now w = Inr d \<Longrightarrow>
     sd_outcome d = Out_Ready \<longleftrightarrow> window_admits s w \<and> (\<exists>n. window_state tz w now = Inr (True, n))"
  by (auto simp: window_decision_def Let_def window_admits_def res_bind_eq_Inr_iff
      dest: schedule_decide_same split: if_splits)

lemma schedule_ready:
  assumes "schedule_evaluate H tz s windows now = Inr d"
  shows "sd_outcome d = Out_Ready \<longleftrightarrow>
    so_status s \<notin> {Sched_Materialized, Sched_Expired, Sched_Cancelled} \<and>
    (\<forall>t. parse_opt (so_deadline_iso s) = Inr (Some t) \<longrightarrow> now \<le> t) \<and>
    (\<forall>t. parse_opt (so_not_before_iso s) = Inr (Some t) \<longrightarrow> t \<le> now) \<and>
    (\<forall>wid. so_window_id s = Some wid \<longrightarrow>
      (\<exists>w n. find (\<lambda>w. mw_id w = wid) windows = Some w \<and> window_admits s w \<and> window_state tz w now = Inr (True, n)))"
proof (cases "so_status s \<in> {Sched_Materialized, Sched_Expired, Sched_Cancelled}")
  case True
  then show ?thesis using assms by (auto simp: schedule_evaluate_def)
next
  case active: False
  from assms active obtain deadline where dl: "parse_opt (so_deadline_iso s) = Inr deadline"
    unfolding schedule_evaluate_def by (auto simp only: if_False res_bind_eq_Inr_iff)
  show ?thesis
  proof (cases "precedes deadline (Some now)")
    case True
    then have "sd_outcome d = Out_Expired" using assms active dl by (auto simp: schedule_evaluate_def)
    then show ?thesis using True dl by (auto simp: precedes_def split: option.splits)
  next
    case ontime: False
    from assms active dl ontime obtain nb where nb: "parse_opt (so_not_before_iso s) = Inr nb"
      unfolding schedule_evaluate_def by (auto simp only: if_False res_bind_simps res_bind_eq_Inr_iff)
    show ?thesis
    proof (cases "precedes (Some now) nb")
      case True
      then have "sd_outcome d = Out_Delay" using assms active dl ontime nb by (auto simp: schedule_evaluate_def)
      then show ?thesis using True nb by (auto simp: precedes_def split: option.splits)
    next
      case False
      have time: "(\<forall>t. deadline = Some t \<longrightarrow> now \<le> t) \<and> (\<forall>t. nb = Some t \<longrightarrow> t \<le> now)"
        using False ontime by (auto simp: precedes_def)
      show ?thesis
        using assms active dl nb ontime False time window_decision_ready [of H tz s deadline now _ d]
        by (auto simp: schedule_evaluate_def split: option.splits)
    qed
  qed
qed

section \<open>Windows against their definition\<close>

text \<open>What a maintenance window means: on each of its days it opens at the start time, for its duration.\<close>

definition occurrence :: "maintenance_window \<Rightarrow> int \<Rightarrow> int \<Rightarrow> bool" where
  "occurrence w start s \<longleftrightarrow> (\<exists>day. day mod 7 \<in> mw_days_of_week w \<and> s = day * us_per_day + start)"

definition open_at :: "maintenance_window \<Rightarrow> int \<Rightarrow> int \<Rightarrow> bool" where
  "open_at w start local \<longleftrightarrow>
     (\<exists>s. occurrence w start s \<and> s \<le> local \<and> local < s + minutes (mw_duration_minutes w))"

lemma window_occurrences_set:
  "window_occurrences w start days = Inr cs \<Longrightarrow>
     (s, e) \<in> set cs \<longleftrightarrow> (\<exists>day \<in> set days. day mod 7 \<in> mw_days_of_week w \<and> s = day * us_per_day + start \<and>
       e = s + minutes (mw_duration_minutes w))"
proof (induction days arbitrary: cs)
  case (Cons day days)
  then show ?case
    by (cases "day mod 7 \<in> mw_days_of_week w")
      (auto simp: res_bind_eq_Inr_iff Let_def split: if_splits)
qed simp

lemma offsets: "set (map (\<lambda>offset. d + offset) [-1..8]) = {d - 1 .. d + 8}"
  by auto

lemma day_of_local: "(l :: int) div us_per_day * us_per_day \<le> l" "l < (l div us_per_day + 1) * us_per_day"
proof -
  have "l div us_per_day * us_per_day + l mod us_per_day = l" by (rule div_mult_mod_eq)
  moreover have "0 \<le> l mod us_per_day" "l mod us_per_day < us_per_day" by (simp_all add: us_per_day_def)
  ultimately show "l div us_per_day * us_per_day \<le> l" "l < (l div us_per_day + 1) * us_per_day"
    unfolding distrib_right by linarith+
qed

lemma days_between:
  fixes a b :: int
  shows "a * us_per_day < b * us_per_day \<longleftrightarrow> a < b"
  by (simp add: us_per_day_def)

text \<open>Every occurrence of at most a day that contains the present starts today or yesterday.\<close>

lemma short_window_days:
  assumes "0 \<le> start" "start < us_per_day" "minutes dur \<le> us_per_day"
    and "day * us_per_day + start \<le> l" "l < day * us_per_day + start + minutes dur"
  shows "l div us_per_day - 1 \<le> day \<and> day \<le> l div us_per_day"
proof -
  have "day * us_per_day < (l div us_per_day + 1) * us_per_day" using assms(1,4) day_of_local(2) [of l] by linarith
  moreover have "l div us_per_day * us_per_day < (day + 2) * us_per_day"
    using assms(2,3,5) day_of_local(1) [of l] by (simp add: distrib_right)
  ultimately show ?thesis unfolding days_between by linarith
qed

lemma window_state_exact:
  assumes "window_state tz w now = Inr (inside, n)" "read_time (mw_start_local_time w) = Some start"
    and "0 \<le> start" "start < us_per_day" "mw_duration_minutes w \<le> 1440"
  shows "inside \<longleftrightarrow> open_at w start (tz_local tz (mw_timezone w) now)"
proof -
  let ?l = "tz_local tz (mw_timezone w) now"
  obtain cs where cs: "window_occurrences w start (map (\<lambda>offset. ?l div us_per_day + offset) [-1..8]) = Inr cs"
    and inside: "inside \<longleftrightarrow> find (\<lambda>(s, e). s \<le> ?l \<and> ?l < e) cs \<noteq> None"
    using assms(1,2) by (auto simp: window_state_def Let_def res_bind_eq_Inr_iff split: option.splits list.splits)
  have "inside \<longleftrightarrow> (\<exists>s e. (s, e) \<in> set cs \<and> s \<le> ?l \<and> ?l < e)"
    unfolding inside by (auto simp: find_None_iff)
  also have "\<dots> \<longleftrightarrow> open_at w start ?l"
  proof
    assume "\<exists>s e. (s, e) \<in> set cs \<and> s \<le> ?l \<and> ?l < e"
    then show "open_at w start ?l"
      unfolding window_occurrences_set [OF cs] by (auto simp: open_at_def occurrence_def)
  next
    assume "open_at w start ?l"
    then obtain day where day: "day mod 7 \<in> mw_days_of_week w" "day * us_per_day + start \<le> ?l"
      "?l < day * us_per_day + start + minutes (mw_duration_minutes w)"
      by (auto simp: open_at_def occurrence_def)
    have "minutes (mw_duration_minutes w) \<le> us_per_day"
      using assms(5) by (simp add: minutes_def us_per_day_def)
    from short_window_days [OF assms(3,4) this day(2,3)]
    have "day \<in> {?l div us_per_day - 1 .. ?l div us_per_day + 8}" by simp
    with day show "\<exists>s e. (s, e) \<in> set cs \<and> s \<le> ?l \<and> ?l < e"
      unfolding window_occurrences_set [OF cs] offsets by blast
  qed
  finally show ?thesis .
qed

text \<open>A time of day lies within the day.\<close>

lemma read_digits_bound:
  "read_digits k acc s = Some (v, r) \<Longrightarrow> v < (acc + 1) * 10 ^ k"
proof (induction k acc s rule: read_digits.induct)
  case (3 k acc c s)
  then obtain d where d: "char_digit c = Some d" "v < (10 * acc + d + 1) * 10 ^ k"
    by (auto split: option.splits)
  have "d < 10" using d(1) by (auto simp: char_digit_def Let_def split: if_splits)
  then have "(10 * acc + d + 1) * 10 ^ k \<le> (acc + 1) * 10 * 10 ^ k" by (intro mult_le_mono1) simp
  with d(2) have "v < (acc + 1) * 10 * 10 ^ k" by (rule less_le_trans)
  then show ?case by (simp only: power_Suc mult.assoc)
qed auto

lemma read_frac_bound:
  assumes "read_frac s = Some (us, r)"
  shows "us < 1000000"
proof (cases "\<exists>r'. s = CHR ''.'' # r'")
  case True
  then obtain r' where s: "s = CHR ''.'' # r'" by blast
  let ?k = "min 6 (length (takeWhile is_digit r'))"
  from assms obtain v r2 where v: "read_digits ?k 0 r' = Some (v, r2)" "us = v * 10 ^ (6 - ?k)"
    by (auto simp: read_frac_def s Let_def split: if_splits)
  have "v < 10 ^ ?k" using read_digits_bound [OF v(1)] by simp
  then have "us < 10 ^ ?k * 10 ^ (6 - ?k)" unfolding v(2) by simp
  then show ?thesis by (simp flip: power_add)
next
  case False
  then show ?thesis using assms by (auto simp: read_frac_def split: list.splits if_splits)
qed

lemma read_clock_bound: "read_clock s = Some (us, r) \<Longrightarrow> us < 86400000000"
  by (auto simp: read_clock_def bind_eq_Some_conv dest!: read_frac_bound split: if_splits option.splits)


lemma read_time_bounds: "read_time s = Some start \<Longrightarrow> 0 \<le> start \<and> start < us_per_day"
  using read_clock_bound by (fastforce simp: read_time_def us_per_day_def bind_eq_Some_conv)

lemma schedule_evaluate_window:
  assumes "schedule_evaluate H tz s windows now = Inr d" "so_status s \<notin> {Sched_Materialized, Sched_Expired, Sched_Cancelled}"
    and "\<forall>t. parse_opt (so_deadline_iso s) = Inr (Some t) \<longrightarrow> now \<le> t"
    and "\<forall>t. parse_opt (so_not_before_iso s) = Inr (Some t) \<longrightarrow> t \<le> now"
    and "so_window_id s = Some wid" "find (\<lambda>w. mw_id w = wid) windows = Some w" "window_admits s w"
  shows "\<exists>inside n. window_state tz w now = Inr (inside, n)"
proof -
  from assms(1,2) obtain deadline where dl: "parse_opt (so_deadline_iso s) = Inr deadline"
    unfolding schedule_evaluate_def by (auto simp only: if_False res_bind_eq_Inr_iff)
  then have ontime: "\<not> precedes deadline (Some now)"
    using assms(3) by (auto simp: precedes_def split: option.splits)
  from assms(1,2) dl ontime obtain nb where nb: "parse_opt (so_not_before_iso s) = Inr nb"
    unfolding schedule_evaluate_def by (auto simp only: if_False res_bind_simps res_bind_eq_Inr_iff)
  then have "\<not> precedes (Some now) nb" using assms(4) by (auto simp: precedes_def split: option.splits)
  then have "window_decision H tz s deadline now w = Inr d"
    using assms(1,2,5,6) dl ontime nb by (simp add: schedule_evaluate_def)
  then show ?thesis
    using assms(7) by (auto simp: window_decision_def Let_def window_admits_def res_bind_eq_Inr_iff)
qed

text \<open>A ready decision, with windows of at most a day, is one made while the window is open.\<close>

lemma schedule_ready_open:
  assumes "schedule_evaluate H tz s windows now = Inr d"
    and "\<forall>w \<in> set windows. valid_window tz w \<and> mw_duration_minutes w \<le> 1440"
  shows "sd_outcome d = Out_Ready \<longleftrightarrow>
    so_status s \<notin> {Sched_Materialized, Sched_Expired, Sched_Cancelled} \<and>
    (\<forall>t. parse_opt (so_deadline_iso s) = Inr (Some t) \<longrightarrow> now \<le> t) \<and>
    (\<forall>t. parse_opt (so_not_before_iso s) = Inr (Some t) \<longrightarrow> t \<le> now) \<and>
    (\<forall>wid. so_window_id s = Some wid \<longrightarrow>
      (\<exists>w start. find (\<lambda>w. mw_id w = wid) windows = Some w \<and> window_admits s w \<and>
        read_time (mw_start_local_time w) = Some start \<and> open_at w start (tz_local tz (mw_timezone w) now)))"
    (is "_ \<longleftrightarrow> ?active \<and> ?dl \<and> ?nb \<and> ?open")
proof -
  have "(\<exists>n. window_state tz w now = Inr (True, n)) \<longleftrightarrow>
      (\<exists>start. read_time (mw_start_local_time w) = Some start \<and> open_at w start (tz_local tz (mw_timezone w) now))"
    if active: ?active ?dl ?nb and w: "so_window_id s = Some wid" "find (\<lambda>w. mw_id w = wid) windows = Some w"
      "window_admits s w" for wid w
  proof -
    have "w \<in> set windows" using w(2) by (auto simp: find_Some_iff)
    with assms(2) have "valid_time (mw_start_local_time w) = Inr (mw_start_local_time w)"
      and short: "mw_duration_minutes w \<le> 1440" by (auto simp: valid_window_def)
    then obtain start where start: "read_time (mw_start_local_time w) = Some start"
      by (auto simp: valid_time_def split: option.splits)
    obtain inside n where "window_state tz w now = Inr (inside, n)"
      using schedule_evaluate_window [OF assms(1) active w] by blast
    with window_state_exact [OF this start _ _ short] read_time_bounds [OF start] show ?thesis
      using start by auto
  qed
  then show ?thesis
    unfolding schedule_ready [OF assms(1)] by (intro conj_cong refl all_cong1 imp_cong ex_cong1) blast
qed

text \<open>The next opening is the first occurrence after the present, whatever the duration.\<close>

lemma foldl_min: "foldl min (a :: int) xs \<in> insert a (set xs) \<and> (\<forall>x \<in> insert a (set xs). foldl min a xs \<le> x)"
proof (induction xs arbitrary: a)
  case (Cons x xs)
  from Cons.IH [of "min a x"] show ?case by (auto simp: min_def split: if_splits)
qed simp

lemma next_week: "d \<in> {0..6 :: int} \<Longrightarrow> \<exists>k \<in> {1..7}. (l + k) mod 7 = d"
proof -
  assume d: "d \<in> {0..6 :: int}"
  have "(l + (1 + (d - l - 1) mod 7)) mod 7 = (l + (1 + (d - l - 1))) mod 7"
    by (metis mod_add_right_eq)
  then have "(l + (1 + (d - l - 1) mod 7)) mod 7 = d" using d by simp
  moreover have "1 + (d - l - 1) mod 7 \<in> {1..7}" by simp
  ultimately show ?thesis by blast
qed

lemma window_state_next:
  assumes "window_state tz w now = Inr (False, n)" "read_time (mw_start_local_time w) = Some start"
    and "0 \<le> start" "start < us_per_day" "valid_days (mw_days_of_week w) = Inr (mw_days_of_week w)"
  shows "\<exists>s. n = Some (tz_utc tz (mw_timezone w) s) \<and> occurrence w start s \<and>
    tz_local tz (mw_timezone w) now < s \<and>
    (\<forall>s'. occurrence w start s' \<and> tz_local tz (mw_timezone w) now < s' \<longrightarrow> s \<le> s')"
proof -
  let ?l = "tz_local tz (mw_timezone w) now" and ?u = "tz_utc tz (mw_timezone w)"
  let ?d = "?l div us_per_day"
  obtain cs where cs: "window_occurrences w start (map (\<lambda>offset. ?d + offset) [-1..8]) = Inr cs"
    and n: "n = (case filter (\<lambda>s. ?l < s) (map fst cs) of [] \<Rightarrow> None | s # ss \<Rightarrow> Some (?u (foldl min s ss)))"
    using assms(1,2) by (auto simp: window_state_def Let_def res_bind_eq_Inr_iff split: option.splits list.splits)
  let ?fs = "filter (\<lambda>s. ?l < s) (map fst cs)"
  have fs: "s \<in> set ?fs \<longleftrightarrow> ?l < s \<and> (\<exists>day \<in> {?d - 1 .. ?d + 8}. day mod 7 \<in> mw_days_of_week w \<and>
      s = day * us_per_day + start)" for s
    using window_occurrences_set [OF cs] unfolding offsets by force
  obtain wd where wd: "wd \<in> mw_days_of_week w" "wd \<in> {0..6}"
    using assms(5) by (fastforce simp: valid_days_def split: if_splits)
  obtain k where k: "k \<in> {1..7}" "(?d + k) mod 7 = wd" using next_week [OF wd(2), of ?d] by blast
  let ?s1 = "(?d + k) * us_per_day + start"
  have "(?d + 1) * us_per_day \<le> (?d + k) * us_per_day" using k(1) by (simp add: us_per_day_def)
  then have s1: "?l < ?s1" using day_of_local(2) [of ?l] assms(3) by linarith
  then have in1: "?s1 \<in> set ?fs" unfolding fs using k wd(1) by (intro conjI bexI [of _ "?d + k"]) auto
  then obtain a as where fa: "?fs = a # as" by (cases ?fs) auto
  let ?m = "foldl min a as"
  have m: "?m \<in> set ?fs" unfolding fa using foldl_min [of a as] by simp
  have least: "?m \<le> x" if "x \<in> set ?fs" for x
    using that foldl_min [of a as] unfolding fa by auto
  have "?m \<le> s'" if s': "occurrence w start s'" "?l < s'" for s'
  proof -
    from s'(1) obtain day where day: "day mod 7 \<in> mw_days_of_week w" "s' = day * us_per_day + start"
      by (auto simp: occurrence_def)
    show ?thesis
    proof (cases "day \<le> ?d + 8")
      case True
      have "?d * us_per_day < (day + 1) * us_per_day"
        using s'(2) day(2) assms(4) day_of_local(1) [of ?l] by (simp add: distrib_right)
      then have "?d - 1 \<le> day" unfolding days_between by linarith
      then have "s' \<in> set ?fs" unfolding fs using True day s'(2) by (intro conjI bexI [of _ day]) auto
      then show ?thesis by (rule least)
    next
      case False
      then have "(?d + k) * us_per_day < day * us_per_day" using k(1) unfolding days_between by simp
      then show ?thesis using least [OF in1] day(2) by linarith
    qed
  qed
  moreover have "n = Some (?u ?m)" by (simp add: n fa)
  moreover have "occurrence w start ?m" "?l < ?m" using m unfolding fs occurrence_def by blast+
  ultimately show ?thesis by blast
qed

section \<open>A window longer than a day\<close>

text \<open>A window that opens on Friday for three days is open on Sunday, but only yesterday's and later
  occurrences are looked at.\<close>

definition weekend_window :: maintenance_window where
  "weekend_window = \<lparr>mw_id = ''w'', mw_organization_id = ''o'', mw_workspace_id = ''ws'', mw_name = ''weekend'',
     mw_timezone = ''UTC'', mw_days_of_week = {4}, mw_start_local_time = ''00:00'', mw_duration_minutes = 4320,
     mw_allowed_operation_types = {}, mw_target_ids = {}, mw_enabled = True, mw_metadata = []\<rparr>"

definition utc_only :: tz_database where
  "utc_only = \<lparr>tz_known = (\<lambda>z. z = ''UTC''), tz_local = (\<lambda>z t. t), tz_utc = (\<lambda>z t. t)\<rparr>"

lemma midnight: "read_time ''00:00'' = Some 0"
  by (simp add: read_time_def read_clock_def read_offset_def char_digit_def numeral_2_eq_2)

lemma offsets_listed: "[-1..8] = [-1, 0, 1, 2, 3, 4, 5, 6, 7, 8 :: int]"
  by (simp add: upto_rec1)

lemma weekend_window_valid: "valid_window utc_only weekend_window"
  by (simp add: valid_window_def weekend_window_def utc_only_def valid_timezone_def valid_days_def valid_time_def midnight)

lemma long_window_closed_early:
  "let sunday = 739850 * us_per_day + 3600000000 in
   sunday div us_per_day mod 7 = 6 \<and> open_at weekend_window 0 sunday \<and>
   window_state utc_only weekend_window sunday = Inr (False, Some (739855 * us_per_day))"
  unfolding Let_def
proof (intro conjI)
  show "open_at weekend_window 0 (739850 * us_per_day + 3600000000)"
    unfolding open_at_def occurrence_def
    by (rule exI [of _ "739848 * us_per_day"], intro conjI exI [of _ 739848])
      (simp_all add: weekend_window_def us_per_day_def minutes_def)
qed (simp_all add: window_state_def weekend_window_def utc_only_def us_per_day_def minutes_def max_instant_def midnight
    offsets_listed Let_def)

end
