(* ===== verification/Scenario_Compiler.thy ===== *)
theory Scenario_Compiler
  imports Scenario_IR Registry
begin

text \<open>
  \<open>scenarios/template.py\<close>, \<open>registry/scenarios.py\<close> and \<open>scenarios/compiler.py\<close>: templates with placeholders,
  families with inheritance, and the compilation of a family with bindings to a scenario. The dumps of a
  family are its record; the dictionaries of a blueprint become objects through pydantic, whose
  \<open>model_validate\<close>s are the argument \<open>validators\<close>. \<open>fl\<close> renders floats. Shown: templates resolve exactly
  when every placeholder is bound; lineages are chains from a root; what a compiled scenario satisfies.
\<close>

section \<open>Templates\<close>

definition is_key_char :: "char \<Rightarrow> bool" where
  "is_key_char c \<longleftrightarrow>
     (let n = of_char c :: nat in (65 \<le> n \<and> n \<le> 90) \<or> (97 \<le> n \<and> n \<le> 122) \<or> (48 \<le> n \<and> n \<le> 57)) \<or>
     c \<in> {CHR ''_'', CHR ''.'', CHR ''-''}"

text \<open>A placeholder \<open>${key}\<close> at the start of a string: its key and the rest.\<close>

definition match_placeholder :: "string \<Rightarrow> (string \<times> string) option" where
  "match_placeholder s =
     (case s of
        d # b # r \<Rightarrow>
          if d = CHR ''$'' \<and> b = CHR ''{'' \<and> takeWhile is_key_char r \<noteq> [] then
            (case dropWhile is_key_char r of
               [] \<Rightarrow> None
             | e # rest \<Rightarrow> if e = CHR ''}'' then Some (takeWhile is_key_char r, rest) else None)
          else None
      | _ \<Rightarrow> None)"

text \<open>\<open>_FULL\<close>: the end anchor also matches before a final newline.\<close>

definition full_match :: "string \<Rightarrow> string option" where
  "full_match s =
     (case match_placeholder s of
        None \<Rightarrow> None
      | Some (key, rest) \<Rightarrow> if rest = [] \<or> rest = [CHR 0x0A] then Some key else None)"

lemma match_placeholder_shorter: "match_placeholder s = Some (key, rest) \<Longrightarrow> length rest < length s"
proof -
  assume "match_placeholder s = Some (key, rest)"
  then obtain d b r e where s: "s = d # b # r" and "dropWhile is_key_char r = e # rest"
    by (auto simp: match_placeholder_def split: list.splits if_splits)
  then have "length (e # rest) \<le> length r" by (metis length_dropWhile_le)
  then show ?thesis by (simp add: s)
qed

text \<open>\<open>_EMBEDDED\<close>: the string as characters and placeholders, from left to right.\<close>

function template_parts :: "string \<Rightarrow> (char + string) list" where
  "template_parts [] = []"
| "template_parts (c # s) =
     (case match_placeholder (c # s) of
        Some (key, rest) \<Rightarrow> Inr key # template_parts rest
      | None \<Rightarrow> Inl c # template_parts s)"
  by pat_completeness auto
termination
  by (relation "measure length") (auto dest: match_placeholder_shorter)

definition lookup_binding :: "fields \<Rightarrow> string \<Rightarrow> json res" where
  "lookup_binding b key =
     (case dget b key of
        None \<Rightarrow> raise TemplateResolutionError (''missing template binding '' @ key)
      | Some v \<Rightarrow> Inr v)"

definition resolve_string :: "(rat \<Rightarrow> string) \<Rightarrow> fields \<Rightarrow> string \<Rightarrow> json res" where
  "resolve_string fl b s =
     (case full_match s of
        Some key \<Rightarrow> lookup_binding b key
      | None \<Rightarrow>
          res_bind
            (res_map (\<lambda>p. case p of Inl c \<Rightarrow> Inr [c] | Inr key \<Rightarrow> res_bind (lookup_binding b key) (\<lambda>v. Inr (str_of fl v)))
               (template_parts s))
            (\<lambda>ps. Inr (JStr (concat ps))))"

lemma res_map_cong [fundef_cong]:
  "xs = ys \<Longrightarrow> (\<And>x. x \<in> set ys \<Longrightarrow> f x = g x) \<Longrightarrow> res_map f xs = res_map g ys"
  by (induction ys arbitrary: xs) (auto split: sum.splits)

fun resolve_template :: "(rat \<Rightarrow> string) \<Rightarrow> fields \<Rightarrow> json \<Rightarrow> json res" where
  "resolve_template fl b (JObj kvs) =
     res_bind (res_map (\<lambda>kv. res_bind (resolve_template fl b (snd kv)) (\<lambda>v. Inr (fst kv, v))) kvs) (\<lambda>r. Inr (JObj r))"
| "resolve_template fl b (JList xs) = res_bind (res_map (resolve_template fl b) xs) (\<lambda>r. Inr (JList r))"
| "resolve_template fl b (JStr s) = resolve_string fl b s"
| "resolve_template fl b v = Inr v"

definition resolve_fields :: "(rat \<Rightarrow> string) \<Rightarrow> fields \<Rightarrow> fields \<Rightarrow> fields res" where
  "resolve_fields fl b d = res_map (\<lambda>kv. res_bind (resolve_template fl b (snd kv)) (\<lambda>v. Inr (fst kv, v))) d"

section \<open>The registry of families\<close>

type_synonym family_registry = "scenario_family registry"

definition new_family_registry :: family_registry where
  "new_family_registry = new_registry ''scenario family registry''"

definition register_family :: "scenario_family \<Rightarrow> bool \<Rightarrow> family_registry \<Rightarrow> family_registry res" where
  "register_family f replace r = reg_register (sf_id f) f replace r"

text \<open>From a family up to its root, failing on a family seen before.\<close>

function (sequential) lineage_up :: "family_registry \<Rightarrow> string set \<Rightarrow> scenario_family \<Rightarrow> scenario_family list res" where
  "lineage_up r seen f =
     (if sf_id f \<in> seen then raise ValueError (''scenario-family inheritance cycle at '' @ sf_id f)
      else (case sf_parent_id f of
              None \<Rightarrow> Inr [f]
            | Some p \<Rightarrow>
                (case reg_get r p of
                   Inl e \<Rightarrow> Inl e
                 | Inr g \<Rightarrow> res_bind (lineage_up r (insert (sf_id f) seen) g) (\<lambda>fs. Inr (f # fs)))))"
  by pat_completeness auto
termination
proof (relation "measure (\<lambda>(r, seen, f). let R = sf_id ` snd ` set (reg_items r) in
    2 * card (R - seen) + (if sf_id f \<in> R then 0 else 1))", goal_cases)
  case (2 r seen f p g)
  let ?R = "sf_id ` snd ` set (reg_items r)"
  have g: "sf_id g \<in> ?R"
    using 2(3) by (force simp: reg_get_def dest: map_of_SomeD split: option.splits)
  have "card (?R - insert (sf_id f) seen) \<le> card (?R - seen)" by (rule card_mono) auto
  moreover have "card (?R - insert (sf_id f) seen) < card (?R - seen)" if "sf_id f \<in> ?R"
    using that 2(1) by (intro psubset_card_mono) auto
  ultimately show ?case using g by (auto simp: Let_def)
qed auto

definition lineage :: "family_registry \<Rightarrow> string \<Rightarrow> scenario_family list res" where
  "lineage r family_id =
     res_bind (reg_get r family_id) (\<lambda>f. res_bind (lineage_up r {} f) (\<lambda>fs. Inr (rev fs)))"

section \<open>Inheritance\<close>

text \<open>\<open>_merge_named\<close>: by identity, the child's item merged over the parent's, sorted by identity.\<close>

definition merge_keyed :: "('v option \<Rightarrow> 'v \<Rightarrow> 'v) \<Rightarrow> (string \<times> 'v) list \<Rightarrow> (string \<times> 'v) list \<Rightarrow> 'v list" where
  "merge_keyed mrg parent child =
     (let merged = foldl (\<lambda>m (k, v). dset k (mrg (dget m k) v) m) (dict_of parent) child in
      List.map_filter (dget merged) (sort (map fst merged)))"

text \<open>\<open>item[key]\<close>; an identity that is no string, which the validation of the item would refuse later, is refused
  here.\<close>

definition identify :: "string \<Rightarrow> fields \<Rightarrow> (string \<times> fields) res" where
  "identify key item =
     (case dget item key of
        None \<Rightarrow> raise KeyError key
      | Some (JStr i) \<Rightarrow> Inr (i, item)
      | Some _ \<Rightarrow> raise TypeError key)"

definition merge_fields :: "fields option \<Rightarrow> fields \<Rightarrow> fields" where
  "merge_fields old new = deep_merge (case old of None \<Rightarrow> [] | Some d \<Rightarrow> d) new"

definition merge_named :: "fields list \<Rightarrow> fields list \<Rightarrow> string \<Rightarrow> fields list res" where
  "merge_named parent child key =
     res_bind (res_map (identify key) parent) (\<lambda>ps.
     res_bind (res_map (identify key) child) (\<lambda>cs. Inr (merge_keyed merge_fields ps cs)))"

text \<open>A parameter's dump overrides the parent's, but two mappings given as defaults are merged.\<close>

definition merge_parameter :: "parameter_spec option \<Rightarrow> parameter_spec \<Rightarrow> parameter_spec" where
  "merge_parameter old new =
     (case (map_option ps_default old, ps_default new) of
        (Some (JObj p), JObj c) \<Rightarrow> new\<lparr>ps_default := JObj (deep_merge p c)\<rparr>
      | _ \<Rightarrow> new)"

definition merge_parameters :: "parameter_spec list \<Rightarrow> parameter_spec list \<Rightarrow> parameter_spec list" where
  "merge_parameters parent child =
     merge_keyed merge_parameter (map (\<lambda>p. (ps_name p, p)) parent) (map (\<lambda>p. (ps_name p, p)) child)"

definition merge_blueprints :: "blueprint \<Rightarrow> blueprint \<Rightarrow> blueprint res" where
  "merge_blueprints p c =
     res_bind (merge_named (bp_entities p) (bp_entities c) ''entity_id'') (\<lambda>es.
     res_bind (merge_named (bp_relationships p) (bp_relationships c) ''relationship_id'') (\<lambda>rs.
     res_bind (merge_named (bp_invariants p) (bp_invariants c) ''invariant_id'') (\<lambda>is.
     res_bind (merge_named (bp_transition_rules p) (bp_transition_rules c) ''rule_id'') (\<lambda>ts.
     res_bind (merge_named (bp_observation_profiles p) (bp_observation_profiles c) ''profile_id'') (\<lambda>os.
       Inr \<lparr>bp_entities = es, bp_relationships = rs, bp_invariants = is, bp_transition_rules = ts,
            bp_observation_profiles = os\<rparr>)))))"

definition merge_family :: "scenario_family \<Rightarrow> scenario_family \<Rightarrow> scenario_family res" where
  "merge_family p c =
     res_bind (merge_blueprints (sf_blueprint p) (sf_blueprint c)) (\<lambda>bp.
     res_bind (merge_named (sf_disturbances p) (sf_disturbances c) ''disturbance_id'') (\<lambda>ds.
       Inr (c\<lparr>sf_parent_id := (if sf_parent_id c = None then sf_parent_id p else sf_parent_id c),
              sf_parameters := merge_parameters (sf_parameters p) (sf_parameters c),
              sf_constraints := sf_constraints p @ sf_constraints c,
              sf_signature := deep_merge (sf_signature p) (sf_signature c),
              sf_blueprint := bp, sf_disturbances := ds,
              sf_tags := sorted_set (set (sf_tags p) \<union> set (sf_tags c))\<rparr>)))"

fun merge_children :: "scenario_family \<Rightarrow> scenario_family list \<Rightarrow> scenario_family res" where
  "merge_children p [] = Inr p"
| "merge_children p (c # cs) = res_bind (merge_family p c) (\<lambda>f. merge_children f cs)"

definition merge_lineage :: "scenario_family list \<Rightarrow> scenario_family res" where
  "merge_lineage fs = (case fs of [] \<Rightarrow> raise ValueError ''empty lineage'' | f # cs \<Rightarrow> merge_children f cs)"

definition effective_family :: "family_registry \<Rightarrow> string \<Rightarrow> scenario_family res" where
  "effective_family r family_id = res_bind (lineage r family_id) merge_lineage"

section \<open>Bindings\<close>

definition complete_bindings :: "scenario_family \<Rightarrow> fields \<Rightarrow> fields" where
  "complete_bindings f supplied =
     foldl (\<lambda>b p. if dget b (ps_name p) = None \<and> ps_default p \<noteq> JNull then dset (ps_name p) (ps_default p) b else b)
       supplied (sf_parameters f)"

definition is_int_json :: "json \<Rightarrow> bool" where
  "is_int_json v = (case v of JInt _ \<Rightarrow> True | JBool _ \<Rightarrow> True | _ \<Rightarrow> False)"

definition is_bool_json :: "json \<Rightarrow> bool" where
  "is_bool_json v = (case v of JBool _ \<Rightarrow> True | _ \<Rightarrow> False)"

definition is_str_json :: "json \<Rightarrow> bool" where
  "is_str_json v = (case v of JStr _ \<Rightarrow> True | _ \<Rightarrow> False)"

definition binding_errors :: "(rat \<Rightarrow> string) \<Rightarrow> fields \<Rightarrow> parameter_spec \<Rightarrow> string list" where
  "binding_errors fl b p =
     (let name = ps_name p in
      case dget b name of
        None \<Rightarrow> if ps_required p then [''missing required binding '' @ name] else []
      | Some v \<Rightarrow>
          if ps_type p = Param_Integer \<and> \<not> is_int_json v then [''binding '' @ name @ '' must be an integer'']
          else if ps_type p = Param_Boolean \<and> \<not> is_bool_json v then [''binding '' @ name @ '' must be a boolean'']
          else if ps_type p = Param_String \<and> \<not> is_str_json v then [''binding '' @ name @ '' must be a string'']
          else if ps_type p = Param_Enum \<and> \<not> list_ex (py_eq v) (ps_options p)
          then [''binding '' @ name @ '' must be one of '' @ py_repr fl (JList (ps_options p))]
          else [])"

definition evaluate_constraint :: "(rat \<Rightarrow> string) \<Rightarrow> constraint_spec \<Rightarrow> fields \<Rightarrow> string list" where
  "evaluate_constraint fl c b =
     (let value = (\<lambda>name. dget_default b name JNull) in
      case cs_type c of
        Constraint_Required \<Rightarrow>
          if list_ex (\<lambda>name. value name = JNull \<or> value name = JStr []) (cs_parameters c) then [cs_message c] else []
      | Constraint_Not_Equal \<Rightarrow>
          let values = map value (cs_parameters c) in
          if 2 \<le> length values \<and> card (set (map (str_of fl) values)) \<noteq> length values then [cs_message c] else []
      | Constraint_One_Of \<Rightarrow>
          if list_ex (\<lambda>name. \<not> list_ex (py_eq (value name)) (cs_values c)) (cs_parameters c) then [cs_message c] else [])"

definition validate_bindings :: "(rat \<Rightarrow> string) \<Rightarrow> scenario_family \<Rightarrow> fields \<Rightarrow> string list" where
  "validate_bindings fl f b =
     (let unknown = sorted_set (set (map fst b) - set (map ps_name (sf_parameters f))) in
      (if unknown = [] then [] else [''unknown bindings: '' @ join '', '' unknown]) @
      concat (map (binding_errors fl b) (sf_parameters f)) @
      concat (map (\<lambda>c. evaluate_constraint fl c b) (sf_constraints f)))"

section \<open>Compilation\<close>

record validators =
  v_entity :: "fields \<Rightarrow> entity res"
  v_relationship :: "fields \<Rightarrow> relationship res"
  v_invariant :: "fields \<Rightarrow> invariant_definition res"
  v_rule :: "fields \<Rightarrow> transition_rule res"
  v_disturbance :: "fields \<Rightarrow> disturbance res"
  v_profile :: "fields \<Rightarrow> observation_profile res"

definition or_default :: "string option \<Rightarrow> string \<Rightarrow> string" where
  "or_default v d = (case v of Some (c # s) \<Rightarrow> c # s | _ \<Rightarrow> d)"

fun find_disturbance :: "string \<Rightarrow> fields list \<Rightarrow> fields option res" where
  "find_disturbance i [] = Inr None"
| "find_disturbance i (d # ds) =
     (case dget d ''disturbance_id'' of
        None \<Rightarrow> raise KeyError ''disturbance_id''
      | Some v \<Rightarrow> if v = JStr i then Inr (Some d) else find_disturbance i ds)"

definition resolve_text :: "(rat \<Rightarrow> string) \<Rightarrow> fields \<Rightarrow> string \<Rightarrow> string \<Rightarrow> string res" where
  "resolve_text fl b field s =
     res_bind (resolve_string fl b s) (\<lambda>v. case v of JStr t \<Rightarrow> Inr t | _ \<Rightarrow> raise ValidationError field)"

definition resolve_blueprint :: "(rat \<Rightarrow> string) \<Rightarrow> fields \<Rightarrow> blueprint \<Rightarrow> blueprint res" where
  "resolve_blueprint fl b bp =
     res_bind (res_map (resolve_fields fl b) (bp_entities bp)) (\<lambda>es.
     res_bind (res_map (resolve_fields fl b) (bp_relationships bp)) (\<lambda>rs.
     res_bind (res_map (resolve_fields fl b) (bp_invariants bp)) (\<lambda>is.
     res_bind (res_map (resolve_fields fl b) (bp_transition_rules bp)) (\<lambda>ts.
     res_bind (res_map (resolve_fields fl b) (bp_observation_profiles bp)) (\<lambda>os.
       Inr \<lparr>bp_entities = es, bp_relationships = rs, bp_invariants = is, bp_transition_rules = ts,
            bp_observation_profiles = os\<rparr>)))))"

text \<open>The instance is built after its title, description and parts; its own validator runs last.\<close>

definition build_instance ::
    "(rat \<Rightarrow> string) \<Rightarrow> validators \<Rightarrow> string \<Rightarrow> scenario_family list \<Rightarrow> fields \<Rightarrow> blueprint \<Rightarrow> fields \<Rightarrow>
     observation_profile \<Rightarrow> int \<Rightarrow> scenario res" where
  "build_instance fl V sid fs b bp payload profile max_time =
     (let family = last fs in
     res_bind (resolve_text fl b ''title'' (sf_title family)) (\<lambda>title.
     res_bind (resolve_text fl b ''description'' (sf_description family)) (\<lambda>description.
     res_bind (res_map (v_entity V) (bp_entities bp)) (\<lambda>es.
     res_bind (res_map (v_relationship V) (bp_relationships bp)) (\<lambda>rs.
     res_bind (res_map (v_invariant V) (bp_invariants bp)) (\<lambda>is.
     res_bind (res_map (v_rule V) (bp_transition_rules bp)) (\<lambda>ts.
     res_bind (v_disturbance V payload) (\<lambda>d.
       if max_time < 1 then raise ValidationError ''max_time_seconds''
       else validate_references
         \<lparr>sc_id = sid, sc_family_id = sf_id family, sc_family_version = sf_version family, sc_title = title,
          sc_description = description, sc_bindings = b, sc_entities = es, sc_relationships = rs,
          sc_invariants = is, sc_transition_rules = ts, sc_disturbance = d, sc_profile = profile,
          sc_max_time_seconds = max_time,
          sc_metadata = [(''lineage'', JList (map (\<lambda>f. JStr (sf_id f)) fs)), (''signature'', JObj (sf_signature family)),
            (''tags'', JList (map JStr (sf_tags family)))]\<rparr>))))))))"

definition scenario_compile ::
    "(rat \<Rightarrow> string) \<Rightarrow> validators \<Rightarrow> family_registry \<Rightarrow> string \<Rightarrow> string \<Rightarrow> fields \<Rightarrow> string option \<Rightarrow>
     string option \<Rightarrow> string option \<Rightarrow> int \<Rightarrow> scenario res" where
  "scenario_compile fl V r fresh family_id bindings disturbance_id profile_id scenario_id max_time =
     res_bind (lineage r family_id) (\<lambda>fs.
     res_bind (effective_family r family_id) (\<lambda>merged.
       if sf_abstract merged
       then raise ScenarioCompileError
         (''scenario family '' @ family_id @ '' is abstract and cannot be compiled directly'')
       else (let b = complete_bindings merged bindings; errors = validate_bindings fl merged b in
         if errors \<noteq> [] then raise ScenarioCompileError (join ''; '' errors)
         else res_bind (resolve_blueprint fl b (sf_blueprint merged)) (\<lambda>bp.
           res_bind (res_map (resolve_fields fl b) (sf_disturbances merged)) (\<lambda>ds.
           let wanted = or_default disturbance_id (sf_default_disturbance_id merged) in
           res_bind (find_disturbance wanted ds) (\<lambda>found.
             (case found of
                None \<Rightarrow> raise ScenarioCompileError (''unknown disturbance '' @ wanted)
              | Some payload \<Rightarrow>
                  res_bind (res_map (v_profile V) (bp_observation_profiles bp)) (\<lambda>profiles.
                    let chosen = or_default profile_id (sf_default_profile_id merged) in
                    (case find (\<lambda>p. prof_id p = chosen) profiles of
                       None \<Rightarrow> raise ScenarioCompileError (''unknown observation profile '' @ chosen)
                     | Some profile \<Rightarrow>
                         build_instance fl V (or_default scenario_id fresh) fs b bp payload profile max_time))))))))) "

section \<open>What templates need\<close>

text \<open>The keys a template mentions.\<close>

definition string_keys :: "string \<Rightarrow> string set" where
  "string_keys s =
     (case full_match s of Some key \<Rightarrow> {key} | None \<Rightarrow> {key. Inr key \<in> set (template_parts s)})"

fun template_keys :: "json \<Rightarrow> string set" where
  "template_keys (JObj kvs) = (\<Union>kv \<in> set kvs. template_keys (snd kv))"
| "template_keys (JList xs) = (\<Union>x \<in> set xs. template_keys x)"
| "template_keys (JStr s) = string_keys s"
| "template_keys v = {}"

lemma res_map_returns: "(\<exists>ys. res_map f xs = Inr ys) \<longleftrightarrow> (\<forall>x \<in> set xs. \<exists>y. f x = Inr y)"
  by (induction xs) (auto split: sum.splits)

lemma res_bind_returns: "(\<exists>y. res_bind m f = Inr y) \<longleftrightarrow> (\<exists>x. m = Inr x \<and> (\<exists>y. f x = Inr y))"
  by (auto simp: res_bind_eq_Inr_iff)

lemma lookup_binding_returns: "(\<exists>v. lookup_binding b key = Inr v) \<longleftrightarrow> key \<in> fst ` set b"
  unfolding dget_in_keys by (auto simp: lookup_binding_def split: option.splits)

lemma resolve_string_returns: "(\<exists>v. resolve_string fl b s = Inr v) \<longleftrightarrow> string_keys s \<subseteq> fst ` set b"
proof (cases "full_match s")
  case None
  have "(\<exists>v. resolve_string fl b s = Inr v) \<longleftrightarrow> (\<forall>p \<in> set (template_parts s).
      \<exists>y. (case p of Inl c \<Rightarrow> Inr [c] | Inr key \<Rightarrow> res_bind (lookup_binding b key) (\<lambda>v. Inr (str_of fl v))) = Inr y)"
    unfolding res_map_returns [symmetric] by (simp add: resolve_string_def None res_bind_returns)
  also have "\<dots> \<longleftrightarrow> (\<forall>key. Inr key \<in> set (template_parts s) \<longrightarrow> key \<in> fst ` set b)"
    unfolding lookup_binding_returns [symmetric] by (auto simp: res_bind_eq_Inr_iff split: sum.splits)
  finally show ?thesis by (auto simp: string_keys_def None)
qed (simp add: resolve_string_def string_keys_def lookup_binding_returns)

lemma resolve_template_returns_iff: "(\<exists>r. resolve_template fl b v = Inr r) \<longleftrightarrow> template_keys v \<subseteq> fst ` set b"
proof (induction v rule: template_keys.induct)
  case (1 kvs)
  have "(\<exists>r. resolve_template fl b (JObj kvs) = Inr r) \<longleftrightarrow> (\<forall>kv \<in> set kvs. \<exists>r. resolve_template fl b (snd kv) = Inr r)"
    by (simp add: res_bind_returns res_map_returns res_bind_eq_Inr_iff)
  then show ?case using 1 by auto
next
  case (2 xs)
  have "(\<exists>r. resolve_template fl b (JList xs) = Inr r) \<longleftrightarrow> (\<forall>x \<in> set xs. \<exists>r. resolve_template fl b x = Inr r)"
    by (simp add: res_bind_returns res_map_returns)
  then show ?case using 2 by auto
qed (simp_all add: resolve_string_returns)

section \<open>Lineages\<close>

text \<open>Each family followed by its parent, up to one without a parent.\<close>

fun ascends :: "family_registry \<Rightarrow> scenario_family list \<Rightarrow> bool" where
  "ascends r [] = False"
| "ascends r [f] = (sf_parent_id f = None)"
| "ascends r (f # g # fs) =
     (case sf_parent_id f of None \<Rightarrow> False | Some p \<Rightarrow> reg_get r p = Inr g \<and> ascends r (g # fs))"

lemma lineage_up_sound:
  "lineage_up r seen f = Inr fs \<Longrightarrow>
     (\<exists>gs. fs = f # gs) \<and> ascends r fs \<and> distinct (map sf_id fs) \<and> sf_id ` set fs \<inter> seen = {}"
proof (induction r seen f arbitrary: fs rule: lineage_up.induct)
  case (1 r seen f)
  show ?case
  proof (cases "sf_parent_id f")
    case None
    with 1(2) show ?thesis by (auto split: if_splits)
  next
    case (Some p)
    with 1(2) [unfolded lineage_up.simps [of r seen f]]
    obtain g gs where g: "sf_id f \<notin> seen" "reg_get r p = Inr g"
      "lineage_up r (insert (sf_id f) seen) g = Inr gs" "fs = f # gs"
      by (auto simp: res_bind_eq_Inr_iff simp del: lineage_up.simps split: if_splits sum.splits)
    from 1(1) [OF g(1) Some g(2,3)] show ?thesis using g Some by auto
  qed
qed

lemma lineage_up_complete:
  "ascends r (f # gs) \<Longrightarrow> distinct (map sf_id (f # gs)) \<Longrightarrow> sf_id ` set (f # gs) \<inter> seen = {} \<Longrightarrow>
     lineage_up r seen f = Inr (f # gs)"
proof (induction gs arbitrary: f seen)
  case (Cons g gs)
  then obtain p where p: "sf_parent_id f = Some p" "reg_get r p = Inr g" "ascends r (g # gs)"
    by (auto split: option.splits)
  have "lineage_up r (insert (sf_id f) seen) g = Inr (g # gs)" using Cons.prems p(3) by (intro Cons.IH) auto
  then show ?case using Cons.prems p by simp
qed auto

lemma lineage_iff:
  "lineage r i = Inr fs \<longleftrightarrow>
     (\<exists>f gs. rev fs = f # gs \<and> reg_get r i = Inr f \<and> ascends r (f # gs) \<and> distinct (map sf_id (f # gs)))"
proof
  assume "lineage r i = Inr fs"
  then obtain f us where "reg_get r i = Inr f" "lineage_up r {} f = Inr us" "fs = rev us"
    by (auto simp: lineage_def res_bind_eq_Inr_iff)
  with lineage_up_sound [of r "{}" f us] show "\<exists>f gs. rev fs = f # gs \<and> reg_get r i = Inr f \<and> ascends r (f # gs) \<and>
      distinct (map sf_id (f # gs))" by auto
next
  assume "\<exists>f gs. rev fs = f # gs \<and> reg_get r i = Inr f \<and> ascends r (f # gs) \<and> distinct (map sf_id (f # gs))"
  then obtain f gs where f: "rev fs = f # gs" "reg_get r i = Inr f" "ascends r (f # gs)"
    "distinct (map sf_id (f # gs))" by blast
  from f(1) have "fs = rev (f # gs)" by (metis rev_rev_ident)
  with lineage_up_complete [OF f(3,4), of "{}"] f(2) show "lineage r i = Inr fs" by (simp add: lineage_def)
qed

section \<open>What a compiled scenario satisfies\<close>

definition has_type :: "parameter_spec \<Rightarrow> json \<Rightarrow> bool" where
  "has_type p v =
     (case ps_type p of
        Param_Integer \<Rightarrow> is_int_json v | Param_Boolean \<Rightarrow> is_bool_json v | Param_String \<Rightarrow> is_str_json v
      | Param_Enum \<Rightarrow> list_ex (py_eq v) (ps_options p))"

definition conform :: "(rat \<Rightarrow> string) \<Rightarrow> scenario_family \<Rightarrow> fields \<Rightarrow> bool" where
  "conform fl f b \<longleftrightarrow> fst ` set b \<subseteq> ps_name ` set (sf_parameters f) \<and>
     (\<forall>p \<in> set (sf_parameters f).
        (ps_required p \<longrightarrow> ps_name p \<in> fst ` set b) \<and> (\<forall>v. dget b (ps_name p) = Some v \<longrightarrow> has_type p v)) \<and>
     (\<forall>c \<in> set (sf_constraints f). evaluate_constraint fl c b = [])"

lemma binding_errors_empty:
  "binding_errors fl b p = [] \<longleftrightarrow>
     (ps_required p \<longrightarrow> ps_name p \<in> fst ` set b) \<and> (\<forall>v. dget b (ps_name p) = Some v \<longrightarrow> has_type p v)"
  unfolding dget_in_keys
  by (cases "ps_type p") (auto simp: binding_errors_def has_type_def Let_def split: option.splits)

lemma validate_bindings_empty: "validate_bindings fl f b = [] \<longleftrightarrow> conform fl f b"
  by (auto simp: validate_bindings_def conform_def binding_errors_empty sorted_set_def Let_def)

lemma validate_references_same: "validate_references s = Inr t \<Longrightarrow> t = s"
  by (auto simp: validate_references_def Let_def split: if_splits option.splits)

lemma build_instance_ok:
  "build_instance fl V sid fs b bp payload profile max_time = Inr s \<Longrightarrow>
     validate_references s = Inr s \<and> sc_bindings s = b \<and> 1 \<le> sc_max_time_seconds s \<and> sc_profile s = profile \<and>
     sc_id s = sid \<and> sc_family_id s = sf_id (last fs)"
  unfolding build_instance_def Let_def res_bind_eq_Inr_iff
  by (elim exE conjE) (auto dest: validate_references_same split: if_splits)

lemma scenario_compile_ok:
  assumes "scenario_compile fl V r fresh i supplied did pid sid max_time = Inr s"
  shows "\<exists>merged. effective_family r i = Inr merged \<and> \<not> sf_abstract merged \<and>
    sc_bindings s = complete_bindings merged supplied \<and> conform fl merged (sc_bindings s) \<and>
    validate_references s = Inr s \<and> 1 \<le> sc_max_time_seconds s"
proof -
  from assms obtain merged fs bp payload profile where m: "effective_family r i = Inr merged" "\<not> sf_abstract merged"
    "validate_bindings fl merged (complete_bindings merged supplied) = []"
    "build_instance fl V (or_default sid fresh) fs (complete_bindings merged supplied) bp payload profile max_time = Inr s"
    by (auto simp: scenario_compile_def Let_def res_bind_eq_Inr_iff split: if_splits option.splits)
  from build_instance_ok [OF m(4)] m(1-3) show ?thesis
    by (auto simp: validate_bindings_empty [symmetric])
qed

text \<open>A boolean passes where an integer is asked for.\<close>

lemma boolean_is_integer: "is_int_json (JBool b)"
  by (simp add: is_int_json_def)

end
