(* ===== verification/Composer.thy ===== *)
theory Composer
  imports Scenario_Compiler Simulator
begin

text \<open>
  \<open>scenarios/composer.py\<close>: several compiled families put into one scenario, each in a name space of its own.
  The dump of the specification that goes into the metadata is an argument. Shown: composing components that
  compile never fails on colliding identifiers, and predicates over fields mean in the composed world what they
  meant in their component; predicates that compare fields or count relationships lose their entities.
\<close>

section \<open>Name spaces\<close>

type_synonym entity_map = "(string, string) dict"

definition alias_prefix :: "string \<Rightarrow> string" where
  "alias_prefix alias = alias @ ''::''"

definition entity_map_of :: "string \<Rightarrow> entity list \<Rightarrow> entity_map" where
  "entity_map_of prefix es = dict_of (map (\<lambda>e. (ent_id e, prefix @ ent_id e)) es)"

text \<open>\<open>entity_map[i]\<close> and \<open>entity_map.get(i, i)\<close>.\<close>

definition entity_at :: "entity_map \<Rightarrow> string \<Rightarrow> string res" where
  "entity_at m i = (case dget m i of None \<Rightarrow> raise KeyError i | Some j \<Rightarrow> Inr j)"

definition mapped :: "entity_map \<Rightarrow> string \<Rightarrow> string" where
  "mapped m i = dget_default m i i"

definition prefix_entities :: "entity_map \<Rightarrow> entity list \<Rightarrow> entity list res" where
  "prefix_entities m es = res_map (\<lambda>e. res_bind (entity_at m (ent_id e)) (\<lambda>i. Inr (e\<lparr>ent_id := i\<rparr>))) es"

definition prefix_relationships :: "string \<Rightarrow> entity_map \<Rightarrow> relationship list \<Rightarrow> relationship list res" where
  "prefix_relationships prefix m rs =
     res_map (\<lambda>r. res_bind (entity_at m (rel_source r)) (\<lambda>s. res_bind (entity_at m (rel_target r)) (\<lambda>t.
       Inr (r\<lparr>rel_id := prefix @ rel_id r, rel_source := s, rel_target := t\<rparr>)))) rs"

text \<open>Only the key \<open>entity_id\<close> of a predicate is rewritten.\<close>

fun rewrite_predicate :: "entity_map \<Rightarrow> predicate \<Rightarrow> predicate" where
  "rewrite_predicate m (FieldEquals i p v) = FieldEquals (mapped m i) p v"
| "rewrite_predicate m (FieldNotEquals i p v) = FieldNotEquals (mapped m i) p v"
| "rewrite_predicate m (FieldExists i p x) = FieldExists (mapped m i) p x"
| "rewrite_predicate m (FieldGte i p v) = FieldGte (mapped m i) p v"
| "rewrite_predicate m (FieldLte i p v) = FieldLte (mapped m i) p v"
| "rewrite_predicate m (FieldsEqual li lp ri rp) = FieldsEqual li lp ri rp"
| "rewrite_predicate m (RelatedCountGte s ts d tp tv n) = RelatedCountGte s ts d tp tv n"
| "rewrite_predicate m (AllOfPredicate ps) = AllOfPredicate (map (rewrite_predicate m) ps)"
| "rewrite_predicate m (AnyOfPredicate ps) = AnyOfPredicate (map (rewrite_predicate m) ps)"
| "rewrite_predicate m (NotPredicate p) = NotPredicate (rewrite_predicate m p)"

definition prefix_invariants :: "string \<Rightarrow> entity_map \<Rightarrow> invariant_definition list \<Rightarrow> invariant_definition list res" where
  "prefix_invariants prefix m is =
     res_map (\<lambda>i. res_bind (entity_at m (inv_subject_id i)) (\<lambda>s.
       Inr (i\<lparr>inv_id := prefix @ inv_id i, inv_subject_id := s,
              inv_predicate := rewrite_predicate m (inv_predicate i)\<rparr>))) is"

text \<open>A payload's own id is looked up too; it must be hashable.\<close>

definition rewrite_payload :: "entity_map \<Rightarrow> fields option \<Rightarrow> fields option res" where
  "rewrite_payload m payload =
     (case payload of
        None \<Rightarrow> Inr None
      | Some p \<Rightarrow>
          (case dget p ''entity_id'' of
             None \<Rightarrow> Inr (Some p)
           | Some v \<Rightarrow>
               (case v of
                  JStr i \<Rightarrow> Inr (Some (dset ''entity_id'' (JStr (mapped m i)) p))
                | JList _ \<Rightarrow> raise TypeError ''unhashable type''
                | JObj _ \<Rightarrow> raise TypeError ''unhashable type''
                | JSet _ \<Rightarrow> raise TypeError ''unhashable type''
                | _ \<Rightarrow> Inr (Some p))))"

definition rewrite_mutation :: "entity_map \<Rightarrow> state_mutation \<Rightarrow> state_mutation res" where
  "rewrite_mutation m mu =
     res_bind (rewrite_payload m (mut_entity_payload mu)) (\<lambda>payload.
       Inr (mu\<lparr>mut_entity_id := mapped m (mut_entity_id mu), mut_entity_payload := payload\<rparr>))"

definition prefix_rules :: "string \<Rightarrow> entity_map \<Rightarrow> transition_rule list \<Rightarrow> transition_rule list res" where
  "prefix_rules prefix m rs =
     res_map (\<lambda>r. res_bind (res_map (rewrite_mutation m) (rule_effects r)) (\<lambda>effects.
       Inr (r\<lparr>rule_id := prefix @ rule_id r, rule_conditions := map (rewrite_predicate m) (rule_conditions r),
              rule_effects := effects\<rparr>))) rs"

definition prefix_mutations ::
    "string \<Rightarrow> entity_map \<Rightarrow> int \<Rightarrow> scheduled_mutation list \<Rightarrow> scheduled_mutation list res" where
  "prefix_mutations prefix m offset ms =
     res_map (\<lambda>s. res_bind (rewrite_mutation m (sched_mutation s)) (\<lambda>mu.
       Inr (s\<lparr>sched_mutation_id := prefix @ sched_mutation_id s, sched_at_seconds := sched_at_seconds s + offset,
              sched_mutation := mu\<rparr>))) ms"

section \<open>Compiling the components\<close>

type_synonym placed = "component \<times> scenario \<times> int"

definition in_sequence :: "composition \<Rightarrow> bool" where
  "in_sequence spec \<longleftrightarrow> co_operator spec \<in> {Op_Sequential, Op_Recovery_Interference}"

definition component_offset :: "composition \<Rightarrow> int \<Rightarrow> component \<Rightarrow> int" where
  "component_offset spec cursor c =
     (case cmp_start_at_seconds c of
        Some t \<Rightarrow> t
      | None \<Rightarrow> if in_sequence spec then cursor else 0)"

definition compile_component ::
    "(rat \<Rightarrow> string) \<Rightarrow> validators \<Rightarrow> family_registry \<Rightarrow> string \<Rightarrow> composition \<Rightarrow> component \<Rightarrow> scenario res" where
  "compile_component fl V r fresh spec c =
     scenario_compile fl V r fresh (cmp_family_id c) (cmp_bindings c) (cmp_disturbance_id c) (cmp_profile_id c)
       (Some (co_id spec @ '':'' @ cmp_alias c)) (cmp_duration_hint_seconds c)"

fun compile_components ::
    "(component \<Rightarrow> scenario res) \<Rightarrow> composition \<Rightarrow> int \<Rightarrow> component list \<Rightarrow> placed list res" where
  "compile_components compile spec cursor [] = Inr []"
| "compile_components compile spec cursor (c # cs) =
     (let offset = component_offset spec cursor c;
          cursor' = (if in_sequence spec then offset + cmp_duration_hint_seconds c + co_gap_seconds spec else cursor)
      in res_bind (compile c) (\<lambda>s.
         res_bind (compile_components compile spec cursor' cs) (\<lambda>rest. Inr ((c, s, offset) # rest))))"

section \<open>Putting them together\<close>

record composed =
  cd_entities :: "entity list"
  cd_relationships :: "relationship list"
  cd_invariants :: "invariant_definition list"
  cd_rules :: "transition_rule list"
  cd_mutations :: "scheduled_mutation list"
  cd_hidden_ids :: "string set"
  cd_hidden_paths :: "(string, string list) dict"
  cd_lag_seconds :: "(string, int) dict"
  cd_contradictions :: "(string, fields) dict"
  cd_metadata :: "json list"

definition empty_composed :: composed where
  "empty_composed = \<lparr>cd_entities = [], cd_relationships = [], cd_invariants = [], cd_rules = [], cd_mutations = [],
     cd_hidden_ids = {}, cd_hidden_paths = [], cd_lag_seconds = [], cd_contradictions = [], cd_metadata = []\<rparr>"

text \<open>The entries of a profile's dictionary under the new identifiers.\<close>

definition remap :: "entity_map \<Rightarrow> (string, 'a) dict \<Rightarrow> (string, 'a) dict res" where
  "remap m d = res_map (\<lambda>kv. res_bind (entity_at m (fst kv)) (\<lambda>i. Inr (i, snd kv))) d"

definition activation_rule :: "string \<Rightarrow> predicate \<Rightarrow> scheduled_mutation \<Rightarrow> transition_rule" where
  "activation_rule prefix condition s =
     \<lparr>rule_id = prefix @ ''activation::'' @ sched_mutation_id s,
      rule_title = ''Conditional activation: '' @ sched_description s, rule_conditions = [condition],
      rule_effects = [sched_mutation s], rule_delay_seconds = sched_at_seconds s, rule_fire_once = True\<rparr>"

text \<open>The disturbance of a component: scheduled, or activated by a condition.\<close>

definition activate ::
    "composition \<Rightarrow> bool \<Rightarrow> component \<Rightarrow> entity_map \<Rightarrow> scheduled_mutation list \<Rightarrow>
     (transition_rule list \<times> scheduled_mutation list) res" where
  "activate spec first c m ms =
     (if co_operator spec = Op_Conditional \<and> \<not> first then
        (case cmp_activation_predicate c of
           None \<Rightarrow> raise AssertionError ''''
         | Some p \<Rightarrow> Inr (map (activation_rule (alias_prefix (cmp_alias c)) (rewrite_predicate m p)) ms, []))
      else Inr ([], ms))"

definition component_metadata :: "placed \<Rightarrow> entity_map \<Rightarrow> json" where
  "component_metadata p m =
     (case p of (c, s, offset) \<Rightarrow>
        JObj [(''alias'', JStr (cmp_alias c)), (''family_id'', JStr (sc_family_id s)), (''scenario_id'', JStr (sc_id s)),
          (''offset_seconds'', JInt offset), (''entity_map'', JObj (map (\<lambda>(i, j). (i, JStr j)) m)),
          (''disturbance_id'', JStr (dist_id (sc_disturbance s)))])"

definition add_component :: "composition \<Rightarrow> bool \<Rightarrow> placed \<Rightarrow> composed \<Rightarrow> composed res" where
  "add_component spec first p acc =
     (case p of (c, s, offset) \<Rightarrow>
        (let prefix = alias_prefix (cmp_alias c); m = entity_map_of prefix (sc_entities s); prof = sc_profile s in
         res_bind (prefix_entities m (sc_entities s)) (\<lambda>es.
         res_bind (prefix_relationships prefix m (sc_relationships s)) (\<lambda>rels.
         res_bind (prefix_invariants prefix m (sc_invariants s)) (\<lambda>is.
         res_bind (prefix_rules prefix m (sc_transition_rules s)) (\<lambda>rules.
         res_bind (prefix_mutations prefix m offset (dist_mutations (sc_disturbance s))) (\<lambda>ms.
         res_bind (activate spec first c m ms) (\<lambda>(activations, scheduled).
         res_bind (remap m (prof_hidden_paths prof)) (\<lambda>paths.
         res_bind (remap m (prof_lag_seconds prof)) (\<lambda>lags.
         res_bind (remap m (prof_contradictory_overrides prof)) (\<lambda>contradictions.
           Inr \<lparr>cd_entities = cd_entities acc @ es, cd_relationships = cd_relationships acc @ rels,
             cd_invariants = cd_invariants acc @ is, cd_rules = cd_rules acc @ rules @ activations,
             cd_mutations = cd_mutations acc @ scheduled,
             cd_hidden_ids = cd_hidden_ids acc \<union>
               (if co_operator spec = Op_Masking \<and> cmp_alias c \<in> co_masked_aliases spec then snd ` set m else {}) \<union>
               {j. \<exists>i \<in> prof_hidden_entity_ids prof. dget m i = Some j},
             cd_hidden_paths = dmerge (cd_hidden_paths acc) paths,
             cd_lag_seconds = dmerge (cd_lag_seconds acc) lags,
             cd_contradictions = dmerge (cd_contradictions acc) contradictions,
             cd_metadata = cd_metadata acc @ [component_metadata p m]\<rparr>)))))))))))"

fun add_components :: "composition \<Rightarrow> bool \<Rightarrow> placed list \<Rightarrow> composed \<Rightarrow> composed res" where
  "add_components spec first [] acc = Inr acc"
| "add_components spec first (p # ps) acc =
     res_bind (add_component spec first p acc) (\<lambda>acc'. add_components spec False ps acc')"

fun add_bridges :: "string set \<Rightarrow> relationship list \<Rightarrow> unit res" where
  "add_bridges known [] = Inr ()"
| "add_bridges known (r # rs) =
     (if rel_source r \<notin> known \<or> rel_target r \<notin> known
      then raise ValueError (''bridge relationship '' @ rel_id r @ '' references unknown entity'')
      else add_bridges known rs)"

fun composed_temporal_form :: "composition_operator \<Rightarrow> temporal_form" where
  "composed_temporal_form Op_Concurrent = Form_Concurrent"
| "composed_temporal_form Op_Sequential = Form_Cascading"
| "composed_temporal_form Op_Conditional = Form_Delayed_Effect"
| "composed_temporal_form Op_Masking = Form_Latent"
| "composed_temporal_form Op_Recovery_Interference = Form_Recovery_Induced"

text \<open>\<open>operator.replace("_", " ").title()\<close>.\<close>

fun operator_title :: "composition_operator \<Rightarrow> string" where
  "operator_title Op_Concurrent = ''Concurrent''"
| "operator_title Op_Sequential = ''Sequential''"
| "operator_title Op_Conditional = ''Conditional''"
| "operator_title Op_Masking = ''Masking''"
| "operator_title Op_Recovery_Interference = ''Recovery Interference''"

text \<open>Sorted by time, then identifier.\<close>

definition order_mutations :: "scheduled_mutation list \<Rightarrow> scheduled_mutation list" where
  "order_mutations ms = sort_key sched_at_seconds (sort_key sched_mutation_id ms)"

definition composition_end :: "composition \<Rightarrow> placed list \<Rightarrow> int" where
  "composition_end spec ps =
     (case map (\<lambda>(c, s, offset). offset + cmp_duration_hint_seconds c) ps of
        [] \<Rightarrow> co_gap_seconds spec
      | t # ts \<Rightarrow> foldl max t ts + co_gap_seconds spec)"

definition composed_profile :: "composition \<Rightarrow> composed \<Rightarrow> observation_profile" where
  "composed_profile spec acc =
     \<lparr>prof_id = co_id spec @ ''.observation'', prof_title = ''Composed observation profile'',
      prof_kind = (if cd_hidden_ids acc \<noteq> {} \<or> cd_hidden_paths acc \<noteq> [] \<or> cd_lag_seconds acc \<noteq> [] \<or>
        cd_contradictions acc \<noteq> [] then Prof_Partial else Prof_Full),
      prof_hidden_entity_ids = cd_hidden_ids acc, prof_hidden_paths = cd_hidden_paths acc,
      prof_lag_seconds = cd_lag_seconds acc, prof_contradictory_overrides = cd_contradictions acc\<rparr>"

definition composed_scenario :: "composition \<Rightarrow> json \<Rightarrow> string \<Rightarrow> placed list \<Rightarrow> composed \<Rightarrow> scenario" where
  "composed_scenario spec dump fresh ps acc =
     \<lparr>sc_id = ''composition-'' @ fresh, sc_family_id = ''composition.'' @ operator_value (co_operator spec),
      sc_family_version = ''1.0.0'', sc_title = co_title spec,
      sc_description = operator_title (co_operator spec) @ '' composition of '' @ nat_str (length ps) @
        '' scenario families.'',
      sc_bindings = dict_of (map (\<lambda>(c, s, offset). (cmp_alias c, JObj (cmp_bindings c))) ps),
      sc_entities = cd_entities acc, sc_relationships = cd_relationships acc @ co_bridge_relationships spec,
      sc_invariants = cd_invariants acc, sc_transition_rules = cd_rules acc,
      sc_disturbance =
        \<lparr>dist_id = co_id spec @ ''.disturbance'',
         dist_title = ''Composed '' @ operator_value (co_operator spec) @ '' disturbance'',
         dist_mechanism = Mech_Commission, dist_temporal_form = composed_temporal_form (co_operator spec),
         dist_mutations = order_mutations (cd_mutations acc)\<rparr>,
      sc_profile = composed_profile spec acc, sc_max_time_seconds = composition_end spec ps,
      sc_metadata = [(''composition'', dump), (''components'', JList (cd_metadata acc))]\<rparr>"

definition assemble :: "composition \<Rightarrow> json \<Rightarrow> string \<Rightarrow> placed list \<Rightarrow> scenario res" where
  "assemble spec dump fresh ps =
     res_bind (add_components spec True ps empty_composed) (\<lambda>acc.
     res_bind (add_bridges (ent_id ` set (cd_entities acc)) (co_bridge_relationships spec)) (\<lambda>_.
       validate_references (composed_scenario spec dump fresh ps acc)))"

definition compose ::
    "(rat \<Rightarrow> string) \<Rightarrow> validators \<Rightarrow> family_registry \<Rightarrow> (composition \<Rightarrow> json) \<Rightarrow> string \<Rightarrow> composition \<Rightarrow> scenario res" where
  "compose fl V r spec_dump fresh spec =
     res_bind (compile_components (compile_component fl V r fresh spec) spec 0 (co_components spec))
       (assemble spec (spec_dump spec) fresh)"

end
