(* ===== verification/Composer_Props.thy ===== *)
theory Composer_Props
  imports Composer
begin

text \<open>
  The proofs about compositions: prefixes of different aliases never collide, so a composition of components
  that compile, refer to their own entities only and are bridged at known entities always succeeds; and
  predicates over fields keep their meaning.
\<close>

section \<open>Aliases\<close>

text \<open>The pattern of the field \<open>alias\<close>.\<close>

definition is_alias_char :: "char \<Rightarrow> bool" where
  "is_alias_char c \<longleftrightarrow> is_key_char c \<and> c \<noteq> CHR ''.''"

definition valid_alias :: "string \<Rightarrow> bool" where
  "valid_alias a \<longleftrightarrow> a \<noteq> [] \<and> list_all is_alias_char a \<and>
     (let n = of_char (hd a) :: nat in (65 \<le> n \<and> n \<le> 90) \<or> (97 \<le> n \<and> n \<le> 122))"

lemma colon_no_key: "\<not> is_key_char CHR '':''"
  by (simp add: is_key_char_def Let_def)

lemma valid_alias_no_colon: "valid_alias a \<Longrightarrow> CHR '':'' \<notin> set a"
  using colon_no_key by (auto simp: valid_alias_def list_all_iff is_alias_char_def)

lemma alias_prefix_inject:
  assumes "valid_alias a" "valid_alias b"
  shows "alias_prefix a @ x = alias_prefix b @ y \<longleftrightarrow> a = b \<and> x = y"
proof -
  have take: "takeWhile (\<lambda>c. c \<noteq> CHR '':'') (alias_prefix a @ x) = a" if "valid_alias a" for a x
    using valid_alias_no_colon [OF that] by (simp add: alias_prefix_def takeWhile_append takeWhile_eq_all_conv)
  show ?thesis using take [OF assms(1), of x] take [OF assms(2), of y] by auto
qed

section \<open>Maps of a component\<close>

lemma map_of_keyed: "map_of (map (\<lambda>x. (f x, g (f x))) xs) i = (if i \<in> f ` set xs then Some (g i) else None)"
  by (induction xs) auto

lemma entity_map_lookup:
  "dget (entity_map_of prefix es) i = (if i \<in> ent_id ` set es then Some (prefix @ i) else None)"
  unfolding entity_map_of_def dget_dict_of rev_map map_of_keyed by simp

lemma entity_at_known: "i \<in> ent_id ` set es \<Longrightarrow> entity_at (entity_map_of prefix es) i = Inr (prefix @ i)"
  by (simp add: entity_at_def entity_map_lookup)

lemma mapped_known: "i \<in> ent_id ` set es \<Longrightarrow> mapped (entity_map_of prefix es) i = prefix @ i"
  by (simp add: mapped_def dget_default_def entity_map_lookup)

lemma prefix_entities_known:
  "prefix_entities (entity_map_of prefix es) es = Inr (map (\<lambda>e. e\<lparr>ent_id := prefix @ ent_id e\<rparr>) es)"
  unfolding prefix_entities_def by (rule res_map_all_Inr) (simp add: entity_at_known)

text \<open>What a component must not do: refer to entities it does not have, or give an entity payload an
  identifier that is no scalar.\<close>

definition scalar_payload :: "state_mutation \<Rightarrow> bool" where
  "scalar_payload mu =
     (case mut_entity_payload mu of
        None \<Rightarrow> True
      | Some p \<Rightarrow> (case dget p ''entity_id'' of
           Some (JList _) \<Rightarrow> False | Some (JObj _) \<Rightarrow> False | Some (JSet _) \<Rightarrow> False | _ \<Rightarrow> True))"

definition self_contained :: "scenario \<Rightarrow> bool" where
  "self_contained s \<longleftrightarrow>
     (let ids = ent_id ` set (sc_entities s); prof = sc_profile s in
      fst ` set (prof_hidden_paths prof) \<subseteq> ids \<and> fst ` set (prof_lag_seconds prof) \<subseteq> ids \<and>
      fst ` set (prof_contradictory_overrides prof) \<subseteq> ids \<and>
      (\<forall>r \<in> set (sc_transition_rules s). \<forall>mu \<in> set (rule_effects r). scalar_payload mu) \<and>
      (\<forall>sm \<in> set (dist_mutations (sc_disturbance s)). scalar_payload (sched_mutation sm)))"

lemma rewrite_mutation_ok: "scalar_payload mu \<Longrightarrow> \<exists>mu'. rewrite_mutation m mu = Inr mu'"
  by (auto simp: rewrite_mutation_def rewrite_payload_def scalar_payload_def
      split: option.splits json.splits)

lemma remap_ok: "fst ` set d \<subseteq> ent_id ` set es \<Longrightarrow> \<exists>d'. remap (entity_map_of prefix es) d = Inr d'"
  unfolding remap_def res_map_returns by (auto simp: entity_at_known image_subset_iff res_bind_eq_Inr_iff)

lemma validated_refs:
  assumes "validate_references s = Inr s"
  shows "distinct (map ent_id (sc_entities s))"
    "\<And>r. r \<in> set (sc_relationships s) \<Longrightarrow>
       rel_source r \<in> ent_id ` set (sc_entities s) \<and> rel_target r \<in> ent_id ` set (sc_entities s)"
    "\<And>i. i \<in> set (sc_invariants s) \<Longrightarrow> inv_subject_id i \<in> ent_id ` set (sc_entities s)"
  using assms
  by (auto simp: validate_references_def Let_def find_None_iff card_distinct split: if_splits option.splits)

lemma validate_references_ok:
  assumes "distinct (map ent_id (sc_entities s))"
    and "\<And>r. r \<in> set (sc_relationships s) \<Longrightarrow>
       rel_source r \<in> ent_id ` set (sc_entities s) \<and> rel_target r \<in> ent_id ` set (sc_entities s)"
    and "\<And>i. i \<in> set (sc_invariants s) \<Longrightarrow> inv_subject_id i \<in> ent_id ` set (sc_entities s)"
  shows "validate_references s = Inr s"
proof -
  have "card (set (map ent_id (sc_entities s))) = length (sc_entities s)"
    using distinct_card [OF assms(1)] by simp
  moreover have "find (\<lambda>r. rel_source r \<notin> set (map ent_id (sc_entities s)) \<or>
      rel_target r \<notin> set (map ent_id (sc_entities s))) (sc_relationships s) = None"
    using assms(2) by (auto simp: find_None_iff)
  moreover have "find (\<lambda>i. inv_subject_id i \<notin> set (map ent_id (sc_entities s))) (sc_invariants s) = None"
    using assms(3) by (auto simp: find_None_iff)
  ultimately show ?thesis unfolding validate_references_def Let_def by simp
qed

section \<open>Adding components\<close>

definition renamed :: "placed \<Rightarrow> entity list" where
  "renamed p = (case p of (c, s, offset) \<Rightarrow>
     map (\<lambda>e. e\<lparr>ent_id := alias_prefix (cmp_alias c) @ ent_id e\<rparr>) (sc_entities s))"

definition closed_refs :: "composed \<Rightarrow> bool" where
  "closed_refs acc \<longleftrightarrow>
     (\<forall>r \<in> set (cd_relationships acc). rel_source r \<in> ent_id ` set (cd_entities acc) \<and>
        rel_target r \<in> ent_id ` set (cd_entities acc)) \<and>
     (\<forall>i \<in> set (cd_invariants acc). inv_subject_id i \<in> ent_id ` set (cd_entities acc))"

lemma prefix_relationships_known:
  assumes "\<And>r. r \<in> set rs \<Longrightarrow> rel_source r \<in> ent_id ` set es \<and> rel_target r \<in> ent_id ` set es"
  shows "prefix_relationships prefix (entity_map_of prefix es) rs =
    Inr (map (\<lambda>r. r\<lparr>rel_id := prefix @ rel_id r, rel_source := prefix @ rel_source r,
      rel_target := prefix @ rel_target r\<rparr>) rs)"
  unfolding prefix_relationships_def using assms by (intro res_map_all_Inr) (simp add: entity_at_known)

lemma prefix_invariants_known:
  assumes "\<And>i. i \<in> set is \<Longrightarrow> inv_subject_id i \<in> ent_id ` set es"
  shows "prefix_invariants prefix (entity_map_of prefix es) is =
    Inr (map (\<lambda>i. i\<lparr>inv_id := prefix @ inv_id i, inv_subject_id := prefix @ inv_subject_id i,
      inv_predicate := rewrite_predicate (entity_map_of prefix es) (inv_predicate i)\<rparr>) is)"
  unfolding prefix_invariants_def using assms by (intro res_map_all_Inr) (simp add: entity_at_known)

lemma prefix_rules_ok:
  "\<forall>r \<in> set rs. \<forall>mu \<in> set (rule_effects r). scalar_payload mu \<Longrightarrow>
     \<exists>rs'. prefix_rules prefix m rs = Inr rs'"
  unfolding prefix_rules_def res_map_returns by (auto simp: res_bind_returns res_map_returns intro: rewrite_mutation_ok)

lemma prefix_mutations_ok:
  "\<forall>s \<in> set ms. scalar_payload (sched_mutation s) \<Longrightarrow> \<exists>ms'. prefix_mutations prefix m offset ms = Inr ms'"
  unfolding prefix_mutations_def res_map_returns by (auto simp: res_bind_returns intro: rewrite_mutation_ok)

lemma activate_ok:
  "co_operator spec = Op_Conditional \<and> \<not> first \<longrightarrow> cmp_activation_predicate c \<noteq> None \<Longrightarrow>
     \<exists>a b. activate spec first c m ms = Inr (a, b)"
  by (auto simp: activate_def)

lemma add_component_ok:
  assumes "validate_references s = Inr s" "self_contained s" "closed_refs acc"
    and "co_operator spec = Op_Conditional \<and> \<not> first \<longrightarrow> cmp_activation_predicate c \<noteq> None"
  shows "\<exists>acc'. add_component spec first (c, s, offset) acc = Inr acc' \<and>
    cd_entities acc' = cd_entities acc @ renamed (c, s, offset) \<and> closed_refs acc'"
proof -
  let ?pre = "alias_prefix (cmp_alias c)" and ?es = "sc_entities s"
  let ?m = "entity_map_of ?pre ?es"
  note refs = validated_refs [OF assms(1)]
  from assms(2) have sc: "fst ` set (prof_hidden_paths (sc_profile s)) \<subseteq> ent_id ` set ?es"
      "fst ` set (prof_lag_seconds (sc_profile s)) \<subseteq> ent_id ` set ?es"
      "fst ` set (prof_contradictory_overrides (sc_profile s)) \<subseteq> ent_id ` set ?es"
    and payloads: "\<forall>r \<in> set (sc_transition_rules s). \<forall>mu \<in> set (rule_effects r). scalar_payload mu"
      "\<forall>sm \<in> set (dist_mutations (sc_disturbance s)). scalar_payload (sched_mutation sm)"
    by (auto simp: self_contained_def Let_def)
  obtain rules where rules: "prefix_rules ?pre ?m (sc_transition_rules s) = Inr rules"
    using prefix_rules_ok [OF payloads(1)] by blast
  obtain ms where ms: "prefix_mutations ?pre ?m offset (dist_mutations (sc_disturbance s)) = Inr ms"
    using prefix_mutations_ok [OF payloads(2)] by blast
  obtain a b where ab: "activate spec first c ?m ms = Inr (a, b)" using activate_ok [OF assms(4)] by blast
  obtain ps where ps: "remap ?m (prof_hidden_paths (sc_profile s)) = Inr ps" using remap_ok [OF sc(1)] by blast
  obtain ls where ls: "remap ?m (prof_lag_seconds (sc_profile s)) = Inr ls" using remap_ok [OF sc(2)] by blast
  obtain cs where cs: "remap ?m (prof_contradictory_overrides (sc_profile s)) = Inr cs" using remap_ok [OF sc(3)] by blast
  note rels = prefix_relationships_known [of "sc_relationships s" ?es ?pre, OF refs(2)]
    and invs = prefix_invariants_known [of "sc_invariants s" ?es ?pre, OF refs(3)]
  obtain acc' where acc': "add_component spec first (c, s, offset) acc = Inr acc'"
    and es: "cd_entities acc' = cd_entities acc @ renamed (c, s, offset)"
    and rs: "cd_relationships acc' = cd_relationships acc @ map (\<lambda>r. r\<lparr>rel_id := ?pre @ rel_id r,
        rel_source := ?pre @ rel_source r, rel_target := ?pre @ rel_target r\<rparr>) (sc_relationships s)"
    and iv: "cd_invariants acc' = cd_invariants acc @ map (\<lambda>i. i\<lparr>inv_id := ?pre @ inv_id i,
        inv_subject_id := ?pre @ inv_subject_id i,
        inv_predicate := rewrite_predicate ?m (inv_predicate i)\<rparr>) (sc_invariants s)"
    by (simp add: add_component_def Let_def prefix_entities_known rels invs rules ms ab ps ls cs renamed_def)
  have ids: "ent_id ` set (cd_entities acc') = ent_id ` set (cd_entities acc) \<union> (@) ?pre ` ent_id ` set ?es"
    by (auto simp: es renamed_def image_Un image_image)
  have "closed_refs acc'"
    using assms(3) refs(2,3) unfolding closed_refs_def ids rs iv by auto
  then show ?thesis using acc' es by blast
qed

lemma add_components_ok:
  assumes "\<And>c s offset. (c, s, offset) \<in> set ps \<Longrightarrow> validate_references s = Inr s \<and> self_contained s"
    and "co_operator spec = Op_Conditional \<longrightarrow>
      (\<forall>p \<in> set (if first then tl ps else ps). cmp_activation_predicate (fst p) \<noteq> None)"
    and "closed_refs acc"
  shows "\<exists>acc'. add_components spec first ps acc = Inr acc' \<and>
    cd_entities acc' = cd_entities acc @ concat (map renamed ps) \<and> closed_refs acc'"
  using assms
proof (induction ps arbitrary: first acc)
  case (Cons p ps)
  obtain c s offset where p: "p = (c, s, offset)" by (cases p)
  have "co_operator spec = Op_Conditional \<and> \<not> first \<longrightarrow> cmp_activation_predicate c \<noteq> None"
    using Cons.prems(2) p by auto
  with add_component_ok [of s acc spec first c offset] Cons.prems(1,3) p
  obtain acc1 where acc1: "add_component spec first p acc = Inr acc1"
    "cd_entities acc1 = cd_entities acc @ renamed p" "closed_refs acc1" by force
  have "\<exists>acc'. add_components spec False ps acc1 = Inr acc' \<and>
      cd_entities acc' = cd_entities acc1 @ concat (map renamed ps) \<and> closed_refs acc'"
    using Cons.prems(1,2) acc1(3) by (intro Cons.IH) (auto split: if_splits)
  with acc1 show ?case by auto
qed simp

section \<open>The composition\<close>

lemma compile_components_placed:
  "compile_components compile spec cursor cs = Inr ps \<Longrightarrow>
     map fst ps = cs \<and> (\<forall>(c, s, offset) \<in> set ps. compile c = Inr s)"
proof (induction cs arbitrary: cursor ps)
  case (Cons c cs)
  then show ?case by (fastforce simp: Let_def res_bind_eq_Inr_iff)
qed simp

lemma compiled_validated: "compile_component fl V r fresh spec c = Inr s \<Longrightarrow> validate_references s = Inr s"
  unfolding compile_component_def using scenario_compile_ok by blast

definition composed_ids :: "placed list \<Rightarrow> string list" where
  "composed_ids ps = concat (map (\<lambda>(c, s, offset). map (\<lambda>e. alias_prefix (cmp_alias c) @ ent_id e) (sc_entities s)) ps)"

lemma ids_renamed: "map ent_id (concat (map renamed ps)) = composed_ids ps"
  by (induction ps) (auto simp: composed_ids_def renamed_def)

lemma composed_ids_Cons:
  "composed_ids ((c, s, offset) # ps) =
     map (\<lambda>e. alias_prefix (cmp_alias c) @ ent_id e) (sc_entities s) @ composed_ids ps"
  by (simp add: composed_ids_def)

lemma composed_ids_distinct:
  assumes "distinct (map (\<lambda>p. cmp_alias (fst p)) ps)" "\<forall>p \<in> set ps. valid_alias (cmp_alias (fst p))"
    and "\<forall>(c, s, offset) \<in> set ps. distinct (map ent_id (sc_entities s))"
  shows "distinct (composed_ids ps)"
  using assms
proof (induction ps)
  case (Cons p ps)
  obtain c s offset where p: "p = (c, s, offset)" by (cases p)
  have "distinct (map (\<lambda>e. alias_prefix (cmp_alias c) @ ent_id e) (sc_entities s))"
    using Cons.prems(3) p by (auto simp: distinct_map inj_on_def)
  moreover have "alias_prefix (cmp_alias c) @ i \<notin> set (composed_ids ps)" for i
  proof
    assume "alias_prefix (cmp_alias c) @ i \<in> set (composed_ids ps)"
    then obtain c' s' o' and e :: entity where q: "(c', s', o') \<in> set ps"
      "alias_prefix (cmp_alias c) @ i = alias_prefix (cmp_alias c') @ ent_id e"
      by (auto simp: composed_ids_def)
    then have "cmp_alias c = cmp_alias c'" using Cons.prems(2) p alias_prefix_inject by force
    then show False using Cons.prems(1) p q(1) by force
  qed
  moreover have "distinct (composed_ids ps)" using Cons by auto
  ultimately show ?case by (auto simp: composed_ids_Cons p)
qed (simp add: composed_ids_def)

lemma add_bridges_ok:
  "(\<And>b. b \<in> set bs \<Longrightarrow> rel_source b \<in> known \<and> rel_target b \<in> known) \<Longrightarrow> add_bridges known bs = Inr ()"
  by (induction bs) auto

lemma order_mutations_props: "sorted (map sched_at_seconds (order_mutations ms))" "set (order_mutations ms) = set ms"
  by (simp_all add: order_mutations_def)

lemma composition_succeeds:
  assumes "validate_components spec = Inr spec" "\<forall>c \<in> set (co_components spec). valid_alias (cmp_alias c)"
    and "compile_components (compile_component fl V r fresh spec) spec 0 (co_components spec) = Inr ps"
    and "\<forall>(c, s, offset) \<in> set ps. self_contained s"
    and "\<forall>b \<in> set (co_bridge_relationships spec). rel_source b \<in> set (composed_ids ps) \<and> rel_target b \<in> set (composed_ids ps)"
  shows "\<exists>s. compose fl V r spec_dump fresh spec = Inr s \<and> sc_entities s = concat (map renamed ps) \<and>
    distinct (composed_ids ps) \<and> sorted (map sched_at_seconds (dist_mutations (sc_disturbance s)))"
proof -
  note placed = compile_components_placed [OF assms(3)]
  have comps: "co_components spec = map fst ps" using placed by simp
  have valid: "validate_references s = Inr s \<and> self_contained s" if "(c, s, offset) \<in> set ps" for c s offset
    using that placed assms(4) compiled_validated by fast
  have "co_operator spec = Op_Conditional \<longrightarrow> (\<forall>p \<in> set (tl ps). cmp_activation_predicate (fst p) \<noteq> None)"
    using assms(1) unfolding validate_components_def Let_def comps map_tl [symmetric]
    by (auto simp: list_ex_iff split: if_splits)
  then have "\<exists>acc. add_components spec True ps empty_composed = Inr acc \<and>
      cd_entities acc = cd_entities empty_composed @ concat (map renamed ps) \<and> closed_refs acc"
    using valid by (intro add_components_ok) (auto simp: closed_refs_def empty_composed_def)
  then obtain acc where acc: "add_components spec True ps empty_composed = Inr acc"
    "cd_entities acc = concat (map renamed ps)" "closed_refs acc"
    by (auto simp: empty_composed_def)
  have ids: "map ent_id (cd_entities acc) = composed_ids ps" by (simp add: acc(2) ids_renamed)
  then have known: "ent_id ` set (cd_entities acc) = set (composed_ids ps)" by (metis set_map)
  have "distinct (map cmp_alias (co_components spec))"
    using assms(1) by (auto simp: validate_components_def Let_def card_distinct split: if_splits)
  then have "distinct (map (\<lambda>p. cmp_alias (fst p)) ps)" by (simp add: comps o_def)
  then have dist: "distinct (composed_ids ps)"
    using assms(2) valid validated_refs(1) by (intro composed_ids_distinct) (auto simp: comps)
  let ?s = "composed_scenario spec (spec_dump spec) fresh ps acc"
  have "validate_references ?s = Inr ?s"
    using dist acc(3) assms(5)
    by (intro validate_references_ok) (auto simp: composed_scenario_def ids known closed_refs_def)
  moreover have "add_bridges (ent_id ` set (cd_entities acc)) (co_bridge_relationships spec) = Inr ()"
    unfolding known using assms(5) by (intro add_bridges_ok) auto
  ultimately have "compose fl V r spec_dump fresh spec = Inr ?s"
    using assms(3) acc(1) by (simp add: compose_def assemble_def)
  then show ?thesis using dist acc(2) by (auto simp: composed_scenario_def order_mutations_props)
qed

section \<open>The meaning of predicates\<close>

text \<open>A path that does not read the identifier, and predicates over such paths of given entities that neither
  compare fields nor count relationships.\<close>

definition own_path :: "string \<Rightarrow> bool" where
  "own_path path \<longleftrightarrow> path \<noteq> [] \<and> hd (split_dot path) \<noteq> ''entity_id''"

fun portable :: "string set \<Rightarrow> predicate \<Rightarrow> bool" where
  "portable ids (FieldEquals i p v) = (i \<in> ids \<and> own_path p)"
| "portable ids (FieldNotEquals i p v) = (i \<in> ids \<and> own_path p)"
| "portable ids (FieldExists i p x) = (i \<in> ids \<and> own_path p)"
| "portable ids (FieldGte i p v) = (i \<in> ids \<and> own_path p)"
| "portable ids (FieldLte i p v) = (i \<in> ids \<and> own_path p)"
| "portable ids (FieldsEqual li lp ri rp) = False"
| "portable ids (RelatedCountGte s ts d tp tv n) = False"
| "portable ids (AllOfPredicate ps) = (\<forall>p \<in> set ps. portable ids p)"
| "portable ids (AnyOfPredicate ps) = (\<forall>p \<in> set ps. portable ids p)"
| "portable ids (NotPredicate p) = portable ids p"

lemma get_path_renamed:
  assumes "own_path path"
  shows "get_path (JObj (entity_dump (e\<lparr>ent_id := i\<rparr>))) path = get_path (JObj (entity_dump e)) path"
proof -
  obtain q qs where q: "split_dot path = q # qs" by (cases "split_dot path") auto
  then show ?thesis using assms by (simp add: get_path_def own_path_def entity_dump_def)
qed

text \<open>What one world shows of an entity the other shows under the new identifier.\<close>

definition same_view :: "entity_map \<Rightarrow> string set \<Rightarrow> world \<Rightarrow> world \<Rightarrow> bool" where
  "same_view m ids w w' \<longleftrightarrow> (\<forall>i \<in> ids. \<exists>e e'. dget w i = Some e \<and> dget w' (mapped m i) = Some e' \<and>
     (\<forall>path. own_path path \<longrightarrow> get_path (JObj e') path = get_path (JObj e) path))"

lemma same_viewE:
  assumes "same_view m ids w w'" "i \<in> ids" "own_path path"
  obtains e e' where "dget w i = Some e" "dget w' (mapped m i) = Some e'"
    "get_path (JObj e') path = get_path (JObj e) path"
  using assms unfolding same_view_def by blast

lemma all_of_satisfied: "map pr_satisfied rs = map pr_satisfied rs' \<Longrightarrow> pr_satisfied (all_of rs) = pr_satisfied (all_of rs')"
  by (simp add: all_of_def Let_def unknown_result_def)

lemma any_of_satisfied: "map pr_satisfied rs = map pr_satisfied rs' \<Longrightarrow> pr_satisfied (any_of rs) = pr_satisfied (any_of rs')"
  by (simp add: any_of_def Let_def unknown_result_def)

lemma rewrite_preserves:
  assumes "same_view m ids w w'"
  shows "portable ids p \<Longrightarrow> satisfied (rewrite_predicate m p) w' rels' = satisfied p w rels"
proof (induction p)
  case (FieldEquals i path v)
  then show ?case by (auto simp: field_compare_def elim!: same_viewE [OF assms, of i path] split: option.splits)
next
  case (FieldNotEquals i path v)
  then show ?case by (auto simp: field_compare_def elim!: same_viewE [OF assms, of i path] split: option.splits)
next
  case (FieldExists i path x)
  then show ?case by (auto simp: field_exists_def Let_def elim!: same_viewE [OF assms, of i path] split: option.splits)
next
  case (FieldGte i path v)
  then show ?case by (auto simp: numeric_compare_def elim!: same_viewE [OF assms, of i path] split: option.splits)
next
  case (FieldLte i path v)
  then show ?case by (auto simp: numeric_compare_def elim!: same_viewE [OF assms, of i path] split: option.splits)
next
  case (AllOfPredicate ps)
  then show ?case by (auto intro: all_of_satisfied)
next
  case (AnyOfPredicate ps)
  then show ?case by (auto intro: any_of_satisfied)
next
  case (NotPredicate p)
  then show ?case by (simp add: negated_def)
qed auto

lemma from_entities_lookup:
  assumes "distinct (map ent_id es)" "e \<in> set es"
  shows "dget (from_entities es) (ent_id e) = Some (entity_dump e)"
proof -
  have "distinct (map fst (map (\<lambda>e. (ent_id e, entity_dump e)) es))" using assms(1) by (simp add: o_def)
  then have "dget (from_entities es) (ent_id e) = dget (map (\<lambda>e. (ent_id e, entity_dump e)) es) (ent_id e)"
    unfolding from_entities_def dget_dict_of by (rule dget_rev_distinct)
  moreover have "(ent_id e, entity_dump e) \<in> set (map (\<lambda>e. (ent_id e, entity_dump e)) es)" using assms(2) by simp
  ultimately show ?thesis using assms(1) by (metis (no_types, lifting) \<open>distinct (map fst _)\<close> map_of_is_SomeI)
qed

lemma composed_view:
  assumes "distinct (composed_ids ps)" "(c, s, offset) \<in> set ps" "distinct (map ent_id (sc_entities s))"
  shows "same_view (entity_map_of (alias_prefix (cmp_alias c)) (sc_entities s)) (ent_id ` set (sc_entities s))
    (from_entities (sc_entities s)) (from_entities (concat (map renamed ps)))"
  unfolding same_view_def
proof
  let ?pre = "alias_prefix (cmp_alias c)"
  fix i assume "i \<in> ent_id ` set (sc_entities s)"
  then obtain e where e: "e \<in> set (sc_entities s)" "i = ent_id e" by blast
  let ?e' = "e\<lparr>ent_id := ?pre @ ent_id e\<rparr>"
  have "?e' \<in> set (concat (map renamed ps))"
    using assms(2) e(1) by (auto simp: renamed_def intro!: bexI [of _ "(c, s, offset)"])
  then have "dget (from_entities (concat (map renamed ps))) (ent_id ?e') = Some (entity_dump ?e')"
    using assms(1) by (intro from_entities_lookup) (simp_all add: ids_renamed)
  then show "\<exists>d d'. dget (from_entities (sc_entities s)) i = Some d \<and>
      dget (from_entities (concat (map renamed ps))) (mapped (entity_map_of ?pre (sc_entities s)) i) = Some d' \<and>
      (\<forall>path. own_path path \<longrightarrow> get_path (JObj d') path = get_path (JObj d) path)"
    using from_entities_lookup [OF assms(3) e(1)] e get_path_renamed [where e = e]
    by (simp add: mapped_known)
qed

text \<open>What is lost: predicates that compare fields stay unknown, since no entity of the composition has the
  unprefixed identifier, and counts of relationships stay zero.\<close>

lemma fields_equal_lost:
  assumes "li \<notin> set (composed_ids ps)"
  shows "satisfied (rewrite_predicate m (FieldsEqual li lp ri rp)) (from_entities (concat (map renamed ps))) rels = None"
proof -
  have "li \<notin> ent_id ` set (concat (map renamed ps))"
    using assms unfolding ids_renamed [symmetric] by simp
  then have "dget (from_entities (concat (map renamed ps))) li = None"
    unfolding from_entities_def dget_dict_of by (simp add: map_of_eq_None_iff image_image)
  then show ?thesis by (simp add: fields_equal_def unknown_result_def)
qed

lemma relationship_count_lost:
  assumes "\<And>r. r \<in> set rels \<Longrightarrow> rel_source r \<noteq> src \<and> rel_target r \<noteq> src"
  shows "satisfied (rewrite_predicate m (RelatedCountGte src ts d tp tv n)) w rels = Some (n \<le> 0)"
proof -
  have "related_target src d r = None" if "r \<in> set rels" for r
    using assms [OF that] by (simp add: related_target_def)
  then have "List.map_filter (related_target src d) (filter (\<lambda>r. ts = {} \<or> rel_type r \<in> ts) rels) = []"
    by (auto simp: List.map_filter_def filter_empty_conv)
  then have "related_candidates src ts d tp tv w rels = []" by (simp add: related_candidates_def)
  then show ?thesis by (simp add: related_count_def Let_def)
qed

lemma composition_meaning:
  assumes "validate_components spec = Inr spec" "\<forall>c \<in> set (co_components spec). valid_alias (cmp_alias c)"
    and "compile_components (compile_component fl V r fresh spec) spec 0 (co_components spec) = Inr ps"
    and "\<forall>(c, s, offset) \<in> set ps. self_contained s"
    and "\<forall>b \<in> set (co_bridge_relationships spec). rel_source b \<in> set (composed_ids ps) \<and> rel_target b \<in> set (composed_ids ps)"
    and "compose fl V r spec_dump fresh spec = Inr s" "(c, i, offset) \<in> set ps"
    and "portable (ent_id ` set (sc_entities i)) p"
  shows "satisfied (rewrite_predicate (entity_map_of (alias_prefix (cmp_alias c)) (sc_entities i)) p)
      (from_entities (sc_entities s)) rels' = satisfied p (from_entities (sc_entities i)) rels"
proof -
  from composition_succeeds [OF assms(1-5), of spec_dump] assms(6)
  have es: "sc_entities s = concat (map renamed ps)" and dist: "distinct (composed_ids ps)" by auto
  have "compile_component fl V r fresh spec c = Inr i" using compile_components_placed [OF assms(3)] assms(7) by blast
  then have "distinct (map ent_id (sc_entities i))" by (rule validated_refs(1) [OF compiled_validated])
  from rewrite_preserves [OF composed_view [OF dist assms(7) this] assms(8)] show ?thesis by (simp add: es)
qed

end
