(* ===== verification/Health.thy ===== *)
theory Health
  imports Invariants Discovery PyText PyTime
begin

text \<open>
  \<open>models/health.py\<close> and \<open>health/engine.py\<close>: operational profiles, their compilation against a snapshot to
  concrete invariants, and the assessment of a snapshot. \<open>fl\<close> renders floats and \<open>pf\<close> reads them; fresh
  identifiers and clock readings are arguments; a timestamp without offset is read as UTC. Shown: when the
  status is which, provided that the compiled invariants have distinct identifiers, and that they need not.
\<close>

section \<open>The data\<close>

record entity_selector =
  sel_entity_types :: "string set"
  sel_planes :: "string set"
  sel_namespaces :: "string set"
  sel_names :: "string set"
  sel_labels :: "(string, string) dict"
  sel_exclude_namespaces :: "string set"
  sel_include_cluster_scoped :: bool

datatype check_type =
    Check_Entity_Observed | Check_Field_Equals | Check_Field_Gte | Check_Fields_Equal | Check_Node_Ready
  | Check_Pod_Ready | Check_Workload_Available | Check_Controller_Progress | Check_Service_Endpoints | Check_Pvc_Bound

record invariant_template =
  it_id :: string
  it_title :: string
  it_description :: string
  it_family :: invariant_family
  it_selector :: entity_selector
  it_check_type :: check_type
  it_parameters :: fields
  it_severity :: severity
  it_temporal :: temporal_requirement
  it_required :: bool
  it_affected_objectives :: "string list"

record profile_spec =
  hp_id :: string
  hp_version :: string
  hp_title :: string
  hp_description :: string
  hp_environment_classes :: "string set"
  hp_objective_ids :: "string list"
  hp_invariant_templates :: "invariant_template list"
  hp_metadata :: fields

record compiled_profile =
  cp_profile_id :: string
  cp_version :: string
  cp_environment_id :: string
  cp_snapshot_id :: string
  cp_compiled_at_iso :: string
  cp_invariants :: "invariant_definition list"
  cp_required_ids :: "string list"
  cp_optional_ids :: "string list"
  cp_unmatched_templates :: "string list"

record profile_assessment =
  pa_id :: string
  pa_profile_id :: string
  pa_profile_version :: string
  pa_environment_id :: string
  pa_snapshot_id :: string
  pa_evaluated_at_iso :: string
  pa_status :: health_status
  pa_evaluations :: "invariant_evaluation list"
  pa_required_ids :: "string list"
  pa_optional_ids :: "string list"
  pa_violated_ids :: "string list"
  pa_unknown_ids :: "string list"
  pa_pending_ids :: "string list"
  pa_counts :: "(string, nat) dict"
  pa_objective_impact :: "(string, string list) dict"
  pa_metadata :: fields

section \<open>Compiling a profile\<close>

definition selector_matches :: "entity \<Rightarrow> entity_selector \<Rightarrow> bool" where
  "selector_matches e s \<longleftrightarrow>
     (sel_entity_types s = {} \<or> insert (ent_type e) (ent_type_lineage e) \<inter> sel_entity_types s \<noteq> {}) \<and>
     (sel_planes s = {} \<or> plane_value (ent_plane e) \<in> sel_planes s) \<and>
     (sel_names s = {} \<or> ent_name e \<in> sel_names s) \<and>
     (sel_namespaces s = {} \<or>
       (case ent_namespace e of Some (c # n) \<Rightarrow> c # n | _ \<Rightarrow> ''_cluster'') \<in> sel_namespaces s) \<and>
     (case ent_namespace e of None \<Rightarrow> sel_include_cluster_scoped s | Some n \<Rightarrow> n \<notin> sel_exclude_namespaces s) \<and>
     list_all (\<lambda>(k, v). dget (ent_labels e) k = Some v) (sel_labels s)"

definition safe_id :: "string \<Rightarrow> string" where
  "safe_id s = replace_char CHR ''.'' CHR ''_'' (replace_char CHR '':'' CHR ''_'' (replace_char CHR ''/'' CHR ''_'' s))"

definition required_param :: "fields \<Rightarrow> string \<Rightarrow> json res" where
  "required_param ps name = (case dget ps name of None \<Rightarrow> raise KeyError name | Some v \<Rightarrow> Inr v)"

text \<open>\<open>float(v)\<close>.\<close>

definition py_float :: "(string \<Rightarrow> rat option) \<Rightarrow> json \<Rightarrow> rat res" where
  "py_float pf v =
     (case num_of v of
        Some r \<Rightarrow> Inr r
      | None \<Rightarrow>
          (case v of
             JStr s \<Rightarrow> (case pf s of Some r \<Rightarrow> Inr r | None \<Rightarrow> raise ValueError ''could not convert string to float'')
           | _ \<Rightarrow> raise TypeError ''float() argument must be a string or a real number''))"

text \<open>\<open>int(d.get(key, dflt) or 0)\<close>.\<close>

definition int_or_zero :: "fields \<Rightarrow> string \<Rightarrow> int \<Rightarrow> int res" where
  "int_or_zero d key dflt =
     (let v = dget_default d key (JInt dflt) in if truthy v then py_int v else Inr 0)"

definition check_predicate ::
    "(rat \<Rightarrow> string) \<Rightarrow> (string \<Rightarrow> rat option) \<Rightarrow> invariant_template \<Rightarrow> entity \<Rightarrow> predicate res" where
  "check_predicate fl pf t e =
     (let i = ent_id e; ps = it_parameters t in
      case it_check_type t of
        Check_Entity_Observed \<Rightarrow> Inr (FieldExists i ''observed_state.exists'' True)
      | Check_Field_Equals \<Rightarrow>
          res_bind (required_param ps ''path'') (\<lambda>p.
            Inr (FieldEquals i (str_of fl p) (dget_default ps ''value'' JNull)))
      | Check_Field_Gte \<Rightarrow>
          res_bind (required_param ps ''path'') (\<lambda>p.
          res_bind (py_float pf (dget_default ps ''value'' (JInt 0))) (\<lambda>v. Inr (FieldGte i (str_of fl p) v)))
      | Check_Fields_Equal \<Rightarrow>
          res_bind (required_param ps ''left_path'') (\<lambda>l. res_bind (required_param ps ''right_path'') (\<lambda>r.
            Inr (FieldsEqual i (str_of fl l) i (str_of fl r))))
      | Check_Node_Ready \<Rightarrow> Inr (FieldEquals i ''observed_state.ready'' (JBool True))
      | Check_Pod_Ready \<Rightarrow> Inr (FieldEquals i ''observed_state.ready'' (JBool True))
      | Check_Workload_Available \<Rightarrow>
          (let kind = (case get_path (JObj (ent_extensions e)) ''kubernetes.kind'' of None \<Rightarrow> '''' | Some v \<Rightarrow> str_of fl v) in
           if kind = ''DaemonSet''
           then res_bind (int_or_zero (ent_observed_state e) ''desired_number_scheduled'' 0) (\<lambda>n.
             Inr (FieldGte i ''observed_state.number_ready'' (of_int n)))
           else res_bind (int_or_zero (ent_desired_state e) ''replicas'' 1) (\<lambda>n.
             Inr (FieldGte i ''observed_state.ready_replicas'' (of_int n))))
      | Check_Controller_Progress \<Rightarrow>
          Inr (FieldsEqual i ''observed_state.generation'' i ''observed_state.observed_generation'')
      | Check_Service_Endpoints \<Rightarrow>
          res_bind (py_int (dget_default ps ''minimum'' (JInt 1))) (\<lambda>n.
            if n < 0 then raise ValidationError ''minimum''
            else Inr (RelatedCountGte i {''selects''} Outgoing (Some ''observed_state.ready'') (JBool True) n))
      | Check_Pvc_Bound \<Rightarrow> Inr (FieldEquals i ''observed_state.bound'' (JBool True)))"

definition compile_check ::
    "(rat \<Rightarrow> string) \<Rightarrow> (string \<Rightarrow> rat option) \<Rightarrow> invariant_template \<Rightarrow> entity \<Rightarrow> invariant_definition res" where
  "compile_check fl pf t e =
     res_bind (check_predicate fl pf t e) (\<lambda>p.
       Inr \<lparr>inv_id = it_id t @ '':'' @ safe_id (ent_id e),
         inv_title = it_title t @ '': '' @
           (case ent_namespace e of Some (c # n) \<Rightarrow> (c # n) @ ''/'' | _ \<Rightarrow> '''') @ ent_name e,
         inv_family = it_family t, inv_subject_id = ent_id e, inv_predicate = p, inv_severity = it_severity t,
         inv_temporal = it_temporal t, inv_description = it_description t,
         inv_affected_objectives = it_affected_objectives t\<rparr>)"

text \<open>The loop over the templates: invariants with whether they are required, and the unmatched templates.\<close>

fun compile_checks ::
    "(rat \<Rightarrow> string) \<Rightarrow> (string \<Rightarrow> rat option) \<Rightarrow> entity list \<Rightarrow> invariant_template list \<Rightarrow>
     ((bool \<times> invariant_definition) list \<times> string list) res" where
  "compile_checks fl pf es [] = Inr ([], [])"
| "compile_checks fl pf es (t # ts) =
     (let matched = filter (\<lambda>e. selector_matches e (it_selector t)) es in
      if matched = [] then
        res_bind (compile_checks fl pf es ts) (\<lambda>(is, unmatched). Inr (is, it_id t # unmatched))
      else
        res_bind (res_map (compile_check fl pf t) matched) (\<lambda>new.
        res_bind (compile_checks fl pf es ts) (\<lambda>(is, unmatched).
          Inr (map (Pair (it_required t)) new @ is, unmatched))))"

definition compile_profile ::
    "(rat \<Rightarrow> string) \<Rightarrow> (string \<Rightarrow> rat option) \<Rightarrow> string \<Rightarrow> profile_spec \<Rightarrow> env_snapshot \<Rightarrow> compiled_profile res" where
  "compile_profile fl pf now_iso p snap =
     res_bind (compile_checks fl pf (snap_entities snap) (hp_invariant_templates p)) (\<lambda>(is, unmatched).
       Inr \<lparr>cp_profile_id = hp_id p, cp_version = hp_version p, cp_environment_id = snap_environment_id snap,
         cp_snapshot_id = snap_id snap, cp_compiled_at_iso = now_iso, cp_invariants = map snd is,
         cp_required_ids = map (inv_id \<circ> snd) (filter fst is),
         cp_optional_ids = map (inv_id \<circ> snd) (filter (\<lambda>x. \<not> fst x) is), cp_unmatched_templates = unmatched\<rparr>)"

section \<open>Assessment\<close>

definition unix_epoch :: int where "unix_epoch = 719162 * us_per_day"

text \<open>\<open>int(datetime.fromisoformat(\<dots>).timestamp())\<close>.\<close>

definition iso_seconds :: "string \<Rightarrow> int res" where
  "iso_seconds s =
     res_bind (parse_iso s) (\<lambda>t. let d = t - unix_epoch in
       Inr (if d < 0 then - (- d div 1000000) else d div 1000000))"

definition world_of_entities :: "entity list \<Rightarrow> world" where
  "world_of_entities es = dict_of (map (\<lambda>e. (ent_id e, entity_json e)) es)"

text \<open>Snapshots are ordered and bounded by the text of their timestamps.\<close>

definition assessed_history :: "env_snapshot \<Rightarrow> env_snapshot list \<Rightarrow> history res" where
  "assessed_history snap given =
     res_map (\<lambda>s. res_bind (iso_seconds (snap_completed_at_iso s)) (\<lambda>t. Inr (t, world_of_entities (snap_entities s))))
       (filter (\<lambda>s. snap_environment_id s = snap_environment_id snap \<and>
            snap_completed_at_iso s \<le> snap_completed_at_iso snap)
         (sort_key snap_completed_at_iso (if given = [] then [snap] else given)))"

definition health_aggregate :: "health_status list \<Rightarrow> health_status list \<Rightarrow> string list \<Rightarrow> health_status" where
  "health_aggregate required optional unmatched =
     (if UNHEALTHY \<in> set required then UNHEALTHY
      else if UNKNOWN \<in> set required \<or> (required = [] \<and> unmatched \<noteq> []) then UNKNOWN
      else if PENDING \<in> set required then PENDING
      else if set optional \<inter> {UNHEALTHY, UNKNOWN, PENDING} \<noteq> {} then DEGRADED
      else HEALTHY)"

definition status_counts :: "health_status list \<Rightarrow> (string, nat) dict" where
  "status_counts ss = foldl (\<lambda>d s. dset (health_value s) (dget_default d (health_value s) 0 + 1) d) [] ss"

definition objective_impact ::
    "(string, invariant_definition) dict \<Rightarrow> string list \<Rightarrow> (string, string list) dict res" where
  "objective_impact defs ids =
     res_bind (res_map (\<lambda>i. case dget defs i of
         None \<Rightarrow> raise KeyError i
       | Some v \<Rightarrow> Inr (map (\<lambda>ob. (ob, i)) (inv_affected_objectives v))) ids)
       (\<lambda>pairs. Inr (foldl (\<lambda>d (ob, i). dset ob (dget_default d ob [] @ [i]) d) [] (concat pairs)))"

definition ids_of_status :: "health_status \<Rightarrow> invariant_evaluation list \<Rightarrow> string list" where
  "ids_of_status st es = map ev_invariant_id (filter (\<lambda>e. ev_status e = st) es)"

definition health_assess ::
    "(rat \<Rightarrow> string) \<Rightarrow> (string \<Rightarrow> rat option) \<Rightarrow> string \<Rightarrow> string \<Rightarrow> profile_spec \<Rightarrow> env_snapshot \<Rightarrow>
     env_snapshot list \<Rightarrow> profile_assessment res" where
  "health_assess fl pf fresh now_iso p snap given =
     res_bind (compile_profile fl pf now_iso p snap) (\<lambda>compiled.
     res_bind (iso_seconds (snap_completed_at_iso snap)) (\<lambda>now.
     res_bind (assessed_history snap given) (\<lambda>observed.
       let w = world_of_entities (snap_entities snap);
           h = (if observed = [] then [(now, w)] else observed);
           evals = evaluate_all (cp_invariants compiled) w now h (snap_relationships snap);
           by_id = dict_of (map (\<lambda>e. (ev_invariant_id e, ev_status e)) evals);
           statuses = List.map_filter (dget by_id);
           violated = ids_of_status UNHEALTHY evals; unknown = ids_of_status UNKNOWN evals;
           pending = ids_of_status PENDING evals;
           defs = dict_of (map (\<lambda>i. (inv_id i, i)) (cp_invariants compiled))
       in res_bind (objective_impact defs (violated @ unknown @ pending)) (\<lambda>impact.
         Inr \<lparr>pa_id = ''profile-assessment:'' @ fresh, pa_profile_id = hp_id p, pa_profile_version = hp_version p,
           pa_environment_id = snap_environment_id snap, pa_snapshot_id = snap_id snap, pa_evaluated_at_iso = now_iso,
           pa_status = health_aggregate (statuses (cp_required_ids compiled)) (statuses (cp_optional_ids compiled))
             (cp_unmatched_templates compiled),
           pa_evaluations = evals, pa_required_ids = cp_required_ids compiled,
           pa_optional_ids = cp_optional_ids compiled, pa_violated_ids = violated, pa_unknown_ids = unknown,
           pa_pending_ids = pending, pa_counts = status_counts (map ev_status evals), pa_objective_impact = impact,
           pa_metadata = [(''unmatched_templates'', JList (map JStr (cp_unmatched_templates compiled))),
             (''compiled_invariant_count'', JInt (int (length (cp_invariants compiled)))),
             (''snapshot_status'', JStr (collection_value (snap_status snap))),
             (''permission_gap_count'', JInt (int (length (snap_permission_gaps snap))))]\<rparr>))))"

section \<open>When the status is which\<close>

lemma evaluation_status: "ev_status (evaluate_one w now h rels iv) \<in> {HEALTHY, UNHEALTHY, UNKNOWN, PENDING}"
  by (auto simp: evaluate_one_def Let_def apply_temporal_def apply_eventually_def apply_stable_def status_of_def
      split: temporal_operator.splits option.splits bool.splits)

lemma evaluate_all_ids: "map ev_invariant_id (evaluate_all is w now h rels) = map inv_id is"
  by (simp add: evaluate_all_def evaluate_one_def Let_def case_prod_beta o_def)

lemma evaluate_all_status: "e \<in> set (evaluate_all is w now h rels) \<Longrightarrow> ev_status e \<in> {HEALTHY, UNHEALTHY, UNKNOWN, PENDING}"
  unfolding evaluate_all_def Let_def using evaluation_status by fastforce

lemma compile_profile_ids:
  assumes "compile_profile fl pf now_iso p snap = Inr c"
  shows "set (cp_required_ids c) \<union> set (cp_optional_ids c) = inv_id ` set (cp_invariants c)"
  using assms by (force simp: compile_profile_def res_bind_eq_Inr_iff)

text \<open>With distinct identifiers the lookup finds each evaluation's own status.\<close>

lemma statuses_found:
  assumes "distinct (map ev_invariant_id evals)" "set ids \<subseteq> ev_invariant_id ` set evals"
  shows "set (List.map_filter (dget (dict_of (map (\<lambda>e. (ev_invariant_id e, ev_status e)) evals))) ids) =
    ev_status ` {e \<in> set evals. ev_invariant_id e \<in> set ids}"
proof -
  let ?kvs = "map (\<lambda>e. (ev_invariant_id e, ev_status e)) evals"
  have d: "distinct (map fst ?kvs)" using assms(1) by (simp add: o_def)
  have "dget (dict_of ?kvs) i = dget ?kvs i" for i
    unfolding dget_dict_of by (rule dget_rev_distinct [OF d])
  then have lookup: "dget (dict_of ?kvs) i = Some s \<longleftrightarrow> (\<exists>e \<in> set evals. ev_invariant_id e = i \<and> ev_status e = s)" for i s
    using map_of_eq_Some_iff [OF d] by auto
  show ?thesis unfolding set_map_filter lookup by auto
qed

lemma health_assess_parts:
  assumes "health_assess fl pf fresh now_iso p snap given = Inr a" "compile_profile fl pf now_iso p snap = Inr c"
  shows "\<exists>w now h. pa_evaluations a = evaluate_all (cp_invariants c) w now h (snap_relationships snap) \<and>
    pa_required_ids a = cp_required_ids c \<and> pa_optional_ids a = cp_optional_ids c \<and>
    (let by_id = dict_of (map (\<lambda>e. (ev_invariant_id e, ev_status e)) (pa_evaluations a)) in
     pa_status a = health_aggregate (List.map_filter (dget by_id) (cp_required_ids c))
       (List.map_filter (dget by_id) (cp_optional_ids c)) (cp_unmatched_templates c))"
  using assms by (auto simp: health_assess_def res_bind_eq_Inr_iff Let_def) (intro exI, rule refl)+

lemma health_status:
  assumes "health_assess fl pf fresh now_iso p snap given = Inr a" "compile_profile fl pf now_iso p snap = Inr c"
    and "distinct (map ev_invariant_id (pa_evaluations a))"
  defines "ok \<equiv> \<lambda>e. ev_status e = HEALTHY"
    and "required \<equiv> {e \<in> set (pa_evaluations a). ev_invariant_id e \<in> set (pa_required_ids a)}"
    and "unknowable \<equiv> pa_required_ids a = [] \<and> cp_unmatched_templates c \<noteq> []"
  shows "pa_status a = UNHEALTHY \<longleftrightarrow> UNHEALTHY \<in> ev_status ` required"
    and "pa_status a = HEALTHY \<longleftrightarrow> (\<forall>e \<in> set (pa_evaluations a). ok e) \<and> \<not> unknowable"
    and "pa_status a = DEGRADED \<longleftrightarrow>
      (\<forall>e \<in> required. ok e) \<and> \<not> unknowable \<and> (\<exists>e \<in> set (pa_evaluations a). \<not> ok e)"
proof -
  let ?by = "dict_of (map (\<lambda>e. (ev_invariant_id e, ev_status e)) (pa_evaluations a))"
  let ?rs = "List.map_filter (dget ?by) (pa_required_ids a)" and ?os = "List.map_filter (dget ?by) (pa_optional_ids a)"
  from health_assess_parts [OF assms(1,2)] obtain w now h where
    evals: "pa_evaluations a = evaluate_all (cp_invariants c) w now h (snap_relationships snap)"
    and ids: "pa_required_ids a = cp_required_ids c" "pa_optional_ids a = cp_optional_ids c"
    and status: "pa_status a = health_aggregate ?rs ?os (cp_unmatched_templates c)"
    by (auto simp: Let_def)
  have "ev_invariant_id ` set (pa_evaluations a) = inv_id ` set (cp_invariants c)"
    unfolding evals using arg_cong [OF evaluate_all_ids, of set] by simp
  then have all: "set (pa_required_ids a) \<union> set (pa_optional_ids a) = ev_invariant_id ` set (pa_evaluations a)"
    using compile_profile_ids [OF assms(2)] ids by simp
  define optional where "optional = {e \<in> set (pa_evaluations a). ev_invariant_id e \<in> set (pa_optional_ids a)}"
  have rs: "set ?rs = ev_status ` required" and os: "set ?os = ev_status ` optional"
    unfolding required_def optional_def using all by (auto intro!: statuses_found [OF assms(3)])
  have both: "set (pa_evaluations a) = required \<union> optional" using all by (auto simp: required_def optional_def)
  have kinds: "ev_status e \<in> {HEALTHY, UNHEALTHY, UNKNOWN, PENDING}" if "e \<in> required \<union> optional" for e
    using that evaluate_all_status evals both by metis
  have none: "?rs = [] \<longleftrightarrow> pa_required_ids a = []"
  proof
    assume "?rs = []"
    then have "required = {}" using rs by simp
    show "pa_required_ids a = []"
    proof (rule ccontr)
      assume "pa_required_ids a \<noteq> []"
      then obtain i where i: "i \<in> set (pa_required_ids a)" by (cases "pa_required_ids a") auto
      then have "i \<in> ev_invariant_id ` set (pa_evaluations a)" using all by blast
      then obtain e where "e \<in> set (pa_evaluations a)" "ev_invariant_id e = i" by auto
      then have "e \<in> required" using i by (simp add: required_def)
      then show False using \<open>required = {}\<close> by simp
    qed
  qed (simp add: List.map_filter_def)
  show "pa_status a = UNHEALTHY \<longleftrightarrow> UNHEALTHY \<in> ev_status ` required"
    unfolding status health_aggregate_def rs by simp
  have calm: "(\<forall>e \<in> required. ok e) \<longleftrightarrow> set ?rs \<inter> {UNHEALTHY, UNKNOWN, PENDING} = {}"
    and calm': "(\<forall>e \<in> optional. ok e) \<longleftrightarrow> set ?os \<inter> {UNHEALTHY, UNKNOWN, PENDING} = {}"
    unfolding rs os ok_def using kinds by fastforce+
  have healthy: "pa_status a = HEALTHY \<longleftrightarrow>
      set ?rs \<inter> {UNHEALTHY, UNKNOWN, PENDING} = {} \<and> \<not> unknowable \<and> set ?os \<inter> {UNHEALTHY, UNKNOWN, PENDING} = {}"
    and degraded: "pa_status a = DEGRADED \<longleftrightarrow>
      set ?rs \<inter> {UNHEALTHY, UNKNOWN, PENDING} = {} \<and> \<not> unknowable \<and> set ?os \<inter> {UNHEALTHY, UNKNOWN, PENDING} \<noteq> {}"
    unfolding status health_aggregate_def none unknowable_def by auto
  show "pa_status a = HEALTHY \<longleftrightarrow> (\<forall>e \<in> set (pa_evaluations a). ok e) \<and> \<not> unknowable"
    unfolding healthy both calm [symmetric] calm' [symmetric] by blast
  show "pa_status a = DEGRADED \<longleftrightarrow>
      (\<forall>e \<in> required. ok e) \<and> \<not> unknowable \<and> (\<exists>e \<in> set (pa_evaluations a). \<not> ok e)"
    unfolding degraded both calm [symmetric] calm' [symmetric] by blast
qed

end
