(* ===== verification/Samples_More.thy ===== *)
theory Samples_More
  imports Fleet Simulator_Props Builtin_Actions Lifecycle_Props Scheduling Composer_Props Health
begin

text \<open>
  Concrete values for the witnesses of the properties about fleets, simulation, lifecycle planning and
  scheduling.
\<close>

section \<open>Fleets\<close>

definition sample_member :: "string \<Rightarrow> fleet_member" where
  "sample_member e = \<lparr>fm_environment_id = e, fm_required_profile_ids = [], fm_criticality = ''standard'',
     fm_failure_domain = None, fm_labels = []\<rparr>"

definition sample_fleet_dependency :: "string \<Rightarrow> string \<Rightarrow> fleet_dependency" where
  "sample_fleet_dependency s t = \<lparr>fd_id = s @ ''-'' @ t, fd_source = s, fd_target = t,
     fd_relationship_type = ''requires_for_service'', fd_required_profile_id = None,
     fd_maximum_unavailability_seconds = None, fd_metadata = []\<rparr>"

definition sample_fleet :: fleet where
  "sample_fleet = \<lparr>fl_id = ''f1'', fl_organization_id = ''o1'', fl_workspace_id = ''w1'', fl_name = ''demo'',
     fl_members = map sample_member [''db'', ''api'', ''ui''],
     fl_dependencies = [sample_fleet_dependency ''api'' ''db'', sample_fleet_dependency ''ui'' ''api''],
     fl_max_parallel = 2, fl_active = True, fl_labels = [], fl_metadata = []\<rparr>"

lemma sample_fleet_valid: "valid_fleet sample_fleet"
  by code_simp

lemma sample_fleet_startup:
  "map_option (map_sum id (\<lambda>p. map fw_environment_ids (fp_waves p)))
     (plan_fleet_operation ''u'' ''t'' sample_fleet ''startup'') = Some (Inr [[''db''], [''api''], [''ui'']])"
  by code_simp

lemma sample_fleet_shutdown:
  "map_option (map_sum id (\<lambda>p. map fw_environment_ids (fp_waves p)))
     (plan_fleet_operation ''u'' ''t'' sample_fleet ''shutdown'') = Some (Inr [[''ui''], [''api''], [''db'']])"
  by code_simp

section \<open>Simulation\<close>

definition sample_entity :: "string \<Rightarrow> entity" where
  "sample_entity i = \<lparr>ent_id = i, ent_type = ''Service'', ent_type_lineage = {}, ent_name = i,
     ent_plane = Plane_Workload, ent_namespace = None, ent_provider = None, ent_labels = [],
     ent_desired_state = [], ent_observed_state = [(''ready'', JBool True)], ent_capabilities = {},
     ent_extensions = []\<rparr>"

definition sample_profile :: observation_profile where
  "sample_profile = \<lparr>prof_id = ''full'', prof_title = ''Full'', prof_kind = Prof_Full,
     prof_hidden_entity_ids = {}, prof_hidden_paths = [], prof_lag_seconds = [],
     prof_contradictory_overrides = []\<rparr>"

definition sample_set :: "string \<Rightarrow> string \<Rightarrow> json \<Rightarrow> state_mutation" where
  "sample_set i path v = \<lparr>mut_type = Set_State, mut_entity_id = i, mut_path = Some path, mut_value = v,
     mut_entity_payload = None\<rparr>"

definition sample_rule :: "predicate list \<Rightarrow> int \<Rightarrow> bool \<Rightarrow> state_mutation \<Rightarrow> transition_rule" where
  "sample_rule conds delay once m = \<lparr>rule_id = ''r'', rule_title = ''rule'', rule_conditions = conds,
     rule_effects = [m], rule_delay_seconds = delay, rule_fire_once = once\<rparr>"

definition sample_scenario :: "transition_rule list \<Rightarrow> scenario" where
  "sample_scenario rules =
     \<lparr>sc_id = ''s'', sc_family_id = ''f'', sc_family_version = ''1'', sc_title = ''t'', sc_description = [],
      sc_bindings = [], sc_entities = [sample_entity ''db''], sc_relationships = [], sc_invariants = [],
      sc_transition_rules = rules,
      sc_disturbance = \<lparr>dist_id = ''d'', dist_title = ''d'', dist_mechanism = Mech_Crash,
        dist_temporal_form = Form_Persistent,
        dist_mutations = [\<lparr>sched_mutation_id = ''m'', sched_at_seconds = 2, sched_description = ''crash'',
          sched_mutation = sample_set ''db'' ''observed_state.ready'' (JBool False)\<rparr>]\<rparr>,
      sc_profile = sample_profile, sc_max_time_seconds = 20, sc_metadata = []\<rparr>"

definition sample_alert :: transition_rule where
  "sample_alert = sample_rule [FieldEquals ''db'' ''observed_state.ready'' (JBool False)] 3 True
     (sample_set ''db'' ''observed_state.alert'' (JBool True))"

definition sample_mv :: "fields \<Rightarrow> entity res" where
  "sample_mv payload = raise ValidationError ''entity''"

lemma sample_scenario_valid: "valid_scenario (sample_scenario [sample_alert])"
  by code_simp

declare sim_loop.simps [code]

lemma sample_scenario_run:
  "map_option (\<lambda>r. (sr_status r, map te_at_seconds (sr_timeline r), map ws_at_seconds (sr_snapshots r)))
     (run_simulation sample_mv ''u'' ''t0'' ''t1'' (sample_scenario [sample_alert]) 0) =
   Some (Run_Completed, [2, 5], [0, 2, 5])"
  by code_simp

lemma sample_scenario_loops:
  "run_simulation sample_mv ''u'' ''t0'' ''t1'' (sample_scenario [sample_rule [] 0 False
     (sample_set ''db'' ''observed_state.ready'' (JBool False))]) 0 = None"
  by (rule zero_delay_rule_diverges [where
        r = "sample_rule [] 0 False (sample_set ''db'' ''observed_state.ready'' (JBool False))" and
        m = "sample_set ''db'' ''observed_state.ready'' (JBool False)" and path = "''observed_state.ready''" and
        d = "hd (dist_mutations (sc_disturbance (sample_scenario [])))"])
    (simp_all add: sample_scenario_def sample_rule_def sample_set_def sample_entity_def)

section \<open>Lifecycle planning\<close>

definition sample_stage :: "string \<Rightarrow> string list \<Rightarrow> lifecycle_stage" where
  "sample_stage i needs =
     \<lparr>ls_id = i, ls_title = i, ls_description = [], ls_depends_on = needs,
      ls_templates = [\<lparr>lt_id = ''w'', lt_action_type_id = ''operation.wait_for_condition.v1'', lt_title = ''wait'',
        lt_target_selector = [], lt_parameters = [(''for'', JStr ''${entity_name}'')], lt_depends_on = [],
        lt_apply_when = [], lt_skip_when = [], lt_risk_override = None, lt_optional = False, lt_metadata = []\<rparr>],
      ls_entry_conditions = [], ls_completion_conditions = [], ls_allow_parallel = False,
      ls_timeout_seconds = 300, ls_on_failure = Fail_Stop\<rparr>"

definition sample_lifecycle :: "lifecycle_stage list \<Rightarrow> lifecycle_profile" where
  "sample_lifecycle ss = \<lparr>lp_id = ''p'', lp_version = ''1.0.0'', lp_title = ''p'', lp_description = [],
     lp_operation_type = Op_Startup, lp_environment_classes = {}, lp_target_profile_id = ''o'', lp_stages = ss,
     lp_protected_invariant_ids = [], lp_default_policy_id = None, lp_metadata = []\<rparr>"

definition sample_wait_catalog :: action_catalog where
  "sample_wait_catalog = reg_put (at_id wait_type) wait_type new_action_catalog"

definition sample_snapshot :: env_snapshot where
  "sample_snapshot = \<lparr>snap_id = ''s'', snap_environment_id = ''env'', snap_captured_at_iso = [], snap_started_at_iso = [],
     snap_completed_at_iso = ''0001-01-01'', snap_status = Collect_Complete, snap_source_type = Source_Fixture,
     snap_source_fingerprint = [], snap_entities = [], snap_relationships = [], snap_observations = [],
     snap_issues = [], snap_permission_gaps = [], snap_raw_resource_count = 0, snap_collection_summary = [],
     snap_raw_artifact_ids = [], snap_metadata = []\<rparr>"

definition sample_stages :: "lifecycle_stage list" where
  "sample_stages = [sample_stage ''a'' [], sample_stage ''b'' [''a'']]"

lemma sample_lifecycle_valid: "validate_graph (sample_lifecycle sample_stages) = Inr (sample_lifecycle sample_stages)"
  by code_simp

lemma sample_lifecycle_plan:
  "map_sum id (\<lambda>plan. map (\<lambda>a. (act_id a, act_stage_id a, act_depends_on a, act_parameters a)) (plan_actions plan))
     (lifecycle_plan ''hash'' ''now'' sample_wait_catalog (sample_lifecycle sample_stages) sample_snapshot None
       Dry_Run None) =
   Inr [(''action:a:w:0:hash'', Some ''a'', [], [(''for'', JStr ''env'')]),
        (''action:b:w:0:hash'', Some ''b'', [''action:a:w:0:hash''], [(''for'', JStr ''env'')])]"
  by code_simp

text \<open>The same stages in the other order: the profile is valid, and the dependency is lost.\<close>

lemma sample_lifecycle_reversed:
  "validate_graph (sample_lifecycle (rev sample_stages)) = Inr (sample_lifecycle (rev sample_stages))"
  by code_simp

lemma late_stage_dependency_dropped:
  "map_sum id (\<lambda>plan. map (\<lambda>a. (act_stage_id a, act_depends_on a)) (plan_actions plan))
     (lifecycle_plan ''hash'' ''now'' sample_wait_catalog (sample_lifecycle (rev sample_stages)) sample_snapshot None
       Dry_Run None) = Inr [(Some ''b'', []), (Some ''a'', [])]"
  by code_simp

section \<open>Scheduling\<close>

definition sample_window :: maintenance_window where
  "sample_window = weekend_window\<lparr>mw_duration_minutes := 60\<rparr>"

definition sample_schedule :: scheduled_operation where
  "sample_schedule = \<lparr>so_id = ''s'', so_organization_id = ''o'', so_workspace_id = ''ws'',
     so_target_type = Target_Fleet, so_target_id = ''t'', so_operation_type = ''startup'',
     so_lifecycle_profile_id = None, so_policy_id = None, so_execution_mode = ''dry_run'', so_not_before_iso = None,
     so_deadline_iso = None, so_window_id = Some ''w'', so_materialize_automatically = False,
     so_status = Sched_Pending, so_operation_id = None, so_fleet_plan_id = None, so_created_by = ''u'',
     so_created_at_iso = ''2024-01-01'', so_updated_at_iso = ''2024-01-01'', so_metadata = []\<rparr>"

lemma sample_window_valid: "valid_window utc_only sample_window \<and> mw_duration_minutes sample_window \<le> 1440"
  by (simp add: sample_window_def valid_window_def weekend_window_def utc_only_def valid_timezone_def valid_days_def
      valid_time_def midnight)

lemma sample_schedule_evaluates:
  "\<exists>d. schedule_evaluate H utc_only sample_schedule [sample_window] (739848 * us_per_day) = Inr d"
  by (simp add: schedule_evaluate_def sample_schedule_def sample_window_def weekend_window_def window_decision_def
      window_state_def parse_opt_def precedes_def utc_only_def us_per_day_def minutes_def max_instant_def midnight
      offsets_listed Let_def)

lemma sample_window_open:
  "find (\<lambda>w. mw_id w = ''w'') [sample_window] = Some sample_window \<and> window_admits sample_schedule sample_window \<and>
   read_time (mw_start_local_time sample_window) = Some 0 \<and>
   open_at sample_window 0 (tz_local utc_only (mw_timezone sample_window) (739848 * us_per_day))"
  by (simp add: window_admits_def sample_window_def sample_schedule_def weekend_window_def midnight utc_only_def
      open_at_def occurrence_def us_per_day_def minutes_def)
    (rule exI [of _ "739848 * 86400000000"], auto intro: exI [of _ 739848])

section \<open>Scenario families and compositions\<close>

definition sample_validators :: validators where
  "sample_validators =
     \<lparr>v_entity = (\<lambda>d. case dget d ''entity_id'' of Some (JStr i) \<Rightarrow> Inr (sample_entity i)
        | _ \<Rightarrow> raise ValidationError ''entity_id''),
      v_relationship = (\<lambda>d. raise ValidationError ''relationship''), v_invariant = (\<lambda>d. raise ValidationError ''invariant''),
      v_rule = (\<lambda>d. raise ValidationError ''rule''),
      v_disturbance = (\<lambda>d. Inr \<lparr>dist_id = ''d'', dist_title = ''d'', dist_mechanism = Mech_Crash,
        dist_temporal_form = Form_Persistent,
        dist_mutations = [\<lparr>sched_mutation_id = ''m'', sched_at_seconds = 2, sched_description = ''d'',
          sched_mutation = sample_set ''n'' ''observed_state.ready'' (JBool False)\<rparr>]\<rparr>),
      v_profile = (\<lambda>d. Inr sample_profile)\<rparr>"

definition sample_family :: scenario_family where
  "sample_family = \<lparr>sf_id = ''f'', sf_version = ''1'', sf_title = ''node ${node}'', sf_description = ''f'',
     sf_parent_id = None, sf_abstract = False,
     sf_parameters = [\<lparr>ps_name = ''node'', ps_title = ''node'', ps_type = Param_String, ps_description = [],
       ps_required = True, ps_default = JNull, ps_options = []\<rparr>],
     sf_constraints = [], sf_signature = [],
     sf_blueprint = \<lparr>bp_entities = [[(''entity_id'', JStr ''${node}'')]], bp_relationships = [], bp_invariants = [],
       bp_transition_rules = [], bp_observation_profiles = [[(''profile_id'', JStr ''o'')]]\<rparr>,
     sf_disturbances = [[(''disturbance_id'', JStr ''d'')]], sf_default_disturbance_id = ''d'',
     sf_default_profile_id = prof_id sample_profile, sf_tags = []\<rparr>"

definition sample_component :: "string \<Rightarrow> component" where
  "sample_component a = \<lparr>cmp_alias = a, cmp_family_id = ''f'', cmp_bindings = [(''node'', JStr ''n'')],
     cmp_disturbance_id = None, cmp_profile_id = None, cmp_start_at_seconds = None, cmp_duration_hint_seconds = 8,
     cmp_activation_predicate = None\<rparr>"

definition sample_composition :: composition where
  "sample_composition = \<lparr>co_id = ''c'', co_title = ''c'', co_operator = Op_Sequential,
     co_components = [sample_component ''a'', sample_component ''b''], co_bridge_relationships = [],
     co_masked_aliases = {}, co_gap_seconds = 1, co_metadata = []\<rparr>"

definition sample_families :: family_registry where
  "sample_families = reg_put ''f'' sample_family new_family_registry"

definition sample_placed :: "placed list res" where
  "sample_placed = compile_components
     (compile_component (\<lambda>_. ''0'') sample_validators sample_families ''u'' sample_composition) sample_composition 0
     (co_components sample_composition)"

lemma sample_composition_valid:
  "validate_components sample_composition = Inr sample_composition"
  "\<forall>c \<in> set (co_components sample_composition). valid_alias (cmp_alias c)"
  "co_bridge_relationships sample_composition = []"
  by (simp_all add: sample_composition_def sample_component_def validate_components_def valid_alias_def
      is_alias_char_def is_key_char_def Let_def)

lemma sample_placed_value:
  "map_sum id (map (\<lambda>(c, s, offset). (cmp_alias c, sc_title s, map ent_id (sc_entities s), offset, self_contained s)))
     sample_placed =
   Inr [(''a'', ''node n'', [''n''], 0, True), (''b'', ''node n'', [''n''], 9, True)]"
  by code_simp

lemma map_sum_Inr: "map_sum f g x = Inr y \<longleftrightarrow> (\<exists>z. x = Inr z \<and> g z = y)"
  by (cases x) auto

lemma sample_placed_two:
  "\<exists>c1 s1 c2 s2. sample_placed = Inr [(c1, s1, 0), (c2, s2, 9)] \<and> self_contained s1 \<and> self_contained s2 \<and>
     cmp_alias c1 = ''a'' \<and> cmp_alias c2 = ''b'' \<and>
     map ent_id (sc_entities s1) = [''n''] \<and> map ent_id (sc_entities s2) = [''n'']"
  using sample_placed_value unfolding map_sum_Inr
  by (clarsimp simp: map_eq_Cons_conv) (intro exI conjI, assumption+)

section \<open>Health\<close>

definition sample_node :: "string \<Rightarrow> bool \<Rightarrow> entity" where
  "sample_node i ready = (sample_entity i)\<lparr>ent_observed_state := [(''ready'', JBool ready)]\<rparr>"

definition sample_ready_template :: invariant_template where
  "sample_ready_template = \<lparr>it_id = ''ready'', it_title = ''ready'', it_description = [], it_family = Fam_Readiness,
     it_selector = \<lparr>sel_entity_types = {}, sel_planes = {}, sel_namespaces = {}, sel_names = {}, sel_labels = [],
       sel_exclude_namespaces = {}, sel_include_cluster_scoped = True\<rparr>,
     it_check_type = Check_Node_Ready, it_parameters = [], it_severity = Sev_Error, it_temporal = default_temporal,
     it_required = True, it_affected_objectives = []\<rparr>"

definition sample_health_profile :: profile_spec where
  "sample_health_profile = \<lparr>hp_id = ''p'', hp_version = ''1.0.0'', hp_title = ''p'', hp_description = [],
     hp_environment_classes = {}, hp_objective_ids = [], hp_invariant_templates = [sample_ready_template],
     hp_metadata = []\<rparr>"

definition sample_health_snapshot :: "entity list \<Rightarrow> env_snapshot" where
  "sample_health_snapshot es = sample_snapshot\<lparr>snap_entities := es\<rparr>"

definition sample_assessment :: "entity list \<Rightarrow> profile_assessment res" where
  "sample_assessment es =
     health_assess (\<lambda>_. ''0'') (\<lambda>_. None) ''u'' ''now'' sample_health_profile (sample_health_snapshot es) []"

lemma sample_assessments:
  "map_sum id (\<lambda>a. (pa_status a, map (\<lambda>e. (ev_invariant_id e, ev_status e)) (pa_evaluations a)))
     (sample_assessment [sample_node ''a'' True, sample_node ''b'' False]) =
   Inr (UNHEALTHY, [(''ready:a'', HEALTHY), (''ready:b'', UNHEALTHY)]) \<and>
   map_sum id (\<lambda>a. (pa_status a, pa_violated_ids a))
     (sample_assessment [sample_node ''n.a'' False, sample_node ''n/a'' True]) = Inr (HEALTHY, [''ready:n_a''])"
  by code_simp

lemmas sample_assessed = sample_assessments [THEN conjunct1]

text \<open>Two entities whose identifiers differ only in a separator share an invariant identifier, and the second
  evaluation hides the first: the environment is healthy although a required invariant is violated.\<close>

lemma masked_violation:
  "map_sum id (\<lambda>a. (pa_status a, pa_violated_ids a))
     (sample_assessment [sample_node ''n.a'' False, sample_node ''n/a'' True]) = Inr (HEALTHY, [''ready:n_a''])"
  by (rule sample_assessments [THEN conjunct2])

end
