(* ===== verification/Versioning.thy ===== *)
theory Versioning
  imports PyText
begin

text \<open>
  Versions of packs and the constraints on them (\<open>packs/versioning.py\<close>). The two regular expressions are
  written out as the text they match. A constraint is shown to mean a set of versions, an interval when no
  clause excludes one.
\<close>

datatype version = Version (major: nat) (minor: nat) (patch: nat)

text \<open>\<open>order=True\<close> of the dataclass: versions compare as the tuples of their fields.\<close>

instantiation version :: linorder
begin

definition less_eq_version :: "version \<Rightarrow> version \<Rightarrow> bool" where
  "less_eq_version a b \<longleftrightarrow> major a < major b \<or> (major a = major b \<and> (minor a < minor b \<or>
     (minor a = minor b \<and> patch a \<le> patch b)))"

definition less_version :: "version \<Rightarrow> version \<Rightarrow> bool" where
  "less_version a b \<longleftrightarrow> a \<le> b \<and> \<not> b \<le> (a :: version)"

instance
  by standard (auto simp: less_eq_version_def less_version_def version.expand)

end

text \<open>The digits at the start of a text, and what follows them.\<close>

fun digits_value :: "nat \<Rightarrow> string \<Rightarrow> nat" where
  "digits_value acc [] = acc"
| "digits_value acc (c # s) = (case char_digit c of Some d \<Rightarrow> digits_value (10 * acc + d) s | None \<Rightarrow> acc)"

definition decimal_digit :: "char \<Rightarrow> bool" where
  "decimal_digit c \<longleftrightarrow> char_digit c \<noteq> None"

definition after_digits :: "string \<Rightarrow> string" where
  "after_digits s = dropWhile decimal_digit s"

text \<open>\<open>(?:\.(\d+))?\<close>: a further part, 0 when it is missing.\<close>

definition dotted_part :: "string \<Rightarrow> nat \<times> string" where
  "dotted_part s = (case s of
     c # d # r \<Rightarrow> if c = CHR ''.'' \<and> decimal_digit d then (digits_value 0 (d # r), after_digits (d # r)) else (0, s)
   | _ \<Rightarrow> (0, s))"

definition parse_version :: "string \<Rightarrow> version res" where
  "parse_version v =
     (let s = strip v in
      if s = [] \<or> \<not> decimal_digit (hd s) then raise ValueError (''invalid semantic version '' @ repr_str v)
      else (let (b, r) = dotted_part (after_digits s); (c, r') = dotted_part r in
        Inr (Version (digits_value 0 s) b c)))"

text \<open>A clause: an operator, if one is in front of further text, and the text of a version.\<close>

definition operators :: "string list" where
  "operators = [''>='', ''<='', ''=='', ''!='', ''>'', ''<'', ''~='']"

fun first_operator :: "string list \<Rightarrow> string \<Rightarrow> string \<times> string" where
  "first_operator [] s = (''=='', s)"
| "first_operator (f # fs) s =
     (if take (length f) s = f \<and> length f < length s then (f, dropWhile is_space (drop (length f) s))
      else first_operator fs s)"

definition clause_parts :: "string \<Rightarrow> (string \<times> string) option" where
  "clause_parts s =
     (let (f, raw) = first_operator operators s in
      if CHR 0x0A \<in> set raw then None else Some (f, raw))"

definition next_series :: "version \<Rightarrow> version" where
  "next_series e = (if minor e = 0 then Version (major e + 1) 0 0 else Version (major e) (minor e + 1) 0)"

definition clause_holds :: "string \<Rightarrow> version \<Rightarrow> version \<Rightarrow> bool" where
  "clause_holds f v e =
     (if f = ''>='' then v \<ge> e else if f = ''<='' then v \<le> e else if f = ''>'' then v > e
      else if f = ''<'' then v < e else if f = ''=='' then v = e else if f = ''!='' then v \<noteq> e
      else e \<le> v \<and> v < next_series e)"

fun clauses_hold :: "version \<Rightarrow> string list \<Rightarrow> bool res" where
  "clauses_hold v [] = Inr True"
| "clauses_hold v (c # cs) =
     (let s = strip c in
      if s = [] then clauses_hold v cs
      else (case clause_parts s of
          None \<Rightarrow> Inr False
        | Some (f, raw) \<Rightarrow> res_bind (parse_version raw) (\<lambda>e.
            if clause_holds f v e then clauses_hold v cs else Inr False)))"

definition satisfies :: "string \<Rightarrow> string option \<Rightarrow> bool res" where
  "satisfies v k =
     (case k of
        None \<Rightarrow> Inr True
      | Some c \<Rightarrow>
          if strip c = [] \<or> strip c = ''*'' then Inr True
          else res_bind (parse_version v) (\<lambda>p. clauses_hold p (split_on CHR '','' c)))"

section \<open>What a constraint means\<close>

text \<open>A version meets a list of clauses exactly when each clause that is not blank reads as a comparison that holds;
  the order of the clauses does not matter.\<close>

definition meets :: "version \<Rightarrow> string \<Rightarrow> bool" where
  "meets v c \<longleftrightarrow> strip c = [] \<or>
     (case clause_parts (strip c) of None \<Rightarrow> False | Some (f, raw) \<Rightarrow>
       (case parse_version raw of Inl _ \<Rightarrow> False | Inr e \<Rightarrow> clause_holds f v e))"

lemma clauses_hold_iff: "clauses_hold v cs = Inr True \<longleftrightarrow> (\<forall>c \<in> set cs. meets v c)"
proof (induction cs)
  case (Cons c cs)
  show ?case
  proof (cases "clause_parts (strip c)")
    case None
    with Cons show ?thesis by (simp add: meets_def Let_def)
  next
    case (Some p)
    obtain f raw where p: "p = (f, raw)" by (cases p)
    show ?thesis
      using Cons Some by (cases "parse_version raw") (simp_all add: meets_def Let_def p)
  qed
qed simp

definition clause_operator :: "string \<Rightarrow> string" where
  "clause_operator c = fst (first_operator operators (strip c))"

lemma clause_holds_between:
  fixes a v b e :: version
  assumes "a \<le> v" "v \<le> b" "clause_holds f a e" "clause_holds f b e" "f \<noteq> ''!=''"
  shows "clause_holds f v e"
  using assms unfolding clause_holds_def by (auto split: if_splits)

lemma meets_between:
  assumes "a \<le> v" "v \<le> b" "meets a c" "meets b c" "clause_operator c \<noteq> ''!=''"
  shows "meets v c"
proof (cases "strip c = []")
  case True
  then show ?thesis by (simp add: meets_def)
next
  case False
  with assms(3) obtain f raw where c: "clause_parts (strip c) = Some (f, raw)"
    by (cases "clause_parts (strip c)") (auto simp: meets_def)
  with False assms(3) obtain e where "parse_version raw = Inr e"
    by (cases "parse_version raw") (auto simp: meets_def)
  note p = c this
  have "f \<noteq> ''!=''" using c assms(5) by (auto simp: clause_parts_def clause_operator_def Let_def split: prod.splits if_splits)
  with p False assms clause_holds_between [of a v b f e] show ?thesis by (simp add: meets_def)
qed

text \<open>The versions that meet a constraint without exclusions are an interval.\<close>

theorem constraint_interval:
  assumes "a \<le> v" "v \<le> b" "clauses_hold a cs = Inr True" "clauses_hold b cs = Inr True"
    and "\<forall>c \<in> set cs. clause_operator c \<noteq> ''!=''"
  shows "clauses_hold v cs = Inr True"
  using assms meets_between unfolding clauses_hold_iff by blast

section \<open>Reading a version back\<close>

definition show_version :: "version \<Rightarrow> string" where
  "show_version v = nat_str (major v) @ ''.'' @ nat_str (minor v) @ ''.'' @ nat_str (patch v)"

lemma digits_value_nat_str: "digits_value 0 (nat_str n @ r) = digits_value n r"
proof (induction n arbitrary: r rule: nat_str.induct)
  case (1 n)
  show ?case
  proof (cases "n < 10")
    case False
    then have "nat_str n @ r = nat_str (n div 10) @ digit_char (n mod 10) # r" by (subst nat_str.simps) simp
    with 1 [OF False] show ?thesis by simp
  qed (simp add: nat_str.simps [of n])
qed

lemma nat_str_digits: "c \<in> set (nat_str n) \<Longrightarrow> decimal_digit c"
  by (induction n rule: nat_str.induct) (subst (asm) nat_str.simps, auto simp: decimal_digit_def split: if_splits)

lemma after_digits_nat_str: "r = [] \<or> \<not> decimal_digit (hd r) \<Longrightarrow> after_digits (nat_str n @ r) = r"
  unfolding after_digits_def using nat_str_digits by (subst dropWhile_append2) (blast, cases r, auto)

lemma digits_value_stop: "r = [] \<or> \<not> decimal_digit (hd r) \<Longrightarrow> digits_value n r = n"
  by (cases r) (auto simp: decimal_digit_def)

lemma dotted_part_nat_str:
  assumes "r = [] \<or> \<not> decimal_digit (hd r)"
  shows "dotted_part (CHR ''.'' # nat_str n @ r) = (n, r)"
proof -
  obtain d ds where d: "nat_str n = d # ds" using nat_str_nonempty by (cases "nat_str n") blast+
  then have "decimal_digit d" using nat_str_digits [of d n] by simp
  with d assms show ?thesis
    using digits_value_nat_str [of n r] after_digits_nat_str [OF assms, of n] digits_value_stop [OF assms, of n]
    by (simp add: dotted_part_def)
qed

lemma strip_tight:
  assumes "s \<noteq> []" "\<not> is_space (hd s)" "\<not> is_space (last s)"
  shows "strip s = s"
proof -
  have "dropWhile is_space s = s" using assms by (cases s) simp_all
  moreover have "dropWhile is_space (rev s) = rev s" using assms by (cases s rule: rev_cases) simp_all
  ultimately show ?thesis by (simp add: strip_def)
qed

lemma digit_not_space: "decimal_digit c \<Longrightarrow> \<not> is_space c"
  by (auto simp: decimal_digit_def char_digit_def is_space_def Let_def split: if_splits)

lemma dot_no_digit: "\<not> decimal_digit CHR ''.''"
  by (simp add: decimal_digit_def char_digit_def)

theorem parse_show_version: "parse_version (show_version v) = Inr v"
proof -
  let ?r = "CHR ''.'' # nat_str (patch v)"
  let ?s = "nat_str (major v) @ CHR ''.'' # nat_str (minor v) @ ?r"
  have s: "show_version v = ?s" by (simp add: show_version_def)
  have hd: "decimal_digit (hd ?s)" using nat_str_digits [of "hd (nat_str (major v))" "major v"] by (simp add: hd_append)
  have "decimal_digit (last ?s)" using nat_str_digits [of "last (nat_str (patch v))" "patch v"] by simp
  with hd have "strip ?s = ?s" by (intro strip_tight) (auto simp: digit_not_space)
  moreover have "dotted_part (after_digits ?s) = (minor v, ?r)"
    using after_digits_nat_str [of "CHR ''.'' # nat_str (minor v) @ ?r" "major v"] dotted_part_nat_str [of ?r "minor v"]
    by (simp add: dot_no_digit)
  moreover have "dotted_part ?r = (patch v, [])" using dotted_part_nat_str [of "[]" "patch v"] by simp
  moreover have "digits_value 0 ?s = major v"
    using digits_value_stop [of "CHR ''.'' # nat_str (minor v) @ ?r" "major v"] by (simp add: digits_value_nat_str dot_no_digit)
  moreover have "?s \<noteq> []" by simp
  ultimately show ?thesis using hd unfolding parse_version_def s Let_def by simp
qed

end
