(* ===== verification/Diagnosis_IR.thy ===== *)
theory Diagnosis_IR
  imports IR Planning Registry
begin

text \<open>
  \<open>models/diagnosis.py\<close> and the catalogue of \<open>diagnosis/catalog.py\<close>: evidence, symptoms, causal templates,
  hypotheses, probes, certificates and incidents, with the incident validator. The built-in entries of the
  catalogue are data and not part of the model.
\<close>

section \<open>Evidence\<close>

datatype authority = Auth_Authoritative | Auth_High | Auth_Medium | Auth_Low | Auth_Heuristic

datatype cost_class = Cost_Negligible | Cost_Low | Cost_Medium | Cost_High

fun cost_value :: "cost_class \<Rightarrow> string" where
  "cost_value Cost_Negligible = ''negligible''"
| "cost_value Cost_Low = ''low''"
| "cost_value Cost_Medium = ''medium''"
| "cost_value Cost_High = ''high''"

fun authority_value :: "authority \<Rightarrow> string" where
  "authority_value Auth_Authoritative = ''authoritative''"
| "authority_value Auth_High = ''high''"
| "authority_value Auth_Medium = ''medium''"
| "authority_value Auth_Low = ''low''"
| "authority_value Auth_Heuristic = ''heuristic''"

datatype stopping_condition = First_Authoritative_Answer | All_Required_Facts | All_Collectors

record evidence_intent =
  in_id :: string
  in_title :: string
  in_question :: string
  in_questions_answered :: "string list"
  in_subject_ids :: "string list"
  in_required_fact_types :: "string list"
  in_preferred_collector_ids :: "string list"
  in_required_authority :: authority
  in_maximum_age_seconds :: "int option"
  in_cost_class :: cost_class
  in_risk_class :: risk_class
  in_stopping_condition :: stopping_condition
  in_metadata :: fields

record collector =
  cl_id :: string
  cl_title :: string
  cl_description :: string
  cl_questions_answered :: "string list"
  cl_fact_types :: "string list"
  cl_supported_modes :: "string set"
  cl_required_capabilities :: "string set"
  cl_supported_entity_types :: "string set"
  cl_supported_planes :: "string set"
  cl_required_inputs :: "string set"
  cl_handler_id :: string
  cl_authority :: authority
  cl_cost_class :: cost_class
  cl_risk_class :: risk_class
  cl_estimated_duration_seconds :: "int option"
  cl_metadata :: fields

record evidence_fact =
  evf_id :: string
  evf_type :: string
  evf_statement :: msg
  evf_value :: json
  evf_subject_ids :: "string list"
  evf_intent_id :: "string option"
  evf_collector_id :: string
  evf_observed_at_iso :: string
  evf_authority :: authority
  evf_freshness_seconds :: int
  evf_source_artifact_ids :: "string list"
  evf_attributes :: fields

record plan_step =
  st_id :: string
  st_collector_id :: string
  st_intent_id :: string
  st_subject_ids :: "string list"
  st_questions_answered :: "string list"
  st_expected_fact_types :: "string list"
  st_rationale :: string
  st_score :: rat
  st_dependencies :: "string list"

record collection_plan =
  pl_id :: string
  pl_incident_id :: "string option"
  pl_environment_id :: string
  pl_snapshot_id :: string
  pl_created_at_iso :: string
  pl_intents :: "evidence_intent list"
  pl_steps :: "plan_step list"
  pl_unresolved_intent_ids :: "string list"
  pl_estimated_cost_score :: rat
  pl_metadata :: fields

section \<open>Symptoms, causes and hypotheses\<close>

datatype causal_role = Role_Initial | Role_Upstream | Role_Downstream | Role_Unknown

record symptom =
  sy_id :: string
  sy_type :: string
  sy_statement :: msg
  sy_subject_ids :: "string list"
  sy_invariant_id :: "string option"
  sy_invariant_family :: "invariant_family option"
  sy_health_status :: "health_status option"
  sy_causal_role :: causal_role
  sy_confidence :: rat
  sy_evidence_ids :: "string list"
  sy_first_observed_at_seconds :: "int option"
  sy_metadata :: fields

record causal_template =
  ct_id :: string
  ct_family_id :: string
  ct_title :: string
  ct_claim_template :: string
  ct_parent_family_id :: "string option"
  ct_invariant_families :: "invariant_family set"
  ct_symptom_types :: "string set"
  ct_supporting_fact_types :: "string set"
  ct_contradicting_fact_types :: "string set"
  ct_predicted_fact_types :: "string set"
  ct_evidence_intent_ids :: "string list"
  ct_specificity :: nat
  ct_generic :: bool
  ct_metadata :: fields

datatype causal_relation =
    Rel_Causes | Rel_Explains | Rel_Propagates_To | Rel_Contradicts | Rel_Supports | Rel_Rules_Out | Rel_Requires_Probe

record causal_edge =
  ce_id :: string
  ce_source_id :: string
  ce_target_id :: string
  ce_relation :: causal_relation
  ce_statement :: msg
  ce_confidence :: rat
  ce_evidence_ids :: "string list"

datatype hypothesis_status =
    Hyp_Candidate | Hyp_Supported | Hyp_Proven | Hyp_Contradicted | Hyp_Ruled_Out | Hyp_Unresolved

fun hypothesis_value :: "hypothesis_status \<Rightarrow> string" where
  "hypothesis_value Hyp_Candidate = ''candidate''"
| "hypothesis_value Hyp_Supported = ''supported''"
| "hypothesis_value Hyp_Proven = ''proven''"
| "hypothesis_value Hyp_Contradicted = ''contradicted''"
| "hypothesis_value Hyp_Ruled_Out = ''ruled_out''"
| "hypothesis_value Hyp_Unresolved = ''unresolved''"

record hypothesis =
  hy_id :: string
  hy_family_id :: string
  hy_claim :: string
  hy_template_id :: "string option"
  hy_parent_id :: "string option"
  hy_subject_ids :: "string list"
  hy_status :: hypothesis_status
  hy_confidence :: rat
  hy_explains_symptom_ids :: "string list"
  hy_unexplained_symptom_ids :: "string list"
  hy_supporting_evidence_ids :: "string list"
  hy_contradicting_evidence_ids :: "string list"
  hy_required_probe_ids :: "string list"
  hy_predictions :: "string list"
  hy_score_components :: "(string, rat) dict"
  hy_metadata :: fields

section \<open>Probes\<close>

datatype probe_status = Probe_Recommended | Probe_Running | Probe_Completed | Probe_Skipped | Probe_Unavailable

record probe_intent =
  pr_id :: string
  pr_title :: string
  pr_evidence_intent_id :: string
  pr_applicable_hypothesis_ids :: "string list"
  pr_discriminates_hypothesis_ids :: "string list"
  pr_candidate_collector_ids :: "string list"
  pr_expected_outcomes :: "(string, string list) dict"
  pr_preconditions :: "string list"
  pr_rationale :: string
  pr_information_gain_score :: rat
  pr_cost_score :: rat
  pr_risk_class :: risk_class
  pr_estimated_duration_seconds :: "int option"
  pr_status :: probe_status
  pr_metadata :: fields

record probe_plan =
  pp_id :: string
  pp_incident_id :: string
  pp_created_at_iso :: string
  pp_probes :: "probe_intent list"
  pp_stopping_reason :: "string option"
  pp_evidence_budget :: "int option"
  pp_metadata :: fields

datatype collector_status = Coll_Completed | Coll_Partial | Coll_Failed | Coll_Skipped

record collector_run =
  cru_id :: string
  cru_step_id :: string
  cru_collector_id :: string
  cru_intent_id :: string
  cru_status :: collector_status
  cru_started_at_iso :: string
  cru_completed_at_iso :: string
  cru_evidence :: "evidence_fact list"
  cru_errors :: "string list"
  cru_metadata :: fields

record probe_run =
  pu_id :: string
  pu_incident_id :: string
  pu_probe :: probe_intent
  pu_collection_plan :: collection_plan
  pu_collector_results :: "collector_run list"
  pu_evidence_ids :: "string list"
  pu_status :: collector_status
  pu_started_at_iso :: string
  pu_completed_at_iso :: string
  pu_hypothesis_changes :: fields
  pu_metadata :: fields

section \<open>Certificates and incidents\<close>

datatype certificate_verdict =
    Root_Cause_Identified | Failure_Class_Identified | Partial_Causal_Chain | Multiple_Plausible_Causes
  | Insufficient_Evidence | Unknown_Semantics

record diagnosis_certificate =
  dc_id :: string
  dc_incident_id :: string
  dc_issued_at_iso :: "string option"
  dc_violated_invariant_ids :: "string list"
  dc_causal_chain :: "msg list"
  dc_causal_edges :: "causal_edge list"
  dc_root_cause_ids :: "string list"
  dc_ruled_out_ids :: "string list"
  dc_unresolved_ids :: "string list"
  dc_unresolved_questions :: "string list"
  dc_evidence_ids :: "string list"
  dc_status :: certificate_verdict
  dc_confidence :: rat
  dc_nearest_family_ids :: "string list"
  dc_metadata :: fields

fun verdict_value :: "certificate_verdict \<Rightarrow> string" where
  "verdict_value Root_Cause_Identified = ''root_cause_identified''"
| "verdict_value Failure_Class_Identified = ''failure_class_identified''"
| "verdict_value Partial_Causal_Chain = ''partial_causal_chain''"
| "verdict_value Multiple_Plausible_Causes = ''multiple_plausible_causes''"
| "verdict_value Insufficient_Evidence = ''insufficient_evidence''"
| "verdict_value Unknown_Semantics = ''unknown_semantics''"

datatype incident_status =
    Incident_Open | Incident_Investigating | Incident_Diagnosed | Incident_Insufficient | Incident_Closed

fun incident_value :: "incident_status \<Rightarrow> string" where
  "incident_value Incident_Open = ''open''"
| "incident_value Incident_Investigating = ''investigating''"
| "incident_value Incident_Diagnosed = ''diagnosed''"
| "incident_value Incident_Insufficient = ''insufficient_evidence''"
| "incident_value Incident_Closed = ''closed''"

record timeline_entry =
  tn_sequence :: nat
  tn_occurred_at_iso :: string
  tn_event_type :: string
  tn_title :: string
  tn_subject_ids :: "string list"
  tn_artifact_ids :: "string list"
  tn_details :: fields

record incident =
  ic_id :: string
  ic_environment_id :: string
  ic_snapshot_id :: string
  ic_profile_id :: string
  ic_title :: string
  ic_initial_symptom :: msg
  ic_status :: incident_status
  ic_created_at_iso :: string
  ic_updated_at_iso :: string
  ic_assessment_id :: "string option"
  ic_violated_ids :: "string list"
  ic_symptoms :: "symptom list"
  ic_evidence :: "evidence_fact list"
  ic_hypotheses :: "hypothesis list"
  ic_probe_plan :: "probe_plan option"
  ic_probe_runs :: "probe_run list"
  ic_causal_edges :: "causal_edge list"
  ic_timeline :: "timeline_entry list"
  ic_certificate :: "diagnosis_certificate option"
  ic_metadata :: fields

definition check_symptom :: "string set \<Rightarrow> symptom \<Rightarrow> unit res" where
  "check_symptom evidence_ids s =
     (let missing = set (sy_evidence_ids s) - evidence_ids in
      if missing \<noteq> {}
      then raise ValueError (''symptom '' @ sy_id s @ '' references unknown evidence '' @ repr_strs (sorted_set missing))
      else Inr ())"

definition check_hypothesis :: "string set \<Rightarrow> string set \<Rightarrow> string set \<Rightarrow> hypothesis \<Rightarrow> unit res" where
  "check_hypothesis evidence_ids symptom_ids hypothesis_ids h =
     (let missing_symptoms = set (hy_explains_symptom_ids h) - symptom_ids;
          missing_evidence = (set (hy_supporting_evidence_ids h) \<union> set (hy_contradicting_evidence_ids h)) - evidence_ids
      in if missing_symptoms \<noteq> {}
         then raise ValueError (''hypothesis '' @ hy_id h @ '' references unknown symptoms '' @
           repr_strs (sorted_set missing_symptoms))
         else if missing_evidence \<noteq> {}
         then raise ValueError (''hypothesis '' @ hy_id h @ '' references unknown evidence '' @
           repr_strs (sorted_set missing_evidence))
         else (case hy_parent_id h of
                 Some (c # p) \<Rightarrow>
                   if c # p \<notin> hypothesis_ids
                   then raise ValueError (''hypothesis '' @ hy_id h @ '' references unknown parent '' @ c # p)
                   else Inr ()
               | _ \<Rightarrow> Inr ()))"

definition validate_incident :: "incident \<Rightarrow> incident res" where
  "validate_incident i =
     (let evidence_ids = set (map evf_id (ic_evidence i)); symptom_ids = set (map sy_id (ic_symptoms i));
          hypothesis_ids = set (map hy_id (ic_hypotheses i))
      in res_bind (res_map (check_symptom evidence_ids) (ic_symptoms i)) (\<lambda>_.
         res_bind (res_map (check_hypothesis evidence_ids symptom_ids hypothesis_ids) (ic_hypotheses i)) (\<lambda>_.
           Inr i)))"

section \<open>The catalogue\<close>

record diagnostic_catalog =
  dx_intents :: "evidence_intent registry"
  dx_collectors :: "collector registry"
  dx_templates :: "causal_template registry"

definition new_diagnostic_catalog :: diagnostic_catalog where
  "new_diagnostic_catalog = \<lparr>dx_intents = new_registry ''evidence intents'',
     dx_collectors = new_registry ''collectors'', dx_templates = new_registry ''causal templates''\<rparr>"

definition register_intent :: "evidence_intent \<Rightarrow> bool \<Rightarrow> diagnostic_catalog \<Rightarrow> diagnostic_catalog res" where
  "register_intent i replace c =
     res_bind (reg_register (in_id i) i replace (dx_intents c)) (\<lambda>r. Inr (c\<lparr>dx_intents := r\<rparr>))"

definition register_collector :: "collector \<Rightarrow> bool \<Rightarrow> diagnostic_catalog \<Rightarrow> diagnostic_catalog res" where
  "register_collector d replace c =
     res_bind (reg_register (cl_id d) d replace (dx_collectors c)) (\<lambda>r. Inr (c\<lparr>dx_collectors := r\<rparr>))"

definition register_template :: "causal_template \<Rightarrow> bool \<Rightarrow> diagnostic_catalog \<Rightarrow> diagnostic_catalog res" where
  "register_template t replace c =
     res_bind (reg_register (ct_id t) t replace (dx_templates c)) (\<lambda>r. Inr (c\<lparr>dx_templates := r\<rparr>))"

definition catalog_intent :: "diagnostic_catalog \<Rightarrow> string \<Rightarrow> evidence_intent res" where
  "catalog_intent c i = reg_get (dx_intents c) i"

definition catalog_collector :: "diagnostic_catalog \<Rightarrow> string \<Rightarrow> collector res" where
  "catalog_collector c i = reg_get (dx_collectors c) i"

definition catalog_template :: "diagnostic_catalog \<Rightarrow> string \<Rightarrow> causal_template res" where
  "catalog_template c i = reg_get (dx_templates c) i"

definition catalog_intents :: "diagnostic_catalog \<Rightarrow> evidence_intent list" where
  "catalog_intents c = reg_values (dx_intents c)"

definition catalog_collectors :: "diagnostic_catalog \<Rightarrow> collector list" where
  "catalog_collectors c = reg_values (dx_collectors c)"

definition catalog_templates :: "diagnostic_catalog \<Rightarrow> causal_template list" where
  "catalog_templates c = reg_values (dx_templates c)"

definition templates_for_family :: "diagnostic_catalog \<Rightarrow> invariant_family \<Rightarrow> causal_template list" where
  "templates_for_family c f = filter (\<lambda>t. f \<in> ct_invariant_families t) (catalog_templates c)"

section \<open>Valid incidents\<close>

lemma validate_incident_iff:
  "validate_incident i = Inr i \<longleftrightarrow>
     (\<forall>s \<in> set (ic_symptoms i). set (sy_evidence_ids s) \<subseteq> evf_id ` set (ic_evidence i)) \<and>
     (\<forall>h \<in> set (ic_hypotheses i). set (hy_explains_symptom_ids h) \<subseteq> sy_id ` set (ic_symptoms i) \<and>
        set (hy_supporting_evidence_ids h) \<union> set (hy_contradicting_evidence_ids h) \<subseteq> evf_id ` set (ic_evidence i) \<and>
        (\<forall>p. hy_parent_id h = Some p \<and> p \<noteq> [] \<longrightarrow> p \<in> hy_id ` set (ic_hypotheses i)))"
proof -
  have all: "(\<exists>ys. res_map f xs = Inr ys) \<longleftrightarrow> (\<forall>x \<in> set xs. f x = Inr ())" for f :: "'b \<Rightarrow> unit res" and xs
    by (induction xs) (auto split: sum.splits)
  have s: "check_symptom ev s = Inr () \<longleftrightarrow> set (sy_evidence_ids s) \<subseteq> ev" for ev s
    by (auto simp: check_symptom_def Let_def)
  have h: "check_hypothesis ev sy hs h = Inr () \<longleftrightarrow> set (hy_explains_symptom_ids h) \<subseteq> sy \<and>
      set (hy_supporting_evidence_ids h) \<union> set (hy_contradicting_evidence_ids h) \<subseteq> ev \<and>
      (\<forall>p. hy_parent_id h = Some p \<and> p \<noteq> [] \<longrightarrow> p \<in> hs)" for ev sy hs h
    by (auto simp: check_hypothesis_def Let_def neq_Nil_conv split: option.splits list.splits)
  show ?thesis
    unfolding s [symmetric] h [symmetric] set_map [symmetric] all [symmetric]
    by (auto simp: validate_incident_def Let_def res_bind_eq_Inr_iff)
qed

end
