(* ===== verification/Packs.thy ===== *)
theory Packs
  imports Versioning Diagnosis_IR Health Lifecycle Dependency_Graph
begin

text \<open>
  Knowledge packs (\<open>models/pack.py\<close>), the verification of their signatures (\<open>models/security.py\<close>,
  \<open>supply_chain/signing.py\<close>) and the pack manager (\<open>packs/manager.py\<close>): registration, validation and the
  resolution of requested packs to an order and a set of active ones. Content hashes, dumps and the two
  cryptographic checks are arguments. Sets of strings are read in sorted order.
\<close>

section \<open>Manifests\<close>

datatype pack_kind = Pack_Core | Pack_Provider | Pack_Platform | Pack_Application | Pack_Integration

datatype pack_state =
    Pack_Discovered | Pack_Resolved | Pack_Active | Pack_Incompatible | Pack_Blocked | Pack_Disabled

record pack_dependency =
  pdp_id :: string
  pdp_constraint :: string
  pdp_optional :: bool
  pdp_reason :: string

record pack_compatibility =
  pcm_kubeops :: string
  pcm_kubernetes :: "string option"
  pcm_python :: string
  pcm_provider_constraints :: "(string, string) dict"
  pcm_operating_systems :: "string set"
  pcm_architectures :: "string set"

record classifier_rule =
  ecl_id :: string
  ecl_priority :: int
  ecl_resource_kinds :: "string set"
  ecl_namespaces :: "string set"
  ecl_name_regex :: "string option"
  ecl_label_equals :: "(string, string) dict"
  ecl_annotation_equals :: "(string, string) dict"
  ecl_set_entity_type :: "string option"
  ecl_set_plane :: "string option"
  ecl_set_provider :: "string option"
  ecl_add_capabilities :: "string set"
  ecl_extension_namespace :: "string option"
  ecl_extension_values :: fields

datatype resolver_handler = Annotation_Reference | Label_Group | Named_Kubernetes_Resource | Component_Dependency

record resolver_rule =
  rrl_id :: string
  rrl_handler :: resolver_handler
  rrl_relationship_type :: string
  rrl_source_entity_types :: "string set"
  rrl_target_entity_types :: "string set"
  rrl_annotation_key :: "string option"
  rrl_label_key :: "string option"
  rrl_target_kind :: "string option"
  rrl_target_namespace :: "string option"
  rrl_target_name :: "string option"
  rrl_confidence :: rat
  rrl_contract :: fields
  rrl_propagation :: fields

record redaction_rule =
  rdr_id :: string
  rdr_path_patterns :: "string list"
  rdr_key_patterns :: "string list"
  rdr_replacement :: string
  rdr_resource_kinds :: "string set"
  rdr_rationale :: string

datatype support_level =
    Representable | Detectable | Diagnosable | Support_Guidance | Executable | Support_Verified

fun support_value :: "support_level \<Rightarrow> string" where
  "support_value Representable = ''representable''"
| "support_value Detectable = ''detectable''"
| "support_value Diagnosable = ''diagnosable''"
| "support_value Support_Guidance = ''guidance''"
| "support_value Executable = ''executable''"
| "support_value Support_Verified = ''verified''"

record scenario_coverage =
  psc_family_ids :: "string set"
  psc_invariant_families :: "string set"
  psc_disturbance_mechanisms :: "string set"
  psc_topology_patterns :: "string set"
  psc_support_level :: support_level

record pack_contributions =
  pcb_entity_classifiers :: "classifier_rule list"
  pcb_relationship_resolvers :: "resolver_rule list"
  pcb_operational_profiles :: "profile_spec list"
  pcb_evidence_intents :: "evidence_intent list"
  pcb_collectors :: "collector list"
  pcb_causal_templates :: "causal_template list"
  pcb_action_types :: "action_type list"
  pcb_lifecycle_profiles :: "lifecycle_profile list"
  pcb_verification_templates :: "verification_condition list"
  pcb_redaction_rules :: "redaction_rule list"
  pcb_scenario_coverage :: "scenario_coverage list"

definition contribution_counts :: "pack_contributions \<Rightarrow> (string, nat) dict" where
  "contribution_counts c =
     [(''entity_classifiers'', length (pcb_entity_classifiers c)),
      (''relationship_resolvers'', length (pcb_relationship_resolvers c)),
      (''operational_profiles'', length (pcb_operational_profiles c)),
      (''evidence_intents'', length (pcb_evidence_intents c)),
      (''collectors'', length (pcb_collectors c)),
      (''causal_templates'', length (pcb_causal_templates c)),
      (''action_types'', length (pcb_action_types c)),
      (''lifecycle_profiles'', length (pcb_lifecycle_profiles c)),
      (''verification_templates'', length (pcb_verification_templates c)),
      (''redaction_rules'', length (pcb_redaction_rules c)),
      (''scenario_coverage'', length (pcb_scenario_coverage c))]"

record pack_manifest =
  pkm_id :: string
  pkm_version :: string
  pkm_title :: string
  pkm_kind :: pack_kind
  pkm_description :: string
  pkm_api_version :: string
  pkm_priority :: int
  pkm_dependencies :: "pack_dependency list"
  pkm_conflicts_with :: "string set"
  pkm_compatibility :: pack_compatibility
  pkm_capabilities :: "string set"
  pkm_supported_entity_types :: "string set"
  pkm_contributions :: pack_contributions
  pkm_metadata :: fields

definition validate_manifest :: "pack_manifest \<Rightarrow> pack_manifest res" where
  "validate_manifest m =
     (let ids = map pdp_id (pkm_dependencies m) in
      if pkm_id m \<in> set ids then raise ValueError ''a pack cannot depend on itself''
      else if \<not> distinct ids then raise ValueError ''pack dependencies must be unique''
      else if pkm_id m \<in> pkm_conflicts_with m then raise ValueError ''a pack cannot conflict with itself''
      else Inr m)"

datatype issue_severity = Issue_Info | Issue_Warning | Issue_Error

record pack_issue =
  pvi_code :: string
  pvi_severity :: issue_severity
  pvi_message :: string
  pvi_pack_id :: "string option"
  pvi_contribution_id :: "string option"
  pvi_details :: fields

definition pack_error :: "string \<Rightarrow> string \<Rightarrow> string option \<Rightarrow> pack_issue" where
  "pack_error code text pack =
     \<lparr>pvi_code = code, pvi_severity = Issue_Error, pvi_message = text, pvi_pack_id = pack,
      pvi_contribution_id = None, pvi_details = []\<rparr>"

record pack_status =
  pst_id :: string
  pst_version :: string
  pst_state :: pack_state
  pst_source :: string
  pst_enabled :: bool
  pst_resolved_dependencies :: "string list"
  pst_contribution_counts :: "(string, nat) dict"
  pst_issues :: "pack_issue list"
  pst_manifest_hash :: string
  pst_trust_outcome :: "string option"
  pst_signature_id :: "string option"

record pack_resolution =
  prs_id :: string
  prs_created_at_iso :: string
  prs_requested :: "string list"
  prs_ordered :: "string list"
  prs_active :: "string list"
  prs_blocked :: "string list"
  prs_statuses :: "pack_status list"
  prs_issues :: "pack_issue list"
  prs_contribution_counts :: "(string, nat) dict"

section \<open>Signatures\<close>

datatype scheme = Hmac_Sha256 | Ed25519

fun scheme_value :: "scheme \<Rightarrow> string" where
  "scheme_value Hmac_Sha256 = ''hmac-sha256''"
| "scheme_value Ed25519 = ''ed25519''"

record pack_signature =
  psg_id :: string
  psg_pack_id :: string
  psg_pack_version :: string
  psg_manifest_hash :: string
  psg_scheme :: scheme
  psg_key_id :: string
  psg_signature :: string
  psg_signed_at_iso :: string
  psg_signer :: string
  psg_metadata :: fields

record trust_policy =
  ptp_id :: string
  ptp_organization_id :: string
  ptp_workspace_id :: string
  ptp_require_signature :: bool
  ptp_allowed_schemes :: "string set"
  ptp_require_asymmetric :: bool
  ptp_trusted_key_ids :: "string set"
  ptp_trusted_signers :: "string set"
  ptp_allow_unsigned :: "string set"
  ptp_metadata :: fields

datatype trust_outcome = Trusted | Untrusted | Unsigned | Invalid

fun outcome_value :: "trust_outcome \<Rightarrow> string" where
  "outcome_value Trusted = ''trusted''"
| "outcome_value Untrusted = ''untrusted''"
| "outcome_value Unsigned = ''unsigned''"
| "outcome_value Invalid = ''invalid''"

record verification =
  pvf_id :: string
  pvf_pack_id :: string
  pvf_pack_version :: string
  pvf_manifest_hash :: string
  pvf_outcome :: trust_outcome
  pvf_signature_id :: "string option"
  pvf_key_id :: "string option"
  pvf_reasons :: "string list"
  pvf_verified_at_iso :: string
  pvf_metadata :: fields

text \<open>What the cryptographic libraries and the serialization do; \<open>pcr_check\<close> is the exception of an Ed25519
  verification, if it raises one.\<close>

record pack_env =
  pcr_hash :: "pack_manifest \<Rightarrow> string"
  pcr_hmac :: "string \<Rightarrow> string \<Rightarrow> string"
  pcr_sign :: "string \<Rightarrow> string \<Rightarrow> string res"
  pcr_check :: "string \<Rightarrow> string \<Rightarrow> string \<Rightarrow> string option"
  pcr_dump :: "verification \<Rightarrow> fields"
  pcr_fresh :: "string \<Rightarrow> string"
  pcr_now :: string

definition sign_pack :: "pack_env \<Rightarrow> pack_manifest \<Rightarrow> string \<Rightarrow> string \<Rightarrow> string \<Rightarrow> string \<Rightarrow> pack_signature res" where
  "sign_pack V m key_id secret signer scheme =
     (let payload = pcr_hash V m;
          sealed = (\<lambda>sch text. \<lparr>psg_id = ''pack-signature:'' @ pcr_fresh V (pkm_id m), psg_pack_id = pkm_id m,
            psg_pack_version = pkm_version m, psg_manifest_hash = pcr_hash V m, psg_scheme = sch, psg_key_id = key_id,
            psg_signature = text, psg_signed_at_iso = pcr_now V, psg_signer = signer,
            psg_metadata = []\<rparr>)
      in if scheme = ''hmac-sha256'' then Inr (sealed Hmac_Sha256 (pcr_hmac V secret payload))
         else if scheme = ''ed25519'' then res_bind (pcr_sign V secret payload) (\<lambda>text. Inr (sealed Ed25519 text))
         else raise ValueError (''unsupported pack signature scheme '' @ repr_str scheme))"

text \<open>\<open>hmac.compare_digest\<close> refuses texts that are not ASCII.\<close>

definition compare_digest :: "string \<Rightarrow> string \<Rightarrow> bool res" where
  "compare_digest a b =
     (if \<forall>c \<in> set (a @ b). (of_char c :: nat) < 128 then Inr (a = b)
      else raise TypeError ''comparing strings with non-ASCII characters is not supported'')"

definition policy_reasons :: "trust_policy \<Rightarrow> string \<Rightarrow> pack_signature \<Rightarrow> string list" where
  "policy_reasons p h g =
     (if scheme_value (psg_scheme g) \<notin> ptp_allowed_schemes p
        then [''signature scheme '' @ scheme_value (psg_scheme g) @ '' is not allowed''] else []) @
     (if ptp_require_asymmetric p \<and> psg_scheme g \<noteq> Ed25519
        then [''policy requires an asymmetric signature scheme''] else []) @
     (if ptp_trusted_key_ids p \<noteq> {} \<and> psg_key_id g \<notin> ptp_trusted_key_ids p
        then [''key '' @ psg_key_id g @ '' is not trusted''] else []) @
     (if ptp_trusted_signers p \<noteq> {} \<and> psg_signer g \<notin> ptp_trusted_signers p
        then [''signer '' @ psg_signer g @ '' is not trusted''] else []) @
     (if psg_manifest_hash g \<noteq> h then [''signature manifest hash does not match current manifest''] else [])"

definition check_reasons ::
    "pack_env \<Rightarrow> (string, string) dict \<Rightarrow> (string, string) dict \<Rightarrow> string \<Rightarrow> pack_signature \<Rightarrow> string list res" where
  "check_reasons V secrets keys h g =
     (case psg_scheme g of
        Hmac_Sha256 \<Rightarrow> (case dget secrets (psg_key_id g) of
            None \<Rightarrow> Inr [''trusted HMAC verification material is unavailable'']
          | Some secret \<Rightarrow> res_bind (compare_digest (psg_signature g) (pcr_hmac V secret h)) (\<lambda>same.
              Inr (if same then [] else [''signature is invalid''])))
      | Ed25519 \<Rightarrow> (case dget keys (psg_key_id g) of
            None \<Rightarrow> Inr [''trusted Ed25519 public key is unavailable'']
          | Some key \<Rightarrow> Inr (case pcr_check V key (psg_signature g) h of
              None \<Rightarrow> [] | Some e \<Rightarrow> [''signature is invalid: '' @ e])))"

definition verify_pack ::
    "pack_env \<Rightarrow> pack_manifest \<Rightarrow> pack_signature option \<Rightarrow> trust_policy \<Rightarrow> (string, string) dict \<Rightarrow> (string, string) dict \<Rightarrow>
     verification res" where
  "verify_pack V m given p secrets keys =
     (let h = pcr_hash V m;
          result = (\<lambda>outcome signature_id key_id reasons metadata.
            \<lparr>pvf_id = ''pack-verification:'' @ pcr_fresh V (pkm_id m), pvf_pack_id = pkm_id m,
             pvf_pack_version = pkm_version m, pvf_manifest_hash = h, pvf_outcome = outcome,
             pvf_signature_id = signature_id, pvf_key_id = key_id, pvf_reasons = reasons,
             pvf_verified_at_iso = pcr_now V, pvf_metadata = metadata\<rparr>)
      in case given of
        None \<Rightarrow> Inr (if pkm_id m \<in> ptp_allow_unsigned p \<or> \<not> ptp_require_signature p then result Trusted None None [] []
          else result Unsigned None None [''pack signature is required by policy''] [])
      | Some g \<Rightarrow>
          res_bind (if policy_reasons p h g = [] then check_reasons V secrets keys h g else Inr (policy_reasons p h g))
            (\<lambda>reasons. Inr (result (if reasons = [] then Trusted else Invalid) (Some (psg_id g)) (Some (psg_key_id g)) reasons
              [(''scheme'', JStr (scheme_value (psg_scheme g)))])))"

text \<open>When a pack is trusted.\<close>

definition authentic ::
    "pack_env \<Rightarrow> (string, string) dict \<Rightarrow> (string, string) dict \<Rightarrow> string \<Rightarrow> pack_signature \<Rightarrow> bool" where
  "authentic V secrets keys h g \<longleftrightarrow>
     (case psg_scheme g of
        Hmac_Sha256 \<Rightarrow> (\<exists>secret. dget secrets (psg_key_id g) = Some secret \<and> psg_signature g = pcr_hmac V secret h)
      | Ed25519 \<Rightarrow> (\<exists>key. dget keys (psg_key_id g) = Some key \<and> pcr_check V key (psg_signature g) h = None))"

lemma check_reasons_empty: "check_reasons V secrets keys h g = Inr [] \<Longrightarrow> authentic V secrets keys h g"
  by (auto simp: check_reasons_def authentic_def compare_digest_def res_bind_eq_Inr_iff
      split: scheme.splits option.splits if_splits)

lemma verified_trusted:
  "(\<exists>r. verify_pack V m (Some g) p secrets keys = Inr r \<and> pvf_outcome r = Trusted) \<longleftrightarrow>
     policy_reasons p (pcr_hash V m) g = [] \<and> check_reasons V secrets keys (pcr_hash V m) g = Inr []"
  by (cases "check_reasons V secrets keys (pcr_hash V m) g") (auto simp: verify_pack_def Let_def)

theorem trusted_only_if:
  assumes "verify_pack V m given p secrets keys = Inr r" and "pvf_outcome r = Trusted"
  shows "case given of
      None \<Rightarrow> pkm_id m \<in> ptp_allow_unsigned p \<or> \<not> ptp_require_signature p
    | Some g \<Rightarrow> psg_manifest_hash g = pcr_hash V m \<and> scheme_value (psg_scheme g) \<in> ptp_allowed_schemes p \<and>
        (ptp_require_asymmetric p \<longrightarrow> psg_scheme g = Ed25519) \<and>
        (ptp_trusted_key_ids p \<noteq> {} \<longrightarrow> psg_key_id g \<in> ptp_trusted_key_ids p) \<and>
        (ptp_trusted_signers p \<noteq> {} \<longrightarrow> psg_signer g \<in> ptp_trusted_signers p) \<and>
        authentic V secrets keys (pcr_hash V m) g"
proof (cases given)
  case None
  with assms show ?thesis by (auto simp: verify_pack_def Let_def split: if_splits)
next
  case (Some g)
  with assms have "policy_reasons p (pcr_hash V m) g = []" "check_reasons V secrets keys (pcr_hash V m) g = Inr []"
    using verified_trusted by blast+
  then show ?thesis
    using check_reasons_empty by (auto simp: Some policy_reasons_def split: if_splits)
qed

text \<open>What is signed with a secret is trusted under a policy that knows it, whoever signed it.\<close>

theorem signed_pack_trusted:
  assumes "sign_pack V m key_id secret signer ''hmac-sha256'' = Inr g"
    and "dget secrets key_id = Some secret" and "\<forall>c \<in> set (pcr_hmac V secret (pcr_hash V m)). (of_char c :: nat) < 128"
    and "''hmac-sha256'' \<in> ptp_allowed_schemes p" "\<not> ptp_require_asymmetric p"
    and "ptp_trusted_key_ids p = {} \<or> key_id \<in> ptp_trusted_key_ids p"
    and "ptp_trusted_signers p = {} \<or> signer \<in> ptp_trusted_signers p"
  shows "\<exists>r. verify_pack V m (Some g) p secrets keys = Inr r \<and> pvf_outcome r = Trusted"
  using assms
  by (auto simp: sign_pack_def Let_def verify_pack_def policy_reasons_def check_reasons_def compare_digest_def)

text \<open>The signer is not covered by the signature: a trusted signature can be passed off as anybody's.\<close>

lemma signer_unauthenticated:
  assumes "verify_pack V m (Some g) p secrets keys = Inr r" "pvf_outcome r = Trusted" "x \<in> ptp_trusted_signers p"
  shows "\<exists>r'. verify_pack V m (Some (g\<lparr>psg_signer := x\<rparr>)) p secrets keys = Inr r' \<and> pvf_outcome r' = Trusted"
proof -
  have "policy_reasons p (pcr_hash V m) g = []" "check_reasons V secrets keys (pcr_hash V m) g = Inr []"
    using assms verified_trusted by blast+
  moreover have "check_reasons V secrets keys (pcr_hash V m) (g\<lparr>psg_signer := x\<rparr>) =
      check_reasons V secrets keys (pcr_hash V m) g"
    by (cases "psg_scheme g") (simp_all add: check_reasons_def cong: option.case_cong)
  ultimately have "policy_reasons p (pcr_hash V m) (g\<lparr>psg_signer := x\<rparr>) = []"
    "check_reasons V secrets keys (pcr_hash V m) (g\<lparr>psg_signer := x\<rparr>) = Inr []"
    using assms(3) by (auto simp: policy_reasons_def split: if_splits)
  then show ?thesis by (simp add: verified_trusted)
qed

end
