(* ===== verification/Pack_Manager.thy ===== *)
theory Pack_Manager
  imports Packs
begin

text \<open>
  The pack manager (\<open>packs/manager.py\<close>): registration, the validation of one pack against those installed, and
  the resolution of requested packs: their closure under installed dependencies, its order by rounds of packs
  whose dependencies are done, and the packs of it that become active. Shown: what holds of the active packs of
  every resolution, and that a cycle is reported exactly when there is one.
\<close>

record pack_manager =
  pmg_kubeops :: string
  pmg_kubernetes :: "string option"
  pmg_manifests :: "(string, pack_manifest) dict"
  pmg_sources :: "(string, string) dict"

definition new_pack_manager :: "string \<Rightarrow> string option \<Rightarrow> pack_manager" where
  "new_pack_manager kubeops kubernetes =
     \<lparr>pmg_kubeops = kubeops, pmg_kubernetes = kubernetes, pmg_manifests = [], pmg_sources = []\<rparr>"

definition register_pack :: "pack_env \<Rightarrow> pack_manifest \<Rightarrow> string \<Rightarrow> bool \<Rightarrow> pack_manager \<Rightarrow> pack_manager res" where
  "register_pack V m source replace M =
     (let stored = M\<lparr>pmg_manifests := dset (pkm_id m) m (pmg_manifests M),
        pmg_sources := dset (pkm_id m) source (pmg_sources M)\<rparr>
      in case dget (pmg_manifests M) (pkm_id m) of
          Some old \<Rightarrow>
            if replace then Inr stored
            else if pcr_hash V old \<noteq> pcr_hash V m
              then raise ValueError (''pack '' @ repr_str (pkm_id m) @ '' already registered with different content'')
            else Inr M
        | None \<Rightarrow> Inr stored)"

definition pack_values :: "pack_manager \<Rightarrow> pack_manifest list" where
  "pack_values M = List.map_filter (dget (pmg_manifests M)) (sort (map fst (pmg_manifests M)))"

definition get_pack :: "pack_manager \<Rightarrow> string \<Rightarrow> pack_manifest res" where
  "get_pack M i =
     (case dget (pmg_manifests M) i of Some m \<Rightarrow> Inr m | None \<Rightarrow> raise KeyError (''unknown knowledge pack '' @ repr_str i))"

definition pack_source :: "pack_manager \<Rightarrow> string \<Rightarrow> string res" where
  "pack_source M i = (case dget (pmg_sources M) i of Some s \<Rightarrow> Inr s | None \<Rightarrow> raise KeyError (repr_str i))"

section \<open>Validation\<close>

definition contribution_ids :: "pack_manifest \<Rightarrow> (string \<times> string) list" where
  "contribution_ids m =
     (let c = pkm_contributions m in
      map (\<lambda>x. (''entity_classifier'', ecl_id x)) (pcb_entity_classifiers c) @
      map (\<lambda>x. (''relationship_resolver'', rrl_id x)) (pcb_relationship_resolvers c) @
      map (\<lambda>x. (''operational_profile'', hp_id x)) (pcb_operational_profiles c) @
      map (\<lambda>x. (''evidence_intent'', in_id x)) (pcb_evidence_intents c) @
      map (\<lambda>x. (''collector'', cl_id x)) (pcb_collectors c) @
      map (\<lambda>x. (''causal_template'', ct_id x)) (pcb_causal_templates c) @
      map (\<lambda>x. (''action_type'', at_id x)) (pcb_action_types c) @
      map (\<lambda>x. (''lifecycle_profile'', lp_id x)) (pcb_lifecycle_profiles c) @
      map (\<lambda>x. (''verification_template'', vc_id x)) (pcb_verification_templates c) @
      map (\<lambda>x. (''redaction_rule'', rdr_id x)) (pcb_redaction_rules c))"

definition duplicate_issues :: "pack_manifest \<Rightarrow> pack_issue list" where
  "duplicate_issues m =
     map (\<lambda>(category, key). (pack_error ''duplicate_contribution''
         (''duplicate '' @ category @ '' contribution '' @ key) (Some (pkm_id m)))\<lparr>pvi_contribution_id := Some key\<rparr>)
       (filter (\<lambda>x. 1 < count_list (contribution_ids m) x) (dedup (contribution_ids m)))"

definition constraint_issue :: "string \<Rightarrow> string \<Rightarrow> string \<Rightarrow> string \<Rightarrow> string \<Rightarrow> pack_issue list res" where
  "constraint_issue code what version constraint i =
     res_bind (satisfies version (Some constraint)) (\<lambda>ok. Inr (if ok then []
       else [pack_error code (what @ version @ '' does not satisfy '' @ constraint) (Some i)]))"

definition kubernetes_issue :: "pack_manager \<Rightarrow> pack_manifest \<Rightarrow> string \<Rightarrow> pack_issue list res" where
  "kubernetes_issue M m i =
     (case (pmg_kubernetes M, pcm_kubernetes (pkm_compatibility m)) of
        (Some (v # vs), Some (k # ks)) \<Rightarrow>
          constraint_issue ''kubernetes_version_incompatible'' ''Kubernetes '' (v # vs) (k # ks) i
      | _ \<Rightarrow> Inr [])"

definition dependency_issue :: "pack_manager \<Rightarrow> string \<Rightarrow> pack_dependency \<Rightarrow> pack_issue list res" where
  "dependency_issue M i d =
     (case dget (pmg_manifests M) (pdp_id d) of
        None \<Rightarrow> Inr (if pdp_optional d then []
          else [pack_error ''missing_dependency'' (''required pack '' @ pdp_id d @ '' is not installed'') (Some i)])
      | Some m \<Rightarrow> constraint_issue ''dependency_version_incompatible'' (pdp_id d @ '' '') (pkm_version m) (pdp_constraint d) i)"

definition conflict_issues :: "pack_manifest \<Rightarrow> string set \<Rightarrow> string \<Rightarrow> pack_issue list" where
  "conflict_issues m scope i =
     map (\<lambda>c. (pack_error ''pack_conflict'' (''conflicts with selected pack '' @ c) (Some i))
         \<lparr>pvi_details := [(''conflicting_pack_id'', JStr c)]\<rparr>)
       (sorted_set (pkm_conflicts_with m \<inter> scope))"

definition validate_pack :: "pack_manager \<Rightarrow> string \<Rightarrow> string set option \<Rightarrow> pack_issue list res" where
  "validate_pack M i active =
     res_bind (get_pack M i) (\<lambda>m.
     res_bind (constraint_issue ''kubeops_version_incompatible'' ''KubeOps '' (pmg_kubeops M)
       (pcm_kubeops (pkm_compatibility m)) i) (\<lambda>a.
     res_bind (kubernetes_issue M m i) (\<lambda>b.
     res_bind (res_map (dependency_issue M i) (pkm_dependencies m)) (\<lambda>ds.
       Inr (a @ b @ concat ds @
         conflict_issues m (case active of None \<Rightarrow> fst ` set (pmg_manifests M) | Some s \<Rightarrow> s) i @
         duplicate_issues m)))))"

text \<open>The contributions of several packs under one identifier.\<close>

definition contribution_owners :: "pack_manager \<Rightarrow> string list \<Rightarrow> ((string \<times> string) \<times> string) list" where
  "contribution_owners M is =
     concat (map (\<lambda>i. case dget (pmg_manifests M) i of None \<Rightarrow> [] | Some m \<Rightarrow> map (\<lambda>c. (c, i)) (contribution_ids m)) is)"

definition collision_issues :: "((string \<times> string) \<times> string) list \<Rightarrow> string \<times> string \<Rightarrow> pack_issue list" where
  "collision_issues pairs c =
     (let owners = map snd (filter (\<lambda>x. fst x = c) pairs) in
      if length owners < 2 then []
      else map (\<lambda>i. (pack_error ''cross_pack_contribution_collision''
          (fst c @ '' contribution '' @ repr_str (snd c) @ '' is also provided by '' @
           repr_strs (sorted_set (set owners - {i}))) (Some i))
            \<lparr>pvi_contribution_id := Some (snd c),
             pvi_details := [(''category'', JStr (fst c)), (''owners'', JList (map JStr owners))]\<rparr>) owners)"

definition cross_pack_issues :: "pack_manager \<Rightarrow> string set \<Rightarrow> pack_issue list" where
  "cross_pack_issues M ids =
     (let pairs = contribution_owners M (sorted_set ids) in
      concat (map (collision_issues pairs) (sort_key fst (sort_key snd (dedup (map fst pairs))))))"

section \<open>Resolution\<close>

text \<open>The dependencies of a pack that are installed.\<close>

definition installed_dependencies :: "pack_manager \<Rightarrow> string \<Rightarrow> string list" where
  "installed_dependencies M i =
     (case dget (pmg_manifests M) i of None \<Rightarrow> []
      | Some m \<Rightarrow> filter (\<lambda>d. d \<in> fst ` set (pmg_manifests M)) (map pdp_id (pkm_dependencies m)))"

text \<open>The recursive \<open>include\<close>, with the packs still to include on a stack; all of them are installed.\<close>

function include_packs :: "pack_manager \<Rightarrow> string list \<Rightarrow> string set \<Rightarrow> string set" where
  "include_packs M [] seen = seen"
| "include_packs M (i # stack) seen =
     (if i \<in> seen \<or> i \<notin> fst ` set (pmg_manifests M) then include_packs M stack seen
      else include_packs M (installed_dependencies M i @ stack) (insert i seen))"
  by pat_completeness auto

termination
proof (relation "measures [\<lambda>(M, stack, seen). card (fst ` set (pmg_manifests M) - seen), \<lambda>(M, stack, seen). length stack]",
    goal_cases)
  case (3 M i stack seen)
  then have "fst ` set (pmg_manifests M) - insert i seen \<subset> fst ` set (pmg_manifests M) - seen" by auto
  then show ?case by (auto intro!: psubset_card_mono)
qed simp_all

definition pack_closure :: "pack_manager \<Rightarrow> string list \<Rightarrow> string set" where
  "pack_closure M requested = include_packs M requested {}"

definition closure_deps :: "pack_manager \<Rightarrow> string set \<Rightarrow> deps" where
  "closure_deps M closure =
     map (\<lambda>i. (i, {d \<in> set (installed_dependencies M i). d \<in> closure})) (sorted_set closure)"

definition pack_priority :: "pack_manager \<Rightarrow> string \<Rightarrow> int" where
  "pack_priority M i = (case dget (pmg_manifests M) i of None \<Rightarrow> 0 | Some m \<Rightarrow> pkm_priority m)"

definition ready_packs :: "pack_manager \<Rightarrow> deps \<Rightarrow> string list" where
  "ready_packs M remaining = sort_key (pack_priority M) (sort (map fst (filter (\<lambda>(k, s). s = {}) remaining)))"

definition drop_ready :: "string list \<Rightarrow> deps \<Rightarrow> deps" where
  "drop_ready ready remaining =
     map (\<lambda>(k, s). (k, s - set ready)) (filter (\<lambda>(k, s). k \<notin> set ready) remaining)"

lemma set_ready_packs: "set (ready_packs M remaining) = {k. (k, {}) \<in> set remaining}"
  by (force simp: ready_packs_def)

lemma drop_ready_shorter: "k \<in> set ready \<Longrightarrow> (k, s) \<in> set remaining \<Longrightarrow> length (drop_ready ready remaining) < length remaining"
  unfolding drop_ready_def length_map by (rule length_filter_less) auto

text \<open>The order of the packs, and those of a cycle or behind one.\<close>

function order_packs :: "pack_manager \<Rightarrow> deps \<Rightarrow> string list \<Rightarrow> string list \<times> string list" where
  "order_packs M remaining ordered =
     (let ready = ready_packs M remaining in
      if ready = [] then (ordered, sort (map fst remaining))
      else order_packs M (drop_ready ready remaining) (ordered @ ready))"
  by pat_completeness auto

termination
proof (relation "measure (\<lambda>(M, remaining, ordered). length remaining)", goal_cases)
  case (2 M remaining ordered ready)
  then have "hd ready \<in> set ready" by simp
  with 2 obtain k where "(k, {}) \<in> set remaining" "k \<in> set ready" using set_ready_packs [of M remaining] by blast
  then show ?case by (simp add: drop_ready_shorter)
qed simp

declare order_packs.simps [simp del]

record pack_trust =
  ptr_policy :: trust_policy
  ptr_signatures :: "(string, pack_signature) dict"
  ptr_secrets :: "(string, string) dict"
  ptr_keys :: "(string, string) dict"

definition trust_results :: "pack_env \<Rightarrow> pack_manager \<Rightarrow> pack_trust option \<Rightarrow> string set \<Rightarrow> (string, verification) dict res" where
  "trust_results V M trust closure =
     (case trust of
        None \<Rightarrow> Inr []
      | Some t \<Rightarrow> res_map (\<lambda>i. res_bind (get_pack M i) (\<lambda>m.
          res_bind (verify_pack V m (dget (ptr_signatures t) i) (ptr_policy t) (ptr_secrets t) (ptr_keys t)) (\<lambda>r.
            Inr (i, r)))) (sorted_set closure))"

definition trust_issues :: "pack_env \<Rightarrow> (string, verification) dict \<Rightarrow> pack_issue list" where
  "trust_issues V results =
     map (\<lambda>(i, r). (pack_error ''pack_untrusted'' (''pack trust verification returned '' @ outcome_value (pvf_outcome r) @
         '': '' @ repr_strs (pvf_reasons r)) (Some i))\<lparr>pvi_details := pcr_dump V r\<rparr>)
       (filter (\<lambda>(i, r). pvf_outcome r \<noteq> Trusted) results)"

definition is_error :: "pack_issue \<Rightarrow> bool" where
  "is_error x \<longleftrightarrow> pvi_severity x = Issue_Error"

definition issues_of :: "string \<Rightarrow> pack_issue list \<Rightarrow> pack_issue list" where
  "issues_of i = filter (\<lambda>x. pvi_pack_id x = Some i)"

definition current_issues ::
    "pack_manager \<Rightarrow> string set \<Rightarrow> pack_issue list \<Rightarrow> string list \<Rightarrow> string \<Rightarrow> pack_issue list res" where
  "current_issues M closure others blocked i =
     res_bind (validate_pack M i (Some closure)) (\<lambda>own.
     res_bind (get_pack M i) (\<lambda>m.
       Inr (own @ issues_of i others @
         (if \<exists>d \<in> set (pkm_dependencies m). pdp_id d \<in> set blocked \<and> \<not> pdp_optional d
          then [pack_error ''dependency_blocked'' ''one or more required dependencies are blocked'' (Some i)] else []))))"

fun activate_packs ::
    "pack_manager \<Rightarrow> string set \<Rightarrow> pack_issue list \<Rightarrow> string list \<Rightarrow> string list \<Rightarrow> string list \<Rightarrow> pack_issue list \<Rightarrow>
     (string list \<times> string list \<times> pack_issue list) res" where
  "activate_packs M closure others [] active blocked issues = Inr (active, blocked, issues)"
| "activate_packs M closure others (i # is) active blocked issues =
     res_bind (current_issues M closure others blocked i) (\<lambda>current.
       if list_ex is_error current then activate_packs M closure others is active (blocked @ [i]) (issues @ current)
       else activate_packs M closure others is (active @ [i]) blocked (issues @ current))"

definition summed_counts :: "(string, nat) dict list \<Rightarrow> (string, nat) dict" where
  "summed_counts cs =
     map (\<lambda>k. (k, sum_list (map (\<lambda>c. dget_default c k 0) cs))) (sorted_set (\<Union>c \<in> set cs. fst ` set c))"

definition pack_status_of ::
    "pack_env \<Rightarrow> pack_manager \<Rightarrow> string list \<Rightarrow> string list \<Rightarrow> pack_issue list \<Rightarrow> (string, verification) dict \<Rightarrow> string \<Rightarrow>
     pack_status res" where
  "pack_status_of V M ordered active issues results i =
     res_bind (get_pack M i) (\<lambda>m. res_bind (pack_source M i) (\<lambda>source.
       Inr \<lparr>pst_id = i, pst_version = pkm_version m, pst_state = (if i \<in> set active then Pack_Active else Pack_Blocked),
         pst_source = source, pst_enabled = True,
         pst_resolved_dependencies = filter (\<lambda>d. d \<in> set ordered) (map pdp_id (pkm_dependencies m)),
         pst_contribution_counts = contribution_counts (pkm_contributions m),
         pst_issues = filter (\<lambda>x. pvi_pack_id x \<in> {None, Some i}) issues, pst_manifest_hash = pcr_hash V m,
         pst_trust_outcome = map_option (outcome_value \<circ> pvf_outcome) (dget results i),
         pst_signature_id = Option.bind (dget results i) pvf_signature_id\<rparr>))"

definition resolution_of ::
    "pack_env \<Rightarrow> pack_manager \<Rightarrow> string list \<Rightarrow> string list \<Rightarrow> string list \<Rightarrow> string list \<Rightarrow> pack_issue list \<Rightarrow>
     (string, verification) dict \<Rightarrow> pack_resolution res" where
  "resolution_of V M requested ordered active blocked issues results =
     res_bind (res_map (pack_status_of V M ordered active issues results) ordered) (\<lambda>statuses.
     res_bind (res_map (get_pack M) active) (\<lambda>ms.
       Inr \<lparr>prs_id = ''pack-resolution:'' @ pcr_fresh V ''resolution'', prs_created_at_iso = pcr_now V,
         prs_requested = requested, prs_ordered = ordered, prs_active = active, prs_blocked = blocked,
         prs_statuses = statuses, prs_issues = issues,
         prs_contribution_counts = summed_counts (map (contribution_counts \<circ> pkm_contributions) ms)\<rparr>))"

definition resolve_packs ::
    "pack_env \<Rightarrow> pack_manager \<Rightarrow> string list option \<Rightarrow> pack_trust option \<Rightarrow> pack_resolution res" where
  "resolve_packs V M given trust =
     (let installed = fst ` set (pmg_manifests M);
          requested = (case given of Some (i # is) \<Rightarrow> i # is | _ \<Rightarrow> sort (map fst (pmg_manifests M)));
          unknown = sorted_set (set requested - installed)
      in if unknown \<noteq> [] then raise KeyError (''unknown requested packs: '' @ repr_strs unknown)
         else
           (let closure = pack_closure M requested;
                (ordered, cycle) = order_packs M (closure_deps M closure) []
            in if cycle \<noteq> [] then resolution_of V M requested ordered [] cycle
                 [pack_error ''dependency_cycle'' (''pack dependency cycle: '' @ repr_strs cycle) None] []
               else res_bind (trust_results V M trust closure) (\<lambda>results.
                 res_bind (activate_packs M closure (trust_issues V results @ cross_pack_issues M closure) ordered [] [] [])
                   (\<lambda>(active, blocked, issues). resolution_of V M requested ordered active blocked issues results))))"

record pack_runtime =
  prt_resolution :: pack_resolution
  prt_manifests :: "pack_manifest list"

definition pack_runtime_of ::
    "pack_env \<Rightarrow> pack_manager \<Rightarrow> string list option \<Rightarrow> pack_trust option \<Rightarrow> pack_runtime res" where
  "pack_runtime_of V M given trust =
     res_bind (resolve_packs V M given trust) (\<lambda>r.
     res_bind (res_map (get_pack M) (prs_active r)) (\<lambda>ms. Inr \<lparr>prt_resolution = r, prt_manifests = ms\<rparr>))"

section \<open>The closure\<close>

definition depends :: "pack_manager \<Rightarrow> (string \<times> string) set" where
  "depends M = {(i, d). d \<in> set (installed_dependencies M i)}"

text \<open>What the closure computes: the packs reached from the requested ones.\<close>

lemma include_packs_grows:
  "set stack \<subseteq> fst ` set (pmg_manifests M) \<Longrightarrow> seen \<union> set stack \<subseteq> include_packs M stack seen"
proof (induction M stack seen rule: include_packs.induct)
  case (2 M i stack seen)
  have "set (installed_dependencies M i @ stack) \<subseteq> fst ` set (pmg_manifests M)"
    using 2(3) by (auto simp: installed_dependencies_def split: option.splits)
  with 2 show ?case by (cases "i \<in> seen") auto
qed simp

lemma include_packs_closed:
  "set stack \<subseteq> fst ` set (pmg_manifests M) \<Longrightarrow> depends M `` seen \<subseteq> seen \<union> set stack \<Longrightarrow>
     depends M `` include_packs M stack seen \<subseteq> include_packs M stack seen"
proof (induction M stack seen rule: include_packs.induct)
  case (2 M i stack seen)
  show ?case
  proof (cases "i \<in> seen")
    case True
    with 2(1,3,4) show ?thesis by (simp add: insert_absorb)
  next
    case False
    have "set (installed_dependencies M i @ stack) \<subseteq> fst ` set (pmg_manifests M)"
      using 2(3) by (auto simp: installed_dependencies_def split: option.splits)
    moreover have "depends M `` insert i seen \<subseteq> insert i seen \<union> set (installed_dependencies M i @ stack)"
      using 2(4) by (auto simp: depends_def)
    ultimately show ?thesis using 2(2,3) False by simp
  qed
qed simp

lemma include_packs_reached:
  "include_packs M stack seen \<subseteq> seen \<union> (depends M)\<^sup>* `` set stack"
proof (induction M stack seen rule: include_packs.induct)
  case (2 M i stack seen)
  have "(depends M)\<^sup>* `` set (installed_dependencies M i @ stack) \<subseteq> (depends M)\<^sup>* `` set (i # stack)"
    by (auto simp: depends_def intro: converse_rtrancl_into_rtrancl)
  moreover have "(depends M)\<^sup>* `` set stack \<subseteq> (depends M)\<^sup>* `` set (i # stack)" "i \<in> (depends M)\<^sup>* `` set (i # stack)"
    by auto
  ultimately show ?case
    using 2 by (cases "i \<in> seen \<or> i \<notin> fst ` set (pmg_manifests M)") (simp_all, blast+)
qed simp

lemma pack_closure_exact:
  assumes "set requested \<subseteq> fst ` set (pmg_manifests M)"
  shows "pack_closure M requested = (depends M)\<^sup>* `` set requested"
proof -
  let ?C = "pack_closure M requested"
  have "set requested \<subseteq> ?C" "depends M `` ?C \<subseteq> ?C" "?C \<subseteq> (depends M)\<^sup>* `` set requested"
    using include_packs_grows [OF assms, of "{}"] include_packs_closed [OF assms, of "{}"]
      include_packs_reached [of M requested "{}"] by (simp_all add: pack_closure_def)
  moreover from this have "(depends M)\<^sup>* `` set requested \<subseteq> ?C"
    by (metis Image_closed_trancl Image_mono order_refl)
  ultimately show ?thesis by blast
qed

lemma depends_installed: "(i, d) \<in> depends M \<Longrightarrow> d \<in> fst ` set (pmg_manifests M)"
  by (auto simp: depends_def installed_dependencies_def split: option.splits)

lemma pack_closure_installed:
  assumes "set requested \<subseteq> fst ` set (pmg_manifests M)"
  shows "pack_closure M requested \<subseteq> fst ` set (pmg_manifests M)"
proof
  fix x assume "x \<in> pack_closure M requested"
  then obtain r where "r \<in> set requested" "(r, x) \<in> (depends M)\<^sup>*" using pack_closure_exact [OF assms] by auto
  from this(2) show "x \<in> fst ` set (pmg_manifests M)"
  proof cases
    case base
    with \<open>r \<in> set requested\<close> assms show ?thesis by blast
  next
    case (step y)
    then show ?thesis using depends_installed by blast
  qed
qed

section \<open>The order\<close>

text \<open>What the rounds leave of the graph \<open>D\<close> when the packs of a list are done.\<close>

definition rest :: "deps \<Rightarrow> string list \<Rightarrow> deps" where
  "rest D finished = map (\<lambda>(k, s). (k, s - set finished)) (filter (\<lambda>(k, s). k \<notin> set finished) D)"

text \<open>A schedule of the graph: each of its packs comes after all it depends on.\<close>

definition scheduled :: "deps \<Rightarrow> string list \<Rightarrow> bool" where
  "scheduled D xs \<longleftrightarrow> distinct xs \<and> set xs \<subseteq> fst ` set D \<and>
     (\<forall>i < length xs. \<forall>s. (xs ! i, s) \<in> set D \<longrightarrow> s \<subseteq> set (take i xs))"

lemma scheduled_snoc:
  "scheduled D xs \<Longrightarrow> k \<notin> set xs \<Longrightarrow> k \<in> fst ` set D \<Longrightarrow> (\<And>s. (k, s) \<in> set D \<Longrightarrow> s \<subseteq> set xs) \<Longrightarrow> scheduled D (xs @ [k])"
  unfolding scheduled_def by (auto simp: nth_append less_Suc_eq)

lemma scheduled_append:
  assumes "scheduled D xs" "distinct ks" "set xs \<inter> set ks = {}" "set ks \<subseteq> fst ` set D"
    and "\<And>k s. k \<in> set ks \<Longrightarrow> (k, s) \<in> set D \<Longrightarrow> s \<subseteq> set xs"
  shows "scheduled D (xs @ ks)"
  using assms(2-5)
proof (induction ks rule: rev_induct)
  case (snoc k ks)
  have "s \<subseteq> set xs" if "j \<in> set ks" "(j, s) \<in> set D" for j s using snoc.prems(4) [OF _ that(2)] that(1) by simp
  then have IH: "scheduled D (xs @ ks)" using snoc.IH snoc.prems by simp
  have "s \<subseteq> set (xs @ ks)" if "(k, s) \<in> set D" for s using snoc.prems(4) [OF _ that] by auto
  then have "scheduled D ((xs @ ks) @ [k])" using scheduled_snoc [OF IH, of k] snoc.prems by simp
  then show ?case by simp
qed (use assms(1) in simp)

lemma in_rest: "(k, s) \<in> set (rest D xs) \<longleftrightarrow> k \<notin> set xs \<and> (\<exists>t. (k, t) \<in> set D \<and> s = t - set xs)"
  by (force simp: rest_def)

lemma drop_ready_rest: "drop_ready ready (rest D xs) = rest D (xs @ ready)"
  by (induction D) (auto simp: drop_ready_def rest_def)

lemma rest_keys: "fst ` set (rest D xs) = fst ` set D - set xs"
  by (force simp: rest_def)

lemma distinct_rest: "wf_dict D \<Longrightarrow> distinct (map fst (rest D xs))"
  by (induction D) (auto simp: rest_def wf_dict_def image_iff)

lemma wf_dict_unique: "wf_dict D \<Longrightarrow> (k, s) \<in> set D \<Longrightarrow> (k, t) \<in> set D \<Longrightarrow> s = t"
  by (auto simp: wf_dict_dget)

lemma distinct_ready: "distinct (map fst remaining) \<Longrightarrow> distinct (ready_packs M remaining)"
  by (auto simp: ready_packs_def distinct_map intro: inj_on_subset)

lemma order_packs_spec:
  assumes "wf_dict D" "order_packs M (rest D xs) xs = (ordered, cycle)" "scheduled D xs"
  shows "scheduled D ordered \<and> set cycle = fst ` set D - set ordered \<and>
     (\<forall>(k, s) \<in> set D. k \<notin> set ordered \<longrightarrow> \<not> s \<subseteq> set ordered)"
  using assms(2,3)
proof (induction "length (rest D xs)" arbitrary: xs rule: less_induct)
  case less
  let ?ready = "ready_packs M (rest D xs)"
  show ?case
  proof (cases "?ready = []")
    case True
    then have e: "ordered = xs" "cycle = sort (map fst (rest D xs))"
      using less(2) by (subst (asm) order_packs.simps, simp)+
    have "\<not> s \<subseteq> set xs" if "(k, s) \<in> set D" "k \<notin> set xs" for k s
    proof
      assume "s \<subseteq> set xs"
      with that have "(k, {}) \<in> set (rest D xs)" unfolding in_rest by blast
      then show False using set_ready_packs [of M "rest D xs"] True by auto
    qed
    then show ?thesis using less(3) rest_keys [of D xs] by (auto simp: e)
  next
    case False
    have ready: "k \<in> set ?ready \<longleftrightarrow> k \<notin> set xs \<and> (\<exists>t. (k, t) \<in> set D \<and> t \<subseteq> set xs)" for k
      by (auto simp: set_ready_packs in_rest)
    have "scheduled D (xs @ ?ready)"
    proof (rule scheduled_append [OF less(3)])
      show "distinct ?ready" by (rule distinct_ready [OF distinct_rest [OF assms(1)]])
      show "set xs \<inter> set ?ready = {}" using ready by blast
      show "set ?ready \<subseteq> fst ` set D" using ready by force
      show "s \<subseteq> set xs" if "k \<in> set ?ready" "(k, s) \<in> set D" for k s
        using that ready wf_dict_unique [OF assms(1)] by blast
    qed
    moreover have step: "order_packs M (rest D (xs @ ?ready)) (xs @ ?ready) = (ordered, cycle)"
      using less(2) False by (subst (asm) order_packs.simps) (simp add: drop_ready_rest Let_def)
    moreover obtain k where "k \<in> set ?ready" using False by (cases ?ready) auto
    then have "length (rest D (xs @ ?ready)) < length (rest D xs)"
      unfolding drop_ready_rest [symmetric] using set_ready_packs [of M "rest D xs"] by (blast intro: drop_ready_shorter)
    ultimately show ?thesis using less(1) [of "xs @ ?ready"] by blast
  qed
qed

lemma scheduled_accessible:
  assumes "wf_dict D" "scheduled D xs"
  shows "set xs \<subseteq> Wellfounded.acc (dep_rel D)"
proof -
  have "set (take n xs) \<subseteq> Wellfounded.acc (dep_rel D)" if "n \<le> length xs" for n
    using that
  proof (induction n)
    case (Suc n)
    then have IH: "set (take n xs) \<subseteq> Wellfounded.acc (dep_rel D)" by simp
    have "xs ! n \<in> Wellfounded.acc (dep_rel D)"
    proof (rule acc.accI)
      fix d assume "(d, xs ! n) \<in> dep_rel D"
      then obtain s where "(xs ! n, s) \<in> set D" "d \<in> s" by (auto simp: dep_rel_def)
      with assms(2) Suc IH show "d \<in> Wellfounded.acc (dep_rel D)" unfolding scheduled_def by (meson Suc_le_lessD subsetD)
    qed
    with IH Suc show ?case by (simp add: take_Suc_conv_app_nth)
  qed simp
  from this [of "length xs"] show ?thesis by simp
qed

text \<open>The rounds leave nothing exactly when the graph has no cycle.\<close>

theorem order_packs_complete:
  assumes "wf_deps D" "order_packs M D [] = (ordered, cycle)"
  shows "scheduled D ordered \<and> set cycle = fst ` set D - set ordered \<and> (cycle = [] \<longleftrightarrow> acyclic (dep_rel D))"
proof -
  from assms(1) have wf: "wf_dict D" and nodes: "dep_rel D \<subseteq> fst ` set D \<times> fst ` set D"
    by (simp_all add: wf_deps_def dep_rel_nodes)
  have "rest D [] = D" by (simp add: rest_def)
  with order_packs_spec [OF wf, of M "[]" ordered cycle] assms(2)
  have spec: "scheduled D ordered" "set cycle = fst ` set D - set ordered"
    "\<forall>(k, s) \<in> set D. k \<notin> set ordered \<longrightarrow> \<not> s \<subseteq> set ordered" by (auto simp: scheduled_def)
  have "cycle = []" if "acyclic (dep_rel D)"
  proof (rule ccontr)
    assume "cycle \<noteq> []"
    then have "hd cycle \<in> set cycle" by simp
    with spec(2) obtain x where "x \<in> fst ` set D" "x \<notin> set ordered" by blast
    from graph.progress [OF assms(1) acyclic_check_iff [OF assms(1), THEN iffD2, OF that] this] spec(3)
    show False by blast
  qed
  moreover have "acyclic (dep_rel D)" if "cycle = []"
  proof -
    from that spec(2) have "fst ` set D \<subseteq> set ordered" by simp
    with scheduled_accessible [OF wf spec(1)] have acc: "fst ` set D \<subseteq> Wellfounded.acc (dep_rel D)" by blast
    have "x \<in> Wellfounded.acc (dep_rel D)" for x
      by (rule acc.accI) (use nodes acc in blast)
    then show ?thesis by (intro wf_acyclic acc_wfI) auto
  qed
  ultimately show ?thesis using spec by blast
qed

section \<open>Activation\<close>

text \<open>Each check reports nothing but errors, so a pack becomes active exactly when nothing is reported of it.\<close>

lemma constraint_issue_Inr:
  "constraint_issue code what v c i = Inr xs \<Longrightarrow> list_all is_error xs \<and> (xs = [] \<longrightarrow> satisfies v (Some c) = Inr True)"
  by (auto simp: constraint_issue_def res_bind_eq_Inr_iff is_error_def pack_error_def split: if_splits)

lemma dependency_issue_Inr:
  assumes "dependency_issue M i d = Inr xs"
  shows "list_all is_error xs \<and> (xs = [] \<longrightarrow> (case dget (pmg_manifests M) (pdp_id d) of
     None \<Rightarrow> pdp_optional d | Some m \<Rightarrow> satisfies (pkm_version m) (Some (pdp_constraint d)) = Inr True))"
  using assms constraint_issue_Inr
  by (auto simp: dependency_issue_def is_error_def pack_error_def split: option.splits if_splits)

lemma other_errors:
  "list_all is_error (conflict_issues m scope i)" "list_all is_error (duplicate_issues m)"
  "list_all is_error (trust_issues V results)" "list_all is_error (cross_pack_issues M ids)"
  by (auto simp: list_all_iff conflict_issues_def duplicate_issues_def trust_issues_def cross_pack_issues_def
      collision_issues_def is_error_def pack_error_def Let_def)

definition pack_compatible :: "pack_manager \<Rightarrow> pack_manifest \<Rightarrow> bool" where
  "pack_compatible M m \<longleftrightarrow>
     satisfies (pmg_kubeops M) (Some (pcm_kubeops (pkm_compatibility m))) = Inr True \<and>
     (\<forall>v k. pmg_kubernetes M = Some v \<longrightarrow> pcm_kubernetes (pkm_compatibility m) = Some k \<longrightarrow>
        v = [] \<or> k = [] \<or> satisfies v (Some k) = Inr True) \<and>
     (\<forall>d \<in> set (pkm_dependencies m). case dget (pmg_manifests M) (pdp_id d) of
        None \<Rightarrow> pdp_optional d | Some n \<Rightarrow> satisfies (pkm_version n) (Some (pdp_constraint d)) = Inr True)"

lemma distinct_count_list: "\<forall>x \<in> set xs. count_list xs x \<le> 1 \<Longrightarrow> distinct xs"
proof (induction xs)
  case (Cons x xs)
  then have "count_list xs x = 0" by simp
  then have "x \<notin> set xs" by (simp add: count_list_0_iff)
  moreover have "count_list xs y \<le> 1" if "y \<in> set xs" for y
    using Cons.prems that by (cases "x = y") auto
  ultimately show ?case using Cons.IH by simp
qed simp

lemma duplicate_issues_Nil: "duplicate_issues m = [] \<Longrightarrow> distinct (contribution_ids m)"
  unfolding duplicate_issues_def map_is_Nil_conv filter_empty_conv set_dedup
  by (rule distinct_count_list) (auto simp: not_less)

lemma conflict_issues_Nil: "finite scope \<Longrightarrow> conflict_issues m scope i = [] \<Longrightarrow> pkm_conflicts_with m \<inter> scope = {}"
  by (simp add: conflict_issues_def sorted_set_def)

lemma res_map_member: "res_map f xs = Inr ys \<Longrightarrow> x \<in> set xs \<Longrightarrow> \<exists>y \<in> set ys. f x = Inr y"
proof (induction xs arbitrary: ys)
  case (Cons a xs)
  then show ?case by (cases "f a"; cases "res_map f xs") auto
qed simp

lemma validate_pack_Inr:
  assumes "validate_pack M i (Some scope) = Inr xs" "finite scope"
  obtains m where "dget (pmg_manifests M) i = Some m" "list_all is_error xs"
    "xs = [] \<longrightarrow> pack_compatible M m \<and> pkm_conflicts_with m \<inter> scope = {} \<and> distinct (contribution_ids m)"
proof -
  from assms(1) obtain m a b ds where m: "dget (pmg_manifests M) i = Some m"
    and a: "constraint_issue ''kubeops_version_incompatible'' ''KubeOps '' (pmg_kubeops M)
       (pcm_kubeops (pkm_compatibility m)) i = Inr a"
    and b: "kubernetes_issue M m i = Inr b"
    and ds: "res_map (dependency_issue M i) (pkm_dependencies m) = Inr ds"
    and xs: "xs = a @ b @ concat ds @ conflict_issues m scope i @ duplicate_issues m"
    by (auto simp: validate_pack_def get_pack_def res_bind_eq_Inr_iff split: option.splits)
  have "list_all is_error b"
    using b constraint_issue_Inr by (auto simp: kubernetes_issue_def split: option.splits list.splits)
  moreover have d: "\<exists>ys \<in> set ds. dependency_issue M i d = Inr ys" if "d \<in> set (pkm_dependencies m)" for d
    using res_map_member [OF ds that] by blast
  moreover have "list_all is_error (concat ds)"
    using res_map_InrD [OF ds] dependency_issue_Inr
    by (fastforce simp: list_all2_conv_all_nth in_set_conv_nth list_all_iff)
  ultimately have "list_all is_error xs" using a constraint_issue_Inr other_errors by (auto simp: xs)
  moreover have "pack_compatible M m \<and> pkm_conflicts_with m \<inter> scope = {} \<and> distinct (contribution_ids m)" if "xs = []"
  proof -
    from that xs a constraint_issue_Inr
    have "satisfies (pmg_kubeops M) (Some (pcm_kubeops (pkm_compatibility m))) = Inr True" by auto
    moreover have "v = [] \<or> k = [] \<or> satisfies v (Some k) = Inr True"
      if "pmg_kubernetes M = Some v" "pcm_kubernetes (pkm_compatibility m) = Some k" for v k
      using b \<open>xs = []\<close> xs that constraint_issue_Inr by (cases v; cases k) (auto simp: kubernetes_issue_def)
    moreover have "case dget (pmg_manifests M) (pdp_id x) of None \<Rightarrow> pdp_optional x
      | Some n \<Rightarrow> satisfies (pkm_version n) (Some (pdp_constraint x)) = Inr True" if "x \<in> set (pkm_dependencies m)" for x
      using d [OF that] dependency_issue_Inr [of M i x "[]"] \<open>xs = []\<close> xs by auto
    ultimately show ?thesis
      using that xs conflict_issues_Nil [OF assms(2), of m i] duplicate_issues_Nil [of m] by (simp add: pack_compatible_def)
  qed
  ultimately show ?thesis using m that by blast
qed

lemma current_issues_clear:
  assumes "current_issues M closure others blocked i = Inr xs" "\<not> list_ex is_error xs" "list_all is_error others"
    and "finite closure"
  obtains m where "dget (pmg_manifests M) i = Some m" "pack_compatible M m" "pkm_conflicts_with m \<inter> closure = {}"
    "distinct (contribution_ids m)" "issues_of i others = []"
    "\<forall>d \<in> set (pkm_dependencies m). pdp_optional d \<or> pdp_id d \<notin> set blocked"
proof -
  from assms(1) obtain own m where own: "validate_pack M i (Some closure) = Inr own"
    and m: "dget (pmg_manifests M) i = Some m"
    and xs: "xs = own @ issues_of i others @
         (if \<exists>d \<in> set (pkm_dependencies m). pdp_id d \<in> set blocked \<and> \<not> pdp_optional d
          then [pack_error ''dependency_blocked'' ''one or more required dependencies are blocked'' (Some i)] else [])"
    by (auto simp: current_issues_def get_pack_def res_bind_eq_Inr_iff split: option.splits)
  have "list_all is_error (issues_of i others)" using assms(3) by (auto simp: issues_of_def list_all_iff)
  with xs assms(2) have "issues_of i others = []" by (cases "issues_of i others") auto
  moreover from own assms(4) have "list_all is_error own" "own = [] \<longrightarrow> pack_compatible M m \<and>
      pkm_conflicts_with m \<inter> closure = {} \<and> distinct (contribution_ids m)"
    by (auto elim!: validate_pack_Inr simp: m)
  moreover have "own = []" using xs assms(2) \<open>list_all is_error own\<close> by (cases own) auto
  moreover have "\<forall>d \<in> set (pkm_dependencies m). pdp_optional d \<or> pdp_id d \<notin> set blocked"
    using xs assms(2) by (auto simp: is_error_def pack_error_def split: if_splits)
  ultimately show ?thesis using that m by blast
qed

text \<open>How a pack of the list \<open>is\<close> became active: nothing was reported of it, with those blocked so far.\<close>

definition activated ::
    "pack_manager \<Rightarrow> string set \<Rightarrow> pack_issue list \<Rightarrow> string set \<Rightarrow> string list \<Rightarrow> string set \<Rightarrow> string \<Rightarrow> bool" where
  "activated M closure others finished ids a i \<longleftrightarrow>
     (\<exists>xs ys blk cur. ids = xs @ i # ys \<and> finished \<union> set xs \<subseteq> a \<union> set blk \<and>
        current_issues M closure others blk i = Inr cur \<and> \<not> list_ex is_error cur)"

lemma activated_head:
  "current_issues M closure others blk i = Inr cur \<Longrightarrow> \<not> list_ex is_error cur \<Longrightarrow> finished \<subseteq> a \<union> set blk \<Longrightarrow>
     activated M closure others finished (i # ids) a i"
  unfolding activated_def by (intro exI [of _ "[]"] exI [of _ ids] exI [of _ blk] exI [of _ cur]) simp

lemma activated_tail:
  assumes "activated M closure others (insert j finished) ids a i"
  shows "activated M closure others finished (j # ids) a i"
proof -
  from assms obtain xs ys blk cur where p: "ids = xs @ i # ys" "insert j finished \<union> set xs \<subseteq> a \<union> set blk"
    "current_issues M closure others blk i = Inr cur" "\<not> list_ex is_error cur"
    unfolding activated_def by blast
  then show ?thesis
    unfolding activated_def by (intro exI [of _ "j # xs"] exI [of _ ys] exI [of _ blk] exI [of _ cur]) simp
qed

lemma activate_packs_inv:
  assumes "activate_packs M closure others ids act blk iss = Inr (a, b, x)"
  shows "set a \<union> set b = set act \<union> set blk \<union> set ids \<and> set act \<subseteq> set a \<and>
     (distinct (act @ blk @ ids) \<longrightarrow> distinct (a @ b)) \<and>
     (\<forall>i \<in> set a - set act. activated M closure others (set act \<union> set blk) ids (set a) i)"
  using assms
proof (induction M closure others ids act blk iss rule: activate_packs.induct)
  case (2 M closure others i ids act blk iss)
  from 2(3) obtain cur where cur: "current_issues M closure others blk i = Inr cur"
    by (auto simp: res_bind_eq_Inr_iff)
  show ?case
  proof (cases "list_ex is_error cur")
    case True
    have "activate_packs M closure others ids act (blk @ [i]) (iss @ cur) = Inr (a, b, x)" using 2(3) cur True by simp
    note IH = 2(1) [OF True this]
    then have "activated M closure others (set act \<union> set blk) (i # ids) (set a) j" if "j \<in> set a - set act" for j
      using that by (intro activated_tail) simp
    with IH show ?thesis by simp
  next
    case False
    have "activate_packs M closure others ids (act @ [i]) blk (iss @ cur) = Inr (a, b, x)" using 2(3) cur False by simp
    note IH = 2(2) [OF False this]
    then have tail: "\<forall>j \<in> set a - insert i (set act). activated M closure others (insert i (set act \<union> set blk)) ids (set a) j"
      and sub: "set act \<subseteq> set a" by simp_all
    have "activated M closure others (set act \<union> set blk) (i # ids) (set a) j" if "j \<in> set a - set act" for j
    proof (cases "j = i")
      case True
      have "activated M closure others (set act \<union> set blk) (i # ids) (set a) i"
        using sub by (intro activated_head [OF cur False]) blast
      with True show ?thesis by simp
    next
      case neq: False
      show ?thesis by (rule activated_tail) (use tail that neq in blast)
    qed
    with IH show ?thesis by auto
  qed
qed simp

section \<open>Resolutions\<close>

lemma set_contribution_owners:
  "(c, i) \<in> set (contribution_owners M ids) \<longleftrightarrow>
     i \<in> set ids \<and> (\<exists>m. dget (pmg_manifests M) i = Some m \<and> c \<in> set (contribution_ids m))"
  by (force simp: contribution_owners_def split: option.splits)

lemma shared_contribution_reported:
  assumes "finite ids" "{i, j} \<subseteq> ids" "i \<noteq> j" "dget (pmg_manifests M) i = Some m" "dget (pmg_manifests M) j = Some n"
    and "c \<in> set (contribution_ids m) \<inter> set (contribution_ids n)"
  shows "issues_of i (cross_pack_issues M ids) \<noteq> []"
proof -
  let ?pairs = "contribution_owners M (sorted_set ids)"
  let ?owners = "map snd (filter (\<lambda>x. fst x = c) ?pairs)"
  have "(c, i) \<in> set ?pairs" "(c, j) \<in> set ?pairs"
    using assms by (auto simp: set_contribution_owners sorted_set_def)
  then have in_owners: "i \<in> set ?owners" "j \<in> set ?owners" by force+
  then have "card {i, j} \<le> card (set ?owners)" by (intro card_mono) auto
  with assms(3) have "2 \<le> length ?owners" using card_length [of ?owners] by simp
  moreover have "c \<in> set (sort_key fst (sort_key snd (dedup (map fst ?pairs))))"
    using \<open>(c, i) \<in> set ?pairs\<close> by force
  moreover from in_owners(1) \<open>2 \<le> length ?owners\<close>
  have "Some i \<in> pvi_pack_id ` set (collision_issues ?pairs c)"
    by (auto simp: collision_issues_def Let_def image_image pack_error_def)
  ultimately have "set (collision_issues ?pairs c) \<subseteq> set (cross_pack_issues M ids)"
    unfolding cross_pack_issues_def Let_def set_concat set_map by blast
  with \<open>Some i \<in> _\<close> show ?thesis unfolding issues_of_def filter_empty_conv by force
qed

definition vouched :: "pack_env \<Rightarrow> pack_trust option \<Rightarrow> string \<Rightarrow> pack_manifest \<Rightarrow> bool" where
  "vouched V trust i m \<longleftrightarrow>
     (case trust of None \<Rightarrow> True
      | Some t \<Rightarrow> \<exists>v. verify_pack V m (dget (ptr_signatures t) i) (ptr_policy t) (ptr_secrets t) (ptr_keys t) = Inr v \<and>
          pvf_outcome v = Trusted)"

lemma trust_issues_clear:
  assumes "trust_results V M trust C = Inr results" "finite C" "i \<in> C" "dget (pmg_manifests M) i = Some m"
    and "issues_of i (trust_issues V results) = []"
  shows "vouched V trust i m"
proof (cases trust)
  case (Some t)
  let ?verify = "\<lambda>j. res_bind (get_pack M j) (\<lambda>m.
    res_bind (verify_pack V m (dget (ptr_signatures t) j) (ptr_policy t) (ptr_secrets t) (ptr_keys t)) (\<lambda>v. Inr (j, v)))"
  have "res_map ?verify (sorted_set C) = Inr results" using assms(1) Some by (simp add: trust_results_def)
  from res_map_member [OF this, of i] obtain p where p: "p \<in> set results" "?verify i = Inr p"
    using assms(2,3) by (auto simp: sorted_set_def)
  then obtain v where v: "verify_pack V m (dget (ptr_signatures t) i) (ptr_policy t) (ptr_secrets t) (ptr_keys t) = Inr v"
    "p = (i, v)" using assms(4) by (auto simp: get_pack_def res_bind_eq_Inr_iff)
  have "pvf_outcome v = Trusted"
  proof (rule ccontr)
    assume "pvf_outcome v \<noteq> Trusted"
    with p(1) v(2) have "\<exists>x \<in> set (trust_issues V results). pvi_pack_id x = Some i"
      by (force simp: trust_issues_def pack_error_def)
    with assms(5) show False by (auto simp: issues_of_def filter_empty_conv)
  qed
  with v Some show ?thesis by (simp add: vouched_def)
qed (simp add: vouched_def)

text \<open>What holds of an active pack.\<close>

definition pack_ok :: "pack_env \<Rightarrow> pack_manager \<Rightarrow> pack_trust option \<Rightarrow> string set \<Rightarrow> string set \<Rightarrow> string \<Rightarrow> bool" where
  "pack_ok V M trust C active i \<longleftrightarrow>
     (\<exists>m. dget (pmg_manifests M) i = Some m \<and> pack_compatible M m \<and> pkm_conflicts_with m \<inter> C = {} \<and>
       distinct (contribution_ids m) \<and> vouched V trust i m \<and>
       (\<forall>d \<in> set (pkm_dependencies m). pdp_optional d \<or> pdp_id d \<in> active) \<and>
       (\<forall>j \<in> C - {i}. \<forall>n. dget (pmg_manifests M) j = Some n \<longrightarrow>
          set (contribution_ids m) \<inter> set (contribution_ids n) = {}))"

lemma closure_deps_wf:
  assumes "finite C"
  shows "wf_deps (closure_deps M C)" "fst ` set (closure_deps M C) = C"
    "dep_rel (closure_deps M C) = {(d, i). i \<in> C \<and> d \<in> C \<and> (i, d) \<in> depends M}"
  using assms by (auto simp: closure_deps_def wf_deps_def wf_dict_def dep_rel_def depends_def sorted_set_def comp_def
      image_image)

lemma activated_ok:
  assumes "activated M C (trust_issues V results @ cross_pack_issues M C) {} ordered (set active) i"
    and fin: "finite C" and sub: "C \<subseteq> fst ` set (pmg_manifests M)" and closed: "depends M `` C \<subseteq> C"
    and sch: "scheduled (closure_deps M C) ordered" and trust: "trust_results V M trust C = Inr results"
  shows "pack_ok V M trust C (set active) i"
proof -
  let ?others = "trust_issues V results @ cross_pack_issues M C"
  from assms(1) obtain xs ys blk cur where split: "ordered = xs @ i # ys" "set xs \<subseteq> set active \<union> set blk"
    and cur: "current_issues M C ?others blk i = Inr cur" "\<not> list_ex is_error cur"
    unfolding activated_def by auto
  have "list_all is_error ?others" using other_errors by simp
  from current_issues_clear [OF cur this fin] obtain m where m: "dget (pmg_manifests M) i = Some m" "pack_compatible M m"
    "pkm_conflicts_with m \<inter> C = {}" "distinct (contribution_ids m)" "issues_of i ?others = []"
    "\<forall>d \<in> set (pkm_dependencies m). pdp_optional d \<or> pdp_id d \<notin> set blk" by metis
  have i: "i \<in> C" using sch split(1) closure_deps_wf(2) [OF fin, of M] by (auto simp: scheduled_def)
  have clear: "issues_of i (trust_issues V results) = []" "issues_of i (cross_pack_issues M C) = []"
    using m(5) by (simp_all add: issues_of_def)
  have "pdp_id d \<in> set active" if d: "d \<in> set (pkm_dependencies m)" "\<not> pdp_optional d" for d
  proof -
    have "pdp_id d \<in> fst ` set (pmg_manifests M)"
      using m(2) d by (cases "dget (pmg_manifests M) (pdp_id d)") (auto simp: pack_compatible_def dget_in_keys)
    then have dep: "pdp_id d \<in> set (installed_dependencies M i)" using d(1) m(1) by (simp add: installed_dependencies_def)
    moreover from this closed i have "pdp_id d \<in> C" by (auto simp: depends_def)
    moreover have "(i, {d \<in> set (installed_dependencies M i). d \<in> C}) \<in> set (closure_deps M C)"
      using i fin by (simp add: closure_deps_def sorted_set_def)
    moreover have "ordered ! length xs = i" "length xs < length ordered" "take (length xs) ordered = xs" by (simp_all add: split(1))
    ultimately have "pdp_id d \<in> set xs" using sch unfolding scheduled_def by (metis (lifting) mem_Collect_eq subsetD)
    with split(2) m(6) d show ?thesis by blast
  qed
  moreover have "set (contribution_ids m) \<inter> set (contribution_ids n) = {}"
    if "j \<in> C - {i}" "dget (pmg_manifests M) j = Some n" for j n
    using shared_contribution_reported [OF fin, of i j M m n] that i m(1) clear(2) by blast
  ultimately show ?thesis
    using m trust_issues_clear [OF trust fin i m(1) clear(1)] unfolding pack_ok_def by blast
qed

theorem resolution_sound:
  assumes "resolve_packs V M given trust = Inr r"
  defines "C \<equiv> pack_closure M (prs_requested r)"
  shows "C = (depends M)\<^sup>* `` set (prs_requested r) \<and> scheduled (closure_deps M C) (prs_ordered r) \<and>
     distinct (prs_active r) \<and> set (prs_active r) \<inter> set (prs_blocked r) = {} \<and>
     (if acyclic {(d, i). i \<in> C \<and> d \<in> C \<and> (i, d) \<in> depends M}
      then set (prs_ordered r) = C \<and> set (prs_active r) \<union> set (prs_blocked r) = C else prs_active r = []) \<and>
     (\<forall>i \<in> set (prs_active r). pack_ok V M trust C (set (prs_active r)) i)"
proof -
  let ?requested = "case given of Some (i # is) \<Rightarrow> i # is | _ \<Rightarrow> sort (map fst (pmg_manifests M))"
  let ?C = "pack_closure M ?requested"
  obtain ordered cycle where o: "order_packs M (closure_deps M ?C) [] = (ordered, cycle)" by fastforce
  have "sorted_set (set ?requested - fst ` set (pmg_manifests M)) = []"
    using assms(1) by (auto simp: resolve_packs_def Let_def split: if_splits)
  then have req: "set ?requested \<subseteq> fst ` set (pmg_manifests M)" by (simp add: sorted_set_def)
  note exact = pack_closure_exact [OF req] and inst = pack_closure_installed [OF req]
  have fin: "finite ?C" using inst by (rule finite_subset) simp
  have closed: "depends M `` ?C \<subseteq> ?C" unfolding exact by (auto intro: rtrancl_into_rtrancl)
  note spec = order_packs_complete [OF closure_deps_wf(1) [OF fin] o, unfolded closure_deps_wf [OF fin]]
  show ?thesis
  proof (cases "cycle = []")
    case False
    then have r: "prs_requested r = ?requested" "prs_ordered r = ordered" "prs_active r = []"
      using assms(1) req o by (auto simp: resolve_packs_def resolution_of_def sorted_set_def res_bind_eq_Inr_iff Let_def
          split: if_splits)
    show ?thesis using spec False exact unfolding C_def r by simp
  next
    case True
    with assms(1) req o obtain results active blocked issues where
      t: "trust_results V M trust ?C = Inr results" and
      a: "activate_packs M ?C (trust_issues V results @ cross_pack_issues M ?C) ordered [] [] [] = Inr (active, blocked, issues)"
      and r: "prs_requested r = ?requested" "prs_ordered r = ordered" "prs_active r = active" "prs_blocked r = blocked"
      by (auto simp: resolve_packs_def resolution_of_def sorted_set_def res_bind_eq_Inr_iff Let_def split: if_splits)
    from activate_packs_inv [OF a] have parts: "set active \<union> set blocked = set ordered"
      "distinct ordered \<longrightarrow> distinct (active @ blocked)"
      and act: "\<forall>i \<in> set active. activated M ?C (trust_issues V results @ cross_pack_issues M ?C) {} ordered (set active) i"
      by simp_all
    have ord: "scheduled (closure_deps M ?C) ordered" "set ordered = ?C" "distinct ordered"
      using spec True closure_deps_wf(2) [OF fin, of M] by (auto simp: scheduled_def)
    have "pack_ok V M trust ?C (set active) i" if "i \<in> set active" for i
      using activated_ok [OF _ fin inst closed ord(1) t] act that by blast
    then show ?thesis using spec True exact ord parts unfolding C_def r by simp
  qed
qed

end
