(* ===== verification/Topology.thy ===== *)
theory Topology
  imports Discovery
begin

text \<open>
  \<open>topology/compiler.py\<close>: the operational graph of a snapshot, from the references that Kubernetes objects hold.
  The rendering of floats is an argument, and so is what active packs resolve. Each compilation pass yields the
  relationships it adds, in order; the set of references of a pod is visited in the order of its volumes and
  containers (the code's order is that of the interpreter; the graph is sorted). Shown: derived edges join
  entities of the graph, and a service selects exactly the pods its selector matches.
\<close>

section \<open>Reading resources\<close>

definition obj_or_empty :: "json \<Rightarrow> fields" where
  "obj_or_empty v = (case v of JObj d \<Rightarrow> d | _ \<Rightarrow> [])"

definition k8s :: "entity \<Rightarrow> fields" where
  "k8s e = obj_or_empty (dget_default (ent_extensions e) ''kubernetes'' (JObj []))"

definition resource_of :: "entity \<Rightarrow> fields" where
  "resource_of e = obj_or_empty (dget_default (k8s e) ''sanitized_resource'' (JObj []))"

definition kind_of :: "(rat \<Rightarrow> string) \<Rightarrow> entity \<Rightarrow> string" where
  "kind_of fl e = str_of fl (dget_default (k8s e) ''kind'' (JStr []))"

definition read_path :: "json \<Rightarrow> string \<Rightarrow> json \<Rightarrow> json" where
  "read_path v path d = (case get_path v path of None \<Rightarrow> d | Some w \<Rightarrow> w)"

text \<open>\<open>for x in value or []\<close>.\<close>

definition items_of :: "json \<Rightarrow> json list res" where
  "items_of v =
     (if \<not> truthy v then Inr []
      else (case v of
              JList xs \<Rightarrow> Inr xs
            | JObj kvs \<Rightarrow> Inr (map (\<lambda>kv. JStr (fst kv)) kvs)
            | JStr s \<Rightarrow> Inr (map (\<lambda>c. JStr [c]) s)
            | JSet A \<Rightarrow> Inr (map JStr (sorted_set A))
            | _ \<Rightarrow> raise TypeError ''object is not iterable''))"

text \<open>The truthy string of a field of an object, and of a field of an object's field.\<close>

definition named :: "(rat \<Rightarrow> string) \<Rightarrow> fields \<Rightarrow> string \<Rightarrow> string option" where
  "named fl d k = (let v = dget_default d k JNull in if truthy v then Some (str_of fl v) else None)"

definition ref_in :: "(rat \<Rightarrow> string) \<Rightarrow> fields \<Rightarrow> string \<Rightarrow> string \<Rightarrow> string \<Rightarrow> (string \<times> string) list" where
  "ref_in fl d k name kind =
     (case dget d k of
        Some (JObj r) \<Rightarrow> (case named fl r name of None \<Rightarrow> [] | Some n \<Rightarrow> [(kind, n)])
      | _ \<Rightarrow> [])"

section \<open>Looking up entities\<close>

type_synonym entity_key = "string \<times> string option \<times> string"

definition of_kind :: "(rat \<Rightarrow> string) \<Rightarrow> string \<Rightarrow> entity list \<Rightarrow> entity list" where
  "of_kind fl kind es = filter (\<lambda>e. kind_of fl e = kind) es"

definition by_key :: "(rat \<Rightarrow> string) \<Rightarrow> entity list \<Rightarrow> entity_key \<Rightarrow> entity option" where
  "by_key fl es k = dget (dict_of (map (\<lambda>e. ((kind_of fl e, ent_namespace e, ent_name e), e)) es)) k"

definition by_uid :: "(rat \<Rightarrow> string) \<Rightarrow> entity list \<Rightarrow> string \<Rightarrow> entity option" where
  "by_uid fl es uid =
     dget (dict_of (List.map_filter (\<lambda>e. map_option (\<lambda>u. (u, e)) (named fl (k8s e) ''uid'')) es)) uid"

definition derived :: "entity \<Rightarrow> entity \<Rightarrow> string \<Rightarrow> string \<Rightarrow> fields \<Rightarrow> relationship" where
  "derived source target t provenance contract =
     \<lparr>rel_id = t @ '':'' @ ent_id source @ ''->'' @ ent_id target, rel_source = ent_id source, rel_target = ent_id target,
      rel_type = t, rel_contract = contract, rel_propagation = [], rel_confidence = 1, rel_provenance = provenance,
      rel_extensions = []\<rparr>"

definition link_to :: "entity \<Rightarrow> entity option \<Rightarrow> string \<Rightarrow> string \<Rightarrow> fields \<Rightarrow> relationship list" where
  "link_to source target t provenance contract =
     (case target of None \<Rightarrow> [] | Some e \<Rightarrow> [derived source e t provenance contract])"

definition concat_res :: "('a \<Rightarrow> 'b list res) \<Rightarrow> 'a list \<Rightarrow> 'b list res" where
  "concat_res f xs = res_bind (res_map f xs) (\<lambda>ys. Inr (concat ys))"

section \<open>The passes\<close>

definition owner_link :: "(rat \<Rightarrow> string) \<Rightarrow> entity list \<Rightarrow> entity \<Rightarrow> json \<Rightarrow> relationship list res" where
  "owner_link fl es child owner =
     (case owner of
        JObj d \<Rightarrow> Inr (case by_uid fl es (str_of fl (dget_default d ''uid'' (JStr []))) of
            None \<Rightarrow> []
          | Some parent \<Rightarrow> [derived parent child ''controls'' ''kubernetes.ownerReferences''
              [(''controller'', JBool (truthy (dget_default d ''controller'' JNull)))]])
      | _ \<Rightarrow> raise AttributeError ''get'')"

definition compile_workload_pod_control :: "(rat \<Rightarrow> string) \<Rightarrow> entity list \<Rightarrow> relationship list res" where
  "compile_workload_pod_control fl es =
     concat_res (\<lambda>child. res_bind (items_of (dget_default (k8s child) ''owner_references'' (JList [])))
         (concat_res (owner_link fl es child)))
       (of_kind fl ''Pod'' es @ of_kind fl ''ReplicaSet'' es)"

definition volume_refs :: "(rat \<Rightarrow> string) \<Rightarrow> json \<Rightarrow> (string \<times> string) list res" where
  "volume_refs fl volume =
     (case volume of
        JObj v \<Rightarrow>
          res_bind (items_of (dget_default (obj_or_empty (dget_default v ''projected'' JNull)) ''sources'' (JList []))) (\<lambda>sources.
            Inr (ref_in fl v ''configMap'' ''name'' ''ConfigMap'' @ ref_in fl v ''secret'' ''secretName'' ''Secret'' @
              ref_in fl v ''persistentVolumeClaim'' ''claimName'' ''PersistentVolumeClaim'' @
              concat (map (\<lambda>source. case source of
                  JObj s \<Rightarrow> ref_in fl s ''secret'' ''name'' ''Secret'' @ ref_in fl s ''configMap'' ''name'' ''ConfigMap''
                | _ \<Rightarrow> []) sources)))
      | _ \<Rightarrow> Inr [])"

definition env_from_refs :: "(rat \<Rightarrow> string) \<Rightarrow> json \<Rightarrow> (string \<times> string) list" where
  "env_from_refs fl item =
     (case item of
        JObj d \<Rightarrow> ref_in fl d ''secretRef'' ''name'' ''Secret'' @ ref_in fl d ''configMapRef'' ''name'' ''ConfigMap''
      | _ \<Rightarrow> [])"

text \<open>A \<open>valueFrom\<close> that is present and not an object fails.\<close>

definition env_refs :: "(rat \<Rightarrow> string) \<Rightarrow> json \<Rightarrow> (string \<times> string) list res" where
  "env_refs fl item =
     (case item of
        JObj d \<Rightarrow>
          (case dget_default d ''valueFrom'' (JObj []) of
             JObj v \<Rightarrow> Inr (ref_in fl v ''secretKeyRef'' ''name'' ''Secret'' @ ref_in fl v ''configMapKeyRef'' ''name'' ''ConfigMap'')
           | _ \<Rightarrow> raise AttributeError ''get'')
      | _ \<Rightarrow> Inr [])"

definition container_refs :: "(rat \<Rightarrow> string) \<Rightarrow> json \<Rightarrow> (string \<times> string) list res" where
  "container_refs fl container =
     (case container of
        JObj c \<Rightarrow>
          res_bind (items_of (dget_default c ''envFrom'' (JList []))) (\<lambda>froms.
          res_bind (res_bind (items_of (dget_default c ''env'' (JList []))) (concat_res (env_refs fl))) (\<lambda>refs.
            Inr (concat (map (env_from_refs fl) froms) @ refs)))
      | _ \<Rightarrow> Inr [])"

definition pod_refs :: "(rat \<Rightarrow> string) \<Rightarrow> entity \<Rightarrow> (string \<times> string) list res" where
  "pod_refs fl pod =
     (let resource = JObj (resource_of pod) in
      res_bind (items_of (read_path resource ''spec.volumes'' (JList []))) (\<lambda>volumes.
      res_bind (concat_res (volume_refs fl) volumes) (\<lambda>refs.
      res_bind (items_of (read_path resource ''spec.initContainers'' (JList []))) (\<lambda>inits.
      res_bind (items_of (read_path resource ''spec.containers'' (JList []))) (\<lambda>containers.
      res_bind (concat_res (container_refs fl) (inits @ containers)) (\<lambda>more.
        Inr (dedup (refs @ more))))))))"

definition reference_type :: "string \<Rightarrow> string" where
  "reference_type kind =
     (if kind = ''Secret'' then ''references_secret'' else if kind = ''ConfigMap'' then ''references_config''
      else ''mounts_claim'')"

definition pod_links :: "(rat \<Rightarrow> string) \<Rightarrow> entity list \<Rightarrow> entity \<Rightarrow> relationship list res" where
  "pod_links fl es pod =
     (let resource = JObj (resource_of pod); node = read_path resource ''spec.nodeName'' JNull;
          account = read_path resource ''spec.serviceAccountName'' (JStr ''default'')
      in res_bind (pod_refs fl pod) (\<lambda>refs. Inr (
           (if truthy node
            then link_to pod (by_key fl es (''Node'', None, str_of fl node)) ''scheduled_on'' ''pod.spec.nodeName'' [] else []) @
           link_to pod (by_key fl es (''ServiceAccount'', ent_namespace pod, str_of fl account)) ''uses_identity''
             ''pod.spec.serviceAccountName'' [] @
           concat (map (\<lambda>(kind, name).
             link_to pod (by_key fl es (kind, ent_namespace pod, name)) (reference_type kind) ''pod.spec'' []) refs))))"

definition compile_pod_dependencies :: "(rat \<Rightarrow> string) \<Rightarrow> entity list \<Rightarrow> relationship list res" where
  "compile_pod_dependencies fl es = concat_res (pod_links fl es) (of_kind fl ''Pod'' es)"

definition selector_matches_pod :: "fields \<Rightarrow> entity \<Rightarrow> entity \<Rightarrow> bool" where
  "selector_matches_pod selector service pod \<longleftrightarrow>
     ent_namespace pod = ent_namespace service \<and>
     list_all (\<lambda>(k, v). py_eq (str_or_null (dget (ent_labels pod) k)) v) selector"

definition service_links :: "(rat \<Rightarrow> string) \<Rightarrow> entity list \<Rightarrow> entity \<Rightarrow> relationship list" where
  "service_links fl es service =
     (case read_path (JObj (resource_of service)) ''spec.selector'' (JObj []) of
        JObj selector \<Rightarrow>
          if selector = [] then []
          else map (\<lambda>pod. derived service pod ''selects'' ''service.spec.selector'' [(''selector'', JObj selector)])
            (filter (selector_matches_pod selector service) (of_kind fl ''Pod'' es))
      | _ \<Rightarrow> [])"

definition compile_services :: "(rat \<Rightarrow> string) \<Rightarrow> entity list \<Rightarrow> relationship list" where
  "compile_services fl es = concat (map (service_links fl es) (of_kind fl ''Service'' es))"

definition endpoint_link :: "(rat \<Rightarrow> string) \<Rightarrow> entity list \<Rightarrow> entity \<Rightarrow> json \<Rightarrow> relationship list" where
  "endpoint_link fl es slice endpoint =
     (case endpoint of
        JObj d \<Rightarrow>
          (let ref = obj_or_empty (dget_default d ''targetRef'' JNull);
               text_of = (\<lambda>k v. str_of fl (dget_default ref k (JStr v)));
               target = (case by_uid fl es (text_of ''uid'' []) of
                   Some e \<Rightarrow> Some e
                 | None \<Rightarrow> by_key fl es (text_of ''kind'' ''Pod'', ent_namespace slice, text_of ''name'' []))
           in link_to slice target ''routes_to'' ''endpointslice.endpoints''
                [(''ready'', read_path (JObj d) ''conditions.ready'' JNull)])
      | _ \<Rightarrow> [])"

definition endpoint_slice_links :: "(rat \<Rightarrow> string) \<Rightarrow> entity list \<Rightarrow> entity \<Rightarrow> relationship list res" where
  "endpoint_slice_links fl es slice =
     res_bind (items_of (read_path (JObj (resource_of slice)) ''endpoints'' (JList []))) (\<lambda>endpoints. Inr (
       (case dget (ent_labels slice) ''kubernetes.io/service-name'' of
          Some (c # name) \<Rightarrow> (case by_key fl es (''Service'', ent_namespace slice, c # name) of
              None \<Rightarrow> [] | Some service \<Rightarrow> [derived service slice ''publishes_endpoints'' ''endpointslice.label'' []])
        | _ \<Rightarrow> []) @
       concat (map (endpoint_link fl es slice) endpoints)))"

definition compile_endpoint_slices :: "(rat \<Rightarrow> string) \<Rightarrow> entity list \<Rightarrow> relationship list res" where
  "compile_endpoint_slices fl es = concat_res (endpoint_slice_links fl es) (of_kind fl ''EndpointSlice'' es)"

definition rule_backends :: "json \<Rightarrow> fields list res" where
  "rule_backends rule =
     res_bind (items_of (read_path rule ''http.paths'' (JList []))) (\<lambda>paths. Inr (List.map_filter (\<lambda>path. case path of
         JObj p \<Rightarrow> (case dget p ''backend'' of Some (JObj b) \<Rightarrow> Some b | _ \<Rightarrow> None)
       | _ \<Rightarrow> None) paths))"

definition ingress_backends :: "entity \<Rightarrow> fields list res" where
  "ingress_backends ingress =
     (let resource = JObj (resource_of ingress) in
      res_bind (items_of (read_path resource ''spec.rules'' (JList []))) (\<lambda>rules.
      res_bind (concat_res rule_backends rules) (\<lambda>backends.
        Inr ((case read_path resource ''spec.defaultBackend'' JNull of JObj b \<Rightarrow> [b] | _ \<Rightarrow> []) @ backends))))"

definition ingress_links :: "(rat \<Rightarrow> string) \<Rightarrow> entity list \<Rightarrow> entity \<Rightarrow> relationship list res" where
  "ingress_links fl es ingress =
     res_bind (ingress_backends ingress) (\<lambda>backends. Inr (concat (map (\<lambda>b.
       let name = read_path (JObj b) ''service.name'' JNull in
       if truthy name
       then link_to ingress (by_key fl es (''Service'', ent_namespace ingress, str_of fl name)) ''routes_to'' ''ingress.spec''
         [(''backend'', JObj b)]
       else []) backends)))"

definition compile_ingresses :: "(rat \<Rightarrow> string) \<Rightarrow> entity list \<Rightarrow> relationship list res" where
  "compile_ingresses fl es = concat_res (ingress_links fl es) (of_kind fl ''Ingress'' es)"

definition storage_links :: "(rat \<Rightarrow> string) \<Rightarrow> entity list \<Rightarrow> entity \<Rightarrow> relationship list" where
  "storage_links fl es pvc =
     (let resource = JObj (resource_of pvc);
          ref = (\<lambda>path kind t provenance. let v = read_path resource path JNull in
             if truthy v then link_to pvc (by_key fl es (kind, None, str_of fl v)) t provenance [] else [])
      in ref ''spec.volumeName'' ''PersistentVolume'' ''binds_to'' ''pvc.spec.volumeName'' @
         ref ''spec.storageClassName'' ''StorageClass'' ''uses_storage_class'' ''pvc.spec.storageClassName'')"

definition compile_storage :: "(rat \<Rightarrow> string) \<Rightarrow> entity list \<Rightarrow> relationship list" where
  "compile_storage fl es = concat (map (storage_links fl es) (of_kind fl ''PersistentVolumeClaim'' es))"

text \<open>The namespace of a subject is part of a dictionary key: only a string or nothing can match.\<close>

definition subject_link :: "(rat \<Rightarrow> string) \<Rightarrow> entity list \<Rightarrow> entity \<Rightarrow> json \<Rightarrow> relationship list res" where
  "subject_link fl es binding subj =
     (case subj of
        JObj d \<Rightarrow>
          (let kind = str_of fl (dget_default d ''kind'' (JStr [])); name = str_of fl (dget_default d ''name'' (JStr []));
               namespace = (if kind = ''ServiceAccount'' then dget_default d ''namespace'' JNull else JNull);
               link = (\<lambda>ns. Inr (link_to binding (by_key fl es (kind, ns, name)) ''binds_subject'' ''rolebinding.subjects'' []))
           in case namespace of
                JNull \<Rightarrow> link None
              | JStr ns \<Rightarrow> link (Some ns)
              | JList _ \<Rightarrow> raise TypeError ''unhashable type: list''
              | JObj _ \<Rightarrow> raise TypeError ''unhashable type: dict''
              | JSet _ \<Rightarrow> raise TypeError ''unhashable type: set''
              | _ \<Rightarrow> Inr [])
      | _ \<Rightarrow> Inr [])"

definition role_link :: "(rat \<Rightarrow> string) \<Rightarrow> entity list \<Rightarrow> entity \<Rightarrow> relationship list" where
  "role_link fl es binding =
     (case read_path (JObj (resource_of binding)) ''roleRef'' (JObj []) of
        JObj d \<Rightarrow>
          (let kind = str_of fl (dget_default d ''kind'' (JStr ''Role''));
               ns = (if kind = ''ClusterRole'' then None else ent_namespace binding)
           in link_to binding (by_key fl es (kind, ns, str_of fl (dget_default d ''name'' (JStr [])))) ''grants_role''
                ''rolebinding.roleRef'' [])
      | _ \<Rightarrow> [])"

definition binding_links :: "(rat \<Rightarrow> string) \<Rightarrow> entity list \<Rightarrow> entity \<Rightarrow> relationship list res" where
  "binding_links fl es binding =
     res_bind (res_bind (items_of (read_path (JObj (resource_of binding)) ''subjects'' (JList [])))
       (concat_res (subject_link fl es binding))) (\<lambda>links. Inr (role_link fl es binding @ links))"

definition compile_rbac :: "(rat \<Rightarrow> string) \<Rightarrow> entity list \<Rightarrow> relationship list res" where
  "compile_rbac fl es =
     concat_res (binding_links fl es) (of_kind fl ''RoleBinding'' es @ of_kind fl ''ClusterRoleBinding'' es)"

section \<open>The graph\<close>

definition derived_relationships :: "(rat \<Rightarrow> string) \<Rightarrow> entity list \<Rightarrow> relationship list res" where
  "derived_relationships fl es =
     res_bind (compile_workload_pod_control fl es) (\<lambda>controls.
     res_bind (compile_pod_dependencies fl es) (\<lambda>pods.
     res_bind (compile_endpoint_slices fl es) (\<lambda>slices.
     res_bind (compile_ingresses fl es) (\<lambda>ingresses.
     res_bind (compile_rbac fl es) (\<lambda>rbac.
       Inr (controls @ pods @ compile_services fl es @ slices @ ingresses @ compile_storage fl es @ rbac))))))"

definition namespace_text :: "string option \<Rightarrow> string" where
  "namespace_text ns = (case ns of None \<Rightarrow> ''None'' | Some s \<Rightarrow> s)"

definition topology_warnings :: "(rat \<Rightarrow> string) \<Rightarrow> entity list \<Rightarrow> relationship list \<Rightarrow> string list" where
  "topology_warnings fl es rels =
     concat (map (\<lambda>e.
       let types = rel_type ` set (filter (\<lambda>r. rel_source r = ent_id e) rels);
           label = namespace_text (ent_namespace e) @ ''/'' @ ent_name e
       in (if kind_of fl e = ''Service'' \<and> truthy (read_path (JObj (resource_of e)) ''spec.selector'' (JObj [])) \<and>
              types \<inter> {''selects'', ''publishes_endpoints''} = {}
           then [''Service '' @ label @ '' has a selector but no discovered backing relationship''] else []) @
          (if kind_of fl e = ''Ingress'' \<and> ''routes_to'' \<notin> types
           then [''Ingress '' @ label @ '' has no discovered Service backend''] else [])) es)"

definition occurrence_counts :: "string list \<Rightarrow> fields" where
  "occurrence_counts xs = map (\<lambda>k. (k, JInt (int (count_list xs k)))) (sorted_set (set xs))"

definition plane_layers :: "entity list \<Rightarrow> (string, string list) dict" where
  "plane_layers es =
     map (\<lambda>p. (p, sort (map ent_id (filter (\<lambda>e. plane_value (ent_plane e) = p) es))))
       (dedup (map (plane_value \<circ> ent_plane) es))"

text \<open>What active packs resolve, with their number.\<close>

type_synonym pack_resolver = "((entity list \<Rightarrow> relationship list res) \<times> nat) option"

definition compile_graph ::
    "(rat \<Rightarrow> string) \<Rightarrow> pack_resolver \<Rightarrow> string \<Rightarrow> string \<Rightarrow> string \<Rightarrow> string \<Rightarrow> entity list \<Rightarrow> relationship list \<Rightarrow>
     topology_graph res" where
  "compile_graph fl packs fresh now_iso environment_id snapshot_id es base =
     res_bind (derived_relationships fl es) (\<lambda>added.
     res_bind (case packs of None \<Rightarrow> Inr [] | Some (resolve, _) \<Rightarrow> resolve es) (\<lambda>resolved.
       let rels = sort_key rel_id (map snd (dict_of (map (\<lambda>r. (rel_id r, r)) (base @ added @ resolved))));
           warnings = topology_warnings fl es rels
       in Inr \<lparr>tg_graph_id = ''topology:'' @ fresh, tg_environment_id = environment_id, tg_snapshot_id = snapshot_id,
            tg_generated_at_iso = now_iso, tg_entities = sort_key ent_id es, tg_relationships = rels,
            tg_layers = plane_layers es,
            tg_statistics = [(''entity_count'', JInt (int (length es))), (''relationship_count'', JInt (int (length rels))),
              (''entity_kinds'', JObj (occurrence_counts (map (\<lambda>e. if kind_of fl e = [] then ent_type e else kind_of fl e) es))),
              (''relationship_types'', JObj (occurrence_counts (map rel_type rels))),
              (''namespace_count'', JInt (int (card (set (filter (\<lambda>n. n \<noteq> []) (List.map_filter ent_namespace es)))))),
              (''warning_count'', JInt (int (length warnings))),
              (''active_pack_count'', JInt (case packs of None \<Rightarrow> 0 | Some (_, n) \<Rightarrow> int n))],
            tg_warnings = warnings\<rparr>))"

definition compile_bundle ::
    "(rat \<Rightarrow> string) \<Rightarrow> pack_resolver \<Rightarrow> string \<Rightarrow> string \<Rightarrow> discovery_bundle \<Rightarrow> topology_graph res" where
  "compile_bundle fl packs fresh now_iso b =
     compile_graph fl packs fresh now_iso (db_environment_id b) (db_id b) (db_entities b) (db_relationships b)"

definition compile_snapshot ::
    "(rat \<Rightarrow> string) \<Rightarrow> pack_resolver \<Rightarrow> string \<Rightarrow> string \<Rightarrow> env_snapshot \<Rightarrow> topology_graph res" where
  "compile_snapshot fl packs fresh now_iso s =
     compile_graph fl packs fresh now_iso (snap_environment_id s) (snap_id s) (snap_entities s) (snap_relationships s)"

section \<open>Derived edges join entities of the graph\<close>

definition joins :: "entity list \<Rightarrow> relationship \<Rightarrow> bool" where
  "joins es r \<longleftrightarrow> (\<exists>a \<in> set es. \<exists>b \<in> set es. \<exists>t provenance contract. r = derived a b t provenance contract)"

lemma dget_dict_of_in: "dget (dict_of kvs) k = Some v \<Longrightarrow> (k, v) \<in> set kvs"
  by (auto simp: dget_dict_of dest: map_of_SomeD)

lemma by_key_in: "by_key fl es k = Some e \<Longrightarrow> e \<in> set es"
  by (auto simp: by_key_def dest!: dget_dict_of_in)

lemma by_uid_in: "by_uid fl es k = Some e \<Longrightarrow> e \<in> set es"
  by (auto simp: by_uid_def set_map_filter dest!: dget_dict_of_in)

lemma of_kind_in: "e \<in> set (of_kind fl k es) \<Longrightarrow> e \<in> set es"
  by (simp add: of_kind_def)

lemma derived_joins: "a \<in> set es \<Longrightarrow> b \<in> set es \<Longrightarrow> joins es (derived a b t p c)"
  unfolding joins_def by blast

definition ends_in :: "entity list \<Rightarrow> relationship \<Rightarrow> bool" where
  "ends_in es r \<longleftrightarrow> {rel_source r, rel_target r} \<subseteq> ent_id ` set es"

lemma joins_ends: "joins es r \<Longrightarrow> {rel_source r, rel_target r} \<subseteq> ent_id ` set es"
  by (auto simp: joins_def derived_def)

lemma link_to_joins:
  "r \<in> set (link_to a target t p c) \<Longrightarrow> a \<in> set es \<Longrightarrow> (\<And>e. target = Some e \<Longrightarrow> e \<in> set es) \<Longrightarrow> joins es r"
  by (auto simp: link_to_def intro: derived_joins split: option.splits)

lemma concat_res_all:
  "concat_res f xs = Inr ys \<Longrightarrow> y \<in> set ys \<Longrightarrow> (\<And>x zs. x \<in> set xs \<Longrightarrow> f x = Inr zs \<Longrightarrow> y \<in> set zs \<Longrightarrow> P) \<Longrightarrow> P"
proof -
  assume c: "concat_res f xs = Inr ys" and y: "y \<in> set ys" and P: "\<And>x zs. x \<in> set xs \<Longrightarrow> f x = Inr zs \<Longrightarrow> y \<in> set zs \<Longrightarrow> P"
  from c obtain yss where m: "res_map f xs = Inr yss" and ys: "ys = concat yss"
    by (auto simp: concat_res_def res_bind_eq_Inr_iff)
  from y ys obtain zs where zs: "zs \<in> set yss" "y \<in> set zs" by auto
  from zs(1) obtain i where i: "i < length yss" "zs = yss ! i" by (auto simp: in_set_conv_nth)
  with res_map_InrD [OF m] have "f (xs ! i) = Inr zs" and "xs ! i \<in> set xs" by (auto simp: list_all2_conv_all_nth)
  with P zs(2) show P by blast
qed

lemma controls_join:
  assumes "compile_workload_pod_control fl es = Inr rs" and "r \<in> set rs"
  shows "joins es r"
  using assms unfolding compile_workload_pod_control_def
proof (elim concat_res_all)
  fix child zs
  assume child: "child \<in> set (of_kind fl ''Pod'' es @ of_kind fl ''ReplicaSet'' es)"
    and zs: "res_bind (items_of (dget_default (k8s child) ''owner_references'' (JList [])))
         (concat_res (owner_link fl es child)) = Inr zs" and r: "r \<in> set zs"
  from zs obtain owners where "concat_res (owner_link fl es child) owners = Inr zs" by (auto simp: res_bind_eq_Inr_iff)
  then show "joins es r" using r
  proof (elim concat_res_all)
    fix owner ls assume "owner_link fl es child owner = Inr ls" "r \<in> set ls"
    moreover have "child \<in> set es" using child by (auto dest: of_kind_in)
    ultimately show "joins es r"
      by (auto simp: owner_link_def intro!: derived_joins dest!: by_uid_in split: json.splits option.splits)
  qed
qed

lemma pods_join:
  assumes "compile_pod_dependencies fl es = Inr rs" and "r \<in> set rs"
  shows "joins es r"
  using assms unfolding compile_pod_dependencies_def
proof (elim concat_res_all)
  fix pod zs
  assume "pod \<in> set (of_kind fl ''Pod'' es)" and "pod_links fl es pod = Inr zs" and "r \<in> set zs"
  then show "joins es r"
    by (auto simp: pod_links_def Let_def res_bind_eq_Inr_iff split: if_splits
        intro: link_to_joins [OF _ of_kind_in by_key_in])
qed

lemma slices_join:
  assumes "compile_endpoint_slices fl es = Inr rs" and "r \<in> set rs"
  shows "joins es r"
  using assms unfolding compile_endpoint_slices_def
proof (elim concat_res_all)
  fix slice zs
  assume slice: "slice \<in> set (of_kind fl ''EndpointSlice'' es)" and "endpoint_slice_links fl es slice = Inr zs" and "r \<in> set zs"
  moreover have "joins es r" if "r \<in> set (endpoint_link fl es slice endpoint)" for endpoint
    using that slice by (auto simp: endpoint_link_def Let_def split: json.splits option.splits
        intro: link_to_joins [OF _ of_kind_in] by_key_in by_uid_in)
  ultimately show "joins es r"
    by (auto simp: endpoint_slice_links_def res_bind_eq_Inr_iff split: option.splits list.splits
        intro!: derived_joins dest!: of_kind_in by_key_in)
qed

lemma ingresses_join:
  assumes "compile_ingresses fl es = Inr rs" and "r \<in> set rs"
  shows "joins es r"
  using assms unfolding compile_ingresses_def
proof (elim concat_res_all)
  fix ingress zs
  assume "ingress \<in> set (of_kind fl ''Ingress'' es)" and "ingress_links fl es ingress = Inr zs" and "r \<in> set zs"
  then show "joins es r"
    by (auto simp: ingress_links_def Let_def res_bind_eq_Inr_iff split: if_splits
        intro: link_to_joins [OF _ of_kind_in by_key_in])
qed

lemma rbac_join:
  assumes "compile_rbac fl es = Inr rs" and "r \<in> set rs"
  shows "joins es r"
  using assms unfolding compile_rbac_def
proof (elim concat_res_all)
  fix binding zs
  assume "binding \<in> set (of_kind fl ''RoleBinding'' es @ of_kind fl ''ClusterRoleBinding'' es)"
    and zs: "binding_links fl es binding = Inr zs" and r: "r \<in> set zs"
  then have b: "binding \<in> set es" by (auto dest: of_kind_in)
  from zs obtain subjects ls where ls: "concat_res (subject_link fl es binding) subjects = Inr ls"
    and eq: "zs = role_link fl es binding @ ls" by (auto simp: binding_links_def res_bind_eq_Inr_iff)
  have "joins es r" if "r \<in> set (role_link fl es binding)"
    using that b by (auto simp: role_link_def Let_def split: json.splits intro: link_to_joins by_key_in)
  moreover have "joins es r" if "r \<in> set ls"
    using ls that
  proof (elim concat_res_all)
    fix subj ks assume "subject_link fl es binding subj = Inr ks" "r \<in> set ks"
    then show "joins es r"
      using b by (auto simp: subject_link_def Let_def split: json.splits intro: link_to_joins by_key_in)
  qed
  ultimately show "joins es r" using r eq by auto
qed

lemma services_join: "r \<in> set (compile_services fl es) \<Longrightarrow> joins es r"
  by (auto simp: compile_services_def service_links_def split: json.splits if_splits intro!: derived_joins
      dest!: of_kind_in)

lemma storage_join: "r \<in> set (compile_storage fl es) \<Longrightarrow> joins es r"
  by (auto simp: compile_storage_def storage_links_def Let_def split: if_splits
      intro: link_to_joins [OF _ of_kind_in by_key_in])

lemma derived_relationships_join:
  "derived_relationships fl es = Inr rs \<Longrightarrow> r \<in> set rs \<Longrightarrow> joins es r"
  by (auto simp: derived_relationships_def res_bind_eq_Inr_iff
      intro: controls_join pods_join slices_join ingresses_join rbac_join services_join storage_join)

text \<open>
  The graph holds the entities it was given, in the order of their identifiers, and relationships with distinct
  identifiers, in order too; each is one of those given or joins two entities of the graph.
\<close>

theorem graph_closed:
  assumes "compile_graph fl packs fresh now env snap es base = Inr g"
    and "\<And>resolve n rs. packs = Some (resolve, n) \<Longrightarrow> resolve es = Inr rs \<Longrightarrow> \<forall>r \<in> set rs. ends_in es r"
  shows "set (tg_entities g) = set es \<and> sorted (map ent_id (tg_entities g)) \<and>
     sorted (map rel_id (tg_relationships g)) \<and> distinct (map rel_id (tg_relationships g)) \<and>
     (\<forall>r \<in> set (tg_relationships g). r \<in> set base \<or>
        {rel_source r, rel_target r} \<subseteq> ent_id ` set (tg_entities g))"
proof -
  obtain derived resolved where derived: "derived_relationships fl es = Inr derived"
    and resolved: "(case packs of None \<Rightarrow> Inr [] | Some (resolve, _) \<Rightarrow> resolve es) = Inr resolved"
    and ents: "tg_entities g = sort_key ent_id es"
    and rels: "tg_relationships g = sort_key rel_id (map snd (dict_of (map (\<lambda>r. (rel_id r, r)) (base @ derived @ resolved))))"
    using assms(1) by (auto simp: compile_graph_def Let_def res_bind_eq_Inr_iff)
  define added where "added = derived @ resolved"
  note rels = rels [folded added_def]
  have joined: "ends_in es r" if "r \<in> set added" for r
    using that derived_relationships_join [OF derived, of r] joins_ends [of es r] resolved assms(2)
    by (auto simp: added_def ends_in_def split: option.splits prod.splits)
  let ?d = "dict_of (map (\<lambda>r. (rel_id r, r)) (base @ added))"
  have wf: "distinct (map fst ?d)" using wf_dict_of by (auto simp: wf_dict_def)
  have in_d: "(k, r) \<in> set ?d \<Longrightarrow> k = rel_id r \<and> r \<in> set (base @ added)" for k r
  proof -
    assume "(k, r) \<in> set ?d"
    then have "(k, r) \<in> set (map (\<lambda>r. (rel_id r, r)) (base @ added))"
      by (rule dget_dict_of_in [OF map_of_is_SomeI [OF wf]])
    then show "k = rel_id r \<and> r \<in> set (base @ added)" by auto
  qed
  have "rel_id (snd x) = fst x" if "x \<in> set ?d" for x
    using in_d [of "fst x" "snd x"] that by simp
  then have keys: "map rel_id (map snd ?d) = map fst ?d" unfolding map_map comp_def by (intro map_cong refl) blast
  have "distinct (map rel_id (map snd ?d))" unfolding keys by (rule wf)
  then have "distinct (map rel_id (tg_relationships g))"
    by (simp only: rels distinct_map [of rel_id] distinct_sort set_sort)
  moreover have "r \<in> set base \<or> {rel_source r, rel_target r} \<subseteq> ent_id ` set (tg_entities g)"
    if "r \<in> set (tg_relationships g)" for r
  proof -
    from that have "r \<in> set (map snd ?d)" by (simp only: rels set_sort)
    then obtain k where "(k, r) \<in> set ?d" unfolding set_map by (elim imageE) (metis prod.collapse)
    with in_d have "r \<in> set (base @ added)" by blast
    then have "r \<in> set base \<or> r \<in> set added" by simp
    then show ?thesis
      using joined [of r] by (auto simp: ents ends_in_def)
  qed
  ultimately show ?thesis by (simp add: ents rels)
qed

lemma in_compile_services:
  "r \<in> set (compile_services fl es) \<longleftrightarrow>
     (\<exists>s \<in> set es. \<exists>p \<in> set es. \<exists>selector. kind_of fl s = ''Service'' \<and> kind_of fl p = ''Pod'' \<and>
        read_path (JObj (resource_of s)) ''spec.selector'' (JObj []) = JObj selector \<and> selector \<noteq> [] \<and>
        selector_matches_pod selector s p \<and>
        r = derived s p ''selects'' ''service.spec.selector'' [(''selector'', JObj selector)])"
proof -
  have "r \<in> set (service_links fl es s) \<longleftrightarrow>
      (\<exists>selector. read_path (JObj (resource_of s)) ''spec.selector'' (JObj []) = JObj selector \<and> selector \<noteq> [] \<and>
        (\<exists>p \<in> set es. kind_of fl p = ''Pod'' \<and> selector_matches_pod selector s p \<and>
          r = derived s p ''selects'' ''service.spec.selector'' [(''selector'', JObj selector)]))" for s
    unfolding service_links_def of_kind_def by (cases "read_path (JObj (resource_of s)) ''spec.selector'' (JObj [])") auto
  then show ?thesis unfolding compile_services_def of_kind_def by (simp only: set_concat set_map set_filter) blast
qed

text \<open>
  A service selects exactly the pods of its namespace that carry every label of its selector; without a selector,
  or with one that is not an object, none.
\<close>

theorem services_select_exactly:
  assumes "distinct (map ent_id es)" and "s \<in> set es" and "p \<in> set es"
  shows "(\<exists>r \<in> set (compile_services fl es). rel_source r = ent_id s \<and> rel_target r = ent_id p) \<longleftrightarrow>
     kind_of fl s = ''Service'' \<and> kind_of fl p = ''Pod'' \<and>
     (\<exists>selector. read_path (JObj (resource_of s)) ''spec.selector'' (JObj []) = JObj selector \<and> selector \<noteq> [] \<and>
        selector_matches_pod selector s p)"
proof -
  have same: "a \<in> set es \<Longrightarrow> b \<in> set es \<Longrightarrow> ent_id a = ent_id b \<Longrightarrow> a = b" for a b
    using assms(1) by (auto simp: distinct_map dest: inj_onD)
  have ends: "rel_source (derived a b t q c) = ent_id a" "rel_target (derived a b t q c) = ent_id b" for a b t q c
    by (simp_all add: derived_def)
  show ?thesis
  proof
    assume "\<exists>r \<in> set (compile_services fl es). rel_source r = ent_id s \<and> rel_target r = ent_id p"
    then obtain r where "r \<in> set (compile_services fl es)" "rel_source r = ent_id s" "rel_target r = ent_id p" by blast
    then obtain a b selector where ab: "a \<in> set es" "b \<in> set es" "ent_id a = ent_id s" "ent_id b = ent_id p"
      and k: "kind_of fl a = ''Service''" "kind_of fl b = ''Pod''"
        "read_path (JObj (resource_of a)) ''spec.selector'' (JObj []) = JObj selector" "selector \<noteq> []"
        "selector_matches_pod selector a b"
      unfolding in_compile_services by (auto simp: ends)
    have "a = s" "b = p" using ab assms(2,3) by (auto intro: same)
    with k show "kind_of fl s = ''Service'' \<and> kind_of fl p = ''Pod'' \<and>
       (\<exists>selector. read_path (JObj (resource_of s)) ''spec.selector'' (JObj []) = JObj selector \<and> selector \<noteq> [] \<and>
          selector_matches_pod selector s p)" by blast
  next
    assume "kind_of fl s = ''Service'' \<and> kind_of fl p = ''Pod'' \<and>
       (\<exists>selector. read_path (JObj (resource_of s)) ''spec.selector'' (JObj []) = JObj selector \<and> selector \<noteq> [] \<and>
          selector_matches_pod selector s p)"
    then obtain selector where "derived s p ''selects'' ''service.spec.selector'' [(''selector'', JObj selector)]
        \<in> set (compile_services fl es)"
      unfolding in_compile_services using assms(2,3) by blast
    then show "\<exists>r \<in> set (compile_services fl es). rel_source r = ent_id s \<and> rel_target r = ent_id p"
      using ends by blast
  qed
qed

end
