(* ===== verification/Diagnosis.thy ===== *)
theory Diagnosis
  imports Diagnosis_IR Health
begin

text \<open>
  \<open>diagnosis/engine.py\<close>, \<open>diagnosis/probes.py\<close> and the planner of \<open>diagnosis/evidence.py\<close>: from an assessment to
  symptoms, hypotheses with causal edges, a certificate, probes and collection plans. Digests and fresh
  identifiers are arguments (an edge takes the one of its position); confidences are exact rationals.
\<close>

section \<open>Shared helpers\<close>

fun family_value :: "invariant_family \<Rightarrow> string" where
  "family_value Fam_Existence = ''existence''"
| "family_value Fam_Identity_Resolution = ''identity_resolution''"
| "family_value Fam_Structural = ''structural''"
| "family_value Fam_Configuration = ''configuration''"
| "family_value Fam_Compatibility = ''compatibility''"
| "family_value Fam_Reachability = ''reachability''"
| "family_value Fam_Authentication = ''authentication''"
| "family_value Fam_Authorization = ''authorization''"
| "family_value Fam_Capacity = ''capacity''"
| "family_value Fam_Placement = ''placement''"
| "family_value Fam_Lifecycle_Progress = ''lifecycle_progress''"
| "family_value Fam_Readiness = ''readiness''"
| "family_value Fam_Liveness = ''liveness''"
| "family_value Fam_Ordering = ''ordering''"
| "family_value Fam_Idempotency = ''idempotency''"
| "family_value Fam_Consistency = ''consistency''"
| "family_value Fam_Freshness = ''freshness''"
| "family_value Fam_Durability = ''durability''"
| "family_value Fam_Isolation = ''isolation''"
| "family_value Fam_Quorum = ''quorum''"
| "family_value Fam_Performance = ''performance''"
| "family_value Fam_Observability = ''observability''"
| "family_value Fam_Recoverability = ''recoverability''"

fun severity_value :: "severity \<Rightarrow> string" where
  "severity_value Sev_Info = ''info''"
| "severity_value Sev_Warning = ''warning''"
| "severity_value Sev_Error = ''error''"
| "severity_value Sev_Critical = ''critical''"

definition starts_with :: "string \<Rightarrow> string \<Rightarrow> bool" where
  "starts_with p s \<longleftrightarrow> take (length p) s = p"

definition fact_type_matches :: "string \<Rightarrow> string \<Rightarrow> bool" where
  "fact_type_matches pattern t =
     (if pattern = t then True
      else if ends_with ''.*'' pattern then starts_with (butlast pattern) t
      else starts_with (pattern @ ''.'') t \<or> starts_with (t @ ''.'') pattern)"

definition subjects_overlap :: "string list \<Rightarrow> string list \<Rightarrow> bool" where
  "subjects_overlap l r \<longleftrightarrow> l = [] \<or> r = [] \<or> set l \<inter> set r \<noteq> {}"

fun authority_confidence :: "authority \<Rightarrow> rat" where
  "authority_confidence Auth_Authoritative = 1"
| "authority_confidence Auth_High = 85 / 100"
| "authority_confidence Auth_Medium = 65 / 100"
| "authority_confidence Auth_Low = 40 / 100"
| "authority_confidence Auth_Heuristic = 20 / 100"

text \<open>\<open>round(r, 4)\<close> and \<open>round(r, 3)\<close>, halves to even.\<close>

definition round_half_even :: "rat \<Rightarrow> int" where
  "round_half_even r =
     (let n = \<lfloor>r\<rfloor>; f = r - of_int n in
      if f < 1 / 2 then n else if 1 / 2 < f then n + 1 else if even n then n else n + 1)"

definition round4 :: "rat \<Rightarrow> rat" where
  "round4 r = of_int (round_half_even (r * 10000)) / 10000"

definition round3 :: "rat \<Rightarrow> rat" where
  "round3 r = of_int (round_half_even (r * 1000)) / 1000"

record digests =
  dg_symptom :: "string \<Rightarrow> string"
  dg_fact :: "string \<Rightarrow> string \<Rightarrow> string \<Rightarrow> json \<Rightarrow> string"
  dg_hypothesis :: "string \<Rightarrow> string \<Rightarrow> string"

section \<open>Symptoms\<close>

fun family_violation_fact :: "invariant_family \<Rightarrow> json \<Rightarrow> (string \<times> string \<times> json) option" where
  "family_violation_fact Fam_Existence v = Some (''entity.exists.false'', ''required entity does not exist'', JBool False)"
| "family_violation_fact Fam_Reachability v = Some (''endpoint.reachable.false'', ''required endpoint is unreachable'', JBool False)"
| "family_violation_fact Fam_Authentication v = Some (''authentication.state.failed'', ''authentication contract failed'', v)"
| "family_violation_fact Fam_Authorization v = Some (''authorization.denied'', ''authorization contract was denied'', v)"
| "family_violation_fact Fam_Placement v = Some (''placement.unsatisfied_constraint'', ''placement constraints are unsatisfied'', v)"
| "family_violation_fact Fam_Lifecycle_Progress v = Some (''controller.progress.false'', ''controller is not converging'', v)"
| "family_violation_fact Fam_Readiness v = Some (''entity.ready.false'', ''component is not ready'', JBool False)"
| "family_violation_fact Fam_Liveness v = Some (''entity.serviceable.false'', ''component is not live or serviceable'', JBool False)"
| "family_violation_fact Fam_Capacity v = Some (''capacity.exhausted'', ''required capacity is exhausted'', v)"
| "family_violation_fact Fam_Consistency v = Some (''state.divergence'', ''state representations diverge'', v)"
| "family_violation_fact Fam_Freshness v = Some (''state.stale'', ''required state is stale'', v)"
| "family_violation_fact Fam_Observability v = Some (''observability.gap'', ''required evidence is unavailable'', v)"
| "family_violation_fact Fam_Configuration v = Some (''configuration.reference_invalid'', ''configuration contract is invalid'', v)"
| "family_violation_fact Fam_Structural v = Some (''configuration.reference_invalid'', ''structural relationship is invalid'', v)"
| "family_violation_fact Fam_Identity_Resolution v =
     Some (''configuration.reference_invalid'', ''identity or reference resolution failed'', v)"
| "family_violation_fact _ v = None"

definition evaluation_fact ::
    "digests \<Rightarrow> invariant_definition \<Rightarrow> invariant_evaluation \<Rightarrow> profile_assessment \<Rightarrow> string \<Rightarrow> string \<Rightarrow> msg \<Rightarrow> json \<Rightarrow>
     evidence_fact" where
  "evaluation_fact D d e a suffix fact_type statement v =
     (let status = health_value (ev_status e) in
      \<lparr>evf_id = ''ev-'' @ dg_fact D (pa_id a) (inv_id d) status (ev_actual_value e) @ suffix, evf_type = fact_type,
       evf_statement = statement, evf_value = v,
       evf_subject_ids = inv_subject_id d # filter (\<lambda>i. i \<noteq> inv_subject_id d) (ev_evidence_entity_ids e),
       evf_intent_id = None, evf_collector_id = ''health.invariant_evaluation.v1'',
       evf_observed_at_iso = pa_evaluated_at_iso a, evf_authority = Auth_Authoritative, evf_freshness_seconds = 0,
       evf_source_artifact_ids = [],
       evf_attributes = [(''invariant_id'', JStr (inv_id d)), (''invariant_family'', JStr (family_value (inv_family d))),
         (''health_status'', JStr status), (''expected'', ev_expected e)]\<rparr>)"

definition facts_for_evaluation ::
    "digests \<Rightarrow> invariant_definition \<Rightarrow> invariant_evaluation \<Rightarrow> profile_assessment \<Rightarrow> evidence_fact list" where
  "facts_for_evaluation D d e a =
     (let status = health_value (ev_status e); fact = evaluation_fact D d e a in
      [fact ''-invariant'' (if ev_status e = UNHEALTHY then ''invariant.violated'' else ''invariant.'' @ status)
         (ev_explanation e) (ev_actual_value e),
       fact ''-family'' (''invariant.'' @ family_value (inv_family d) @ ''.'' @ status) (ev_explanation e)
         (ev_actual_value e)] @
      (if ev_status e \<noteq> UNHEALTHY then []
       else (case family_violation_fact (inv_family d) (ev_actual_value e) of
               None \<Rightarrow> []
             | Some (fact_type, statement, v) \<Rightarrow>
                 [fact ''-semantic'' fact_type [Txt (inv_subject_id d @ '': '' @ statement)] v])))"

definition symptom_of ::
    "digests \<Rightarrow> invariant_definition \<Rightarrow> invariant_evaluation \<Rightarrow> profile_assessment \<Rightarrow> evidence_fact list \<Rightarrow> symptom" where
  "symptom_of D d e a facts =
     \<lparr>sy_id = ''symptom-'' @ dg_symptom D (ev_invariant_id e),
      sy_type = ''invariant.'' @ family_value (inv_family d) @ ''.'' @
        (if ev_status e = UNHEALTHY then ''violated'' else health_value (ev_status e)),
      sy_statement = ev_explanation e, sy_subject_ids = dedup (inv_subject_id d # ev_evidence_entity_ids e),
      sy_invariant_id = Some (inv_id d), sy_invariant_family = Some (inv_family d),
      sy_health_status = Some (ev_status e),
      sy_causal_role = (if ev_invariant_id e \<in> set (pa_violated_ids a) then Role_Initial else Role_Unknown),
      sy_confidence = (if ev_status e = UNHEALTHY then 1 else 65 / 100), sy_evidence_ids = map evf_id facts,
      sy_first_observed_at_seconds = Some (ev_evaluated_at e),
      sy_metadata = [(''title'', JStr (inv_title d)), (''severity'', JStr (severity_value (inv_severity d)))]\<rparr>"

definition set_default :: "(string, 'a) dict \<Rightarrow> string \<Rightarrow> 'a \<Rightarrow> (string, 'a) dict" where
  "set_default d k v = (if dget d k = None then dset k v d else d)"

fun derive_loop ::
    "digests \<Rightarrow> (string, invariant_definition) dict \<Rightarrow> profile_assessment \<Rightarrow> invariant_evaluation list \<Rightarrow>
     (string, evidence_fact) dict \<Rightarrow> symptom list \<times> (string, evidence_fact) dict" where
  "derive_loop D defs a [] ex = ([], ex)"
| "derive_loop D defs a (e # es) ex =
     (if ev_status e = HEALTHY then derive_loop D defs a es ex
      else (case dget defs (ev_invariant_id e) of
              None \<Rightarrow> derive_loop D defs a es ex
            | Some d \<Rightarrow>
                (let facts = facts_for_evaluation D d e a;
                     (ss, ex') = derive_loop D defs a es (foldl (\<lambda>x f. set_default x (evf_id f) f) ex facts)
                 in (symptom_of D d e a facts # ss, ex'))))"

definition derive_symptoms ::
    "digests \<Rightarrow> compiled_profile \<Rightarrow> profile_assessment \<Rightarrow> evidence_fact list \<Rightarrow> symptom list \<times> evidence_fact list" where
  "derive_symptoms D c a evidence =
     (let defs = dict_of (map (\<lambda>i. (inv_id i, i)) (cp_invariants c));
          (ss, ex) = derive_loop D defs a (pa_evaluations a) (dict_of (map (\<lambda>f. (evf_id f, f)) evidence))
      in (ss, sort_key evf_id (map snd ex)))"

section \<open>Hypotheses\<close>

definition score_hypothesis ::
    "bool \<Rightarrow> nat \<Rightarrow> evidence_fact list \<Rightarrow> evidence_fact list \<Rightarrow> string list \<Rightarrow>
     hypothesis_status \<times> rat \<times> (string, rat) dict" where
  "score_hypothesis generic specificity supporting contradicting missing =
     (let support = sum_list (map (authority_confidence \<circ> evf_authority) supporting);
          contradiction = sum_list (map (authority_confidence \<circ> evf_authority) contradicting);
          bonus = min (of_nat specificity * (4 / 100)) (20 / 100);
          penalty = min (of_nat (length missing) * (8 / 100)) (32 / 100);
          base = (if generic then 22 / 100 else 15 / 100);
          confidence = max (1 / 100) (min (99 / 100)
            (base + support * (32 / 100) + bonus - contradiction * (42 / 100) - penalty));
          status = (if contradiction \<ge> support \<and> contradiction > 0
                    then (if support = 0 then Hyp_Ruled_Out else Hyp_Contradicted)
                    else if supporting \<noteq> [] \<and> missing = [] \<and> 80 / 100 \<le> support then Hyp_Proven
                    else if supporting \<noteq> [] then Hyp_Supported
                    else Hyp_Candidate)
      in (status, round4 confidence,
          [(''base'', base), (''support'', round4 support), (''contradiction'', round4 contradiction),
           (''specificity'', round4 bonus), (''missing_prediction_penalty'', round4 penalty)]))"

text \<open>\<open>str.format\<close> with the fields \<open>subject\<close> and \<open>family\<close>; other fields fail.\<close>

fun format_claim :: "string \<Rightarrow> string \<Rightarrow> string \<Rightarrow> nat \<Rightarrow> string res" where
  "format_claim subj family s 0 = Inr s"
| "format_claim subj family s (Suc n) =
     (case s of
        [] \<Rightarrow> Inr []
      | c # rest \<Rightarrow>
          if c = CHR ''{'' then
            (if starts_with ''{'' rest then res_bind (format_claim subj family (drop 1 rest) n) (\<lambda>t. Inr (CHR ''{'' # t))
             else if starts_with ''subject}'' rest
             then res_bind (format_claim subj family (drop 8 rest) n) (\<lambda>t. Inr (subj @ t))
             else if starts_with ''family}'' rest
             then res_bind (format_claim subj family (drop 7 rest) n) (\<lambda>t. Inr (family @ t))
             else raise KeyError rest)
          else if c = CHR ''}'' then
            (if starts_with ''}'' rest then res_bind (format_claim subj family (drop 1 rest) n) (\<lambda>t. Inr (CHR ''}'' # t))
             else raise ValueError (''Single '' @ repr_str ''}'' @ '' encountered in format string''))
          else res_bind (format_claim subj family rest n) (\<lambda>t. Inr (c # t)))"

text \<open>\<open>set(value)\<close>: the strings of an iterable value.\<close>

definition strings_of :: "json \<Rightarrow> string set res" where
  "strings_of v =
     (case v of
        JList xs \<Rightarrow>
          if list_ex (\<lambda>x. case x of JList _ \<Rightarrow> True | JObj _ \<Rightarrow> True | JSet _ \<Rightarrow> True | _ \<Rightarrow> False) xs
          then raise TypeError ''unhashable type''
          else Inr (set (List.map_filter (\<lambda>x. case x of JStr s \<Rightarrow> Some s | _ \<Rightarrow> None) xs))
      | JSet A \<Rightarrow> Inr A
      | JStr s \<Rightarrow> Inr ((\<lambda>c. [c]) ` set s)
      | JObj kvs \<Rightarrow> Inr (fst ` set kvs)
      | _ \<Rightarrow> raise TypeError ''object is not iterable'')"

definition entity_types_of :: "topology_graph \<Rightarrow> (string, string set) dict" where
  "entity_types_of t = dict_of (map (\<lambda>e. (ent_id e, insert (ent_type e) (ent_type_lineage e))) (tg_entities t))"

definition template_applicable :: "(string, string set) dict \<Rightarrow> symptom \<Rightarrow> causal_template \<Rightarrow> bool res" where
  "template_applicable types s t =
     (if ct_symptom_types t \<noteq> {} \<and> sy_type s \<notin> ct_symptom_types t then Inr False
      else res_bind (strings_of (dget_default (ct_metadata t) ''supported_entity_types'' (JList []))) (\<lambda>supported.
        Inr (supported = {} \<or>
          list_ex (\<lambda>i. dget_default types i {} \<inter> supported \<noteq> {}) (sy_subject_ids s))))"

definition related_evidence :: "symptom \<Rightarrow> evidence_fact list \<Rightarrow> evidence_fact list" where
  "related_evidence s evidence = filter (\<lambda>f. subjects_overlap (evf_subject_ids f) (sy_subject_ids s)) evidence"

definition facts_matching :: "string set \<Rightarrow> evidence_fact list \<Rightarrow> evidence_fact list" where
  "facts_matching patterns facts = filter (\<lambda>f. \<exists>p \<in> patterns. fact_type_matches p (evf_type f)) facts"

definition missing_predictions :: "causal_template \<Rightarrow> evidence_fact list \<Rightarrow> string list" where
  "missing_predictions t facts =
     filter (\<lambda>p. \<not> list_ex (\<lambda>f. fact_type_matches p (evf_type f)) facts) (sorted_set (ct_predicted_fact_types t))"

definition hypothesis_of ::
    "digests \<Rightarrow> symptom \<Rightarrow> causal_template \<Rightarrow> evidence_fact list \<Rightarrow> string option \<Rightarrow> hypothesis res" where
  "hypothesis_of D s t evidence parent =
     (let related = related_evidence s evidence;
          supporting = facts_matching (ct_supporting_fact_types t) related;
          contradicting = facts_matching (ct_contradicting_fact_types t) related;
          missing = missing_predictions t related;
          (status, confidence, components) =
            score_hypothesis (ct_generic t) (ct_specificity t) supporting contradicting missing;
          subj = (case sy_subject_ids s of [] \<Rightarrow> ''unknown subject'' | i # _ \<Rightarrow> i);
          family = (case sy_invariant_family s of None \<Rightarrow> ''unknown'' | Some f \<Rightarrow> family_value f)
      in res_bind (format_claim subj family (ct_claim_template t) (length (ct_claim_template t))) (\<lambda>claim.
         Inr \<lparr>hy_id = ''hyp-'' @ dg_hypothesis D (sy_id s) (ct_id t), hy_family_id = ct_family_id t, hy_claim = claim,
           hy_template_id = Some (ct_id t), hy_parent_id = (if ct_generic t then None else parent),
           hy_subject_ids = sy_subject_ids s, hy_status = status, hy_confidence = confidence,
           hy_explains_symptom_ids = [sy_id s], hy_unexplained_symptom_ids = [],
           hy_supporting_evidence_ids = map evf_id supporting, hy_contradicting_evidence_ids = map evf_id contradicting,
           hy_required_probe_ids =
             (if missing \<noteq> [] \<and> status \<notin> {Hyp_Ruled_Out, Hyp_Contradicted} then ct_evidence_intent_ids t else []),
           hy_predictions = missing, hy_score_components = components,
           hy_metadata = [(''title'', JStr (ct_title t)), (''generic'', JBool (ct_generic t)),
             (''specificity'', JInt (int (ct_specificity t)))]\<rparr>))"

type_synonym edge_maker = "string \<Rightarrow> causal_edge"

definition fact_edge :: "causal_relation \<Rightarrow> string \<Rightarrow> evidence_fact \<Rightarrow> edge_maker" where
  "fact_edge relation hypothesis_id f fresh =
     \<lparr>ce_id = ''edge-'' @ fresh, ce_source_id = evf_id f, ce_target_id = hypothesis_id, ce_relation = relation,
      ce_statement = evf_statement f, ce_confidence = authority_confidence (evf_authority f), ce_evidence_ids = [evf_id f]\<rparr>"

definition explains_edge :: "causal_template \<Rightarrow> symptom \<Rightarrow> hypothesis \<Rightarrow> edge_maker" where
  "explains_edge t s h fresh =
     \<lparr>ce_id = ''edge-'' @ fresh, ce_source_id = hy_id h, ce_target_id = sy_id s, ce_relation = Rel_Explains,
      ce_statement = Txt (ct_title t @ '' explains '') # sy_statement s, ce_confidence = hy_confidence h,
      ce_evidence_ids = hy_supporting_evidence_ids h\<rparr>"

definition hypothesis_edges :: "symptom \<Rightarrow> causal_template \<Rightarrow> evidence_fact list \<Rightarrow> hypothesis \<Rightarrow> edge_maker list" where
  "hypothesis_edges s t evidence h =
     (let related = related_evidence s evidence in
      explains_edge t s h #
      map (fact_edge Rel_Supports (hy_id h)) (facts_matching (ct_supporting_fact_types t) related) @
      map (fact_edge Rel_Contradicts (hy_id h)) (facts_matching (ct_contradicting_fact_types t) related))"

definition add_new :: "hypothesis \<Rightarrow> hypothesis list \<Rightarrow> hypothesis list" where
  "add_new h hs = (if hy_id h \<in> set (map hy_id hs) then hs else hs @ [h])"

text \<open>The templates of one symptom, in order; \<open>parent\<close> is the last generic hypothesis.\<close>

fun consider_templates ::
    "digests \<Rightarrow> (string, string set) dict \<Rightarrow> evidence_fact list \<Rightarrow> symptom \<Rightarrow> causal_template list \<Rightarrow> string option \<Rightarrow>
     hypothesis list \<Rightarrow> edge_maker list \<Rightarrow> (hypothesis list \<times> edge_maker list) res" where
  "consider_templates D types evidence s [] parent hs es = Inr (hs, es)"
| "consider_templates D types evidence s (t # ts) parent hs es =
     (case template_applicable types s t of
        Inl e \<Rightarrow> Inl e
      | Inr False \<Rightarrow> consider_templates D types evidence s ts parent hs es
      | Inr True \<Rightarrow>
          (case hypothesis_of D s t evidence parent of
             Inl e \<Rightarrow> Inl e
           | Inr h \<Rightarrow>
               consider_templates D types evidence s ts (if ct_generic t then Some (hy_id h) else parent)
                 (add_new h hs) (es @ hypothesis_edges s t evidence h)))"

definition templates_of_symptom :: "diagnostic_catalog \<Rightarrow> causal_template \<Rightarrow> symptom \<Rightarrow> causal_template list" where
  "templates_of_symptom c generic s =
     sort_key ct_specificity (sort_key ct_id
       (case sy_invariant_family s of
          None \<Rightarrow> [generic]
        | Some f \<Rightarrow> let ts = templates_for_family c f in if generic \<in> set ts then ts else generic # ts))"

fun consider_symptoms ::
    "digests \<Rightarrow> diagnostic_catalog \<Rightarrow> causal_template \<Rightarrow> (string, string set) dict \<Rightarrow> evidence_fact list \<Rightarrow> symptom list \<Rightarrow>
     hypothesis list \<Rightarrow> edge_maker list \<Rightarrow> (hypothesis list \<times> edge_maker list) res" where
  "consider_symptoms D c generic types evidence [] hs es = Inr (hs, es)"
| "consider_symptoms D c generic types evidence (s # ss) hs es =
     (case consider_templates D types evidence s (templates_of_symptom c generic s) None hs es of
        Inl e \<Rightarrow> Inl e
      | Inr (hs', es') \<Rightarrow> consider_symptoms D c generic types evidence ss hs' es')"

definition dependency_types :: "string set" where
  "dependency_types = {''requires_for_readiness'', ''requires_for_service'', ''requires_for_liveness'', ''routes_to'',
     ''selects'', ''connects_to'', ''depends_on'', ''owned_by''}"

definition symptoms_at :: "symptom list \<Rightarrow> string \<Rightarrow> symptom list" where
  "symptoms_at ss i = concat (map (\<lambda>s. replicate (count_list (sy_subject_ids s) i) s) ss)"

definition propagation_edge :: "relationship \<Rightarrow> symptom \<Rightarrow> symptom \<Rightarrow> edge_maker" where
  "propagation_edge r target source fresh =
     \<lparr>ce_id = ''edge-'' @ fresh, ce_source_id = sy_id target, ce_target_id = sy_id source,
      ce_relation = Rel_Propagates_To,
      ce_statement = [Txt (''Violation at '' @ rel_target r @ '' may propagate to '' @ rel_source r @ '' through '' @
        rel_type r @ ''.'')],
      ce_confidence = rel_confidence r * (75 / 100), ce_evidence_ids = []\<rparr>"

definition propagation_edges :: "symptom list \<Rightarrow> topology_graph \<Rightarrow> edge_maker list" where
  "propagation_edges ss t =
     concat (map (\<lambda>r.
       if rel_type r \<notin> dependency_types then []
       else concat (map (\<lambda>target.
         map (propagation_edge r target)
           (filter (\<lambda>source. sy_id source \<noteq> sy_id target) (symptoms_at ss (rel_source r))))
         (symptoms_at ss (rel_target r)))) (tg_relationships t))"

definition mark_unexplained :: "symptom list \<Rightarrow> hypothesis \<Rightarrow> hypothesis" where
  "mark_unexplained ss h =
     h\<lparr>hy_unexplained_symptom_ids := sorted_set (set (map sy_id ss) - set (hy_explains_symptom_ids h))\<rparr>"

definition generate_hypotheses ::
    "digests \<Rightarrow> (nat \<Rightarrow> string) \<Rightarrow> diagnostic_catalog \<Rightarrow> symptom list \<Rightarrow> evidence_fact list \<Rightarrow> topology_graph \<Rightarrow>
     (hypothesis list \<times> causal_edge list) res" where
  "generate_hypotheses D fresh c ss evidence topology =
     res_bind (catalog_template c ''operational.invariant_violation.v1'') (\<lambda>generic.
     res_bind (consider_symptoms D c generic (entity_types_of topology) evidence ss [] []) (\<lambda>(hs, es).
       let makers = es @ propagation_edges ss topology in
       Inr (sort_key (\<lambda>h. - hy_confidence h) (sort_key hy_family_id (sort_key hy_id (map (mark_unexplained ss) hs))),
            map (\<lambda>(n, make). make (fresh n)) (enumerate 0 makers))))"

section \<open>Certificates\<close>

definition is_generic :: "hypothesis \<Rightarrow> bool" where
  "is_generic h = (case dget (hy_metadata h) ''generic'' of None \<Rightarrow> False | Some v \<Rightarrow> truthy v)"

definition refuted :: "hypothesis \<Rightarrow> bool" where
  "refuted h \<longleftrightarrow> hy_status h \<in> {Hyp_Ruled_Out, Hyp_Contradicted}"

definition minimal_roots :: "hypothesis list \<Rightarrow> hypothesis list" where
  "minimal_roots hs =
     filter (\<lambda>h. case hy_parent_id h of None \<Rightarrow> True | Some p \<Rightarrow> p = [] \<or> p \<notin> set (map hy_id hs)) hs"

definition verdict :: "hypothesis list \<Rightarrow> certificate_verdict \<times> string list" where
  "verdict hs =
     (let open_specific = filter (\<lambda>h. \<not> is_generic h \<and> \<not> refuted h) hs;
          proven = filter (\<lambda>h. hy_status h = Hyp_Proven) open_specific;
          supported = filter (\<lambda>h. hy_status h = Hyp_Supported) open_specific;
          candidates = filter (\<lambda>h. hy_status h \<in> {Hyp_Candidate, Hyp_Unresolved}) open_specific;
          generic = filter (\<lambda>h. is_generic h \<and> \<not> refuted h) hs
      in if proven \<noteq> [] then
           (let roots = map hy_id (minimal_roots proven) in
            (if length roots = 1 then Root_Cause_Identified else Multiple_Plausible_Causes, roots))
         else if supported \<noteq> [] then
           (let roots = map hy_id (minimal_roots supported) in
            (if length roots = 1 then Failure_Class_Identified else Multiple_Plausible_Causes, roots))
         else if candidates \<noteq> [] then (Insufficient_Evidence, [])
         else if generic \<noteq> [] then (Partial_Causal_Chain, [hy_id (hd generic)])
         else (Unknown_Semantics, []))"

definition build_certificate ::
    "string \<Rightarrow> string \<Rightarrow> string \<Rightarrow> string list \<Rightarrow> hypothesis list \<Rightarrow> evidence_fact list \<Rightarrow> causal_edge list \<Rightarrow>
     diagnosis_certificate" where
  "build_certificate fresh now_iso incident_id violated hs evidence edges =
     (let open_specific = filter (\<lambda>h. \<not> is_generic h \<and> \<not> refuted h) hs;
          proven = filter (\<lambda>h. hy_status h = Hyp_Proven) open_specific;
          supported = filter (\<lambda>h. hy_status h = Hyp_Supported) open_specific;
          candidates = filter (\<lambda>h. hy_status h \<in> {Hyp_Candidate, Hyp_Unresolved}) open_specific;
          generic = filter (\<lambda>h. is_generic h \<and> \<not> refuted h) hs;
          (status, roots) = verdict hs;
          selected = filter (\<lambda>h. hy_id h \<in> set roots) hs
      in \<lparr>dc_id = ''diag-cert-'' @ fresh, dc_incident_id = incident_id, dc_issued_at_iso = Some now_iso,
          dc_violated_invariant_ids = violated,
          dc_causal_chain = take 50 (map ce_statement
            (filter (\<lambda>e. ce_relation e \<in> {Rel_Propagates_To, Rel_Explains}) edges)),
          dc_causal_edges = edges, dc_root_cause_ids = roots, dc_ruled_out_ids = map hy_id (filter refuted hs),
          dc_unresolved_ids = map hy_id candidates,
          dc_unresolved_questions = sorted_set (\<Union>h \<in> set (supported @ candidates). set (hy_required_probe_ids h)),
          dc_evidence_ids = map evf_id evidence, dc_status = status,
          dc_confidence = (if selected = [] then 0
            else round4 (sum_list (map hy_confidence selected) / of_nat (length selected))),
          dc_nearest_family_ids = sorted_set (hy_family_id ` set (selected @ generic)),
          dc_metadata = [(''hypothesis_count'', JInt (int (length hs))), (''proven_count'', JInt (int (length proven))),
            (''supported_count'', JInt (int (length supported))), (''candidate_count'', JInt (int (length candidates)))]\<rparr>)"

end
