(* ===== verification/Diagnosis_Planning.thy ===== *)
theory Diagnosis_Planning
  imports Diagnosis
begin

text \<open>
  \<open>diagnosis/probes.py\<close>, the planner of \<open>diagnosis/evidence.py\<close> and the merge of evidence in
  \<open>diagnosis/service.py\<close>: which collectors answer an intent, and which probes separate the open hypotheses.
  Fresh identifiers are taken by position.
\<close>

section \<open>Evidence planning\<close>

fun cost_weight :: "cost_class \<Rightarrow> rat" where
  "cost_weight Cost_Negligible = 1 / 4"
| "cost_weight Cost_Low = 1"
| "cost_weight Cost_Medium = 3"
| "cost_weight Cost_High = 8"

fun authority_rank :: "authority \<Rightarrow> int" where
  "authority_rank Auth_Heuristic = 0"
| "authority_rank Auth_Low = 1"
| "authority_rank Auth_Medium = 2"
| "authority_rank Auth_High = 3"
| "authority_rank Auth_Authoritative = 4"

record evidence_context =
  cx_snapshot :: env_snapshot
  cx_topology :: topology_graph
  cx_assessments :: "profile_assessment list"
  cx_mode :: string
  cx_available_capabilities :: "string set"

definition usable_in :: "evidence_context \<Rightarrow> collector \<Rightarrow> bool" where
  "usable_in cx d \<longleftrightarrow> cx_mode cx \<in> cl_supported_modes d \<and>
     cl_required_capabilities d \<subseteq> cx_available_capabilities cx \<and>
     cl_required_inputs d \<subseteq> cx_available_capabilities cx"

definition question_overlap :: "evidence_intent \<Rightarrow> collector \<Rightarrow> string set" where
  "question_overlap i d = set (cl_questions_answered d) \<inter> set (in_questions_answered i)"

definition fact_overlap :: "evidence_intent \<Rightarrow> collector \<Rightarrow> nat" where
  "fact_overlap i d =
     length (filter (\<lambda>r. list_ex (fact_type_matches r) (cl_fact_types d)) (in_required_fact_types i))"

definition candidate_score :: "evidence_intent \<Rightarrow> collector \<Rightarrow> rat" where
  "candidate_score i d =
     of_nat (card (question_overlap i d)) * 3 + of_nat (fact_overlap i d) * 4 +
     (if cl_id d \<in> set (in_preferred_collector_ids i) then 3 else 0) +
     of_int (max (authority_rank (cl_authority d) - authority_rank (in_required_authority i)) (- 2)) * (1 / 2) -
     cost_weight (cl_cost_class d) * (1 / 4)"

definition relevant :: "evidence_intent \<Rightarrow> collector \<Rightarrow> bool" where
  "relevant i d \<longleftrightarrow> question_overlap i d \<noteq> {} \<or> fact_overlap i d \<noteq> 0 \<or> cl_id d \<in> set (in_preferred_collector_ids i)"

definition evidence_candidates :: "diagnostic_catalog \<Rightarrow> evidence_intent \<Rightarrow> evidence_context \<Rightarrow> (collector \<times> rat) list" where
  "evidence_candidates c i cx =
     sort_key (\<lambda>p. - snd p) (sort_key (\<lambda>p. cl_id (fst p))
       (map (\<lambda>d. (d, candidate_score i d))
         (filter (\<lambda>d. usable_in cx d \<and> relevant i d) (catalog_collectors c))))"

definition required_facts :: "evidence_intent \<Rightarrow> string set \<Rightarrow> string set" where
  "required_facts i existing = set (filter (\<lambda>t. \<not> (\<exists>x \<in> existing. fact_type_matches t x)) (in_required_fact_types i))"

definition expected_facts :: "string set \<Rightarrow> collector \<Rightarrow> string list" where
  "expected_facts required d =
     sort (filter (\<lambda>t. required = {} \<or> (\<exists>r \<in> required. fact_type_matches r t)) (cl_fact_types d))"

definition answered :: "string set \<Rightarrow> string set \<Rightarrow> bool" where
  "answered required covered \<longleftrightarrow> (\<forall>r \<in> required. \<exists>x \<in> covered. fact_type_matches r x)"

definition plan_step_of :: "string \<Rightarrow> evidence_intent \<Rightarrow> collector \<Rightarrow> string list \<Rightarrow> rat \<Rightarrow> plan_step" where
  "plan_step_of fresh i d expected score =
     \<lparr>st_id = ''step-'' @ fresh, st_collector_id = cl_id d, st_intent_id = in_id i, st_subject_ids = in_subject_ids i,
      st_questions_answered = sorted_set (question_overlap i d),
      st_expected_fact_types = (if expected = [] then cl_fact_types d else expected),
      st_rationale = ''Answers '' @ nat_str (card (question_overlap i d)) @ '' requested questions at '' @
        cost_value (cl_cost_class d) @ '' cost using '' @ authority_value (cl_authority d) @ '' evidence.'',
      st_score = score, st_dependencies = []\<rparr>"

type_synonym planning_state = "plan_step list \<times> (string \<times> string \<times> string list) set \<times> rat"

text \<open>The candidates of one intent, up to its stopping condition; last, the fact types covered.\<close>

fun take_candidates ::
    "(nat \<Rightarrow> string) \<Rightarrow> evidence_intent \<Rightarrow> string set \<Rightarrow> (collector \<times> rat) list \<Rightarrow> planning_state \<Rightarrow> string set \<Rightarrow>
     planning_state \<times> string set" where
  "take_candidates fresh i required [] st covered = (st, covered)"
| "take_candidates fresh i required ((d, score) # cs) (steps, selected, cost) covered =
     (let expected = expected_facts required d; identity = (cl_id d, in_id i, sort (in_subject_ids i)) in
      if (required \<noteq> {} \<and> expected = []) \<or> identity \<in> selected
      then take_candidates fresh i required cs (steps, selected, cost) covered
      else
        (let st = (steps @ [plan_step_of (fresh (length steps)) i d expected score], insert identity selected,
                   cost + cost_weight (cl_cost_class d));
             covered' = covered \<union> set expected
         in if in_stopping_condition i = First_Authoritative_Answer \<and> cl_authority d = Auth_Authoritative
            then (st, covered')
            else if required \<noteq> {} \<and> answered required covered' then (st, covered')
            else take_candidates fresh i required cs st covered'))"

fun plan_intents ::
    "(nat \<Rightarrow> string) \<Rightarrow> diagnostic_catalog \<Rightarrow> evidence_context \<Rightarrow> string set \<Rightarrow> evidence_intent list \<Rightarrow> planning_state \<Rightarrow>
     planning_state \<times> string list" where
  "plan_intents fresh c cx existing [] st = (st, [])"
| "plan_intents fresh c cx existing (i # rest) st =
     (let required = required_facts i existing in
      if required = {} \<and> in_required_fact_types i \<noteq> [] then plan_intents fresh c cx existing rest st
      else
        (let (st', covered) = take_candidates fresh i required (evidence_candidates c i cx) st {};
             (st'', unresolved) = plan_intents fresh c cx existing rest st'
         in (st'', (if required \<noteq> {} \<and> \<not> answered required covered then [in_id i] else []) @ unresolved)))"

definition plan_evidence ::
    "(nat \<Rightarrow> string) \<Rightarrow> string \<Rightarrow> string \<Rightarrow> diagnostic_catalog \<Rightarrow> evidence_intent list \<Rightarrow> evidence_context \<Rightarrow>
     string option \<Rightarrow> string set \<Rightarrow> collection_plan" where
  "plan_evidence fresh plan_fresh now_iso c intents cx incident_id existing =
     (let ((steps, _, cost), unresolved) = plan_intents fresh c cx existing intents ([], {}, 0) in
      \<lparr>pl_id = ''evidence-plan-'' @ plan_fresh, pl_incident_id = incident_id, pl_environment_id = snap_environment_id (cx_snapshot cx),
       pl_snapshot_id = snap_id (cx_snapshot cx), pl_created_at_iso = now_iso, pl_intents = intents,
       pl_steps = sort_key (\<lambda>s. - st_score s) (sort_key st_id steps), pl_unresolved_intent_ids = unresolved,
       pl_estimated_cost_score = round3 cost, pl_metadata = [(''mode'', JStr (cx_mode cx))]\<rparr>)"

section \<open>Probe planning\<close>

definition unresolved_hypotheses :: "hypothesis list \<Rightarrow> hypothesis list" where
  "unresolved_hypotheses hs =
     filter (\<lambda>h. hy_status h \<in> {Hyp_Candidate, Hyp_Supported, Hyp_Unresolved} \<and> \<not> is_generic h) hs"

definition by_intent :: "hypothesis list \<Rightarrow> (string, hypothesis list) dict" where
  "by_intent hs =
     foldl (\<lambda>d (i, h). dset i (dget_default d i [] @ [h]) d) []
       (concat (map (\<lambda>h. map (\<lambda>i. (i, h)) (hy_required_probe_ids h)) hs))"

definition missing_types :: "evidence_intent \<Rightarrow> hypothesis list \<Rightarrow> string set \<Rightarrow> string list" where
  "missing_types i affected existing =
     filter (\<lambda>t. \<not> (\<exists>x \<in> existing. fact_type_matches t x))
       (dedup (in_required_fact_types i @ sorted_set (\<Union>h \<in> set affected. set (hy_predictions h))))"

definition probe_collectors :: "diagnostic_catalog \<Rightarrow> evidence_intent \<Rightarrow> string list \<Rightarrow> collector list" where
  "probe_collectors c i missing =
     filter (\<lambda>d. (cl_id d \<in> set (in_preferred_collector_ids i) \<or> question_overlap i d \<noteq> {}) \<and>
       list_ex (\<lambda>r. list_ex (fact_type_matches r) (cl_fact_types d)) missing) (catalog_collectors c)"

definition contradicting_outcomes :: "hypothesis list \<Rightarrow> string list res" where
  "contradicting_outcomes hs =
     res_bind (res_map (\<lambda>h. strings_of (dget_default (hy_metadata h) ''contradicting_fact_types'' (JList []))) hs)
       (\<lambda>sets. Inr (sorted_set (\<Union> (set sets))))"

definition probe_of ::
    "string \<Rightarrow> string \<Rightarrow> evidence_intent \<Rightarrow> hypothesis list \<Rightarrow> string list \<Rightarrow> collector list \<Rightarrow> string list \<Rightarrow> probe_intent" where
  "probe_of fresh intent_id i affected missing candidates contradict =
     (let cheapest = Min (set (map (\<lambda>d. cost_weight (cl_cost_class d)) candidates));
          diversity = card (set (map hy_family_id affected));
          gain = of_nat (length affected) + of_nat diversity * (1 / 2) + of_nat (length missing) * (1 / 4);
          support = sorted_set (\<Union>h \<in> set affected. set (hy_predictions h))
      in \<lparr>pr_id = ''probe-'' @ fresh, pr_title = (if in_title i = [] then in_question i else in_title i),
          pr_evidence_intent_id = intent_id, pr_applicable_hypothesis_ids = map hy_id affected,
          pr_discriminates_hypothesis_ids = map hy_id affected,
          pr_candidate_collector_ids =
            map cl_id (sort_key (\<lambda>d. cost_weight (cl_cost_class d)) (sort_key cl_id candidates)),
          pr_expected_outcomes =
            [(''support'', if support = [] then missing else support), (''contradict'', contradict)],
          pr_preconditions = [],
          pr_rationale = ''Collects '' @ join '', '' missing @ '' to discriminate '' @ nat_str (length affected) @
            '' unresolved hypotheses across '' @ nat_str diversity @ '' causal families.'',
          pr_information_gain_score = round4 (gain / max cheapest (1 / 4)), pr_cost_score = cheapest,
          pr_risk_class = in_risk_class i, pr_estimated_duration_seconds = None, pr_status = Probe_Recommended,
          pr_metadata = [(''subject_ids'', JList (map JStr (sorted_set (\<Union>h \<in> set affected. set (hy_subject_ids h))))),
            (''missing_fact_types'', JList (map JStr missing))]\<rparr>)"

text \<open>A missing intent is a \<open>RegistryError\<close>, which the handler of \<open>KeyError\<close> does not catch.\<close>

fun plan_probes_loop ::
    "(nat \<Rightarrow> string) \<Rightarrow> diagnostic_catalog \<Rightarrow> string set \<Rightarrow> (string \<times> hypothesis list) list \<Rightarrow> probe_intent list \<Rightarrow>
     probe_intent list res" where
  "plan_probes_loop fresh c existing [] probes = Inr probes"
| "plan_probes_loop fresh c existing ((intent_id, affected) # rest) probes =
     (case catalog_intent c intent_id of
        Inl e \<Rightarrow> if fst e = KeyError then plan_probes_loop fresh c existing rest probes else Inl e
      | Inr i \<Rightarrow>
          (let missing = missing_types i affected existing; candidates = probe_collectors c i missing in
           if missing = [] \<or> candidates = [] then plan_probes_loop fresh c existing rest probes
           else res_bind (contradicting_outcomes affected) (\<lambda>contradict.
             plan_probes_loop fresh c existing rest
               (probes @ [probe_of (fresh (length probes)) intent_id i affected missing candidates contradict]))))"

definition rank_probes :: "probe_intent list \<Rightarrow> probe_intent list" where
  "rank_probes ps =
     sort_key (\<lambda>p. - pr_information_gain_score p) (sort_key pr_cost_score (sort_key pr_id ps))"

definition within_budget :: "int option \<Rightarrow> probe_intent list \<Rightarrow> probe_intent list" where
  "within_budget budget ps =
     (case budget of None \<Rightarrow> ps
      | Some b \<Rightarrow> if 0 \<le> b then take (nat b) ps else take (length ps - nat (- b)) ps)"

definition validate_probe_plan :: "probe_plan \<Rightarrow> probe_plan res" where
  "validate_probe_plan p =
     (case pp_evidence_budget p of
        None \<Rightarrow> Inr p
      | Some b \<Rightarrow> if b < 0 then raise ValueError ''Input should be greater than or equal to 0'' else Inr p)"

definition plan_probes ::
    "(nat \<Rightarrow> string) \<Rightarrow> string \<Rightarrow> string \<Rightarrow> diagnostic_catalog \<Rightarrow> string \<Rightarrow> hypothesis list \<Rightarrow> evidence_fact list \<Rightarrow>
     int option \<Rightarrow> probe_plan res" where
  "plan_probes fresh plan_fresh now_iso c incident_id hs evidence budget =
     (let unresolved = unresolved_hypotheses hs;
          plan = \<lparr>pp_id = ''probe-plan-'' @ plan_fresh, pp_incident_id = incident_id, pp_created_at_iso = now_iso,
            pp_probes = [], pp_stopping_reason = Some ''No unresolved specialized hypotheses remain.'',
            pp_evidence_budget = budget, pp_metadata = []\<rparr>
      in if unresolved = [] then validate_probe_plan plan
         else res_bind (plan_probes_loop fresh c (set (map evf_type evidence)) (by_intent unresolved) []) (\<lambda>probes.
           let chosen = within_budget budget (rank_probes probes) in
           validate_probe_plan (plan\<lparr>pp_probes := chosen,
             pp_stopping_reason := (if chosen \<noteq> [] then None
               else Some ''No applicable read-only collector can resolve the remaining evidence gaps.''),
             pp_metadata := [(''unresolved_hypothesis_count'', JInt (int (length unresolved)))]\<rparr>)))"

section \<open>Merging evidence and the status of an incident\<close>

definition merge_evidence :: "evidence_fact list list \<Rightarrow> evidence_fact list" where
  "merge_evidence groups = sort_key evf_id (map snd (dict_of (map (\<lambda>f. (evf_id f, f)) (concat groups))))"

definition incident_status_of :: "certificate_verdict \<Rightarrow> incident_status" where
  "incident_status_of v =
     (if v \<in> {Root_Cause_Identified, Failure_Class_Identified} then Incident_Diagnosed
      else if v \<in> {Insufficient_Evidence, Unknown_Semantics} then Incident_Insufficient
      else Incident_Investigating)"

end
