(* ===== verification/Diagnosis_Catalog.thy ===== *)
theory Diagnosis_Catalog
  imports Diagnosis_Planning
begin

text \<open>
  The built-in entries of \<open>diagnosis/catalog.py\<close>: evidence intents, collectors and causal templates, and the
  catalogue built of them and of what active packs add. Shown: the built-in catalogue is closed (an intent asks
  for registered collectors, a template for registered intents), and how its templates read the facts.
\<close>

section \<open>The entries\<close>

definition plain_intent :: evidence_intent where
  "plain_intent = \<lparr>in_id = [], in_title = [], in_question = [], in_questions_answered = [], in_subject_ids = [],
     in_required_fact_types = [], in_preferred_collector_ids = [], in_required_authority = Auth_Authoritative,
     in_maximum_age_seconds = None, in_cost_class = Cost_Low, in_risk_class = R0,
     in_stopping_condition = All_Required_Facts, in_metadata = []\<rparr>"

definition plain_collector :: collector where
  "plain_collector = \<lparr>cl_id = [], cl_title = [], cl_description = [], cl_questions_answered = [], cl_fact_types = [],
     cl_supported_modes = {''fixture'', ''live''}, cl_required_capabilities = {}, cl_supported_entity_types = {},
     cl_supported_planes = {}, cl_required_inputs = {}, cl_handler_id = [], cl_authority = Auth_Authoritative,
     cl_cost_class = Cost_Low, cl_risk_class = R0, cl_estimated_duration_seconds = None, cl_metadata = []\<rparr>"

definition plain_template :: causal_template where
  "plain_template = \<lparr>ct_id = [], ct_family_id = [], ct_title = [], ct_claim_template = [], ct_parent_family_id = None,
     ct_invariant_families = {}, ct_symptom_types = {}, ct_supporting_fact_types = {},
     ct_contradicting_fact_types = {}, ct_predicted_fact_types = {}, ct_evidence_intent_ids = [],
     ct_specificity = 0, ct_generic = False, ct_metadata = []\<rparr>"

definition builtin_intents :: "evidence_intent list" where
  "builtin_intents =
    [plain_intent
       \<lparr>in_id := ''entity.current_state.v1'', in_title := ''Inspect current entity state'',
         in_question := ''What authoritative state is currently reported for the affected entity?'',
         in_questions_answered := [''entity_exists'', ''entity_ready'', ''entity_conditions''],
         in_required_fact_types := [''entity.exists'', ''entity.state''],
         in_preferred_collector_ids := [''snapshot.entity_state.v1'', ''snapshot.conditions.v1''],
         in_stopping_condition := All_Required_Facts\<rparr>,
     plain_intent
       \<lparr>in_id := ''dependency.path.v1'', in_title := ''Inspect dependency path'',
         in_question := ''Which dependency edges connect the affected component to its providers and consumers?'',
         in_questions_answered := [''dependency_path'', ''upstream_providers'', ''downstream_consumers''],
         in_required_fact_types := [''topology.neighborhood''],
         in_preferred_collector_ids := [''snapshot.topology_neighborhood.v1'']\<rparr>,
     plain_intent
       \<lparr>in_id := ''endpoint.layer.v1'', in_title := ''Discriminate reachability layer'',
         in_question := ''Is endpoint failure caused by resolution, route, transport, TLS, or endpoint absence?'',
         in_questions_answered := [''name_resolution'', ''route'', ''transport'', ''tls'', ''endpoint_presence''],
         in_required_fact_types := [''endpoint.layer''],
         in_preferred_collector_ids := [''snapshot.endpoint_state.v1'']\<rparr>,
     plain_intent
       \<lparr>in_id := ''identity.authentication.v1'', in_title := ''Inspect authentication chain'',
         in_question := ''Is the intended credential present, fresh, and propagated to the client request?'',
         in_questions_answered := [''credential_present'', ''credential_fresh'', ''credential_propagated''],
         in_required_fact_types := [''authentication.state''],
         in_preferred_collector_ids := [''snapshot.authentication_state.v1'']\<rparr>,
     plain_intent
       \<lparr>in_id := ''identity.authorization.v1'', in_title := ''Inspect authorization result'',
         in_question := ''Did an authenticated identity possess the bounded capability required for the operation?'',
         in_questions_answered := [''authenticated_identity'', ''authorization_decision'', ''permission_gap''],
         in_required_fact_types := [''authorization.state''],
         in_preferred_collector_ids := [''snapshot.authorization_state.v1'', ''snapshot.permission_gaps.v1'']\<rparr>,
     plain_intent
       \<lparr>in_id := ''controller.progress.v1'', in_title := ''Inspect reconciliation progress'',
         in_question := ''Is the responsible controller observing the current generation and making progress?'',
         in_questions_answered := [''observed_generation'', ''controller_conditions'', ''reconcile_stall''],
         in_required_fact_types := [''controller.progress''],
         in_preferred_collector_ids := [''snapshot.controller_progress.v1'', ''snapshot.conditions.v1'']\<rparr>,
     plain_intent
       \<lparr>in_id := ''placement.constraints.v1'', in_title := ''Inspect placement constraints'',
         in_question := ''Which capacity, taint, affinity, topology, quota, or storage constraint prevents placement?'',
         in_questions_answered := [''capacity'', ''taints'', ''affinity'', ''storage_topology'', ''quota''],
         in_required_fact_types := [''placement.state''],
         in_preferred_collector_ids := [''snapshot.placement_state.v1'', ''snapshot.discovery_issues.v1'']\<rparr>,
     plain_intent
       \<lparr>in_id := ''capacity.pressure.v1'', in_title := ''Inspect capacity and pressure'',
         in_question := ''Which bounded resource is below its operational safety threshold?'',
         in_questions_answered := [''cpu'', ''memory'', ''disk'', ''inodes'', ''pids'', ''quota''],
         in_required_fact_types := [''capacity.state''],
         in_preferred_collector_ids := [''snapshot.capacity_state.v1'']\<rparr>,
     plain_intent
       \<lparr>in_id := ''configuration.references.v1'', in_title := ''Inspect configuration references'',
         in_question := ''Do all required references resolve to intended compatible entities?'',
         in_questions_answered := [''reference_exists'', ''reference_target'', ''binding_compatibility''],
         in_required_fact_types := [''configuration.reference_state''],
         in_preferred_collector_ids := [''snapshot.reference_state.v1'', ''snapshot.topology_neighborhood.v1'']\<rparr>,
     plain_intent
       \<lparr>in_id := ''observability.quality.v1'', in_title := ''Inspect evidence quality'',
         in_question := ''Is required evidence present, fresh, authoritative, and mutually consistent?'',
         in_questions_answered := [''missing_evidence'', ''stale_evidence'', ''contradictory_evidence'', ''permission_gap''],
         in_required_fact_types := [''observability.quality''],
         in_preferred_collector_ids := [''snapshot.observability_quality.v1'', ''snapshot.permission_gaps.v1'']\<rparr>]"

definition builtin_collectors :: "collector list" where
  "builtin_collectors =
    [plain_collector
       \<lparr>cl_id := ''snapshot.entity_state.v1'', cl_title := ''Snapshot entity-state collector'',
         cl_handler_id := ''entity_state'',
         cl_questions_answered := [''entity_exists'', ''entity_ready'', ''entity_state''],
         cl_fact_types := [''entity.exists'', ''entity.state'', ''entity.ready''],
         cl_required_inputs := {''snapshot''}, cl_cost_class := Cost_Negligible\<rparr>,
     plain_collector
       \<lparr>cl_id := ''snapshot.conditions.v1'', cl_title := ''Kubernetes condition collector'',
         cl_handler_id := ''conditions'',
         cl_questions_answered := [''entity_conditions'', ''controller_conditions''],
         cl_fact_types := [''kubernetes.condition''], cl_required_inputs := {''snapshot''},
         cl_cost_class := Cost_Negligible\<rparr>,
     plain_collector
       \<lparr>cl_id := ''snapshot.topology_neighborhood.v1'', cl_title := ''Topology-neighborhood collector'',
         cl_handler_id := ''topology_neighborhood'',
         cl_questions_answered := [''dependency_path'', ''upstream_providers'', ''downstream_consumers''],
         cl_fact_types := [''topology.neighborhood'', ''dependency.edge''],
         cl_required_inputs := {''snapshot'', ''topology''}, cl_cost_class := Cost_Negligible\<rparr>,
     plain_collector
       \<lparr>cl_id := ''snapshot.endpoint_state.v1'', cl_title := ''Layered endpoint-state collector'',
         cl_handler_id := ''endpoint_state'',
         cl_questions_answered := [''name_resolution'', ''route'', ''transport'', ''tls'', ''endpoint_presence''],
         cl_fact_types := [''endpoint.layer'', ''endpoint.reachable'', ''endpoint.ready''],
         cl_required_inputs := {''snapshot''}, cl_cost_class := Cost_Low\<rparr>,
     plain_collector
       \<lparr>cl_id := ''snapshot.authentication_state.v1'', cl_title := ''Authentication-state collector'',
         cl_handler_id := ''authentication_state'',
         cl_questions_answered := [''credential_present'', ''credential_fresh'', ''credential_propagated''],
         cl_fact_types := [''authentication.state'', ''authentication.failure''],
         cl_required_inputs := {''snapshot''}, cl_cost_class := Cost_Low\<rparr>,
     plain_collector
       \<lparr>cl_id := ''snapshot.authorization_state.v1'', cl_title := ''Authorization-state collector'',
         cl_handler_id := ''authorization_state'',
         cl_questions_answered := [''authenticated_identity'', ''authorization_decision''],
         cl_fact_types := [''authorization.state'', ''authorization.denied''],
         cl_required_inputs := {''snapshot''}, cl_cost_class := Cost_Low\<rparr>,
     plain_collector
       \<lparr>cl_id := ''snapshot.controller_progress.v1'', cl_title := ''Controller-progress collector'',
         cl_handler_id := ''controller_progress'',
         cl_questions_answered := [''observed_generation'', ''reconcile_stall''],
         cl_fact_types := [''controller.progress'', ''controller.stalled''], cl_required_inputs := {''snapshot''},
         cl_cost_class := Cost_Low\<rparr>,
     plain_collector
       \<lparr>cl_id := ''snapshot.placement_state.v1'', cl_title := ''Placement-constraint collector'',
         cl_handler_id := ''placement_state'',
         cl_questions_answered := [''capacity'', ''taints'', ''affinity'', ''storage_topology'', ''quota''],
         cl_fact_types := [''placement.state'', ''placement.unsatisfied_constraint''],
         cl_required_inputs := {''snapshot''}, cl_cost_class := Cost_Low\<rparr>,
     plain_collector
       \<lparr>cl_id := ''snapshot.capacity_state.v1'', cl_title := ''Capacity-state collector'',
         cl_handler_id := ''capacity_state'',
         cl_questions_answered := [''cpu'', ''memory'', ''disk'', ''inodes'', ''pids'', ''quota''],
         cl_fact_types := [''capacity.state'', ''capacity.exhausted''], cl_required_inputs := {''snapshot''},
         cl_cost_class := Cost_Low\<rparr>,
     plain_collector
       \<lparr>cl_id := ''snapshot.reference_state.v1'', cl_title := ''Reference-resolution collector'',
         cl_handler_id := ''reference_state'',
         cl_questions_answered := [''reference_exists'', ''reference_target'', ''binding_compatibility''],
         cl_fact_types := [''configuration.reference_state'', ''configuration.reference_missing''],
         cl_required_inputs := {''snapshot'', ''topology''}, cl_cost_class := Cost_Low\<rparr>,
     plain_collector
       \<lparr>cl_id := ''snapshot.discovery_issues.v1'', cl_title := ''Discovery-issue collector'',
         cl_handler_id := ''discovery_issues'',
         cl_questions_answered := [''collector_errors'', ''resource_warnings''],
         cl_fact_types := [''discovery.issue''], cl_required_inputs := {''snapshot''},
         cl_cost_class := Cost_Negligible\<rparr>,
     plain_collector
       \<lparr>cl_id := ''snapshot.permission_gaps.v1'', cl_title := ''Permission-gap collector'',
         cl_handler_id := ''permission_gaps'', cl_questions_answered := [''permission_gap''],
         cl_fact_types := [''authorization.permission_gap'', ''observability.permission_gap''],
         cl_required_inputs := {''snapshot''}, cl_cost_class := Cost_Negligible\<rparr>,
     plain_collector
       \<lparr>cl_id := ''snapshot.observability_quality.v1'', cl_title := ''Observability-quality collector'',
         cl_handler_id := ''observability_quality'',
         cl_questions_answered := [''missing_evidence'', ''stale_evidence'', ''contradictory_evidence''],
         cl_fact_types := [''observability.quality'', ''observability.gap''],
         cl_required_inputs := {''snapshot''}, cl_cost_class := Cost_Negligible\<rparr>]"

definition cause_templates :: "causal_template list" where
  "cause_templates =
    [plain_template
       \<lparr>ct_id := ''operational.invariant_violation.v1'', ct_family_id := ''operational.invariant_violation'',
         ct_title := ''Operational invariant violation'',
         ct_claim_template := ''{subject} violates a required {family} operational contract.'',
         ct_invariant_families := UNIV, ct_supporting_fact_types := {''invariant.violated''},
         ct_predicted_fact_types := {''entity.state''}, ct_evidence_intent_ids := [''entity.current_state.v1''],
         ct_generic := True\<rparr>,
     plain_template
       \<lparr>ct_id := ''entity.required_absent.v1'', ct_family_id := ''entity.required_absent'',
         ct_parent_family_id := Some ''operational.invariant_violation'', ct_title := ''Required entity absent'',
         ct_claim_template := ''Required entity {subject} is absent from the observed environment.'',
         ct_invariant_families := {Fam_Existence},
         ct_supporting_fact_types := {''entity.absent'', ''entity.exists.false''},
         ct_contradicting_fact_types := {''entity.exists.true''}, ct_predicted_fact_types := {''entity.exists''},
         ct_evidence_intent_ids := [''entity.current_state.v1''], ct_specificity := 4\<rparr>,
     plain_template
       \<lparr>ct_id := ''binding.invalid.v1'', ct_family_id := ''binding.invalid'',
         ct_parent_family_id := Some ''operational.invariant_violation'',
         ct_title := ''Reference or binding invalid'',
         ct_claim_template := ''A required reference or binding for {subject} does not resolve correctly.'',
         ct_invariant_families := {Fam_Identity_Resolution, Fam_Structural, Fam_Configuration},
         ct_supporting_fact_types := {''configuration.reference_missing'', ''configuration.reference_invalid''},
         ct_contradicting_fact_types := {''configuration.reference_valid''},
         ct_predicted_fact_types := {''configuration.reference_state''},
         ct_evidence_intent_ids := [''configuration.references.v1'', ''dependency.path.v1''], ct_specificity := 3\<rparr>,
     plain_template
       \<lparr>ct_id := ''dependency.endpoint_unreachable.v1'', ct_family_id := ''dependency.endpoint_unreachable'',
         ct_parent_family_id := Some ''operational.invariant_violation'',
         ct_title := ''Dependency endpoint unreachable'',
         ct_claim_template := ''A required communication path for {subject} cannot be established.'',
         ct_invariant_families := {Fam_Reachability},
         ct_supporting_fact_types := {''endpoint.reachable.false'', ''endpoint.layer''},
         ct_contradicting_fact_types := {''endpoint.reachable.true''},
         ct_predicted_fact_types := {''endpoint.layer''},
         ct_evidence_intent_ids := [''endpoint.layer.v1'', ''dependency.path.v1''], ct_specificity := 3\<rparr>,
     plain_template
       \<lparr>ct_id := ''dependency.authentication_failure.v1'', ct_family_id := ''dependency.authentication_failure'',
         ct_parent_family_id := Some ''operational.invariant_violation'',
         ct_title := ''Authentication chain failure'',
         ct_claim_template := ''The intended identity for {subject} is absent, expired, invalid, or not propagated.'',
         ct_invariant_families := {Fam_Authentication},
         ct_supporting_fact_types := {''authentication.failure'', ''authentication.state.failed''},
         ct_contradicting_fact_types := {''authentication.state.succeeded''},
         ct_predicted_fact_types := {''authentication.state''},
         ct_evidence_intent_ids := [''identity.authentication.v1'', ''identity.authorization.v1''],
         ct_specificity := 4\<rparr>,
     plain_template
       \<lparr>ct_id := ''dependency.authorization_failure.v1'', ct_family_id := ''dependency.authorization_failure'',
         ct_parent_family_id := Some ''operational.invariant_violation'',
         ct_title := ''Authorization decision denied'',
         ct_claim_template := ''The authenticated identity used by {subject} lacks the required bounded capability.'',
         ct_invariant_families := {Fam_Authorization},
         ct_supporting_fact_types := {''authorization.denied'', ''authorization.permission_gap''},
         ct_contradicting_fact_types := {''authorization.allowed''},
         ct_predicted_fact_types := {''authorization.state''},
         ct_evidence_intent_ids := [''identity.authorization.v1'', ''identity.authentication.v1''],
         ct_specificity := 4\<rparr>]"

definition further_cause_templates :: "causal_template list" where
  "further_cause_templates =
    [plain_template
       \<lparr>ct_id := ''workload.no_feasible_placement.v1'', ct_family_id := ''workload.no_feasible_placement'',
         ct_parent_family_id := Some ''operational.invariant_violation'',
         ct_title := ''No feasible workload placement'',
         ct_claim_template := ''No available placement satisfies all constraints required by {subject}.'',
         ct_invariant_families := {Fam_Placement},
         ct_supporting_fact_types := {''placement.unsatisfied_constraint''},
         ct_contradicting_fact_types := {''placement.feasible''},
         ct_predicted_fact_types := {''placement.state''},
         ct_evidence_intent_ids := [''placement.constraints.v1'', ''capacity.pressure.v1''], ct_specificity := 4\<rparr>,
     plain_template
       \<lparr>ct_id := ''controller.convergence_failure.v1'', ct_family_id := ''controller.convergence_failure'',
         ct_parent_family_id := Some ''operational.invariant_violation'',
         ct_title := ''Controller convergence failure'',
         ct_claim_template := ''The responsible controller for {subject} is not converging accepted state to desired state.'',
         ct_invariant_families := {Fam_Lifecycle_Progress},
         ct_supporting_fact_types := {''controller.stalled'', ''controller.progress.false''},
         ct_contradicting_fact_types := {''controller.progress.true''},
         ct_predicted_fact_types := {''controller.progress''},
         ct_evidence_intent_ids := [''controller.progress.v1'', ''entity.current_state.v1''], ct_specificity := 4\<rparr>,
     plain_template
       \<lparr>ct_id := ''component.not_serviceable.v1'', ct_family_id := ''component.not_serviceable'',
         ct_parent_family_id := Some ''operational.invariant_violation'',
         ct_title := ''Component not serviceable'',
         ct_claim_template := ''Component {subject} exists but cannot currently satisfy its service contract.'',
         ct_invariant_families := {Fam_Readiness, Fam_Liveness},
         ct_supporting_fact_types := {''entity.ready.false'', ''entity.serviceable.false''},
         ct_contradicting_fact_types := {''entity.ready.true'', ''entity.serviceable.true''},
         ct_predicted_fact_types := {''entity.state'', ''topology.neighborhood'', ''kubernetes.condition''},
         ct_evidence_intent_ids := [''entity.current_state.v1'', ''dependency.path.v1''], ct_specificity := 2\<rparr>,
     plain_template
       \<lparr>ct_id := ''resource.exhaustion.v1'', ct_family_id := ''resource.exhaustion'',
         ct_parent_family_id := Some ''operational.invariant_violation'',
         ct_title := ''Bounded resource exhausted'',
         ct_claim_template := ''A bounded resource required by {subject} is exhausted or below its safety threshold.'',
         ct_invariant_families := {Fam_Capacity, Fam_Performance},
         ct_supporting_fact_types := {''capacity.exhausted''},
         ct_contradicting_fact_types := {''capacity.sufficient''},
         ct_predicted_fact_types := {''capacity.state''},
         ct_evidence_intent_ids := [''capacity.pressure.v1'', ''placement.constraints.v1''], ct_specificity := 4\<rparr>,
     plain_template
       \<lparr>ct_id := ''state.divergence.v1'', ct_family_id := ''state.divergence'',
         ct_parent_family_id := Some ''operational.invariant_violation'',
         ct_title := ''Declared and runtime state diverge'',
         ct_claim_template := ''Representations of required state for {subject} are inconsistent beyond allowed drift.'',
         ct_invariant_families := {Fam_Consistency, Fam_Freshness},
         ct_supporting_fact_types := {''state.divergence'', ''state.stale''},
         ct_contradicting_fact_types := {''state.consistent''}, ct_predicted_fact_types := {''entity.state''},
         ct_evidence_intent_ids := [''entity.current_state.v1'', ''observability.quality.v1''],
         ct_specificity := 3\<rparr>,
     plain_template
       \<lparr>ct_id := ''operation.idempotency_violation.v1'', ct_family_id := ''operation.idempotency_violation'',
         ct_parent_family_id := Some ''operational.invariant_violation'',
         ct_title := ''Operation is not idempotent'',
         ct_claim_template := ''Repeated execution involving {subject} does not preserve the intended bounded effect.'',
         ct_invariant_families := {Fam_Idempotency, Fam_Ordering}, ct_predicted_fact_types := {''entity.state''},
         ct_evidence_intent_ids := [''entity.current_state.v1''], ct_specificity := 2\<rparr>,
     plain_template
       \<lparr>ct_id := ''evidence.observability_gap.v1'', ct_family_id := ''evidence.observability_gap'',
         ct_parent_family_id := Some ''operational.invariant_violation'',
         ct_title := ''Required evidence unavailable'',
         ct_claim_template := ''The state of {subject} cannot be diagnosed with the available evidence boundary.'',
         ct_invariant_families := {Fam_Observability},
         ct_supporting_fact_types := {''observability.gap'', ''observability.permission_gap''},
         ct_contradicting_fact_types := {''observability.complete''},
         ct_predicted_fact_types := {''observability.quality''},
         ct_evidence_intent_ids := [''observability.quality.v1''], ct_specificity := 3\<rparr>]"

definition builtin_templates :: "causal_template list" where
  "builtin_templates = cause_templates @ further_cause_templates"

section \<open>The catalogue\<close>

fun register_each :: "('a \<Rightarrow> diagnostic_catalog \<Rightarrow> diagnostic_catalog res) \<Rightarrow> 'a list \<Rightarrow> diagnostic_catalog \<Rightarrow>
     diagnostic_catalog res" where
  "register_each f [] c = Inr c"
| "register_each f (x # xs) c = res_bind (f x c) (register_each f xs)"

record pack_entries =
  pk_intents :: "evidence_intent list"
  pk_collectors :: "collector list"
  pk_templates :: "causal_template list"

definition register_entries :: "pack_entries \<Rightarrow> diagnostic_catalog \<Rightarrow> diagnostic_catalog res" where
  "register_entries p c =
     res_bind (register_each (\<lambda>i. register_intent i False) (pk_intents p) c) (\<lambda>c1.
     res_bind (register_each (\<lambda>d. register_collector d False) (pk_collectors p) c1) (\<lambda>c2.
       register_each (\<lambda>t. register_template t False) (pk_templates p) c2))"

definition build_builtin_catalog :: "pack_entries option \<Rightarrow> diagnostic_catalog res" where
  "build_builtin_catalog pack =
     res_bind (register_entries \<lparr>pk_intents = builtin_intents, pk_collectors = builtin_collectors,
       pk_templates = builtin_templates\<rparr> new_diagnostic_catalog) (\<lambda>c.
       case pack of None \<Rightarrow> Inr c | Some p \<Rightarrow> register_entries p c)"

section \<open>Closed catalogues\<close>

text \<open>
  A closed catalogue answers its own questions: the intents and the template that an investigation starts with
  are registered, intents prefer registered collectors and some registered collector provides each fact they
  require, templates name registered intents and can be instantiated.
\<close>

definition has_id :: "'v registry \<Rightarrow> string \<Rightarrow> bool" where
  "has_id r i \<longleftrightarrow> reg_maybe_get r i \<noteq> None"

definition template_ready :: "diagnostic_catalog \<Rightarrow> causal_template \<Rightarrow> bool" where
  "template_ready c t \<longleftrightarrow> list_all (has_id (dx_intents c)) (ct_evidence_intent_ids t) \<and>
     (case format_claim [] [] (ct_claim_template t) (length (ct_claim_template t)) of Inl e \<Rightarrow> False | Inr s \<Rightarrow> True) \<and>
     (case strings_of (dget_default (ct_metadata t) ''supported_entity_types'' (JList [])) of Inl e \<Rightarrow> False | Inr A \<Rightarrow> True)"

definition answerable :: "diagnostic_catalog \<Rightarrow> evidence_intent \<Rightarrow> bool" where
  "answerable c i \<longleftrightarrow> list_all (has_id (dx_collectors c)) (in_preferred_collector_ids i) \<and>
     list_all (\<lambda>t. list_ex (\<lambda>d. list_ex (fact_type_matches t) (cl_fact_types d)) (map snd (reg_items (dx_collectors c))))
       (in_required_fact_types i)"

definition closed_catalog :: "diagnostic_catalog \<Rightarrow> bool" where
  "closed_catalog c \<longleftrightarrow>
     list_all (has_id (dx_intents c)) [''entity.current_state.v1'', ''dependency.path.v1'', ''observability.quality.v1''] \<and>
     has_id (dx_templates c) ''operational.invariant_violation.v1'' \<and>
     list_all (answerable c) (catalog_intents c) \<and> list_all (template_ready c) (catalog_templates c) \<and>
     list_all (\<lambda>d. has_id (dx_collectors c) (cl_id d)) (catalog_collectors c)"

text \<open>Registering entries with new identifiers appends them.\<close>

lemma reg_extend_new:
  "distinct (map fst kvs) \<Longrightarrow> fst ` set kvs \<inter> fst ` set (reg_items r) = {} \<Longrightarrow>
     reg_extend kvs False r = Inr (r\<lparr>reg_items := reg_items r @ kvs\<rparr>)"
proof (induction kvs arbitrary: r)
  case (Cons p kvs)
  obtain k v where p: "p = (k, v)" by fastforce
  have k: "k \<notin> fst ` set (reg_items r)" using Cons.prems(2) p by auto
  then have "reg_register k v False r = Inr (r\<lparr>reg_items := reg_items r @ [(k, v)]\<rparr>)"
    by (simp add: reg_register_def dset_new dget_absent)
  moreover have "reg_extend kvs False (r\<lparr>reg_items := reg_items r @ [(k, v)]\<rparr>) =
      Inr (r\<lparr>reg_items := reg_items r @ [(k, v)]\<rparr>\<lparr>reg_items := reg_items (r\<lparr>reg_items := reg_items r @ [(k, v)]\<rparr>) @ kvs\<rparr>)"
    using Cons.prems p k by (intro Cons.IH) auto
  ultimately show ?case using p by (simp add: res_bind_def)
qed simp

lemma register_each_intents:
  "register_each (\<lambda>i. register_intent i False) is c =
     res_bind (reg_extend (map (\<lambda>i. (in_id i, i)) is) False (dx_intents c)) (\<lambda>r. Inr (c\<lparr>dx_intents := r\<rparr>))"
  by (induction "is" arbitrary: c) (auto simp: register_intent_def res_bind_def split: sum.splits)

lemma register_each_collectors:
  "register_each (\<lambda>d. register_collector d False) ds c =
     res_bind (reg_extend (map (\<lambda>d. (cl_id d, d)) ds) False (dx_collectors c)) (\<lambda>r. Inr (c\<lparr>dx_collectors := r\<rparr>))"
  by (induction ds arbitrary: c) (auto simp: register_collector_def res_bind_def split: sum.splits)

lemma register_each_templates:
  "register_each (\<lambda>t. register_template t False) ts c =
     res_bind (reg_extend (map (\<lambda>t. (ct_id t, t)) ts) False (dx_templates c)) (\<lambda>r. Inr (c\<lparr>dx_templates := r\<rparr>))"
  by (induction ts arbitrary: c) (auto simp: register_template_def res_bind_def split: sum.splits)

definition builtin_catalog :: diagnostic_catalog where
  "builtin_catalog =
     \<lparr>dx_intents = \<lparr>reg_name = ''evidence intents'', reg_items = map (\<lambda>i. (in_id i, i)) builtin_intents\<rparr>,
      dx_collectors = \<lparr>reg_name = ''collectors'', reg_items = map (\<lambda>d. (cl_id d, d)) builtin_collectors\<rparr>,
      dx_templates = \<lparr>reg_name = ''causal templates'', reg_items = map (\<lambda>t. (ct_id t, t)) builtin_templates\<rparr>\<rparr>"

lemma build_builtin_catalog: "build_builtin_catalog None = Inr builtin_catalog"
proof -
  have "distinct (map in_id builtin_intents)" "distinct (map cl_id builtin_collectors)"
    "distinct (map ct_id builtin_templates)" by code_simp+
  then show ?thesis
    by (simp add: build_builtin_catalog_def register_entries_def register_each_intents register_each_collectors
        register_each_templates new_diagnostic_catalog_def new_registry_def reg_extend_new comp_def res_bind_def
        builtin_catalog_def)
qed

lemma in_builtin_values:
  "i \<in> set (catalog_intents builtin_catalog) \<Longrightarrow> i \<in> set builtin_intents"
  "d \<in> set (catalog_collectors builtin_catalog) \<Longrightarrow> d \<in> set builtin_collectors"
  "t \<in> set (catalog_templates builtin_catalog) \<Longrightarrow> t \<in> set builtin_templates"
  by (auto simp: catalog_intents_def catalog_collectors_def catalog_templates_def in_reg_values reg_maybe_get_def
      builtin_catalog_def dest!: map_of_SomeD)

lemma builtin_intents_answerable: "list_all (answerable builtin_catalog) builtin_intents"
  by code_simp

lemma builtin_templates_ready: "list_all (template_ready builtin_catalog) builtin_templates"
  by code_simp

lemma builtin_collector_ids: "list_all (\<lambda>d. has_id (dx_collectors builtin_catalog) (cl_id d)) builtin_collectors"
  by code_simp

theorem builtin_catalog_closed: "\<exists>c. build_builtin_catalog None = Inr c \<and> closed_catalog c"
proof (intro exI conjI)
  show "build_builtin_catalog None = Inr builtin_catalog" by (rule build_builtin_catalog)
  have "list_all (has_id (dx_intents builtin_catalog))
      [''entity.current_state.v1'', ''dependency.path.v1'', ''observability.quality.v1'']"
    and "has_id (dx_templates builtin_catalog) ''operational.invariant_violation.v1''" by code_simp+
  then show "closed_catalog builtin_catalog"
    using builtin_intents_answerable builtin_templates_ready builtin_collector_ids in_builtin_values
    unfolding closed_catalog_def list_all_iff by blast
qed

text \<open>
  The templates read facts by dotted prefixes in both directions, so a fact whose type is the parent of a typed
  outcome counts for and against a cause at once, whatever its value: the observation that an entity exists
  supports, and contradicts, that the required entity is absent.
\<close>

lemma parent_fact_counts_both_ways:
  "\<exists>t \<in> set builtin_templates. ct_id t = ''entity.required_absent.v1'' \<and>
     (\<forall>f. evf_type f = ''entity.exists'' \<longrightarrow>
        facts_matching (ct_supporting_fact_types t) [f] = [f] \<and> facts_matching (ct_contradicting_fact_types t) [f] = [f])"
proof -
  have "fact_type_matches ''entity.exists.false'' ''entity.exists''" "fact_type_matches ''entity.exists.true'' ''entity.exists''"
    by code_simp+
  then show ?thesis
    by (auto simp: builtin_templates_def cause_templates_def plain_template_def facts_matching_def)
qed

end
