(* ===== verification/Pack_Runtime.thy ===== *)
theory Pack_Runtime
  imports Pack_Manager Topology Diagnosis_Catalog
begin

text \<open>
  What active packs do (\<open>packs/runtime.py\<close>): they label discovered entities, resolve relationships between
  entities, redact payloads and report their coverage. Whether a regular expression is found in a text
  (\<open>re.search\<close>, with or without regard to case) is an argument; patterns are assumed to compile. Sets of strings
  are read in sorted order.
\<close>

section \<open>Contributions\<close>

text \<open>The items of all active packs, with the pack noted in their metadata where they have any.\<close>

definition with_pack :: "pack_manifest \<Rightarrow> fields \<Rightarrow> fields" where
  "with_pack m metadata =
     dset ''pack_version'' (JStr (pkm_version m)) (dset ''pack_id'' (JStr (pkm_id m)) metadata)"

definition contributed :: "pack_runtime \<Rightarrow> (pack_contributions \<Rightarrow> 'a list) \<Rightarrow> (pack_manifest \<Rightarrow> 'a \<Rightarrow> 'a) \<Rightarrow> 'a list" where
  "contributed R items note = concat (map (\<lambda>m. map (note m) (items (pkm_contributions m))) (prt_manifests R))"

definition active_pack_ids :: "pack_runtime \<Rightarrow> string list" where
  "active_pack_ids R = prs_active (prt_resolution R)"

definition pack_classifiers :: "pack_runtime \<Rightarrow> classifier_rule list" where
  "pack_classifiers R =
     sort_key (\<lambda>r. - ecl_priority r) (sort_key ecl_id (contributed R pcb_entity_classifiers (\<lambda>_ x. x)))"

definition pack_resolvers :: "pack_runtime \<Rightarrow> resolver_rule list" where
  "pack_resolvers R = contributed R pcb_relationship_resolvers (\<lambda>_ x. x)"

definition pack_profiles :: "pack_runtime \<Rightarrow> profile_spec list" where
  "pack_profiles R = contributed R pcb_operational_profiles (\<lambda>m x. x\<lparr>hp_metadata := with_pack m (hp_metadata x)\<rparr>)"

definition pack_intents :: "pack_runtime \<Rightarrow> evidence_intent list" where
  "pack_intents R = contributed R pcb_evidence_intents (\<lambda>m x. x\<lparr>in_metadata := with_pack m (in_metadata x)\<rparr>)"

definition pack_collectors :: "pack_runtime \<Rightarrow> collector list" where
  "pack_collectors R = contributed R pcb_collectors (\<lambda>m x. x\<lparr>cl_metadata := with_pack m (cl_metadata x)\<rparr>)"

definition pack_templates :: "pack_runtime \<Rightarrow> causal_template list" where
  "pack_templates R = contributed R pcb_causal_templates (\<lambda>m x. x\<lparr>ct_metadata := with_pack m (ct_metadata x)\<rparr>)"

definition pack_action_types :: "pack_runtime \<Rightarrow> action_type list" where
  "pack_action_types R = contributed R pcb_action_types (\<lambda>m x. x\<lparr>at_metadata := with_pack m (at_metadata x)\<rparr>)"

definition pack_lifecycle_profiles :: "pack_runtime \<Rightarrow> lifecycle_profile list" where
  "pack_lifecycle_profiles R =
     contributed R pcb_lifecycle_profiles (\<lambda>m x. x\<lparr>lp_metadata := with_pack m (lp_metadata x)\<rparr>)"

definition pack_verification_templates :: "pack_runtime \<Rightarrow> verification_condition list" where
  "pack_verification_templates R = contributed R pcb_verification_templates (\<lambda>_ x. x)"

definition pack_redaction_rules :: "pack_runtime \<Rightarrow> redaction_rule list" where
  "pack_redaction_rules R = contributed R pcb_redaction_rules (\<lambda>_ x. x)"

section \<open>Classification\<close>

type_synonym finder = "bool \<Rightarrow> string \<Rightarrow> string \<Rightarrow> bool"

fun dict_at :: "fields \<Rightarrow> string \<Rightarrow> fields" where
  "dict_at d k = (case dget d k of Some (JObj f) \<Rightarrow> f | _ \<Rightarrow> [])"

definition text_given :: "string option \<Rightarrow> bool" where
  "text_given s \<longleftrightarrow> (case s of Some (c # cs) \<Rightarrow> True | _ \<Rightarrow> False)"

definition differs :: "fields \<Rightarrow> string \<times> string \<Rightarrow> bool" where
  "differs d = (\<lambda>(k, v). dget d k \<noteq> Some (JStr v))"

definition rule_matches :: "finder \<Rightarrow> resource_document \<Rightarrow> classifier_rule \<Rightarrow> bool" where
  "rule_matches search doc r \<longleftrightarrow>
     (let metadata = dict_at (rd_payload doc) ''metadata'' in
      (ecl_resource_kinds r = {} \<or> rd_kind doc \<in> ecl_resource_kinds r) \<and>
      (ecl_namespaces r = {} \<or> (case rd_namespace doc of None \<Rightarrow> [] | Some n \<Rightarrow> n) \<in> ecl_namespaces r) \<and>
      (text_given (ecl_name_regex r) \<longrightarrow> search False (the (ecl_name_regex r)) (rd_name doc)) \<and>
      \<not> list_ex (differs (dict_at metadata ''labels'')) (ecl_label_equals r) \<and>
      \<not> list_ex (differs (dict_at metadata ''annotations'')) (ecl_annotation_equals r))"

definition planes :: "operational_plane list" where
  "planes = [Plane_External, Plane_Host, Plane_Runtime, Plane_Control_Plane, Plane_Node, Plane_Platform, Plane_Workload,
     Plane_Application, Plane_Operational_Tooling]"

definition plane_named :: "string \<Rightarrow> operational_plane res" where
  "plane_named s =
     (case filter (\<lambda>p. plane_value p = s) planes of
        p # _ \<Rightarrow> Inr p
      | [] \<Rightarrow> raise ValueError (repr_str s @ '' is not a valid OperationalPlane''))"

text \<open>One rule applied to the entity: its type goes to the lineage too, its capabilities are added.\<close>

definition apply_rule :: "classifier_rule \<Rightarrow> entity \<Rightarrow> entity res" where
  "apply_rule r e =
     (let typed = (if text_given (ecl_set_entity_type r)
        then e\<lparr>ent_type := the (ecl_set_entity_type r), ent_type_lineage := insert (the (ecl_set_entity_type r)) (ent_type_lineage e)\<rparr>
        else e) in
      res_bind (if text_given (ecl_set_plane r) then plane_named (the (ecl_set_plane r)) else Inr (ent_plane e)) (\<lambda>plane.
        Inr (typed\<lparr>ent_plane := plane,
          ent_provider := (if text_given (ecl_set_provider r) then ecl_set_provider r else ent_provider e),
          ent_capabilities := ent_capabilities e \<union> ecl_add_capabilities r,
          ent_extensions := (if text_given (ecl_extension_namespace r)
            then dset (the (ecl_extension_namespace r))
              (JObj (dmerge (dict_at (ent_extensions e) (the (ecl_extension_namespace r))) (ecl_extension_values r)))
              (ent_extensions e)
            else ent_extensions e)\<rparr>)))"

fun apply_rules :: "classifier_rule list \<Rightarrow> entity \<Rightarrow> entity res" where
  "apply_rules [] e = Inr e"
| "apply_rules (r # rs) e = res_bind (apply_rule r e) (apply_rules rs)"

definition classify_entity :: "finder \<Rightarrow> pack_runtime \<Rightarrow> resource_document \<Rightarrow> entity \<Rightarrow> entity res" where
  "classify_entity search R doc e =
     (let matched = filter (rule_matches search doc) (pack_classifiers R) in
      if matched = [] then Inr e
      else res_bind (apply_rules matched (e\<lparr>ent_type_lineage := insert (ent_type e) (ent_type_lineage e)\<rparr>)) (\<lambda>e'.
        Inr (e'\<lparr>ent_extensions := dset ''kubeops_pack''
          (JObj (dset ''classifiers'' (JList (map (JStr \<circ> ecl_id) matched)) (dict_at (ent_extensions e') ''kubeops_pack'')))
          (ent_extensions e')\<rparr>)))"

section \<open>Relationships\<close>

definition entity_types :: "entity \<Rightarrow> string set" where
  "entity_types e = insert (ent_type e) (ent_type_lineage e)"

definition of_types :: "string set \<Rightarrow> entity list \<Rightarrow> entity list" where
  "of_types ts es = (if ts = {} then es else filter (\<lambda>e. entity_types e \<inter> ts \<noteq> {}) es)"

definition by_id :: "entity list \<Rightarrow> string \<Rightarrow> entity option" where
  "by_id es i = dget (dict_of (map (\<lambda>e. (ent_id e, e)) es)) i"

text \<open>\<open>Relationship(...)\<close> for a rule and two entities, with the validation of its fields.\<close>

definition pack_relationship :: "resolver_rule \<Rightarrow> entity \<Rightarrow> entity \<Rightarrow> relationship res" where
  "pack_relationship r s t =
     (let rel = \<lparr>rel_id = ''pack:'' @ rrl_id r @ '':'' @ ent_id s @ ''->'' @ ent_id t, rel_source = ent_id s,
        rel_target = ent_id t, rel_type = rrl_relationship_type r, rel_contract = rrl_contract r,
        rel_propagation = rrl_propagation r, rel_confidence = rrl_confidence r, rel_provenance = ''pack:'' @ rrl_id r,
        rel_extensions = [(''resolver_id'', JStr (rrl_id r))]\<rparr>
      in if valid_relationship rel then Inr rel else raise ValidationError ''Relationship'')"

text \<open>\<open>s.rpartition("/")\<close> without the separator.\<close>

definition rpartition_slash :: "string \<Rightarrow> string \<times> string" where
  "rpartition_slash s =
     (let tail = rev (takeWhile (\<lambda>c. c \<noteq> CHR ''/'') (rev s)) in (take (length s - length tail - 1) s, tail))"

definition annotation_of :: "entity \<Rightarrow> string \<Rightarrow> json" where
  "annotation_of e k = dget_default (dict_at (dict_at (dict_at (k8s e) ''sanitized_resource'') ''metadata'') ''annotations'') k JNull"

definition namespace_or :: "string \<Rightarrow> entity \<Rightarrow> string option" where
  "namespace_or n e = (if n = [] then ent_namespace e else Some n)"

definition annotation_target :: "(rat \<Rightarrow> string) \<Rightarrow> entity list \<Rightarrow> resolver_rule \<Rightarrow> string \<Rightarrow> entity \<Rightarrow> entity option" where
  "annotation_target fl es r key s =
     (let raw = annotation_of s key; text = str_of fl raw in
      if \<not> truthy raw then None
      else (case by_id es text of
          Some t \<Rightarrow> Some t
        | None \<Rightarrow>
            if text_given (rrl_target_kind r)
            then (let (namespace, name) = rpartition_slash text in
              by_key fl es (the (rrl_target_kind r), namespace_or namespace s, if name = [] then text else name))
            else None))"

text \<open>The entity that was found, if any.\<close>

fun found :: "entity option \<Rightarrow> entity list" where
  "found None = []"
| "found (Some t) = [t]"

definition annotation_targets :: "(rat \<Rightarrow> string) \<Rightarrow> entity list \<Rightarrow> resolver_rule \<Rightarrow> entity \<Rightarrow> entity list" where
  "annotation_targets fl es r s =
     (if text_given (rrl_annotation_key r)
      then found (annotation_target fl es r (the (rrl_annotation_key r)) s) else [])"

definition label_targets :: "entity list \<Rightarrow> resolver_rule \<Rightarrow> entity \<Rightarrow> entity list" where
  "label_targets es r s =
     (let v = dget (ent_labels s) (the (rrl_label_key r)) in
      if text_given (rrl_label_key r) \<and> text_given v
      then filter (\<lambda>t. ent_id s \<noteq> ent_id t \<and> dget (ent_labels t) (the (rrl_label_key r)) = v)
        (of_types (rrl_target_entity_types r) es)
      else [])"

definition named_targets :: "(rat \<Rightarrow> string) \<Rightarrow> entity list \<Rightarrow> resolver_rule \<Rightarrow> entity \<Rightarrow> entity list" where
  "named_targets fl es r s =
     (if text_given (rrl_target_kind r) \<and> text_given (rrl_target_name r)
      then found (by_key fl es (the (rrl_target_kind r),
          namespace_or (if text_given (rrl_target_namespace r) then the (rrl_target_namespace r) else []) s,
          the (rrl_target_name r)))
      else [])"

definition dependency_targets :: "(rat \<Rightarrow> string) \<Rightarrow> entity list \<Rightarrow> entity \<Rightarrow> entity list" where
  "dependency_targets fl es s =
     (case dget_default (ent_extensions s) ''dependencies'' (JList []) of
        JList ds \<Rightarrow> List.map_filter (\<lambda>d. by_id es (str_of fl d)) ds
      | _ \<Rightarrow> [])"

fun targets_by :: "resolver_handler \<Rightarrow> (rat \<Rightarrow> string) \<Rightarrow> entity list \<Rightarrow> resolver_rule \<Rightarrow> entity \<Rightarrow> entity list" where
  "targets_by Annotation_Reference fl es r s = annotation_targets fl es r s"
| "targets_by Label_Group fl es r s = label_targets es r s"
| "targets_by Named_Kubernetes_Resource fl es r s = named_targets fl es r s"
| "targets_by Component_Dependency fl es r s = dependency_targets fl es s"

definition rule_targets :: "(rat \<Rightarrow> string) \<Rightarrow> entity list \<Rightarrow> resolver_rule \<Rightarrow> entity \<Rightarrow> entity list" where
  "rule_targets fl es r s = targets_by (rrl_handler r) fl es r s"

definition rule_relationships :: "(rat \<Rightarrow> string) \<Rightarrow> entity list \<Rightarrow> resolver_rule \<Rightarrow> relationship list res" where
  "rule_relationships fl es r =
     res_bind (res_map (\<lambda>s. res_map (pack_relationship r s) (rule_targets fl es r s)) (of_types (rrl_source_entity_types r) es))
       (\<lambda>rs. Inr (concat rs))"

definition resolve_relationships :: "(rat \<Rightarrow> string) \<Rightarrow> pack_runtime \<Rightarrow> entity list \<Rightarrow> relationship list res" where
  "resolve_relationships fl R es =
     res_bind (res_map (rule_relationships fl es) (pack_resolvers R)) (\<lambda>rs.
       Inr (sort_key rel_id (map snd (dict_of (map (\<lambda>r. (rel_id r, r)) (concat rs))))))"

text \<open>The resolver that the topology compiler calls.\<close>

definition resolver_of :: "(rat \<Rightarrow> string) \<Rightarrow> pack_runtime \<Rightarrow> pack_resolver" where
  "resolver_of fl R = Some (resolve_relationships fl R, length (active_pack_ids R))"

section \<open>Redaction\<close>

definition redaction_matches :: "finder \<Rightarrow> string \<Rightarrow> string \<Rightarrow> redaction_rule \<Rightarrow> bool" where
  "redaction_matches search key path r \<longleftrightarrow>
     list_ex (\<lambda>p. search True p key) (rdr_key_patterns r) \<or> list_ex (\<lambda>p. search False p path) (rdr_path_patterns r)"

definition first_redaction :: "finder \<Rightarrow> redaction_rule list \<Rightarrow> string \<Rightarrow> string \<Rightarrow> redaction_rule option" where
  "first_redaction search rules key path = List.find (redaction_matches search key path) rules"

definition child_path :: "string \<Rightarrow> string \<Rightarrow> string" where
  "child_path path key = (if path = [] then key else path @ ''.'' @ key)"

fun redact_visit :: "finder \<Rightarrow> redaction_rule list \<Rightarrow> string \<Rightarrow> json \<Rightarrow> json" where
  "redact_visit search rules path (JObj kvs) = JObj (map (\<lambda>(k, v).
     (k, case first_redaction search rules k (child_path path k) of
           Some r \<Rightarrow> JStr (rdr_replacement r)
         | None \<Rightarrow> redact_visit search rules (child_path path k) v)) kvs)"
| "redact_visit search rules path (JList xs) = JList (map (redact_visit search rules (path @ ''[]'')) xs)"
| "redact_visit search rules path v = v"

definition redact :: "finder \<Rightarrow> pack_runtime \<Rightarrow> string option \<Rightarrow> json \<Rightarrow> json" where
  "redact search R kind payload =
     (let rules = filter (\<lambda>r. rdr_resource_kinds r = {} \<or> kind \<in> Some ` rdr_resource_kinds r) (pack_redaction_rules R) in
      if rules = [] then payload else redact_visit search rules [] payload)"

section \<open>Coverage\<close>

record coverage_report =
  pcv_generated_at_iso :: string
  pcv_active_pack_ids :: "string list"
  pcv_by_pack :: "(string, scenario_coverage list) dict"
  pcv_family_support :: "(string, (string \<times> support_level) list) dict"
  pcv_invariant_support :: "(string, (string \<times> support_level) list) dict"
  pcv_gaps :: "string list"

text \<open>Which packs support what, by the names they cover; each entry is a pack and its level of support.\<close>

definition support_by :: "pack_runtime \<Rightarrow> (scenario_coverage \<Rightarrow> string set) \<Rightarrow> (string, (string \<times> support_level) list) dict" where
  "support_by R names =
     (let covers = concat (map (\<lambda>m. map (\<lambda>c. (pkm_id m, c)) (pcb_scenario_coverage (pkm_contributions m))) (prt_manifests R)) in
      map (\<lambda>n. (n, map (\<lambda>(i, c). (i, psc_support_level c)) (filter (\<lambda>(i, c). n \<in> names c) covers)))
        (sorted_set (\<Union>(i, c) \<in> set covers. names c)))"

definition coverage_report_of :: "string \<Rightarrow> pack_runtime \<Rightarrow> coverage_report" where
  "coverage_report_of now R =
     \<lparr>pcv_generated_at_iso = now, pcv_active_pack_ids = active_pack_ids R,
      pcv_by_pack = dict_of (map (\<lambda>m. (pkm_id m, pcb_scenario_coverage (pkm_contributions m))) (prt_manifests R)),
      pcv_family_support = support_by R psc_family_ids, pcv_invariant_support = support_by R psc_invariant_families,
      pcv_gaps = []\<rparr>"

definition runtime_counts :: "pack_runtime \<Rightarrow> (string, nat) dict" where
  "runtime_counts R = summed_counts (map (contribution_counts \<circ> pkm_contributions) (prt_manifests R))"

section \<open>Classification keeps the identity of an entity\<close>

text \<open>What classification may do to an entity.\<close>

definition refines :: "entity \<Rightarrow> entity \<Rightarrow> bool" where
  "refines e e' \<longleftrightarrow> ent_id e' = ent_id e \<and> ent_name e' = ent_name e \<and> ent_namespace e' = ent_namespace e \<and>
     ent_labels e' = ent_labels e \<and> ent_desired_state e' = ent_desired_state e \<and>
     ent_observed_state e' = ent_observed_state e \<and> ent_type_lineage e \<subseteq> ent_type_lineage e' \<and>
     ent_capabilities e \<subseteq> ent_capabilities e'"

lemma refines_trans: "refines a b \<Longrightarrow> refines b c \<Longrightarrow> refines a c"
  unfolding refines_def by auto

lemma apply_rule_refines:
  "apply_rule r e = Inr e' \<Longrightarrow> refines e e' \<and> (ent_type e \<in> ent_type_lineage e \<longrightarrow> ent_type e' \<in> ent_type_lineage e')"
  by (auto simp: apply_rule_def refines_def Let_def res_bind_eq_Inr_iff split: if_splits)

lemma apply_rules_refines:
  "apply_rules rs e = Inr e' \<Longrightarrow> refines e e' \<and> (ent_type e \<in> ent_type_lineage e \<longrightarrow> ent_type e' \<in> ent_type_lineage e')"
proof (induction rs arbitrary: e)
  case (Cons r rs)
  then obtain e1 where "apply_rule r e = Inr e1" "apply_rules rs e1 = Inr e'" by (auto simp: res_bind_eq_Inr_iff)
  with Cons.IH [of e1] apply_rule_refines [of r e e1] refines_trans show ?case by blast
qed (simp add: refines_def)

theorem classification_refines:
  assumes "classify_entity search R doc e = Inr e'"
  shows "refines e e' \<and> (e' = e \<or> {ent_type e, ent_type e'} \<subseteq> ent_type_lineage e')"
proof (cases "filter (rule_matches search doc) (pack_classifiers R) = []")
  case True
  with assms show ?thesis by (simp add: classify_entity_def refines_def)
next
  case False
  let ?e = "e\<lparr>ent_type_lineage := insert (ent_type e) (ent_type_lineage e)\<rparr>"
  from assms False obtain e1 where e1: "apply_rules (filter (rule_matches search doc) (pack_classifiers R)) ?e = Inr e1"
    and e': "\<exists>x. e' = e1\<lparr>ent_extensions := x\<rparr>"
    by (auto simp: classify_entity_def Let_def res_bind_eq_Inr_iff)
  from apply_rules_refines [OF e1] have "refines ?e e1" "ent_type e1 \<in> ent_type_lineage e1" by auto
  with e' show ?thesis by (auto simp: refines_def)
qed

section \<open>Resolved relationships join entities\<close>

lemma res_map_origin: "res_map f xs = Inr ys \<Longrightarrow> y \<in> set ys \<Longrightarrow> \<exists>x \<in> set xs. f x = Inr y"
proof (induction xs arbitrary: ys)
  case (Cons a xs)
  then show ?case by (cases "f a"; cases "res_map f xs") auto
qed simp

lemma in_dict_of_values: "v \<in> snd ` set (dict_of kvs) \<Longrightarrow> v \<in> snd ` set kvs"
  using wf_dict_of [of kvs] dget_dict_of_in [of kvs] by (force simp: wf_dict_dget)

lemma of_types_in: "e \<in> set (of_types ts es) \<Longrightarrow> e \<in> set es"
  by (auto simp: of_types_def split: if_splits)

lemma by_id_in: "by_id es i = Some e \<Longrightarrow> e \<in> set es"
  unfolding by_id_def by (drule dget_dict_of_in) auto

lemma annotation_target_in: "annotation_target fl es r k s = Some t \<Longrightarrow> t \<in> set es"
  by (auto simp: annotation_target_def Let_def split: if_splits option.splits prod.splits dest: by_id_in by_key_in)

lemma in_found: "t \<in> set (found x) \<longleftrightarrow> x = Some t"
  by (cases x) auto

lemma targets_by_in: "set (targets_by h fl es r s) \<subseteq> set es"
proof (induction h fl es r s rule: targets_by.induct)
  case (1 fl es r s)
  show ?case by (auto simp: annotation_targets_def in_found dest: annotation_target_in)
next
  case (2 fl es r s)
  show ?case by (auto simp: label_targets_def Let_def dest: of_types_in)
next
  case (3 fl es r s)
  show ?case by (auto simp: named_targets_def in_found dest: by_key_in)
next
  case (4 fl es r s)
  show ?case by (auto simp: dependency_targets_def set_map_filter split: json.split dest: by_id_in)
qed

lemma rule_targets_in: "t \<in> set (rule_targets fl es r s) \<Longrightarrow> t \<in> set es"
  using targets_by_in [of "rrl_handler r" fl es r s] by (auto simp: rule_targets_def)

lemma pack_relationship_joins:
  "pack_relationship r s t = Inr x \<Longrightarrow> s \<in> set es \<Longrightarrow> t \<in> set es \<Longrightarrow> ends_in es x \<and> valid_relationship x"
  by (auto simp: pack_relationship_def Let_def ends_in_def split: if_splits)

lemma rule_relationships_join:
  assumes "rule_relationships fl es r = Inr xs" "x \<in> set xs"
  shows "ends_in es x \<and> valid_relationship x"
proof -
  from assms(1) obtain yss where yss: "res_map (\<lambda>s. res_map (pack_relationship r s) (rule_targets fl es r s))
      (of_types (rrl_source_entity_types r) es) = Inr yss" "xs = concat yss"
    by (auto simp: rule_relationships_def res_bind_eq_Inr_iff)
  with assms(2) obtain ys where ys: "ys \<in> set yss" "x \<in> set ys" by auto
  from res_map_origin [OF yss(1) ys(1)] obtain s where s: "s \<in> set (of_types (rrl_source_entity_types r) es)"
    "res_map (pack_relationship r s) (rule_targets fl es r s) = Inr ys" by blast
  from res_map_origin [OF s(2) ys(2)] obtain t where "t \<in> set (rule_targets fl es r s)" "pack_relationship r s t = Inr x"
    by blast
  with s(1) pack_relationship_joins of_types_in rule_targets_in show ?thesis by blast
qed

theorem resolved_relationships_join:
  assumes "resolve_relationships fl R es = Inr rs"
  shows "\<forall>r \<in> set rs. ends_in es r \<and> valid_relationship r"
proof
  fix r assume r: "r \<in> set rs"
  from assms obtain xss where xss: "res_map (rule_relationships fl es) (pack_resolvers R) = Inr xss"
    and rs: "rs = sort_key rel_id (map snd (dict_of (map (\<lambda>r. (rel_id r, r)) (concat xss))))"
    by (auto simp: resolve_relationships_def res_bind_eq_Inr_iff)
  have "r \<in> set (concat xss)" using r in_dict_of_values unfolding rs by fastforce
  then obtain xs where "xs \<in> set xss" "r \<in> set xs" by auto
  then show "ends_in es r \<and> valid_relationship r" using res_map_origin [OF xss] rule_relationships_join by blast
qed

section \<open>Nothing that a rule names survives redaction\<close>

text \<open>Under every key that a rule matches stands the replacement of the first such rule.\<close>

fun hidden :: "finder \<Rightarrow> redaction_rule list \<Rightarrow> string \<Rightarrow> json \<Rightarrow> bool" where
  "hidden search rules path (JObj kvs) \<longleftrightarrow> (\<forall>(k, v) \<in> set kvs.
     case first_redaction search rules k (child_path path k) of
       Some r \<Rightarrow> v = JStr (rdr_replacement r)
     | None \<Rightarrow> hidden search rules (child_path path k) v)"
| "hidden search rules path (JList xs) \<longleftrightarrow> (\<forall>x \<in> set xs. hidden search rules (path @ ''[]'') x)"
| "hidden search rules path v \<longleftrightarrow> True"

text \<open>Two values of the same shape: the same keys and lengths, down to where a rule replaces.\<close>

fun same_shape :: "finder \<Rightarrow> redaction_rule list \<Rightarrow> string \<Rightarrow> json \<Rightarrow> json \<Rightarrow> bool" where
  "same_shape search rules path (JObj kvs) w \<longleftrightarrow> (\<exists>kws. w = JObj kws \<and> map fst kws = map fst kvs \<and>
     list_all2 (\<lambda>(k, v) (_, u). first_redaction search rules k (child_path path k) \<noteq> None \<or>
       same_shape search rules (child_path path k) v u) kvs kws)"
| "same_shape search rules path (JList xs) w \<longleftrightarrow> (\<exists>ys. w = JList ys \<and> list_all2 (same_shape search rules (path @ ''[]'')) xs ys)"
| "same_shape search rules path v w \<longleftrightarrow> w = v"

lemma redact_visit_hides: "hidden search rules path (redact_visit search rules path v)"
  by (induction search rules path v rule: redact_visit.induct) (auto split: option.split)

lemma redact_visit_shape: "same_shape search rules path v (redact_visit search rules path v)"
proof (induction search rules path v rule: redact_visit.induct)
  case (1 search rules path kvs)
  let ?g = "\<lambda>(k, v). (k, case first_redaction search rules k (child_path path k) of
    Some r \<Rightarrow> JStr (rdr_replacement r) | None \<Rightarrow> redact_visit search rules (child_path path k) v)"
  let ?P = "\<lambda>(k, v) (_, u). first_redaction search rules k (child_path path k) \<noteq> None \<or>
    same_shape search rules (child_path path k) v u"
  have "?P kv (?g kv)" if "kv \<in> set kvs" for kv
    using 1 [of kv "fst kv" "snd kv"] that
    by (cases kv; cases "first_redaction search rules (fst kv) (child_path path (fst kv))") auto
  then have "list_all2 ?P kvs (map ?g kvs)" by (simp add: list.rel_map list.rel_refl_strong)
  moreover have "map fst (map ?g kvs) = map fst kvs" by auto
  ultimately show ?case by simp
next
  case (2 search rules path xs)
  then show ?case by (auto simp: list.rel_map intro!: list.rel_refl_strong)
qed simp_all

lemma redact_visit_hidden: "hidden search rules path v \<Longrightarrow> redact_visit search rules path v = v"
proof (induction search rules path v rule: redact_visit.induct)
  case (1 search rules path kvs)
  have "(k, case first_redaction search rules k (child_path path k) of
      Some r \<Rightarrow> JStr (rdr_replacement r) | None \<Rightarrow> redact_visit search rules (child_path path k) v) = (k, v)"
    if "(k, v) \<in> set kvs" for k v
    using 1(1) [OF that refl] 1(2) that by (cases "first_redaction search rules k (child_path path k)") auto
  then show ?case by (auto intro!: map_idI)
next
  case (2 search rules path xs)
  then show ?case by (auto intro!: map_idI)
qed simp_all

definition rules_for :: "pack_runtime \<Rightarrow> string option \<Rightarrow> redaction_rule list" where
  "rules_for R kind = filter (\<lambda>r. rdr_resource_kinds r = {} \<or> kind \<in> Some ` rdr_resource_kinds r) (pack_redaction_rules R)"

lemma redact_visit_no_rules: "redact_visit search [] path v = v"
proof (induction search "[] :: redaction_rule list" path v rule: redact_visit.induct)
  case (1 search path kvs)
  then show ?case by (auto simp: first_redaction_def intro!: map_idI)
next
  case (2 search path xs)
  then show ?case by (auto intro!: map_idI)
qed simp_all

lemma redact_visits: "redact search R kind v = redact_visit search (rules_for R kind) [] v"
  by (simp add: redact_def rules_for_def Let_def redact_visit_no_rules)

theorem redaction_complete:
  "hidden search (rules_for R kind) [] (redact search R kind v) \<and>
   same_shape search (rules_for R kind) [] v (redact search R kind v) \<and>
   redact search R kind (redact search R kind v) = redact search R kind v"
  by (simp add: redact_visits redact_visit_hides redact_visit_shape redact_visit_hidden)

section \<open>Active packs extend the diagnostic catalogue\<close>

definition entries_of :: "pack_runtime \<Rightarrow> pack_entries" where
  "entries_of R = \<lparr>pk_intents = pack_intents R, pk_collectors = pack_collectors R, pk_templates = pack_templates R\<rparr>"

text \<open>The manifests of a runtime do not share contributions.\<close>

definition separate :: "pack_manifest list \<Rightarrow> bool" where
  "separate ms \<longleftrightarrow> distinct (concat (map contribution_ids ms))"

lemma get_pack_Inr: "get_pack M i = Inr m \<longleftrightarrow> dget (pmg_manifests M) i = Some m"
  by (simp add: get_pack_def split: option.split)

lemma res_map_get: "res_map (get_pack M) ids = Inr ms \<Longrightarrow> map (dget (pmg_manifests M)) ids = map Some ms"
proof (induction ids arbitrary: ms)
  case (Cons i ids)
  then show ?case
    by (cases "get_pack M i"; cases "res_map (get_pack M) ids") (auto simp: get_pack_Inr)
qed simp

lemma separate_active:
  assumes "map (dget (pmg_manifests M)) ids = map Some ms" "distinct ids"
    and "\<forall>i \<in> set ids. pack_ok V M trust C A i" "set ids \<subseteq> C"
  shows "separate ms"
  using assms
proof (induction ids arbitrary: ms)
  case (Cons i ids)
  then obtain m ns where ms: "ms = m # ns" "dget (pmg_manifests M) i = Some m"
    "map (dget (pmg_manifests M)) ids = map Some ns" by (cases ms) auto
  from Cons.prems(3) ms(2) have m: "distinct (contribution_ids m)"
    "\<And>j n. j \<in> C - {i} \<Longrightarrow> dget (pmg_manifests M) j = Some n \<Longrightarrow> set (contribution_ids m) \<inter> set (contribution_ids n) = {}"
    by (auto simp: pack_ok_def)
  have "separate ns" using Cons.IH [OF ms(3)] Cons.prems by simp
  moreover have "set (contribution_ids m) \<inter> set (contribution_ids n) = {}" if "n \<in> set ns" for n
  proof -
    from that have "Some n \<in> set (map (dget (pmg_manifests M)) ids)" unfolding ms(3) by simp
    then obtain j where "j \<in> set ids" "dget (pmg_manifests M) j = Some n" by (auto dest: sym)
    with m(2) [of j n] Cons.prems(2,4) show ?thesis by auto
  qed
  ultimately show ?case using m(1) by (auto simp: separate_def ms(1))
qed (simp add: separate_def)

lemma runtime_separate:
  assumes "pack_runtime_of V M given trust = Inr R"
  shows "separate (prt_manifests R)"
proof -
  from assms obtain r where r: "resolve_packs V M given trust = Inr r"
    and ms: "res_map (get_pack M) (prs_active r) = Inr (prt_manifests R)"
    by (auto simp: pack_runtime_of_def res_bind_eq_Inr_iff)
  have "set (prs_active r) \<subseteq> pack_closure M (prs_requested r)"
    using resolution_sound [OF r] by (auto simp: Let_def split: if_splits)
  then show ?thesis
    using separate_active [OF res_map_get [OF ms]] resolution_sound [OF r] by blast
qed

definition ids_in :: "string \<Rightarrow> pack_manifest \<Rightarrow> string list" where
  "ids_in c m = map snd (filter (\<lambda>x. fst x = c) (contribution_ids m))"

lemma ids_in_fields:
  "ids_in ''evidence_intent'' = (\<lambda>m. map in_id (pcb_evidence_intents (pkm_contributions m)))"
  "ids_in ''collector'' = (\<lambda>m. map cl_id (pcb_collectors (pkm_contributions m)))"
  "ids_in ''causal_template'' = (\<lambda>m. map ct_id (pcb_causal_templates (pkm_contributions m)))"
  by (simp_all add: fun_eq_iff ids_in_def contribution_ids_def Let_def filter_map comp_def)

lemma separate_ids:
  assumes "separate ms"
  shows "distinct (concat (map (ids_in c) ms))"
proof -
  have "concat (map (ids_in c) ms) = map snd (filter (\<lambda>x. fst x = c) (concat (map contribution_ids ms)))"
    by (simp add: ids_in_def [abs_def] filter_concat map_concat comp_def)
  moreover have "inj_on snd (set (filter (\<lambda>x. fst x = c) (concat (map contribution_ids ms))))"
    by (auto simp: inj_on_def)
  ultimately show ?thesis using assms unfolding separate_def by (simp only: distinct_map distinct_filter simp_thms)
qed

text \<open>
  Active packs never keep the catalogue from being built: with identifiers that the built-in entries do not use,
  the catalogue holds the built-in entries followed by those of the packs.
\<close>

theorem packs_extend_catalog:
  assumes R: "pack_runtime_of V M given trust = Inr R"
    and new: "\<forall>m \<in> set (prt_manifests R). set (ids_in ''evidence_intent'' m) \<inter> in_id ` set builtin_intents = {} \<and>
      set (ids_in ''collector'' m) \<inter> cl_id ` set builtin_collectors = {} \<and>
      set (ids_in ''causal_template'' m) \<inter> ct_id ` set builtin_templates = {}"
  shows "\<exists>c. build_builtin_catalog (Some (entries_of R)) = Inr c \<and>
     map snd (reg_items (dx_intents c)) = builtin_intents @ pack_intents R \<and>
     map snd (reg_items (dx_collectors c)) = builtin_collectors @ pack_collectors R \<and>
     map snd (reg_items (dx_templates c)) = builtin_templates @ pack_templates R"
proof -
  note sep = separate_ids [OF runtime_separate [OF R]]
  have ids: "map in_id (pack_intents R) = concat (map (ids_in ''evidence_intent'') (prt_manifests R))"
    "map cl_id (pack_collectors R) = concat (map (ids_in ''collector'') (prt_manifests R))"
    "map ct_id (pack_templates R) = concat (map (ids_in ''causal_template'') (prt_manifests R))"
    by (simp_all add: pack_intents_def pack_collectors_def pack_templates_def contributed_def map_concat comp_def
        ids_in_fields)
  have fresh: "set (concat (map f (prt_manifests R))) \<inter> A = {}"
    if "\<forall>m \<in> set (prt_manifests R). set (f m) \<inter> A = {}" for f :: "pack_manifest \<Rightarrow> string list" and A using that by auto
  let ?I = "dx_intents builtin_catalog" and ?C = "dx_collectors builtin_catalog" and ?T = "dx_templates builtin_catalog"
  let ?i = "map (\<lambda>i. (in_id i, i)) (pack_intents R)" and ?c = "map (\<lambda>d. (cl_id d, d)) (pack_collectors R)"
    and ?t = "map (\<lambda>t. (ct_id t, t)) (pack_templates R)"
  have "map fst ?i = map in_id (pack_intents R)" "map fst ?c = map cl_id (pack_collectors R)"
    "map fst ?t = map ct_id (pack_templates R)" by simp_all
  note keys = this [unfolded ids]
  note sets = keys [THEN arg_cong [of _ _ set], unfolded set_map [of fst]]
  have old: "fst ` set (reg_items ?I) = in_id ` set builtin_intents" "fst ` set (reg_items ?C) = cl_id ` set builtin_collectors"
    "fst ` set (reg_items ?T) = ct_id ` set builtin_templates" by (simp_all add: builtin_catalog_def image_image)
  have "reg_extend ?i False ?I = Inr (?I\<lparr>reg_items := reg_items ?I @ ?i\<rparr>)"
    "reg_extend ?c False ?C = Inr (?C\<lparr>reg_items := reg_items ?C @ ?c\<rparr>)"
    "reg_extend ?t False ?T = Inr (?T\<lparr>reg_items := reg_items ?T @ ?t\<rparr>)"
    by (rule reg_extend_new, simp only: keys sep, simp only: sets old, rule fresh, use new in blast)+
  then have "register_entries (entries_of R) builtin_catalog = Inr (builtin_catalog
      \<lparr>dx_intents := ?I\<lparr>reg_items := reg_items ?I @ ?i\<rparr>, dx_collectors := ?C\<lparr>reg_items := reg_items ?C @ ?c\<rparr>,
       dx_templates := ?T\<lparr>reg_items := reg_items ?T @ ?t\<rparr>\<rparr>)"
    by (simp add: register_entries_def entries_of_def register_each_intents register_each_collectors
        register_each_templates)
  moreover have "build_builtin_catalog (Some p) = register_entries p builtin_catalog" for p
    using build_builtin_catalog by (auto simp: build_builtin_catalog_def res_bind_eq_Inr_iff)
  ultimately show ?thesis by (simp add: builtin_catalog_def comp_def)
qed

end
