(* ===== verification/Diagnosis_Evidence.thy ===== *)
theory Diagnosis_Evidence
  imports Diagnosis_Catalog
begin

text \<open>
  The executor of \<open>diagnosis/evidence.py\<close>: its thirteen collectors over a snapshot and its topology, and the run
  of a collection plan, in which the failure of a collector is data. Digests, fresh identifiers, clock readings,
  the JSON dumps of relationships and issues and the rendering of floats are arguments.
\<close>

section \<open>Facts\<close>

record collection_env =
  cv_digest :: "string \<Rightarrow> string \<Rightarrow> string \<Rightarrow> string \<Rightarrow> string list \<Rightarrow> json \<Rightarrow> fields option \<Rightarrow> string"
  cv_dump_relationship :: "relationship \<Rightarrow> json"
  cv_dump_issue :: "discovery_issue \<Rightarrow> json"
  cv_float :: "rat \<Rightarrow> string"

type_synonym fact_maker = "string \<Rightarrow> msg \<Rightarrow> string list \<Rightarrow> json \<Rightarrow> fields option \<Rightarrow> evidence_fact"

definition collected_fact :: "collection_env \<Rightarrow> evidence_context \<Rightarrow> plan_step \<Rightarrow> fact_maker" where
  "collected_fact V cx s fact_type statement subjects v attributes =
     \<lparr>evf_id = ''ev-'' @ cv_digest V (snap_id (cx_snapshot cx)) (st_collector_id s) (st_intent_id s) fact_type subjects v
        attributes,
      evf_type = fact_type, evf_statement = statement, evf_value = v, evf_subject_ids = subjects,
      evf_intent_id = Some (st_intent_id s), evf_collector_id = st_collector_id s,
      evf_observed_at_iso = snap_completed_at_iso (cx_snapshot cx), evf_authority = Auth_Authoritative,
      evf_freshness_seconds = 0, evf_source_artifact_ids = [],
      evf_attributes = (case attributes of None \<Rightarrow> [] | Some a \<Rightarrow> a)\<rparr>"

definition context_entities :: "evidence_context \<Rightarrow> (string, entity) dict" where
  "context_entities cx = dict_of (map (\<lambda>e. (ent_id e, e)) (snap_entities (cx_snapshot cx)))"

definition step_subjects :: "plan_step \<Rightarrow> evidence_context \<Rightarrow> string list" where
  "step_subjects s cx =
     (if st_subject_ids s \<noteq> [] then dedup (st_subject_ids s) else sort (map fst (context_entities cx)))"

definition lower_bool :: "bool \<Rightarrow> string" where
  "lower_bool b = (if b then ''true'' else ''false'')"

definition show_bool :: "bool \<Rightarrow> string" where
  "show_bool b = (if b then ''True'' else ''False'')"

definition observed_at :: "entity \<Rightarrow> string \<Rightarrow> json" where
  "observed_at e k = dget_default (ent_observed_state e) k JNull"

text \<open>The collectors that report on each present subject on its own.\<close>

definition per_entity :: "plan_step \<Rightarrow> evidence_context \<Rightarrow> (string \<Rightarrow> entity \<Rightarrow> evidence_fact list) \<Rightarrow> evidence_fact list" where
  "per_entity s cx f =
     concat (map (\<lambda>i. case dget (context_entities cx) i of None \<Rightarrow> [] | Some e \<Rightarrow> f i e) (step_subjects s cx))"

section \<open>The collectors\<close>

definition state_flags :: "string list" where
  "state_flags = [''ready'', ''serviceable'', ''reachable'', ''authenticated'', ''authorized'', ''bound'']"

definition flag_facts :: "fact_maker \<Rightarrow> string \<Rightarrow> entity \<Rightarrow> evidence_fact list" where
  "flag_facts mkf i e =
     List.map_filter (\<lambda>k. case observed_at e k of
         JBool b \<Rightarrow> Some (mkf (''entity.'' @ k @ ''.'' @ lower_bool b) [Txt (i @ '' reports '' @ k @ ''='' @ show_bool b @ ''.'')]
           [i] (JBool b) None)
       | _ \<Rightarrow> None) state_flags"

definition entity_state :: "collection_env \<Rightarrow> plan_step \<Rightarrow> evidence_context \<Rightarrow> evidence_fact list" where
  "entity_state V s cx =
     (let mkf = collected_fact V cx s in
      concat (map (\<lambda>i. case dget (context_entities cx) i of
          None \<Rightarrow>
            [mkf ''entity.exists'' [Txt (i @ '' is not present in the snapshot.'')] [i] (JBool False) None,
             mkf ''entity.exists.false'' [Txt (i @ '' is absent.'')] [i] (JBool False) None,
             mkf ''entity.absent'' [Txt (''Required entity '' @ i @ '' is absent.'')] [i] (JBool True) None]
        | Some e \<Rightarrow>
            [mkf ''entity.exists'' [Txt (i @ '' exists.'')] [i] (JBool True) None,
             mkf ''entity.exists.true'' [Txt (i @ '' exists.'')] [i] (JBool True) None,
             mkf ''entity.state'' [Txt (''Current normalized state captured for '' @ i @ ''.'')] [i]
               (JObj [(''desired'', JObj (ent_desired_state e)), (''observed'', JObj (ent_observed_state e))])
               (Some [(''entity_type'', JStr (ent_type e)), (''plane'', JStr (plane_value (ent_plane e)))])] @
            flag_facts mkf i e)
        (step_subjects s cx)))"

definition condition_fact :: "fact_maker \<Rightarrow> string \<Rightarrow> string \<times> json \<Rightarrow> evidence_fact" where
  "condition_fact mkf i kc =
     (let condition = (case snd kc of JObj c \<Rightarrow> c | v \<Rightarrow> [(''status'', v)]);
          status = dget_default condition ''status'' JNull; reason = dget_default condition ''reason'' JNull
      in mkf ''kubernetes.condition''
           ([Txt (i @ '' condition '' @ fst kc @ ''=''), Shown status] @
            (if truthy reason then [Txt '' ('', Shown reason, Txt '')''] else []))
           [i] (JObj condition)
           (Some [(''condition_type'', JStr (fst kc)), (''status'', status), (''reason'', reason)]))"

definition conditions_facts :: "collection_env \<Rightarrow> plan_step \<Rightarrow> evidence_context \<Rightarrow> evidence_fact list" where
  "conditions_facts V s cx =
     per_entity s cx (\<lambda>i e.
       case dget_default (ent_observed_state e) ''conditions'' (JObj []) of
         JObj cs \<Rightarrow> map (condition_fact (collected_fact V cx s) i) (sort_key fst cs)
       | _ \<Rightarrow> [])"

definition topology_neighborhood :: "collection_env \<Rightarrow> plan_step \<Rightarrow> evidence_context \<Rightarrow> evidence_fact list" where
  "topology_neighborhood V s cx =
     (let mkf = collected_fact V cx s; rels = tg_relationships (cx_topology cx) in
      concat (map (\<lambda>i.
        let incoming = filter (\<lambda>r. rel_target r = i) rels; outgoing = filter (\<lambda>r. rel_source r = i) rels;
            neighbors = sorted_set (rel_source ` set incoming \<union> rel_target ` set outgoing)
        in mkf ''topology.neighborhood''
             [Txt (i @ '' has '' @ nat_str (length incoming) @ '' incoming and '' @ nat_str (length outgoing) @
               '' outgoing operational relationships.'')]
             (i # neighbors)
             (JObj [(''incoming'', JList (map (cv_dump_relationship V) incoming)),
                (''outgoing'', JList (map (cv_dump_relationship V) outgoing))]) None #
           map (\<lambda>r. mkf ''dependency.edge'' [Txt (rel_source r @ '' --'' @ rel_type r @ ''--> '' @ rel_target r @ ''.'')]
             [rel_source r, rel_target r] (cv_dump_relationship V r) (Some [(''relationship_type'', JStr (rel_type r))]))
             (incoming @ outgoing))
        (sorted_set (set (step_subjects s cx)))))"

text \<open>Whether an endpoint is reachable, and the layer of its failure, as far as they are known.\<close>

definition endpoint_reading :: "evidence_context \<Rightarrow> string \<Rightarrow> entity \<Rightarrow> json \<times> json" where
  "endpoint_reading cx i e =
     (let reachable = observed_at e ''reachable'';
          layer = (if truthy (observed_at e ''failed_layer'') then observed_at e ''failed_layer''
                   else observed_at e ''failure_layer'');
          is_ready = (\<lambda>r. case dget (context_entities cx) (rel_target r) of
             None \<Rightarrow> False | Some t \<Rightarrow> observed_at t ''ready'' = JBool True);
          selected = filter (\<lambda>r. rel_source r = i \<and> rel_type r = ''selects'') (tg_relationships (cx_topology cx))
      in if reachable \<noteq> JNull then (reachable, layer)
         else (case observed_at e ''ready'' of
                 JBool b \<Rightarrow>
                   if ent_type e \<in> {''kubernetes.pod'', ''kubernetes.service''} then (JBool b, layer) else (JNull, layer)
               | _ \<Rightarrow>
                   if ent_type e = ''kubernetes.service'' \<and> selected \<noteq> []
                   then (JBool (list_ex is_ready selected),
                         if list_ex is_ready selected then JNull else JStr ''endpoint_presence'')
                   else (JNull, layer)))"

definition endpoint_state :: "collection_env \<Rightarrow> plan_step \<Rightarrow> evidence_context \<Rightarrow> evidence_fact list" where
  "endpoint_state V s cx =
     (let mkf = collected_fact V cx s in
      concat (map (\<lambda>i. case dget (context_entities cx) i of
          None \<Rightarrow>
            [mkf ''endpoint.reachable.false'' [Txt (''Endpoint entity '' @ i @ '' is absent.'')] [i] (JBool False)
               (Some [(''layer'', JStr ''endpoint_presence'')]),
             mkf ''endpoint.layer'' [Txt (''Endpoint presence failed for '' @ i @ ''.'')] [i] (JStr ''endpoint_presence'') None]
        | Some e \<Rightarrow>
            (let (reachable, layer) = endpoint_reading cx i e in
             (case reachable of
                JBool b \<Rightarrow>
                  [mkf ''endpoint.reachable'' [Txt (''Endpoint reachability for '' @ i @ '' is '' @ show_bool b @ ''.'')] [i]
                     (JBool b) None,
                   mkf (''endpoint.reachable.'' @ lower_bool b)
                     [Txt (''Endpoint '' @ i @ '' is '' @ (if b then ''reachable'' else ''unreachable'') @ ''.'')] [i] (JBool b) None]
              | _ \<Rightarrow> []) @
             (if truthy layer
              then [mkf ''endpoint.layer''
                [Txt (''Endpoint failure for '' @ i @ '' is localized to ''), Shown layer, Txt ''.''] [i] layer
                (Some [(''layer'', layer)])]
              else [])))
        (step_subjects s cx)))"

definition authentication_values :: "entity \<Rightarrow> fields" where
  "authentication_values e =
     (let state = ent_observed_state e;
          auth = (case observed_at e ''authentication'' of JObj a \<Rightarrow> a | _ \<Rightarrow> []);
          reading = (\<lambda>k j. dget_default state k (dget_default auth j JNull))
      in [(''authenticated'', reading ''authenticated'' ''succeeded''),
          (''credential_present'', reading ''credential_present'' ''credential_present''),
          (''credential_fresh'', reading ''credential_fresh'' ''credential_fresh''),
          (''credential_propagated'', reading ''credential_propagated'' ''credential_propagated''),
          (''status_code'', reading ''status_code'' ''status_code'')])"

definition authentication_failed :: "fields \<Rightarrow> bool" where
  "authentication_failed values \<longleftrightarrow>
     dget values ''authenticated'' = Some (JBool False) \<or> py_eq (dget_default values ''status_code'' JNull) (JInt 401) \<or>
     list_ex (\<lambda>k. dget values k = Some (JBool False)) [''credential_present'', ''credential_fresh'', ''credential_propagated'']"

definition authentication_state :: "collection_env \<Rightarrow> plan_step \<Rightarrow> evidence_context \<Rightarrow> evidence_fact list" where
  "authentication_state V s cx =
     (let mkf = collected_fact V cx s in
      per_entity s cx (\<lambda>i e.
        let values = authentication_values e; failed = authentication_failed values in
        if list_all (\<lambda>kv. snd kv = JNull) values then []
        else
          [mkf ''authentication.state'' [Txt (''Authentication chain state captured for '' @ i @ ''.'')] [i] (JObj values) None,
           mkf (if failed then ''authentication.state.failed'' else ''authentication.state.succeeded'')
             [Txt (''Authentication for '' @ i @ '' '' @ (if failed then ''failed'' else ''succeeded'') @ ''.'')] [i]
             (JBool (\<not> failed)) None] @
          (if failed
           then [mkf ''authentication.failure'' [Txt (''Authentication evidence indicates failure for '' @ i @ ''.'')] [i]
             (JObj values) None]
           else [])))"

text \<open>\<open>status_code in {403}\<close> hashes the value.\<close>

definition is_403 :: "json \<Rightarrow> bool res" where
  "is_403 v =
     (case v of
        JList _ \<Rightarrow> raise TypeError ''unhashable type: list''
      | JObj _ \<Rightarrow> raise TypeError ''unhashable type: dict''
      | JSet _ \<Rightarrow> raise TypeError ''unhashable type: set''
      | _ \<Rightarrow> Inr (py_eq v (JInt 403)))"

definition authorization_of :: "fact_maker \<Rightarrow> string \<Rightarrow> entity \<Rightarrow> evidence_fact list res" where
  "authorization_of mkf i e =
     res_bind (if observed_at e ''authorized'' = JNull
               then res_bind (is_403 (observed_at e ''status_code'')) (\<lambda>b. Inr (if b then JBool False else JNull))
               else Inr (observed_at e ''authorized'')) (\<lambda>authorized.
       case authorized of
         JBool b \<Rightarrow> Inr
           [mkf ''authorization.state'' [Txt (''Authorization decision for '' @ i @ '' is '' @ show_bool b @ ''.'')] [i]
              (JBool b) None,
            mkf (if b then ''authorization.allowed'' else ''authorization.denied'')
              [Txt (''Authorization for '' @ i @ '' was '' @ (if b then ''allowed'' else ''denied'') @ ''.'')] [i] (JBool b) None]
       | _ \<Rightarrow> Inr [])"

definition authorization_state :: "collection_env \<Rightarrow> plan_step \<Rightarrow> evidence_context \<Rightarrow> evidence_fact list res" where
  "authorization_state V s cx =
     res_bind (res_map (\<lambda>i. case dget (context_entities cx) i of
         None \<Rightarrow> Inr [] | Some e \<Rightarrow> authorization_of (collected_fact V cx s) i e) (step_subjects s cx))
       (\<lambda>fs. Inr (concat fs))"

definition controller_progress :: "collection_env \<Rightarrow> plan_step \<Rightarrow> evidence_context \<Rightarrow> evidence_fact list" where
  "controller_progress V s cx =
     (let mkf = collected_fact V cx s in
      per_entity s cx (\<lambda>i e.
        let generation = observed_at e ''generation''; observed = observed_at e ''observed_generation'';
            progress = (if observed_at e ''progressing'' = JNull \<and> generation \<noteq> JNull \<and> observed \<noteq> JNull
                        then JBool (py_eq generation observed) else observed_at e ''progressing'');
            values = JObj [(''generation'', generation), (''observed_generation'', observed), (''progressing'', progress)]
        in case progress of
             JBool b \<Rightarrow>
               [mkf ''controller.progress'' [Txt (''Controller progress for '' @ i @ '' is '' @ show_bool b @ ''.'')] [i]
                  values None,
                mkf (''controller.progress.'' @ lower_bool b)
                  [Txt (''Controller for '' @ i @ '' is '' @ (if b then ''converging'' else ''not converging'') @ ''.'')] [i]
                  (JBool b) None] @
               (if b then []
                else [mkf ''controller.stalled''
                  [Txt (''Observed generation for '' @ i @ '' does not match desired generation.'')] [i] values None])
           | _ \<Rightarrow> []))"

definition conditions_of :: "entity \<Rightarrow> fields" where
  "conditions_of e = (case observed_at e ''conditions'' of JObj cs \<Rightarrow> cs | _ \<Rightarrow> [])"

definition condition_reasons :: "collection_env \<Rightarrow> entity \<Rightarrow> string list" where
  "condition_reasons V e =
     List.map_filter (\<lambda>kc. case snd kc of
         JObj c \<Rightarrow> (let r = dget_default c ''reason'' JNull in if truthy r then Some (str_of (cv_float V) r) else None)
       | _ \<Rightarrow> None) (conditions_of e)"

definition placement_state :: "collection_env \<Rightarrow> plan_step \<Rightarrow> evidence_context \<Rightarrow> evidence_fact list" where
  "placement_state V s cx =
     (let mkf = collected_fact V cx s in
      per_entity s cx (\<lambda>i e.
        let reasons = condition_reasons V e; phase = observed_at e ''phase'';
            declared = observed_at e ''unsatisfied_constraints'';
            unsatisfied = (if truthy declared then declared
                           else if phase = JStr ''Pending'' then JList (map JStr (filter (\<lambda>r. r \<noteq> []) reasons))
                           else JList []);
            feasible = (if observed_at e ''placement_feasible'' = JNull \<and> truthy unsatisfied then JBool False
                        else observed_at e ''placement_feasible'');
            shown = (if truthy unsatisfied then unsatisfied else JList (map JStr reasons))
        in mkf ''placement.state'' [Txt (''Placement state captured for '' @ i @ ''.'')] [i]
             (JObj [(''phase'', phase), (''reasons'', JList (map JStr reasons)), (''unsatisfied_constraints'', unsatisfied),
                (''feasible'', feasible)]) None #
           (if feasible = JBool False \<or> truthy unsatisfied
            then [mkf ''placement.unsatisfied_constraint''
              [Txt (''Placement constraints are unsatisfied for '' @ i @ '': ''), Shown shown, Txt ''.''] [i] shown None]
            else if feasible = JBool True
            then [mkf ''placement.feasible'' [Txt (''At least one valid placement exists for '' @ i @ ''.'')] [i]
              (JBool True) None]
            else [])))"

definition pressure_of :: "entity \<Rightarrow> fields" where
  "pressure_of e =
     List.map_filter (\<lambda>(k, v). case v of
         JObj c \<Rightarrow> if ends_with ''Pressure'' k then Some (k, dget_default c ''status'' JNull) else None
       | _ \<Rightarrow> None) (conditions_of e)"

definition capacity_state :: "collection_env \<Rightarrow> plan_step \<Rightarrow> evidence_context \<Rightarrow> evidence_fact list" where
  "capacity_state V s cx =
     (let mkf = collected_fact V cx s in
      per_entity s cx (\<lambda>i e.
        let pressure = pressure_of e;
            exhausted = (observed_at e ''capacity_exhausted'' = JBool True \<or> list_ex (\<lambda>kv. snd kv = JBool True) pressure)
        in [mkf ''capacity.state'' [Txt (''Capacity state captured for '' @ i @ ''.'')] [i]
              (JObj [(''capacity'', observed_at e ''capacity''), (''allocatable'', observed_at e ''allocatable''),
                 (''pressure'', JObj pressure), (''exhausted'', JBool exhausted)]) None,
            mkf (if exhausted then ''capacity.exhausted'' else ''capacity.sufficient'')
              [Txt (''Capacity for '' @ i @ '' is '' @ (if exhausted then ''exhausted'' else ''not reported exhausted'') @ ''.'')]
              [i] (JBool exhausted) None]))"

definition reference_types :: "string set" where
  "reference_types = {''references'', ''configured_by'', ''mounts'', ''binds'', ''uses_identity'', ''selects'', ''routes_to''}"

definition reference_state :: "collection_env \<Rightarrow> plan_step \<Rightarrow> evidence_context \<Rightarrow> evidence_fact list" where
  "reference_state V s cx =
     (let mkf = collected_fact V cx s in
      concat (map (\<lambda>i.
        let refs = filter (\<lambda>r. rel_source r = i \<and> rel_type r \<in> reference_types) (tg_relationships (cx_topology cx));
            missing = filter (\<lambda>t. dget (context_entities cx) t = None) (map rel_target refs)
        in [mkf ''configuration.reference_state''
              [Txt (i @ '' has '' @ nat_str (length refs) @ '' resolved reference relationships and '' @
                nat_str (length missing) @ '' missing targets.'')]
              (i # map rel_target refs)
              (JObj [(''relationships'', JList (map (cv_dump_relationship V) refs)),
                 (''missing_targets'', JList (map JStr missing))]) None,
            mkf (if missing \<noteq> [] then ''configuration.reference_missing'' else ''configuration.reference_valid'')
              [Txt (''Configuration references for '' @ i @ '' are '' @ (if missing \<noteq> [] then ''incomplete'' else ''resolved'') @ ''.'')]
              [i] (JList (map JStr missing)) None])
        (step_subjects s cx)))"

definition discovery_issues :: "collection_env \<Rightarrow> plan_step \<Rightarrow> evidence_context \<Rightarrow> evidence_fact list" where
  "discovery_issues V s cx =
     map (\<lambda>issue. collected_fact V cx s ''discovery.issue'' [Txt (di_message issue)] (st_subject_ids s) (cv_dump_issue V issue)
       (Some [(''severity'', JStr (di_severity issue)), (''resource_type'', str_or_null (di_resource_type issue))]))
       (snap_issues (cx_snapshot cx))"

definition gap_subjects :: "collection_env \<Rightarrow> plan_step \<Rightarrow> fields \<Rightarrow> string list" where
  "gap_subjects V s gap =
     (let named = (\<lambda>k. dget_default gap k JNull) in
      map (\<lambda>i. if truthy (named ''resource'') then str_of (cv_float V) (named ''resource'')
               else if truthy (named ''subject'') then str_of (cv_float V) (named ''subject'') else i)
        (take 1 (st_subject_ids s)))"

definition permission_gaps :: "collection_env \<Rightarrow> plan_step \<Rightarrow> evidence_context \<Rightarrow> evidence_fact list" where
  "permission_gaps V s cx =
     concat (map (\<lambda>gap.
       [collected_fact V cx s ''authorization.permission_gap''
          [Txt ''Read-only collection encountered a permission gap: '', Shown (JObj gap), Txt ''.''] (gap_subjects V s gap)
          (JObj gap) None,
        collected_fact V cx s ''observability.permission_gap''
          [Txt ''Evidence is incomplete because access was denied: '', Shown (JObj gap), Txt ''.''] (gap_subjects V s gap)
          (JObj gap) None]) (snap_permission_gaps (cx_snapshot cx)))"

definition observability_quality :: "collection_env \<Rightarrow> plan_step \<Rightarrow> evidence_context \<Rightarrow> evidence_fact list" where
  "observability_quality V s cx =
     (let snap = cx_snapshot cx; mkf = collected_fact V cx s; gaps = length (snap_permission_gaps snap);
          issues = length (filter (\<lambda>i. di_severity i = ''error'') (snap_issues snap));
          incomplete = (snap_status snap \<noteq> Collect_Complete \<or> 0 < gaps \<or> 0 < issues)
      in [mkf ''observability.quality'' [Txt (''Evidence quality for snapshot '' @ snap_id snap @ '' was evaluated.'')]
            (st_subject_ids s)
            (JObj [(''snapshot_status'', JStr (collection_value (snap_status snap))),
               (''permission_gap_count'', JInt (int gaps)), (''error_issue_count'', JInt (int issues)),
               (''observation_count'', JInt (int (length (snap_observations snap))))]) None,
          mkf (if incomplete then ''observability.gap'' else ''observability.complete'')
            [Txt (''Evidence boundary is '' @ (if incomplete then ''incomplete'' else ''complete'') @ '' for this investigation.'')]
            (st_subject_ids s) (JBool incomplete) None])"

section \<open>Running a plan\<close>

type_synonym collector_handler = "collection_env \<Rightarrow> plan_step \<Rightarrow> evidence_context \<Rightarrow> evidence_fact list res"

definition infallible :: "(collection_env \<Rightarrow> plan_step \<Rightarrow> evidence_context \<Rightarrow> evidence_fact list) \<Rightarrow> collector_handler" where
  "infallible f V s cx = Inr (f V s cx)"

definition collector_handlers :: "(string, collector_handler) dict" where
  "collector_handlers =
     [(''entity_state'', infallible entity_state), (''conditions'', infallible conditions_facts),
      (''topology_neighborhood'', infallible topology_neighborhood), (''endpoint_state'', infallible endpoint_state),
      (''authentication_state'', infallible authentication_state), (''authorization_state'', authorization_state),
      (''controller_progress'', infallible controller_progress), (''placement_state'', infallible placement_state),
      (''capacity_state'', infallible capacity_state), (''reference_state'', infallible reference_state),
      (''discovery_issues'', infallible discovery_issues), (''permission_gaps'', infallible permission_gaps),
      (''observability_quality'', infallible observability_quality)]"

fun exn_name :: "exn \<Rightarrow> string" where
  "exn_name KeyError = ''KeyError''"
| "exn_name ValueError = ''ValueError''"
| "exn_name RegistryError = ''RegistryError''"
| "exn_name PermissionError = ''PermissionError''"
| "exn_name TypeError = ''TypeError''"
| "exn_name StopIteration = ''StopIteration''"
| "exn_name AssertionError = ''AssertionError''"
| "exn_name AttributeError = ''AttributeError''"
| "exn_name IndexError = ''IndexError''"
| "exn_name FileNotFoundError = ''FileNotFoundError''"
| "exn_name OverflowError = ''OverflowError''"
| "exn_name NotImplementedError = ''NotImplementedError''"
| "exn_name OSError = ''OSError''"
| "exn_name TimeoutExpired = ''TimeoutExpired''"
| "exn_name ScenarioCompileError = ''ScenarioCompileError''"
| "exn_name TemplateResolutionError = ''TemplateResolutionError''"
| "exn_name ValidationError = ''ValidationError''"

text \<open>The result of one step; a collector that raises is a failed run (the error names the exception).\<close>

definition run_collector ::
    "collection_env \<Rightarrow> evidence_context \<Rightarrow> string \<Rightarrow> string \<Rightarrow> string \<Rightarrow> collector \<Rightarrow> plan_step \<Rightarrow> collector_run" where
  "run_collector V cx fresh started completed d s =
     (let run = \<lparr>cru_id = ''collector-run-'' @ fresh, cru_step_id = st_id s, cru_collector_id = cl_id d,
            cru_intent_id = st_intent_id s, cru_status = Coll_Failed, cru_started_at_iso = started,
            cru_completed_at_iso = completed, cru_evidence = [], cru_errors = [], cru_metadata = []\<rparr>
      in case dget collector_handlers (cl_handler_id d) of
           None \<Rightarrow> run\<lparr>cru_errors := [''no handler registered for '' @ cl_handler_id d]\<rparr>
         | Some handler \<Rightarrow>
             (case handler V s cx of
                Inl (e, m) \<Rightarrow> run\<lparr>cru_errors := [exn_name e @ '': '' @ m]\<rparr>
              | Inr [] \<Rightarrow> run\<lparr>cru_status := Coll_Partial,
                  cru_errors := [''collector produced no facts for the selected subjects'']\<rparr>
              | Inr facts \<Rightarrow> run\<lparr>cru_status := Coll_Completed, cru_evidence := facts\<rparr>))"

fun execute_steps ::
    "collection_env \<Rightarrow> diagnostic_catalog \<Rightarrow> evidence_context \<Rightarrow> (nat \<Rightarrow> string) \<Rightarrow> (nat \<Rightarrow> string) \<Rightarrow> nat \<Rightarrow> plan_step list \<Rightarrow>
     collector_run list res" where
  "execute_steps V c cx fresh clock n [] = Inr []"
| "execute_steps V c cx fresh clock n (s # ss) =
     res_bind (catalog_collector c (st_collector_id s)) (\<lambda>d.
     res_bind (execute_steps V c cx fresh clock (Suc n) ss) (\<lambda>rest.
       Inr (run_collector V cx (fresh n) (clock (2 * n)) (clock (2 * n + 1)) d s # rest)))"

definition execute_plan ::
    "collection_env \<Rightarrow> diagnostic_catalog \<Rightarrow> (nat \<Rightarrow> string) \<Rightarrow> (nat \<Rightarrow> string) \<Rightarrow> collection_plan \<Rightarrow> evidence_context \<Rightarrow>
     collector_run list res" where
  "execute_plan V c fresh clock p cx = execute_steps V c cx fresh clock 0 (pl_steps p)"

end
