(* ===== verification/Diagnosis_Props.thy ===== *)
theory Diagnosis_Props
  imports Diagnosis_Planning
begin

text \<open>
  What a diagnosis guarantees: every reference of a fresh incident is closed, a root cause was proven by the
  evidence, and the planners account for every question they were given.
\<close>

section \<open>Symptoms refer to kept facts\<close>

definition keyed_by_id :: "(string, evidence_fact) dict \<Rightarrow> bool" where
  "keyed_by_id ex \<longleftrightarrow> (\<forall>(k, f) \<in> set ex. evf_id f = k)"

lemma keyed_set_default: "keyed_by_id ex \<Longrightarrow> keyed_by_id (set_default ex (evf_id f) f)"
  using set_dset_subset [of "evf_id f" f ex] by (fastforce simp: keyed_by_id_def set_default_def)

lemma keys_set_default: "fst ` set (set_default ex k v) = insert k (fst ` set ex)"
  by (auto simp: set_default_def dict_simps dest: map_of_SomeD) (metis (no_types) dget_in_keys option.distinct(1))

lemma keyed_set_defaults:
  "keyed_by_id ex \<Longrightarrow> keyed_by_id (foldl (\<lambda>x f. set_default x (evf_id f) f) ex fs)"
  by (induction fs arbitrary: ex) (auto simp: keyed_set_default)

lemma keys_set_defaults:
  "fst ` set (foldl (\<lambda>x f. set_default x (evf_id f) f) ex fs) = fst ` set ex \<union> evf_id ` set fs"
  by (induction fs arbitrary: ex) (auto simp: keys_set_default)

lemma keyed_dict_of: "keyed_by_id (dict_of (map (\<lambda>f. (evf_id f, f)) fs))"
proof -
  have "keyed_by_id ex \<Longrightarrow> keyed_by_id (foldl (\<lambda>d (k, v). dset k v d) ex (map (\<lambda>f. (evf_id f, f)) fs))" for ex
  proof (induction fs arbitrary: ex)
    case (Cons f fs)
    have "keyed_by_id (dset (evf_id f) f ex)"
      using Cons.prems set_dset_subset [of "evf_id f" f ex] by (fastforce simp: keyed_by_id_def)
    then show ?case by (simp add: Cons.IH)
  qed simp
  note * = this
  show ?thesis unfolding dict_of_def by (rule *) (simp add: keyed_by_id_def)
qed

lemma ids_of_keyed: "keyed_by_id ex \<Longrightarrow> evf_id ` set (map snd ex) = fst ` set ex"
  by (force simp: keyed_by_id_def)

lemma derive_loop_refs:
  "derive_loop D defs a es ex = (ss, ex') \<Longrightarrow> keyed_by_id ex \<Longrightarrow>
     keyed_by_id ex' \<and> fst ` set ex \<subseteq> fst ` set ex' \<and>
     (\<forall>s \<in> set ss. set (sy_evidence_ids s) \<subseteq> fst ` set ex')"
proof (induction es arbitrary: ex ss ex')
  case (Cons e es)
  show ?case
  proof (cases "ev_status e = HEALTHY \<or> dget defs (ev_invariant_id e) = None")
    case True
    then show ?thesis using Cons by (auto split: if_splits option.splits)
  next
    case False
    then obtain d where d: "dget defs (ev_invariant_id e) = Some d" and h: "ev_status e \<noteq> HEALTHY" by auto
    let ?fs = "facts_for_evaluation D d e a"
    let ?ex = "foldl (\<lambda>x f. set_default x (evf_id f) f) ex ?fs"
    obtain ss1 ex1 where r: "derive_loop D defs a es ?ex = (ss1, ex1)" by fastforce
    with Cons.prems(1) d h have eq: "ss = symptom_of D d e a ?fs # ss1" "ex' = ex1" by auto
    from Cons.IH [OF r keyed_set_defaults [OF Cons.prems(2)]] keys_set_defaults [of ex ?fs]
    show ?thesis by (auto simp: eq symptom_of_def)
  qed
qed auto

lemma derive_symptoms_refs:
  assumes "derive_symptoms D c a evidence = (ss, ev)"
  shows "\<forall>s \<in> set ss. set (sy_evidence_ids s) \<subseteq> evf_id ` set ev" and "evf_id ` set evidence \<subseteq> evf_id ` set ev"
proof -
  let ?d0 = "dict_of (map (\<lambda>f. (evf_id f, f)) evidence)"
  let ?defs = "dict_of (map (\<lambda>i. (inv_id i, i)) (cp_invariants c))"
  obtain ex where r: "derive_loop D ?defs a (pa_evaluations a) ?d0 = (ss, ex)" and ev: "set ev = snd ` set ex"
    using assms by (auto simp: derive_symptoms_def Let_def split: prod.splits)
  note * = derive_loop_refs [OF r keyed_dict_of]
  have "evf_id ` set (map snd ex) = fst ` set ex" by (rule ids_of_keyed [OF conjunct1 [OF *]])
  then have eq: "evf_id ` set ev = fst ` set ex" by (simp only: ev set_map)
  have "evf_id f \<in> fst ` set ?d0" if "f \<in> set evidence" for f
    using that by (simp add: dget_in_keys dget_dict_of map_of_eq_None_iff image_image)
  then have "evf_id ` set evidence \<subseteq> fst ` set ?d0" by blast
  also have "fst ` set ?d0 \<subseteq> fst ` set ex" by (rule conjunct1 [OF conjunct2 [OF *]])
  finally show "evf_id ` set evidence \<subseteq> evf_id ` set ev" by (simp only: eq)
  show "\<forall>s \<in> set ss. set (sy_evidence_ids s) \<subseteq> evf_id ` set ev"
    unfolding eq by (rule conjunct2 [OF conjunct2 [OF *]])
qed

section \<open>Hypotheses\<close>

text \<open>What every hypothesis of a generation carries, whatever became of its place in the list.\<close>

definition weight :: "evidence_fact list \<Rightarrow> rat" where
  "weight fs = sum_list (map (authority_confidence \<circ> evf_authority) fs)"

definition grounded :: "evidence_fact list \<Rightarrow> hypothesis \<Rightarrow> bool" where
  "grounded evidence h \<longleftrightarrow>
     (\<exists>supporting contradicting. set supporting \<subseteq> set evidence \<and> set contradicting \<subseteq> set evidence \<and>
        hy_supporting_evidence_ids h = map evf_id supporting \<and>
        hy_contradicting_evidence_ids h = map evf_id contradicting \<and>
        (hy_status h = Hyp_Proven \<longleftrightarrow> supporting \<noteq> [] \<and> hy_predictions h = [] \<and> 4 / 5 \<le> weight supporting \<and>
           weight contradicting < weight supporting) \<and>
        (refuted h \<longleftrightarrow> contradicting \<noteq> [] \<and> weight supporting \<le> weight contradicting))"

lemma grounded_ids:
  assumes "grounded evidence h"
  shows "set (hy_supporting_evidence_ids h) \<union> set (hy_contradicting_evidence_ids h) \<subseteq> evf_id ` set evidence"
proof -
  from assms obtain sps cns where "set sps \<subseteq> set evidence" "set cns \<subseteq> set evidence"
    "hy_supporting_evidence_ids h = map evf_id sps" "hy_contradicting_evidence_ids h = map evf_id cns"
    unfolding grounded_def by (elim exE conjE) (rule that)
  then show ?thesis by (auto intro!: imageI)
qed

lemma authority_confidence_pos: "0 < authority_confidence a"
  by (cases a) auto

lemma weight_nonneg: "0 \<le> weight fs"
  unfolding weight_def by (induction fs) (auto intro!: add_nonneg_nonneg less_imp_le [OF authority_confidence_pos])

lemma weight_pos: "0 < weight fs \<longleftrightarrow> fs \<noteq> []"
proof (cases fs)
  case (Cons f gs)
  then show ?thesis
    using weight_nonneg [of gs] authority_confidence_pos [of "evf_authority f"]
    by (simp add: weight_def add_pos_nonneg)
qed (simp add: weight_def)

lemma score_status:
  assumes "score_hypothesis g n sps cns missing = (status, r, cs)"
  shows "status = Hyp_Proven \<longleftrightarrow> sps \<noteq> [] \<and> missing = [] \<and> 4 / 5 \<le> weight sps \<and> weight cns < weight sps"
    and "status \<in> {Hyp_Ruled_Out, Hyp_Contradicted} \<longleftrightarrow> cns \<noteq> [] \<and> weight sps \<le> weight cns"
proof -
  have st: "status = (if weight cns \<ge> weight sps \<and> weight cns > 0
      then (if weight sps = 0 then Hyp_Ruled_Out else Hyp_Contradicted)
      else if sps \<noteq> [] \<and> missing = [] \<and> 80 / 100 \<le> weight sps then Hyp_Proven
      else if sps \<noteq> [] then Hyp_Supported else Hyp_Candidate)"
    using assms unfolding score_hypothesis_def Let_def weight_def prod.inject by (elim conjE) (erule sym)
  have "(80 :: rat) / 100 = 4 / 5" by simp
  then show "status = Hyp_Proven \<longleftrightarrow> sps \<noteq> [] \<and> missing = [] \<and> 4 / 5 \<le> weight sps \<and> weight cns < weight sps"
    and "status \<in> {Hyp_Ruled_Out, Hyp_Contradicted} \<longleftrightarrow> cns \<noteq> [] \<and> weight sps \<le> weight cns"
    using weight_nonneg [of cns] weight_pos [of cns] weight_nonneg [of sps] weight_pos [of sps]
    unfolding st by (auto split: if_splits)
qed

lemma hypothesis_of_fields:
  assumes "hypothesis_of D s t evidence parent = Inr h"
  shows "grounded evidence h" and "hy_explains_symptom_ids h = [sy_id s]"
    and "hy_parent_id h = (if ct_generic t then None else parent)"
    and "hy_id h = ''hyp-'' @ dg_hypothesis D (sy_id s) (ct_id t)"
proof -
  let ?rel = "related_evidence s evidence"
  let ?sps = "facts_matching (ct_supporting_fact_types t) ?rel"
  let ?cns = "facts_matching (ct_contradicting_fact_types t) ?rel"
  obtain status r cs where sc: "score_hypothesis (ct_generic t) (ct_specificity t) ?sps ?cns (missing_predictions t ?rel)
      = (status, r, cs)" by (metis prod_cases3)
  note h = assms [unfolded hypothesis_of_def Let_def sc prod.case res_bind_eq_Inr_iff]
  note inr = sum.inject(2) [THEN iffD1]
  have f: "hy_supporting_evidence_ids h = map evf_id ?sps" "hy_contradicting_evidence_ids h = map evf_id ?cns"
    "hy_status h = status" "hy_predictions h = missing_predictions t ?rel"
    using h by - (elim exE conjE, drule inr, thin_tac "format_claim _ _ _ _ = _", erule subst, simp)+
  have "set ?sps \<subseteq> set evidence" "set ?cns \<subseteq> set evidence"
    by (auto simp: facts_matching_def related_evidence_def)
  with f score_status [OF sc] show "grounded evidence h"
    unfolding grounded_def refuted_def by (intro exI [of _ ?sps] exI [of _ ?cns]) (simp only: simp_thms)
  show "hy_explains_symptom_ids h = [sy_id s]"
    and "hy_parent_id h = (if ct_generic t then None else parent)"
    and "hy_id h = ''hyp-'' @ dg_hypothesis D (sy_id s) (ct_id t)"
    using h by - (elim exE conjE, drule inr, thin_tac "format_claim _ _ _ _ = _", erule subst, simp)+
qed

lemma hyp_ids_add_new: "hy_id ` set (add_new h hs) = insert (hy_id h) (hy_id ` set hs)"
  by (auto simp: add_new_def)

lemma set_add_new: "set (add_new h hs) \<subseteq> insert h (set hs)"
  by (auto simp: add_new_def)

text \<open>The invariant of the two loops over symptoms and templates.\<close>

definition endpoints_in :: "string set \<Rightarrow> edge_maker \<Rightarrow> bool" where
  "endpoints_in ids mk \<longleftrightarrow> (\<forall>fresh. ce_source_id (mk fresh) \<in> ids \<and> ce_target_id (mk fresh) \<in> ids)"

definition incident_ids :: "symptom list \<Rightarrow> evidence_fact list \<Rightarrow> hypothesis list \<Rightarrow> string set" where
  "incident_ids ss evidence hs = sy_id ` set ss \<union> evf_id ` set evidence \<union> hy_id ` set hs"

definition generation_ok :: "symptom list \<Rightarrow> evidence_fact list \<Rightarrow> hypothesis list \<Rightarrow> edge_maker list \<Rightarrow> bool" where
  "generation_ok ss evidence hs es \<longleftrightarrow>
     distinct (map hy_id hs) \<and>
     (\<forall>h \<in> set hs. grounded evidence h \<and> set (hy_explains_symptom_ids h) \<subseteq> sy_id ` set ss \<and>
        (\<forall>p. hy_parent_id h = Some p \<longrightarrow> p \<in> hy_id ` set hs)) \<and>
     (\<forall>m \<in> set es. endpoints_in (incident_ids ss evidence hs) m)"

lemma hypothesis_edges_endpoints:
  assumes "s \<in> set ss" and "hy_id h \<in> hy_id ` set hs" and "m \<in> set (hypothesis_edges s t evidence h)"
  shows "endpoints_in (incident_ids ss evidence hs) m"
  using assms
  by (auto simp: hypothesis_edges_def Let_def endpoints_in_def incident_ids_def explains_edge_def fact_edge_def
      facts_matching_def related_evidence_def)

lemma endpoints_mono: "endpoints_in A m \<Longrightarrow> A \<subseteq> B \<Longrightarrow> endpoints_in B m"
  by (auto simp: endpoints_in_def)

lemma consider_templates_ok:
  "consider_templates D types evidence s ts parent hs es = Inr (hs', es') \<Longrightarrow> s \<in> set ss \<Longrightarrow>
     generation_ok ss evidence hs es \<Longrightarrow> (\<forall>p. parent = Some p \<longrightarrow> p \<in> hy_id ` set hs) \<Longrightarrow>
     generation_ok ss evidence hs' es'"
proof (induction ts arbitrary: parent hs es)
  case (Cons t ts)
  from Cons.prems(1) obtain b where b: "template_applicable types s t = Inr b" by (auto split: sum.splits)
  show ?case
  proof (cases b)
    case False
    with b Cons.prems Cons.IH show ?thesis by simp
  next
    case True
    with b Cons.prems(1) obtain h where h: "hypothesis_of D s t evidence parent = Inr h"
      and rest: "consider_templates D types evidence s ts (if ct_generic t then Some (hy_id h) else parent)
        (add_new h hs) (es @ hypothesis_edges s t evidence h) = Inr (hs', es')"
      by (auto split: sum.splits)
    have mono: "incident_ids ss evidence hs \<subseteq> incident_ids ss evidence (add_new h hs)"
      by (auto simp: incident_ids_def hyp_ids_add_new)
    have new: "grounded evidence h \<and> set (hy_explains_symptom_ids h) \<subseteq> sy_id ` set ss \<and>
        (\<forall>p. hy_parent_id h = Some p \<longrightarrow> p \<in> hy_id ` set hs)"
      using hypothesis_of_fields [OF h] Cons.prems(2,4) by auto
    have "generation_ok ss evidence (add_new h hs) (es @ hypothesis_edges s t evidence h)"
      unfolding generation_ok_def
    proof (intro conjI ballI)
      show "distinct (map hy_id (add_new h hs))"
        using Cons.prems(3) by (auto simp: generation_ok_def add_new_def)
    next
      fix g assume "g \<in> set (add_new h hs)"
      then consider "g = h" | "g \<in> set hs" using set_add_new by blast
      then have "grounded evidence g \<and> set (hy_explains_symptom_ids g) \<subseteq> sy_id ` set ss \<and>
          (\<forall>p. hy_parent_id g = Some p \<longrightarrow> p \<in> hy_id ` set hs)"
        using new Cons.prems(3) by cases (auto simp: generation_ok_def)
      then show "grounded evidence g" and "set (hy_explains_symptom_ids g) \<subseteq> sy_id ` set ss"
        and "\<forall>p. hy_parent_id g = Some p \<longrightarrow> p \<in> hy_id ` set (add_new h hs)"
        by (auto simp: hyp_ids_add_new)
    next
      fix m assume "m \<in> set (es @ hypothesis_edges s t evidence h)"
      then show "endpoints_in (incident_ids ss evidence (add_new h hs)) m"
        using Cons.prems(2,3) endpoints_mono [OF _ mono]
        by (auto simp: generation_ok_def hyp_ids_add_new intro: hypothesis_edges_endpoints)
    qed
    then show ?thesis
      using Cons.IH [OF rest Cons.prems(2)] Cons.prems(4) by (auto simp: hyp_ids_add_new)
  qed
qed simp

lemma consider_symptoms_ok:
  "consider_symptoms D c g types evidence todo hs es = Inr (hs', es') \<Longrightarrow> set todo \<subseteq> set ss \<Longrightarrow>
     generation_ok ss evidence hs es \<Longrightarrow> generation_ok ss evidence hs' es'"
proof (induction todo arbitrary: hs es)
  case (Cons s todo)
  then obtain hs1 es1 where
    1: "consider_templates D types evidence s (templates_of_symptom c g s) None hs es = Inr (hs1, es1)"
    and 2: "consider_symptoms D c g types evidence todo hs1 es1 = Inr (hs', es')"
    by (auto split: sum.splits)
  have "generation_ok ss evidence hs1 es1" using consider_templates_ok [OF 1, of ss] Cons.prems by simp
  with Cons.IH [OF 2] Cons.prems(2) show ?case by simp
qed simp

lemma propagation_endpoints: "m \<in> set (propagation_edges ss topo) \<Longrightarrow> endpoints_in (incident_ids ss evidence hs) m"
  by (auto simp: propagation_edges_def endpoints_in_def incident_ids_def propagation_edge_def symptoms_at_def
      split: if_splits)

lemma mark_unexplained_fields [simp]:
  "hy_id (mark_unexplained ss h) = hy_id h" "grounded evidence (mark_unexplained ss h) = grounded evidence h"
  "hy_explains_symptom_ids (mark_unexplained ss h) = hy_explains_symptom_ids h"
  "hy_parent_id (mark_unexplained ss h) = hy_parent_id h"
  by (simp_all add: mark_unexplained_def grounded_def refuted_def)

lemma generate_ok:
  assumes "generate_hypotheses D fresh c ss evidence topo = Inr (hs, es)"
  shows "distinct (map hy_id hs)"
    and "\<forall>h \<in> set hs. grounded evidence h \<and> set (hy_explains_symptom_ids h) \<subseteq> sy_id ` set ss \<and>
        (\<forall>p. hy_parent_id h = Some p \<longrightarrow> p \<in> hy_id ` set hs)"
    and "\<forall>e \<in> set es. ce_source_id e \<in> incident_ids ss evidence hs \<and> ce_target_id e \<in> incident_ids ss evidence hs"
proof -
  obtain g hs0 es0 where loop: "consider_symptoms D c g (entity_types_of topo) evidence ss [] [] = Inr (hs0, es0)"
    and hs: "hs = sort_key (\<lambda>h. - hy_confidence h) (sort_key hy_family_id (sort_key hy_id (map (mark_unexplained ss) hs0)))"
    and es: "es = map (\<lambda>(n, mk). mk (fresh n)) (enumerate 0 (es0 @ propagation_edges ss topo))"
    using assms by (auto simp: generate_hypotheses_def res_bind_eq_Inr_iff Let_def)
  have ok: "generation_ok ss evidence hs0 es0"
    using consider_symptoms_ok [OF loop, of ss] by (simp add: generation_ok_def)
  have ids: "hy_id ` set hs = hy_id ` set hs0" by (auto simp: hs image_image)
  have "distinct (map hy_id (map (mark_unexplained ss) hs0))" using ok by (simp add: generation_ok_def comp_def)
  then show "distinct (map hy_id hs)" unfolding hs distinct_map [of hy_id] distinct_sort set_sort .
  show "\<forall>h \<in> set hs. grounded evidence h \<and> set (hy_explains_symptom_ids h) \<subseteq> sy_id ` set ss \<and>
      (\<forall>p. hy_parent_id h = Some p \<longrightarrow> p \<in> hy_id ` set hs)"
    using ok unfolding ids by (auto simp: hs generation_ok_def)
  have "\<forall>m \<in> set (es0 @ propagation_edges ss topo). endpoints_in (incident_ids ss evidence hs) m"
    using ok ids by (auto simp: generation_ok_def incident_ids_def propagation_endpoints [unfolded incident_ids_def])
  moreover have "\<exists>m \<in> set (es0 @ propagation_edges ss topo). \<exists>n. e = m (fresh n)" if "e \<in> set es" for e
  proof -
    from that obtain n m where nm: "(n, m) \<in> set (enumerate 0 (es0 @ propagation_edges ss topo))" and e: "e = m (fresh n)"
      unfolding es set_map by (elim imageE) (simp add: case_prod_beta, metis prod.collapse)
    have "snd (n, m) \<in> set (map snd (enumerate 0 (es0 @ propagation_edges ss topo)))"
      unfolding set_map by (rule imageI [OF nm])
    then have "m \<in> set (map snd (enumerate 0 (es0 @ propagation_edges ss topo)))" by (simp only: snd_conv)
    with e show ?thesis by (auto simp only: map_snd_enumerate)
  qed
  ultimately show "\<forall>e \<in> set es. ce_source_id e \<in> incident_ids ss evidence hs \<and> ce_target_id e \<in> incident_ids ss evidence hs"
    by (fastforce simp: endpoints_in_def)
qed

section \<open>Certificates\<close>

lemma verdict_root:
  assumes "fst (verdict hs) = Root_Cause_Identified"
  shows "\<exists>h \<in> set hs. snd (verdict hs) = [hy_id h] \<and> hy_status h = Hyp_Proven \<and> \<not> is_generic h"
proof -
  let ?proven = "filter (\<lambda>h. hy_status h = Hyp_Proven) (filter (\<lambda>h. \<not> is_generic h \<and> \<not> refuted h) hs)"
  have "snd (verdict hs) = map hy_id (minimal_roots ?proven)" and "length (minimal_roots ?proven) = 1"
    using assms by (auto simp: verdict_def Let_def split: if_splits)
  then obtain h where h: "minimal_roots ?proven = [h]" and r: "snd (verdict hs) = [hy_id h]"
    by (auto simp: length_Suc_conv)
  from h have "h \<in> set (minimal_roots ?proven)" by simp
  then have "h \<in> set ?proven" by (simp add: minimal_roots_def)
  with r show ?thesis by auto
qed

text \<open>
  Every reference of an incident that was just derived is closed: its validator accepts it, and also every
  causal edge, which the validator does not look at, joins two of its symptoms, facts and hypotheses.
\<close>

theorem fresh_incident_closed:
  assumes "derive_symptoms D c a evidence = (ss, facts)"
    and "generate_hypotheses D fresh catalog ss facts topo = Inr (hs, es)"
    and "ic_symptoms i = ss" and "ic_evidence i = facts" and "ic_hypotheses i = hs" and "ic_causal_edges i = es"
  shows "validate_incident i = Inr i \<and>
     (\<forall>e \<in> set (ic_causal_edges i).
        {ce_source_id e, ce_target_id e} \<subseteq>
          sy_id ` set (ic_symptoms i) \<union> evf_id ` set (ic_evidence i) \<union> hy_id ` set (ic_hypotheses i))"
proof -
  note ok = generate_ok [OF assms(2)]
  have ids: "set (hy_supporting_evidence_ids h) \<union> set (hy_contradicting_evidence_ids h) \<subseteq> evf_id ` set facts"
    if "h \<in> set hs" for h
    using grounded_ids bspec [OF ok(2) that] by blast
  have hyps: "\<forall>h \<in> set hs. set (hy_explains_symptom_ids h) \<subseteq> sy_id ` set ss \<and>
      set (hy_supporting_evidence_ids h) \<union> set (hy_contradicting_evidence_ids h) \<subseteq> evf_id ` set facts \<and>
      (\<forall>p. hy_parent_id h = Some p \<and> p \<noteq> [] \<longrightarrow> p \<in> hy_id ` set hs)"
  proof
    fix h assume h: "h \<in> set hs"
    note * = conjunct2 [OF bspec [OF ok(2) h]]
    show "set (hy_explains_symptom_ids h) \<subseteq> sy_id ` set ss \<and>
        set (hy_supporting_evidence_ids h) \<union> set (hy_contradicting_evidence_ids h) \<subseteq> evf_id ` set facts \<and>
        (\<forall>p. hy_parent_id h = Some p \<and> p \<noteq> [] \<longrightarrow> p \<in> hy_id ` set hs)"
      by (intro conjI allI impI, rule conjunct1 [OF *], rule ids [OF h], rule conjunct2 [OF *, rule_format])
        (rule conjunct1)
  qed
  have edges: "\<forall>e \<in> set es. {ce_source_id e, ce_target_id e} \<subseteq>
      sy_id ` set ss \<union> evf_id ` set facts \<union> hy_id ` set hs"
    using ok(3) unfolding incident_ids_def by (simp only: insert_subset empty_subsetI simp_thms)
  show ?thesis
    unfolding validate_incident_iff assms(3-6)
    by (intro conjI) (rule derive_symptoms_refs(1) [OF assms(1)], rule hyps, rule edges)
qed

text \<open>
  A root cause is never guessed: the certificate names one hypothesis of the incident, a specific one, all of
  whose predictions were observed and whose supporting facts weigh at least 4/5 and more than those against it.
\<close>

theorem root_cause_grounded:
  assumes "generate_hypotheses D fresh catalog ss evidence topo = Inr (hs, es)"
    and "dc_status (build_certificate cert_fresh now i violated hs evidence es) = Root_Cause_Identified"
  shows "\<exists>h \<in> set hs. \<exists>supporting contradicting.
     dc_root_cause_ids (build_certificate cert_fresh now i violated hs evidence es) = [hy_id h] \<and>
     \<not> is_generic h \<and> hy_predictions h = [] \<and>
     hy_supporting_evidence_ids h = map evf_id supporting \<and> hy_contradicting_evidence_ids h = map evf_id contradicting \<and>
     supporting \<noteq> [] \<and> set supporting \<union> set contradicting \<subseteq> set evidence \<and>
     4 / 5 \<le> weight supporting \<and> weight contradicting < weight supporting"
proof -
  let ?c = "build_certificate cert_fresh now i violated hs evidence es"
  have c: "dc_status ?c = fst (verdict hs)" "dc_root_cause_ids ?c = snd (verdict hs)"
    by (simp_all add: build_certificate_def Let_def split: prod.splits)
  from verdict_root assms(2) c obtain h where h: "h \<in> set hs" and r: "snd (verdict hs) = [hy_id h]"
    and p: "hy_status h = Hyp_Proven" and g: "\<not> is_generic h" by metis
  from bspec [OF generate_ok(2) [OF assms(1)] h] have "grounded evidence h" by blast
  then obtain supporting contradicting where
    "set supporting \<subseteq> set evidence" "set contradicting \<subseteq> set evidence"
    "hy_supporting_evidence_ids h = map evf_id supporting" "hy_contradicting_evidence_ids h = map evf_id contradicting"
    and iff: "hy_status h = Hyp_Proven \<longleftrightarrow> supporting \<noteq> [] \<and> hy_predictions h = [] \<and>
      4 / 5 \<le> weight supporting \<and> weight contradicting < weight supporting"
    unfolding grounded_def by (elim exE conjE) (rule that)
  with iffD1 [OF iff p] r g c(2) show ?thesis
    by (intro bexI [OF _ h] exI [of _ supporting] exI [of _ contradicting]) simp
qed

section \<open>Collection plans\<close>

definition step_key :: "plan_step \<Rightarrow> string \<times> string \<times> string list" where
  "step_key s = (st_collector_id s, st_intent_id s, sort (st_subject_ids s))"

definition fitting :: "diagnostic_catalog \<Rightarrow> evidence_context \<Rightarrow> evidence_intent \<Rightarrow> collector \<Rightarrow> bool" where
  "fitting c cx i d \<longleftrightarrow> d \<in> set (catalog_collectors c) \<and> usable_in cx d \<and> relevant i d"

definition justified :: "diagnostic_catalog \<Rightarrow> evidence_context \<Rightarrow> evidence_intent list \<Rightarrow> plan_step \<Rightarrow> bool" where
  "justified c cx intents s \<longleftrightarrow>
     (\<exists>i \<in> set intents. \<exists>d. fitting c cx i d \<and> st_intent_id s = in_id i \<and> st_collector_id s = cl_id d)"

definition steps_ok ::
    "diagnostic_catalog \<Rightarrow> evidence_context \<Rightarrow> evidence_intent list \<Rightarrow> plan_step list \<Rightarrow>
     (string \<times> string \<times> string list) set \<Rightarrow> bool" where
  "steps_ok c cx intents steps selected \<longleftrightarrow>
     (\<forall>s \<in> set steps. justified c cx intents s) \<and> distinct (map step_key steps) \<and> step_key ` set steps = selected"

definition expects :: "plan_step list \<Rightarrow> evidence_intent \<Rightarrow> string \<Rightarrow> bool" where
  "expects steps i x \<longleftrightarrow> (\<exists>s \<in> set steps. st_intent_id s = in_id i \<and> x \<in> set (st_expected_fact_types s))"

lemma expects_mono: "expects steps i x \<Longrightarrow> set steps \<subseteq> set steps' \<Longrightarrow> expects steps' i x"
  by (auto simp: expects_def)

lemma evidence_candidates_fitting: "p \<in> set (evidence_candidates c i cx) \<Longrightarrow> fitting c cx i (fst p)"
  by (auto simp: evidence_candidates_def fitting_def)

lemma take_candidates_ok:
  "take_candidates fresh i required cs (steps, selected, cost) covered = ((steps', selected', cost'), covered') \<Longrightarrow>
   (\<forall>p \<in> set cs. fitting c cx i (fst p)) \<Longrightarrow> i \<in> set intents \<Longrightarrow> steps_ok c cx intents steps selected \<Longrightarrow>
   (\<forall>x \<in> covered. expects steps i x) \<Longrightarrow>
   steps_ok c cx intents steps' selected' \<and> set steps \<subseteq> set steps' \<and> (\<forall>x \<in> covered'. expects steps' i x)"
proof (induction cs arbitrary: steps selected cost covered)
  case (Cons p cs)
  obtain d score where p: "p = (d, score)" by fastforce
  let ?expected = "expected_facts required d" and ?key = "(cl_id d, in_id i, sort (in_subject_ids i))"
  let ?step = "plan_step_of (fresh (length steps)) i d ?expected score"
  let ?covered = "covered \<union> set ?expected"
  show ?case
  proof (cases "(required \<noteq> {} \<and> ?expected = []) \<or> ?key \<in> selected")
    case True
    then show ?thesis using Cons p by (simp add: Let_def)
  next
    case False
    have key: "step_key ?step = ?key" by (simp add: step_key_def plan_step_of_def)
    have "justified c cx intents ?step"
      using Cons.prems(2,3) p by (auto simp: justified_def plan_step_of_def)
    then have ok: "steps_ok c cx intents (steps @ [?step]) (insert ?key selected)"
      using Cons.prems(4) False key by (auto simp: steps_ok_def)
    have "expects (steps @ [?step]) i x" if "x \<in> set ?expected" for x
      using that by (auto simp: expects_def plan_step_of_def)
    moreover have "expects (steps @ [?step]) i x" if "x \<in> covered" for x
      by (rule expects_mono [OF bspec [OF Cons.prems(5) that]]) auto
    ultimately have cov: "\<forall>x \<in> ?covered. expects (steps @ [?step]) i x" by blast
    show ?thesis
    proof (cases "(in_stopping_condition i = First_Authoritative_Answer \<and> cl_authority d = Auth_Authoritative) \<or>
        (required \<noteq> {} \<and> answered required ?covered)")
      case True
      then have "steps' = steps @ [?step]" "selected' = insert ?key selected" "covered' = ?covered"
        using Cons.prems(1) False p by (auto simp: Let_def split: if_splits)
      then show ?thesis using ok cov by (simp add: subset_insertI)
    next
      case stop: False
      then have "take_candidates fresh i required cs (steps @ [?step], insert ?key selected,
          cost + cost_weight (cl_cost_class d)) ?covered = ((steps', selected', cost'), covered')"
        using Cons.prems(1) False p by (simp add: Let_def split: if_splits)
      from Cons.IH [OF this _ Cons.prems(3) ok cov] Cons.prems(2) show ?thesis by simp
    qed
  qed
qed simp

definition accounted :: "string set \<Rightarrow> plan_step list \<Rightarrow> string list \<Rightarrow> evidence_intent \<Rightarrow> bool" where
  "accounted existing steps unresolved i \<longleftrightarrow>
     in_id i \<in> set unresolved \<or>
     (\<forall>t \<in> set (in_required_fact_types i).
        (\<exists>x \<in> existing. fact_type_matches t x) \<or> (\<exists>x. expects steps i x \<and> fact_type_matches t x))"

lemma accounted_mono:
  "accounted existing steps unresolved i \<Longrightarrow> set steps \<subseteq> set steps' \<Longrightarrow> set unresolved \<subseteq> set unresolved' \<Longrightarrow>
     accounted existing steps' unresolved' i"
  unfolding accounted_def using expects_mono by blast

lemma plan_intents_ok:
  "plan_intents fresh c cx existing todo (steps, selected, cost) = ((steps', selected', cost'), unresolved) \<Longrightarrow>
   set todo \<subseteq> set intents \<Longrightarrow> steps_ok c cx intents steps selected \<Longrightarrow>
   steps_ok c cx intents steps' selected' \<and> set steps \<subseteq> set steps' \<and>
   (\<forall>i \<in> set todo. accounted existing steps' unresolved i)"
proof (induction todo arbitrary: steps selected cost unresolved)
  case (Cons i todo)
  let ?r = "required_facts i existing"
  show ?case
  proof (cases "?r = {} \<and> in_required_fact_types i \<noteq> []")
    case True
    then have "accounted existing steps' unresolved i"
      by (auto simp: accounted_def required_facts_def filter_empty_conv)
    then show ?thesis using Cons True by simp
  next
    case False
    obtain s1 e1 c1 cov where
      1: "take_candidates fresh i ?r (evidence_candidates c i cx) (steps, selected, cost) {} = ((s1, e1, c1), cov)"
      by (metis prod_cases3 surj_pair)
    obtain u1 where 2: "plan_intents fresh c cx existing todo (s1, e1, c1) = ((steps', selected', cost'), u1)"
      and u: "unresolved = (if ?r \<noteq> {} \<and> \<not> answered ?r cov then [in_id i] else []) @ u1"
      using Cons.prems(1) False 1 by (auto simp: Let_def split: prod.splits)
    have ok1: "steps_ok c cx intents s1 e1" "set steps \<subseteq> set s1" "\<forall>x \<in> cov. expects s1 i x"
      using take_candidates_ok [OF 1, of c cx intents] Cons.prems(2,3) evidence_candidates_fitting by auto
    from Cons.IH [OF 2 _ ok1(1)] Cons.prems(2)
    have ok2: "steps_ok c cx intents steps' selected'" "set s1 \<subseteq> set steps'"
      "\<forall>i \<in> set todo. accounted existing steps' u1 i" by auto
    have "accounted existing steps' unresolved i"
    proof (cases "answered ?r cov")
      case True
      then show ?thesis
        using ok1(3) expects_mono [OF _ ok2(2)] by (fastforce simp: accounted_def answered_def required_facts_def)
    next
      case False
      then have "?r \<noteq> {}" by (auto simp: answered_def)
      with False show ?thesis by (simp add: accounted_def u)
    qed
    then show ?thesis
      using ok1(2) ok2 u accounted_mono [of existing steps' u1 _ steps' unresolved] by auto
  qed
qed simp

lemma collection_plan_steps:
  assumes "plan = plan_evidence fresh plan_fresh now c intents cx incident existing" and "s \<in> set (pl_steps plan)"
  shows "justified c cx intents s"
proof -
  obtain steps selected cost unresolved where
    run: "plan_intents fresh c cx existing intents ([], {}, 0) = ((steps, selected, cost), unresolved)"
    by (metis prod_cases3 surj_pair)
  have "steps_ok c cx intents steps selected" using plan_intents_ok [OF run subset_refl] by (simp add: steps_ok_def)
  then show ?thesis using assms(2) by (simp add: assms(1) plan_evidence_def run steps_ok_def)
qed

text \<open>
  A collection plan leaves no question out: each required fact of each intent is already known, is expected of a
  planned step for that intent, or the intent is reported unresolved; every step uses a registered collector that
  the context supports and that bears on its intent; and no collector is planned twice for the same question.
\<close>

theorem collection_plan_accounts:
  assumes "plan = plan_evidence fresh plan_fresh now c intents cx incident existing"
  shows "(\<forall>i \<in> set intents. accounted existing (pl_steps plan) (pl_unresolved_intent_ids plan) i) \<and>
     (\<forall>s \<in> set (pl_steps plan). justified c cx intents s) \<and> distinct (map step_key (pl_steps plan))"
proof -
  obtain steps selected cost unresolved where
    run: "plan_intents fresh c cx existing intents ([], {}, 0) = ((steps, selected, cost), unresolved)"
    by (metis prod_cases3 surj_pair)
  have ok: "steps_ok c cx intents steps selected" "\<forall>i \<in> set intents. accounted existing steps unresolved i"
    using plan_intents_ok [OF run subset_refl] by (simp_all add: steps_ok_def)
  have st: "pl_steps plan = sort_key (\<lambda>s. - st_score s) (sort_key st_id steps)"
    and un: "pl_unresolved_intent_ids plan = unresolved"
    by (simp_all add: assms plan_evidence_def run)
  have "distinct (map step_key (pl_steps plan))"
    using ok(1) by (simp add: st steps_ok_def distinct_map)
  with ok accounted_mono [of existing steps unresolved _ "pl_steps plan" unresolved] show ?thesis
    by (simp add: un) (simp add: st steps_ok_def)
qed

section \<open>Probe plans\<close>

definition open_for :: "hypothesis list \<Rightarrow> string \<Rightarrow> hypothesis \<Rightarrow> bool" where
  "open_for hs intent_id h \<longleftrightarrow>
     h \<in> set hs \<and> hy_status h \<in> {Hyp_Candidate, Hyp_Supported, Hyp_Unresolved} \<and> \<not> is_generic h \<and>
     intent_id \<in> set (hy_required_probe_ids h)"

lemma by_intent_open:
  "(intent_id, affected) \<in> set (by_intent (unresolved_hypotheses hs)) \<Longrightarrow>
     affected \<noteq> [] \<and> (\<forall>h \<in> set affected. open_for hs intent_id h)"
proof -
  let ?ok = "\<lambda>d. \<forall>(i, affected) \<in> set d. affected \<noteq> [] \<and> (\<forall>h \<in> set affected. open_for hs i h)"
  have "?ok d \<Longrightarrow> \<forall>(i, h) \<in> set ps. open_for hs i h \<Longrightarrow>
      ?ok (foldl (\<lambda>d (i, h). dset i (dget_default d i [] @ [h]) d) d ps)" for ps d
  proof (induction ps arbitrary: d)
    case (Cons p ps)
    obtain i h where p: "p = (i, h)" by fastforce
    have "\<forall>h \<in> set (dget_default d i []). open_for hs i h"
      using Cons.prems(1) map_of_SomeD [of d i] by (cases "dget d i") (auto simp: dget_default_def)
    then have new: "\<forall>h' \<in> set (dget_default d i [] @ [h]). open_for hs i h'" using Cons.prems(2) p by simp
    have "?ok (dset i (dget_default d i [] @ [h]) d)"
    proof
      fix q assume "q \<in> set (dset i (dget_default d i [] @ [h]) d)"
      then consider "q = (i, dget_default d i [] @ [h])" | "q \<in> set d"
        using set_dset_subset [of i "dget_default d i [] @ [h]" d] by blast
      then show "case q of (i, affected) \<Rightarrow> affected \<noteq> [] \<and> (\<forall>h \<in> set affected. open_for hs i h)"
        using new Cons.prems(1) by cases auto
    qed
    from Cons.IH [OF this] Cons.prems(2) p show ?case by simp
  qed simp
  note loop = this
  have "\<forall>(i, h) \<in> set (concat (map (\<lambda>h. map (\<lambda>i. (i, h)) (hy_required_probe_ids h))
      (unresolved_hypotheses hs))). open_for hs i h"
    by (auto simp: unresolved_hypotheses_def open_for_def)
  then have "?ok (by_intent (unresolved_hypotheses hs))" unfolding by_intent_def by (intro loop) simp
  then show "(intent_id, affected) \<in> set (by_intent (unresolved_hypotheses hs)) \<Longrightarrow>
     affected \<noteq> [] \<and> (\<forall>h \<in> set affected. open_for hs intent_id h)" by auto
qed

definition sound_probe :: "diagnostic_catalog \<Rightarrow> hypothesis list \<Rightarrow> string set \<Rightarrow> probe_intent \<Rightarrow> bool" where
  "sound_probe c hs existing p \<longleftrightarrow>
     (\<exists>i affected. catalog_intent c (pr_evidence_intent_id p) = Inr i \<and>
        pr_discriminates_hypothesis_ids p = map hy_id affected \<and> affected \<noteq> [] \<and>
        (\<forall>h \<in> set affected. open_for hs (pr_evidence_intent_id p) h) \<and> pr_candidate_collector_ids p \<noteq> [] \<and>
        (\<forall>k \<in> set (pr_candidate_collector_ids p). \<exists>d \<in> set (catalog_collectors c). cl_id d = k \<and>
           (\<exists>t. \<exists>f \<in> set (cl_fact_types d). fact_type_matches t f \<and> \<not> (\<exists>x \<in> existing. fact_type_matches t x))))"

lemma probe_of_sound:
  assumes "catalog_intent c intent_id = Inr i" and "affected \<noteq> []" and "\<forall>h \<in> set affected. open_for hs intent_id h"
    and "probe_collectors c i (missing_types i affected existing) \<noteq> []"
  shows "sound_probe c hs existing (probe_of fresh intent_id i affected (missing_types i affected existing)
    (probe_collectors c i (missing_types i affected existing)) contradict)"
proof -
  let ?m = "missing_types i affected existing"
  let ?p = "probe_of fresh intent_id i affected ?m (probe_collectors c i ?m) contradict"
  have f: "pr_evidence_intent_id ?p = intent_id" "pr_discriminates_hypothesis_ids ?p = map hy_id affected"
    "set (pr_candidate_collector_ids ?p) = cl_id ` set (probe_collectors c i ?m)"
    by (simp_all add: probe_of_def Let_def)
  have "\<exists>d \<in> set (catalog_collectors c). cl_id d = k \<and>
      (\<exists>t. \<exists>f \<in> set (cl_fact_types d). fact_type_matches t f \<and> \<not> (\<exists>x \<in> existing. fact_type_matches t x))"
    if "k \<in> cl_id ` set (probe_collectors c i ?m)" for k
    using that by (fastforce simp: probe_collectors_def missing_types_def list_ex_iff)
  moreover have "pr_candidate_collector_ids ?p \<noteq> []" using f(3) assms(4) by (metis image_is_empty set_empty)
  ultimately show ?thesis
    unfolding sound_probe_def f using assms(1-3) by (intro exI [of _ i] exI [of _ affected]) simp
qed

lemma plan_probes_loop_sound:
  "plan_probes_loop fresh c existing todo ps = Inr ps' \<Longrightarrow>
   (\<forall>(i, affected) \<in> set todo. affected \<noteq> [] \<and> (\<forall>h \<in> set affected. open_for hs i h)) \<Longrightarrow>
   (\<forall>p \<in> set ps. sound_probe c hs existing p) \<Longrightarrow> \<forall>p \<in> set ps'. sound_probe c hs existing p"
proof (induction todo arbitrary: ps)
  case (Cons q todo)
  obtain intent_id affected where q: "q = (intent_id, affected)" by fastforce
  show ?case
  proof (cases "catalog_intent c intent_id")
    case (Inl e)
    then show ?thesis using Cons q by (auto split: if_splits)
  next
    case (Inr i)
    let ?m = "missing_types i affected existing"
    show ?thesis
    proof (cases "?m = [] \<or> probe_collectors c i ?m = []")
      case True
      then have "plan_probes_loop fresh c existing todo ps = Inr ps'" using Cons.prems(1) q Inr by (simp add: Let_def)
      then show ?thesis using Cons.IH Cons.prems(2,3) by simp
    next
      case False
      then obtain contradict where rest: "plan_probes_loop fresh c existing todo (ps @ [probe_of (fresh (length ps))
          intent_id i affected ?m (probe_collectors c i ?m) contradict]) = Inr ps'"
        using Cons.prems(1) q Inr by (auto simp: Let_def res_bind_eq_Inr_iff)
      show ?thesis
        using Cons.prems(2,3) q False by (intro Cons.IH [OF rest]) (auto intro!: probe_of_sound [OF Inr])
    qed
  qed
qed simp

lemma set_within_budget: "set (within_budget b ps) \<subseteq> set ps"
  by (auto simp: within_budget_def split: option.splits dest: in_set_takeD)

lemma probes_ranked: "sorted_wrt (\<lambda>p q. pr_information_gain_score q \<le> pr_information_gain_score p) (rank_probes ps)"
proof -
  have "sorted (map (\<lambda>p. - pr_information_gain_score p) (rank_probes ps))" by (simp add: rank_probes_def)
  then show ?thesis by (simp add: sorted_map)
qed

text \<open>
  A probe plan respects its budget and its ranking; each of its probes belongs to a registered intent, is
  required by unresolved specific hypotheses of the incident (the ones it is said to separate), and each of its
  collectors can provide a kind of fact that the evidence lacks.
\<close>

theorem probe_plan_sound:
  assumes "plan_probes fresh plan_fresh now c incident hs evidence budget = Inr plan"
  shows "(\<forall>p \<in> set (pp_probes plan). sound_probe c hs (set (map evf_type evidence)) p) \<and>
     sorted_wrt (\<lambda>p q. pr_information_gain_score q \<le> pr_information_gain_score p) (pp_probes plan) \<and>
     (case budget of None \<Rightarrow> True | Some b \<Rightarrow> int (length (pp_probes plan)) \<le> b) \<and>
     (pp_probes plan = [] \<longleftrightarrow> pp_stopping_reason plan \<noteq> None)"
proof -
  have valid: "validate_probe_plan p = Inr q \<Longrightarrow> q = p \<and> (case pp_evidence_budget p of None \<Rightarrow> True | Some b \<Rightarrow> 0 \<le> b)" for p q
    by (auto simp: validate_probe_plan_def split: option.splits if_splits)
  show ?thesis
  proof (cases "unresolved_hypotheses hs = []")
    case True
    then show ?thesis
      using assms by (auto simp: plan_probes_def Let_def dest!: valid split: option.splits)
  next
    case False
    then obtain probes where
      loop: "plan_probes_loop fresh c (set (map evf_type evidence)) (by_intent (unresolved_hypotheses hs)) [] = Inr probes"
      and ps: "pp_probes plan = within_budget budget (rank_probes probes)"
      and b: "case budget of None \<Rightarrow> True | Some b \<Rightarrow> 0 \<le> b"
      and stop: "pp_probes plan = [] \<longleftrightarrow> pp_stopping_reason plan \<noteq> None"
    proof -
      obtain probes where loop: "plan_probes_loop fresh c (set (map evf_type evidence)) (by_intent (unresolved_hypotheses hs)) []
          = Inr probes"
        and v: "validate_probe_plan \<lparr>pp_id = ''probe-plan-'' @ plan_fresh, pp_incident_id = incident,
          pp_created_at_iso = now, pp_probes = within_budget budget (rank_probes probes),
          pp_stopping_reason = (if within_budget budget (rank_probes probes) \<noteq> [] then None
            else Some ''No applicable read-only collector can resolve the remaining evidence gaps.''),
          pp_evidence_budget = budget,
          pp_metadata = [(''unresolved_hypothesis_count'', JInt (int (length (unresolved_hypotheses hs))))]\<rparr> = Inr plan"
        using assms False unfolding plan_probes_def Let_def by (auto simp only: if_False probe_plan.simps res_bind_eq_Inr_iff)
      from valid [OF v] show ?thesis by (intro that [OF loop]) auto
    qed
    have "\<forall>p \<in> set probes. sound_probe c hs (set (map evf_type evidence)) p"
      using plan_probes_loop_sound [OF loop, of hs] by_intent_open [of _ _ hs] by (auto simp del: set_map)
    then have "\<forall>p \<in> set (pp_probes plan). sound_probe c hs (set (map evf_type evidence)) p"
      using set_within_budget [of budget "rank_probes probes"] by (auto simp: ps rank_probes_def simp del: set_map)
    moreover have "sorted_wrt (\<lambda>p q. pr_information_gain_score q \<le> pr_information_gain_score p) (pp_probes plan)"
      using probes_ranked [of probes] by (auto simp: ps within_budget_def sorted_wrt_take split: option.splits)
    moreover have "case budget of None \<Rightarrow> True | Some b \<Rightarrow> int (length (pp_probes plan)) \<le> b"
      using b by (auto simp: ps within_budget_def split: option.splits)
    ultimately show ?thesis using stop by blast
  qed
qed

text \<open>An intent that is not registered ends the planning: its error is a \<open>RegistryError\<close>, not a \<open>KeyError\<close>.\<close>

lemma unknown_intent_stops_planning:
  "reg_maybe_get (dx_intents c) i = None \<Longrightarrow>
     \<exists>m. plan_probes_loop fresh c existing ((i, affected) # rest) ps = Inl (RegistryError, m)"
proof -
  assume "reg_maybe_get (dx_intents c) i = None"
  then have "catalog_intent c i = raise RegistryError (reg_name (dx_intents c) @ '' does not contain '' @ i)"
    by (simp add: catalog_intent_def reg_get_def reg_maybe_get_def)
  then show ?thesis by (simp add: raise_def)
qed

end
