(* ===== verification/Diagnosis_Service.thy ===== *)
theory Diagnosis_Service
  imports Diagnosis_Evidence Diagnosis_Props Topology
begin

text \<open>
  \<open>diagnosis/service.py\<close>: opening an investigation and refining it with a probe. Identifiers and clock readings
  are taken by the place they are used at, digests and JSON dumps are arguments. Shown: with a closed catalogue an
  investigation can always be opened and refined once the snapshot can be assessed, what it returns is valid,
  and a probe loses no evidence.
\<close>

record investigation_env =
  iv_catalog :: diagnostic_catalog
  iv_collection :: collection_env
  iv_digests :: digests
  iv_float :: "rat \<Rightarrow> string"
  iv_read_float :: "string \<Rightarrow> rat option"
  iv_fresh :: "string \<Rightarrow> nat \<Rightarrow> string"
  iv_clock :: "string \<Rightarrow> nat \<Rightarrow> string"
  iv_dump_run :: "collector_run \<Rightarrow> json"
  iv_dump_plan :: "collection_plan \<Rightarrow> json"
  iv_dump_assessment :: "profile_assessment \<Rightarrow> json"
  iv_content_hash :: "compiled_profile \<Rightarrow> string"

definition investigation_context :: "env_snapshot \<Rightarrow> topology_graph \<Rightarrow> profile_assessment \<Rightarrow> evidence_context" where
  "investigation_context snap topo a =
     \<lparr>cx_snapshot = snap, cx_topology = topo, cx_assessments = [a],
      cx_mode = (case snap_source_type snap of Source_Live \<Rightarrow> ''live'' | Source_Fixture \<Rightarrow> ''fixture''),
      cx_available_capabilities = {''snapshot'', ''topology''}\<rparr>"

definition initial_symptom_of :: "symptom list \<Rightarrow> msg" where
  "initial_symptom_of ss =
     (case ss of [] \<Rightarrow> [Txt ''No violated or unknown operational invariants were detected.''] | s # _ \<Rightarrow> sy_statement s)"

definition topology_or_compiled :: "investigation_env \<Rightarrow> topology_graph option \<Rightarrow> env_snapshot \<Rightarrow> topology_graph res" where
  "topology_or_compiled V topo snap =
     (case topo of
        Some t \<Rightarrow> Inr t
      | None \<Rightarrow> compile_snapshot (iv_float V) None (iv_fresh V ''topology'' 0) (iv_clock V ''topology'' 0) snap)"

definition assess_with ::
    "investigation_env \<Rightarrow> profile_spec \<Rightarrow> env_snapshot \<Rightarrow> env_snapshot list \<Rightarrow> (profile_assessment \<times> compiled_profile) res" where
  "assess_with V p snap history =
     res_bind (health_assess (iv_float V) (iv_read_float V) (iv_fresh V ''assessment'' 0) (iv_clock V ''assessment'' 0)
       p snap history) (\<lambda>a.
     res_bind (compile_profile (iv_float V) (iv_read_float V) (iv_clock V ''compiled'' 0) p snap) (\<lambda>c. Inr (a, c)))"

text \<open>Planning the collection of some intents and running it.\<close>

definition collect ::
    "investigation_env \<Rightarrow> evidence_intent list \<Rightarrow> evidence_context \<Rightarrow> string \<Rightarrow> evidence_fact list \<Rightarrow>
     (collection_plan \<times> collector_run list) res" where
  "collect V intents cx incident_id known =
     (let plan = plan_evidence (iv_fresh V ''step'') (iv_fresh V ''evidence-plan'' 0) (iv_clock V ''evidence-plan'' 0)
            (iv_catalog V) intents cx (Some incident_id) (set (map evf_type known))
      in res_bind (execute_plan (iv_collection V) (iv_catalog V) (iv_fresh V ''run'') (iv_clock V ''run'') plan cx) (\<lambda>runs.
         Inr (plan, runs)))"

record diagnosis =
  dn_symptoms :: "symptom list"
  dn_evidence :: "evidence_fact list"
  dn_hypotheses :: "hypothesis list"
  dn_edges :: "causal_edge list"
  dn_probe_plan :: probe_plan
  dn_certificate :: diagnosis_certificate

text \<open>The steps both operations share, from merged evidence to a certificate.\<close>

definition diagnose ::
    "investigation_env \<Rightarrow> string \<Rightarrow> topology_graph \<Rightarrow> profile_assessment \<Rightarrow> compiled_profile \<Rightarrow> int option \<Rightarrow>
     evidence_fact list \<Rightarrow> diagnosis res" where
  "diagnose V incident_id topo a c budget evidence =
     (let (ss, facts) = derive_symptoms (iv_digests V) c a evidence in
      res_bind (generate_hypotheses (iv_digests V) (iv_fresh V ''edge'') (iv_catalog V) ss facts topo) (\<lambda>(hs, es).
      res_bind (plan_probes (iv_fresh V ''probe'') (iv_fresh V ''probe-plan'' 0) (iv_clock V ''probe-plan'' 0)
        (iv_catalog V) incident_id hs facts budget) (\<lambda>probes.
        Inr \<lparr>dn_symptoms = ss, dn_evidence = facts, dn_hypotheses = hs, dn_edges = es, dn_probe_plan = probes,
          dn_certificate = build_certificate (iv_fresh V ''certificate'' 0) (iv_clock V ''certificate'' 0) incident_id
            (pa_violated_ids a) hs facts es\<rparr>)))"

definition merge_runs :: "evidence_fact list \<Rightarrow> collector_run list \<Rightarrow> evidence_fact list" where
  "merge_runs evidence runs = merge_evidence (evidence # map cru_evidence runs)"

definition timeline_of :: "nat \<Rightarrow> string \<Rightarrow> string \<Rightarrow> string \<Rightarrow> string list \<Rightarrow> fields \<Rightarrow> timeline_entry" where
  "timeline_of n now event_type title subjects details =
     \<lparr>tn_sequence = n, tn_occurred_at_iso = now, tn_event_type = event_type, tn_title = title,
      tn_subject_ids = subjects, tn_artifact_ids = [], tn_details = details\<rparr>"

section \<open>Opening an investigation\<close>

definition affected_subjects :: "symptom list \<Rightarrow> string list" where
  "affected_subjects ss = sorted_set (\<Union>s \<in> set ss. set (sy_subject_ids s))"

definition baseline_intents :: "diagnostic_catalog \<Rightarrow> string list \<Rightarrow> evidence_intent list res" where
  "baseline_intents c subjects =
     res_map (\<lambda>i. res_bind (catalog_intent c i) (\<lambda>x. Inr (x\<lparr>in_subject_ids := subjects\<rparr>)))
       [''entity.current_state.v1'', ''dependency.path.v1'', ''observability.quality.v1'']"

definition opening_timeline ::
    "investigation_env \<Rightarrow> string \<Rightarrow> profile_spec \<Rightarrow> env_snapshot \<Rightarrow> profile_assessment \<Rightarrow> string list \<Rightarrow> collection_plan \<Rightarrow>
     collector_run list \<Rightarrow> diagnosis \<Rightarrow> timeline_entry list" where
  "opening_timeline V now p snap a subjects plan runs d =
     [timeline_of 0 now ''incident.opened'' ''Investigation opened from operational-profile assessment.'' subjects
        [(''snapshot_id'', JStr (snap_id snap)), (''profile_id'', JStr (hp_id p)),
         (''violated_invariant_count'', JInt (int (length (pa_violated_ids a))))],
      timeline_of 1 now ''evidence.baseline_collected''
        (''Collected '' @ nat_str (length (dn_evidence d)) @ '' normalized evidence facts.'') subjects
        [(''plan_id'', JStr (pl_id plan)), (''collector_runs'', JList (map (iv_dump_run V) runs))],
      timeline_of 2 now ''diagnosis.generated''
        (''Generated '' @ nat_str (length (dn_hypotheses d)) @ '' hypotheses and '' @ nat_str (length (dn_edges d)) @
         '' causal edges.'') subjects
        [(''certificate_status'', JStr (verdict_value (dc_status (dn_certificate d)))),
         (''confidence'', JFloat (dc_confidence (dn_certificate d)))]]"

definition text_or :: "string option \<Rightarrow> string \<Rightarrow> string" where
  "text_or given d = (case given of Some (c # s) \<Rightarrow> c # s | _ \<Rightarrow> d)"

definition opened_incident ::
    "investigation_env \<Rightarrow> string \<Rightarrow> string \<Rightarrow> profile_spec \<Rightarrow> env_snapshot \<Rightarrow> profile_assessment \<Rightarrow> compiled_profile \<Rightarrow>
     topology_graph \<Rightarrow> string option \<Rightarrow> string option \<Rightarrow> string list \<Rightarrow> collection_plan \<Rightarrow> collector_run list \<Rightarrow> diagnosis \<Rightarrow>
     incident" where
  "opened_incident V incident_id now p snap a c topo title symptom_text subjects plan runs d =
     \<lparr>ic_id = incident_id, ic_environment_id = snap_environment_id snap, ic_snapshot_id = snap_id snap,
      ic_profile_id = hp_id p, ic_title = text_or title (hp_title p @ '': '' @ snap_environment_id snap),
      ic_initial_symptom = (case symptom_text of Some (x # s) \<Rightarrow> [Txt (x # s)] | _ \<Rightarrow> initial_symptom_of (dn_symptoms d)),
      ic_status = incident_status_of (dc_status (dn_certificate d)), ic_created_at_iso = now, ic_updated_at_iso = now,
      ic_assessment_id = Some (pa_id a), ic_violated_ids = pa_violated_ids a, ic_symptoms = dn_symptoms d,
      ic_evidence = dn_evidence d, ic_hypotheses = dn_hypotheses d, ic_probe_plan = Some (dn_probe_plan d),
      ic_probe_runs = [], ic_causal_edges = dn_edges d,
      ic_timeline = opening_timeline V now p snap a subjects plan runs d, ic_certificate = Some (dn_certificate d),
      ic_metadata = [(''profile_assessment'', iv_dump_assessment V a), (''compiled_profile_hash'', JStr (iv_content_hash V c)),
        (''topology_graph_id'', JStr (tg_graph_id topo)), (''baseline_collection_plan'', iv_dump_plan V plan)]\<rparr>"

definition open_incident ::
    "investigation_env \<Rightarrow> env_snapshot \<Rightarrow> profile_spec \<Rightarrow> topology_graph option \<Rightarrow> env_snapshot list \<Rightarrow> string option \<Rightarrow>
     string option \<Rightarrow> int option \<Rightarrow> incident res" where
  "open_incident V snap p given history title symptom_text budget =
     res_bind (topology_or_compiled V given snap) (\<lambda>topo.
     res_bind (assess_with V p snap history) (\<lambda>(a, c).
       let now = iv_clock V ''opened'' 0; incident_id = ''inc-'' @ iv_fresh V ''incident'' 0;
           (ss, seed) = derive_symptoms (iv_digests V) c a []; subjects = affected_subjects ss
       in res_bind (baseline_intents (iv_catalog V) subjects) (\<lambda>intents.
          res_bind (collect V intents (investigation_context snap topo a) incident_id seed) (\<lambda>(plan, runs).
          res_bind (diagnose V incident_id topo a c budget (merge_runs seed runs)) (\<lambda>d.
            validate_incident (opened_incident V incident_id now p snap a c topo title symptom_text subjects plan runs d))))))"

section \<open>Refining it\<close>

text \<open>\<open>list(value)\<close> for the lists of strings that a planned probe carries in its metadata.\<close>

definition string_list :: "json \<Rightarrow> string list res" where
  "string_list v =
     (case v of
        JList xs \<Rightarrow> res_map (\<lambda>x. case x of JStr s \<Rightarrow> Inr s | _ \<Rightarrow> raise TypeError ''not a string'') xs
      | _ \<Rightarrow> raise TypeError ''object is not iterable'')"

definition probe_strings :: "probe_intent \<Rightarrow> string \<Rightarrow> string list res" where
  "probe_strings p k = string_list (dget_default (pr_metadata p) k (JList []))"

definition hypothesis_changes :: "hypothesis list \<Rightarrow> hypothesis list \<Rightarrow> fields" where
  "hypothesis_changes old new =
     (let previous = dget (dict_of (map (\<lambda>h. (hy_family_id h, h)) old));
          changed = (\<lambda>h. case previous (hy_family_id h) of
             None \<Rightarrow> True | Some q \<Rightarrow> hy_status q \<noteq> hy_status h \<or> hy_confidence q \<noteq> hy_confidence h)
      in dict_of (map (\<lambda>h. (hy_family_id h, JObj
           [(''before_status'', case previous (hy_family_id h) of
               None \<Rightarrow> JNull | Some q \<Rightarrow> JStr (hypothesis_value (hy_status q))),
            (''after_status'', JStr (hypothesis_value (hy_status h))),
            (''before_confidence'', case previous (hy_family_id h) of None \<Rightarrow> JNull | Some q \<Rightarrow> JFloat (hy_confidence q)),
            (''after_confidence'', JFloat (hy_confidence h))])) (filter changed new)))"

definition probe_run_of ::
    "investigation_env \<Rightarrow> incident \<Rightarrow> probe_intent \<Rightarrow> collection_plan \<Rightarrow> collector_run list \<Rightarrow> fields \<Rightarrow> probe_run" where
  "probe_run_of V i p plan runs changes =
     \<lparr>pu_id = ''probe-run-'' @ iv_fresh V ''probe-run'' 0, pu_incident_id = ic_id i,
      pu_probe = p\<lparr>pr_status := Probe_Completed\<rparr>, pu_collection_plan = plan, pu_collector_results = runs,
      pu_evidence_ids = concat (map (\<lambda>r. map evf_id (cru_evidence r)) runs),
      pu_status = (if runs \<noteq> [] \<and> list_all (\<lambda>r. cru_status r = Coll_Completed) runs then Coll_Completed else Coll_Partial),
      pu_started_at_iso = iv_clock V ''probe-started'' 0, pu_completed_at_iso = iv_clock V ''probe-completed'' 0,
      pu_hypothesis_changes = changes, pu_metadata = []\<rparr>"

definition refined_timeline ::
    "incident \<Rightarrow> string \<Rightarrow> probe_intent \<Rightarrow> string list \<Rightarrow> probe_run \<Rightarrow> fields \<Rightarrow> diagnosis_certificate \<Rightarrow> timeline_entry list" where
  "refined_timeline i now p subjects run changes certificate =
     (let n = length (ic_timeline i) in
      ic_timeline i @
      [timeline_of n now ''probe.completed'' (''Completed probe: '' @ pr_title p) subjects
         [(''probe_run_id'', JStr (pu_id run)), (''new_evidence_count'', JInt (int (length (pu_evidence_ids run)))),
          (''hypothesis_changes'', JObj changes)],
       timeline_of (n + 1) now ''diagnosis.refined''
         (''Diagnosis refined to '' @ verdict_value (dc_status certificate) @ ''.'') subjects
         [(''confidence'', JFloat (dc_confidence certificate))]])"

definition planned_probe :: "incident \<Rightarrow> string \<Rightarrow> probe_intent res" where
  "planned_probe i probe_id =
     (case ic_probe_plan i of
        None \<Rightarrow> raise ValueError ''incident has no probe plan''
      | Some plan \<Rightarrow>
          (case filter (\<lambda>p. pr_id p = probe_id) (pp_probes plan) of
             [] \<Rightarrow> raise KeyError (''unknown probe '' @ probe_id)
           | p # _ \<Rightarrow> Inr p))"

definition probe_intent_of :: "diagnostic_catalog \<Rightarrow> probe_intent \<Rightarrow> evidence_intent res" where
  "probe_intent_of c p =
     res_bind (catalog_intent c (pr_evidence_intent_id p)) (\<lambda>x.
     res_bind (probe_strings p ''subject_ids'') (\<lambda>subjects.
     res_bind (probe_strings p ''missing_fact_types'') (\<lambda>missing.
       Inr (x\<lparr>in_subject_ids := subjects, in_preferred_collector_ids := pr_candidate_collector_ids p,
              in_required_fact_types := missing\<rparr>))))"

definition refined_incident ::
    "investigation_env \<Rightarrow> incident \<Rightarrow> probe_intent \<Rightarrow> string list \<Rightarrow> collection_plan \<Rightarrow> collector_run list \<Rightarrow> diagnosis \<Rightarrow> incident" where
  "refined_incident V i p subjects plan runs d =
     (let now = iv_clock V ''refined'' 0; changes = hypothesis_changes (ic_hypotheses i) (dn_hypotheses d);
          run = probe_run_of V i p plan runs changes
      in i\<lparr>ic_status := incident_status_of (dc_status (dn_certificate d)), ic_updated_at_iso := now,
           ic_symptoms := dn_symptoms d, ic_evidence := dn_evidence d, ic_hypotheses := dn_hypotheses d,
           ic_probe_plan := Some (dn_probe_plan d), ic_probe_runs := ic_probe_runs i @ [run],
           ic_causal_edges := dn_edges d,
           ic_timeline := refined_timeline i now p subjects run changes (dn_certificate d),
           ic_certificate := Some (dn_certificate d)\<rparr>)"

definition run_probe ::
    "investigation_env \<Rightarrow> incident \<Rightarrow> string \<Rightarrow> env_snapshot \<Rightarrow> profile_spec \<Rightarrow> topology_graph option \<Rightarrow> env_snapshot list \<Rightarrow>
     int option \<Rightarrow> incident res" where
  "run_probe V i probe_id snap p given history budget =
     res_bind (planned_probe i probe_id) (\<lambda>probe.
     res_bind (topology_or_compiled V given snap) (\<lambda>topo.
     res_bind (assess_with V p snap history) (\<lambda>(a, c).
     res_bind (probe_intent_of (iv_catalog V) probe) (\<lambda>x.
     res_bind (collect V [x] (investigation_context snap topo a) (ic_id i) (ic_evidence i)) (\<lambda>(plan, runs).
     res_bind (diagnose V (ic_id i) topo a c budget (merge_runs (ic_evidence i) runs)) (\<lambda>d.
       Inr (refined_incident V i probe (in_subject_ids x) plan runs d)))))))"

section \<open>Closed catalogues never fail\<close>

lemma res_bind_total: "x = Inr y \<Longrightarrow> \<exists>z. f y = Inr z \<and> P z \<Longrightarrow> \<exists>z. res_bind x f = Inr z \<and> P z"
  by (simp add: res_bind_def)

lemma has_id_get: "has_id r i \<Longrightarrow> \<exists>v. reg_get r i = Inr v \<and> v \<in> set (reg_values r)"
  by (auto simp: has_id_def reg_get_def reg_maybe_get_def in_reg_values)

lemma format_claim_total: "format_claim a b s n = Inr u \<Longrightarrow> \<exists>v. format_claim a' b' s n = Inr v"
proof (induction n arbitrary: s u)
  case (Suc n)
  show ?case
  proof (cases s)
    case (Cons c rest)
    have step: "res_bind (format_claim a b r n) (\<lambda>t. Inr (f t)) = Inr u \<Longrightarrow>
        \<exists>v. res_bind (format_claim a' b' r n) (\<lambda>t. Inr (g t)) = Inr v" for r f g
      using Suc.IH by (fastforce simp: res_bind_eq_Inr_iff)
    from Suc.prems show ?thesis unfolding Cons by (auto split: if_splits dest: step)
  qed simp
qed simp

definition probe_ready :: "diagnostic_catalog \<Rightarrow> hypothesis \<Rightarrow> bool" where
  "probe_ready c h \<longleftrightarrow> list_all (has_id (dx_intents c)) (hy_required_probe_ids h) \<and>
     dget (hy_metadata h) ''contradicting_fact_types'' = None"

lemma hypothesis_of_ready:
  assumes "template_ready c t"
  shows "\<exists>h. hypothesis_of D s t evidence parent = Inr h \<and> probe_ready c h"
proof -
  let ?rel = "related_evidence s evidence"
  obtain status r cs where sc: "score_hypothesis (ct_generic t) (ct_specificity t)
      (facts_matching (ct_supporting_fact_types t) ?rel) (facts_matching (ct_contradicting_fact_types t) ?rel)
      (missing_predictions t ?rel) = (status, r, cs)" by (metis prod_cases3)
  from assms obtain u where "format_claim [] [] (ct_claim_template t) (length (ct_claim_template t)) = Inr u"
    by (auto simp: template_ready_def split: sum.splits)
  from format_claim_total [OF this] have claim:
    "\<exists>v. format_claim a b (ct_claim_template t) (length (ct_claim_template t)) = Inr v" for a b .
  have "list_all (has_id (dx_intents c)) (ct_evidence_intent_ids t)" using assms by (simp add: template_ready_def)
  moreover obtain v where "format_claim (case sy_subject_ids s of [] \<Rightarrow> ''unknown subject'' | i # _ \<Rightarrow> i)
      (case sy_invariant_family s of None \<Rightarrow> ''unknown'' | Some f \<Rightarrow> family_value f) (ct_claim_template t)
      (length (ct_claim_template t)) = Inr v" using claim by blast
  ultimately show ?thesis
    unfolding hypothesis_of_def Let_def sc prod.case by (simp add: res_bind_def probe_ready_def)
qed

lemma applicable_ready: "template_ready c t \<Longrightarrow> \<exists>b. template_applicable types s t = Inr b"
  by (auto simp: template_ready_def template_applicable_def res_bind_def split: sum.splits)

lemma consider_templates_ready:
  "\<forall>t \<in> set ts. template_ready c t \<Longrightarrow> \<forall>h \<in> set hs. probe_ready c h \<Longrightarrow>
     \<exists>hs' es'. consider_templates D types evidence s ts parent hs es = Inr (hs', es') \<and> (\<forall>h \<in> set hs'. probe_ready c h)"
proof (induction ts arbitrary: parent hs es)
  case (Cons t ts)
  obtain b where b: "template_applicable types s t = Inr b" using applicable_ready Cons.prems(1) by fastforce
  obtain h where h: "hypothesis_of D s t evidence parent = Inr h" "probe_ready c h"
    using hypothesis_of_ready Cons.prems(1) by fastforce
  have "\<forall>g \<in> set (add_new h hs). probe_ready c g" using h(2) Cons.prems(2) set_add_new by fastforce
  with Cons b h(1) show ?case by (cases b) simp_all
qed simp

lemma consider_symptoms_ready:
  "template_ready c g \<Longrightarrow> \<forall>t \<in> set (catalog_templates c). template_ready c t \<Longrightarrow> \<forall>h \<in> set hs. probe_ready c h \<Longrightarrow>
     \<exists>hs' es'. consider_symptoms D c g types evidence ss hs es = Inr (hs', es') \<and> (\<forall>h \<in> set hs'. probe_ready c h)"
proof (induction ss arbitrary: hs es)
  case (Cons s ss)
  have "\<forall>t \<in> set (templates_of_symptom c g s). template_ready c t"
    using Cons.prems(1,2) by (auto simp: templates_of_symptom_def templates_for_family_def Let_def split: option.splits)
  from consider_templates_ready [OF this Cons.prems(3)] obtain hs1 es1 where
    "consider_templates D types evidence s (templates_of_symptom c g s) None hs es = Inr (hs1, es1)"
    "\<forall>h \<in> set hs1. probe_ready c h" by blast
  with Cons.IH [OF Cons.prems(1,2)] show ?case by simp
qed simp

lemma generate_ready:
  assumes "closed_catalog c"
  shows "\<exists>hs es. generate_hypotheses D fresh c ss evidence topo = Inr (hs, es) \<and> (\<forall>h \<in> set hs. probe_ready c h)"
proof -
  have ts: "\<forall>t \<in> set (catalog_templates c). template_ready c t"
    using assms by (simp add: closed_catalog_def list_all_iff)
  obtain g where g: "catalog_template c ''operational.invariant_violation.v1'' = Inr g" "g \<in> set (catalog_templates c)"
    using assms has_id_get by (fastforce simp: closed_catalog_def catalog_template_def catalog_templates_def)
  obtain hs es where loop: "consider_symptoms D c g (entity_types_of topo) evidence ss [] [] = Inr (hs, es)"
    "\<forall>h \<in> set hs. probe_ready c h"
    using consider_symptoms_ready [of c g "[]"] ts g(2) by fastforce
  have "probe_ready c (mark_unexplained ss h)" if "h \<in> set hs" for h
    using loop(2) that by (auto simp: probe_ready_def mark_unexplained_def)
  then show ?thesis by (simp add: generate_hypotheses_def g(1) loop(1) res_bind_def Let_def)
qed

lemma contradicting_ready:
  "\<forall>h \<in> set hs. probe_ready c h \<Longrightarrow> \<exists>xs. contradicting_outcomes hs = Inr xs"
proof -
  assume "\<forall>h \<in> set hs. probe_ready c h"
  then have "res_map (\<lambda>h. strings_of (dget_default (hy_metadata h) ''contradicting_fact_types'' (JList []))) hs =
      Inr (map (\<lambda>_. {}) hs)"
    by (intro res_map_all_Inr) (simp add: probe_ready_def dget_default_def strings_of_def List.map_filter_def)
  then show ?thesis by (simp add: contradicting_outcomes_def res_bind_def)
qed

lemma plan_probes_loop_ready:
  "\<forall>(i, affected) \<in> set todo. has_id (dx_intents c) i \<and> (\<forall>h \<in> set affected. probe_ready c h) \<Longrightarrow>
     \<exists>ps'. plan_probes_loop fresh c existing todo ps = Inr ps'"
proof (induction todo arbitrary: ps)
  case (Cons q todo)
  obtain i affected where q: "q = (i, affected)" by fastforce
  with Cons.prems obtain x where x: "catalog_intent c i = Inr x"
    using has_id_get by (fastforce simp: catalog_intent_def)
  obtain xs where xs: "contradicting_outcomes affected = Inr xs" using contradicting_ready Cons.prems q by fastforce
  have "\<exists>ps'. plan_probes_loop fresh c existing todo ps = Inr ps'" for ps using Cons by simp
  then show ?case unfolding q by (simp add: x xs Let_def res_bind_def)
qed simp

lemma plan_probes_ready:
  assumes "\<forall>h \<in> set hs. probe_ready c h" and "case budget of None \<Rightarrow> True | Some b \<Rightarrow> 0 \<le> b"
  shows "\<exists>p. plan_probes fresh pf now c incident hs evidence budget = Inr p"
proof -
  have "\<forall>(i, affected) \<in> set (by_intent (unresolved_hypotheses hs)).
      has_id (dx_intents c) i \<and> (\<forall>h \<in> set affected. probe_ready c h)"
  proof clarify
    fix i affected assume "(i, affected) \<in> set (by_intent (unresolved_hypotheses hs))"
    from by_intent_open [OF this] have ne: "affected \<noteq> []" and o: "\<forall>h \<in> set affected. open_for hs i h" by auto
    then obtain h where "h \<in> set affected" by (cases affected) auto
    with o assms(1) have "has_id (dx_intents c) i" by (auto simp: open_for_def probe_ready_def list_all_iff)
    moreover have "\<forall>h \<in> set affected. probe_ready c h" using o assms(1) by (auto simp: open_for_def)
    ultimately show "has_id (dx_intents c) i \<and> (\<forall>h \<in> set affected. probe_ready c h)" by blast
  qed
  from plan_probes_loop_ready [OF this] obtain ps where
    "plan_probes_loop fresh c (set (map evf_type evidence)) (by_intent (unresolved_hypotheses hs)) [] = Inr ps" by blast
  then show ?thesis
    using assms(2) by (auto simp: plan_probes_def Let_def res_bind_def validate_probe_plan_def split: option.splits)
qed

lemma execute_steps_ready:
  "\<forall>s \<in> set steps. has_id (dx_collectors c) (st_collector_id s) \<Longrightarrow> \<exists>runs. execute_steps V c cx fresh clock n steps = Inr runs"
proof (induction steps arbitrary: n)
  case (Cons s steps)
  obtain d where "catalog_collector c (st_collector_id s) = Inr d"
    using Cons.prems has_id_get by (fastforce simp: catalog_collector_def)
  moreover obtain runs where "execute_steps V c cx fresh clock (Suc n) steps = Inr runs" using Cons by fastforce
  ultimately show ?case by (simp add: res_bind_def)
qed simp

lemma collect_ready:
  assumes "closed_catalog (iv_catalog V)"
  shows "\<exists>plan runs. collect V intents cx i known = Inr (plan, runs)"
proof -
  let ?plan = "plan_evidence (iv_fresh V ''step'') (iv_fresh V ''evidence-plan'' 0) (iv_clock V ''evidence-plan'' 0)
    (iv_catalog V) intents cx (Some i) (set (map evf_type known))"
  have "has_id (dx_collectors (iv_catalog V)) (st_collector_id s)" if "s \<in> set (pl_steps ?plan)" for s
    using collection_plan_steps [OF refl that] assms
    by (auto simp: justified_def fitting_def closed_catalog_def list_all_iff)
  then obtain runs where "execute_plan (iv_collection V) (iv_catalog V) (iv_fresh V ''run'') (iv_clock V ''run'') ?plan cx = Inr runs"
    using execute_steps_ready unfolding execute_plan_def by blast
  then show ?thesis by (simp add: collect_def Let_def res_bind_def)
qed

lemma diagnose_ready:
  assumes "closed_catalog (iv_catalog V)" and "case budget of None \<Rightarrow> True | Some b \<Rightarrow> 0 \<le> b"
  shows "\<exists>d. diagnose V i topo a c budget evidence = Inr d"
proof -
  obtain ss facts where d: "derive_symptoms (iv_digests V) c a evidence = (ss, facts)" by fastforce
  obtain hs es where g: "generate_hypotheses (iv_digests V) (iv_fresh V ''edge'') (iv_catalog V) ss facts topo = Inr (hs, es)"
    and r: "\<forall>h \<in> set hs. probe_ready (iv_catalog V) h" using generate_ready [OF assms(1)] by blast
  obtain p where "plan_probes (iv_fresh V ''probe'') (iv_fresh V ''probe-plan'' 0) (iv_clock V ''probe-plan'' 0)
      (iv_catalog V) i hs facts budget = Inr p" using plan_probes_ready [OF r assms(2)] by blast
  with g d show ?thesis by (simp add: diagnose_def res_bind_def)
qed

lemma diagnose_parts:
  assumes "diagnose V i topo a c budget evidence = Inr d"
  shows "derive_symptoms (iv_digests V) c a evidence = (dn_symptoms d, dn_evidence d)"
    and "generate_hypotheses (iv_digests V) (iv_fresh V ''edge'') (iv_catalog V) (dn_symptoms d) (dn_evidence d) topo =
      Inr (dn_hypotheses d, dn_edges d)"
  using assms by (auto simp: diagnose_def res_bind_eq_Inr_iff split: prod.splits)

section \<open>Investigations\<close>

text \<open>What the validator demands, with the edges it does not look at.\<close>

definition incident_closed :: "incident \<Rightarrow> bool" where
  "incident_closed i \<longleftrightarrow> validate_incident i = Inr i \<and>
     (\<forall>e \<in> set (ic_causal_edges i). {ce_source_id e, ce_target_id e} \<subseteq>
        sy_id ` set (ic_symptoms i) \<union> evf_id ` set (ic_evidence i) \<union> hy_id ` set (ic_hypotheses i))"

lemma diagnosed_closed:
  assumes "diagnose V j topo a c budget evidence = Inr d"
    and "ic_symptoms i = dn_symptoms d" "ic_evidence i = dn_evidence d" "ic_hypotheses i = dn_hypotheses d"
      "ic_causal_edges i = dn_edges d"
  shows "incident_closed i"
  unfolding incident_closed_def using fresh_incident_closed [OF diagnose_parts [OF assms(1)] assms(2-5)] .

lemma baseline_ready:
  "closed_catalog c \<Longrightarrow> \<exists>intents. baseline_intents c subjects = Inr intents"
  using has_id_get [of "dx_intents c"]
  by (fastforce simp: closed_catalog_def baseline_intents_def catalog_intent_def res_bind_def split: sum.splits)

text \<open>
  An investigation can always be opened: with a closed catalogue, as the built-in one is, and no negative
  budget, it fails only when the topology cannot be compiled or the snapshot not be assessed; and the incident
  it returns is closed, its edges included.
\<close>

theorem investigation_opens:
  assumes "closed_catalog (iv_catalog V)" and "case budget of None \<Rightarrow> True | Some b \<Rightarrow> 0 \<le> b"
    and "topology_or_compiled V given snap = Inr topo" and "assess_with V p snap history = Inr ac"
  shows "\<exists>i. open_incident V snap p given history title symptom_text budget = Inr i \<and> incident_closed i"
proof -
  obtain a c where ac: "ac = (a, c)" by fastforce
  obtain ss seed where seed: "derive_symptoms (iv_digests V) c a [] = (ss, seed)" by fastforce
  obtain intents where intents: "baseline_intents (iv_catalog V) (affected_subjects ss) = Inr intents"
    using baseline_ready assms(1) by blast
  let ?id = "''inc-'' @ iv_fresh V ''incident'' 0"
  obtain plan runs where runs: "collect V intents (investigation_context snap topo a) ?id seed = Inr (plan, runs)"
    using collect_ready assms(1) by blast
  obtain d where d: "diagnose V ?id topo a c budget (merge_runs seed runs) = Inr d"
    using diagnose_ready assms(1,2) by blast
  let ?i = "opened_incident V ?id (iv_clock V ''opened'' 0) p snap a c topo title symptom_text (affected_subjects ss)
    plan runs d"
  have closed: "incident_closed ?i" by (rule diagnosed_closed [OF d]) (simp_all add: opened_incident_def)
  then have "open_incident V snap p given history title symptom_text budget = Inr ?i"
    using assms(3,4) ac seed intents runs d by (simp add: open_incident_def incident_closed_def res_bind_def Let_def)
  with closed show ?thesis by blast
qed

lemma probe_always_runs:
  assumes "closed_catalog (iv_catalog V)" and "case budget of None \<Rightarrow> True | Some b \<Rightarrow> 0 \<le> b"
    and "planned_probe i probe_id = Inr probe" and "topology_or_compiled V given snap = Inr topo"
    and "\<exists>ac. assess_with V p snap history = Inr ac" and "\<exists>x. probe_intent_of (iv_catalog V) probe = Inr x"
  shows "\<exists>j. run_probe V i probe_id snap p given history budget = Inr j"
proof -
  obtain a c where ac: "assess_with V p snap history = Inr (a, c)" using assms(5) by auto
  obtain x where x: "probe_intent_of (iv_catalog V) probe = Inr x" using assms(6) by blast
  obtain plan runs where runs: "collect V [x] (investigation_context snap topo a) (ic_id i) (ic_evidence i) = Inr (plan, runs)"
    using collect_ready [OF assms(1)] by blast
  obtain d where "diagnose V (ic_id i) topo a c budget (merge_runs (ic_evidence i) runs) = Inr d"
    using diagnose_ready [OF assms(1,2)] by blast
  with assms(3,4) ac x runs show ?thesis by (simp add: run_probe_def res_bind_def)
qed

lemma keys_dict_of: "fst ` set (dict_of kvs) = fst ` set kvs"
proof (rule set_eqI)
  fix k show "k \<in> fst ` set (dict_of kvs) \<longleftrightarrow> k \<in> fst ` set kvs"
    by (simp add: dget_in_keys [of k "dict_of kvs"] dget_dict_of map_of_eq_None_iff)
qed

lemma merged_ids: "evf_id ` set (merge_evidence groups) = (\<Union>fs \<in> set groups. evf_id ` set fs)"
proof -
  let ?d = "dict_of (map (\<lambda>f. (evf_id f, f)) (concat groups))"
  have "evf_id ` set (map snd ?d) = fst ` set ?d" by (rule ids_of_keyed [OF keyed_dict_of])
  also have "\<dots> = evf_id ` set (concat groups)" by (simp only: keys_dict_of set_map image_image fst_conv)
  finally have "evf_id ` set (map snd ?d) = (\<Union>fs \<in> set groups. evf_id ` set fs)" by (simp only: set_concat image_UN)
  then show ?thesis by (simp only: merge_evidence_def set_sort)
qed

lemma planned_probe_in: "planned_probe i k = Inr p \<Longrightarrow> \<exists>plan. ic_probe_plan i = Some plan \<and> p \<in> set (pp_probes plan) \<and> pr_id p = k"
proof -
  assume a: "planned_probe i k = Inr p"
  then obtain plan rest where "ic_probe_plan i = Some plan" "filter (\<lambda>p. pr_id p = k) (pp_probes plan) = p # rest"
    by (auto simp: planned_probe_def split: option.splits list.splits)
  moreover from this(2) have "p \<in> {q \<in> set (pp_probes plan). pr_id q = k}" unfolding set_filter [symmetric] by simp
  ultimately show ?thesis by blast
qed

lemma run_probe_parts:
  "run_probe V i probe_id snap p given history budget = Inr j \<Longrightarrow>
     \<exists>probe topo a c subjects plan runs d. planned_probe i probe_id = Inr probe \<and>
       diagnose V (ic_id i) topo a c budget (merge_runs (ic_evidence i) runs) = Inr d \<and>
       j = refined_incident V i probe subjects plan runs d"
  by (clarsimp simp: run_probe_def res_bind_eq_Inr_iff split: prod.splits) (intro exI conjI, assumption, rule refl)

text \<open>
  A probe of the plan can always be run, under the same conditions: the refined incident is closed, has one more
  probe run and two more timeline entries, and every fact it had is still in evidence. It keeps the assessment
  and the violated invariants it was opened with, also when the probe saw another snapshot.
\<close>

theorem probe_refines:
  assumes "run_probe V i probe_id snap p given history budget = Inr j"
  shows "incident_closed j \<and> evf_id ` set (ic_evidence i) \<subseteq> evf_id ` set (ic_evidence j) \<and>
     (\<exists>run. ic_probe_runs j = ic_probe_runs i @ [run] \<and> pr_id (pu_probe run) = probe_id) \<and>
     take (length (ic_timeline i)) (ic_timeline j) = ic_timeline i \<and>
     length (ic_timeline j) = length (ic_timeline i) + 2 \<and>
     ic_id j = ic_id i \<and> ic_violated_ids j = ic_violated_ids i \<and> ic_assessment_id j = ic_assessment_id i"
proof -
  obtain probe topo a c subjects plan runs d where probe: "planned_probe i probe_id = Inr probe"
    and d: "diagnose V (ic_id i) topo a c budget (merge_runs (ic_evidence i) runs) = Inr d"
    and j: "j = refined_incident V i probe subjects plan runs d"
    using run_probe_parts [OF assms] by blast
  have f: "ic_symptoms j = dn_symptoms d" "ic_evidence j = dn_evidence d" "ic_hypotheses j = dn_hypotheses d"
    "ic_causal_edges j = dn_edges d" by (simp_all add: j refined_incident_def Let_def)
  have "evf_id ` set (ic_evidence i) \<subseteq> evf_id ` set (merge_runs (ic_evidence i) runs)"
    unfolding merge_runs_def merged_ids by auto
  also have "\<dots> \<subseteq> evf_id ` set (ic_evidence j)"
    unfolding f by (rule derive_symptoms_refs(2) [OF diagnose_parts(1) [OF d]])
  finally show ?thesis
    using diagnosed_closed [OF d f] planned_probe_in [OF probe]
    by (auto simp: j refined_incident_def probe_run_of_def refined_timeline_def Let_def)
qed

end
