(* ===== verification/Diagnosis_Samples.thy ===== *)
theory Diagnosis_Samples
  imports Diagnosis_Evaluation Samples_More
begin

text \<open>Concrete investigations: an environment with the built-in catalogue, a snapshot with a failed node, and an
  absent entity whose absence is proven.\<close>

definition sample_collection :: collection_env where
  "sample_collection = \<lparr>cv_digest = (\<lambda>a b c d e f g. d), cv_dump_relationship = (\<lambda>r. JNull), cv_dump_issue = (\<lambda>i. JNull),
     cv_float = (\<lambda>r. ''0'')\<rparr>"

definition sample_digests :: digests where
  "sample_digests = \<lparr>dg_symptom = (\<lambda>i. i), dg_fact = (\<lambda>a b c v. b), dg_hypothesis = (\<lambda>s t. t)\<rparr>"

definition sample_investigation :: investigation_env where
  "sample_investigation = \<lparr>iv_catalog = builtin_catalog, iv_collection = sample_collection, iv_digests = sample_digests,
     iv_float = (\<lambda>r. ''0''), iv_read_float = (\<lambda>s. None), iv_fresh = (\<lambda>k n. k @ nat_str n),
     iv_clock = (\<lambda>k n. ''now''), iv_dump_run = (\<lambda>r. JNull), iv_dump_plan = (\<lambda>p. JNull), iv_dump_assessment = (\<lambda>a. JNull),
     iv_content_hash = (\<lambda>c. ''h'')\<rparr>"

lemma sample_catalog_closed: "closed_catalog (iv_catalog sample_investigation)"
proof -
  from builtin_catalog_closed have "closed_catalog builtin_catalog" by (simp add: build_builtin_catalog)
  then show ?thesis by (simp add: sample_investigation_def)
qed

definition sample_failing :: env_snapshot where
  "sample_failing = sample_health_snapshot [sample_node ''a'' True, sample_node ''b'' False]"

lemma sample_failing_assessed: "\<exists>ac. assess_with sample_investigation sample_health_profile sample_failing [] = Inr ac"
proof -
  have "(case assess_with sample_investigation sample_health_profile sample_failing [] of Inl e \<Rightarrow> False | Inr ac \<Rightarrow> True)"
    by code_simp
  then show ?thesis by (simp split: sum.splits)
qed

definition sample_service :: entity where
  "sample_service = (sample_entity ''svc'')\<lparr>ent_extensions := [(''kubernetes'', JObj [(''kind'', JStr ''Service''),
     (''sanitized_resource'', JObj [(''spec'', JObj [(''selector'', JObj [(''app'', JStr ''web'')])])])])]\<rparr>"

definition sample_pod :: "string \<Rightarrow> string \<Rightarrow> entity" where
  "sample_pod i app = (sample_entity i)\<lparr>ent_labels := [(''app'', app)],
     ent_extensions := [(''kubernetes'', JObj [(''kind'', JStr ''Pod'')])]\<rparr>"

section \<open>A proven cause\<close>

definition sample_causes :: diagnostic_catalog where
  "sample_causes = builtin_catalog\<lparr>dx_templates := \<lparr>reg_name = ''causal templates'',
     reg_items = map (\<lambda>t. (ct_id t, t)) (take 2 cause_templates)\<rparr>\<rparr>"

definition sample_absence :: symptom where
  "sample_absence = \<lparr>sy_id = ''s'', sy_type = ''invariant.existence.violated'', sy_statement = [], sy_subject_ids = [''x''],
     sy_invariant_id = None, sy_invariant_family = Some Fam_Existence, sy_health_status = Some UNHEALTHY,
     sy_causal_role = Role_Initial, sy_confidence = 1, sy_evidence_ids = [], sy_first_observed_at_seconds = None,
     sy_metadata = []\<rparr>"

definition sample_fact :: "string \<Rightarrow> evidence_fact" where
  "sample_fact t = \<lparr>evf_id = t, evf_type = t, evf_statement = [], evf_value = JNull, evf_subject_ids = [''x''],
     evf_intent_id = None, evf_collector_id = ''c'', evf_observed_at_iso = ''now'', evf_authority = Auth_Authoritative,
     evf_freshness_seconds = 0, evf_source_artifact_ids = [], evf_attributes = []\<rparr>"

definition sample_topology :: topology_graph where
  "sample_topology = \<lparr>tg_graph_id = ''t'', tg_environment_id = ''env'', tg_snapshot_id = ''s'', tg_generated_at_iso = ''now'',
     tg_entities = [], tg_relationships = [], tg_layers = [], tg_statistics = [], tg_warnings = []\<rparr>"

definition sample_hypotheses :: "string list \<Rightarrow> (hypothesis list \<times> causal_edge list) res" where
  "sample_hypotheses types =
     generate_hypotheses sample_digests nat_str sample_causes [sample_absence] (map sample_fact types) sample_topology"

text \<open>Both parts are evaluated at once.\<close>

lemma sample_causes_judged:
  "map_sum id (\<lambda>(hs, es). (verdict hs, map (\<lambda>h. (hy_id h, hy_status h)) hs))
     (sample_hypotheses [''entity.absent'', ''entity.exists.false'']) =
   Inr ((Root_Cause_Identified, [''hyp-entity.required_absent.v1'']),
     [(''hyp-entity.required_absent.v1'', Hyp_Proven), (''hyp-operational.invariant_violation.v1'', Hyp_Candidate)]) \<and>
   map_sum id (\<lambda>(hs, es). map (\<lambda>h. (hy_status h, hy_contradicting_evidence_ids h)) (filter (\<lambda>h. \<not> is_generic h) hs))
     (sample_hypotheses [''entity.absent'', ''entity.exists.false'', ''entity.exists.true'']) =
   Inr [(Hyp_Proven, [''entity.exists.true''])]"
  by code_simp

lemmas sample_absence_proven = sample_causes_judged [THEN conjunct1]

text \<open>A cause counts as proven although a fact speaks against it, when more speak for it.\<close>

lemma contradicted_but_proven:
  "map_sum id (\<lambda>(hs, es). map (\<lambda>h. (hy_status h, hy_contradicting_evidence_ids h)) (filter (\<lambda>h. \<not> is_generic h) hs))
     (sample_hypotheses [''entity.absent'', ''entity.exists.false'', ''entity.exists.true'']) =
   Inr [(Hyp_Proven, [''entity.exists.true''])]"
  by (rule sample_causes_judged [THEN conjunct2])

definition sample_open_hypothesis :: hypothesis where
  "sample_open_hypothesis = \<lparr>hy_id = ''h'', hy_family_id = ''f'', hy_claim = [], hy_template_id = None, hy_parent_id = None,
     hy_subject_ids = [''x''], hy_status = Hyp_Candidate, hy_confidence = 1 / 2, hy_explains_symptom_ids = [],
     hy_unexplained_symptom_ids = [], hy_supporting_evidence_ids = [], hy_contradicting_evidence_ids = [],
     hy_required_probe_ids = [''entity.current_state.v1''], hy_predictions = [], hy_score_components = [],
     hy_metadata = []\<rparr>"

lemma sample_open_ready: "probe_ready builtin_catalog sample_open_hypothesis"
proof -
  have "has_id (dx_intents builtin_catalog) ''entity.current_state.v1''" by code_simp
  then show ?thesis by (simp add: probe_ready_def sample_open_hypothesis_def)
qed

section \<open>A probe\<close>

definition sample_probe :: probe_intent where
  "sample_probe = \<lparr>pr_id = ''probe'', pr_title = ''t'', pr_evidence_intent_id = ''entity.current_state.v1'',
     pr_applicable_hypothesis_ids = [], pr_discriminates_hypothesis_ids = [],
     pr_candidate_collector_ids = [''snapshot.entity_state.v1''], pr_expected_outcomes = [], pr_preconditions = [],
     pr_rationale = [], pr_information_gain_score = 1, pr_cost_score = 1, pr_risk_class = R0,
     pr_estimated_duration_seconds = None, pr_status = Probe_Recommended, pr_metadata = []\<rparr>"

definition sample_incident :: incident where
  "sample_incident = \<lparr>ic_id = ''inc'', ic_environment_id = ''env'', ic_snapshot_id = ''s'', ic_profile_id = ''p'',
     ic_title = ''t'', ic_initial_symptom = [], ic_status = Incident_Open, ic_created_at_iso = ''now'',
     ic_updated_at_iso = ''now'', ic_assessment_id = None, ic_violated_ids = [], ic_symptoms = [],
     ic_evidence = [sample_fact ''entity.absent''], ic_hypotheses = [],
     ic_probe_plan = Some \<lparr>pp_id = ''plan'', pp_incident_id = ''inc'', pp_created_at_iso = ''now'', pp_probes = [sample_probe],
       pp_stopping_reason = None, pp_evidence_budget = None, pp_metadata = []\<rparr>,
     ic_probe_runs = [], ic_causal_edges = [], ic_timeline = [], ic_certificate = None, ic_metadata = []\<rparr>"

lemma sample_probe_runs:
  "\<exists>j. run_probe sample_investigation sample_incident ''probe'' sample_failing sample_health_profile (Some sample_topology) []
     (Some 5) = Inr j"
proof -
  have p: "planned_probe sample_incident ''probe'' = Inr sample_probe" by code_simp
  have x: "\<exists>x. probe_intent_of builtin_catalog sample_probe = Inr x"
  proof -
    have "(case probe_intent_of builtin_catalog sample_probe of Inl e \<Rightarrow> False | Inr x \<Rightarrow> True)" by code_simp
    then show ?thesis by (simp split: sum.splits)
  qed
  show ?thesis
    by (rule probe_always_runs [OF sample_catalog_closed, of "Some 5" sample_incident "''probe''" sample_probe
          "Some sample_topology" sample_failing sample_topology])
      (use p x sample_failing_assessed in \<open>auto simp: topology_or_compiled_def sample_investigation_def\<close>)
qed

end
