(* ===== verification/Pack_Samples.thy ===== *)
theory Pack_Samples
  imports Pack_Runtime Diagnosis_Samples
begin

text \<open>Concrete packs: an installation of two packs, one of which needs the other, a signed pack, and a runtime whose
  resolver links pods to what they declare to depend on.\<close>

definition sample_pack_env :: pack_env where
  "sample_pack_env = \<lparr>pcr_hash = pkm_id, pcr_hmac = (\<lambda>secret h. secret @ h), pcr_sign = (\<lambda>secret h. raise ValueError []),
     pcr_check = (\<lambda>key text h. None), pcr_dump = (\<lambda>v. []), pcr_fresh = (\<lambda>i. i), pcr_now = ''now''\<rparr>"

definition no_contributions :: pack_contributions where
  "no_contributions = \<lparr>pcb_entity_classifiers = [], pcb_relationship_resolvers = [], pcb_operational_profiles = [],
     pcb_evidence_intents = [], pcb_collectors = [], pcb_causal_templates = [], pcb_action_types = [],
     pcb_lifecycle_profiles = [], pcb_verification_templates = [], pcb_redaction_rules = [], pcb_scenario_coverage = []\<rparr>"

definition sample_pack :: "string \<Rightarrow> pack_dependency list \<Rightarrow> pack_contributions \<Rightarrow> pack_manifest" where
  "sample_pack i deps contributions = \<lparr>pkm_id = i, pkm_version = ''1.2.0'', pkm_title = i, pkm_kind = Pack_Core,
     pkm_description = [], pkm_api_version = ''v1'', pkm_priority = 0, pkm_dependencies = deps, pkm_conflicts_with = {},
     pkm_compatibility = \<lparr>pcm_kubeops = ''*'', pcm_kubernetes = None, pcm_python = ''*'', pcm_provider_constraints = [],
       pcm_operating_systems = {}, pcm_architectures = {}\<rparr>,
     pkm_capabilities = {}, pkm_supported_entity_types = {}, pkm_contributions = contributions, pkm_metadata = []\<rparr>"

definition base_pack :: pack_manifest where
  "base_pack = sample_pack ''b'' [] no_contributions"

definition app_pack :: pack_manifest where
  "app_pack = sample_pack ''a'' [\<lparr>pdp_id = ''b'', pdp_constraint = ''>=1.0'', pdp_optional = False, pdp_reason = []\<rparr>]
     (no_contributions\<lparr>pcb_evidence_intents := [plain_intent\<lparr>in_id := ''x''\<rparr>]\<rparr>)"

definition sample_manager :: pack_manager where
  "sample_manager = \<lparr>pmg_kubeops = ''1.0.0'', pmg_kubernetes = None,
     pmg_manifests = [(''a'', app_pack), (''b'', base_pack)], pmg_sources = [(''a'', ''memory''), (''b'', ''memory'')]\<rparr>"

lemma sample_packs_resolved:
  "map_sum id (\<lambda>R. (prs_requested (prt_resolution R), prs_ordered (prt_resolution R), prs_active (prt_resolution R),
       map (\<lambda>m. (ids_in ''evidence_intent'' m, ids_in ''collector'' m, ids_in ''causal_template'' m)) (prt_manifests R)))
     (pack_runtime_of sample_pack_env sample_manager (Some [''a'']) None) =
   Inr ([''a''], [''b'', ''a''], [''b'', ''a''], [([], [], []), ([''x''], [], [])])"
  by code_simp

definition sample_trust_policy :: trust_policy where
  "sample_trust_policy = \<lparr>ptp_id = ''t'', ptp_organization_id = ''o'', ptp_workspace_id = ''w'', ptp_require_signature = True,
     ptp_allowed_schemes = {''hmac-sha256''}, ptp_require_asymmetric = False, ptp_trusted_key_ids = {''k''},
     ptp_trusted_signers = {}, ptp_allow_unsigned = {}, ptp_metadata = []\<rparr>"

lemma sample_signed:
  "\<exists>g r. sign_pack sample_pack_env base_pack ''k'' ''s'' ''me'' ''hmac-sha256'' = Inr g \<and>
     verify_pack sample_pack_env base_pack (Some g) sample_trust_policy [(''k'', ''s'')] [] = Inr r \<and> pvf_outcome r = Trusted"
proof -
  obtain g where g: "sign_pack sample_pack_env base_pack ''k'' ''s'' ''me'' ''hmac-sha256'' = Inr g"
    by (simp add: sign_pack_def Let_def)
  have "\<forall>c \<in> set (pcr_hmac sample_pack_env ''s'' (pcr_hash sample_pack_env base_pack)). (of_char c :: nat) < 128"
    by code_simp
  from signed_pack_trusted [OF g _ this, of "[(''k'', ''s'')]" sample_trust_policy "[]"] g show ?thesis
    by (auto simp: sample_trust_policy_def)
qed

section \<open>A graph\<close>

definition sample_pack_runtime :: pack_runtime where
  "sample_pack_runtime = \<lparr>prt_resolution = \<lparr>prs_id = ''r'', prs_created_at_iso = ''now'', prs_requested = [''d''],
       prs_ordered = [''d''], prs_active = [''d''], prs_blocked = [], prs_statuses = [], prs_issues = [],
       prs_contribution_counts = []\<rparr>,
     prt_manifests = [sample_pack ''d'' [] (no_contributions\<lparr>pcb_relationship_resolvers := [\<lparr>rrl_id = ''needs'',
       rrl_handler = Component_Dependency, rrl_relationship_type = ''depends_on'', rrl_source_entity_types = {},
       rrl_target_entity_types = {}, rrl_annotation_key = None, rrl_label_key = None, rrl_target_kind = None,
       rrl_target_namespace = None, rrl_target_name = None, rrl_confidence = 1, rrl_contract = [],
       rrl_propagation = []\<rparr>]\<rparr>)]\<rparr>"

definition sample_dependent :: entity where
  "sample_dependent = (sample_pod ''q'' ''db'')\<lparr>ent_extensions := [(''dependencies'', JList [JStr ''p'', JStr ''gone''])]\<rparr>"

lemma sample_graph_compiled:
  "map_sum id (\<lambda>g. map rel_id (tg_relationships g))
     (compile_graph (\<lambda>r. ''0'') (resolver_of (\<lambda>r. ''0'') sample_pack_runtime) ''u'' ''now'' ''env'' ''s''
       [sample_service, sample_pod ''p'' ''web'', sample_dependent] []) = Inr [''pack:needs:q->p'', ''selects:svc->p'']"
  by code_simp

end
