(* ===== verification/Spec2Isabelle.thy ===== *)
theory Spec2Isabelle
  imports Samples Samples_More Dispatcher_Props Tenancy Governance Builtin_Actions Lifecycle_Props Pack_Samples
begin

text \<open>
  KubeOps plans, authorises, executes and verifies operations on Kubernetes-like environments. This
  development models the core library \<open>src/packages/kubeops_core/kubeops_core/\<close> (paths below are relative
  to it) as executable HOL functions, and this theory states the properties C1 to C40 of it.

  \<^bold>\<open>Conventions.\<close> A pydantic model is a record (its \<open>Literal\<close>s and enums are datatypes); the validators that run
  when an object is built are functions of their own. \<open>Any\<close> is the datatype \<open>json\<close>; a dictionary is an
  association list in insertion order; a Python exception is the left side of a sum. Instants are
  microseconds, read and written by the model of \<open>datetime.fromisoformat\<close> and \<open>isoformat\<close>; floats are
  exact rationals. Fresh uuids, regular expression searches, digests (\<open>sha256\<close> of canonical JSON), clock readings and replies of external
  commands are arguments of the functions that use them. Texts of exceptions are kept except where they
  render arbitrary values.

  \<^bold>\<open>Theories and the code they model.\<close>
  \<^item> \<open>Prelude\<close>, \<open>PyTime\<close>, \<open>PyValue\<close>, \<open>PyText\<close>, \<open>Registry\<close>: errors, dictionaries, timestamps, JSON values with dotted paths
    and deep merge (\<open>util.py\<close>), the typed registry (\<open>registry/base.py\<close>); the interfaces \<open>kv_store\<close>,
    \<open>invariant_machine\<close> and \<open>iso_codec\<close>.
  \<^item> \<open>IR\<close>, \<open>Evaluator\<close>, \<open>Invariants\<close>: the operational records (\<open>models/\<close>), the three-valued predicate
    evaluator and temporal operators (\<open>invariants/evaluator.py\<close>) and the verification engine.
  \<^item> \<open>Dependency_Graph\<close>, \<open>Planning\<close>, \<open>Builtin_Actions\<close>: the acyclicity check, plans and actions, the action
    catalogue with its built-in types, the policy registry.
  \<^item> \<open>Operation\<close>, \<open>Policy\<close>, \<open>Effects\<close>, \<open>Executors\<close>, \<open>Runtime\<close>: operation runs and their journal (\<open>execution/store.py\<close>),
    the policy engine, the state of the runtime (clock, world, journal and the log of external calls), the
    executors and the operation runtime (\<open>execution/\<close>). The runtime's methods are functions of that state;
    every external command is an entry of the call log, its reply comes from the environment argument.
  \<^item> \<open>Dispatcher\<close>, \<open>Tenancy\<close>, \<open>Governance\<close>: leases of tasks to agents (\<open>distributed/\<close>), role grants, limits,
    audit chain and retention.
  \<^item> \<open>Fleet\<close>: assessment of fleets and the waves of fleet operations (\<open>fleet/service.py\<close>).
  \<^item> \<open>Scenario_IR\<close>, \<open>Simulator\<close>: scenario models and the event-driven simulator (\<open>simulator/\<close>).
  \<^item> \<open>Scenario_Compiler\<close>, \<open>Composer\<close>: templates, families with inheritance, their compilation and the
    composition of scenarios (\<open>scenarios/\<close>, \<open>registry/scenarios.py\<close>).
  \<^item> \<open>Discovery\<close>, \<open>Health\<close>: snapshots and their differences (\<open>discovery/snapshot.py\<close>), health profiles and
    assessments (\<open>health/engine.py\<close>).
  \<^item> \<open>Diagnosis_IR\<close>, \<open>Diagnosis\<close>, \<open>Diagnosis_Catalog\<close>, \<open>Diagnosis_Planning\<close>, \<open>Diagnosis_Evidence\<close>,
    \<open>Diagnosis_Service\<close>, \<open>Diagnosis_Evaluation\<close>: incidents, hypotheses and their scores, certificates, the built-in
    catalogue, the planners of evidence and probes, the collectors, the investigation service and the evaluation
    of diagnoses against simulations (\<open>diagnosis/\<close>).
  \<^item> \<open>Topology\<close>: the compilation of Kubernetes references to relationships (\<open>topology/compiler.py\<close>).
  \<^item> \<open>Versioning\<close>, \<open>Packs\<close>, \<open>Pack_Manager\<close>, \<open>Pack_Runtime\<close>: versions and constraints, manifests and their
    signatures, the resolution of packs, and what active packs do to entities, relationships and payloads
    (\<open>packs/\<close>, \<open>supply_chain/signing.py\<close>).
  \<^item> \<open>Lifecycle\<close>: lifecycle profiles compiled to plans (\<open>lifecycle/\<close>).
  \<^item> \<open>Scheduling\<close>: maintenance windows and scheduled operations (\<open>scheduling/service.py\<close>).
  \<open>Runtime_Props\<close>, \<open>Dispatcher_Props\<close>, \<open>Simulator_Props\<close>, \<open>Composer_Props\<close>, \<open>Lifecycle_Props\<close> and
  \<open>Diagnosis_Props\<close> hold the longer proofs;
  \<open>Samples\<close>, \<open>Samples_More\<close>, \<open>Diagnosis_Samples\<close> and \<open>Pack_Samples\<close> the concrete values of the witnesses.

  \<^bold>\<open>What is shown.\<close> C1 to C9: what a run of the runtime may do to the world, in which order, what a completed
  run has verified, what the journal holds, and which external calls the executors make. C10 to C12:
  policy decisions, the validation of plans, the journal. C13 to C15: the evaluator against Kleene's logic,
  timestamps. C16 to C22: leases, authorization, limits, audit, retention. C23 to C30: fleets,
  simulation, lifecycle plans, schedules, compositions, health. C31 to C36: investigations, their
  plans and certificates, topology graphs. C37 to C40: packs.

  \<^bold>\<open>Loops.\<close> Every loop of the code terminates in the model by a measure (the attempts of an action by its
  maximum, the run loop by the pending actions, the worklist of the acyclicity check and the waves of a
  fleet by the nodes left), with no fuel. The exceptions are the simulator, whose loop need not end: it is a
  partial function into options, \<open>None\<close> meaning that it does not return (C24 gives the condition under
  which it does, \<open>zero_delay_rule_diverges\<close> a case in which it does not), and a fleet without room in a
  batch, which the validator excludes.

  \<^bold>\<open>Not modelled.\<close> The Django control plane, the command line and the repository scripts are glue around the
  core over an ORM, HTTP and argument parsing. Discovery through \<open>kubectl\<close>, backups and secrets
  wrap external tools and cryptographic libraries. Loading of YAML directories is I/O; pydantic's coercion
  of payloads is a parameter where it is used.
\<close>

section \<open>The operation runtime\<close>

text \<open>C1. Nothing happens outside unless the policy allows everything. If even one action of the plan
  is not allowed (its parameters do not validate, or the policy in its context with the approvals
  at hand does not allow it at any instant from now on), then a run makes no external call and leaves the
  world as it was, however it ends.\<close>

theorem unauthorised_run_inert:
  assumes "a \<in> set (plan_actions (op_plan op))"
    and "\<not> allowed_from E rt pol ((ctx_policy ctx)\<lparr>pc_execution_mode := effective_mode op ctx\<rparr>)
           (op_approvals op) (rs_clock s) a"
  shows "rs_calls (snd (runtime_run E rt op pol ctx given rb s)) = rs_calls s \<and>
    rs_world (snd (runtime_run E rt op pol ctx given rb s)) = rs_world s"
  using assms run_effects_authorized [of E rt op pol ctx given rb s _ _ a] by (metis prod.collapse)

theorem unauthorised_run_inert_witness:
  "rs_world (snd (runtime_run sample_env sample_runtime (sample_operation [sample_action ''a'' []])
     (sample_policy\<lparr>pol_allowed_risk_classes := {}\<rparr>) sample_context None True (sample_state patched_world))) =
   patched_world"
proof -
  have "\<not> allowed_from sample_env sample_runtime (sample_policy\<lparr>pol_allowed_risk_classes := {}\<rparr>) pctx aps n
      (sample_action ''a'' [])" for pctx aps n
    by (simp add: allowed_from_def policy_allows_def within_scope_def)
  then show ?thesis
    using unauthorised_run_inert [of "sample_action ''a'' []" "sample_operation [sample_action ''a'' []]"
      sample_env sample_runtime "sample_policy\<lparr>pol_allowed_risk_classes := {}\<rparr>" sample_context
      "sample_state patched_world" None True]
    by (simp add: sample_operation_def created_operation_def sample_plan_def sample_state_def)
qed

text \<open>C2. What a run adds. The operation a run returns extends the event log it was given (numbered without
  gaps) and keeps the plan except for action statuses; the new receipts are those of a schedule, in
  which every action was not handled before, occurs once and comes after all the actions it depends
  on, followed by those of rollback actions.\<close>

theorem run_schedule:
  assumes "good_registry (run_executors rt)"
  shows "yields (runtime_run E rt op pol ctx given rb) (\<lambda>op'. \<exists>rs undo.
    grows op (rs @ undo) op' \<and> rollback_ids undo \<and>
    schedule_ok (plan_actions (op_plan op)) (settled_ids op) rs \<and>
    distinct (map rc_action_id rs) \<and> rc_action_id ` set rs \<inter> settled_ids op = {})"
  using run_yields [OF assms]
  by (rule yields_mono) (metis run_post_def schedule_distinct)

theorem run_schedule_witness:
  "let op = sample_operation [sample_action ''b'' [''a''], sample_action ''a'' []] in
   yields (runtime_run sample_env sample_runtime op sample_policy sample_context None True) (\<lambda>op'. \<exists>rs undo.
    grows op (rs @ undo) op' \<and> rollback_ids undo \<and>
    schedule_ok (plan_actions (op_plan op)) (settled_ids op) rs \<and>
    distinct (map rc_action_id rs) \<and> rc_action_id ` set rs \<inter> settled_ids op = {})"
  unfolding Let_def by (rule run_schedule [OF sample_runtime_good])

text \<open>C3. A completed run is a verified one. If a run returns an operation with status completed, then every
  action of the plan has a receipt, and unless it was a dry run the world it leaves, as the
  caller's providers show it, passes every required verification condition and violates no guarded one.\<close>

theorem completed_run_verified:
  assumes "good_registry (run_executors rt)"
    and "runtime_run E rt op pol ctx given rb s = (Inr op', s')" "op_status op' = St_Completed"
  shows "act_id ` set (plan_actions (op_plan op)) \<subseteq> rc_action_id ` set (op_action_receipts op') \<and>
    (op_mode op = Dry_Run \<or>
      (\<exists>s1. rs_world s1 = rs_world s' \<and> rs_calls s1 = rs_calls s' \<and>
        (let cs = verification_conditions_of given op in
         verified cs (verify_conditions cs (ctx_world ctx s1) (ctx_relationships ctx s1) 0 []))))"
  using run_completed_verified [OF assms] by blast

theorem completed_run_verified_witness:
  "\<exists>op' s'. sample_run = (Inr op', s') \<and> op_status op' = St_Completed \<and>
     verified [sample_condition] (verify_conditions [sample_condition] (rs_world s') [] 0 [])"
proof -
  obtain op' s' where run: "sample_run = (Inr op', s')" "op_status op' = St_Completed"
    using sample_run_completes by (auto split: prod.splits sum.splits)
  from completed_run_verified [OF sample_runtime_good run(1) [unfolded sample_run_def] run(2)]
  show ?thesis using run
    by (intro exI [of _ op'] exI [of _ s'])
      (auto simp: sample_operation_def created_operation_def sample_plan_def sample_context_def
          verification_conditions_of_def Let_def)
qed

text \<open>C4. A valid plan never blocks. Starting from the settled actions of an operation whose plan has
  distinct ids, closed dependencies and no cycle, the loop never ends because no pending action is
  ready: it always finds an action whose dependencies are handled.\<close>

theorem valid_plan_never_blocks:
  assumes "valid_plan (op_plan op)"
  shows "yields (run_loop E rt ctx op (settled_ids op) (successful_keys op) behavior (pending_actions op)) not_blocked"
  using pending_actions_ids [of op]
  by (intro loop_not_blocked [OF assms refl] pending_actions_sub) (auto dest: pending_actions_sub [THEN subsetD])

theorem valid_plan_never_blocks_witness:
  "yields (run_loop sample_env sample_runtime sample_context
     (sample_operation [sample_action ''b'' [''a''], sample_action ''a'' []]) {} {} ''stop''
     (pending_actions (sample_operation [sample_action ''b'' [''a''], sample_action ''a'' []]))) not_blocked"
proof -
  let ?op = "sample_operation [sample_action ''b'' [''a''], sample_action ''a'' []]"
  have "valid_plan (op_plan ?op)" by code_simp
  from valid_plan_never_blocks [OF this, of sample_env sample_runtime sample_context "''stop''"]
  show ?thesis
    by (simp add: settled_ids_def successful_keys_def sample_operation_def created_operation_def)
qed

text \<open>C5. Durability. Whatever a method of the runtime returns is what the journal holds under its id:
  creating, authorizing, recording an approval, running, resuming, pausing, cancelling, rolling back
  and verifying externally.\<close>

theorem methods_journal:
  "journals (runtime_create E rt env plan mode approvals) \<and> journals (runtime_authorize E rt op pol ctx) \<and>
   journals (add_approval E op ap) \<and> journals (runtime_run E rt op pol ctx given rb) \<and>
   journals (runtime_resume E rt i pol ctx given) \<and> journals (runtime_pause E op why) \<and>
   journals (runtime_cancel E op why) \<and> journals (runtime_rollback E rt op ctx) \<and>
   journals (verify_external E op ctx given)"
  unfolding runtime_resume_def
  by (intro conjI journals_steps run_journals journals_bind journals_if journals_raise)

text \<open>C6. A rollback makes the journal unreadable. When a rollback records any receipt, the operation it
  saves refers to an action outside the plan, so loading that operation from the journal fails, and
  so does resuming it.\<close>

theorem rollback_not_resumable:
  assumes "good_registry (run_executors rt)" "runtime_rollback E rt op ctx s = (Inr op', s')"
    and "\<And>i. ''rollback:'' @ i \<notin> act_id ` set (plan_actions (op_plan op))"
    and "op_action_receipts op' \<noteq> op_action_receipts op"
  shows "\<exists>e. journal_load (rs_journal s') (op_id op') = Inl e \<and>
    fst (runtime_resume E rt (op_id op') pol ctx' given s') = Inl e"
  using rollback_unloadable [OF assms]
  by (auto simp: runtime_resume_def rt_bind_def rt_load_def)

theorem rollback_not_resumable_witness:
  "\<exists>op' s' e. sample_rollback = (Inr op', s') \<and>
     fst (runtime_resume sample_env rollback_runtime (op_id op') sample_policy sample_context None s') = Inl e"
proof -
  obtain op' s' where run: "sample_rollback = (Inr op', s')" "length (op_action_receipts op') = 2"
    using sample_rollback_result by (auto split: prod.splits sum.splits)
  have ids: "''rollback:'' @ i \<notin> act_id ` set (plan_actions (op_plan rolled_operation))" for i
    by (simp add: rolled_operation_def sample_operation_def created_operation_def sample_plan_def sample_action_def)
  have "op_action_receipts op' \<noteq> op_action_receipts rolled_operation"
    using run(2) by (auto simp: rolled_operation_def)
  from rollback_not_resumable [OF rollback_runtime_good run(1) [unfolded sample_rollback_def] ids this]
  show ?thesis using run(1) by blast
qed

text \<open>Stability requirements cannot be met at run time. Verification is evaluated at instant 0 with no
  history, so an operation (not a dry run) with a required condition asking for stability over a positive
  time always ends as failed, whatever the world looks like.\<close>

theorem stability_fails_operation:
  assumes "c \<in> set (verification_conditions_of given op)" "vc_required c"
    and "distinct (map vc_id (verification_conditions_of given op))"
    and "tr_operator (vc_temporal c) = Stable_For" "tr_stable_for_seconds (vc_temporal c) = Some n" "0 < n"
    and "op_mode op \<noteq> Dry_Run"
  shows "yields (seal E ctx given op) (\<lambda>op'. op_status op' = St_Failed)"
  by (rule seal_stable_fails [OF assms])

theorem stability_fails_operation_witness:
  "yields (seal sample_env sample_context
      (Some [sample_condition\<lparr>vc_temporal := \<lparr>tr_operator = Stable_For, tr_within_seconds = None,
        tr_stable_for_seconds = Some 30\<rparr>\<rparr>]) (sample_operation [])) (\<lambda>op'. op_status op' = St_Failed)"
  by (rule stability_fails_operation [of _ _ _ 30])
    (auto simp: verification_conditions_of_def sample_condition_def sample_operation_def created_operation_def)

text \<open>The guards of the operator's methods. Cancelling is refused exactly from completed and
  cancelled, pausing exactly outside running, authorized and awaiting approval, an approval exactly
  when it names another operation; a refusal changes nothing, not even the clock or the journal.\<close>

theorem operator_guards:
  "((\<exists>e. runtime_cancel E op why s = (Inl e, s)) \<longleftrightarrow> op_status op \<in> {St_Completed, St_Cancelled}) \<and>
   ((\<exists>op' s'. runtime_cancel E op why s = (Inr op', s') \<and> op_status op' = St_Cancelled) \<longleftrightarrow>
      op_status op \<notin> {St_Completed, St_Cancelled}) \<and>
   ((\<exists>e. runtime_pause E op why s = (Inl e, s)) \<longleftrightarrow>
      op_status op \<notin> {St_Running, St_Authorized, St_Awaiting_Approval}) \<and>
   ((\<exists>op' s'. runtime_pause E op why s = (Inr op', s') \<and> op_status op' = St_Paused) \<longleftrightarrow>
      op_status op \<in> {St_Running, St_Authorized, St_Awaiting_Approval}) \<and>
   ((\<exists>e. add_approval E op ap s = (Inl e, s)) \<longleftrightarrow> appr_operation_id ap \<noteq> op_id op)"
  by (auto simp: runtime_cancel_def runtime_pause_def add_approval_def rt_bind_def rt_raise_def rt_lift_def
      raise_def rt_now_iso_eq touch_eq add_event_eq save_return_eq)

section \<open>Executors\<close>

text \<open>C7. The command allowlist. Through any executor of the default registry, every command run and every
  process started names an executable of the context's allowlist (signals are the only other
  external calls).\<close>

theorem executors_respect_allowlist:
  assumes "build_default_executor_registry E = Inr reg" "dget reg i = Some x"
    and "ex_execute x a d ctx n s = (r, s')" "c \<in> set (rs_calls s')" "c \<notin> set (rs_calls s)"
  shows "call_allowed ctx c"
proof -
  have T: "triple (calls_ok ctx (set (rs_calls s))) (ex_execute x a d ctx n)
      (\<lambda>_. calls_ok ctx (set (rs_calls s))) (calls_ok ctx (set (rs_calls s)))"
    using default_executors_safe [OF assms(1,2)] unfolding safe_calls_def by blast
  have start: "calls_ok ctx (set (rs_calls s)) s" by (simp add: calls_ok_def)
  have "calls_ok ctx (set (rs_calls s)) s'"
  proof (cases r)
    case (Inl e)
    with tripleE [OF T start] assms(3) show ?thesis by blast
  next
    case (Inr y)
    with tripleD [OF T start] assms(3) show ?thesis by blast
  qed
  then show ?thesis using assms(4,5) by (auto simp: calls_ok_def)
qed

theorem executors_respect_allowlist_witness:
  "call_allowed sample_docker_context
     (command_call [''docker'', ''start'', ''db''] sample_type sample_docker_context)"
proof -
  let ?x = "\<lparr>ex_id = ''docker.cli'', ex_execute = safe_command_execute sample_env ''docker.cli'' (docker_builder sample_env)\<rparr>"
  have known: "dget (map (\<lambda>x. (ex_id x, x)) (default_executors sample_env)) ''docker.cli'' = Some ?x"
    by (simp add: default_executors_def)
  obtain r s' where run: "ex_execute ?x sample_docker_action sample_type sample_docker_context 1 (sample_state []) = (r, s')"
    by fastforce
  then have "rs_calls s' = [command_call [''docker'', ''start'', ''db''] sample_type sample_docker_context]"
    using sample_docker_call by simp
  then show ?thesis
    using executors_respect_allowlist [OF default_registry_eq known run] by (simp add: sample_state_def)
qed

text \<open>C8. Only terminal Jobs are deleted. The Job deletion issues either no call, or the query for the
  Job only, or that query followed by the deletion of the same Job in the same namespace and
  context; and it deletes only when the query succeeded and its output describes a terminal Job.\<close>

theorem only_terminal_jobs_deleted:
  fixes name E a d ctx s
  defines "name \<equiv> py_str E (dget_default (act_parameters a) ''name'' JNull)"
  defines "query \<equiv> get_job_call E a d ctx name"
  shows "case delete_terminal_job E a d ctx n t s of (r, s') \<Rightarrow>
    rs_calls s' = rs_calls s \<or> rs_calls s' = rs_calls s @ [query] \<or>
    (\<exists>out err. env_run E (rs_calls s) query = Finished 0 out err \<and> job_terminal E out = Inr True \<and>
       rs_calls s' = rs_calls s @ [query, command_call (delete_job_argv E a name) d ctx])"
  using delete_terminal_job_calls [of E a d ctx n t s] unfolding name_def query_def
  by (cases "delete_terminal_job E a d ctx n t s") blast

text \<open>Simulated effects. Applying an effect makes the simulated world show its value at its path of its
  entity, and touches no other entity.\<close>

theorem simulated_effects:
  assumes "apply_effect (effect i path v) s = (Inr u, s')" "path \<noteq> []"
  shows "observe (rs_world s') i path = Some v \<and>
    (\<forall>j. j \<noteq> i \<longrightarrow> dget (rs_world s') j = dget (rs_world s) j)"
  using apply_effect_observe [OF assms] by blast

theorem simulated_effects_witness:
  "observe (rs_world (snd (apply_effect (effect ''db'' ''spec.ready'' (JBool True)) (sample_state patched_world))))
     ''db'' ''spec.ready'' = Some (JBool True)"
proof -
  have "case apply_effect (effect ''db'' ''spec.ready'' (JBool True)) (sample_state patched_world) of
      (Inr u, s') \<Rightarrow> True | _ \<Rightarrow> False"
    by code_simp
  then obtain u s' where run: "apply_effect (effect ''db'' ''spec.ready'' (JBool True)) (sample_state patched_world) = (Inr u, s')"
    by (auto split: prod.splits sum.splits)
  from simulated_effects [OF run] show ?thesis by (simp add: run)
qed

text \<open>C9. A dry run touches nothing. With the default executors, running an operation in dry-run mode makes
  no external call and leaves the world as it was, through retries, failures and rollback.\<close>

theorem dry_run_inert_run:
  assumes "build_default_executor_registry E = Inr (run_executors rt)" "op_mode op = Dry_Run"
  shows "rs_world (snd (runtime_run E rt op pol ctx given rb s)) = rs_world s \<and>
    rs_calls (snd (runtime_run E rt op pol ctx given rb s)) = rs_calls s"
  using dry_run_outside [OF assms, of pol ctx given rb] by (simp add: keeps_def outside_def)

theorem dry_run_inert_run_witness:
  "rs_world (snd (runtime_run sample_env sample_runtime
     ((sample_operation [sample_action ''a'' []])\<lparr>op_mode := Dry_Run\<rparr>) sample_policy sample_context None True
     (sample_state patched_world))) = patched_world"
  using dry_run_inert_run [of sample_env sample_runtime "(sample_operation [sample_action ''a'' []])\<lparr>op_mode := Dry_Run\<rparr>"
      sample_policy sample_context None True "sample_state patched_world"]
  by (simp add: default_registry_eq sample_runtime_def sample_state_def)

section \<open>Policy\<close>


text \<open>A rejection in force is a veto: whatever else was approved, the decision is deny.\<close>

theorem rejection_vetoes:
  assumes "r \<in> set approvals" "appr_operation_id r \<noteq> []" "appr_action_id r \<in> {None, Some (act_id a)}"
    and "in_force now r" "appr_decision r = Reject"
  shows "pd_outcome (policy_evaluate now now_iso a d pol ctx approvals) = Deny"
  by (rule policy_reject_veto [OF assms])

theorem rejection_vetoes_witness:
  "pd_outcome (policy_evaluate 0 [] (sample_action ''a'' []) sample_type sample_policy (ctx_policy sample_context)
     [sample_approval Approve, sample_approval Reject]) = Deny"
  by (rule rejection_vetoes [of "sample_approval Reject"])
    (auto simp: sample_approval_def in_force_def str_truthy_def)

section \<open>Plans and actions\<close>

text \<open>The dependency check. The check that removes ready nodes until none is left accepts a closed
  dependency table exactly when its relation has no cycle.\<close>

theorem dependency_check_exact:
  assumes "wf_deps D"
  shows "acyclic_check D \<longleftrightarrow> acyclic (dep_rel D)"
  by (rule acyclic_check_iff [OF assms])

theorem dependency_check_exact_witness:
  "\<not> acyclic (dep_rel [(''a'', {''b''}), (''b'', {''a''})])"
proof -
  have "wf_deps [(''a'', {''b''}), (''b'', {''a''})]" "\<not> acyclic_check [(''a'', {''b''}), (''b'', {''a''})]"
    by code_simp+
  then show ?thesis using dependency_check_exact by blast
qed

text \<open>C11. Valid plans make progress. The validator accepts a plan exactly when action ids are distinct,
  dependencies name actions of the plan, and they have no cycle; and then, whatever set of actions is
  finished, an unfinished plan has an unfinished action whose dependencies are all finished.\<close>

theorem valid_plan_progresses:
  "(valid_plan p \<longleftrightarrow>
     distinct (map act_id (plan_actions p)) \<and>
     (\<forall>a \<in> set (plan_actions p). set (act_depends_on a) \<subseteq> set (map act_id (plan_actions p))) \<and>
     acyclic (dep_rel (action_deps (plan_actions p)))) \<and>
   \<not> (valid_plan p \<and> (\<exists>a \<in> set (plan_actions p). act_id a \<notin> finished) \<and>
      \<not> (\<exists>b \<in> set (plan_actions p). act_id b \<notin> finished \<and> set (act_depends_on b) \<subseteq> finished))"
  using valid_plan_iff valid_plan_progress by blast

theorem valid_plan_progresses_witness:
  "\<exists>b \<in> set (plan_actions (sample_plan [sample_action ''b'' [''a''], sample_action ''a'' []])).
     act_id b \<notin> {''a''} \<and> set (act_depends_on b) \<subseteq> {''a''}"
proof -
  let ?p = "sample_plan [sample_action ''b'' [''a''], sample_action ''a'' []]"
  have "valid_plan ?p" by code_simp
  moreover have "\<exists>a \<in> set (plan_actions ?p). act_id a \<notin> {''a''}"
    by (simp add: sample_plan_def sample_action_def)
  ultimately show ?thesis using valid_plan_progresses [of ?p "{''a''}"] by blast
qed

text \<open>Validated parameters. An action instance that validates against the catalogue has every required
  parameter, and each parameter whose schema names a type or a constant has that type and that value.\<close>

theorem validated_parameters:
  assumes "validate_instance c a = Inr d"
    and "dget (at_parameter_schema d) ''required'' = Some (JList xs)" "JStr name \<in> set xs"
    and "dget (at_parameter_schema d) ''properties'' = Some (JObj ps)" "(name, JObj schema) \<in> set ps"
    and "dget schema ''type'' = Some (JStr t)"
  shows "\<exists>v. dget (act_parameters a) name = Some v \<and> has_json_type t v \<and>
    (case dget schema ''const'' of Some k \<Rightarrow> py_eq v k | None \<Rightarrow> True)"
proof -
  obtain v where v: "dget (act_parameters a) name = Some v"
    using validated_required [OF assms(1-3)] by auto
  show ?thesis
    using validated_property [OF assms(1,4,5) v, of t] assms(6) v by (auto split: option.split)
qed

theorem validated_parameters_witness:
  "\<exists>v. dget (act_parameters sample_docker_action) ''container'' = Some v \<and> has_json_type ''string'' v"
proof -
  have "validate_instance docker_catalog sample_docker_action = Inr docker_type" by code_simp
  from validated_parameters [OF this, of "[JStr ''container'']" "''container''"
      "[(''container'', JObj [(''type'', JStr ''string'')])]" "[(''type'', JStr ''string'')]" "''string''"]
  show ?thesis by (auto simp: docker_type_def)
qed

section \<open>The journal\<close>



section \<open>Predicates and invariants\<close>

text \<open>C13. The evaluator is Kleene's three-valued logic over its atoms: a conjunction is false if a part is
  false, else unknown if a part is unknown; dually for disjunction; negation keeps unknown.\<close>

theorem evaluator_is_kleene: "pr_satisfied (evaluate p w rels) = kleene p w rels"
  by (rule evaluate_kleene)



text \<open>Stability. A stability requirement is healthy exactly when the predicate holds now, the history
  reaches back to the start of the window, and the predicate holds in the last state before the window
  and in every later one up to now.\<close>

theorem stability_healthy_exactly:
  "fst (apply_stable p dur cur now h rels) = HEALTHY \<longleftrightarrow>
     cur = Some True \<and>
     (\<exists>b. window_baseline h (now - (case dur of None \<Rightarrow> 0 | Some n \<Rightarrow> n)) = Some b \<and>
        {e \<in> insert b (set (window_changes h (now - (case dur of None \<Rightarrow> 0 | Some n \<Rightarrow> n)) now)).
           pr_satisfied (evaluate p (snd e) rels) \<noteq> Some True} = {})"
  unfolding stable_healthy_iff by blast

text \<open>Success of a verification. For conditions with distinct ids, the results count as successful
  exactly when every required condition is itself healthy in the world verified.\<close>

theorem successful_exactly:
  assumes "distinct (map vc_id cs)"
  shows "successful cs (verify_conditions cs w rels now h) \<longleftrightarrow>
    (\<forall>c \<in> set cs. vc_required c \<longrightarrow> condition_status c w rels now h = HEALTHY)"
  by (rule successful_verified [OF assms])

theorem successful_exactly_witness:
  "successful [sample_condition] (verify_conditions [sample_condition] patched_world [] 0 [])"
proof -
  have "condition_status sample_condition patched_world [] 0 [] = HEALTHY" by code_simp
  then show ?thesis using successful_exactly [of "[sample_condition]" patched_world "[]" 0 "[]"] by simp
qed

section \<open>Values, times and registries\<close>



text \<open>Dotted paths. After a write, reading the path gives the value; after a deletion it gives nothing;
  and neither changes what any independent path reads.\<close>

theorem dotted_paths:
  assumes "p \<noteq> []" "q \<noteq> []" "independent (split_dot p) (split_dot q)"
  shows "get_path (JObj (set_path d p v)) p = Some v \<and> get_path (JObj (delete_path d p)) p = None \<and>
    get_path (JObj (set_path d p v)) q = get_path (JObj d) q \<and>
    get_path (JObj (delete_path d p)) q = get_path (JObj d) q"
  by (intro conjI get_set_path get_set_path_other get_delete_path get_delete_path_other assms)

theorem dotted_paths_witness:
  "get_path (JObj (delete_path [(''a'', JObj [(''b'', JInt 1), (''c'', JInt 2)])] ''a.b'')) ''a.c'' = Some (JInt 2)"
proof -
  have "independent (split_dot ''a.b'') (split_dot ''a.c'')"
    "get_path (JObj [(''a'', JObj [(''b'', JInt 1), (''c'', JInt 2)])]) ''a.c'' = Some (JInt 2)"
    by code_simp+
  then show ?thesis using dotted_paths [of "''a.b''" "''a.c''" "[(''a'', JObj [(''b'', JInt 1), (''c'', JInt 2)])]"] by simp
qed

text \<open>Deep merge. Each key of the result holds the override's value, except that two mappings are
  merged in turn and a key the override lacks keeps the base's value.\<close>

theorem deep_merge_keywise:
  assumes "wf_dict ov"
  shows "dget (deep_merge base ov) k = merge_value (dget base k) (dget ov k)"
  by (rule dget_deep_merge [OF assms])

theorem deep_merge_keywise_witness:
  "dget (deep_merge [(''a'', JObj [(''b'', JInt 1)])] [(''a'', JObj [(''c'', JInt 2)])]) ''a'' =
     Some (JObj [(''b'', JInt 1), (''c'', JInt 2)])"
  by (subst deep_merge_keywise, code_simp, code_simp)

text \<open>Registries overwrite nothing. Registering a list of items without \<open>replace\<close>, when it succeeds,
  keeps every item that was there and holds every item of the list.\<close>

theorem registry_keeps:
  assumes "wf_registry r" "reg_extend kvs False r = Inr r'"
  shows "(reg_maybe_get r k = Some v \<longrightarrow> reg_maybe_get r' k = Some v) \<and>
    ((k, v) \<in> set kvs \<longrightarrow> reg_maybe_get r' k = Some v) \<and> wf_registry r'"
  using reg_extend_keeps [OF assms] wf_reg_extend [OF assms] by blast

theorem registry_keeps_witness:
  "\<exists>r. reg_extend [(''a'', 1 :: int), (''b'', 2)] False (new_registry ''n'') = Inr r \<and> reg_maybe_get r ''a'' = Some 1"
proof -
  have "\<exists>r. reg_extend [(''a'', 1 :: int), (''b'', 2)] False (new_registry ''n'') = Inr r"
    by (simp add: reg_register_def new_registry_def)
  then show ?thesis using registry_keeps [OF wf_new_registry, of _ "''n''" _ "''a''" 1] by fastforce
qed

section \<open>Distributed dispatch\<close>

text \<open>C16. Exclusive leases. In every dispatcher reached from the empty one by registrations, heartbeats,
  enqueues, dispatches under fresh lease keys, renewals, completions and expiries, no task has two
  active leases, a task with an active lease is leased to that lease's agent, and no task has more
  attempts than it allows.\<close>

theorem leases_exclusive:
  assumes "disp_step\<^sup>*\<^sup>* new_dispatcher d"
  shows "exclusive (di_leases d) \<and>
    (\<forall>i l. dget (di_leases d) i = Some l \<and> active l \<longrightarrow>
       (\<exists>t. dget (di_tasks d) (ls_task_id l) = Some t \<and> tk_status t = Tk_Leased \<and>
          tk_assigned_agent_id t = Some (ls_agent_id l))) \<and>
    (\<forall>i t. dget (di_tasks d) i = Some t \<longrightarrow> tk_id t = i \<and> tk_attempt t \<le> tk_max_attempts t)"
  using dispatcher_machine.reach_inv [OF refl assms]
  by (auto simp: disp_inv_def lease_ok_def task_ok_def) fastforce+

theorem leases_exclusive_witness: "exclusive (di_leases sample_leased)"
  using leases_exclusive [OF sample_leased_reachable] by blast

text \<open>C17. Capacity. A dispatch that assigns a task gives it to a compatible online agent through a lease
  live at that instant, and the agent's live leases, the new one included, stay within its
  maximum concurrency.\<close>

theorem dispatch_within_capacity:
  assumes "disp_inv d" "dget (di_leases d) (lease_key lid) = None"
    and "dispatch uid lid nonce now i d = (Inr (dec, Some l), d')"
    and "dget (di_agents d') (ls_agent_id l) = Some g" "valid_agent g"
  shows "compatible (the (dget (di_tasks d) i)) g \<and> live (ag_id g) now l \<and>
    int (length (filter (live (ag_id g) now) (map snd (di_leases d')))) \<le> ag_max_concurrency g"
  by (rule dispatch_capacity [OF assms])

theorem dispatch_within_capacity_witness:
  "\<exists>dec l. dispatch ''u'' ''1'' ''n'' 0 ''t'' sample_queued = (Inr (dec, Some l), sample_leased) \<and>
     live ''g'' 0 l \<and> length (filter (live ''g'' 0) (map snd (di_leases sample_leased))) \<le> 1"
proof -
  obtain dec l where run: "dispatch ''u'' ''1'' ''n'' 0 ''t'' sample_queued = (Inr (dec, Some l), sample_leased)"
      "ls_agent_id l = ''g''"
    using sample_dispatch by blast
  have "dget (di_leases sample_queued) (lease_key ''1'') = None" "valid_agent sample_agent"
    "dget (di_agents sample_leased) ''g'' = Some sample_agent"
    using sample_leased_agent by (simp_all add: sample_queued_eq valid_agent_def) (simp_all add: sample_agent_def)
  from dispatch_within_capacity [OF sample_queued_inv this(1) run(1) _ this(2)] this(3) run
  show ?thesis by (auto simp: sample_agent_def)
qed



section \<open>Tenancy\<close>



section \<open>Limits, audit and retention\<close>

text \<open>C20. The rate limit. In a limiter whose rules have distinct identifiers, when a request that a rule
  matches is admitted, the rule's window afterwards holds the earlier admissions still inside it and this
  one, at most limit plus burst of them; and the limiter stays well formed, so this holds again.\<close>

theorem rate_limit_window:
  assumes "wf_limiter L" "limiter_evaluate uid now q L = (Inr dec, L')" "r \<in> set (lim_rate_rules L)"
    and "rate_match q r" "gd_outcome dec = Gov_Allow"
  shows "bucket (lim_usage L') (rr_id r) = trim now r (bucket (lim_usage L) (rr_id r)) @ [now] \<and>
    int (length (bucket (lim_usage L') (rr_id r))) \<le> rr_limit r + rr_burst r \<and> wf_limiter L'"
  using limiter_buckets(1,2) [OF assms(1-3)] limiter_wf [OF assms(1,2)] assms(4,5) by simp

theorem rate_limit_window_witness:
  "\<exists>dec L'. limiter_evaluate ''u'' 60000000 sample_limit_request sample_limiter = (Inr dec, L') \<and>
     bucket (lim_usage L') ''rate'' = [30000000, 60000000]"
proof -
  obtain dec L' where run: "limiter_evaluate ''u'' 60000000 sample_limit_request sample_limiter = (Inr dec, L')"
      "gd_outcome dec = Gov_Allow"
    using sample_limited by blast
  have "rate_match sample_limit_request sample_rate_rule" "sample_rate_rule \<in> set (lim_rate_rules sample_limiter)"
    by (simp_all add: rate_match_def sample_limit_request_def sample_rate_rule_def sample_limiter_def new_limiter_def)
  from rate_limit_window [OF sample_limiter_wf run(1) this(2,1) run(2)] run(1) show ?thesis
    by (simp add: sample_limiter_def sample_rate_rule_def trim_def window_start_def seconds_def dget_default_def)
qed

text \<open>Appending to the audit chain. Appending an event, whatever its content, gives a valid chain
  exactly when the chain was valid.\<close>

theorem audit_append_keeps_validity:
  "av_valid (audit_verify H t (audit_append H uid now_iso content es)) \<longleftrightarrow> av_valid (audit_verify H t' es)"
  by (rule audit_append_valid)

text \<open>C21. Tampering shows. Two chains that both verify and have the same head hash are the same chain,
  provided the digest does not collide on the payloads of their events.\<close>

theorem audit_tamper_evident:
  assumes "av_valid (audit_verify H t es)" "av_valid (audit_verify H t' fs)"
    and "av_head_hash (audit_verify H t es) = av_head_hash (audit_verify H t' fs)"
    and "inj_on H (audit_payload ` (set es \<union> set fs))"
  shows "es = fs"
  using assms by (intro valid_chains_equal) (auto simp: audit_verify_def Let_def)

theorem audit_tamper_evident_witness:
  "[chain_event (\<lambda>_. ''h'') ''u'' ''now'' [] sample_event] = audit_append (\<lambda>_. ''h'') ''u'' ''now'' sample_event []"
proof -
  have "av_valid (audit_verify (\<lambda>_. ''h'') [] (audit_append (\<lambda>_. ''h'') ''u'' ''now'' sample_event []))"
    by (simp add: audit_append_valid [where t' = "[]"]) (simp add: audit_verify_def)
  then show ?thesis
    by (intro audit_tamper_evident [where H = "\<lambda>_. ''h''" and t = "[]" and t' = "[]"]) (simp_all add: audit_append_def)
qed

text \<open>What retention may delete. A candidate is eligible exactly when no protection applies (a preserved
  failed operation, a certificate, a legal hold) and its type's retention period has passed.\<close>

theorem retention_eligibility:
  assumes "retention_candidate_of E now p resource = Inr c"
  shows "eligible c \<longleftrightarrow>
    (\<exists>ty created labels. field_of resource ''resource_type'' = Inr ty \<and>
       res_bind (field_of resource ''created_at_iso'') (\<lambda>v. parse_iso (py_str E v)) = Inr created \<and>
       labels_of resource = Inr labels \<and> protection_reasons p (py_str E ty) resource labels = [] \<and>
       created + retention_days p (py_str E ty) * us_per_day \<le> now)"
  by (rule retention_candidate_eligible [OF assms])

theorem retention_eligibility_witness:
  "\<exists>c. retention_candidate_of sample_env 200000000000 sample_retention sample_resource = Inr c \<and> eligible c"
proof -
  obtain c where run: "retention_candidate_of sample_env 200000000000 sample_retention sample_resource = Inr c"
    using sample_candidate by blast
  from retention_eligibility [OF run] have "eligible c"
    using sample_expired by blast
  with run show ?thesis by blast
qed

text \<open>C22. A retention plan protects what it protects. When candidate ids are distinct, no candidate is both
  eligible and protected, and the reclaimable bytes are those of the eligible candidates.\<close>

theorem retention_plan_sound:
  assumes "retention_plan_of E uid now p resources = Inr plan"
    and "distinct (map rt_candidate_id (rn_candidates plan))"
  shows "set (rn_eligible_candidate_ids plan) \<inter> set (rn_protected_candidate_ids plan) = {} \<and>
    rn_total_reclaimable_bytes plan = sum_list (map rt_size_bytes (filter eligible (rn_candidates plan)))"
  using retention_plan_split [OF assms] by blast

theorem retention_plan_sound_witness:
  "\<exists>plan. retention_plan_of sample_env ''u'' 200000000000 sample_retention [sample_resource] = Inr plan \<and>
     set (rn_eligible_candidate_ids plan) \<inter> set (rn_protected_candidate_ids plan) = {}"
proof -
  obtain c where c: "retention_candidate_of sample_env 200000000000 sample_retention sample_resource = Inr c"
    using sample_candidate by blast
  then obtain plan where plan: "retention_plan_of sample_env ''u'' 200000000000 sample_retention [sample_resource] = Inr plan"
      "rn_candidates plan = [c]" by (auto simp: retention_plan_of_def)
  from retention_plan_sound [OF plan(1)] plan c show ?thesis by auto
qed

section \<open>Fleets, simulation and lifecycle planning\<close>

text \<open>C23. The waves of a fleet operation. For a valid fleet the plan is always produced. Its waves contain each
  member exactly once; every environment comes in a later wave than those it has to wait for; no wave but
  the one for a cycle has more environments than may be operated on in parallel; and the plan carries a
  warning, and that last wave, exactly when the dependencies are cyclic.\<close>

theorem fleet_waves_schedule:
  assumes "valid_fleet f" "op \<in> operation_types"
  shows "\<exists>p ws. plan_fleet_operation uid now_iso f op = Some (Inr p) \<and>
    fp_waves p = map wave_at (List.enumerate 0 ws) @ cycle_wave f ws \<and>
    distinct (concat ws) \<and> set (concat ws) \<subseteq> fleet_members f \<and> ordered_waves (fleet_edges f op) {} ws \<and>
    (\<forall>w \<in> set ws. int (length w) \<le> fl_max_parallel f) \<and>
    (fp_warnings p = [] \<longleftrightarrow> acyclic (fleet_edges f op)) \<and>
    (acyclic (fleet_edges f op) \<longleftrightarrow> set (concat ws) = fleet_members f)"
  using plan_fleet_waves [OF assms] by metis

theorem fleet_waves_schedule_witness:
  "\<exists>p ws. plan_fleet_operation ''u'' ''t'' sample_fleet ''startup'' = Some (Inr p) \<and>
     distinct (concat ws) \<and> (\<forall>w \<in> set ws. int (length w) \<le> 2) \<and>
     ordered_waves (fleet_edges sample_fleet ''startup'') {} ws"
proof -
  have "fl_max_parallel sample_fleet = 2" by (simp add: sample_fleet_def)
  moreover have "''startup'' \<in> operation_types" by (simp add: operation_types_def)
  ultimately show ?thesis using fleet_waves_schedule [OF sample_fleet_valid] by metis
qed

text \<open>The health of a fleet. Assessing a valid fleet always returns, covers every member (those without a
  status as unknown), and says healthy exactly when there is some status and all are healthy or quiesced.\<close>

theorem fleet_health_exact:
  assumes "valid_fleet f"
  shows "\<exists>a. fleet_assess uids now_iso f sts families factors = Inr a \<and>
    (fa_status a = Fl_Healthy \<longleftrightarrow> environment_statuses f sts \<noteq> [] \<and>
      (\<forall>s \<in> set (environment_statuses f sts). es_status s \<in> {Fl_Healthy, Fl_Quiesced})) \<and>
    set (fa_environments a) = set (environment_statuses f sts) \<and>
    fleet_members f \<subseteq> es_environment_id ` set (fa_environments a)"
  using fleet_assess_healthy [OF assms] by blast

theorem fleet_health_exact_witness:
  "\<exists>a. fleet_assess (\<lambda>n. ''u'') ''t'' sample_fleet [] [] [] = Inr a \<and> fa_status a \<noteq> Fl_Healthy"
proof -
  have "unknown_status ''db'' \<in> set (environment_statuses sample_fleet [])"
    by (simp add: environment_statuses_def by_environment_def dict_of_def sample_fleet_def sample_member_def)
  moreover have "es_status (unknown_status ''db'') = Fl_Unknown" by (simp add: unknown_status_def)
  ultimately have "\<not> (\<forall>s \<in> set (environment_statuses sample_fleet []). es_status s \<in> {Fl_Healthy, Fl_Quiesced})"
    by (metis empty_iff fleet_status.distinct insert_iff)
  then show ?thesis using fleet_health_exact [OF sample_fleet_valid, of "\<lambda>n. ''u''" "''t''" "[]" "[]" "[]"] by blast
qed

text \<open>C24. Simulations return. When every transition rule fires at most once or has a positive delay, a
  simulation returns, whatever its mutations do.\<close>

theorem simulation_returns:
  assumes "list_all (\<lambda>r. rule_fire_once r \<or> 0 < rule_delay_seconds r) (sc_transition_rules sc)"
  shows "\<exists>r. run_simulation mv uid started completed sc seed = Some r"
  by (rule run_simulation_returns [OF assms])

theorem simulation_returns_witness:
  "\<exists>r. run_simulation sample_mv ''u'' ''t0'' ''t1'' (sample_scenario [sample_alert]) 0 = Some r"
  by (rule simulation_returns) (simp add: sample_scenario_def sample_alert_def sample_rule_def)

text \<open>C25. A run is a replay. In a run of a valid scenario the events that are mutations are numbered without
  gaps, in the order of their times, none after the end of the simulation; the snapshots are the initial one
  and one for each such event; the true state of each is that of the one before it with the mutation of
  its event applied. At most one further event follows, exactly when the run failed. Under a profile
  that hides, delays and overrides nothing, what is observed is the true state.\<close>

theorem simulation_replays:
  assumes "valid_scenario sc" "run_simulation mv uid started completed sc seed = Some r"
  shows "\<exists>evs failure. sr_timeline r = evs @ failure \<and> length failure \<le> 1 \<and>
    (sr_status r = Run_Failed \<longleftrightarrow> failure \<noteq> []) \<and>
    replayed mv evs (map ws_truth_state (sr_snapshots r)) \<and>
    map te_sequence evs = [0 ..< length evs] \<and> sorted (0 # map te_at_seconds evs) \<and>
    (\<forall>e \<in> set evs. te_at_seconds e \<le> sc_max_time_seconds sc) \<and>
    map ws_at_seconds (sr_snapshots r) = 0 # map te_at_seconds evs \<and>
    map ws_trigger_event_sequence (sr_snapshots r) = None # map (Some \<circ> te_sequence) evs \<and>
    (transparent (sc_profile sc) \<longrightarrow>
      map ws_observed_state (sr_snapshots r) = map ws_truth_state (sr_snapshots r))"
proof -
  obtain s failure where inv: "sim_inv mv sc s" and r: "sr_snapshots r = sim_snapshots s"
      "sr_status r = (if failure = None then Run_Completed else Run_Failed)"
      "sr_timeline r = sim_timeline s @ (case failure of None \<Rightarrow> [] | Some ev \<Rightarrow> [ev])"
    by (rule run_simulation_inv [OF assms]) blast
  have tail: "length (case failure of None \<Rightarrow> [] | Some ev \<Rightarrow> [ev]) \<le> 1"
    "sr_status r = Run_Failed \<longleftrightarrow> (case failure of None \<Rightarrow> [] | Some ev \<Rightarrow> [ev]) \<noteq> []"
    using r(2) by (auto split: option.splits)
  show ?thesis
    by (rule exI [of _ "sim_timeline s"], rule exI, intro conjI, rule r(3), rule tail(1), rule tail(2))
      (use sim_inv_record [OF inv] r(1) in simp_all)
qed

theorem simulation_replays_witness:
  "\<exists>r. run_simulation sample_mv ''u'' ''t0'' ''t1'' (sample_scenario [sample_alert]) 0 = Some r \<and>
     map ws_observed_state (sr_snapshots r) = map ws_truth_state (sr_snapshots r)"
proof -
  obtain r where r: "run_simulation sample_mv ''u'' ''t0'' ''t1'' (sample_scenario [sample_alert]) 0 = Some r"
    using sample_scenario_run by (cases "run_simulation sample_mv ''u'' ''t0'' ''t1'' (sample_scenario [sample_alert]) 0") auto
  have "transparent (sc_profile (sample_scenario [sample_alert]))"
    by (simp add: transparent_def sample_scenario_def sample_profile_def)
  with simulation_replays [OF sample_scenario_valid r] r show ?thesis by blast
qed

text \<open>C26. Lifecycle stages wait. When the stages of a valid profile are listed after those they depend on, then in
  the plan compiled from it every action of a stage depends, through other actions, on every action of each
  stage its own stage depends on, even across stages for which no action was needed.\<close>

theorem lifecycle_stages_wait:
  assumes "validate_graph p = Inr p" "ordered_stages {} (lp_stages p)"
    and "lifecycle_plan hash now_iso cat p snap required mode policy_id = Inr plan"
    and "(t, s) \<in> (dep_rel (stage_deps (lp_stages p)))\<^sup>+"
    and "a \<in> set (plan_actions plan)" "act_stage_id a = Some t"
    and "b \<in> set (plan_actions plan)" "act_stage_id b = Some s"
  shows "(act_id a, act_id b) \<in> (dep_rel (action_deps (plan_actions plan)))\<^sup>+"
  by (rule lifecycle_waits [OF assms])

theorem lifecycle_stages_wait_witness:
  "\<exists>plan. lifecycle_plan ''hash'' ''now'' sample_wait_catalog (sample_lifecycle sample_stages) sample_snapshot None
       Dry_Run None = Inr plan \<and>
     (''action:a:w:0:hash'', ''action:b:w:0:hash'') \<in> (dep_rel (action_deps (plan_actions plan)))\<^sup>+"
proof -
  let ?p = "sample_lifecycle sample_stages"
  obtain plan where plan: "lifecycle_plan ''hash'' ''now'' sample_wait_catalog ?p sample_snapshot None Dry_Run None = Inr plan"
    and acts: "map (\<lambda>a. (act_id a, act_stage_id a, act_depends_on a, act_parameters a)) (plan_actions plan) =
      [(''action:a:w:0:hash'', Some ''a'', [], [(''for'', JStr ''env'')]),
       (''action:b:w:0:hash'', Some ''b'', [''action:a:w:0:hash''], [(''for'', JStr ''env'')])]"
    using sample_lifecycle_plan
    by (cases "lifecycle_plan ''hash'' ''now'' sample_wait_catalog ?p sample_snapshot None Dry_Run None") auto
  from acts obtain a b where "plan_actions plan = [a, b]" "act_id a = ''action:a:w:0:hash''" "act_stage_id a = Some ''a''"
      "act_id b = ''action:b:w:0:hash''" "act_stage_id b = Some ''b''"
    by (auto simp: map_eq_Cons_conv)
  moreover have "ordered_stages {} (lp_stages ?p)" "(''a'', ''b'') \<in> (dep_rel (stage_deps (lp_stages ?p)))\<^sup>+"
    by (auto simp: sample_lifecycle_def sample_stages_def sample_stage_def dep_rel_def stage_deps_def)
  ultimately show ?thesis
    using lifecycle_stages_wait [OF sample_lifecycle_valid _ plan, of "''a''" "''b''" a b] plan by auto
qed

text \<open>C27. When a schedule may start. If all windows are valid and last at most a day, an evaluation that returns
  says ready exactly when the schedule is not terminal, the present lies between its earliest start and its
  deadline, and the window it names exists, admits it, and has an occurrence that contains the local time.\<close>

theorem schedule_ready_exactly:
  assumes "schedule_evaluate H tz s windows now = Inr d"
    and "\<forall>w \<in> set windows. valid_window tz w \<and> mw_duration_minutes w \<le> 1440"
  shows "sd_outcome d = Out_Ready \<longleftrightarrow>
    so_status s \<notin> {Sched_Materialized, Sched_Expired, Sched_Cancelled} \<and>
    (\<forall>t. parse_opt (so_deadline_iso s) = Inr (Some t) \<longrightarrow> now \<le> t) \<and>
    (\<forall>t. parse_opt (so_not_before_iso s) = Inr (Some t) \<longrightarrow> t \<le> now) \<and>
    (\<forall>wid. so_window_id s = Some wid \<longrightarrow>
      (\<exists>w start. find (\<lambda>w. mw_id w = wid) windows = Some w \<and> window_admits s w \<and>
        read_time (mw_start_local_time w) = Some start \<and> open_at w start (tz_local tz (mw_timezone w) now)))"
  by (rule schedule_ready_open [OF assms])

theorem schedule_ready_exactly_witness:
  "\<exists>d. schedule_evaluate (\<lambda>_ _ _ _ _ _. ''h'') utc_only sample_schedule [sample_window] (739848 * us_per_day) = Inr d \<and>
     sd_outcome d = Out_Ready"
proof -
  obtain d where d: "schedule_evaluate (\<lambda>_ _ _ _ _ _. ''h'') utc_only sample_schedule [sample_window]
      (739848 * us_per_day) = Inr d" using sample_schedule_evaluates by blast
  have "so_window_id sample_schedule = Some ''w''" "so_status sample_schedule = Sched_Pending"
    "parse_opt (so_deadline_iso sample_schedule) = Inr None" "parse_opt (so_not_before_iso sample_schedule) = Inr None"
    by (simp_all add: sample_schedule_def parse_opt_def)
  then show ?thesis
    using schedule_ready_exactly [OF d] sample_window_valid sample_window_open d by (intro exI [of _ d]) auto
qed





text \<open>C30. The status of an environment. When the evaluated invariants have distinct identifiers, the assessed status
  is unhealthy exactly when a required invariant is; healthy exactly when every evaluation is healthy, unless
  nothing is required and some template matched no entity; degraded exactly when all required ones are healthy
  and another is not.\<close>

theorem health_status_exact:
  assumes "health_assess fl pf fresh now_iso p snap given = Inr a" "compile_profile fl pf now_iso p snap = Inr c"
    and "distinct (map ev_invariant_id (pa_evaluations a))"
  shows "(pa_status a = UNHEALTHY \<longleftrightarrow>
      (\<exists>e \<in> set (pa_evaluations a). ev_invariant_id e \<in> set (pa_required_ids a) \<and> ev_status e = UNHEALTHY)) \<and>
    (pa_status a = HEALTHY \<longleftrightarrow> (\<forall>e \<in> set (pa_evaluations a). ev_status e = HEALTHY) \<and>
      \<not> (pa_required_ids a = [] \<and> cp_unmatched_templates c \<noteq> [])) \<and>
    (pa_status a = DEGRADED \<longleftrightarrow>
      (\<forall>e \<in> set (pa_evaluations a). ev_invariant_id e \<in> set (pa_required_ids a) \<longrightarrow> ev_status e = HEALTHY) \<and>
      \<not> (pa_required_ids a = [] \<and> cp_unmatched_templates c \<noteq> []) \<and>
      (\<exists>e \<in> set (pa_evaluations a). ev_status e \<noteq> HEALTHY))"
  unfolding health_status [OF assms] by (intro conjI) (force, auto)

theorem health_status_exact_witness:
  "\<exists>a. sample_assessment [sample_node ''a'' True, sample_node ''b'' False] = Inr a \<and> pa_status a = UNHEALTHY \<and>
     (\<exists>e \<in> set (pa_evaluations a). ev_invariant_id e \<in> set (pa_required_ids a) \<and> ev_status e = UNHEALTHY)"
proof -
  obtain a where a: "sample_assessment [sample_node ''a'' True, sample_node ''b'' False] = Inr a"
    and st: "pa_status a = UNHEALTHY"
    and ids: "map (\<lambda>e. (ev_invariant_id e, ev_status e)) (pa_evaluations a) =
      [(''ready:a'', HEALTHY), (''ready:b'', UNHEALTHY)]"
    using sample_assessed unfolding map_sum_Inr by auto
  from ids have "map fst (map (\<lambda>e. (ev_invariant_id e, ev_status e)) (pa_evaluations a)) = [''ready:a'', ''ready:b'']"
    by simp
  then have d: "distinct (map ev_invariant_id (pa_evaluations a))" by (simp add: o_def)
  from a obtain c where c: "compile_profile (\<lambda>_. ''0'') (\<lambda>_. None) ''now'' sample_health_profile
      (sample_health_snapshot [sample_node ''a'' True, sample_node ''b'' False]) = Inr c"
    by (auto simp: sample_assessment_def health_assess_def res_bind_eq_Inr_iff)
  show ?thesis
    using health_status_exact [OF a [unfolded sample_assessment_def] c d] a st by blast
qed

text \<open>What a difference of snapshots reports. For snapshots without duplicate entities, an entity is reported
  as added exactly when only the later snapshot has it, removed exactly when only the earlier has, changed
  exactly when both have it with different content hashes; and equal contents are never reported.\<close>

theorem snapshot_diff_exact:
  assumes "diff_snapshots He Hr fresh now_iso old new = Inr d"
    and "distinct (map ent_id (snap_entities old))" "distinct (map ent_id (snap_entities new))"
  shows "(\<exists>c \<in> set (df_entity_changes d). ec_entity_id c = i \<and> ec_type c = t) \<longleftrightarrow>
    (case t of
       Added \<Rightarrow> i \<in> ent_id ` set (snap_entities new) - ent_id ` set (snap_entities old)
     | Removed \<Rightarrow> i \<in> ent_id ` set (snap_entities old) - ent_id ` set (snap_entities new)
     | Changed \<Rightarrow> \<exists>b \<in> set (snap_entities old). \<exists>a \<in> set (snap_entities new).
         ent_id b = i \<and> ent_id a = i \<and> He b \<noteq> He a)"
  by (rule diff_entity_changes [OF assms])

theorem snapshot_diff_exact_witness:
  "\<exists>d. diff_snapshots (\<lambda>e. if ent_observed_state e = [(''ready'', JBool True)] then ''1'' else ''0'') (\<lambda>_. ''0'') ''u'' ''now''
      (sample_health_snapshot [sample_node ''a'' True]) (sample_health_snapshot [sample_node ''a'' False]) = Inr d \<and>
     (\<exists>c \<in> set (df_entity_changes d). ec_entity_id c = ''a'' \<and> ec_type c = Changed)"
proof -
  let ?H = "\<lambda>e. if ent_observed_state e = [(''ready'', JBool True)] then ''1'' else ''0''"
  obtain d where d: "diff_snapshots ?H (\<lambda>_. ''0'') ''u'' ''now''
      (sample_health_snapshot [sample_node ''a'' True]) (sample_health_snapshot [sample_node ''a'' False]) = Inr d"
    by (simp add: diff_snapshots_def sample_health_snapshot_def sample_snapshot_def Let_def)
  from snapshot_diff_exact [OF d, of "''a''" Changed] d show ?thesis
    by (auto simp: sample_health_snapshot_def sample_node_def sample_entity_def)
qed

section \<open>Diagnosis and topology\<close>

text \<open>C31. Investigations open. With a closed catalogue, as the built-in one is, and no negative budget, opening an
  investigation fails only when the topology cannot be compiled or the snapshot cannot be assessed; the incident
  it returns passes its validator, and each causal edge joins two of its symptoms, facts and hypotheses.\<close>

theorem investigations_open:
  assumes "closed_catalog (iv_catalog V)" and "case budget of None \<Rightarrow> True | Some b \<Rightarrow> 0 \<le> b"
    and "topology_or_compiled V given snap = Inr topo" and "assess_with V p snap history = Inr ac"
  shows "\<exists>i. open_incident V snap p given history title symptom_text budget = Inr i \<and> validate_incident i = Inr i \<and>
     (\<forall>e \<in> set (ic_causal_edges i). {ce_source_id e, ce_target_id e} \<subseteq>
        sy_id ` set (ic_symptoms i) \<union> evf_id ` set (ic_evidence i) \<union> hy_id ` set (ic_hypotheses i))"
  using investigation_opens [OF assms] by (simp add: incident_closed_def)

theorem investigations_open_witness:
  "\<exists>i. open_incident sample_investigation sample_failing sample_health_profile (Some sample_topology) [] None None (Some 5) =
     Inr i \<and> validate_incident i = Inr i"
proof -
  obtain ac where ac: "assess_with sample_investigation sample_health_profile sample_failing [] = Inr ac"
    using sample_failing_assessed by blast
  have "topology_or_compiled sample_investigation (Some sample_topology) sample_failing = Inr sample_topology"
    by (simp add: topology_or_compiled_def)
  from investigations_open [OF sample_catalog_closed _ this ac, of "Some 5" None None] show ?thesis by auto
qed





text \<open>C34. Collection plans account for every question: each required fact of each intent is already known, is
  expected of a planned step for that intent, or the intent is reported unresolved; every step uses a registered
  collector that the context supports and that bears on its intent; no collector is planned twice for the same
  question.\<close>

theorem plans_account:
  assumes "plan = plan_evidence fresh plan_fresh now c intents cx incident existing"
  shows "(\<forall>i \<in> set intents. in_id i \<in> set (pl_unresolved_intent_ids plan) \<or>
       (\<forall>t \<in> set (in_required_fact_types i). (\<exists>x \<in> existing. fact_type_matches t x) \<or>
          (\<exists>s \<in> set (pl_steps plan). st_intent_id s = in_id i \<and>
             (\<exists>x \<in> set (st_expected_fact_types s). fact_type_matches t x)))) \<and>
     (\<forall>s \<in> set (pl_steps plan). \<exists>i \<in> set intents. \<exists>d \<in> set (catalog_collectors c).
        usable_in cx d \<and> relevant i d \<and> st_intent_id s = in_id i \<and> st_collector_id s = cl_id d) \<and>
     distinct (map (\<lambda>s. (st_collector_id s, st_intent_id s, sort (st_subject_ids s))) (pl_steps plan))"
proof -
  have "step_key = (\<lambda>s. (st_collector_id s, st_intent_id s, sort (st_subject_ids s)))"
    by (simp add: fun_eq_iff step_key_def)
  with collection_plan_accounts [OF assms] show ?thesis
    unfolding accounted_def expects_def justified_def fitting_def by simp blast
qed

theorem plans_account_witness:
  "let plan = plan_evidence nat_str ''p'' ''now'' builtin_catalog builtin_intents
     (investigation_context sample_failing sample_topology undefined) None {} in
   \<forall>i \<in> set builtin_intents. in_id i \<in> set (pl_unresolved_intent_ids plan) \<or>
     (\<forall>t \<in> set (in_required_fact_types i). \<exists>s \<in> set (pl_steps plan). st_intent_id s = in_id i)"
  unfolding Let_def using plans_account [OF refl, of builtin_intents nat_str "''p''" "''now''" builtin_catalog
    "investigation_context sample_failing sample_topology undefined" None "{}"] by blast

text \<open>C35. Probe plans are sound. A probe plan respects its budget and is ranked by gain; it is empty exactly when it
  says why. Each probe belongs to a registered intent and separates unresolved specific hypotheses of the incident
  that require it, and each of its collectors can provide a kind of fact that the evidence lacks.\<close>

theorem probes_planned_soundly:
  assumes "plan_probes fresh plan_fresh now c incident hs evidence budget = Inr plan"
  shows "(\<forall>p \<in> set (pp_probes plan). sound_probe c hs (set (map evf_type evidence)) p) \<and>
     sorted_wrt (\<lambda>p q. pr_information_gain_score q \<le> pr_information_gain_score p) (pp_probes plan) \<and>
     (case budget of None \<Rightarrow> True | Some b \<Rightarrow> int (length (pp_probes plan)) \<le> b) \<and>
     (pp_probes plan = [] \<longleftrightarrow> pp_stopping_reason plan \<noteq> None)"
  by (rule probe_plan_sound [OF assms])

theorem probes_planned_soundly_witness:
  "\<exists>plan. plan_probes nat_str ''p'' ''now'' builtin_catalog ''inc'' [sample_open_hypothesis] [] (Some 2) = Inr plan \<and>
     length (pp_probes plan) \<le> 2"
proof -
  have "\<exists>plan. plan_probes nat_str ''p'' ''now'' builtin_catalog ''inc'' [sample_open_hypothesis] [] (Some 2) = Inr plan"
    by (rule plan_probes_ready) (simp_all add: sample_open_ready)
  then obtain plan where
    p: "plan_probes nat_str ''p'' ''now'' builtin_catalog ''inc'' [sample_open_hypothesis] [] (Some 2) = Inr plan" by blast
  from probes_planned_soundly [OF p] p show ?thesis by auto
qed

text \<open>C36. Topology graphs are well formed. A compiled graph holds exactly the entities it was given, and relationships
  sorted by distinct identifiers; each of these is one that was given, or joins two entities of the graph, whatever packs resolve.\<close>

theorem topology_well_formed:
  assumes "compile_graph fl packs fresh now env snap es base = Inr g"
    and "packs = None \<or> (\<exists>R. packs = resolver_of fl R)"
  shows "set (tg_entities g) = set es \<and> sorted (map ent_id (tg_entities g)) \<and>
     sorted (map rel_id (tg_relationships g)) \<and> distinct (map rel_id (tg_relationships g)) \<and>
     (\<forall>r \<in> set (tg_relationships g). r \<in> set base \<or>
        {rel_source r, rel_target r} \<subseteq> ent_id ` set (tg_entities g))"
proof (rule graph_closed [OF assms(1)])
  fix resolve n rs assume "packs = Some (resolve, n)" and rs: "resolve es = Inr rs"
  with assms(2) obtain R where "resolve = resolve_relationships fl R" by (auto simp: resolver_of_def)
  with rs resolved_relationships_join show "\<forall>r \<in> set rs. ends_in es r" by blast
qed

theorem topology_well_formed_witness:
  "\<exists>g. compile_graph (\<lambda>r. ''0'') (resolver_of (\<lambda>r. ''0'') sample_pack_runtime) ''u'' ''now'' ''env'' ''s''
      [sample_service, sample_pod ''p'' ''web'', sample_dependent] [] = Inr g \<and>
     map rel_id (tg_relationships g) = [''pack:needs:q->p'', ''selects:svc->p''] \<and>
     (\<forall>r \<in> set (tg_relationships g). {rel_source r, rel_target r} \<subseteq> ent_id ` set (tg_entities g))"
proof -
  obtain g where g: "compile_graph (\<lambda>r. ''0'') (resolver_of (\<lambda>r. ''0'') sample_pack_runtime) ''u'' ''now'' ''env'' ''s''
      [sample_service, sample_pod ''p'' ''web'', sample_dependent] [] = Inr g"
    and ids: "map rel_id (tg_relationships g) = [''pack:needs:q->p'', ''selects:svc->p'']"
    using sample_graph_compiled unfolding map_sum_Inr by auto
  have ends: "\<forall>r \<in> set (tg_relationships g). {rel_source r, rel_target r} \<subseteq> ent_id ` set (tg_entities g)"
  proof -
    have "\<exists>R. resolver_of (\<lambda>r. ''0'') sample_pack_runtime = resolver_of (\<lambda>r. ''0'') R" by blast
    from topology_well_formed [OF g disjI2 [OF this]] show ?thesis
      by (elim conjE) (simp only: list.set(1) empty_iff simp_thms)
  qed
  show ?thesis by (intro exI [of _ g] conjI g ids ends)
qed

section \<open>Knowledge packs\<close>



text \<open>C38. Trusted packs are authentic. When a pack is trusted, either it has no signature and the policy lets it pass
  without one, or its signature is for the current content of the manifest, by a scheme, key and signer that the policy
  allows, and the check against the known secret or public key succeeds.\<close>

theorem trusted_packs_authentic:
  assumes "verify_pack V m given p secrets keys = Inr v" and "pvf_outcome v = Trusted"
  shows "case given of
      None \<Rightarrow> pkm_id m \<in> ptp_allow_unsigned p \<or> \<not> ptp_require_signature p
    | Some g \<Rightarrow> psg_manifest_hash g = pcr_hash V m \<and> scheme_value (psg_scheme g) \<in> ptp_allowed_schemes p \<and>
        (ptp_require_asymmetric p \<longrightarrow> psg_scheme g = Ed25519) \<and>
        (ptp_trusted_key_ids p \<noteq> {} \<longrightarrow> psg_key_id g \<in> ptp_trusted_key_ids p) \<and>
        (ptp_trusted_signers p \<noteq> {} \<longrightarrow> psg_signer g \<in> ptp_trusted_signers p) \<and>
        authentic V secrets keys (pcr_hash V m) g"
  by (rule trusted_only_if [OF assms])

theorem trusted_packs_authentic_witness:
  "\<exists>g v. verify_pack sample_pack_env base_pack (Some g) sample_trust_policy [(''k'', ''s'')] [] = Inr v \<and>
     pvf_outcome v = Trusted \<and> authentic sample_pack_env [(''k'', ''s'')] [] (pcr_hash sample_pack_env base_pack) g"
proof -
  obtain g v where v: "verify_pack sample_pack_env base_pack (Some g) sample_trust_policy [(''k'', ''s'')] [] = Inr v"
    "pvf_outcome v = Trusted" using sample_signed by blast
  from trusted_packs_authentic [OF v] v show ?thesis by auto
qed

text \<open>C39. Packs extend the catalogue. Whatever packs a resolution makes active, the diagnostic catalogue can be built
  with their contributions when none of these uses the identifier of a built-in entry: active packs never collide with
  each other. It holds the built-in entries followed by those of the packs.\<close>

theorem packs_extend_catalogue:
  assumes "pack_runtime_of V M given trust = Inr R"
    and "\<forall>m \<in> set (prt_manifests R). set (ids_in ''evidence_intent'' m) \<inter> in_id ` set builtin_intents = {} \<and>
      set (ids_in ''collector'' m) \<inter> cl_id ` set builtin_collectors = {} \<and>
      set (ids_in ''causal_template'' m) \<inter> ct_id ` set builtin_templates = {}"
  shows "\<exists>c. build_builtin_catalog (Some (entries_of R)) = Inr c \<and>
     map snd (reg_items (dx_intents c)) = builtin_intents @ pack_intents R \<and>
     map snd (reg_items (dx_collectors c)) = builtin_collectors @ pack_collectors R \<and>
     map snd (reg_items (dx_templates c)) = builtin_templates @ pack_templates R"
  by (rule packs_extend_catalog [OF assms])

theorem packs_extend_catalogue_witness:
  "\<exists>R c. pack_runtime_of sample_pack_env sample_manager (Some [''a'']) None = Inr R \<and>
     build_builtin_catalog (Some (entries_of R)) = Inr c"
proof -
  obtain R where R: "pack_runtime_of sample_pack_env sample_manager (Some [''a'']) None = Inr R"
    and ids: "map (\<lambda>m. (ids_in ''evidence_intent'' m, ids_in ''collector'' m, ids_in ''causal_template'' m)) (prt_manifests R) =
      [([], [], []), ([''x''], [], [])]"
    using sample_packs_resolved unfolding map_sum_Inr by auto
  then obtain m n where ms: "prt_manifests R = [m, n]" "ids_in ''evidence_intent'' m = []" "ids_in ''collector'' m = []"
    "ids_in ''causal_template'' m = []" "ids_in ''evidence_intent'' n = [''x'']" "ids_in ''collector'' n = []"
    "ids_in ''causal_template'' n = []" by (auto simp: map_eq_Cons_conv)
  have "''x'' \<notin> in_id ` set builtin_intents" by code_simp
  with ms have "\<forall>m \<in> set (prt_manifests R). set (ids_in ''evidence_intent'' m) \<inter> in_id ` set builtin_intents = {} \<and>
      set (ids_in ''collector'' m) \<inter> cl_id ` set builtin_collectors = {} \<and>
      set (ids_in ''causal_template'' m) \<inter> ct_id ` set builtin_templates = {}" by simp
  from packs_extend_catalogue [OF R this] R show ?thesis by blast
qed


end
